(* ===== verification/Prelude.thy ===== *)
theory Prelude
  imports Main "HOL-Library.AList" "HOL-Library.Char_ord" "HOL-Library.List_Lexorder"
begin

text \<open>
  Shared vocabulary of the development: Python exceptions as values, the result type that
  carries them, dictionaries as association lists in insertion order, the row operations
  of SQL tables (\<open>UPDATE .. WHERE\<close>, \<open>DELETE .. WHERE\<close>, \<open>ORDER BY\<close>) and the collections of
  rewrite rules the component theories add to.
\<close>

named_theorems result_simps "unfolding of results, guards and comprehensions that may raise"
named_theorems row_simps "row operations on tables"

section \<open>Exceptions and results\<close>

text \<open>
  The exceptions the modelled code raises or catches. The last four are the classes of
  \<open>sim/api/errors.py\<close>; their status, code and message are computed below.
\<close>

datatype py_exc =
    ValueError string
  | TypeError string
  | KeyError string
  | RuntimeError string
  | NotImplementedError string
  | OtherError string string
  | InvalidRequestError string
  | RunNotFoundError string
  | RunExecutionError string
  | ReplayDataValidationError string string

type_synonym 'a result = "py_exc + 'a"

definition bind_r :: "'a result \<Rightarrow> ('a \<Rightarrow> 'b result) \<Rightarrow> 'b result" where
  "bind_r m k = (case m of Inl e \<Rightarrow> Inl e | Inr x \<Rightarrow> k x)"

lemma bind_r_simps [simp, result_simps]:
  "bind_r (Inl e) k = Inl e"
  "bind_r (Inr x) k = k x"
  by (simp_all add: bind_r_def)

lemma bind_r_Inr_iff [result_simps]:
  "bind_r m k = Inr y \<longleftrightarrow> (\<exists>x. m = Inr x \<and> k x = Inr y)"
  by (cases m) auto

text \<open>A list comprehension whose body may raise: left to right, the first exception wins.\<close>

fun map_r :: "('a \<Rightarrow> 'b result) \<Rightarrow> 'a list \<Rightarrow> 'b list result" where
  "map_r f [] = Inr []"
| "map_r f (x # xs) = bind_r (f x) (\<lambda>y. bind_r (map_r f xs) (\<lambda>ys. Inr (y # ys)))"

lemma map_r_Inr: "(\<And>x. x \<in> set xs \<Longrightarrow> f x = Inr (g x)) \<Longrightarrow> map_r f xs = Inr (map g xs)"
  by (induction xs) auto

lemma map_r_length: "map_r f xs = Inr ys \<Longrightarrow> length ys = length xs"
  by (induction xs arbitrary: ys) (auto simp: bind_r_Inr_iff)

lemma map_r_nth: "map_r f xs = Inr ys \<Longrightarrow> i < length xs \<Longrightarrow> f (xs ! i) = Inr (ys ! i)"
proof (induction xs arbitrary: ys i)
  case (Cons x xs)
  then show ?case by (cases i) (auto simp: bind_r_Inr_iff)
qed simp

lemma map_r_members: "map_r f xs = Inr ys \<Longrightarrow> y \<in> set ys \<Longrightarrow> \<exists>x \<in> set xs. f x = Inr y"
  by (induction xs arbitrary: ys) (auto simp: bind_r_Inr_iff)

lemma map_r_map:
  "map_r f xs = Inr ys \<Longrightarrow> (\<And>x y. f x = Inr y \<Longrightarrow> g y = x) \<Longrightarrow> map g ys = xs"
  by (induction xs arbitrary: ys) (auto simp: bind_r_Inr_iff)

lemma map_r_total:
  "(\<And>x. x \<in> set xs \<Longrightarrow> \<exists>y. f x = Inr y) \<Longrightarrow> \<exists>ys. map_r f xs = Inr ys \<and> length ys = length xs"
proof (induction xs)
  case (Cons x xs)
  then obtain y ys where "f x = Inr y" "map_r f xs = Inr ys" "length ys = length xs" by force
  then show ?case by simp
qed simp

lemma distinct_map_sort_key: "distinct (map f (sort_key g xs)) \<longleftrightarrow> distinct (map f xs)"
  by (simp add: distinct_map)

lemma map_r_append:
  "map_r f (xs @ ys) = bind_r (map_r f xs) (\<lambda>us. bind_r (map_r f ys) (\<lambda>vs. Inr (us @ vs)))"
proof (induction xs)
  case Nil
  show ?case by (cases "map_r f ys") auto
next
  case (Cons x xs)
  then show ?case
    by (cases "f x"; cases "map_r f xs"; cases "map_r f ys") auto
qed

section \<open>API errors\<close>

text \<open>Class \<open>ApiError\<close> and its subclasses: the triple (status code, code, message).\<close>

(* sim/api/errors.py:11-46 ApiError *)
fun api_error :: "py_exc \<Rightarrow> (nat \<times> string \<times> string) option" where
  "api_error (InvalidRequestError m) = Some (400, ''invalid_request'', m)"
| "api_error (RunNotFoundError r) = Some (404, ''run_not_found'', ''run not found: '' @ r)"
| "api_error (RunExecutionError m) = Some (500, ''run_failed'', m)"
| "api_error (ReplayDataValidationError r m) =
     Some (422, ''replay_validation_error'', ''malformed replay data for run '' @ r @ '': '' @ m)"
| "api_error _ = None"

text \<open>\<open>repr\<close> of a string.\<close>

definition hex_digit :: "nat \<Rightarrow> char" where
  "hex_digit n = (if n < 10 then char_of (48 + n) else char_of (87 + n))"

definition char_repr :: "char \<Rightarrow> char \<Rightarrow> string" where
  "char_repr quote c =
     (let n = of_char c :: nat in
      if c = quote \<or> c = CHR 0x5C then [CHR 0x5C, c]
      else if n = 10 then [CHR 0x5C, CHR ''n'']
      else if n = 13 then [CHR 0x5C, CHR ''r'']
      else if n = 9 then [CHR 0x5C, CHR ''t'']
      else if n < 32 \<or> (127 \<le> n \<and> n \<le> 160) \<or> n = 173 then
        [CHR 0x5C, CHR ''x'', hex_digit (n div 16), hex_digit (n mod 16)]
      else [c])"

definition string_repr :: "string \<Rightarrow> string" where
  "string_repr s =
     (let quote = (if CHR 0x27 \<in> set s \<and> CHR 0x22 \<notin> set s then CHR 0x22 else CHR 0x27)
      in [quote] @ concat (map (char_repr quote) s) @ [quote])"

text \<open>\<open>str(exc)\<close>, which quotes the key of a \<open>KeyError\<close>, and \<open>exc.__class__.__name__\<close>.\<close>

fun exc_str :: "py_exc \<Rightarrow> string" where
  "exc_str (ValueError m) = m"
| "exc_str (TypeError m) = m"
| "exc_str (KeyError m) = string_repr m"
| "exc_str (RuntimeError m) = m"
| "exc_str (NotImplementedError m) = m"
| "exc_str (OtherError _ m) = m"
| "exc_str (InvalidRequestError m) = m"
| "exc_str (RunNotFoundError r) = ''run not found: '' @ r"
| "exc_str (RunExecutionError m) = m"
| "exc_str (ReplayDataValidationError r m) = ''malformed replay data for run '' @ r @ '': '' @ m"

fun exc_class :: "py_exc \<Rightarrow> string" where
  "exc_class (ValueError _) = ''ValueError''"
| "exc_class (TypeError _) = ''TypeError''"
| "exc_class (KeyError _) = ''KeyError''"
| "exc_class (RuntimeError _) = ''RuntimeError''"
| "exc_class (NotImplementedError _) = ''NotImplementedError''"
| "exc_class (OtherError c _) = c"
| "exc_class (InvalidRequestError _) = ''InvalidRequestError''"
| "exc_class (RunNotFoundError _) = ''RunNotFoundError''"
| "exc_class (RunExecutionError _) = ''RunExecutionError''"
| "exc_class (ReplayDataValidationError _ _) = ''ReplayDataValidationError''"

text \<open>\<open>str(exc) or exc.__class__.__name__\<close>, the message every boundary records.\<close>

definition exc_message :: "py_exc \<Rightarrow> string" where
  "exc_message e = (if exc_str e = [] then exc_class e else exc_str e)"

section \<open>Python helpers on options and lists\<close>

text \<open>\<open>a or b\<close> where \<open>None\<close> is the only falsy value that can occur.\<close>

definition or_else :: "'a option \<Rightarrow> 'a option \<Rightarrow> 'a option" where
  "or_else a b = (case a of None \<Rightarrow> b | Some _ \<Rightarrow> a)"

lemma or_else_simps [simp]:
  "or_else None b = b"
  "or_else (Some x) b = Some x"
  by (simp_all add: or_else_def)

text \<open>SQL \<open>COALESCE(a, b)\<close>.\<close>

abbreviation coalesce :: "'a option \<Rightarrow> 'a option \<Rightarrow> 'a option" where
  "coalesce \<equiv> or_else"

text \<open>\<open>enumerate(xs)\<close>.\<close>

definition enum_list :: "'a list \<Rightarrow> (nat \<times> 'a) list" where
  "enum_list xs = zip [0..<length xs] xs"

lemma enum_list_Nil [simp]: "enum_list [] = []"
  by (simp add: enum_list_def)

lemma map_snd_enum_list [simp]: "map snd (enum_list xs) = xs"
  by (simp add: enum_list_def)

lemma map_fst_enum_list [simp]: "map fst (enum_list xs) = [0..<length xs]"
  by (simp add: enum_list_def)

lemma length_enum_list [simp]: "length (enum_list xs) = length xs"
  by (simp add: enum_list_def)

lemma enum_list_snoc: "enum_list (xs @ [x]) = enum_list xs @ [(length xs, x)]"
  by (simp add: enum_list_def)

text \<open>\<open>_page\<close>-style slicing: \<open>items[start:]\<close> or \<open>items[start : start + n]\<close>.\<close>

definition slice_from :: "int \<Rightarrow> int option \<Rightarrow> 'a list \<Rightarrow> 'a list" where
  "slice_from offset limit xs =
     (let start = nat (max 0 offset)
      in case limit of None \<Rightarrow> drop start xs
         | Some n \<Rightarrow> take (nat (max 0 n)) (drop start xs))"

lemma slice_from_all [simp]: "slice_from 0 None xs = xs"
  by (simp add: slice_from_def)

lemma set_slice_from: "set (slice_from offset limit xs) \<subseteq> set xs"
  by (cases limit) (auto simp: slice_from_def dest: in_set_takeD in_set_dropD)

lemma length_slice_from_limit: "length (slice_from offset (Some n) xs) \<le> nat (max 0 n)"
  by (simp add: slice_from_def)

section \<open>Rows of SQL tables\<close>

text \<open>\<open>UPDATE t SET .. WHERE p\<close>: every matching row is rewritten in place.\<close>

definition update_where :: "('r \<Rightarrow> bool) \<Rightarrow> ('r \<Rightarrow> 'r) \<Rightarrow> 'r list \<Rightarrow> 'r list" where
  "update_where p f rs = map (\<lambda>r. if p r then f r else r) rs"

text \<open>\<open>DELETE FROM t WHERE p\<close>.\<close>

definition delete_where :: "('r \<Rightarrow> bool) \<Rightarrow> 'r list \<Rightarrow> 'r list" where
  "delete_where p rs = filter (\<lambda>r. \<not> p r) rs"

text \<open>
  \<open>INSERT .. ON CONFLICT(key) DO UPDATE\<close>: \<open>f\<close> rewrites the row with the same key if
  there is one; otherwise the new row is appended.
\<close>

definition upsert :: "('r \<Rightarrow> 'k) \<Rightarrow> ('r \<Rightarrow> 'r) \<Rightarrow> 'r \<Rightarrow> 'r list \<Rightarrow> 'r list" where
  "upsert key f new rs =
     (if key new \<in> key ` set rs then update_where (\<lambda>r. key r = key new) f rs else rs @ [new])"

text \<open>The row with a given key: \<open>SELECT * .. WHERE key = ?\<close> and \<open>fetchone()\<close>.\<close>

definition row_of :: "('r \<Rightarrow> 'k) \<Rightarrow> 'k \<Rightarrow> 'r list \<Rightarrow> 'r option" where
  "row_of key k rs = find (\<lambda>r. key r = k) rs"

lemma update_where_Nil [simp]: "update_where p f [] = []"
  by (simp add: update_where_def)

lemma update_where_Cons [simp]:
  "update_where p f (r # rs) = (if p r then f r else r) # update_where p f rs"
  by (simp add: update_where_def)

lemma length_update_where [simp]: "length (update_where p f rs) = length rs"
  by (simp add: update_where_def)

lemma set_update_where: "set (update_where p f rs) = (\<lambda>r. if p r then f r else r) ` set rs"
  by (simp add: update_where_def)

lemma in_update_where:
  "r' \<in> set (update_where p f rs) \<longleftrightarrow>
     (\<exists>r \<in> set rs. p r \<and> r' = f r) \<or> (r' \<in> set rs \<and> \<not> p r')"
  by (auto simp: set_update_where)

lemma map_update_where [row_simps]:
  "(\<And>r. p r \<Longrightarrow> key (f r) = key r) \<Longrightarrow> map key (update_where p f rs) = map key rs"
  by (simp add: update_where_def)

lemma map_delete_where_distinct:
  "distinct (map key rs) \<Longrightarrow> distinct (map key (delete_where p rs))"
  by (induction rs) (auto simp: delete_where_def)

lemma set_delete_where [simp]: "set (delete_where p rs) = {r \<in> set rs. \<not> p r}"
  by (auto simp: delete_where_def)

lemma row_of_Nil [simp]: "row_of key k [] = None"
  by (simp add: row_of_def)

lemma row_of_Cons [simp]:
  "row_of key k (r # rs) = (if key r = k then Some r else row_of key k rs)"
  by (simp add: row_of_def)

lemma row_of_Some: "row_of key k rs = Some r \<Longrightarrow> r \<in> set rs \<and> key r = k"
  by (induction rs) (auto split: if_splits)

lemma row_of_None: "row_of key k rs = None \<longleftrightarrow> k \<notin> key ` set rs"
  by (induction rs) auto

lemma row_of_in: "distinct (map key rs) \<Longrightarrow> r \<in> set rs \<Longrightarrow> row_of key (key r) rs = Some r"
  by (induction rs) auto

lemma row_of_append:
  "row_of key k (rs @ rs') = (case row_of key k rs of None \<Rightarrow> row_of key k rs' | Some r \<Rightarrow> Some r)"
  by (induction rs) auto

lemma row_of_update_where [row_simps]:
  assumes "\<And>r. p r \<Longrightarrow> key (f r) = key r"
  shows "row_of key k (update_where p f rs) =
    map_option (\<lambda>r. if p r then f r else r) (row_of key k rs)"
  using assms by (induction rs) auto

lemma row_of_delete_where [row_simps]:
  "row_of key k (delete_where (\<lambda>r. key r = k') rs) =
    (if k = k' then None else row_of key k rs)"
  by (induction rs) (auto simp: delete_where_def)

lemma row_of_delete_other:
  "(\<And>r. p r \<Longrightarrow> key r \<noteq> k) \<Longrightarrow> row_of key k (delete_where p rs) = row_of key k rs"
  by (induction rs) (auto simp: delete_where_def)

lemma row_of_upsert [row_simps]:
  assumes "\<And>r. key (f r) = key r"
  shows "row_of key k (upsert key f new rs) =
    (if k = key new then Some (case row_of key k rs of None \<Rightarrow> new | Some r \<Rightarrow> f r)
     else row_of key k rs)"
proof (cases "key new \<in> key ` set rs")
  case True
  then obtain r where "row_of key (key new) rs = Some r"
    using row_of_None [of key "key new" rs] by fastforce
  moreover have "row_of key k rs = Some r' \<Longrightarrow> key r' = k" for r'
    by (auto dest: row_of_Some)
  ultimately show ?thesis
    using True assms
    by (cases "row_of key k rs") (auto simp: upsert_def row_of_update_where)
next
  case False
  then have "row_of key (key new) rs = None" by (simp add: row_of_None)
  with False show ?thesis
    by (auto simp: upsert_def row_of_append split: option.splits)
qed

lemma distinct_upsert:
  assumes "\<And>r. key (f r) = key r" and "distinct (map key rs)"
  shows "distinct (map key (upsert key f new rs))"
  using assms by (auto simp: upsert_def map_update_where)

lemma in_upsert:
  "r' \<in> set (upsert key f new rs) \<Longrightarrow>
     r' = new \<or> r' \<in> set rs \<or> (\<exists>r \<in> set rs. key r = key new \<and> r' = f r)"
  by (auto simp: upsert_def in_update_where split: if_splits)

lemma upsert_other:
  "r \<in> set rs \<Longrightarrow> key r \<noteq> key new \<Longrightarrow> r \<in> set (upsert key f new rs)"
  by (auto simp: upsert_def in_update_where)

text \<open>\<open>ORDER BY\<close> is a stable sort on a key; \<open>LIMIT 1\<close> takes its head.\<close>

lemma hd_sort_key_least:
  assumes "xs \<noteq> []"
  shows "hd (sort_key f xs) \<in> set xs" and "\<forall>x \<in> set xs. f (hd (sort_key f xs)) \<le> f x"
proof -
  have ne: "sort_key f xs \<noteq> []" using assms by (metis length_0_conv length_sort)
  then show mem: "hd (sort_key f xs) \<in> set xs" by (metis hd_in_set set_sort)
  have "sorted (map f (sort_key f xs))" by simp
  with ne have "\<forall>y \<in> set (sort_key f xs). f (hd (sort_key f xs)) \<le> f y"
    by (cases "sort_key f xs") auto
  then show "\<forall>x \<in> set xs. f (hd (sort_key f xs)) \<le> f x" by simp
qed

end
