(* ===== verification/Py_Float.thy ===== *)
theory Py_Float
  imports Prelude
begin

text \<open>
  Python floats: IEEE 754 binary64 values with round-to-nearest, ties to even. A finite value is
  a dyadic number \<open>m * 2 ^ e\<close> in canonical form (\<open>m\<close> odd, or both zero), so that equal values are
  equal terms. One function, \<open>round_quot\<close>, rounds an exact quotient; every operation computes its
  exact result and rounds it. Signed zeros are identified.
\<close>

datatype pyfloat = Fin int int | PInf | MInf | NaN

text \<open>The number of binary digits of \<open>n\<close>.\<close>

fun bit_len :: "nat \<Rightarrow> nat" where
  "bit_len n = (if n = 0 then 0 else Suc (bit_len (n div 2)))"

declare bit_len.simps [simp del]

text \<open>Canonical form: factors of two move from the mantissa to the exponent.\<close>

function canon :: "int \<Rightarrow> int \<Rightarrow> pyfloat" where
  "canon m e = (if m = 0 then Fin 0 0 else if even m then canon (m div 2) (e + 1) else Fin m e)"
  by pat_completeness auto
termination
  by (relation "measure (\<lambda>(m, e). nat \<bar>m\<bar>)") auto

declare canon.simps [simp del]

lemma canon_0 [simp]: "canon 0 e = Fin 0 0"
  by (simp add: canon.simps)

lemma canon_odd [simp]: "odd m \<Longrightarrow> canon m e = Fin m e"
  by (subst canon.simps) auto

lemma canon_Fin: "\<exists>m' e'. canon m e = Fin m' e' \<and> (m' = 0 \<longleftrightarrow> m = 0)"
proof (induction m e rule: canon.induct)
  case (1 m e)
  show ?case
  proof (cases "m \<noteq> 0 \<and> even m")
    case True
    then have "m div 2 \<noteq> 0" by auto
    with True "1.IH" show ?thesis by (subst canon.simps) auto
  next
    case False
    then show ?thesis by (subst canon.simps) auto
  qed
qed

text \<open>
  \<open>round_quot n d x\<close> is the binary64 value nearest to \<open>(n / d) * 2 ^ x\<close>, for \<open>d > 0\<close>. The
  exponent of the last place is chosen so that the rounded mantissa has 53 digits, but never
  below the subnormal exponent -1074.
\<close>

definition ulp_exp :: "int \<Rightarrow> int \<Rightarrow> int \<Rightarrow> int" where
  "ulp_exp n d x =
     (let k = int (bit_len (nat \<bar>n\<bar>)) - int (bit_len (nat d));
          fits = (if 0 \<le> k then d * 2 ^ nat k \<le> \<bar>n\<bar> else d \<le> \<bar>n\<bar> * 2 ^ nat (- k));
          k' = (if fits then k else k - 1)
      in max (k' + x - 52) (-1074))"

definition round_div :: "int \<Rightarrow> int \<Rightarrow> int" where
  "round_div n d =
     (let q = n div d; r = n mod d
      in if 2 * r > d \<or> (2 * r = d \<and> odd q) then q + 1 else q)"

definition round_quot :: "int \<Rightarrow> int \<Rightarrow> int \<Rightarrow> pyfloat" where
  "round_quot n d x =
     (if n = 0 then Fin 0 0
      else let u = ulp_exp n d x;
               q = (if u \<le> x then round_div (\<bar>n\<bar> * 2 ^ nat (x - u)) d
                    else round_div \<bar>n\<bar> (d * 2 ^ nat (u - x)))
           in if int (bit_len (nat q)) + u > 1024 then (if 0 < n then PInf else MInf)
              else canon (sgn n * q) u)"

lemma round_quot_0 [simp]: "round_quot 0 d x = Fin 0 0"
  by (simp add: round_quot_def)

definition float_of_int :: "int \<Rightarrow> pyfloat" where
  "float_of_int i = round_quot i 1 0"

text \<open>\<open>a / b\<close> on Python integers: the exact quotient, correctly rounded.\<close>

definition int_truediv :: "int \<Rightarrow> int \<Rightarrow> pyfloat result" where
  "int_truediv a b =
     (if b = 0 then Inl (OtherError ''ZeroDivisionError'' ''division by zero'')
      else let q = round_quot (a * sgn b) \<bar>b\<bar> 0
           in if q \<in> {PInf, MInf}
              then Inl (OtherError ''OverflowError'' ''integer division result too large for a float'')
              else Inr q)"

text \<open>\<open>float(i)\<close> on an integer: one beyond the binary64 range is refused.\<close>

definition int_to_float :: "int \<Rightarrow> pyfloat result" where
  "int_to_float i =
     (let f = float_of_int i
      in if f \<in> {PInf, MInf}
         then Inl (OtherError ''OverflowError'' ''int too large to convert to float'') else Inr f)"

fun float_neg :: "pyfloat \<Rightarrow> pyfloat" where
  "float_neg (Fin m e) = Fin (- m) e"
| "float_neg PInf = MInf"
| "float_neg MInf = PInf"
| "float_neg NaN = NaN"

fun float_add :: "pyfloat \<Rightarrow> pyfloat \<Rightarrow> pyfloat" where
  "float_add (Fin m1 e1) (Fin m2 e2) =
     (let e = min e1 e2 in round_quot (m1 * 2 ^ nat (e1 - e) + m2 * 2 ^ nat (e2 - e)) 1 e)"
| "float_add NaN _ = NaN"
| "float_add _ NaN = NaN"
| "float_add PInf MInf = NaN"
| "float_add MInf PInf = NaN"
| "float_add PInf _ = PInf"
| "float_add MInf _ = MInf"
| "float_add _ PInf = PInf"
| "float_add _ MInf = MInf"

definition float_sub :: "pyfloat \<Rightarrow> pyfloat \<Rightarrow> pyfloat" where
  "float_sub a b = float_add a (float_neg b)"

fun float_mul :: "pyfloat \<Rightarrow> pyfloat \<Rightarrow> pyfloat" where
  "float_mul (Fin m1 e1) (Fin m2 e2) = round_quot (m1 * m2) 1 (e1 + e2)"
| "float_mul NaN _ = NaN"
| "float_mul _ NaN = NaN"
| "float_mul (Fin m e) y = (if m = 0 then NaN else if 0 < m then y else float_neg y)"
| "float_mul y (Fin m e) = (if m = 0 then NaN else if 0 < m then y else float_neg y)"
| "float_mul x y = (if x = y then PInf else MInf)"

text \<open>\<open>a / b\<close> on floats; only a zero divisor raises.\<close>

fun float_div :: "pyfloat \<Rightarrow> pyfloat \<Rightarrow> pyfloat result" where
  "float_div (Fin m1 e1) (Fin m2 e2) =
     (if m2 = 0 then Inl (OtherError ''ZeroDivisionError'' ''float division by zero'')
      else Inr (round_quot (m1 * sgn m2) \<bar>m2\<bar> (e1 - e2)))"
| "float_div NaN (Fin m e) =
     (if m = 0 then Inl (OtherError ''ZeroDivisionError'' ''float division by zero'') else Inr NaN)"
| "float_div x (Fin m e) =
     (if m = 0 then Inl (OtherError ''ZeroDivisionError'' ''float division by zero'')
      else Inr (if 0 < m then x else float_neg x))"
| "float_div (Fin m e) NaN = Inr NaN"
| "float_div (Fin m e) _ = Inr (Fin 0 0)"
| "float_div _ _ = Inr NaN"

fun float_abs :: "pyfloat \<Rightarrow> pyfloat" where
  "float_abs (Fin m e) = Fin \<bar>m\<bar> e"
| "float_abs MInf = PInf"
| "float_abs x = x"

text \<open>\<open>a / n\<close> for a positive integer \<open>n\<close> that converts exactly (the length of a list).\<close>

fun float_div_nat :: "pyfloat \<Rightarrow> nat \<Rightarrow> pyfloat" where
  "float_div_nat (Fin m e) n = round_quot m (int n) e"
| "float_div_nat x _ = x"

fun float_lt :: "pyfloat \<Rightarrow> pyfloat \<Rightarrow> bool" where
  "float_lt (Fin m1 e1) (Fin m2 e2) =
     (let e = min e1 e2 in m1 * 2 ^ nat (e1 - e) < m2 * 2 ^ nat (e2 - e))"
| "float_lt NaN _ = False"
| "float_lt _ NaN = False"
| "float_lt PInf _ = False"
| "float_lt _ PInf = True"
| "float_lt _ MInf = False"
| "float_lt MInf _ = True"

text \<open>\<open>==\<close> on floats: NaN is not equal to itself; canonical forms make the rest syntactic.\<close>

definition float_eq :: "pyfloat \<Rightarrow> pyfloat \<Rightarrow> bool" where
  "float_eq a b \<longleftrightarrow> a = b \<and> a \<noteq> NaN"

text \<open>\<open>max(a, b)\<close> keeps its first argument unless the second is greater.\<close>

definition float_max :: "pyfloat \<Rightarrow> pyfloat \<Rightarrow> pyfloat" where
  "float_max a b = (if float_lt a b then b else a)"

definition float_zero :: pyfloat where
  "float_zero = Fin 0 0"

fun is_finite :: "pyfloat \<Rightarrow> bool" where
  "is_finite (Fin _ _) = True"
| "is_finite _ = False"

text \<open>\<open>sum(xs)\<close> of floats (Python 3.12 and later): the sum starts with the first item and carries the rounding
  errors along, \<open>(hi, lo)\<close>; they are added at the end when they are finite and not zero. The empty sum is
  the integer zero.\<close>

definition sum_step :: "pyfloat \<Rightarrow> pyfloat \<times> pyfloat \<Rightarrow> pyfloat \<times> pyfloat" where
  "sum_step x acc =
     (case acc of (hi, lo) \<Rightarrow>
        let t = float_add hi x
        in (t, float_add lo (if float_lt (float_abs hi) (float_abs x) \<or> hi = NaN \<or> x = NaN
                             then float_add (float_sub x t) hi else float_add (float_sub hi t) x)))"

fun py_sum :: "pyfloat list \<Rightarrow> pyfloat" where
  "py_sum [] = float_zero"
| "py_sum (x # xs) =
     (case fold sum_step xs (x, float_zero) of (hi, lo) \<Rightarrow>
        if lo \<noteq> float_zero \<and> is_finite lo then float_add hi lo else hi)"

text \<open>\<open>int(round(x))\<close>: ties go to the even integer.\<close>

fun float_round :: "pyfloat \<Rightarrow> int result" where
  "float_round (Fin m e) = Inr (if 0 \<le> e then m * 2 ^ nat e else round_div m (2 ^ nat (- e)))"
| "float_round NaN = Inl (ValueError ''cannot convert float NaN to integer'')"
| "float_round _ = Inl (OtherError ''OverflowError'' ''cannot convert float infinity to integer'')"

lemma py_sum_one [simp]: "py_sum [x] = x"
  by simp

lemma float_sub_self: "is_finite a \<Longrightarrow> float_sub a a = float_zero"
  by (cases a) (simp_all add: float_sub_def float_zero_def)

lemma float_sub_self_inf: "\<not> is_finite a \<Longrightarrow> float_sub a a = NaN"
  by (cases a) (simp_all add: float_sub_def)

lemma float_max_nonneg: "\<not> float_lt (float_max a float_zero) float_zero"
  by (cases a) (auto simp: float_max_def float_zero_def Let_def)

lemmas float_eval = float_of_int_def int_truediv_def int_to_float_def round_quot_def ulp_exp_def round_div_def
  Let_def bit_len.simps canon.simps

lemma float_of_int_3: "float_of_int 3 = Fin 3 0"
  by (simp add: float_eval)

lemma int_truediv_201_2: "int_truediv 201 2 = Inr (Fin 201 (- 1))"
  by (simp add: float_eval)

lemma int_truediv_1_10: "int_truediv 1 10 = Inr (Fin 3602879701896397 (- 55))"
  by (simp add: float_eval)

end
