(* ===== verification/Py_Value.thy ===== *)
theory Py_Value
  imports Py_Float
begin

text \<open>
  The Python values that travel through the simulation layer as JSON-like data: \<open>None\<close>, booleans,
  unbounded integers, floats, strings, lists, tuples and dictionaries with string keys in
  insertion order. Booleans are a separate constructor, as \<open>isinstance(v, bool)\<close> tells them
  from integers everywhere in the code.
\<close>

datatype pyval =
    PNone
  | PBool bool
  | PInt int
  | PFloat pyfloat
  | PStr string
  | PList "pyval list"
  | PTuple "pyval list"
  | PDict "(string \<times> pyval) list"

type_synonym pydict = "(string \<times> pyval) list"

section \<open>Dictionaries\<close>

text \<open>\<open>d.get(k)\<close>, \<open>d.get(k, default)\<close>, \<open>k in d\<close>, \<open>d[k]\<close>, \<open>set(d.keys())\<close>.\<close>

definition dget :: "pydict \<Rightarrow> string \<Rightarrow> pyval" where
  "dget d k = (case map_of d k of None \<Rightarrow> PNone | Some v \<Rightarrow> v)"

definition dget_default :: "pydict \<Rightarrow> string \<Rightarrow> pyval \<Rightarrow> pyval" where
  "dget_default d k v = (case map_of d k of None \<Rightarrow> v | Some w \<Rightarrow> w)"

definition has_key :: "string \<Rightarrow> pydict \<Rightarrow> bool" where
  "has_key k d \<longleftrightarrow> map_of d k \<noteq> None"

definition dindex :: "pydict \<Rightarrow> string \<Rightarrow> pyval result" where
  "dindex d k = (case map_of d k of None \<Rightarrow> Inl (KeyError k) | Some v \<Rightarrow> Inr v)"

abbreviation dkeys :: "pydict \<Rightarrow> string set" where
  "dkeys d \<equiv> set (map fst d)"

lemma dget_simps [simp]:
  "dget [] k = PNone"
  "dget ((k', v) # d) k = (if k = k' then v else dget d k)"
  by (simp_all add: dget_def)

lemma dget_default_simps [simp]:
  "dget_default [] k v = v"
  "dget_default ((k', w) # d) k v = (if k = k' then w else dget_default d k v)"
  by (simp_all add: dget_default_def)

lemma has_key_simps [simp]:
  "has_key k [] = False"
  "has_key k ((k', v) # d) = (k = k' \<or> has_key k d)"
  by (simp_all add: has_key_def)

lemma dindex_simps [simp]:
  "dindex [] k = Inl (KeyError k)"
  "dindex ((k', v) # d) k = (if k = k' then Inr v else dindex d k)"
  by (simp_all add: dindex_def)

lemma has_key_iff: "has_key k d \<longleftrightarrow> k \<in> dkeys d"
  by (induction d) auto

text \<open>
  \<open>d | {k: v, ..}\<close> and \<open>d[k] = v\<close>: a key keeps its position, a new one goes to the end.
\<close>

abbreviation dset :: "string \<Rightarrow> pyval \<Rightarrow> pydict \<Rightarrow> pydict" where
  "dset k v d \<equiv> AList.update k v d"

lemma dget_dset: "dget (dset k v d) k' = (if k' = k then v else dget d k')"
  by (simp add: dget_def update_conv')

section \<open>Type tests\<close>

text \<open>
  \<open>value if isinstance(value, int) and not isinstance(value, bool) else None\<close> and its kin. The
  services write these tests out again and again under the names \<open>_int_value\<close>, \<open>_int_or_none\<close>,
  \<open>_string_value\<close>, \<open>_string_or_none\<close>, \<open>_dict\<close>, \<open>_dict_value\<close>.
\<close>

fun int_value :: "pyval \<Rightarrow> int option" where
  "int_value (PInt i) = Some i"
| "int_value _ = None"

fun string_value :: "pyval \<Rightarrow> string option" where
  "string_value (PStr s) = Some s"
| "string_value _ = None"

fun dict_value :: "pyval \<Rightarrow> pydict option" where
  "dict_value (PDict d) = Some d"
| "dict_value _ = None"

fun list_value :: "pyval \<Rightarrow> pyval list option" where
  "list_value (PList xs) = Some xs"
| "list_value _ = None"

text \<open>\<open>value if isinstance(value, dict) else {}\<close>.\<close>

definition dict_or_empty :: "pyval \<Rightarrow> pydict" where
  "dict_or_empty v = (case dict_value v of None \<Rightarrow> [] | Some d \<Rightarrow> d)"

text \<open>\<open>[item for item in value if isinstance(item, dict)] if isinstance(value, list) else []\<close>.\<close>

definition dicts_of :: "pyval \<Rightarrow> pydict list" where
  "dicts_of v = (case list_value v of None \<Rightarrow> [] | Some xs \<Rightarrow> List.map_filter dict_value xs)"

lemma dicts_of_PList_PDict [simp]: "dicts_of (PList (map PDict ds)) = ds"
  by (induction ds) (simp_all add: dicts_of_def map_filter_def)

lemma dict_or_empty_simps [simp]:
  "dict_or_empty (PDict d) = d"
  "dict_or_empty PNone = []"
  by (simp_all add: dict_or_empty_def)

text \<open>Truth of a value, as \<open>if v\<close> and \<open>v or w\<close> test it.\<close>

fun truthy :: "pyval \<Rightarrow> bool" where
  "truthy PNone = False"
| "truthy (PBool b) = b"
| "truthy (PInt i) = (i \<noteq> 0)"
| "truthy (PFloat f) = (f \<noteq> Fin 0 0)"
| "truthy (PStr s) = (s \<noteq> [])"
| "truthy (PList xs) = (xs \<noteq> [])"
| "truthy (PTuple xs) = (xs \<noteq> [])"
| "truthy (PDict d) = (d \<noteq> [])"

definition py_or :: "pyval \<Rightarrow> pyval \<Rightarrow> pyval" where
  "py_or a b = (if truthy a then a else b)"

text \<open>\<open>a or b\<close> on \<open>int | None\<close>: zero is falsy too.\<close>

definition int_or :: "int option \<Rightarrow> int option \<Rightarrow> int option" where
  "int_or a b = (case a of Some i \<Rightarrow> if i = 0 then b else a | None \<Rightarrow> b)"

text \<open>\<open>a or b\<close> on \<open>str | None\<close>: the empty string is falsy too.\<close>

definition str_or :: "string option \<Rightarrow> string option \<Rightarrow> string option" where
  "str_or a b = (case a of Some s \<Rightarrow> if s = [] then b else a | None \<Rightarrow> b)"

section \<open>Equality\<close>

text \<open>
  Python's \<open>==\<close>: numbers compare by value across \<open>bool\<close>, \<open>int\<close> and \<open>float\<close>; dictionaries
  compare regardless of the order of their keys; \<open>None\<close>, strings, lists and tuples only with
  their own kind.
\<close>

fun num_value :: "pyval \<Rightarrow> (int + pyfloat) option" where
  "num_value (PBool b) = Some (Inl (if b then 1 else 0))"
| "num_value (PInt i) = Some (Inl i)"
| "num_value (PFloat f) = Some (Inr f)"
| "num_value _ = None"

fun num_eq :: "int + pyfloat \<Rightarrow> int + pyfloat \<Rightarrow> bool" where
  "num_eq (Inl i) (Inl j) = (i = j)"
| "num_eq (Inl i) (Inr f) = (f = canon i 0)"
| "num_eq (Inr f) (Inl i) = (f = canon i 0)"
| "num_eq (Inr f) (Inr g) = float_eq f g"

lemma size_zip [termination_simp]:
  "(x, y) \<in> set (zip xs ys) \<Longrightarrow> size x < Suc (size_list size xs)"
  "(x, y) \<in> set (zip xs ys) \<Longrightarrow> size y < Suc (size_list size ys)"
  by (auto elim!: in_set_zipE intro!: le_imp_less_Suc size_list_estimation' simp: le_refl)

lemma size_map_of [termination_simp]:
  "map_of d k = Some v \<Longrightarrow> size v < Suc (size_list (\<lambda>x. Suc (size (snd x))) d)"
  by (induction d) (auto split: if_splits)

fun py_eq :: "pyval \<Rightarrow> pyval \<Rightarrow> bool" where
  "py_eq (PList xs) (PList ys) =
     (length xs = length ys \<and> (\<forall>(x, y) \<in> set (zip xs ys). py_eq x y))"
| "py_eq (PTuple xs) (PTuple ys) =
     (length xs = length ys \<and> (\<forall>(x, y) \<in> set (zip xs ys). py_eq x y))"
| "py_eq (PDict d) (PDict e) =
     (length d = length e \<and>
      (\<forall>(k, v) \<in> set d. case map_of e k of None \<Rightarrow> False | Some w \<Rightarrow> py_eq v w))"
| "py_eq (PStr s) (PStr t) = (s = t)"
| "py_eq PNone PNone = True"
| "py_eq v w =
     (case (num_value v, num_value w) of (Some a, Some b) \<Rightarrow> num_eq a b | _ \<Rightarrow> False)"

section \<open>JSON text\<close>

text \<open>
  \<open>json.loads(json.dumps(v, sort_keys=True))\<close>: tuples come back as lists and the keys of every
  dictionary in sorted order; everything else is unchanged. A text column that holds encoded JSON
  is represented by this value, which is what reading the column decodes to.
\<close>

fun json_sort :: "pyval \<Rightarrow> pyval" where
  "json_sort (PList xs) = PList (map json_sort xs)"
| "json_sort (PTuple xs) = PList (map json_sort xs)"
| "json_sort (PDict d) = PDict (sort_key fst (map (\<lambda>(k, v). (k, json_sort v)) d))"
| "json_sort v = v"

definition json_sort_dict :: "pydict \<Rightarrow> pydict" where
  "json_sort_dict d = sort_key fst (map (\<lambda>(k, v). (k, json_sort v)) d)"

lemma json_sort_PDict: "json_sort (PDict d) = PDict (json_sort_dict d)"
  by (simp add: json_sort_dict_def)

lemma sort_key_map_snd:
  "sort_key fst (map (\<lambda>(k, v). (k, f v)) d) = map (\<lambda>(k, v). (k, f v)) (sort_key fst d)"
proof (induction d)
  case (Cons p d)
  have "insort_key fst (case p of (k, v) \<Rightarrow> (k, f v)) (map (\<lambda>(k, v). (k, f v)) xs) =
        map (\<lambda>(k, v). (k, f v)) (insort_key fst p xs)" for xs
    by (induction xs) (auto split: prod.splits)
  with Cons show ?case by simp
qed simp

lemma sort_key_idem [simp]: "sort_key f (sort_key f xs) = sort_key f xs"
  by (rule sort_key_id_if_sorted) simp

lemma json_sort_idem [simp]: "json_sort (json_sort v) = json_sort v"
proof (induction v rule: json_sort.induct)
  case (3 d)
  have "map (\<lambda>(k, v). (k, json_sort v)) (map (\<lambda>(k, v). (k, json_sort v)) (sort_key fst d)) =
        map (\<lambda>(k, v). (k, json_sort v)) (sort_key fst d)"
    using 3 by (auto intro!: map_cong)
  then show ?case
    by (simp only: json_sort.simps sort_key_map_snd sort_key_idem)
qed auto

lemma json_sort_dict_idem [simp]: "json_sort_dict (json_sort_dict d) = json_sort_dict d"
  using json_sort_idem [of "PDict d"] by (simp add: json_sort_dict_def)

lemma json_sort_dict_Nil [simp]: "json_sort_dict [] = []"
  by (simp add: json_sort_dict_def)

lemma length_json_sort_dict [simp]: "length (json_sort_dict d) = length d"
  by (simp add: json_sort_dict_def)

lemma map_of_sort_key:
  "distinct (map fst d) \<Longrightarrow> map_of (sort_key fst d) k = map_of d k"
proof -
  assume d: "distinct (map fst d)"
  then have "distinct (map fst (sort_key fst d))"
    by (simp add: distinct_map)
  with d have "map_of (sort_key fst d) = map_of d"
    by (simp add: map_of_inject_set)
  then show ?thesis by simp
qed

lemma map_of_json_sort_dict:
  assumes "distinct (map fst d)"
  shows "map_of (json_sort_dict d) k = map_option json_sort (map_of d k)"
proof -
  have "map_of (json_sort_dict d) k = map_of (map (\<lambda>(k, v). (k, json_sort v)) d) k"
    unfolding json_sort_dict_def using assms
    by (intro map_of_sort_key) (simp add: comp_def split_def)
  then show ?thesis by (simp add: map_of_map)
qed

section \<open>Decimal text of integers\<close>

fun nat_digits :: "nat \<Rightarrow> nat list" where
  "nat_digits n = (if n < 10 then [n] else nat_digits (n div 10) @ [n mod 10])"

declare nat_digits.simps [simp del]

definition digit_char :: "nat \<Rightarrow> char" where
  "digit_char d = char_of (48 + d)"

definition nat_str :: "nat \<Rightarrow> string" where
  "nat_str n = map digit_char (nat_digits n)"

definition int_str :: "int \<Rightarrow> string" where
  "int_str i = (if i < 0 then CHR ''-'' # nat_str (nat (- i)) else nat_str (nat i))"

text \<open>The text of a list of strings in an error message: \<open>['a', 'b']\<close>.\<close>

definition str_repr :: "string \<Rightarrow> string" where
  "str_repr s = [CHR 0x27] @ s @ [CHR 0x27]"

fun join :: "string \<Rightarrow> string list \<Rightarrow> string" where
  "join sep [] = []"
| "join sep [x] = x"
| "join sep (x # y # ys) = x @ sep @ join sep (y # ys)"

definition list_repr :: "string list \<Rightarrow> string" where
  "list_repr xs = ''['' @ join '', '' (map str_repr xs) @ '']''"

definition sorted_keys :: "string list \<Rightarrow> string list" where
  "sorted_keys ks = sort (remdups ks)"

end
