(* ===== verification/Commands.thy ===== *)
theory Commands
  imports Py_Value
begin

text \<open>
  The strict command models of \<open>sim/tes_models/commands.py\<close>: the fourteen command classes, the
  field checks and \<open>parse_command\<close>. A check returns the value it accepts, in the type the class
  field has (\<open>Literal["BUY", "SELL"]\<close> is the datatype \<open>side\<close>), or the exception it raises.
  The lemmas show that a parsed command is well formed and that every well-formed command is the
  parse of its own JSON form.
\<close>

section \<open>Command classes\<close>

(* sim/tes_models/commands.py:6-6 DEFAULT_SYMBOL *)
definition DEFAULT_SYMBOL :: string where
  "DEFAULT_SYMBOL = ''DEFAULT''"

datatype side = BUY | SELL

datatype time_in_force = GTC | IOC | FOK

datatype trading_phase = Continuous | OpeningAuction | ClosingAuction | Halted

(* sim/tes_models/commands.py:9-120 TesCommand *)
datatype command =
    LimitOrder side int int time_in_force string
  | HiddenOrder side int int string
  | IcebergOrder side int int int string
  | MarketOrder side int string
  | StopOrder side int int string
  | StopLimitOrder side int int int string
  | CancelOrder int
  | ReplaceOrder int int int
  | SetTradingPhase string trading_phase
  | HaltSymbol string string
  | ResumeSymbol string
  | SetPriceBands string int int
  | ClearPriceBands string
  | UncrossAuction string

section \<open>Field checks\<close>

(* sim/tes_models/commands.py:123-126 _require_dict *)
definition require_dict :: "pyval \<Rightarrow> string \<Rightarrow> pydict result" where
  "require_dict value name =
     (case dict_value value of None \<Rightarrow> Inl (ValueError (name @ '' must be a dict''))
      | Some d \<Rightarrow> Inr d)"

(* sim/tes_models/commands.py:129-132 _require_exact_keys *)
definition require_exact_keys :: "pydict \<Rightarrow> string list \<Rightarrow> string \<Rightarrow> unit result" where
  "require_exact_keys value expected name =
     (if dkeys value = set expected then Inr ()
      else Inl (ValueError (name @ '' keys must be exactly '' @ list_repr (sorted_keys expected)
             @ '', got '' @ list_repr (sorted_keys (map fst value)))))"

(* sim/tes_models/commands.py:135-138 _require_int *)
definition require_int :: "pyval \<Rightarrow> string \<Rightarrow> int result" where
  "require_int value field_name =
     (case int_value value of None \<Rightarrow> Inl (ValueError (field_name @ '' must be an int''))
      | Some i \<Rightarrow> Inr i)"

(* sim/tes_models/commands.py:141-145 _require_positive_int *)
definition require_positive_int :: "pyval \<Rightarrow> string \<Rightarrow> int result" where
  "require_positive_int value field_name =
     bind_r (require_int value field_name) (\<lambda>parsed.
       if parsed \<le> 0 then Inl (ValueError (field_name @ '' must be a positive integer''))
       else Inr parsed)"

text \<open>
  \<open>value not in {"BUY", "SELL"}\<close> hashes the value first: a list or a dictionary raises
  \<open>TypeError\<close> there, not the \<open>ValueError\<close> of the check.
\<close>

fun unhashable :: "pyval \<Rightarrow> string option" where
  "unhashable (PList _) = Some ''list''"
| "unhashable (PDict _) = Some ''dict''"
| "unhashable (PTuple []) = None"
| "unhashable (PTuple (x # xs)) = or_else (unhashable x) (unhashable (PTuple xs))"
| "unhashable _ = None"

definition in_literals :: "pyval \<Rightarrow> (string \<times> 'a) list \<Rightarrow> string \<Rightarrow> 'a result" where
  "in_literals value literals message =
     (case unhashable value of
        Some t \<Rightarrow> Inl (TypeError (''unhashable type: '' @ str_repr t))
      | None \<Rightarrow>
          (case string_value value of None \<Rightarrow> Inl (ValueError message)
           | Some s \<Rightarrow>
               (case map_of literals s of None \<Rightarrow> Inl (ValueError message) | Some x \<Rightarrow> Inr x)))"

(* sim/tes_models/commands.py:148-151 _require_side *)
definition require_side :: "pyval \<Rightarrow> side result" where
  "require_side value = in_literals value [(''BUY'', BUY), (''SELL'', SELL)]
     (''side must be either '' @ str_repr ''BUY'' @ '' or '' @ str_repr ''SELL'')"

(* sim/tes_models/commands.py:154-157 _require_trading_phase *)
definition require_trading_phase :: "pyval \<Rightarrow> trading_phase result" where
  "require_trading_phase value = in_literals value
     [(''Continuous'', Continuous), (''OpeningAuction'', OpeningAuction),
      (''ClosingAuction'', ClosingAuction), (''Halted'', Halted)]
     ''phase must be one of: Continuous, OpeningAuction, ClosingAuction, Halted''"

(* sim/tes_models/commands.py:160-163 _require_time_in_force *)
definition require_time_in_force :: "pyval \<Rightarrow> time_in_force result" where
  "require_time_in_force value = in_literals value
     [(''GTC'', GTC), (''IOC'', IOC), (''FOK'', FOK)]
     ''time_in_force must be one of: GTC, IOC, FOK''"

(* sim/tes_models/commands.py:166-169 _require_symbol *)
definition require_symbol :: "pyval \<Rightarrow> string result" where
  "require_symbol value =
     (case string_value value of None \<Rightarrow> Inl (ValueError ''symbol must be a string'')
      | Some s \<Rightarrow> Inr s)"

(* sim/tes_models/commands.py:172-176 _require_command_keys *)
definition require_command_keys :: "pydict \<Rightarrow> string list \<Rightarrow> string \<Rightarrow> unit result" where
  "require_command_keys value expected name =
     (let with_symbol = ''symbol'' # expected
      in if dkeys value = set expected \<or> dkeys value = set with_symbol then Inr ()
         else Inl (ValueError (name @ '' keys must be exactly '' @ list_repr (sorted_keys expected)
             @ '' or '' @ list_repr (sorted_keys with_symbol)
             @ '', got '' @ list_repr (sorted_keys (map fst value)))))"

text \<open>\<open>check(data[key], key)\<close> and \<open>check(data[key])\<close>.\<close>

definition field_of :: "pydict \<Rightarrow> string \<Rightarrow> (pyval \<Rightarrow> string \<Rightarrow> 'a result) \<Rightarrow> 'a result" where
  "field_of data key check = bind_r (dindex data key) (\<lambda>v. check v key)"

definition field1_of :: "pydict \<Rightarrow> string \<Rightarrow> (pyval \<Rightarrow> 'a result) \<Rightarrow> 'a result" where
  "field1_of data key check = bind_r (dindex data key) check"

text \<open>\<open>_require_symbol(data.get("symbol", DEFAULT_SYMBOL))\<close>.\<close>

definition optional_symbol :: "pydict \<Rightarrow> string result" where
  "optional_symbol data = require_symbol (dget_default data ''symbol'' (PStr DEFAULT_SYMBOL))"

section \<open>The parser, one definition per branch\<close>

(* sim/tes_models/commands.py:189-197 parse_command *)
definition parse_limit_order :: "pydict \<Rightarrow> command result" where
  "parse_limit_order data =
     bind_r (require_command_keys data [''side'', ''price'', ''qty'', ''time_in_force''] ''LimitOrder.data'') (\<lambda>_.
     bind_r (field1_of data ''side'' require_side) (\<lambda>side.
     bind_r (field_of data ''price'' require_positive_int) (\<lambda>price.
     bind_r (field_of data ''qty'' require_positive_int) (\<lambda>qty.
     bind_r (field1_of data ''time_in_force'' require_time_in_force) (\<lambda>tif.
     bind_r (optional_symbol data) (\<lambda>symbol.
       Inr (LimitOrder side price qty tif symbol)))))))"

(* sim/tes_models/commands.py:199-206 parse_command *)
definition parse_hidden_order :: "pydict \<Rightarrow> command result" where
  "parse_hidden_order data =
     bind_r (require_command_keys data [''side'', ''price'', ''qty''] ''HiddenOrder.data'') (\<lambda>_.
     bind_r (field1_of data ''side'' require_side) (\<lambda>side.
     bind_r (field_of data ''price'' require_positive_int) (\<lambda>price.
     bind_r (field_of data ''qty'' require_positive_int) (\<lambda>qty.
     bind_r (optional_symbol data) (\<lambda>symbol.
       Inr (HiddenOrder side price qty symbol))))))"

(* sim/tes_models/commands.py:208-220 parse_command *)
definition parse_iceberg_order :: "pydict \<Rightarrow> command result" where
  "parse_iceberg_order data =
     bind_r (require_command_keys data [''side'', ''price'', ''total_qty'', ''display_qty''] ''IcebergOrder.data'') (\<lambda>_.
     bind_r (field_of data ''total_qty'' require_positive_int) (\<lambda>total_qty.
     bind_r (field_of data ''display_qty'' require_positive_int) (\<lambda>display_qty.
       if display_qty > total_qty
       then Inl (ValueError ''display_qty must be less than or equal to total_qty'')
       else
         bind_r (field1_of data ''side'' require_side) (\<lambda>side.
         bind_r (field_of data ''price'' require_positive_int) (\<lambda>price.
         bind_r (optional_symbol data) (\<lambda>symbol.
           Inr (IcebergOrder side price total_qty display_qty symbol)))))))"

(* sim/tes_models/commands.py:222-228 parse_command *)
definition parse_market_order :: "pydict \<Rightarrow> command result" where
  "parse_market_order data =
     bind_r (require_command_keys data [''side'', ''qty''] ''MarketOrder.data'') (\<lambda>_.
     bind_r (field1_of data ''side'' require_side) (\<lambda>side.
     bind_r (field_of data ''qty'' require_positive_int) (\<lambda>qty.
     bind_r (optional_symbol data) (\<lambda>symbol.
       Inr (MarketOrder side qty symbol)))))"

(* sim/tes_models/commands.py:230-237 parse_command *)
definition parse_stop_order :: "pydict \<Rightarrow> command result" where
  "parse_stop_order data =
     bind_r (require_command_keys data [''side'', ''stop_price'', ''qty''] ''StopMarketOrder.data'') (\<lambda>_.
     bind_r (field1_of data ''side'' require_side) (\<lambda>side.
     bind_r (field_of data ''stop_price'' require_positive_int) (\<lambda>stop_price.
     bind_r (field_of data ''qty'' require_positive_int) (\<lambda>qty.
     bind_r (optional_symbol data) (\<lambda>symbol.
       Inr (StopOrder side stop_price qty symbol))))))"

(* sim/tes_models/commands.py:239-247 parse_command *)
definition parse_stop_limit_order :: "pydict \<Rightarrow> command result" where
  "parse_stop_limit_order data =
     bind_r (require_command_keys data [''side'', ''stop_price'', ''limit_price'', ''qty''] ''StopLimitOrder.data'') (\<lambda>_.
     bind_r (field1_of data ''side'' require_side) (\<lambda>side.
     bind_r (field_of data ''stop_price'' require_positive_int) (\<lambda>stop_price.
     bind_r (field_of data ''limit_price'' require_positive_int) (\<lambda>limit_price.
     bind_r (field_of data ''qty'' require_positive_int) (\<lambda>qty.
     bind_r (optional_symbol data) (\<lambda>symbol.
       Inr (StopLimitOrder side stop_price limit_price qty symbol)))))))"

(* sim/tes_models/commands.py:249-251 parse_command *)
definition parse_cancel_order :: "pydict \<Rightarrow> command result" where
  "parse_cancel_order data =
     bind_r (require_exact_keys data [''order_id''] ''CancelOrder.data'') (\<lambda>_.
     bind_r (field_of data ''order_id'' require_positive_int) (\<lambda>order_id.
       Inr (CancelOrder order_id)))"

(* sim/tes_models/commands.py:253-259 parse_command *)
definition parse_replace_order :: "pydict \<Rightarrow> command result" where
  "parse_replace_order data =
     bind_r (require_exact_keys data [''order_id'', ''price'', ''qty''] ''ReplaceOrder.data'') (\<lambda>_.
     bind_r (field_of data ''order_id'' require_positive_int) (\<lambda>order_id.
     bind_r (field_of data ''price'' require_positive_int) (\<lambda>price.
     bind_r (field_of data ''qty'' require_positive_int) (\<lambda>qty.
       Inr (ReplaceOrder order_id price qty)))))"

(* sim/tes_models/commands.py:261-263 parse_command *)
definition parse_set_trading_phase :: "pydict \<Rightarrow> command result" where
  "parse_set_trading_phase data =
     bind_r (require_exact_keys data [''symbol'', ''phase''] ''SetTradingPhase.data'') (\<lambda>_.
     bind_r (field1_of data ''symbol'' require_symbol) (\<lambda>symbol.
     bind_r (field1_of data ''phase'' require_trading_phase) (\<lambda>phase.
       Inr (SetTradingPhase symbol phase))))"

(* sim/tes_models/commands.py:265-270 parse_command *)
definition parse_halt_symbol :: "pydict \<Rightarrow> command result" where
  "parse_halt_symbol data =
     bind_r (require_exact_keys data [''symbol'', ''reason''] ''HaltSymbol.data'') (\<lambda>_.
     bind_r (dindex data ''reason'') (\<lambda>reason.
       case string_value reason of None \<Rightarrow> Inl (ValueError ''reason must be a string'')
       | Some r \<Rightarrow>
           bind_r (field1_of data ''symbol'' require_symbol) (\<lambda>symbol.
             Inr (HaltSymbol symbol r))))"

(* sim/tes_models/commands.py:272-274 parse_command *)
definition parse_resume_symbol :: "pydict \<Rightarrow> command result" where
  "parse_resume_symbol data =
     bind_r (require_exact_keys data [''symbol''] ''ResumeSymbol.data'') (\<lambda>_.
     bind_r (field1_of data ''symbol'' require_symbol) (\<lambda>symbol.
       Inr (ResumeSymbol symbol)))"

(* sim/tes_models/commands.py:276-278 parse_command *)
definition parse_set_price_bands :: "pydict \<Rightarrow> command result" where
  "parse_set_price_bands data =
     bind_r (require_exact_keys data [''symbol'', ''lower_price'', ''upper_price''] ''SetPriceBands.data'') (\<lambda>_.
     bind_r (field1_of data ''symbol'' require_symbol) (\<lambda>symbol.
     bind_r (field_of data ''lower_price'' require_positive_int) (\<lambda>lower.
     bind_r (field_of data ''upper_price'' require_positive_int) (\<lambda>upper.
       Inr (SetPriceBands symbol lower upper)))))"

(* sim/tes_models/commands.py:280-282 parse_command *)
definition parse_clear_price_bands :: "pydict \<Rightarrow> command result" where
  "parse_clear_price_bands data =
     bind_r (require_exact_keys data [''symbol''] ''ClearPriceBands.data'') (\<lambda>_.
     bind_r (field1_of data ''symbol'' require_symbol) (\<lambda>symbol.
       Inr (ClearPriceBands symbol)))"

(* sim/tes_models/commands.py:284-286 parse_command *)
definition parse_uncross_auction :: "pydict \<Rightarrow> command result" where
  "parse_uncross_auction data =
     bind_r (require_command_keys data [] ''UncrossAuction.data'') (\<lambda>_.
     bind_r (optional_symbol data) (\<lambda>symbol.
       Inr (UncrossAuction symbol)))"

text \<open>The \<open>if command_type == ..\<close> chain: the branches are tried in the order of the source.\<close>

definition command_branches :: "(string \<times> (pydict \<Rightarrow> command result)) list" where
  "command_branches =
     [(''LimitOrder'', parse_limit_order),
      (''HiddenOrder'', parse_hidden_order),
      (''IcebergOrder'', parse_iceberg_order),
      (''MarketOrder'', parse_market_order),
      (''StopMarketOrder'', parse_stop_order),
      (''StopLimitOrder'', parse_stop_limit_order),
      (''CancelOrder'', parse_cancel_order),
      (''ReplaceOrder'', parse_replace_order),
      (''SetTradingPhase'', parse_set_trading_phase),
      (''HaltSymbol'', parse_halt_symbol),
      (''ResumeSymbol'', parse_resume_symbol),
      (''SetPriceBands'', parse_set_price_bands),
      (''ClearPriceBands'', parse_clear_price_bands),
      (''UncrossAuction'', parse_uncross_auction)]"

(* sim/tes_models/commands.py:179-288 parse_command *)
definition parse_command :: "pyval \<Rightarrow> command result" where
  "parse_command raw =
     bind_r (require_dict raw ''command'') (\<lambda>command.
     bind_r (require_exact_keys command [''type'', ''data''] ''command'') (\<lambda>_.
     bind_r (dindex command ''type'') (\<lambda>ty.
       case string_value ty of None \<Rightarrow> Inl (ValueError ''type must be a string'')
       | Some command_type \<Rightarrow>
           bind_r (field1_of command ''data'' (\<lambda>v. require_dict v ''command.data'')) (\<lambda>data.
             case map_of command_branches command_type of
               None \<Rightarrow> Inl (ValueError (''unknown command type: '' @ command_type))
             | Some parse \<Rightarrow> parse data))))"

(* sim/tes_models/commands.py:291-294 parse_commands *)
definition parse_commands :: "pyval \<Rightarrow> command list result" where
  "parse_commands raw_commands =
     (case list_value raw_commands of
        None \<Rightarrow> Inl (ValueError ''raw_commands must be a list'')
      | Some raws \<Rightarrow> map_r parse_command raws)"

section \<open>Well-formed commands\<close>

text \<open>What the parser promises of the commands it returns.\<close>

fun valid_command :: "command \<Rightarrow> bool" where
  "valid_command (LimitOrder _ price qty _ _) = (0 < price \<and> 0 < qty)"
| "valid_command (HiddenOrder _ price qty _) = (0 < price \<and> 0 < qty)"
| "valid_command (IcebergOrder _ price total_qty display_qty _) =
     (0 < price \<and> 0 < total_qty \<and> 0 < display_qty \<and> display_qty \<le> total_qty)"
| "valid_command (MarketOrder _ qty _) = (0 < qty)"
| "valid_command (StopOrder _ stop qty _) = (0 < stop \<and> 0 < qty)"
| "valid_command (StopLimitOrder _ stop limit qty _) = (0 < stop \<and> 0 < limit \<and> 0 < qty)"
| "valid_command (CancelOrder i) = (0 < i)"
| "valid_command (ReplaceOrder i price qty) = (0 < i \<and> 0 < price \<and> 0 < qty)"
| "valid_command (SetPriceBands _ lower upper) = (0 < lower \<and> 0 < upper)"
| "valid_command _ = True"

text \<open>The JSON form of a command, every field written out.\<close>

fun side_str :: "side \<Rightarrow> string" where
  "side_str BUY = ''BUY''"
| "side_str SELL = ''SELL''"

fun tif_str :: "time_in_force \<Rightarrow> string" where
  "tif_str GTC = ''GTC''"
| "tif_str IOC = ''IOC''"
| "tif_str FOK = ''FOK''"

fun phase_str :: "trading_phase \<Rightarrow> string" where
  "phase_str Continuous = ''Continuous''"
| "phase_str OpeningAuction = ''OpeningAuction''"
| "phase_str ClosingAuction = ''ClosingAuction''"
| "phase_str Halted = ''Halted''"

fun command_json :: "command \<Rightarrow> string \<times> pydict" where
  "command_json (LimitOrder s p q t y) = (''LimitOrder'',
     [(''side'', PStr (side_str s)), (''price'', PInt p), (''qty'', PInt q),
      (''time_in_force'', PStr (tif_str t)), (''symbol'', PStr y)])"
| "command_json (HiddenOrder s p q y) = (''HiddenOrder'',
     [(''side'', PStr (side_str s)), (''price'', PInt p), (''qty'', PInt q), (''symbol'', PStr y)])"
| "command_json (IcebergOrder s p t d y) = (''IcebergOrder'',
     [(''side'', PStr (side_str s)), (''price'', PInt p), (''total_qty'', PInt t),
      (''display_qty'', PInt d), (''symbol'', PStr y)])"
| "command_json (MarketOrder s q y) = (''MarketOrder'',
     [(''side'', PStr (side_str s)), (''qty'', PInt q), (''symbol'', PStr y)])"
| "command_json (StopOrder s p q y) = (''StopMarketOrder'',
     [(''side'', PStr (side_str s)), (''stop_price'', PInt p), (''qty'', PInt q),
      (''symbol'', PStr y)])"
| "command_json (StopLimitOrder s p l q y) = (''StopLimitOrder'',
     [(''side'', PStr (side_str s)), (''stop_price'', PInt p), (''limit_price'', PInt l),
      (''qty'', PInt q), (''symbol'', PStr y)])"
| "command_json (CancelOrder i) = (''CancelOrder'', [(''order_id'', PInt i)])"
| "command_json (ReplaceOrder i p q) = (''ReplaceOrder'',
     [(''order_id'', PInt i), (''price'', PInt p), (''qty'', PInt q)])"
| "command_json (SetTradingPhase y h) = (''SetTradingPhase'',
     [(''symbol'', PStr y), (''phase'', PStr (phase_str h))])"
| "command_json (HaltSymbol y r) = (''HaltSymbol'', [(''symbol'', PStr y), (''reason'', PStr r)])"
| "command_json (ResumeSymbol y) = (''ResumeSymbol'', [(''symbol'', PStr y)])"
| "command_json (SetPriceBands y l u) = (''SetPriceBands'',
     [(''symbol'', PStr y), (''lower_price'', PInt l), (''upper_price'', PInt u)])"
| "command_json (ClearPriceBands y) = (''ClearPriceBands'', [(''symbol'', PStr y)])"
| "command_json (UncrossAuction y) = (''UncrossAuction'', [(''symbol'', PStr y)])"

definition command_to_json :: "command \<Rightarrow> pyval" where
  "command_to_json c =
     (case command_json c of (ty, data) \<Rightarrow> PDict [(''type'', PStr ty), (''data'', PDict data)])"

lemmas command_branch_defs =
  parse_limit_order_def parse_hidden_order_def parse_iceberg_order_def parse_market_order_def
  parse_stop_order_def parse_stop_limit_order_def parse_cancel_order_def parse_replace_order_def
  parse_set_trading_phase_def parse_halt_symbol_def parse_resume_symbol_def
  parse_set_price_bands_def parse_clear_price_bands_def parse_uncross_auction_def

lemmas field_defs = field_of_def field1_of_def optional_symbol_def

lemma require_positive_int_Inr [result_simps]:
  "require_positive_int v n = Inr i \<longleftrightarrow> v = PInt i \<and> 0 < i"
  by (cases v) (auto simp: require_positive_int_def require_int_def)

lemma require_int_Inr [result_simps]: "require_int v n = Inr i \<longleftrightarrow> v = PInt i"
  by (cases v) (auto simp: require_int_def)

lemma require_symbol_Inr [result_simps]: "require_symbol v = Inr s \<longleftrightarrow> v = PStr s"
  by (cases v) (auto simp: require_symbol_def)

lemma require_literal_PStr [simp]:
  "require_side (PStr (side_str s)) = Inr s"
  "require_time_in_force (PStr (tif_str t)) = Inr t"
  "require_trading_phase (PStr (phase_str h)) = Inr h"
  by (cases s, simp_all add: require_side_def in_literals_def)
    (cases t, simp_all add: require_time_in_force_def in_literals_def,
     cases h, simp_all add: require_trading_phase_def in_literals_def)

lemma require_checks_simp [simp]:
  "require_int (PInt i) n = Inr i"
  "0 < i \<Longrightarrow> require_positive_int (PInt i) n = Inr i"
  "require_symbol (PStr s) = Inr s"
  "require_dict (PDict d) n = Inr d"
  by (simp_all add: require_int_def require_positive_int_def require_symbol_def require_dict_def)

lemma command_branch_valid:
  assumes "(ty, parse) \<in> set command_branches" and "parse data = Inr c"
  shows "valid_command c"
  using assms
  by (auto simp: command_branches_def command_branch_defs field_defs bind_r_Inr_iff
      require_positive_int_Inr split: option.splits if_splits)

lemma dindex_Inr [result_simps]: "dindex d k = Inr v \<longleftrightarrow> map_of d k = Some v"
  by (auto simp: dindex_def split: option.splits)

lemma require_dict_Inr [result_simps]: "require_dict v n = Inr d \<longleftrightarrow> v = PDict d"
  by (cases v) (auto simp: require_dict_def)

lemma require_exact_keys_Inr [result_simps]:
  "require_exact_keys d ks n = Inr u \<longleftrightarrow> dkeys d = set ks"
  by (auto simp: require_exact_keys_def)

lemma require_command_keys_Inr [result_simps]:
  "require_command_keys d ks n = Inr u \<longleftrightarrow> dkeys d = set ks \<or> dkeys d = insert ''symbol'' (set ks)"
  by (auto simp: require_command_keys_def Let_def)

lemma in_literals_Inr: "in_literals v ls m = Inr x \<Longrightarrow> \<exists>s. v = PStr s \<and> map_of ls s = Some x"
  by (cases v) (auto simp: in_literals_def split: option.splits)

lemma require_side_Inr [result_simps]: "require_side v = Inr s \<longleftrightarrow> v = PStr (side_str s)"
  by (cases s) (auto simp: require_side_def dest!: in_literals_Inr split: if_splits;
    simp add: in_literals_def)+

lemma require_time_in_force_Inr [result_simps]:
  "require_time_in_force v = Inr t \<longleftrightarrow> v = PStr (tif_str t)"
  by (cases t) (auto simp: require_time_in_force_def dest!: in_literals_Inr split: if_splits;
    simp add: in_literals_def)+

lemma require_trading_phase_Inr [result_simps]:
  "require_trading_phase v = Inr h \<longleftrightarrow> v = PStr (phase_str h)"
  by (cases h) (auto simp: require_trading_phase_def dest!: in_literals_Inr split: if_splits;
    simp add: in_literals_def)+

lemma optional_symbol_Inr [result_simps]:
  "optional_symbol d = Inr s \<longleftrightarrow>
     map_of d ''symbol'' = Some (PStr s) \<or> (map_of d ''symbol'' = None \<and> s = DEFAULT_SYMBOL)"
  by (auto simp: optional_symbol_def dget_default_def require_symbol_Inr split: option.splits)

lemma parse_command_Inr:
  "parse_command raw = Inr c \<longleftrightarrow>
     (\<exists>command ty data parse. raw = PDict command \<and> dkeys command = {''type'', ''data''} \<and>
        map_of command ''type'' = Some (PStr ty) \<and> map_of command ''data'' = Some (PDict data) \<and>
        map_of command_branches ty = Some parse \<and> parse data = Inr c)"
proof -
  have str: "string_value v = Some s \<longleftrightarrow> v = PStr s" for v s by (cases v) auto
  show ?thesis
    unfolding parse_command_def field1_of_def
    by (force simp: result_simps str split: option.splits)
qed

lemma parse_command_valid: "parse_command raw = Inr c \<Longrightarrow> valid_command c"
  by (auto simp: parse_command_Inr dest!: map_of_SomeD intro: command_branch_valid)

lemma parse_command_complete: "valid_command c \<Longrightarrow> parse_command (command_to_json c) = Inr c"
  by (cases c)
    (auto simp: parse_command_def command_to_json_def field_defs require_exact_keys_def
      command_branches_def command_branch_defs require_command_keys_def insert_commute)

text \<open>
  The parser loses nothing: the fields of the raw command are the fields of the JSON form of the
  parsed one; only a missing \<open>symbol\<close> is filled in.
\<close>

definition same_fields :: "pydict \<Rightarrow> pydict \<Rightarrow> bool" where
  "same_fields data full \<longleftrightarrow>
     (\<forall>k. map_of data k = map_of full k \<or>
       (k = ''symbol'' \<and> map_of data k = None \<and> map_of full k = Some (PStr DEFAULT_SYMBOL)))"

lemma same_fieldsI:
  assumes "dkeys data = K \<or> dkeys data = insert ''symbol'' K" and "dkeys full = insert ''symbol'' K"
    and "\<And>k. k \<in> K \<Longrightarrow> map_of data k = map_of full k"
    and "map_of data ''symbol'' = map_of full ''symbol'' \<or>
      (map_of data ''symbol'' = None \<and> map_of full ''symbol'' = Some (PStr DEFAULT_SYMBOL))"
  shows "same_fields data full"
proof -
  have "map_of data k = map_of full k" if "k \<noteq> ''symbol''" for k
  proof (cases "k \<in> K")
    case True
    then show ?thesis by (rule assms(3))
  next
    case False
    with that assms(1,2) have "k \<notin> dkeys data" and "k \<notin> dkeys full" by auto
    then show ?thesis by (simp add: map_of_eq_None_iff [THEN iffD2])
  qed
  with assms(4) show ?thesis unfolding same_fields_def by metis
qed

lemma same_fields_exactI:
  assumes "dkeys data = dkeys full" and "\<And>k. k \<in> dkeys full \<Longrightarrow> map_of data k = map_of full k"
  shows "same_fields data full"
proof -
  have "map_of data k = map_of full k" for k
  proof (cases "k \<in> dkeys full")
    case True
    then show ?thesis by (rule assms(2))
  next
    case False
    with assms(1) show ?thesis by (simp add: map_of_eq_None_iff [THEN iffD2])
  qed
  then show ?thesis by (simp add: same_fields_def)
qed

text \<open>The key check of a branch together with the values it read.\<close>

lemma command_keys_same_fields:
  assumes "require_command_keys data ks n = Inr u" and "optional_symbol data = Inr y"
    and "dkeys full = insert ''symbol'' (set ks)" and "map_of full ''symbol'' = Some (PStr y)"
    and "\<forall>k \<in> set ks. map_of data k = map_of full k"
  shows "same_fields data full"
  using assms by (intro same_fieldsI [where K = "set ks"]) (auto simp: result_simps)

lemma exact_keys_same_fields:
  assumes "require_exact_keys data ks n = Inr u" and "dkeys full = set ks"
    and "\<forall>k \<in> set ks. map_of data k = map_of full k"
  shows "same_fields data full"
  using assms by (intro same_fields_exactI) (auto simp: result_simps)

lemmas field_Inr = field_of_def field1_of_def bind_r_Inr_iff dindex_Inr require_positive_int_Inr
  require_int_Inr require_symbol_Inr require_side_Inr require_time_in_force_Inr
  require_trading_phase_Inr

lemma string_value_Some: "string_value v = Some s \<longleftrightarrow> v = PStr s"
  by (cases v) auto

lemma command_branch_fields:
  assumes "(ty, parse) \<in> set command_branches" and "parse data = Inr c"
  shows "fst (command_json c) = ty \<and> same_fields data (snd (command_json c))"
proof -
  note intro = command_keys_same_fields exact_keys_same_fields
  from assms(1) show ?thesis
    unfolding command_branches_def
    using assms(2)
    by (simp only: set_simps insert_iff empty_iff prod.inject simp_thms, elim disjE)
      ((clarsimp simp: command_branch_defs field_Inr string_value_Some
        split: if_splits option.splits, rule intro, assumption+, (simp add: insert_commute)+)[1])+
qed

end
