(* ===== verification/Events.thy ===== *)
theory Events
  imports Commands
begin

text \<open>
  The strict event models of \<open>sim/tes_models/events.py\<close>: the data classes, the twenty-two event
  classes, the field checks and \<open>parse_event\<close>, with the serializer of
  \<open>sim/tes_serialization/events.py\<close>. The module repeats the checks of the command models; the
  copies are modelled as they stand (suffix \<open>_ev\<close>) and shown equal. The main lemma says exactly
  which events survive a round trip through their JSON form.
\<close>

section \<open>Data classes\<close>

(* sim/tes_models/events.py:8-24 RejectReasonLiteral *)
datatype reject_reason =
    InvalidPrice
  | InvalidQuantity
  | UnknownOrderId
  | NoLiquidity
  | InsufficientCash
  | InsufficientPosition
  | WrongAccount
  | InsufficientBuyingPower
  | ShortSellingDisabled
  | MarginRequirementFailed
  | MaintenanceMarginBreached
  | SymbolHaltedReason
  | PriceBandViolation
  | CircuitBreakerViolation
  | AuctionPriceOutOfBand

fun reason_str :: "reject_reason \<Rightarrow> string" where
  "reason_str InvalidPrice = ''InvalidPrice''"
| "reason_str InvalidQuantity = ''InvalidQuantity''"
| "reason_str UnknownOrderId = ''UnknownOrderId''"
| "reason_str NoLiquidity = ''NoLiquidity''"
| "reason_str InsufficientCash = ''InsufficientCash''"
| "reason_str InsufficientPosition = ''InsufficientPosition''"
| "reason_str WrongAccount = ''WrongAccount''"
| "reason_str InsufficientBuyingPower = ''InsufficientBuyingPower''"
| "reason_str ShortSellingDisabled = ''ShortSellingDisabled''"
| "reason_str MarginRequirementFailed = ''MarginRequirementFailed''"
| "reason_str MaintenanceMarginBreached = ''MaintenanceMarginBreached''"
| "reason_str SymbolHaltedReason = ''SymbolHalted''"
| "reason_str PriceBandViolation = ''PriceBandViolation''"
| "reason_str CircuitBreakerViolation = ''CircuitBreakerViolation''"
| "reason_str AuctionPriceOutOfBand = ''AuctionPriceOutOfBand''"

definition reject_reasons :: "(string \<times> reject_reason) list" where
  "reject_reasons =
     [(''InvalidPrice'', InvalidPrice),
      (''InvalidQuantity'', InvalidQuantity),
      (''UnknownOrderId'', UnknownOrderId),
      (''NoLiquidity'', NoLiquidity),
      (''InsufficientCash'', InsufficientCash),
      (''InsufficientPosition'', InsufficientPosition),
      (''WrongAccount'', WrongAccount),
      (''InsufficientBuyingPower'', InsufficientBuyingPower),
      (''ShortSellingDisabled'', ShortSellingDisabled),
      (''MarginRequirementFailed'', MarginRequirementFailed),
      (''MaintenanceMarginBreached'', MaintenanceMarginBreached),
      (''SymbolHalted'', SymbolHaltedReason),
      (''PriceBandViolation'', PriceBandViolation),
      (''CircuitBreakerViolation'', CircuitBreakerViolation),
      (''AuctionPriceOutOfBand'', AuctionPriceOutOfBand)]"

(* sim/tes_models/events.py:27-33 OrderAcceptedData *)
datatype order_accepted_data =
  OrderAcceptedData int side int int string

(* sim/tes_models/events.py:36-42 HiddenOrderAcceptedData *)
datatype hidden_order_accepted_data =
  HiddenOrderAcceptedData int side int int string

(* sim/tes_models/events.py:45-55 IcebergOrderAcceptedData *)
datatype iceberg_order_accepted_data =
  IcebergOrderAcceptedData int side int int int int int int string

(* sim/tes_models/events.py:58-67 IcebergReplenishedData *)
datatype iceberg_replenished_data =
  IcebergReplenishedData int side int int int int int string

(* sim/tes_models/events.py:70-73 OrderCanceledData *)
datatype order_canceled_data =
  OrderCanceledData int string

(* sim/tes_models/events.py:76-82 OrderRejectedData *)
datatype order_rejected_data =
  OrderRejectedData side int int reject_reason string

(* sim/tes_models/events.py:85-89 CancelRejectedData *)
datatype cancel_rejected_data =
  CancelRejectedData int reject_reason string

(* sim/tes_models/events.py:92-98 TradeExecutedData *)
datatype trade_executed_data =
  TradeExecutedData int int int int string

(* sim/tes_models/events.py:101-106 OrderPartiallyFilledData *)
datatype order_partially_filled_data =
  OrderPartiallyFilledData int int int string

(* sim/tes_models/events.py:109-113 OrderFilledData *)
datatype order_filled_data =
  OrderFilledData int int string

(* sim/tes_models/events.py:116-119 OrderExpiredData *)
datatype order_expired_data =
  OrderExpiredData int string

(* sim/tes_models/events.py:122-129 StopOrderAcceptedData *)
datatype stop_order_accepted_data =
  StopOrderAcceptedData int side int int "int option" string

(* sim/tes_models/events.py:132-140 StopOrderTriggeredData *)
datatype stop_order_triggered_data =
  StopOrderTriggeredData int int side int int "int option" string

(* sim/tes_models/events.py:143-147 TopOfBookData *)
datatype top_of_book_data =
  TopOfBookData "int option" "int option" string

(* sim/tes_models/events.py:150-153 AuctionPhaseData *)
datatype auction_phase_data =
  AuctionPhaseData string trading_phase

(* sim/tes_models/events.py:156-161 AuctionUncrossData *)
datatype auction_uncross_data =
  AuctionUncrossData string int int int

(* sim/tes_models/events.py:164-167 SymbolHaltedData *)
datatype symbol_halted_data =
  SymbolHaltedData string string

(* sim/tes_models/events.py:170-172 SymbolResumedData *)
datatype symbol_resumed_data =
  SymbolResumedData string

(* sim/tes_models/events.py:175-179 PriceBandUpdatedData *)
datatype price_band_updated_data =
  PriceBandUpdatedData string "int option" "int option"

(* sim/tes_models/events.py:182-186 CircuitBreakerTriggeredData *)
datatype circuit_breaker_triggered_data =
  CircuitBreakerTriggeredData string int string

(* sim/tes_models/events.py:189-194 IndicativePriceUpdatedData *)
datatype indicative_price_updated_data =
  IndicativePriceUpdatedData string "int option" int int

section \<open>Event classes\<close>

(* sim/tes_models/events.py:197-352 TesEngineEvent *)
datatype event =
    OrderAccepted order_accepted_data
  | HiddenOrderAccepted hidden_order_accepted_data
  | IcebergOrderAccepted iceberg_order_accepted_data
  | IcebergReplenished iceberg_replenished_data
  | OrderRejected order_rejected_data
  | OrderCanceled order_canceled_data
  | CancelRejected cancel_rejected_data
  | TradeExecuted trade_executed_data
  | StopOrderAccepted stop_order_accepted_data
  | StopOrderTriggered stop_order_triggered_data
  | TopOfBook top_of_book_data
  | OrderPartiallyFilled order_partially_filled_data
  | OrderFilled order_filled_data
  | OrderExpired order_expired_data
  | SymbolHalted symbol_halted_data
  | SymbolResumed symbol_resumed_data
  | PriceBandUpdated price_band_updated_data
  | CircuitBreakerTriggered circuit_breaker_triggered_data
  | AuctionStarted auction_phase_data
  | AuctionEnded auction_phase_data
  | AuctionUncross auction_uncross_data
  | IndicativePriceUpdated indicative_price_updated_data

section \<open>Field checks\<close>

(* sim/tes_models/events.py:358-361 _require_dict *)
definition require_dict_ev :: "pyval \<Rightarrow> string \<Rightarrow> pydict result" where
  "require_dict_ev value name =
     (case dict_value value of None \<Rightarrow> Inl (ValueError (name @ '' must be a dict''))
      | Some d \<Rightarrow> Inr d)"

(* sim/tes_models/events.py:364-367 _require_exact_keys *)
definition require_exact_keys_ev :: "pydict \<Rightarrow> string list \<Rightarrow> string \<Rightarrow> unit result" where
  "require_exact_keys_ev value expected name =
     (if dkeys value = set expected then Inr ()
      else Inl (ValueError (name @ '' keys must be exactly '' @ list_repr (sorted_keys expected)
             @ '', got '' @ list_repr (sorted_keys (map fst value)))))"

(* sim/tes_models/events.py:370-374 _require_event_keys *)
definition require_event_keys :: "pydict \<Rightarrow> string list \<Rightarrow> string \<Rightarrow> unit result" where
  "require_event_keys value expected name =
     (let with_symbol = ''symbol'' # expected
      in if dkeys value = set expected \<or> dkeys value = set with_symbol then Inr ()
         else Inl (ValueError (name @ '' keys must be exactly '' @ list_repr (sorted_keys expected)
             @ '' or '' @ list_repr (sorted_keys with_symbol)
             @ '', got '' @ list_repr (sorted_keys (map fst value)))))"

(* sim/tes_models/events.py:377-380 _require_int *)
definition require_int_ev :: "pyval \<Rightarrow> string \<Rightarrow> int result" where
  "require_int_ev value field_name =
     (case int_value value of None \<Rightarrow> Inl (ValueError (field_name @ '' must be an int''))
      | Some i \<Rightarrow> Inr i)"

(* sim/tes_models/events.py:383-386 _require_optional_int *)
definition require_optional_int :: "pyval \<Rightarrow> string \<Rightarrow> int option result" where
  "require_optional_int value field_name =
     (if value = PNone then Inr None else bind_r (require_int_ev value field_name) (\<lambda>i. Inr (Some i)))"

(* sim/tes_models/events.py:389-392 _require_symbol *)
definition require_symbol_ev :: "pyval \<Rightarrow> string result" where
  "require_symbol_ev value =
     (case string_value value of None \<Rightarrow> Inl (ValueError ''symbol must be a string'')
      | Some s \<Rightarrow> Inr s)"

(* sim/tes_models/events.py:395-396 _optional_symbol *)
definition optional_symbol_ev :: "pydict \<Rightarrow> string result" where
  "optional_symbol_ev data = require_symbol_ev (dget_default data ''symbol'' (PStr DEFAULT_SYMBOL))"

(* sim/tes_models/events.py:399-402 _require_side *)
definition require_side_ev :: "pyval \<Rightarrow> side result" where
  "require_side_ev value = in_literals value [(''BUY'', BUY), (''SELL'', SELL)]
     (''side must be either '' @ str_repr ''BUY'' @ '' or '' @ str_repr ''SELL'')"

(* sim/tes_models/events.py:405-408 _require_trading_phase *)
definition require_trading_phase_ev :: "pyval \<Rightarrow> trading_phase result" where
  "require_trading_phase_ev value = in_literals value
     [(''Continuous'', Continuous), (''OpeningAuction'', OpeningAuction),
      (''ClosingAuction'', ClosingAuction), (''Halted'', Halted)]
     ''phase must be one of: Continuous, OpeningAuction, ClosingAuction, Halted''"

(* sim/tes_models/events.py:411-431 _require_reject_reason *)
definition require_reject_reason :: "pyval \<Rightarrow> reject_reason result" where
  "require_reject_reason value = in_literals value reject_reasons
     (''reason must be one of '' @ join '', '' (sort (map fst reject_reasons)))"

text \<open>The copies of the command module's checks are the same functions.\<close>

lemma checks_ev_eq:
  "require_dict_ev = require_dict"
  "require_exact_keys_ev = require_exact_keys"
  "require_event_keys = require_command_keys"
  "require_int_ev = require_int"
  "require_symbol_ev = require_symbol"
  "optional_symbol_ev = optional_symbol"
  "require_side_ev = require_side"
  "require_trading_phase_ev = require_trading_phase"
  by (intro ext, simp add: require_dict_ev_def require_dict_def
        require_exact_keys_ev_def require_exact_keys_def require_event_keys_def require_command_keys_def
        require_int_ev_def require_int_def require_symbol_ev_def require_symbol_def
        optional_symbol_ev_def optional_symbol_def require_side_ev_def require_side_def
        require_trading_phase_ev_def require_trading_phase_def)+

section \<open>The parser, one definition per branch\<close>

(* sim/tes_models/events.py:444-455 parse_event *)
definition parse_order_accepted :: "pydict \<Rightarrow> event result" where
  "parse_order_accepted data =
     bind_r (require_event_keys data [''order_id'', ''side'', ''price'', ''qty''] ''OrderAccepted.data'') (\<lambda>_.
     bind_r (field_of data ''order_id'' require_int_ev) (\<lambda>order_id.
     bind_r (field1_of data ''side'' require_side_ev) (\<lambda>side'.
     bind_r (field_of data ''price'' require_int_ev) (\<lambda>price'.
     bind_r (field_of data ''qty'' require_int_ev) (\<lambda>qty.
     bind_r (optional_symbol_ev data) (\<lambda>symbol'.
       Inr (OrderAccepted (OrderAcceptedData order_id side' price' qty symbol'))))))))"

(* sim/tes_models/events.py:457-468 parse_event *)
definition parse_hidden_order_accepted :: "pydict \<Rightarrow> event result" where
  "parse_hidden_order_accepted data =
     bind_r (require_event_keys data [''order_id'', ''side'', ''price'', ''total_qty''] ''HiddenOrderAccepted.data'') (\<lambda>_.
     bind_r (field_of data ''order_id'' require_int_ev) (\<lambda>order_id.
     bind_r (field1_of data ''side'' require_side_ev) (\<lambda>side'.
     bind_r (field_of data ''price'' require_int_ev) (\<lambda>price'.
     bind_r (field_of data ''total_qty'' require_int_ev) (\<lambda>total_qty.
     bind_r (optional_symbol_ev data) (\<lambda>symbol'.
       Inr (HiddenOrderAccepted (HiddenOrderAcceptedData order_id side' price' total_qty symbol'))))))))"

(* sim/tes_models/events.py:470-489 parse_event *)
definition parse_iceberg_order_accepted :: "pydict \<Rightarrow> event result" where
  "parse_iceberg_order_accepted data =
     bind_r (require_event_keys data [''order_id'', ''side'', ''price'', ''total_qty'', ''display_qty'', ''reserve_qty'', ''hidden_remaining'', ''current_visible_qty''] ''IcebergOrderAccepted.data'') (\<lambda>_.
     bind_r (field_of data ''order_id'' require_int_ev) (\<lambda>order_id.
     bind_r (field1_of data ''side'' require_side_ev) (\<lambda>side'.
     bind_r (field_of data ''price'' require_int_ev) (\<lambda>price'.
     bind_r (field_of data ''total_qty'' require_int_ev) (\<lambda>total_qty.
     bind_r (field_of data ''display_qty'' require_int_ev) (\<lambda>display_qty.
     bind_r (field_of data ''reserve_qty'' require_int_ev) (\<lambda>reserve_qty.
     bind_r (field_of data ''hidden_remaining'' require_int_ev) (\<lambda>hidden_remaining.
     bind_r (field_of data ''current_visible_qty'' require_int_ev) (\<lambda>current_visible_qty.
     bind_r (optional_symbol_ev data) (\<lambda>symbol'.
       Inr (IcebergOrderAccepted (IcebergOrderAcceptedData order_id side' price' total_qty display_qty reserve_qty hidden_remaining current_visible_qty symbol'))))))))))))"

(* sim/tes_models/events.py:491-509 parse_event *)
definition parse_iceberg_replenished :: "pydict \<Rightarrow> event result" where
  "parse_iceberg_replenished data =
     bind_r (require_event_keys data [''order_id'', ''side'', ''price'', ''replenished_qty'', ''reserve_qty'', ''hidden_remaining'', ''total_remaining_qty''] ''IcebergReplenished.data'') (\<lambda>_.
     bind_r (field_of data ''order_id'' require_int_ev) (\<lambda>order_id.
     bind_r (field1_of data ''side'' require_side_ev) (\<lambda>side'.
     bind_r (field_of data ''price'' require_int_ev) (\<lambda>price'.
     bind_r (field_of data ''replenished_qty'' require_int_ev) (\<lambda>replenished_qty.
     bind_r (field_of data ''reserve_qty'' require_int_ev) (\<lambda>reserve_qty.
     bind_r (field_of data ''hidden_remaining'' require_int_ev) (\<lambda>hidden_remaining.
     bind_r (field_of data ''total_remaining_qty'' require_int_ev) (\<lambda>total_remaining_qty.
     bind_r (optional_symbol_ev data) (\<lambda>symbol'.
       Inr (IcebergReplenished (IcebergReplenishedData order_id side' price' replenished_qty reserve_qty hidden_remaining total_remaining_qty symbol')))))))))))"

(* sim/tes_models/events.py:511-522 parse_event *)
definition parse_order_rejected :: "pydict \<Rightarrow> event result" where
  "parse_order_rejected data =
     bind_r (require_event_keys data [''side'', ''price'', ''qty'', ''reason''] ''OrderRejected.data'') (\<lambda>_.
     bind_r (field1_of data ''side'' require_side_ev) (\<lambda>side'.
     bind_r (field_of data ''price'' require_int_ev) (\<lambda>price'.
     bind_r (field_of data ''qty'' require_int_ev) (\<lambda>qty.
     bind_r (field1_of data ''reason'' require_reject_reason) (\<lambda>reason'.
     bind_r (optional_symbol_ev data) (\<lambda>symbol'.
       Inr (OrderRejected (OrderRejectedData side' price' qty reason' symbol'))))))))"

(* sim/tes_models/events.py:524-529 parse_event *)
definition parse_order_canceled :: "pydict \<Rightarrow> event result" where
  "parse_order_canceled data =
     bind_r (require_event_keys data [''order_id''] ''OrderCanceled.data'') (\<lambda>_.
     bind_r (field_of data ''order_id'' require_int_ev) (\<lambda>order_id.
     bind_r (optional_symbol_ev data) (\<lambda>symbol'.
       Inr (OrderCanceled (OrderCanceledData order_id symbol')))))"

(* sim/tes_models/events.py:531-540 parse_event *)
definition parse_cancel_rejected :: "pydict \<Rightarrow> event result" where
  "parse_cancel_rejected data =
     bind_r (require_event_keys data [''order_id'', ''reason''] ''CancelRejected.data'') (\<lambda>_.
     bind_r (field_of data ''order_id'' require_int_ev) (\<lambda>order_id.
     bind_r (field1_of data ''reason'' require_reject_reason) (\<lambda>reason'.
     bind_r (optional_symbol_ev data) (\<lambda>symbol'.
       Inr (CancelRejected (CancelRejectedData order_id reason' symbol'))))))"

(* sim/tes_models/events.py:542-553 parse_event *)
definition parse_trade_executed :: "pydict \<Rightarrow> event result" where
  "parse_trade_executed data =
     bind_r (require_event_keys data [''price'', ''qty'', ''maker_order_id'', ''taker_order_id''] ''TradeExecuted.data'') (\<lambda>_.
     bind_r (field_of data ''price'' require_int_ev) (\<lambda>price'.
     bind_r (field_of data ''qty'' require_int_ev) (\<lambda>qty.
     bind_r (field_of data ''maker_order_id'' require_int_ev) (\<lambda>maker_order_id.
     bind_r (field_of data ''taker_order_id'' require_int_ev) (\<lambda>taker_order_id.
     bind_r (optional_symbol_ev data) (\<lambda>symbol'.
       Inr (TradeExecuted (TradeExecutedData price' qty maker_order_id taker_order_id symbol'))))))))"

(* sim/tes_models/events.py:555-567 parse_event *)
definition parse_stop_order_accepted :: "pydict \<Rightarrow> event result" where
  "parse_stop_order_accepted data =
     bind_r (require_event_keys data [''order_id'', ''side'', ''stop_price'', ''qty'', ''limit_price''] ''StopOrderAccepted.data'') (\<lambda>_.
     bind_r (field_of data ''order_id'' require_int_ev) (\<lambda>order_id.
     bind_r (field1_of data ''side'' require_side_ev) (\<lambda>side'.
     bind_r (field_of data ''stop_price'' require_int_ev) (\<lambda>stop_price.
     bind_r (field_of data ''qty'' require_int_ev) (\<lambda>qty.
     bind_r (field_of data ''limit_price'' require_optional_int) (\<lambda>limit_price.
     bind_r (optional_symbol_ev data) (\<lambda>symbol'.
       Inr (StopOrderAccepted (StopOrderAcceptedData order_id side' stop_price qty limit_price symbol')))))))))"

(* sim/tes_models/events.py:569-586 parse_event *)
definition parse_stop_order_triggered :: "pydict \<Rightarrow> event result" where
  "parse_stop_order_triggered data =
     bind_r (require_event_keys data [''order_id'', ''resulting_order_id'', ''side'', ''stop_price'', ''qty'', ''limit_price''] ''StopOrderTriggered.data'') (\<lambda>_.
     bind_r (field_of data ''order_id'' require_int_ev) (\<lambda>order_id.
     bind_r (field_of data ''resulting_order_id'' require_int_ev) (\<lambda>resulting_order_id.
     bind_r (field1_of data ''side'' require_side_ev) (\<lambda>side'.
     bind_r (field_of data ''stop_price'' require_int_ev) (\<lambda>stop_price.
     bind_r (field_of data ''qty'' require_int_ev) (\<lambda>qty.
     bind_r (field_of data ''limit_price'' require_optional_int) (\<lambda>limit_price.
     bind_r (optional_symbol_ev data) (\<lambda>symbol'.
       Inr (StopOrderTriggered (StopOrderTriggeredData order_id resulting_order_id side' stop_price qty limit_price symbol'))))))))))"

(* sim/tes_models/events.py:588-597 parse_event *)
definition parse_top_of_book :: "pydict \<Rightarrow> event result" where
  "parse_top_of_book data =
     bind_r (require_event_keys data [''best_bid'', ''best_ask''] ''TopOfBook.data'') (\<lambda>_.
     bind_r (field_of data ''best_bid'' require_optional_int) (\<lambda>best_bid.
     bind_r (field_of data ''best_ask'' require_optional_int) (\<lambda>best_ask.
     bind_r (optional_symbol_ev data) (\<lambda>symbol'.
       Inr (TopOfBook (TopOfBookData best_bid best_ask symbol'))))))"

(* sim/tes_models/events.py:599-609 parse_event *)
definition parse_order_partially_filled :: "pydict \<Rightarrow> event result" where
  "parse_order_partially_filled data =
     bind_r (require_event_keys data [''order_id'', ''last_fill_qty'', ''remaining_qty''] ''OrderPartiallyFilled.data'') (\<lambda>_.
     bind_r (field_of data ''order_id'' require_int_ev) (\<lambda>order_id.
     bind_r (field_of data ''last_fill_qty'' require_int_ev) (\<lambda>last_fill_qty.
     bind_r (field_of data ''remaining_qty'' require_int_ev) (\<lambda>remaining_qty.
     bind_r (optional_symbol_ev data) (\<lambda>symbol'.
       Inr (OrderPartiallyFilled (OrderPartiallyFilledData order_id last_fill_qty remaining_qty symbol')))))))"

(* sim/tes_models/events.py:611-620 parse_event *)
definition parse_order_filled :: "pydict \<Rightarrow> event result" where
  "parse_order_filled data =
     bind_r (require_event_keys data [''order_id'', ''last_fill_qty''] ''OrderFilled.data'') (\<lambda>_.
     bind_r (field_of data ''order_id'' require_int_ev) (\<lambda>order_id.
     bind_r (field_of data ''last_fill_qty'' require_int_ev) (\<lambda>last_fill_qty.
     bind_r (optional_symbol_ev data) (\<lambda>symbol'.
       Inr (OrderFilled (OrderFilledData order_id last_fill_qty symbol'))))))"

(* sim/tes_models/events.py:622-627 parse_event *)
definition parse_order_expired :: "pydict \<Rightarrow> event result" where
  "parse_order_expired data =
     bind_r (require_event_keys data [''order_id''] ''OrderExpired.data'') (\<lambda>_.
     bind_r (field_of data ''order_id'' require_int_ev) (\<lambda>order_id.
     bind_r (optional_symbol_ev data) (\<lambda>symbol'.
       Inr (OrderExpired (OrderExpiredData order_id symbol')))))"

(* sim/tes_models/events.py:630-635 parse_event *)
definition parse_symbol_halted :: "pydict \<Rightarrow> event result" where
  "parse_symbol_halted data =
     bind_r (require_exact_keys_ev data [''symbol'', ''reason''] ''SymbolHalted.data'') (\<lambda>_.
     bind_r (dindex data ''reason'') (\<lambda>reason_v.
     case string_value reason_v of None \<Rightarrow> Inl (ValueError ''reason must be a string'')
     | Some reason' \<Rightarrow>
     bind_r (field1_of data ''symbol'' require_symbol_ev) (\<lambda>symbol'.
       Inr (SymbolHalted (SymbolHaltedData symbol' reason')))))"

(* sim/tes_models/events.py:637-639 parse_event *)
definition parse_symbol_resumed :: "pydict \<Rightarrow> event result" where
  "parse_symbol_resumed data =
     bind_r (require_exact_keys_ev data [''symbol''] ''SymbolResumed.data'') (\<lambda>_.
     bind_r (field1_of data ''symbol'' require_symbol_ev) (\<lambda>symbol'.
       Inr (SymbolResumed (SymbolResumedData symbol'))))"

(* sim/tes_models/events.py:641-643 parse_event *)
definition parse_price_band_updated :: "pydict \<Rightarrow> event result" where
  "parse_price_band_updated data =
     bind_r (require_exact_keys_ev data [''symbol'', ''lower_price'', ''upper_price''] ''PriceBandUpdated.data'') (\<lambda>_.
     bind_r (field1_of data ''symbol'' require_symbol_ev) (\<lambda>symbol'.
     bind_r (field_of data ''lower_price'' require_optional_int) (\<lambda>lower_price.
     bind_r (field_of data ''upper_price'' require_optional_int) (\<lambda>upper_price.
       Inr (PriceBandUpdated (PriceBandUpdatedData symbol' lower_price upper_price))))))"

(* sim/tes_models/events.py:645-650 parse_event *)
definition parse_circuit_breaker_triggered :: "pydict \<Rightarrow> event result" where
  "parse_circuit_breaker_triggered data =
     bind_r (require_exact_keys_ev data [''symbol'', ''price'', ''reason''] ''CircuitBreakerTriggered.data'') (\<lambda>_.
     bind_r (dindex data ''reason'') (\<lambda>reason_v.
     case string_value reason_v of None \<Rightarrow> Inl (ValueError ''reason must be a string'')
     | Some reason' \<Rightarrow>
     bind_r (field1_of data ''symbol'' require_symbol_ev) (\<lambda>symbol'.
     bind_r (field_of data ''price'' require_int_ev) (\<lambda>price'.
       Inr (CircuitBreakerTriggered (CircuitBreakerTriggeredData symbol' price' reason'))))))"

(* sim/tes_models/events.py:652-657 parse_event *)
definition parse_auction_started :: "pydict \<Rightarrow> event result" where
  "parse_auction_started data =
     bind_r (require_exact_keys_ev data [''symbol'', ''phase''] ''AuctionStarted.data'') (\<lambda>_.
     bind_r (field1_of data ''symbol'' require_symbol_ev) (\<lambda>symbol'.
     bind_r (field1_of data ''phase'' require_trading_phase_ev) (\<lambda>phase'.
       Inr (AuctionStarted (AuctionPhaseData symbol' phase')))))"

(* sim/tes_models/events.py:659-664 parse_event *)
definition parse_auction_ended :: "pydict \<Rightarrow> event result" where
  "parse_auction_ended data =
     bind_r (require_exact_keys_ev data [''symbol'', ''phase''] ''AuctionEnded.data'') (\<lambda>_.
     bind_r (field1_of data ''symbol'' require_symbol_ev) (\<lambda>symbol'.
     bind_r (field1_of data ''phase'' require_trading_phase_ev) (\<lambda>phase'.
       Inr (AuctionEnded (AuctionPhaseData symbol' phase')))))"

(* sim/tes_models/events.py:666-676 parse_event *)
definition parse_auction_uncross :: "pydict \<Rightarrow> event result" where
  "parse_auction_uncross data =
     bind_r (require_exact_keys_ev data [''symbol'', ''price'', ''qty'', ''imbalance''] ''AuctionUncross.data'') (\<lambda>_.
     bind_r (field1_of data ''symbol'' require_symbol_ev) (\<lambda>symbol'.
     bind_r (field_of data ''price'' require_int_ev) (\<lambda>price'.
     bind_r (field_of data ''qty'' require_int_ev) (\<lambda>qty.
     bind_r (field_of data ''imbalance'' require_int_ev) (\<lambda>imbalance.
       Inr (AuctionUncross (AuctionUncrossData symbol' price' qty imbalance)))))))"

(* sim/tes_models/events.py:678-688 parse_event *)
definition parse_indicative_price_updated :: "pydict \<Rightarrow> event result" where
  "parse_indicative_price_updated data =
     bind_r (require_exact_keys_ev data [''symbol'', ''price'', ''qty'', ''imbalance''] ''IndicativePriceUpdated.data'') (\<lambda>_.
     bind_r (field1_of data ''symbol'' require_symbol_ev) (\<lambda>symbol'.
     bind_r (field_of data ''price'' require_optional_int) (\<lambda>price'.
     bind_r (field_of data ''qty'' require_int_ev) (\<lambda>qty.
     bind_r (field_of data ''imbalance'' require_int_ev) (\<lambda>imbalance.
       Inr (IndicativePriceUpdated (IndicativePriceUpdatedData symbol' price' qty imbalance)))))))"

text \<open>The \<open>if event_type == ..\<close> chain, in the order of the source.\<close>

definition event_branches :: "(string \<times> (pydict \<Rightarrow> event result)) list" where
  "event_branches =
     [(''OrderAccepted'', parse_order_accepted),
      (''HiddenOrderAccepted'', parse_hidden_order_accepted),
      (''IcebergOrderAccepted'', parse_iceberg_order_accepted),
      (''IcebergReplenished'', parse_iceberg_replenished),
      (''OrderRejected'', parse_order_rejected),
      (''OrderCanceled'', parse_order_canceled),
      (''CancelRejected'', parse_cancel_rejected),
      (''TradeExecuted'', parse_trade_executed),
      (''StopOrderAccepted'', parse_stop_order_accepted),
      (''StopOrderTriggered'', parse_stop_order_triggered),
      (''TopOfBook'', parse_top_of_book),
      (''OrderPartiallyFilled'', parse_order_partially_filled),
      (''OrderFilled'', parse_order_filled),
      (''OrderExpired'', parse_order_expired),
      (''SymbolHalted'', parse_symbol_halted),
      (''SymbolResumed'', parse_symbol_resumed),
      (''PriceBandUpdated'', parse_price_band_updated),
      (''CircuitBreakerTriggered'', parse_circuit_breaker_triggered),
      (''AuctionStarted'', parse_auction_started),
      (''AuctionEnded'', parse_auction_ended),
      (''AuctionUncross'', parse_auction_uncross),
      (''IndicativePriceUpdated'', parse_indicative_price_updated)]"

(* sim/tes_models/events.py:434-442 parse_event *)
definition parse_event :: "pyval \<Rightarrow> event result" where
  "parse_event raw =
     bind_r (require_dict_ev raw ''event'') (\<lambda>event.
     bind_r (require_exact_keys_ev event [''type'', ''data''] ''event'') (\<lambda>_.
     bind_r (dindex event ''type'') (\<lambda>ty.
       case string_value ty of None \<Rightarrow> Inl (ValueError ''type must be a string'')
       | Some event_type \<Rightarrow>
           bind_r (field1_of event ''data'' (\<lambda>v. require_dict_ev v ''event.data'')) (\<lambda>data.
             case map_of event_branches event_type of
               None \<Rightarrow> Inl (ValueError (''unknown event type: '' @ event_type))
             | Some parse \<Rightarrow> parse data))))"

(* sim/tes_models/events.py:693-696 parse_events *)
definition parse_events :: "pyval \<Rightarrow> event list result" where
  "parse_events raw_events =
     (case list_value raw_events of
        None \<Rightarrow> Inl (ValueError ''raw_events must be a list'')
      | Some raws \<Rightarrow> map_r parse_event raws)"

section \<open>Serialization\<close>

text \<open>\<open>event.type\<close>, \<open>event.data.symbol\<close> and \<open>asdict(event.data)\<close>.\<close>

fun opt_int :: "int option \<Rightarrow> pyval" where
  "opt_int None = PNone"
| "opt_int (Some i) = PInt i"

fun event_type :: "event \<Rightarrow> string" where
  "event_type (OrderAccepted _) = ''OrderAccepted''"
| "event_type (HiddenOrderAccepted _) = ''HiddenOrderAccepted''"
| "event_type (IcebergOrderAccepted _) = ''IcebergOrderAccepted''"
| "event_type (IcebergReplenished _) = ''IcebergReplenished''"
| "event_type (OrderRejected _) = ''OrderRejected''"
| "event_type (OrderCanceled _) = ''OrderCanceled''"
| "event_type (CancelRejected _) = ''CancelRejected''"
| "event_type (TradeExecuted _) = ''TradeExecuted''"
| "event_type (StopOrderAccepted _) = ''StopOrderAccepted''"
| "event_type (StopOrderTriggered _) = ''StopOrderTriggered''"
| "event_type (TopOfBook _) = ''TopOfBook''"
| "event_type (OrderPartiallyFilled _) = ''OrderPartiallyFilled''"
| "event_type (OrderFilled _) = ''OrderFilled''"
| "event_type (OrderExpired _) = ''OrderExpired''"
| "event_type (SymbolHalted _) = ''SymbolHalted''"
| "event_type (SymbolResumed _) = ''SymbolResumed''"
| "event_type (PriceBandUpdated _) = ''PriceBandUpdated''"
| "event_type (CircuitBreakerTriggered _) = ''CircuitBreakerTriggered''"
| "event_type (AuctionStarted _) = ''AuctionStarted''"
| "event_type (AuctionEnded _) = ''AuctionEnded''"
| "event_type (AuctionUncross _) = ''AuctionUncross''"
| "event_type (IndicativePriceUpdated _) = ''IndicativePriceUpdated''"

fun event_symbol :: "event \<Rightarrow> string" where
  "event_symbol (OrderAccepted (OrderAcceptedData _ _ _ _ y)) = y"
| "event_symbol (HiddenOrderAccepted (HiddenOrderAcceptedData _ _ _ _ y)) = y"
| "event_symbol (IcebergOrderAccepted (IcebergOrderAcceptedData _ _ _ _ _ _ _ _ y)) = y"
| "event_symbol (IcebergReplenished (IcebergReplenishedData _ _ _ _ _ _ _ y)) = y"
| "event_symbol (OrderRejected (OrderRejectedData _ _ _ _ y)) = y"
| "event_symbol (OrderCanceled (OrderCanceledData _ y)) = y"
| "event_symbol (CancelRejected (CancelRejectedData _ _ y)) = y"
| "event_symbol (TradeExecuted (TradeExecutedData _ _ _ _ y)) = y"
| "event_symbol (StopOrderAccepted (StopOrderAcceptedData _ _ _ _ _ y)) = y"
| "event_symbol (StopOrderTriggered (StopOrderTriggeredData _ _ _ _ _ _ y)) = y"
| "event_symbol (TopOfBook (TopOfBookData _ _ y)) = y"
| "event_symbol (OrderPartiallyFilled (OrderPartiallyFilledData _ _ _ y)) = y"
| "event_symbol (OrderFilled (OrderFilledData _ _ y)) = y"
| "event_symbol (OrderExpired (OrderExpiredData _ y)) = y"
| "event_symbol (SymbolHalted (SymbolHaltedData y _)) = y"
| "event_symbol (SymbolResumed (SymbolResumedData y)) = y"
| "event_symbol (PriceBandUpdated (PriceBandUpdatedData y _ _)) = y"
| "event_symbol (CircuitBreakerTriggered (CircuitBreakerTriggeredData y _ _)) = y"
| "event_symbol (AuctionStarted (AuctionPhaseData y _)) = y"
| "event_symbol (AuctionEnded (AuctionPhaseData y _)) = y"
| "event_symbol (AuctionUncross (AuctionUncrossData y _ _ _)) = y"
| "event_symbol (IndicativePriceUpdated (IndicativePriceUpdatedData y _ _ _)) = y"

fun asdict_data :: "event \<Rightarrow> pydict" where
  "asdict_data (OrderAccepted (OrderAcceptedData a0 a1 a2 a3 a4)) =
     [(''order_id'', PInt a0), (''side'', PStr (side_str a1)), (''price'', PInt a2), (''qty'', PInt a3), (''symbol'', PStr a4)]"
| "asdict_data (HiddenOrderAccepted (HiddenOrderAcceptedData a0 a1 a2 a3 a4)) =
     [(''order_id'', PInt a0), (''side'', PStr (side_str a1)), (''price'', PInt a2), (''total_qty'', PInt a3), (''symbol'', PStr a4)]"
| "asdict_data (IcebergOrderAccepted (IcebergOrderAcceptedData a0 a1 a2 a3 a4 a5 a6 a7 a8)) =
     [(''order_id'', PInt a0), (''side'', PStr (side_str a1)), (''price'', PInt a2), (''total_qty'', PInt a3), (''display_qty'', PInt a4), (''reserve_qty'', PInt a5), (''hidden_remaining'', PInt a6), (''current_visible_qty'', PInt a7), (''symbol'', PStr a8)]"
| "asdict_data (IcebergReplenished (IcebergReplenishedData a0 a1 a2 a3 a4 a5 a6 a7)) =
     [(''order_id'', PInt a0), (''side'', PStr (side_str a1)), (''price'', PInt a2), (''replenished_qty'', PInt a3), (''reserve_qty'', PInt a4), (''hidden_remaining'', PInt a5), (''total_remaining_qty'', PInt a6), (''symbol'', PStr a7)]"
| "asdict_data (OrderRejected (OrderRejectedData a0 a1 a2 a3 a4)) =
     [(''side'', PStr (side_str a0)), (''price'', PInt a1), (''qty'', PInt a2), (''reason'', PStr (reason_str a3)), (''symbol'', PStr a4)]"
| "asdict_data (OrderCanceled (OrderCanceledData a0 a1)) =
     [(''order_id'', PInt a0), (''symbol'', PStr a1)]"
| "asdict_data (CancelRejected (CancelRejectedData a0 a1 a2)) =
     [(''order_id'', PInt a0), (''reason'', PStr (reason_str a1)), (''symbol'', PStr a2)]"
| "asdict_data (TradeExecuted (TradeExecutedData a0 a1 a2 a3 a4)) =
     [(''price'', PInt a0), (''qty'', PInt a1), (''maker_order_id'', PInt a2), (''taker_order_id'', PInt a3), (''symbol'', PStr a4)]"
| "asdict_data (StopOrderAccepted (StopOrderAcceptedData a0 a1 a2 a3 a4 a5)) =
     [(''order_id'', PInt a0), (''side'', PStr (side_str a1)), (''stop_price'', PInt a2), (''qty'', PInt a3), (''limit_price'', opt_int a4), (''symbol'', PStr a5)]"
| "asdict_data (StopOrderTriggered (StopOrderTriggeredData a0 a1 a2 a3 a4 a5 a6)) =
     [(''order_id'', PInt a0), (''resulting_order_id'', PInt a1), (''side'', PStr (side_str a2)), (''stop_price'', PInt a3), (''qty'', PInt a4), (''limit_price'', opt_int a5), (''symbol'', PStr a6)]"
| "asdict_data (TopOfBook (TopOfBookData a0 a1 a2)) =
     [(''best_bid'', opt_int a0), (''best_ask'', opt_int a1), (''symbol'', PStr a2)]"
| "asdict_data (OrderPartiallyFilled (OrderPartiallyFilledData a0 a1 a2 a3)) =
     [(''order_id'', PInt a0), (''last_fill_qty'', PInt a1), (''remaining_qty'', PInt a2), (''symbol'', PStr a3)]"
| "asdict_data (OrderFilled (OrderFilledData a0 a1 a2)) =
     [(''order_id'', PInt a0), (''last_fill_qty'', PInt a1), (''symbol'', PStr a2)]"
| "asdict_data (OrderExpired (OrderExpiredData a0 a1)) =
     [(''order_id'', PInt a0), (''symbol'', PStr a1)]"
| "asdict_data (SymbolHalted (SymbolHaltedData a0 a1)) =
     [(''symbol'', PStr a0), (''reason'', PStr a1)]"
| "asdict_data (SymbolResumed (SymbolResumedData a0)) =
     [(''symbol'', PStr a0)]"
| "asdict_data (PriceBandUpdated (PriceBandUpdatedData a0 a1 a2)) =
     [(''symbol'', PStr a0), (''lower_price'', opt_int a1), (''upper_price'', opt_int a2)]"
| "asdict_data (CircuitBreakerTriggered (CircuitBreakerTriggeredData a0 a1 a2)) =
     [(''symbol'', PStr a0), (''price'', PInt a1), (''reason'', PStr a2)]"
| "asdict_data (AuctionStarted (AuctionPhaseData a0 a1)) =
     [(''symbol'', PStr a0), (''phase'', PStr (phase_str a1))]"
| "asdict_data (AuctionEnded (AuctionPhaseData a0 a1)) =
     [(''symbol'', PStr a0), (''phase'', PStr (phase_str a1))]"
| "asdict_data (AuctionUncross (AuctionUncrossData a0 a1 a2 a3)) =
     [(''symbol'', PStr a0), (''price'', PInt a1), (''qty'', PInt a2), (''imbalance'', PInt a3)]"
| "asdict_data (IndicativePriceUpdated (IndicativePriceUpdatedData a0 a1 a2 a3)) =
     [(''symbol'', PStr a0), (''price'', opt_int a1), (''qty'', PInt a2), (''imbalance'', PInt a3)]"

(* sim/tes_serialization/events.py:8-15 _event_to_dict *)
definition event_to_dict :: "event \<Rightarrow> pyval" where
  "event_to_dict event =
     (let data = asdict_data event;
          data = (if dget data ''symbol'' = PStr DEFAULT_SYMBOL then AList.delete ''symbol'' data
                  else data)
      in PDict [(''type'', PStr (event_type event)), (''data'', PDict data)])"

(* sim/tes_serialization/events.py:18-19 _events_to_dicts *)
definition events_to_dicts :: "event list \<Rightarrow> pyval list" where
  "events_to_dicts events = map event_to_dict events"

(* sim/tes_serialization/events.py:22-23 serialize_event *)
definition serialize_event :: "event \<Rightarrow> pyval" where
  "serialize_event event = event_to_dict event"

(* sim/tes_serialization/events.py:26-27 serialize_events *)
definition serialize_events :: "event list \<Rightarrow> pyval list" where
  "serialize_events events = events_to_dicts events"

section \<open>Round trips\<close>

text \<open>The event types whose parser insists on an explicit symbol.\<close>

fun symbol_required :: "event \<Rightarrow> bool" where
  "symbol_required (SymbolHalted _) = True"
| "symbol_required (SymbolResumed _) = True"
| "symbol_required (PriceBandUpdated _) = True"
| "symbol_required (CircuitBreakerTriggered _) = True"
| "symbol_required (AuctionStarted _) = True"
| "symbol_required (AuctionEnded _) = True"
| "symbol_required (AuctionUncross _) = True"
| "symbol_required (IndicativePriceUpdated _) = True"
| "symbol_required _ = False"

lemmas event_branch_defs =
  parse_order_accepted_def
  parse_hidden_order_accepted_def
  parse_iceberg_order_accepted_def
  parse_iceberg_replenished_def
  parse_order_rejected_def
  parse_order_canceled_def
  parse_cancel_rejected_def
  parse_trade_executed_def
  parse_stop_order_accepted_def
  parse_stop_order_triggered_def
  parse_top_of_book_def
  parse_order_partially_filled_def
  parse_order_filled_def
  parse_order_expired_def
  parse_symbol_halted_def
  parse_symbol_resumed_def
  parse_price_band_updated_def
  parse_circuit_breaker_triggered_def
  parse_auction_started_def
  parse_auction_ended_def
  parse_auction_uncross_def
  parse_indicative_price_updated_def

text \<open>An event is lost in the round trip iff its parser insists on the symbol the serializer drops.\<close>

definition survives_json :: "event \<Rightarrow> bool" where
  "survives_json e \<longleftrightarrow> \<not> (symbol_required e \<and> event_symbol e = DEFAULT_SYMBOL)"

lemma require_optional_int_opt_int [simp]: "require_optional_int (opt_int i) n = Inr i"
  by (cases i) (simp_all add: require_optional_int_def require_int_ev_def)

lemma require_reject_reason_str [simp]: "require_reject_reason (PStr (reason_str r)) = Inr r"
  by (cases r) (simp_all add: require_reject_reason_def in_literals_def reject_reasons_def)

lemma event_branch_type: "map_of event_branches (event_type e) \<noteq> None"
  by (cases e) (simp_all add: event_branches_def)

lemma parse_event_typed:
  "parse_event (PDict [(''type'', PStr ty), (''data'', PDict data)]) =
     (case map_of event_branches ty of
        None \<Rightarrow> Inl (ValueError (''unknown event type: '' @ ty)) | Some parse \<Rightarrow> parse data)"
  by (simp add: parse_event_def checks_ev_eq require_exact_keys_def field1_of_def)

lemmas event_eval = serialize_event_def event_to_dict_def Let_def parse_event_typed
  event_branches_def checks_ev_eq field_of_def field1_of_def
  optional_symbol_def require_exact_keys_def require_command_keys_def

lemma neq_insert: "x \<notin> A \<Longrightarrow> (A = insert x B) = False"
  by auto

lemma roundtrip_ok:
  assumes "survives_json e"
  shows "parse_event (serialize_event e) = Inr e"
proof (cases e)
  case (OrderAccepted d)
  then show ?thesis using assms
    by (cases d) (simp add: event_eval insert_commute parse_order_accepted_def survives_json_def)
next
  case (HiddenOrderAccepted d)
  then show ?thesis using assms
    by (cases d) (simp add: event_eval insert_commute parse_hidden_order_accepted_def survives_json_def)
next
  case (IcebergOrderAccepted d)
  then show ?thesis using assms
    by (cases d) (simp add: event_eval insert_commute parse_iceberg_order_accepted_def survives_json_def)
next
  case (IcebergReplenished d)
  then show ?thesis using assms
    by (cases d) (simp add: event_eval insert_commute parse_iceberg_replenished_def survives_json_def)
next
  case (OrderRejected d)
  then show ?thesis using assms
    by (cases d) (simp add: event_eval insert_commute parse_order_rejected_def survives_json_def)
next
  case (OrderCanceled d)
  then show ?thesis using assms
    by (cases d) (simp add: event_eval insert_commute parse_order_canceled_def survives_json_def)
next
  case (CancelRejected d)
  then show ?thesis using assms
    by (cases d) (simp add: event_eval insert_commute parse_cancel_rejected_def survives_json_def)
next
  case (TradeExecuted d)
  then show ?thesis using assms
    by (cases d) (simp add: event_eval insert_commute parse_trade_executed_def survives_json_def)
next
  case (StopOrderAccepted d)
  then show ?thesis using assms
    by (cases d) (simp add: event_eval insert_commute parse_stop_order_accepted_def survives_json_def)
next
  case (StopOrderTriggered d)
  then show ?thesis using assms
    by (cases d) (simp add: event_eval insert_commute parse_stop_order_triggered_def survives_json_def)
next
  case (TopOfBook d)
  then show ?thesis using assms
    by (cases d) (simp add: event_eval insert_commute parse_top_of_book_def survives_json_def)
next
  case (OrderPartiallyFilled d)
  then show ?thesis using assms
    by (cases d) (simp add: event_eval insert_commute parse_order_partially_filled_def survives_json_def)
next
  case (OrderFilled d)
  then show ?thesis using assms
    by (cases d) (simp add: event_eval insert_commute parse_order_filled_def survives_json_def)
next
  case (OrderExpired d)
  then show ?thesis using assms
    by (cases d) (simp add: event_eval insert_commute parse_order_expired_def survives_json_def)
next
  case (SymbolHalted d)
  then show ?thesis using assms
    by (cases d) (simp add: event_eval insert_commute parse_symbol_halted_def survives_json_def)
next
  case (SymbolResumed d)
  then show ?thesis using assms
    by (cases d) (simp add: event_eval insert_commute parse_symbol_resumed_def survives_json_def)
next
  case (PriceBandUpdated d)
  then show ?thesis using assms
    by (cases d) (simp add: event_eval insert_commute parse_price_band_updated_def survives_json_def)
next
  case (CircuitBreakerTriggered d)
  then show ?thesis using assms
    by (cases d) (simp add: event_eval insert_commute parse_circuit_breaker_triggered_def survives_json_def)
next
  case (AuctionStarted d)
  then show ?thesis using assms
    by (cases d) (simp add: event_eval insert_commute parse_auction_started_def survives_json_def)
next
  case (AuctionEnded d)
  then show ?thesis using assms
    by (cases d) (simp add: event_eval insert_commute parse_auction_ended_def survives_json_def)
next
  case (AuctionUncross d)
  then show ?thesis using assms
    by (cases d) (simp add: event_eval insert_commute parse_auction_uncross_def survives_json_def)
next
  case (IndicativePriceUpdated d)
  then show ?thesis using assms
    by (cases d) (simp add: event_eval insert_commute parse_indicative_price_updated_def survives_json_def)
qed

lemma roundtrip_lost:
  assumes "\<not> survives_json e"
  shows "\<exists>m. parse_event (serialize_event e) = Inl (ValueError m)"
proof (cases e)
  case (SymbolHalted d)
  then show ?thesis using assms
    by (cases d) (simp add: event_eval neq_insert parse_symbol_halted_def survives_json_def)
next
  case (SymbolResumed d)
  then show ?thesis using assms
    by (cases d) (simp add: event_eval neq_insert parse_symbol_resumed_def survives_json_def)
next
  case (PriceBandUpdated d)
  then show ?thesis using assms
    by (cases d) (simp add: event_eval neq_insert parse_price_band_updated_def survives_json_def)
next
  case (CircuitBreakerTriggered d)
  then show ?thesis using assms
    by (cases d) (simp add: event_eval neq_insert parse_circuit_breaker_triggered_def survives_json_def)
next
  case (AuctionStarted d)
  then show ?thesis using assms
    by (cases d) (simp add: event_eval neq_insert parse_auction_started_def survives_json_def)
next
  case (AuctionEnded d)
  then show ?thesis using assms
    by (cases d) (simp add: event_eval neq_insert parse_auction_ended_def survives_json_def)
next
  case (AuctionUncross d)
  then show ?thesis using assms
    by (cases d) (simp add: event_eval neq_insert parse_auction_uncross_def survives_json_def)
next
  case (IndicativePriceUpdated d)
  then show ?thesis using assms
    by (cases d) (simp add: event_eval neq_insert parse_indicative_price_updated_def survives_json_def)
qed (use assms in \<open>simp_all add: survives_json_def\<close>)

end
