(* ===== verification/Engine_Adapter.thy ===== *)
theory Engine_Adapter
  imports Events
begin

text \<open>
  Command execution: \<open>sim/tes_engine_adapter.py\<close>, the batch and simulation runners of
  \<open>sim/tes_simulation/runner.py\<close> and \<open>sim/tes_simulation/strategy_runner.py\<close>, and the strategies
  of \<open>sim/tes_strategy\<close> and \<open>sim/strategies\<close>. The C++ engine behind the bindings is not part of
  the Python program: it is a parameter, a function from a call and the engine's state to the new
  state and the raw value the call returns (or the exception it raises).
\<close>

section \<open>The engine as a parameter\<close>

datatype engine_call =
    Place_limit_order string int int time_in_force string
  | Place_hidden_order string int int string
  | Place_iceberg_order string int int int string
  | Place_market_order string int string
  | Place_stop_order string int int string
  | Place_stop_limit_order string int int int string
  | Cancel int
  | Replace_order int int int
  | Set_trading_phase string trading_phase
  | Halt_symbol string string
  | Resume_symbol string
  | Set_price_bands string int int
  | Clear_price_bands string
  | Uncross string

type_synonym 'e engine = "engine_call \<Rightarrow> 'e \<Rightarrow> 'e \<times> pyval result"

text \<open>\<open>"Bid" if command.side == "BUY" else "Ask"\<close>.\<close>

definition engine_side :: "side \<Rightarrow> string" where
  "engine_side s = (if s = BUY then ''Bid'' else ''Ask'')"

text \<open>\<open>parse_events(engine.call(..))\<close>: the engine has moved on even if its answer is refused.\<close>

definition call_engine :: "'e engine \<Rightarrow> engine_call \<Rightarrow> 'e \<Rightarrow> 'e \<times> event list result" where
  "call_engine engine call e = (case engine call e of (e', raw) \<Rightarrow> (e', bind_r raw parse_events))"

text \<open>The call an adapter branch makes for a command.\<close>

(* sim/tes_engine_adapter.py:25-78 execute_command *)
fun engine_call_of :: "command \<Rightarrow> engine_call" where
  "engine_call_of (LimitOrder side price qty tif symbol) =
     Place_limit_order (engine_side side) price qty tif symbol"
| "engine_call_of (HiddenOrder side price qty symbol) =
     Place_hidden_order (engine_side side) price qty symbol"
| "engine_call_of (IcebergOrder side price total_qty display_qty symbol) =
     Place_iceberg_order (engine_side side) price total_qty display_qty symbol"
| "engine_call_of (MarketOrder side qty symbol) =
     Place_market_order (engine_side side) qty symbol"
| "engine_call_of (StopOrder side stop_price qty symbol) =
     Place_stop_order (engine_side side) stop_price qty symbol"
| "engine_call_of (StopLimitOrder side stop_price limit_price qty symbol) =
     Place_stop_limit_order (engine_side side) stop_price limit_price qty symbol"
| "engine_call_of (CancelOrder order_id) = Cancel order_id"
| "engine_call_of (ReplaceOrder order_id price qty) = Replace_order order_id price qty"
| "engine_call_of (SetTradingPhase symbol phase) = Set_trading_phase symbol phase"
| "engine_call_of (HaltSymbol symbol reason) = Halt_symbol symbol reason"
| "engine_call_of (ResumeSymbol symbol) = Resume_symbol symbol"
| "engine_call_of (SetPriceBands symbol lower upper) = Set_price_bands symbol lower upper"
| "engine_call_of (ClearPriceBands symbol) = Clear_price_bands symbol"
| "engine_call_of (UncrossAuction symbol) = Uncross symbol"

(* sim/tes_engine_adapter.py:25-78 execute_command *)
definition execute_command :: "'e engine \<Rightarrow> 'e \<Rightarrow> command \<Rightarrow> 'e \<times> event list result" where
  "execute_command engine e command = call_engine engine (engine_call_of command) e"

(* sim/tes_engine_adapter.py:81-85 execute_commands *)
fun execute_commands :: "'e engine \<Rightarrow> 'e \<Rightarrow> command list \<Rightarrow> 'e \<times> event list result" where
  "execute_commands engine e [] = (e, Inr [])"
| "execute_commands engine e (command # commands) =
     (case execute_command engine e command of
        (e', Inl exc) \<Rightarrow> (e', Inl exc)
      | (e', Inr events) \<Rightarrow>
          (case execute_commands engine e' commands of
             (e'', Inl exc) \<Rightarrow> (e'', Inl exc)
           | (e'', Inr rest) \<Rightarrow> (e'', Inr (events @ rest))))"

section \<open>Simulation runner\<close>

(* sim/tes_simulation/runner.py:18-22 run_commands *)
fun run_commands :: "'e engine \<Rightarrow> 'e \<Rightarrow> command list \<Rightarrow> 'e \<times> event list result" where
  "run_commands engine e [] = (e, Inr [])"
| "run_commands engine e (command # commands) =
     (case execute_command engine e command of
        (e', Inl exc) \<Rightarrow> (e', Inl exc)
      | (e', Inr events) \<Rightarrow>
          (case run_commands engine e' commands of
             (e'', Inl exc) \<Rightarrow> (e'', Inl exc)
           | (e'', Inr rest) \<Rightarrow> (e'', Inr (events @ rest))))"

(* sim/tes_simulation/runner.py:11-15 SimulationResult *)
record simulation_result =
  sim_events :: "event list"
  sim_total_commands :: nat
  sim_total_events :: nat

(* sim/tes_simulation/runner.py:25-34 run_simulation *)
definition run_simulation :: "'e engine \<Rightarrow> 'e \<Rightarrow> command list \<Rightarrow> 'e \<times> simulation_result result" where
  "run_simulation engine e commands =
     (case run_commands engine e commands of
        (e', r) \<Rightarrow> (e', bind_r r (\<lambda>events.
          Inr \<lparr>sim_events = events, sim_total_commands = length commands,
               sim_total_events = length events\<rparr>)))"

lemma run_commands_eq: "run_commands engine e commands = execute_commands engine e commands"
  by (induction commands arbitrary: e) (auto split: prod.splits sum.splits)

lemma execute_commands_append:
  "execute_commands engine e (cs @ ds) =
     (case execute_commands engine e cs of
        (e', Inl exc) \<Rightarrow> (e', Inl exc)
      | (e', Inr events) \<Rightarrow>
          (case execute_commands engine e' ds of
             (e'', Inl exc) \<Rightarrow> (e'', Inl exc)
           | (e'', Inr rest) \<Rightarrow> (e'', Inr (events @ rest))))"
  by (induction cs arbitrary: e) (auto split: prod.splits sum.splits)

section \<open>Strategies\<close>

text \<open>
  The interface of \<open>sim/tes_strategy/strategy.py\<close>: a strategy is an object with a state of its own
  whose callbacks return commands, or raise.
\<close>

(* sim/tes_strategy/strategy.py:16-30 Strategy *)
record 's strategy =
  on_start :: "'s \<Rightarrow> 's \<times> command list result"
  on_market_data :: "(string \<times> pyval) list \<Rightarrow> 's \<Rightarrow> 's \<times> command list result"
  on_event :: "event \<Rightarrow> 's \<Rightarrow> 's \<times> command list result"
  on_finish :: "'s \<Rightarrow> 's \<times> unit result"

text \<open>\<open>LimitOrderCommand(side, price, qty)\<close> with its default time in force and symbol.\<close>

definition limit_order :: "side \<Rightarrow> int \<Rightarrow> int \<Rightarrow> command" where
  "limit_order s price qty = LimitOrder s price qty GTC DEFAULT_SYMBOL"

text \<open>A strategy that only places orders at the start.\<close>

definition start_only :: "command list result \<Rightarrow> unit strategy" where
  "start_only r = \<lparr>on_start = (\<lambda>s. (s, r)), on_market_data = (\<lambda>_ s. (s, Inr [])),
     on_event = (\<lambda>_ s. (s, Inr [])), on_finish = (\<lambda>s. (s, Inr ()))\<rparr>"

(* sim/tes_strategy/strategy.py:33-49 SimpleMarketMaker *)
definition simple_market_maker :: "int \<Rightarrow> int \<Rightarrow> int \<Rightarrow> unit strategy" where
  "simple_market_maker bid_price ask_price order_qty =
     start_only (Inr [limit_order BUY bid_price order_qty, limit_order SELL ask_price order_qty])"

(* sim/tes_strategy/examples.py:8-19 CrossingTakerStrategy *)
definition crossing_taker :: "unit strategy" where
  "crossing_taker = start_only (Inr [limit_order BUY 100 10, limit_order SELL 100 5])"

(* sim/tes_strategy/registry.py:10-13 STRATEGY_REGISTRY *)
definition STRATEGY_REGISTRY :: "(string \<times> unit strategy) list" where
  "STRATEGY_REGISTRY =
     [(''crossing_taker'', crossing_taker),
      (''simple_market_maker'', simple_market_maker 99 101 1)]"

(* sim/tes_strategy/registry.py:16-19 list_strategy_names *)
definition list_strategy_names :: "string list" where
  "list_strategy_names = sort (map fst STRATEGY_REGISTRY)"

(* sim/tes_strategy/registry.py:22-32 get_strategy *)
definition get_strategy :: "string \<Rightarrow> unit strategy result" where
  "get_strategy name =
     (case map_of STRATEGY_REGISTRY name of
        None \<Rightarrow> Inl (ValueError (''Unknown strategy '' @ str_repr name @ ''. Available strategies: ''
          @ (if list_strategy_names = [] then ''none'' else join '', '' list_strategy_names) @ ''.''))
      | Some factory \<Rightarrow> Inr factory)"

section \<open>Order-type fixtures\<close>

text \<open>
  The fixtures of \<open>sim/strategies\<close> ask the command module which classes it has. The classes of
  \<open>sim/tes_models/commands.py\<close> are the ones below; a fixture that needs another class cannot build
  its command.
\<close>

definition command_class_names :: "string list" where
  "command_class_names =
     [''LimitOrderCommand'', ''HiddenOrderCommand'', ''IcebergOrderCommand'', ''MarketOrderCommand'',
      ''StopOrderCommand'', ''StopLimitOrderCommand'', ''CancelOrderCommand'',
      ''ReplaceOrderCommand'', ''SetTradingPhaseCommand'', ''HaltSymbolCommand'',
      ''ResumeSymbolCommand'', ''SetPriceBandsCommand'', ''ClearPriceBandsCommand'',
      ''UncrossAuctionCommand'']"

(* sim/strategies/new_order_support.py:6-14 NewOrderApiSupport *)
record new_order_api_support =
  nos_market_order :: bool
  nos_ioc :: bool
  nos_fok :: bool

(* sim/strategies/new_order_support.py:17-24 detect_new_order_api_support *)
definition detect_new_order_api_support :: new_order_api_support where
  "detect_new_order_api_support =
     \<lparr>nos_market_order = (''MarketOrderCommand'' \<in> set command_class_names),
      nos_ioc = (''ImmediateOrCancelOrderCommand'' \<in> set command_class_names),
      nos_fok = (''FillOrKillOrderCommand'' \<in> set command_class_names)\<rparr>"

(* sim/strategies/new_order_support.py:27-36 missing_reason *)
definition missing_reason :: string where
  "missing_reason =
     (let support = detect_new_order_api_support;
          missing = (if nos_market_order support then [] else [''MarketOrderCommand''])
            @ (if nos_ioc support then [] else [''ImmediateOrCancelOrderCommand''])
            @ (if nos_fok support then [] else [''FillOrKillOrderCommand''])
      in ''New order APIs are not exposed by Python bindings yet (missing: '' @ join '', '' missing @ '').'')"

text \<open>Using a class the module does not have is an \<open>AttributeError\<close>.\<close>

definition missing_class :: "string \<Rightarrow> 'a result" where
  "missing_class name = Inl (OtherError ''AttributeError''
     (''module '' @ str_repr ''sim.tes_models.commands'' @ '' has no attribute '' @ str_repr name))"

(* sim/strategies/fok_failure.py:10-26 FokFailureStrategy *)
definition fok_failure_strategy :: "unit strategy" where
  "fok_failure_strategy = start_only
     (if \<not> nos_fok detect_new_order_api_support then Inl (NotImplementedError missing_reason)
      else bind_r (missing_class ''FillOrKillOrderCommand'') (\<lambda>fok. Inr [limit_order SELL 101 2, fok]))"

(* sim/strategies/fok_success.py:10-26 FokSuccessStrategy *)
definition fok_success_strategy :: "unit strategy" where
  "fok_success_strategy = start_only
     (if \<not> nos_fok detect_new_order_api_support then Inl (NotImplementedError missing_reason)
      else bind_r (missing_class ''FillOrKillOrderCommand'') (\<lambda>fok. Inr [limit_order SELL 101 5, fok]))"

(* sim/strategies/ioc_partial_fill.py:10-28 IocPartialFillStrategy *)
definition ioc_partial_fill_strategy :: "unit strategy" where
  "ioc_partial_fill_strategy = start_only
     (if \<not> nos_ioc detect_new_order_api_support then Inl (NotImplementedError missing_reason)
      else bind_r (missing_class ''ImmediateOrCancelOrderCommand'')
        (\<lambda>ioc. Inr [limit_order SELL 101 2, ioc]))"

(* sim/strategies/market_against_resting.py:10-26 MarketOrderAgainstRestingLiquidityStrategy *)
definition market_against_resting_strategy :: "unit strategy" where
  "market_against_resting_strategy = start_only
     (if \<not> nos_market_order detect_new_order_api_support then Inl (NotImplementedError missing_reason)
      else Inr [limit_order SELL 101 5, MarketOrder BUY 3 DEFAULT_SYMBOL])"

lemma order_fixture_support:
  "on_start market_against_resting_strategy () =
     ((), Inr [limit_order SELL 101 5, MarketOrder BUY 3 DEFAULT_SYMBOL])"
  "on_start fok_success_strategy () = ((), Inl (NotImplementedError missing_reason))"
  "on_start fok_failure_strategy () = ((), Inl (NotImplementedError missing_reason))"
  "on_start ioc_partial_fill_strategy () = ((), Inl (NotImplementedError missing_reason))"
  by (simp_all add: market_against_resting_strategy_def fok_success_strategy_def
      fok_failure_strategy_def ioc_partial_fill_strategy_def start_only_def
      detect_new_order_api_support_def command_class_names_def)

section \<open>The strategy loop\<close>

text \<open>\<open>for event in step_events: next_commands.extend(strategy.on_event(event))\<close>.\<close>

fun collect_on_event :: "'s strategy \<Rightarrow> 's \<Rightarrow> event list \<Rightarrow> 's \<times> command list result" where
  "collect_on_event strat s [] = (s, Inr [])"
| "collect_on_event strat s (event # events) =
     (case on_event strat event s of
        (s', Inl exc) \<Rightarrow> (s', Inl exc)
      | (s', Inr cmds) \<Rightarrow>
          (case collect_on_event strat s' events of
             (s'', Inl exc) \<Rightarrow> (s'', Inl exc)
           | (s'', Inr rest) \<Rightarrow> (s'', Inr (cmds @ rest))))"

(* sim/tes_simulation/strategy_runner.py:11-16 StrategySimulationResult *)
record strategy_simulation_result =
  ssr_events :: "event list"
  ssr_total_commands :: nat
  ssr_total_events :: nat
  ssr_total_steps :: nat

text \<open>
  The \<open>while pending_commands and total_steps < max_steps\<close> loop; \<open>budget\<close> is
  \<open>max_steps - total_steps\<close>, which every iteration decreases.
\<close>

(* sim/tes_simulation/strategy_runner.py:33-43 run_strategy_simulation *)
fun strategy_loop ::
  "'e engine \<Rightarrow> 's strategy \<Rightarrow> nat \<Rightarrow> 'e \<Rightarrow> 's \<Rightarrow> command list \<Rightarrow> event list \<Rightarrow> nat \<Rightarrow> nat
   \<Rightarrow> 'e \<times> 's \<times> (event list \<times> nat \<times> nat) result" where
  "strategy_loop engine strat 0 e s pending events total_commands total_steps =
     (e, s, Inr (events, total_commands, total_steps))"
| "strategy_loop engine strat (Suc budget) e s pending events total_commands total_steps =
     (if pending = [] then (e, s, Inr (events, total_commands, total_steps))
      else
        case run_commands engine e pending of
          (e', Inl exc) \<Rightarrow> (e', s, Inl exc)
        | (e', Inr step_events) \<Rightarrow>
            (case collect_on_event strat s step_events of
               (s', Inl exc) \<Rightarrow> (e', s', Inl exc)
             | (s', Inr next_commands) \<Rightarrow>
                 strategy_loop engine strat budget e' s' next_commands (events @ step_events)
                   (total_commands + length pending) (total_steps + 1)))"

(* sim/tes_simulation/strategy_runner.py:19-50 run_strategy_simulation *)
definition run_strategy_simulation ::
  "'e engine \<Rightarrow> 's strategy \<Rightarrow> int \<Rightarrow> 'e \<Rightarrow> 's \<Rightarrow> 'e \<times> 's \<times> strategy_simulation_result result" where
  "run_strategy_simulation engine strat max_steps e s =
     (if max_steps \<le> 0 then (e, s, Inl (ValueError ''max_steps must be positive''))
      else
        case on_start strat s of
          (s', Inl exc) \<Rightarrow> (e, s', Inl exc)
        | (s', Inr pending) \<Rightarrow>
            (case strategy_loop engine strat (nat max_steps) e s' pending [] 0 0 of
               (e', s'', r) \<Rightarrow> (e', s'', bind_r r (\<lambda>(events, total_commands, total_steps).
                 Inr \<lparr>ssr_events = events, ssr_total_commands = total_commands,
                      ssr_total_events = length events, ssr_total_steps = total_steps\<rparr>))))"

lemma strategy_loop_steps:
  assumes "strategy_loop engine strat budget e s pending events tc ts = (e', s', Inr (evs, tc', ts'))"
  shows "ts \<le> ts' \<and> ts' \<le> ts + budget \<and> tc + (ts' - ts) \<le> tc' \<and> (\<exists>more. evs = events @ more)"
  using assms
proof (induction budget arbitrary: e s pending events tc ts)
  case 0
  then show ?case by simp
next
  case (Suc budget)
  show ?case
  proof (cases "pending = []")
    case True
    with Suc.prems show ?thesis by simp
  next
    case False
    with Suc.prems obtain e1 s1 step_events next_commands where
      rec: "strategy_loop engine strat budget e1 s1 next_commands (events @ step_events)
        (tc + length pending) (ts + 1) = (e', s', Inr (evs, tc', ts'))"
      by (auto split: prod.splits sum.splits)
    from False have "1 \<le> length pending" by (cases pending) auto
    with Suc.IH [OF rec] show ?thesis by auto
  qed
qed

end
