(* ===== verification/Analytics.thy ===== *)
theory Analytics
  imports Engine_Adapter
begin

text \<open>
  Event-stream summaries: \<open>sim/tes_analytics\<close>, \<open>sim/tes_simulation/results.py\<close>,
  \<open>sim/tes_simulation/strategy_metadata.py\<close>, \<open>sim/tes_replay/replay.py\<close> and
  \<open>sim/tes_replay/validation.py\<close>. The lemmas relate the summaries to each other and show that they
  distribute over concatenated streams.
\<close>

section \<open>Counting and trade metrics\<close>

abbreviation is_trade :: "event \<Rightarrow> bool" where
  "is_trade e \<equiv> event_type e = ''TradeExecuted''"

text \<open>\<open>event.data.qty\<close> and \<open>event.data.price * event.data.qty\<close> of a trade.\<close>

fun trade_qty :: "event \<Rightarrow> int" where
  "trade_qty (TradeExecuted (TradeExecutedData _ qty _ _ _)) = qty"
| "trade_qty _ = 0"

fun trade_notional :: "event \<Rightarrow> int" where
  "trade_notional (TradeExecuted (TradeExecutedData price qty _ _ _)) = price * qty"
| "trade_notional _ = 0"

lemma is_trade_iff: "is_trade e \<longleftrightarrow> (\<exists>d. e = TradeExecuted d)"
  by (cases e) simp_all

(* sim/tes_analytics/summary.py:6-10 count_events *)
fun count_events_from :: "(string \<times> nat) list \<Rightarrow> event list \<Rightarrow> (string \<times> nat) list" where
  "count_events_from counts [] = counts"
| "count_events_from counts (event # events) =
     count_events_from
       (AList.update (event_type event)
         ((case map_of counts (event_type event) of None \<Rightarrow> 0 | Some n \<Rightarrow> n) + 1) counts) events"

(* sim/tes_analytics/summary.py:6-10 count_events *)
definition count_events :: "event list \<Rightarrow> (string \<times> nat) list" where
  "count_events events = count_events_from [] events"

(* sim/tes_analytics/summary.py:13-14 count_trades *)
definition count_trades :: "event list \<Rightarrow> nat" where
  "count_trades events = length (filter is_trade events)"

(* sim/tes_analytics/summary.py:17-18 total_traded_qty *)
definition total_traded_qty :: "event list \<Rightarrow> int" where
  "total_traded_qty events = sum_list (map trade_qty (filter is_trade events))"

(* sim/tes_analytics/summary.py:21-22 traded_notional *)
definition traded_notional :: "event list \<Rightarrow> int" where
  "traded_notional events = sum_list (map trade_notional (filter is_trade events))"

(* sim/tes_analytics/trades.py:6-7 _trade_events *)
definition trade_events :: "event list \<Rightarrow> event list" where
  "trade_events events = filter is_trade events"

(* sim/tes_analytics/trades.py:10-11 total_trades *)
definition total_trades :: "event list \<Rightarrow> nat" where
  "total_trades events = length (trade_events events)"

(* sim/tes_analytics/trades.py:14-15 total_traded_qty *)
definition total_traded_qty_tr :: "event list \<Rightarrow> int" where
  "total_traded_qty_tr events = sum_list (map trade_qty (trade_events events))"

(* sim/tes_analytics/trades.py:18-19 traded_notional *)
definition traded_notional_tr :: "event list \<Rightarrow> int" where
  "traded_notional_tr events = sum_list (map trade_notional (trade_events events))"

(* sim/tes_analytics/trades.py:22-26 average_trade_price *)
definition average_trade_price :: "event list \<Rightarrow> pyfloat result" where
  "average_trade_price events =
     (let qty = total_traded_qty_tr events
      in if qty = 0 then Inr float_zero else int_truediv (traded_notional_tr events) qty)"

section \<open>Run records and metadata\<close>

(* sim/tes_simulation/results.py:8-14 SimulationSummary *)
record simulation_summary =
  sum_total_commands :: int
  sum_total_events :: nat
  sum_total_trades :: nat
  sum_total_order_accepted :: nat
  sum_total_order_canceled :: nat

(* sim/tes_simulation/results.py:17-21 SimulationRunRecord *)
record simulation_run_record =
  srr_run_id :: string
  srr_summary :: simulation_summary
  srr_events :: "event list"

definition count_type :: "string \<Rightarrow> event list \<Rightarrow> nat" where
  "count_type ty events = length (filter (\<lambda>e. event_type e = ty) events)"

(* sim/tes_simulation/results.py:24-38 build_simulation_summary *)
definition build_simulation_summary :: "event list \<Rightarrow> int \<Rightarrow> simulation_summary result" where
  "build_simulation_summary events total_commands =
     (if total_commands < 0 then Inl (ValueError ''total_commands must be >= 0'')
      else Inr \<lparr>sum_total_commands = total_commands, sum_total_events = length events,
        sum_total_trades = count_type ''TradeExecuted'' events,
        sum_total_order_accepted = count_type ''OrderAccepted'' events,
        sum_total_order_canceled = count_type ''OrderCanceled'' events\<rparr>)"

(* sim/tes_simulation/results.py:41-49 build_run_record *)
definition build_run_record :: "string \<Rightarrow> event list \<Rightarrow> int \<Rightarrow> simulation_run_record result" where
  "build_run_record run_id events total_commands =
     (if run_id = [] then Inl (ValueError ''run_id must be a non-empty string'')
      else bind_r (build_simulation_summary events total_commands) (\<lambda>summary.
        Inr \<lparr>srr_run_id = run_id, srr_summary = summary, srr_events = events\<rparr>))"

(* sim/tes_simulation/strategy_metadata.py:8-13 StrategyRunMetadata *)
record strategy_run_metadata =
  srm_strategy_name :: string
  srm_total_commands :: int
  srm_total_events :: int
  srm_total_trades :: int

(* sim/tes_simulation/strategy_metadata.py:16-33 build_strategy_run_metadata *)
definition build_strategy_run_metadata ::
  "string \<Rightarrow> event list \<Rightarrow> int \<Rightarrow> strategy_run_metadata result" where
  "build_strategy_run_metadata strategy_name events total_commands =
     (if strategy_name = [] then Inl (ValueError ''strategy_name must be a non-empty string'')
      else if total_commands < 0 then Inl (ValueError ''total_commands must be >= 0'')
      else Inr \<lparr>srm_strategy_name = strategy_name, srm_total_commands = total_commands,
        srm_total_events = int (length events),
        srm_total_trades = int (count_type ''TradeExecuted'' events)\<rparr>)"

(* sim/tes_simulation/strategy_metadata.py:36-49 strategy_metadata_to_dict *)
definition strategy_metadata_to_dict :: "strategy_run_metadata \<Rightarrow> pydict result" where
  "strategy_metadata_to_dict metadata =
     (if srm_total_commands metadata < 0 then Inl (ValueError ''total_commands must be >= 0'')
      else if srm_total_events metadata < 0 then Inl (ValueError ''total_events must be >= 0'')
      else if srm_total_trades metadata < 0 then Inl (ValueError ''total_trades must be >= 0'')
      else Inr [(''strategy_name'', PStr (srm_strategy_name metadata)),
        (''total_commands'', PInt (srm_total_commands metadata)),
        (''total_events'', PInt (srm_total_events metadata)),
        (''total_trades'', PInt (srm_total_trades metadata))])"

section \<open>Replaying and validating event lists\<close>

(* sim/tes_replay/replay.py:8-12 ReplayResult *)
record replay_result =
  rr_events :: "event list"
  rr_total_events :: nat
  rr_total_trades :: nat

(* sim/tes_replay/replay.py:15-18 replay_events *)
definition replay_events :: "event list \<Rightarrow> replay_result" where
  "replay_events events =
     \<lparr>rr_events = events, rr_total_events = length events,
      rr_total_trades = count_type ''TradeExecuted'' events\<rparr>"

text \<open>The six classes \<open>validate_replay_events\<close> names in its \<open>isinstance\<close> test.\<close>

fun replay_event_class :: "event \<Rightarrow> bool" where
  "replay_event_class (OrderAccepted _) = True"
| "replay_event_class (OrderRejected _) = True"
| "replay_event_class (OrderCanceled _) = True"
| "replay_event_class (CancelRejected _) = True"
| "replay_event_class (TradeExecuted _) = True"
| "replay_event_class (TopOfBook _) = True"
| "replay_event_class _ = False"

(* sim/tes_replay/validation.py:14-35 validate_replay_events *)
fun validate_replay_loop :: "event list \<Rightarrow> unit result" where
  "validate_replay_loop [] = Inr ()"
| "validate_replay_loop (event # events) =
     (if replay_event_class event then validate_replay_loop events
      else Inl (ValueError ''events must contain TesEngineEvent objects''))"

(* sim/tes_replay/validation.py:14-35 validate_replay_events *)
definition validate_replay_events :: "event list \<Rightarrow> event list result" where
  "validate_replay_events events = bind_r (validate_replay_loop events) (\<lambda>_. Inr events)"

section \<open>Lemmas\<close>

lemma count_events_from_map_of:
  "map_of (count_events_from counts events) ty =
     (case map_of counts ty of
        Some n \<Rightarrow> Some (n + count_type ty events)
      | None \<Rightarrow> if count_type ty events = 0 then None else Some (count_type ty events))"
proof (induction events arbitrary: counts)
  case Nil
  then show ?case by (simp add: count_type_def split: option.splits)
next
  case (Cons e es)
  then show ?case
    by (auto simp: count_type_def update_conv' split: option.splits)
qed

lemma count_events_map_of:
  "map_of (count_events events) ty =
     (if count_type ty events = 0 then None else Some (count_type ty events))"
  by (simp add: count_events_def count_events_from_map_of)

lemma distinct_count_events_from:
  "distinct (map fst counts) \<Longrightarrow> distinct (map fst (count_events_from counts events))"
  by (induction events arbitrary: counts) (simp_all add: distinct_update)

lemma trade_modules_agree:
  "count_trades events = total_trades events"
  "total_traded_qty events = total_traded_qty_tr events"
  "traded_notional events = traded_notional_tr events"
  "count_trades events = count_type ''TradeExecuted'' events"
  by (simp_all add: count_trades_def total_trades_def total_traded_qty_def total_traded_qty_tr_def
      traded_notional_def traded_notional_tr_def trade_events_def count_type_def)

lemma trade_metrics_append:
  "count_trades (xs @ ys) = count_trades xs + count_trades ys"
  "total_traded_qty (xs @ ys) = total_traded_qty xs + total_traded_qty ys"
  "traded_notional (xs @ ys) = traded_notional xs + traded_notional ys"
  by (simp_all add: count_trades_def total_traded_qty_def traded_notional_def)

lemma validate_replay_events_ok:
  "validate_replay_events events = Inr out \<longleftrightarrow> out = events \<and> list_all replay_event_class events"
proof -
  have "validate_replay_loop events = (if list_all replay_event_class events then Inr ()
    else Inl (ValueError ''events must contain TesEngineEvent objects''))"
    by (induction events) auto
  then show ?thesis by (auto simp: validate_replay_events_def)
qed

end
