(* ===== verification/Timestamps.thy ===== *)
theory Timestamps
  imports Py_Value
begin

text \<open>
  The text form of timestamps. Both SQLite modules store UTC instants as ISO 8601 text and let SQL
  compare and sort that text: \<open>sim/api/execution/queue.py\<close> keeps the \<open>+00:00\<close> suffix of
  \<open>isoformat()\<close>, \<open>sim/api/storage/sqlite.py\<close> replaces it by \<open>Z\<close>. \<open>isoformat\<close> omits the fraction of a
  second when it is zero. The lemmas show that the first text order is the order of the instants,
  and what the order of the second is.
\<close>

section \<open>UTC date-times and their ISO text\<close>

record datetime =
  dt_year :: nat
  dt_month :: nat
  dt_day :: nat
  dt_hour :: nat
  dt_minute :: nat
  dt_second :: nat
  dt_micro :: nat

text \<open>The ranges \<open>datetime\<close> enforces (the length of the month does not matter to the order).\<close>

definition valid_datetime :: "datetime \<Rightarrow> bool" where
  "valid_datetime d \<longleftrightarrow> 1 \<le> dt_year d \<and> dt_year d \<le> 9999 \<and> 1 \<le> dt_month d \<and> dt_month d \<le> 12 \<and>
     1 \<le> dt_day d \<and> dt_day d \<le> 31 \<and> dt_hour d \<le> 23 \<and> dt_minute d \<le> 59 \<and> dt_second d \<le> 59 \<and>
     dt_micro d \<le> 999999"

text \<open>\<open>n\<close> in \<open>w\<close> decimal digits, with leading zeros.\<close>

fun pad :: "nat \<Rightarrow> nat \<Rightarrow> string" where
  "pad 0 n = []"
| "pad (Suc w) n = pad w (n div 10) @ [digit_char (n mod 10)]"

text \<open>Date and time up to the second, then the optional fraction and the offset.\<close>

definition iso_seconds :: "datetime \<Rightarrow> string" where
  "iso_seconds d = pad 4 (dt_year d) @ ''-'' @ pad 2 (dt_month d) @ ''-'' @ pad 2 (dt_day d) @ ''T''
     @ pad 2 (dt_hour d) @ '':'' @ pad 2 (dt_minute d) @ '':'' @ pad 2 (dt_second d)"

definition iso_fraction :: "datetime \<Rightarrow> string" where
  "iso_fraction d = (if dt_micro d = 0 then [] else ''.'' @ pad 6 (dt_micro d))"

definition isoformat :: "datetime \<Rightarrow> string" where
  "isoformat d = iso_seconds d @ iso_fraction d @ ''+00:00''"

text \<open>\<open>s.replace(old, new)\<close>: non-overlapping occurrences from the left.\<close>

lemma length_le_of_take: "take (length old) s = old \<Longrightarrow> length old \<le> length s"
  by (metis length_take min.cobounded1)

function str_replace :: "string \<Rightarrow> string \<Rightarrow> string \<Rightarrow> string" where
  "str_replace old new s =
     (if old = [] then s
      else if take (length old) s = old then new @ str_replace old new (drop (length old) s)
      else case s of [] \<Rightarrow> [] | c # cs \<Rightarrow> c # str_replace old new cs)"
  by pat_completeness auto
termination
  by (relation "measure (\<lambda>(old, new, s). length s)")
    (auto simp: neq_Nil_conv dest!: length_le_of_take)

declare str_replace.simps [simp del]

(* sim/api/execution/queue.py:729-732 _format_datetime *)
definition format_datetime_queue :: "datetime \<Rightarrow> string" where
  "format_datetime_queue value = isoformat value"

(* sim/api/storage/sqlite.py:810-814 _format_datetime *)
definition format_datetime_store :: "datetime option \<Rightarrow> string option" where
  "format_datetime_store value =
     map_option (\<lambda>d. str_replace ''+00:00'' ''Z'' (isoformat d)) value"

section \<open>Instants and orders\<close>

text \<open>
  The fields of a date-time, most significant first: on valid values their lexicographic order is
  the order of the instants.
\<close>

definition dt_fields :: "'a datetime_scheme \<Rightarrow> nat list" where
  "dt_fields d = [dt_year d, dt_month d, dt_day d, dt_hour d, dt_minute d, dt_second d, dt_micro d]"

definition dt_seconds :: "datetime \<Rightarrow> nat list" where
  "dt_seconds d = [dt_year d, dt_month d, dt_day d, dt_hour d, dt_minute d, dt_second d]"

text \<open>Date-times are ordered as instants, by these fields.\<close>

lemma dt_fields_inject:
  "dt_fields a = dt_fields b \<and> datetime.more a = datetime.more b \<longleftrightarrow> a = b"
  by (cases a, cases b) (auto simp: dt_fields_def)

instantiation datetime_ext :: (linorder) linorder
begin

definition less_eq_datetime_ext :: "'a datetime_ext \<Rightarrow> 'a datetime_ext \<Rightarrow> bool" where
  "less_eq_datetime_ext a b \<longleftrightarrow>
     dt_fields a < dt_fields b \<or> (dt_fields a = dt_fields b \<and> datetime.more a \<le> datetime.more b)"

definition less_datetime_ext :: "'a datetime_ext \<Rightarrow> 'a datetime_ext \<Rightarrow> bool" where
  "less_datetime_ext a b \<longleftrightarrow>
     dt_fields a < dt_fields b \<or> (dt_fields a = dt_fields b \<and> datetime.more a < datetime.more b)"

instance
proof
  fix a b c :: "'a datetime_ext"
  show "a < b \<longleftrightarrow> a \<le> b \<and> \<not> b \<le> a"
    by (auto simp: less_datetime_ext_def less_eq_datetime_ext_def)
  show "a \<le> a"
    by (simp add: less_eq_datetime_ext_def)
  show "a \<le> c" if "a \<le> b" "b \<le> c"
    using that by (auto simp: less_eq_datetime_ext_def)
  show "a = b" if "a \<le> b" "b \<le> a"
    using that dt_fields_inject [of a b] by (auto simp: less_eq_datetime_ext_def)
  show "a \<le> b \<or> b \<le> a"
    by (auto simp: less_eq_datetime_ext_def)
qed

end

lemma datetime_less_iff: "(a :: datetime) < b \<longleftrightarrow> dt_fields a < dt_fields b"
  by (simp add: less_datetime_ext_def)

lemma length_pad [simp]: "length (pad w n) = w"
  by (induction w arbitrary: n) simp_all

lemma append_less_append:
  fixes a b c d :: "('a :: linorder) list"
  assumes "length a = length b"
  shows "a @ c < b @ d \<longleftrightarrow> a < b \<or> (a = b \<and> c < d)"
  using assms
proof (induction a b rule: list_induct2)
  case (Cons x xs y ys)
  then show ?case by auto
qed simp

lemma append_eq_append_same: "length a = length b \<Longrightarrow> a @ c = b @ d \<longleftrightarrow> a = b \<and> c = d"
  by simp

lemma digit_char_less:
  assumes "m < 10" "n < 10"
  shows "digit_char m < digit_char n \<longleftrightarrow> m < n" and "digit_char m = digit_char n \<longleftrightarrow> m = n"
proof -
  have code: "of_char (digit_char k) = 48 + k" if "k < 10" for k :: nat
    using that by (simp add: digit_char_def)
  show "digit_char m < digit_char n \<longleftrightarrow> m < n"
    using assms by (simp add: less_char_def code)
  show "digit_char m = digit_char n \<longleftrightarrow> m = n"
    using code [OF assms(1)] code [OF assms(2)] by (metis add_left_imp_eq)
qed

lemma decimal_less:
  fixes a b a' b' :: nat
  assumes "b < 10" "b' < 10"
  shows "10 * a + b < 10 * a' + b' \<longleftrightarrow> a < a' \<or> (a = a' \<and> b < b')"
    and "10 * a + b = 10 * a' + b' \<longleftrightarrow> a = a' \<and> b = b'"
  using assms by (cases a a' rule: linorder_cases; simp)+

lemma pad_less:
  "m < 10 ^ w \<Longrightarrow> n < 10 ^ w \<Longrightarrow> (pad w m < pad w n \<longleftrightarrow> m < n) \<and> (pad w m = pad w n \<longleftrightarrow> m = n)"
proof (induction w arbitrary: m n)
  case 0
  then show ?case by simp
next
  case (Suc w)
  have "m div 10 < 10 ^ w" "n div 10 < 10 ^ w"
    using Suc.prems by (auto simp: div_less_iff_less_mult mult.commute)
  then have IH: "(pad w (m div 10) < pad w (n div 10) \<longleftrightarrow> m div 10 < n div 10)"
    "(pad w (m div 10) = pad w (n div 10) \<longleftrightarrow> m div 10 = n div 10)"
    using Suc.IH by blast+
  have d: "digit_char (m mod 10) < digit_char (n mod 10) \<longleftrightarrow> m mod 10 < n mod 10"
    "digit_char (m mod 10) = digit_char (n mod 10) \<longleftrightarrow> m mod 10 = n mod 10"
    by (simp_all add: digit_char_less)
  have "m < n \<longleftrightarrow> m div 10 < n div 10 \<or> (m div 10 = n div 10 \<and> m mod 10 < n mod 10)"
    using decimal_less(1) [of "m mod 10" "n mod 10" "m div 10" "n div 10"] by simp
  moreover have "m = n \<longleftrightarrow> m div 10 = n div 10 \<and> m mod 10 = n mod 10"
    using decimal_less(2) [of "m mod 10" "n mod 10" "m div 10" "n div 10"] by simp
  ultimately show ?case
    using IH d by (simp add: append_less_append)
qed

text \<open>Two pieces of text that start with a padded field each.\<close>

lemma pad_append_less:
  "m < 10 ^ w \<Longrightarrow> n < 10 ^ w \<Longrightarrow> pad w m @ c < pad w n @ d \<longleftrightarrow> m < n \<or> (m = n \<and> c < d)"
  by (simp add: append_less_append pad_less)

lemma pad_append_eq:
  "m < 10 ^ w \<Longrightarrow> n < 10 ^ w \<Longrightarrow> pad w m @ c = pad w n @ d \<longleftrightarrow> m = n \<and> c = d"
  by (simp add: pad_less)

lemma iso_seconds_append_less:
  assumes "valid_datetime a" "valid_datetime b"
  shows "iso_seconds a @ c < iso_seconds b @ d \<longleftrightarrow>
    dt_seconds a < dt_seconds b \<or> (dt_seconds a = dt_seconds b \<and> c < d)"
  using assms unfolding valid_datetime_def iso_seconds_def dt_seconds_def
  by (auto simp: pad_append_less)

lemma iso_fraction_less:
  assumes "valid_datetime a" "valid_datetime b"
  shows "iso_fraction a @ ''+00:00'' < iso_fraction b @ ''+00:00'' \<longleftrightarrow> dt_micro a < dt_micro b"
  using assms unfolding valid_datetime_def iso_fraction_def
  by (auto simp: pad_append_less less_char_def)

lemma format_queue_order:
  assumes "valid_datetime a" "valid_datetime b"
  shows "format_datetime_queue a < format_datetime_queue b \<longleftrightarrow> a < b"
proof -
  have "dt_fields a < dt_fields b \<longleftrightarrow>
      dt_seconds a < dt_seconds b \<or> (dt_seconds a = dt_seconds b \<and> dt_micro a < dt_micro b)"
    by (auto simp: dt_fields_def dt_seconds_def)
  with assms show ?thesis
    by (simp add: datetime_less_iff format_datetime_queue_def isoformat_def iso_seconds_append_less
        iso_fraction_less)
qed

text \<open>The text with \<open>Z\<close>: a whole second sorts after every fraction of the same second.\<close>

lemma str_replace_none:
  assumes "\<And>c. c \<in> set s \<Longrightarrow> c \<noteq> hd old" and "old \<noteq> []"
  shows "str_replace old new (s @ old) = s @ new"
  using assms
proof (induction s)
  case Nil
  then show ?case
    by (subst str_replace.simps) (simp add: str_replace.simps [of old new "[]"])
next
  case (Cons c s)
  have "take (length old) ((c # s) @ old) \<noteq> old"
  proof
    assume "take (length old) ((c # s) @ old) = old"
    then have "hd old = c" using Cons.prems(2) by (cases old) auto
    with Cons.prems(1) show False by auto
  qed
  then have "str_replace old new ((c # s) @ old) = c # str_replace old new (s @ old)"
    using Cons.prems(2) by (subst str_replace.simps) simp
  with Cons show ?case by simp
qed

lemma digit_char_neq: "d < 10 \<Longrightarrow> digit_char d \<noteq> CHR ''+''"
proof
  assume "d < 10" "digit_char d = CHR ''+''"
  then have "of_char (digit_char d) = (of_char CHR ''+'' :: nat)" by simp
  with \<open>d < 10\<close> show False by (simp add: digit_char_def)
qed

lemma plus_notin_pad: "CHR ''+'' \<notin> set (pad w n)"
  by (induction w arbitrary: n) (auto simp: digit_char_neq dest: sym)

lemma format_store_Some:
  "format_datetime_store (Some d) = Some (iso_seconds d @ iso_fraction d @ ''Z'')"
proof -
  have "str_replace ''+00:00'' ''Z'' ((iso_seconds d @ iso_fraction d) @ ''+00:00'') =
      (iso_seconds d @ iso_fraction d) @ ''Z''"
    by (rule str_replace_none) (auto simp: iso_seconds_def iso_fraction_def plus_notin_pad
        dest: plus_notin_pad [THEN notE, rotated] split: if_splits)
  then show ?thesis
    by (simp add: format_datetime_store_def isoformat_def)
qed

text \<open>The key by which the \<open>Z\<close> text sorts within a second.\<close>

definition z_micro :: "datetime \<Rightarrow> nat" where
  "z_micro d = (if dt_micro d = 0 then 10 ^ 6 else dt_micro d)"

lemma iso_fraction_Z_less:
  assumes "valid_datetime a" "valid_datetime b"
  shows "iso_fraction a @ ''Z'' < iso_fraction b @ ''Z'' \<longleftrightarrow> z_micro a < z_micro b"
  using assms unfolding valid_datetime_def iso_fraction_def z_micro_def
  by (auto simp: pad_append_less less_char_def)

lemma format_store_order:
  assumes "valid_datetime a" "valid_datetime b"
  shows "the (format_datetime_store (Some a)) < the (format_datetime_store (Some b)) \<longleftrightarrow>
    dt_seconds a < dt_seconds b \<or> (dt_seconds a = dt_seconds b \<and> z_micro a < z_micro b)"
  using assms by (simp add: format_store_Some iso_seconds_append_less iso_fraction_Z_less)

end
