(* ===== verification/Data_Props.thy ===== *)
theory Data_Props
  imports Analytics Timestamps
begin

text \<open>
  The properties of the data layer: the command parser and the event codec of the engine boundary,
  the command runners and the strategy loop over an arbitrary engine, the event summaries and the
  text form of timestamps.
\<close>

section \<open>Commands and events\<close>

text \<open>C25 (accepted commands). Whatever \<open>parse_command\<close> accepts is a dictionary with exactly the
  keys \<open>type\<close> and \<open>data\<close>, names the class of the command it returns, carries exactly the fields of
  that command (only a missing \<open>symbol\<close> is filled in, with \<open>DEFAULT\<close>), and the command satisfies the
  promised bounds: positive prices, quantities and order ids, displayed quantity at most the
  total.\<close>

theorem parsed_command_faithful:
  assumes "parse_command raw = Inr c"
  shows "valid_command c \<and>
    (\<exists>command data. raw = PDict command \<and> dkeys command = {''type'', ''data''} \<and>
       map_of command ''type'' = Some (PStr (fst (command_json c))) \<and>
       map_of command ''data'' = Some (PDict data) \<and> same_fields data (snd (command_json c)))"
  using assms parse_command_valid [OF assms]
  by (auto simp: parse_command_Inr dest!: map_of_SomeD [of command_branches] command_branch_fields)

definition sample_raw_command :: pyval where
  "sample_raw_command = PDict [(''data'', PDict [(''qty'', PInt 5), (''side'', PStr ''SELL'')]),
     (''type'', PStr ''MarketOrder'')]"

lemma sample_raw_command_parses:
  "parse_command sample_raw_command = Inr (MarketOrder SELL 5 DEFAULT_SYMBOL)"
  by (simp add: sample_raw_command_def parse_command_def field_defs require_exact_keys_def
      command_branches_def command_branch_defs require_command_keys_def insert_commute
      require_side_def in_literals_def)

theorem parsed_command_faithful_witness: "valid_command (MarketOrder SELL 5 DEFAULT_SYMBOL)"
  using parsed_command_faithful [OF sample_raw_command_parses] by simp

text \<open>C26 (command round trip). The JSON form of a command is accepted, as that very command,
  exactly when the command is well formed: nothing else is rejected and no field changes.\<close>

theorem command_roundtrip: "parse_command (command_to_json c) = Inr c \<longleftrightarrow> valid_command c"
  using parse_command_complete parse_command_valid by blast

text \<open>C27 (event round trip). \<open>parse_event\<close> reads back the dictionary \<open>serialize_event\<close> writes
  exactly for the events whose dictionary kept the key the parser requires. The serializer drops a
  symbol equal to \<open>DEFAULT\<close>, and eight event classes require the key: their events on the default
  symbol are written and then refused with a \<open>ValueError\<close>.\<close>

theorem event_roundtrip:
  "(parse_event (serialize_event e) = Inr e \<longleftrightarrow> \<not> (symbol_required e \<and> event_symbol e = DEFAULT_SYMBOL)) \<and>
   (symbol_required e \<and> event_symbol e = DEFAULT_SYMBOL \<longrightarrow>
      (\<exists>m. parse_event (serialize_event e) = Inl (ValueError m)))"
proof (cases "survives_json e")
  case True
  then show ?thesis by (auto simp: roundtrip_ok survives_json_def)
next
  case False
  then obtain m where "parse_event (serialize_event e) = Inl (ValueError m)"
    using roundtrip_lost by blast
  with False show ?thesis by (simp add: survives_json_def)
qed

theorem event_roundtrip_witness:
  "\<exists>m. parse_event (serialize_event (SymbolResumed (SymbolResumedData DEFAULT_SYMBOL)))
     = Inl (ValueError m)"
  using event_roundtrip [of "SymbolResumed (SymbolResumedData DEFAULT_SYMBOL)"] by simp

section \<open>Running commands and strategies\<close>

text \<open>Remark (batches compose). \<open>run_commands\<close> of the simulation runner is \<open>execute_commands\<close> of the
  adapter, on every engine; and running a batch in two parts, the second on the engine the first
  left, gives the events of the whole batch, or the first exception with the engine as it was then.\<close>

theorem batches_compose:
  "run_commands engine e (cs @ ds) =
     (case execute_commands engine e cs of
        (e', Inl exc) \<Rightarrow> (e', Inl exc)
      | (e', Inr events) \<Rightarrow>
          (case execute_commands engine e' ds of
             (e'', Inl exc) \<Rightarrow> (e'', Inl exc)
           | (e'', Inr rest) \<Rightarrow> (e'', Inr (events @ rest))))"
  by (simp add: run_commands_eq execute_commands_append)

text \<open>The strategy loop executes a list of batches one after the other.\<close>

lemma strategy_loop_batches:
  assumes "strategy_loop engine strat budget e s pending events tc ts = (e', s', Inr (evs, tc', ts'))"
  shows "\<exists>batches more. [] \<notin> set batches \<and> (batches \<noteq> [] \<longrightarrow> hd batches = pending) \<and>
    ts' = ts + length batches \<and> length batches \<le> budget \<and> tc' = tc + length (concat batches) \<and>
    evs = events @ more \<and> execute_commands engine e (concat batches) = (e', Inr more)"
  using assms
proof (induction budget arbitrary: e s pending events tc ts)
  case 0
  then show ?case by (intro exI [of _ "[]"]) simp
next
  case (Suc budget)
  show ?case
  proof (cases "pending = []")
    case True
    with Suc.prems show ?thesis by (intro exI [of _ "[]"]) simp
  next
    case False
    with Suc.prems obtain e1 s1 step next_commands where
      run: "execute_commands engine e pending = (e1, Inr step)" and
      rec: "strategy_loop engine strat budget e1 s1 next_commands (events @ step)
        (tc + length pending) (ts + 1) = (e', s', Inr (evs, tc', ts'))"
      by (auto simp: run_commands_eq split: prod.splits sum.splits)
    from Suc.IH [OF rec] obtain batches more where IH:
      "[] \<notin> set batches" "ts' = ts + 1 + length batches" "length batches \<le> budget"
      "tc' = tc + length pending + length (concat batches)" "evs = (events @ step) @ more"
      "execute_commands engine e1 (concat batches) = (e', Inr more)"
      by blast
    then have "execute_commands engine e (concat (pending # batches)) = (e', Inr (step @ more))"
      by (simp add: execute_commands_append run)
    with IH False show ?thesis
      by (intro exI [of _ "pending # batches"] exI [of _ "step @ more"]) auto
  qed
qed

text \<open>A larger budget does not change a run that stopped before its budget was used up.\<close>

lemma strategy_loop_mono:
  assumes "strategy_loop engine strat budget e s pending events tc ts = (e', s', Inr (evs, tc', ts'))"
    and "ts' < ts + budget" and "budget \<le> budget'"
  shows "strategy_loop engine strat budget' e s pending events tc ts = (e', s', Inr (evs, tc', ts'))"
  using assms
proof (induction budget arbitrary: e s pending events tc ts budget')
  case (Suc budget)
  then obtain b where b: "budget' = Suc b" "budget \<le> b" by (cases budget') auto
  from Suc.prems b Suc.IH [where budget' = b] show ?case
    by (auto split: if_splits prod.splits sum.splits)
qed simp

text \<open>C28 (strategy runs). A strategy run that returns made at most \<open>max_steps\<close> steps; its events
  and the engine it leaves are those of executing, as one batch, the commands of its steps (the
  first being those of \<open>on_start\<close>), all of them counted; and when it stopped before the limit,
  every larger limit gives the same run.\<close>

theorem strategy_run_is_batch_run:
  assumes "run_strategy_simulation engine strat max_steps e s = (e', s', Inr res)"
  shows "(\<exists>commands. execute_commands engine e commands = (e', Inr (ssr_events res)) \<and>
      length commands = ssr_total_commands res \<and>
      (0 < ssr_total_steps res \<longrightarrow>
        (\<exists>first rest. snd (on_start strat s) = Inr first \<and> first \<noteq> [] \<and> commands = first @ rest)))
    \<and> ssr_total_events res = length (ssr_events res)
    \<and> ssr_total_steps res \<le> ssr_total_commands res \<and> int (ssr_total_steps res) \<le> max_steps
    \<and> (int (ssr_total_steps res) < max_steps \<longrightarrow>
        (\<forall>m \<ge> max_steps. run_strategy_simulation engine strat m e s = (e', s', Inr res)))"
proof -
  from assms obtain s1 pending tc ts where
    pos: "0 < max_steps" and
    start: "on_start strat s = (s1, Inr pending)" and
    loop: "strategy_loop engine strat (nat max_steps) e s1 pending [] 0 0 =
      (e', s', Inr (ssr_events res, tc, ts))" and
    res: "ssr_total_commands res = tc" "ssr_total_steps res = ts"
      "ssr_total_events res = length (ssr_events res)"
    by (auto simp: run_strategy_simulation_def bind_r_Inr_iff split: if_splits prod.splits sum.splits)
  obtain batches where
    b: "[] \<notin> set batches" "batches \<noteq> [] \<longrightarrow> hd batches = pending" "ts = length batches"
      "length batches \<le> nat max_steps" "tc = length (concat batches)"
      "execute_commands engine e (concat batches) = (e', Inr (ssr_events res))"
    using strategy_loop_batches [OF loop] by auto
  have first: "\<exists>first rest. snd (on_start strat s) = Inr first \<and> first \<noteq> [] \<and>
      concat batches = first @ rest" if "0 < ts"
    using that b start by (cases batches) auto
  have "run_strategy_simulation engine strat m e s = (e', s', Inr res)"
    if "int ts < max_steps" "max_steps \<le> m" for m
  proof -
    have "strategy_loop engine strat (nat m) e s1 pending [] 0 0 =
        (e', s', Inr (ssr_events res, tc, ts))"
      by (rule strategy_loop_mono [OF loop]) (use that in auto)
    with pos that start res show ?thesis
      by (simp add: run_strategy_simulation_def)
  qed
  moreover have "ts \<le> tc"
    using strategy_loop_steps [OF loop] by simp
  ultimately show ?thesis
    using b first res pos by auto
qed

text \<open>An engine that acknowledges nothing, and the market maker on it: one step, two commands.\<close>

definition silent_engine :: "unit engine" where
  "silent_engine call e = (e, Inr (PList []))"

theorem strategy_run_is_batch_run_witness:
  "\<exists>commands. execute_commands silent_engine () commands = ((), Inr []) \<and> length commands = 2"
proof -
  have "run_strategy_simulation silent_engine (simple_market_maker 99 101 1) 3 () () =
      ((), (), Inr \<lparr>ssr_events = [], ssr_total_commands = 2, ssr_total_events = 0,
        ssr_total_steps = 1\<rparr>)"
    by (simp add: run_strategy_simulation_def simple_market_maker_def start_only_def
        numeral_3_eq_3 execute_command_def call_engine_def silent_engine_def parse_events_def)
  from strategy_run_is_batch_run [OF this] show ?thesis by auto
qed

text \<open>Remark (order-type fixtures). The market-order fixture places its two orders, but the fixtures
  for immediate-or-cancel and fill-or-kill orders raise \<open>NotImplementedError\<close> when they start: they
  look for command classes \<open>sim/tes_models/commands.py\<close> does not have, although its \<open>LimitOrder\<close>
  command carries both times in force.\<close>

theorem order_fixtures_start:
  "snd (on_start market_against_resting_strategy ()) =
     Inr [limit_order SELL 101 5, MarketOrder BUY 3 DEFAULT_SYMBOL] \<and>
   (\<forall>f \<in> {fok_success_strategy, fok_failure_strategy, ioc_partial_fill_strategy}.
      snd (on_start f ()) = Inl (NotImplementedError missing_reason))"
  by (simp add: order_fixture_support)

theorem order_fixtures_start_witness:
  "snd (on_start fok_success_strategy ()) = Inl (NotImplementedError missing_reason)"
  using order_fixtures_start by simp

section \<open>Summaries of event streams\<close>

text \<open>Remark (event summaries). \<open>count_events\<close> has one entry per event class that occurs, with the
  number of its occurrences; the metrics of \<open>summary.py\<close> and \<open>trades.py\<close> agree, count the
  \<open>TradeExecuted\<close> events the run summary and the replay report, and add up over concatenated
  streams.\<close>

theorem event_summaries:
  "distinct (map fst (count_events xs)) \<and>
   map_of (count_events xs) = (\<lambda>ty. if count_type ty xs = 0 then None else Some (count_type ty xs)) \<and>
   count_trades xs = total_trades xs \<and> count_trades xs = rr_total_trades (replay_events xs) \<and>
   total_traded_qty xs = total_traded_qty_tr xs \<and> traded_notional xs = traded_notional_tr xs \<and>
   count_trades (xs @ ys) = count_trades xs + count_trades ys \<and>
   total_traded_qty (xs @ ys) = total_traded_qty xs + total_traded_qty ys \<and>
   traded_notional (xs @ ys) = traded_notional xs + traded_notional ys"
proof -
  have "distinct (map fst (count_events xs))"
    by (simp add: count_events_def distinct_count_events_from)
  moreover have "map_of (count_events xs) =
      (\<lambda>ty. if count_type ty xs = 0 then None else Some (count_type ty xs))"
    by (rule ext) (simp only: count_events_map_of)
  moreover have "count_trades xs = rr_total_trades (replay_events xs)"
    by (simp only: replay_events_def trade_modules_agree(4) replay_result.simps)
  ultimately show ?thesis
    using trade_modules_agree(1-3) [of xs] trade_metrics_append [of xs ys] by blast
qed

text \<open>Remark (replay validation). \<open>validate_replay_events\<close> returns its list exactly when every event
  belongs to one of six classes; the other sixteen event classes of the model are refused with
  "events must contain TesEngineEvent objects".\<close>

theorem replay_validation:
  "validate_replay_events events =
     (if list_all (\<lambda>e. event_type e \<in> {''OrderAccepted'', ''OrderRejected'', ''OrderCanceled'',
           ''CancelRejected'', ''TradeExecuted'', ''TopOfBook''}) events
      then Inr events else Inl (ValueError ''events must contain TesEngineEvent objects''))"
proof -
  have cls: "replay_event_class = (\<lambda>e. event_type e \<in> {''OrderAccepted'', ''OrderRejected'',
      ''OrderCanceled'', ''CancelRejected'', ''TradeExecuted'', ''TopOfBook''})"
    by (rule ext, rename_tac e, case_tac e) simp_all
  have "validate_replay_loop events = (if list_all replay_event_class events then Inr ()
      else Inl (ValueError ''events must contain TesEngineEvent objects''))"
    by (induction events) simp_all
  then show ?thesis
    by (simp only: validate_replay_events_def cls) simp
qed

section \<open>Timestamps\<close>

text \<open>Remark (order of the queue's timestamps). The text \<open>_format_datetime\<close> of the queue writes sorts
  like the instants, so that SQL's comparisons of \<open>created_at\<close> and \<open>expires_at\<close> are comparisons of
  times.\<close>

theorem queue_timestamps_sort:
  assumes "valid_datetime a" and "valid_datetime b"
  shows "(format_datetime_queue a < format_datetime_queue b \<longleftrightarrow> a < b) \<and>
    (format_datetime_queue a = format_datetime_queue b \<longleftrightarrow> a = b)"
  using format_queue_order [OF assms] format_queue_order [OF assms(2,1)]
  by (metis less_irrefl neq_iff)

definition noon :: datetime where
  "noon = \<lparr>dt_year = 2024, dt_month = 1, dt_day = 1, dt_hour = 12, dt_minute = 0, dt_second = 0,
     dt_micro = 0\<rparr>"

lemma valid_noon: "valid_datetime noon" "valid_datetime (noon\<lparr>dt_micro := 500000\<rparr>)"
  by (simp_all add: noon_def valid_datetime_def)

theorem queue_timestamps_sort_witness:
  "format_datetime_queue noon < format_datetime_queue (noon\<lparr>dt_micro := 500000\<rparr>)"
  using queue_timestamps_sort [OF valid_noon]
  by (simp add: datetime_less_iff noon_def dt_fields_def)

text \<open>Remark (order of the store's timestamps). The text the run store writes, with \<open>Z\<close> for the
  offset, sorts like the instants except within a second, where the whole second sorts after all its
  fractions.\<close>

theorem store_timestamps_sort:
  assumes "valid_datetime a" and "valid_datetime b"
  shows "the (format_datetime_store (Some a)) < the (format_datetime_store (Some b)) \<longleftrightarrow>
    dt_seconds a < dt_seconds b \<or> (dt_seconds a = dt_seconds b \<and>
      (if dt_micro a = 0 then 10 ^ 6 else dt_micro a) < (if dt_micro b = 0 then 10 ^ 6 else dt_micro b))"
  using format_store_order [OF assms] by (simp add: z_micro_def)

theorem store_timestamps_sort_witness:
  "the (format_datetime_store (Some (noon\<lparr>dt_micro := 500000\<rparr>))) <
     the (format_datetime_store (Some noon))"
  using store_timestamps_sort [OF valid_noon(2,1)] by (simp add: noon_def dt_seconds_def)

end
