(* ===== verification/Run_Types.thy ===== *)
theory Run_Types
  imports Py_Value
begin

text \<open>
  The literal types that run storage, the queue and the services share
  (\<open>sim/api/models.py\<close>, \<open>sim/api/execution/queue.py\<close>). Instants are numbers of microseconds; the
  text the database holds for them and the order of that text are the subject of the theory
  \<open>Timestamps\<close>.
\<close>

(* sim/api/models.py:10-10 RunType *)
datatype run_type = Session | Backtest | Benchmark

(* sim/api/models.py:13-13 RunStatus *)
datatype run_status = Pending | Running | Completed | Failed | Canceled

fun run_type_str :: "run_type \<Rightarrow> string" where
  "run_type_str Session = ''session''"
| "run_type_str Backtest = ''backtest''"
| "run_type_str Benchmark = ''benchmark''"

fun run_status_str :: "run_status \<Rightarrow> string" where
  "run_status_str Pending = ''pending''"
| "run_status_str Running = ''running''"
| "run_status_str Completed = ''completed''"
| "run_status_str Failed = ''failed''"
| "run_status_str Canceled = ''canceled''"

type_synonym instant = int

text \<open>\<open>timedelta(seconds=n)\<close> and \<open>timedelta(minutes=n)\<close> in microseconds.\<close>

definition seconds :: "int \<Rightarrow> int" where
  "seconds n = n * 1000000"

definition minutes :: "int \<Rightarrow> int" where
  "minutes n = seconds (60 * n)"

text \<open>\<open>(a - b).total_seconds()\<close>.\<close>

definition total_seconds :: "int \<Rightarrow> pyfloat" where
  "total_seconds us = round_quot us 1000000 0"

end
