(* ===== verification/Run_Queue.thy ===== *)
theory Run_Queue
  imports Run_Types "HOL-Library.Product_Lexorder"
begin

text \<open>
  The durable run queue, \<open>sim/api/execution/queue.py\<close>: the five tables of its database as lists of
  rows, and every operation of \<open>SQLiteRunQueue\<close> as a function on them, statement by statement. An
  operation takes the readings of the clock it makes, in the order it makes them. An SQL text
  comparison of timestamps is a comparison of instants (theory \<open>Timestamps\<close>).
\<close>

section \<open>Rows\<close>

(* sim/api/execution/queue.py:16-30 QueueItem *)
record queue_item =
  qi_run_id :: string
  qi_status :: run_status
  qi_priority :: int
  qi_created_at :: instant
  qi_available_at :: instant
  qi_started_at :: "instant option"
  qi_completed_at :: "instant option"
  qi_attempts :: int
  qi_last_error :: "string option"
  qi_locked_by :: "string option"
  qi_locked_at :: "instant option"

(* sim/api/execution/queue.py:33-40 WorkerHeartbeat *)
record worker_heartbeat =
  wh_worker_id :: string
  wh_status :: string
  wh_updated_at :: instant
  wh_current_run_id :: "string option"

(* sim/api/execution/queue.py:43-59 WorkerRecord *)
record worker_record =
  wr_worker_id :: string
  wr_hostname :: string
  wr_process_id :: "int option"
  wr_started_at :: instant
  wr_heartbeat_at :: instant
  wr_capabilities :: pydict
  wr_status :: string
  wr_current_run_id :: "string option"
  wr_progress_summary :: pydict
  wr_cpu_percent :: "pyfloat option"
  wr_memory_bytes :: "int option"
  wr_drain_requested :: bool
  wr_shutdown_requested :: bool

(* sim/api/execution/queue.py:62-70 RunLease *)
record run_lease =
  rl_run_id :: string
  rl_worker_id :: string
  rl_acquired_at :: instant
  rl_expires_at :: instant
  rl_heartbeat_at :: instant

(* sim/api/execution/queue.py:73-87 SchedulerStatus *)
record scheduler_status =
  ss_pending_count :: nat
  ss_running_count :: nat
  ss_completed_count :: nat
  ss_failed_count :: nat
  ss_stale_worker_count :: nat
  ss_stale_job_count :: nat
  ss_queue_depth :: nat
  ss_average_wait_seconds :: pyfloat
  ss_average_run_seconds :: pyfloat
  ss_worker_utilization :: pyfloat
  ss_throughput_per_minute :: pyfloat

(* sim/api/execution/queue.py:90-95 RequeueResult *)
record requeue_result =
  rq_stale_workers :: nat
  rq_requeued_runs :: "string list"

text \<open>The rows of \<open>worker_heartbeats\<close> and \<open>scheduler_metrics\<close>; their ids count up from one.\<close>

(* sim/api/execution/queue.py:527-536 worker_heartbeats *)
record heartbeat_row =
  hb_id :: nat
  hb_worker_id :: string
  hb_status :: string
  hb_heartbeat_at :: instant
  hb_current_run_id :: "string option"
  hb_progress_summary :: pydict
  hb_cpu_percent :: "pyfloat option"
  hb_memory_bytes :: "int option"

(* sim/api/execution/queue.py:546-556 scheduler_metrics *)
record metrics_row =
  sm_id :: nat
  sm_captured_at :: instant
  sm_queue_depth :: nat
  sm_average_wait_seconds :: pyfloat
  sm_average_run_seconds :: pyfloat
  sm_worker_utilization :: pyfloat
  sm_stale_job_count :: nat
  sm_failed_job_count :: nat
  sm_throughput_per_minute :: pyfloat

text \<open>The database and \<open>_stale_after_seconds\<close>.\<close>

(* sim/api/execution/queue.py:494-567 _initialize_schema *)
record queue_db =
  q_rows :: "queue_item list"
  q_workers :: "worker_record list"
  q_heartbeats :: "heartbeat_row list"
  q_leases :: "run_lease list"
  q_metrics :: "metrics_row list"
  q_stale_after :: int

(* sim/api/execution/queue.py:101-110 __init__ *)
definition new_queue :: "int \<Rightarrow> queue_db" where
  "new_queue stale_after_seconds =
     \<lparr>q_rows = [], q_workers = [], q_heartbeats = [], q_leases = [], q_metrics = [],
      q_stale_after = stale_after_seconds\<rparr>"

definition stale_window :: "queue_db \<Rightarrow> int" where
  "stale_window db = seconds (q_stale_after db)"

section \<open>Enqueueing\<close>

(* sim/api/execution/queue.py:459-461 get *)
definition get_item :: "string \<Rightarrow> queue_db \<Rightarrow> queue_item option" where
  "get_item run_id db = row_of qi_run_id run_id (q_rows db)"

(* sim/api/execution/queue.py:121-132 ON CONFLICT(run_id) DO UPDATE *)
definition enqueue_conflict :: "int \<Rightarrow> instant \<Rightarrow> queue_item \<Rightarrow> queue_item" where
  "enqueue_conflict priority available r =
     r\<lparr>qi_status := (if qi_status r \<in> {Completed, Running} then qi_status r else Pending),
       qi_priority := priority, qi_available_at := available, qi_completed_at := None,
       qi_last_error := None, qi_locked_by := None, qi_locked_at := None\<rparr>"

(* sim/api/execution/queue.py:112-139 enqueue *)
definition enqueue ::
  "instant \<Rightarrow> string \<Rightarrow> int \<Rightarrow> instant option \<Rightarrow> queue_db \<Rightarrow> queue_db \<times> queue_item result" where
  "enqueue now run_id priority available_at db =
     (let available = (case available_at of None \<Rightarrow> now | Some t \<Rightarrow> t);
          new = \<lparr>qi_run_id = run_id, qi_status = Pending, qi_priority = priority,
                 qi_created_at = now, qi_available_at = available, qi_started_at = None,
                 qi_completed_at = None, qi_attempts = 0, qi_last_error = None,
                 qi_locked_by = None, qi_locked_at = None\<rparr>;
          db' = db\<lparr>q_rows := upsert qi_run_id (enqueue_conflict priority available) new (q_rows db)\<rparr>
      in (db', case get_item run_id db' of
                 None \<Rightarrow> Inl (RuntimeError (''failed to enqueue run: '' @ run_id))
               | Some item \<Rightarrow> Inr item))"

section \<open>Leases\<close>

(* sim/api/execution/queue.py:639-655 _upsert_lease *)
definition upsert_lease :: "instant \<Rightarrow> string \<Rightarrow> string \<Rightarrow> queue_db \<Rightarrow> queue_db" where
  "upsert_lease now run_id worker_id db =
     (let expires = now + stale_window db;
          new = \<lparr>rl_run_id = run_id, rl_worker_id = worker_id, rl_acquired_at = now,
                 rl_expires_at = expires, rl_heartbeat_at = now\<rparr>
      in db\<lparr>q_leases := upsert rl_run_id
              (\<lambda>l. l\<lparr>rl_worker_id := worker_id, rl_expires_at := expires, rl_heartbeat_at := now\<rparr>)
              new (q_leases db),
            q_rows := update_where (\<lambda>r. qi_run_id r = run_id \<and> qi_status r = Running)
              (\<lambda>r. r\<lparr>qi_locked_at := Some now, qi_locked_by := Some worker_id\<rparr>) (q_rows db)\<rparr>)"

definition delete_lease :: "string \<Rightarrow> queue_db \<Rightarrow> queue_db" where
  "delete_lease run_id db =
     db\<lparr>q_leases := delete_where (\<lambda>l. rl_run_id l = run_id) (q_leases db)\<rparr>"

(* sim/api/execution/queue.py:388-390 list_leases *)
definition list_leases :: "queue_db \<Rightarrow> run_lease list" where
  "list_leases db = sort_key (\<lambda>l. (rl_expires_at l, rl_run_id l)) (q_leases db)"

(* sim/api/execution/queue.py:392-394 get_lease *)
definition get_lease :: "string \<Rightarrow> queue_db \<Rightarrow> run_lease option" where
  "get_lease run_id db = row_of rl_run_id run_id (q_leases db)"

section \<open>Claiming\<close>

text \<open>The \<open>WHERE\<close> clause of the claim and its \<open>ORDER BY\<close>.\<close>

(* sim/api/execution/queue.py:155-160 claim_next (WHERE) *)
definition claimable :: "instant \<Rightarrow> queue_db \<Rightarrow> queue_item \<Rightarrow> bool" where
  "claimable now db r \<longleftrightarrow>
     (qi_status r = Pending \<or>
      (qi_status r = Running \<and>
       (case qi_locked_at r of None \<Rightarrow> False | Some t \<Rightarrow> t < now - stale_window db))) \<and>
     qi_available_at r \<le> now"

(* sim/api/execution/queue.py:161-162 claim_next (ORDER BY) *)
definition claim_key :: "queue_item \<Rightarrow> int \<times> int \<times> string" where
  "claim_key r = (- qi_priority r, qi_created_at r, qi_run_id r)"

definition claim_candidates :: "instant \<Rightarrow> queue_db \<Rightarrow> queue_item list" where
  "claim_candidates now db = sort_key claim_key (filter (claimable now db) (q_rows db))"

(* sim/api/execution/queue.py:151-153 claim_next (UPDATE) *)
definition claim_row :: "instant \<Rightarrow> string \<Rightarrow> queue_item \<Rightarrow> queue_item" where
  "claim_row now worker_id r =
     r\<lparr>qi_status := Running, qi_started_at := coalesce (qi_started_at r) (Some now),
       qi_attempts := qi_attempts r + 1, qi_locked_by := Some worker_id,
       qi_locked_at := Some now, qi_last_error := None\<rparr>"

(* sim/api/execution/queue.py:144-185 claim_next *)
definition claim_next ::
  "instant \<Rightarrow> string \<Rightarrow> queue_db \<Rightarrow> queue_db \<times> queue_item option" where
  "claim_next now worker_id db =
     (case claim_candidates now db of
        [] \<Rightarrow> (db, None)
      | best # _ \<Rightarrow>
          (let run_id = qi_run_id best;
               db1 = db\<lparr>q_rows := update_where (\<lambda>r. qi_run_id r = run_id)
                        (claim_row now worker_id) (q_rows db)\<rparr>;
               db2 = delete_lease run_id db1;
               lease = \<lparr>rl_run_id = run_id, rl_worker_id = worker_id, rl_acquired_at = now,
                        rl_expires_at = now + stale_window db, rl_heartbeat_at = now\<rparr>
           in (db2\<lparr>q_leases := q_leases db2 @ [lease]\<rparr>, Some (claim_row now worker_id best))))"

(* sim/api/execution/queue.py:141-142 dequeue *)
definition dequeue :: "instant \<Rightarrow> string \<Rightarrow> queue_db \<Rightarrow> queue_db \<times> queue_item option" where
  "dequeue now worker_id db = claim_next now worker_id db"

section \<open>Status changes\<close>

(* sim/api/execution/queue.py:187-201 mark_running *)
definition mark_running ::
  "instant \<Rightarrow> string \<Rightarrow> string option \<Rightarrow> queue_db \<Rightarrow> queue_db \<times> queue_item option" where
  "mark_running now run_id worker_id db =
     (let db1 = db\<lparr>q_rows := update_where (\<lambda>r. qi_run_id r = run_id \<and> qi_status r \<noteq> Completed)
            (\<lambda>r. r\<lparr>qi_status := Running, qi_started_at := coalesce (qi_started_at r) (Some now),
                    qi_locked_by := coalesce worker_id (qi_locked_by r),
                    qi_locked_at := Some now\<rparr>) (q_rows db)\<rparr>;
          db2 = (case worker_id of None \<Rightarrow> db1 | Some w \<Rightarrow> upsert_lease now run_id w db1)
      in (db2, get_item run_id db2))"

(* sim/api/execution/queue.py:466-478 _mark_terminal *)
definition mark_terminal ::
  "instant \<Rightarrow> string \<Rightarrow> run_status \<Rightarrow> string option \<Rightarrow> queue_db \<Rightarrow> queue_db \<times> queue_item option" where
  "mark_terminal now run_id status error db =
     (let db1 = db\<lparr>q_rows := update_where (\<lambda>r. qi_run_id r = run_id \<and> qi_status r \<noteq> Completed)
            (\<lambda>r. r\<lparr>qi_status := status, qi_completed_at := Some now, qi_last_error := error,
                    qi_locked_by := None, qi_locked_at := None\<rparr>) (q_rows db)\<rparr>;
          db2 = delete_lease run_id db1
      in (db2, get_item run_id db2))"

(* sim/api/execution/queue.py:203-204 mark_completed *)
definition mark_completed :: "instant \<Rightarrow> string \<Rightarrow> queue_db \<Rightarrow> queue_db \<times> queue_item option" where
  "mark_completed now run_id db = mark_terminal now run_id Completed None db"

(* sim/api/execution/queue.py:206-207 mark_failed *)
definition mark_failed ::
  "instant \<Rightarrow> string \<Rightarrow> string \<Rightarrow> queue_db \<Rightarrow> queue_db \<times> queue_item option" where
  "mark_failed now run_id error db = mark_terminal now run_id Failed (Some error) db"

(* sim/api/execution/queue.py:209-210 mark_canceled *)
definition mark_canceled ::
  "instant \<Rightarrow> string \<Rightarrow> string option \<Rightarrow> queue_db \<Rightarrow> queue_db \<times> queue_item option" where
  "mark_canceled now run_id error db = mark_terminal now run_id Canceled error db"

(* sim/api/execution/queue.py:212-225 cancel_pending *)
definition cancel_pending :: "instant \<Rightarrow> string \<Rightarrow> queue_db \<Rightarrow> queue_db \<times> bool" where
  "cancel_pending now run_id db =
     (let hit = (\<lambda>r. qi_run_id r = run_id \<and> qi_status r = Pending);
          db1 = db\<lparr>q_rows := update_where hit
            (\<lambda>r. r\<lparr>qi_status := Canceled, qi_completed_at := Some now, qi_locked_by := None,
                    qi_locked_at := None,
                    qi_last_error := coalesce (qi_last_error r) (Some ''canceled before execution'')\<rparr>)
            (q_rows db)\<rparr>
      in (delete_lease run_id db1, filter hit (q_rows db) \<noteq> []))"

(* sim/api/execution/queue.py:480-485 _list_by_status *)
definition list_by_status :: "run_status \<Rightarrow> queue_db \<Rightarrow> queue_item list" where
  "list_by_status status db =
     sort_key claim_key (filter (\<lambda>r. qi_status r = status) (q_rows db))"

(* sim/api/execution/queue.py:453-454 list_pending *)
definition list_pending :: "queue_db \<Rightarrow> queue_item list" where
  "list_pending db = list_by_status Pending db"

(* sim/api/execution/queue.py:456-457 list_running *)
definition list_running :: "queue_db \<Rightarrow> queue_item list" where
  "list_running db = list_by_status Running db"

section \<open>Workers\<close>

(* sim/api/execution/queue.py:329-331 get_worker *)
definition get_worker :: "string \<Rightarrow> queue_db \<Rightarrow> worker_record option" where
  "get_worker worker_id db = row_of wr_worker_id worker_id (q_workers db)"

(* sim/api/execution/queue.py:325-327 list_worker_records *)
definition list_worker_records :: "queue_db \<Rightarrow> worker_record list" where
  "list_worker_records db = sort_key (\<lambda>w. (- wr_heartbeat_at w, wr_worker_id w)) (q_workers db)"

(* sim/api/execution/queue.py:314-323 list_workers *)
definition list_workers :: "queue_db \<Rightarrow> worker_heartbeat list" where
  "list_workers db =
     map (\<lambda>record. \<lparr>wh_worker_id = wr_worker_id record, wh_status = wr_status record,
            wh_updated_at = wr_heartbeat_at record,
            wh_current_run_id = wr_current_run_id record\<rparr>) (list_worker_records db)"

(* sim/api/execution/queue.py:611-637 _insert_worker_heartbeat *)
definition insert_worker_heartbeat ::
  "string \<Rightarrow> string \<Rightarrow> instant \<Rightarrow> string option \<Rightarrow> pydict \<Rightarrow> pyfloat option \<Rightarrow> int option
   \<Rightarrow> queue_db \<Rightarrow> queue_db" where
  "insert_worker_heartbeat worker_id status now current_run_id progress_summary cpu_percent memory_bytes db =
     db\<lparr>q_heartbeats := q_heartbeats db @
         [\<lparr>hb_id = Suc (length (q_heartbeats db)), hb_worker_id = worker_id, hb_status = status,
           hb_heartbeat_at = now, hb_current_run_id = current_run_id,
           hb_progress_summary = json_sort_dict progress_summary, hb_cpu_percent = cpu_percent,
           hb_memory_bytes = memory_bytes\<rparr>]\<rparr>"

(* sim/api/execution/queue.py:227-267 register_worker *)
definition register_worker ::
  "instant \<Rightarrow> string \<Rightarrow> string \<Rightarrow> int option \<Rightarrow> instant option \<Rightarrow> pydict option \<Rightarrow> string
   \<Rightarrow> queue_db \<Rightarrow> queue_db \<times> worker_record result" where
  "register_worker now worker_id hostname process_id started_at capabilities status db =
     (let started = (case started_at of None \<Rightarrow> now | Some t \<Rightarrow> t);
          caps = json_sort_dict (case capabilities of None \<Rightarrow> [] | Some c \<Rightarrow> c);
          new = \<lparr>wr_worker_id = worker_id, wr_hostname = hostname, wr_process_id = process_id,
                 wr_started_at = started, wr_heartbeat_at = now, wr_capabilities = caps,
                 wr_status = status, wr_current_run_id = None, wr_progress_summary = [],
                 wr_cpu_percent = None, wr_memory_bytes = None, wr_drain_requested = False,
                 wr_shutdown_requested = False\<rparr>;
          db1 = db\<lparr>q_workers := upsert wr_worker_id
                   (\<lambda>w. w\<lparr>wr_hostname := hostname, wr_process_id := process_id,
                           wr_heartbeat_at := now, wr_capabilities := caps, wr_status := status\<rparr>)
                   new (q_workers db)\<rparr>;
          db2 = insert_worker_heartbeat worker_id status now None [] None None db1
      in (db2, case get_worker worker_id db2 of
                 None \<Rightarrow> Inl (RuntimeError (''failed to register worker: '' @ worker_id))
               | Some record \<Rightarrow> Inr record))"

(* sim/api/execution/queue.py:269-312 heartbeat *)
definition heartbeat ::
  "instant \<Rightarrow> instant \<Rightarrow> string \<Rightarrow> string \<Rightarrow> string option \<Rightarrow> pydict \<Rightarrow> pyfloat option \<Rightarrow> int option
   \<Rightarrow> queue_db \<Rightarrow> queue_db" where
  "heartbeat now now_register worker_id status current_run_id progress cpu_percent memory_bytes db =
     (let db1 = (case get_worker worker_id db of
                   None \<Rightarrow> fst (register_worker now_register worker_id ''unknown'' None None None status db)
                 | Some _ \<Rightarrow> db);
          db2 = db1\<lparr>q_workers := update_where (\<lambda>w. wr_worker_id w = worker_id)
                   (\<lambda>w. w\<lparr>wr_heartbeat_at := now, wr_status := status,
                           wr_current_run_id := current_run_id,
                           wr_progress_summary := json_sort_dict progress,
                           wr_cpu_percent := cpu_percent, wr_memory_bytes := memory_bytes\<rparr>)
                   (q_workers db1)\<rparr>;
          db3 = insert_worker_heartbeat worker_id status now current_run_id progress cpu_percent
                  memory_bytes db2
      in case current_run_id of None \<Rightarrow> db3 | Some run_id \<Rightarrow> upsert_lease now run_id worker_id db3)"

(* sim/api/execution/queue.py:333-336 drain_worker *)
definition drain_worker :: "string \<Rightarrow> queue_db \<Rightarrow> queue_db \<times> worker_record option" where
  "drain_worker worker_id db =
     (let db1 = db\<lparr>q_workers := update_where (\<lambda>w. wr_worker_id w = worker_id)
            (\<lambda>w. w\<lparr>wr_drain_requested := True\<rparr>) (q_workers db)\<rparr>
      in (db1, get_worker worker_id db1))"

(* sim/api/execution/queue.py:338-343 shutdown_worker *)
definition shutdown_worker :: "string \<Rightarrow> queue_db \<Rightarrow> queue_db \<times> worker_record option" where
  "shutdown_worker worker_id db =
     (let db1 = db\<lparr>q_workers := update_where (\<lambda>w. wr_worker_id w = worker_id)
            (\<lambda>w. w\<lparr>wr_shutdown_requested := True, wr_status := ''offline''\<rparr>) (q_workers db)\<rparr>
      in (db1, get_worker worker_id db1))"

text \<open>\<open>stale_after_seconds or self._stale_after_seconds\<close>: zero means the default too.\<close>

definition stale_timeout :: "int option \<Rightarrow> queue_db \<Rightarrow> int" where
  "stale_timeout stale_after_seconds db =
     the (int_or stale_after_seconds (Some (q_stale_after db)))"

(* sim/api/execution/queue.py:345-357 detect_stale_workers *)
definition detect_stale_workers ::
  "instant \<Rightarrow> int option \<Rightarrow> queue_db \<Rightarrow> queue_db \<times> worker_record list" where
  "detect_stale_workers now stale_after_seconds db =
     (let cutoff = now - seconds (stale_timeout stale_after_seconds db);
          db1 = db\<lparr>q_workers := update_where
                   (\<lambda>w. wr_status w \<notin> {''offline'', ''stale''} \<and> wr_heartbeat_at w < cutoff)
                   (\<lambda>w. w\<lparr>wr_status := ''stale''\<rparr>) (q_workers db)\<rparr>
      in (db1, filter (\<lambda>w. wr_status w = ''stale'') (list_worker_records db1)))"

section \<open>Scheduler status and stale recovery\<close>

definition status_count :: "run_status \<Rightarrow> queue_db \<Rightarrow> nat" where
  "status_count status db = length (filter (\<lambda>r. qi_status r = status) (q_rows db))"

text \<open>\<open>status = 'running' AND locked_at IS NOT NULL AND locked_at < cutoff\<close>.\<close>

definition stale_job :: "instant \<Rightarrow> queue_item \<Rightarrow> bool" where
  "stale_job cutoff r \<longleftrightarrow> qi_status r = Running \<and>
     (case qi_locked_at r of None \<Rightarrow> False | Some t \<Rightarrow> t < cutoff)"

definition float_sum :: "pyfloat list \<Rightarrow> pyfloat" where
  "float_sum xs = py_sum xs"

definition float_average :: "pyfloat list \<Rightarrow> pyfloat" where
  "float_average xs = (if xs = [] then float_zero else float_div_nat (float_sum xs) (length xs))"

(* sim/api/execution/queue.py:657-671 _duration_averages *)
definition duration_averages :: "instant \<Rightarrow> queue_db \<Rightarrow> pyfloat \<times> pyfloat" where
  "duration_averages now db =
     (let rows = List.map_filter
            (\<lambda>r. map_option (\<lambda>s. (qi_created_at r, s, qi_completed_at r)) (qi_started_at r)) (q_rows db);
          waits = map (\<lambda>(created, started, _).
            float_max (total_seconds (started - created)) float_zero) rows;
          durations = map (\<lambda>(_, started, completed_at).
            (let completed = (case completed_at of None \<Rightarrow> now | Some t \<Rightarrow> t)
             in float_max (total_seconds (completed - started)) float_zero)) rows
      in (float_average waits, float_average durations))"

(* sim/api/execution/queue.py:673-682 _throughput_per_minute *)
definition throughput_per_minute :: "instant \<Rightarrow> queue_db \<Rightarrow> pyfloat" where
  "throughput_per_minute now db =
     (let since = now - minutes 1
      in float_of_int (int (length (filter
           (\<lambda>r. (case qi_completed_at r of None \<Rightarrow> False | Some t \<Rightarrow> since \<le> t) \<and>
                qi_status r \<in> {Completed, Failed}) (q_rows db)))))"

(* sim/api/execution/queue.py:396-427 scheduler_status *)
definition scheduler_status_of ::
  "instant \<Rightarrow> instant \<Rightarrow> queue_db \<Rightarrow> queue_db \<times> scheduler_status" where
  "scheduler_status_of now_detect now db0 =
     (let db = fst (detect_stale_workers now_detect None db0);
          stale_before = now - stale_window db;
          workers = list_worker_records db;
          active = filter (\<lambda>w. wr_status w \<in> {''idle'', ''busy'', ''running''}) workers;
          busy = filter (\<lambda>w. wr_status w \<in> {''busy'', ''running''} \<or>
                    (case wr_current_run_id w of None \<Rightarrow> False | Some s \<Rightarrow> s \<noteq> [])) active;
          utilization = (if active = [] then float_zero
                         else round_quot (int (length busy)) (int (length active)) 0)
      in (db,
          \<lparr>ss_pending_count = status_count Pending db,
           ss_running_count = status_count Running db,
           ss_completed_count = status_count Completed db,
           ss_failed_count = status_count Failed db,
           ss_stale_worker_count = length (filter (\<lambda>w. wr_status w = ''stale'') workers),
           ss_stale_job_count = length (filter (stale_job stale_before) (q_rows db)),
           ss_queue_depth = status_count Pending db + status_count Running db,
           ss_average_wait_seconds = fst (duration_averages now db),
           ss_average_run_seconds = snd (duration_averages now db),
           ss_worker_utilization = utilization,
           ss_throughput_per_minute = throughput_per_minute now db\<rparr>))"

(* sim/api/execution/queue.py:429-451 record_scheduler_metrics *)
definition record_scheduler_metrics ::
  "instant \<Rightarrow> instant \<Rightarrow> instant \<Rightarrow> queue_db \<Rightarrow> queue_db \<times> scheduler_status" where
  "record_scheduler_metrics now_detect now_status now db =
     (case scheduler_status_of now_detect now_status db of
        (db1, status) \<Rightarrow>
          (db1\<lparr>q_metrics := q_metrics db1 @
              [\<lparr>sm_id = Suc (length (q_metrics db1)), sm_captured_at = now,
                sm_queue_depth = ss_queue_depth status,
                sm_average_wait_seconds = ss_average_wait_seconds status,
                sm_average_run_seconds = ss_average_run_seconds status,
                sm_worker_utilization = ss_worker_utilization status,
                sm_stale_job_count = ss_stale_job_count status,
                sm_failed_job_count = ss_failed_count status,
                sm_throughput_per_minute = ss_throughput_per_minute status\<rparr>]\<rparr>,
           status))"

(* sim/api/execution/queue.py:359-386 requeue_stale *)
definition requeue_stale ::
  "instant \<Rightarrow> instant \<Rightarrow> instant \<Rightarrow> instant \<Rightarrow> instant \<Rightarrow> int option \<Rightarrow> queue_db
   \<Rightarrow> queue_db \<times> requeue_result" where
  "requeue_stale now now_detect now_detect2 now_status now_metrics stale_after_seconds db =
     (let timeout = stale_timeout stale_after_seconds db;
          cutoff = now - seconds timeout;
          (db1, stale_workers) = detect_stale_workers now_detect (Some timeout) db;
          rows = sort_key (\<lambda>r. (the (qi_locked_at r), qi_run_id r))
                   (filter (stale_job cutoff) (q_rows db1));
          requeued = map qi_run_id rows;
          db2 = db1\<lparr>q_rows := update_where (stale_job cutoff)
                   (\<lambda>r. r\<lparr>qi_status := Pending, qi_available_at := now, qi_locked_by := None,
                           qi_locked_at := None,
                           qi_last_error := Some ''requeued after stale worker lease expired''\<rparr>)
                   (q_rows db1)\<rparr>;
          db3 = fold delete_lease requeued db2;
          db4 = fst (record_scheduler_metrics now_detect2 now_status now_metrics db3)
      in (db4, \<lparr>rq_stale_workers = length stale_workers, rq_requeued_runs = requeued\<rparr>))"

section \<open>Migration of the first heartbeat table\<close>

text \<open>A row of the old \<open>worker_heartbeats\<close> table, which had an \<open>updated_at\<close> column.\<close>

record legacy_heartbeat =
  lh_worker_id :: string
  lh_status :: string
  lh_updated_at :: instant
  lh_current_run_id :: "string option"

definition migrate_row :: "legacy_heartbeat \<Rightarrow> queue_db \<Rightarrow> queue_db" where
  "migrate_row row db =
     (let worker = \<lparr>wr_worker_id = lh_worker_id row, wr_hostname = ''unknown'', wr_process_id = None,
                    wr_started_at = lh_updated_at row, wr_heartbeat_at = lh_updated_at row,
                    wr_capabilities = [], wr_status = lh_status row,
                    wr_current_run_id = lh_current_run_id row, wr_progress_summary = [],
                    wr_cpu_percent = None, wr_memory_bytes = None, wr_drain_requested = False,
                    wr_shutdown_requested = False\<rparr>
      in db\<lparr>q_workers := upsert wr_worker_id (\<lambda>w. w) worker (q_workers db),
            q_heartbeats := q_heartbeats db @
              [\<lparr>hb_id = Suc (length (q_heartbeats db)), hb_worker_id = lh_worker_id row,
                hb_status = lh_status row, hb_heartbeat_at = lh_updated_at row,
                hb_current_run_id = lh_current_run_id row, hb_progress_summary = [],
                hb_cpu_percent = None, hb_memory_bytes = None\<rparr>]\<rparr>)"

(* sim/api/execution/queue.py:569-609 _migrate_legacy_worker_heartbeats *)
definition migrate_legacy_worker_heartbeats ::
  "legacy_heartbeat list option \<Rightarrow> queue_db \<Rightarrow> queue_db" where
  "migrate_legacy_worker_heartbeats legacy db =
     (case legacy of
        None \<Rightarrow> db
      | Some rows \<Rightarrow> fold migrate_row rows (db\<lparr>q_heartbeats := []\<rparr>))"

end
