(* ===== verification/Queue_Inv.thy ===== *)
theory Queue_Inv
  imports Run_Queue
begin

text \<open>
  Correctness of the run queue. First what every operation does to the row and to the lease of one
  run (the view \<open>get_item\<close>/\<open>get_lease\<close>), then the operations as one step relation, the invariant of
  the reachable databases, and the properties of claiming, of stale recovery and of the terminal
  status.
\<close>

section \<open>The view of one run\<close>

named_theorems queue_view "get_item and get_lease after an operation"

lemmas table_defs = get_item_def get_lease_def get_worker_def delete_lease_def upsert_lease_def

lemma stale_window_update [simp]:
  "stale_window (db\<lparr>q_rows := rs\<rparr>) = stale_window db"
  "stale_window (db\<lparr>q_leases := ls\<rparr>) = stale_window db"
  "stale_window (db\<lparr>q_workers := ws\<rparr>) = stale_window db"
  "stale_window (db\<lparr>q_heartbeats := hs\<rparr>) = stale_window db"
  "stale_window (db\<lparr>q_metrics := ms\<rparr>) = stale_window db"
  by (simp_all add: stale_window_def)

lemma get_item_update [simp]:
  "get_item i (db\<lparr>q_leases := ls\<rparr>) = get_item i db"
  "get_item i (db\<lparr>q_workers := ws\<rparr>) = get_item i db"
  "get_item i (db\<lparr>q_heartbeats := hs\<rparr>) = get_item i db"
  "get_item i (db\<lparr>q_metrics := ms\<rparr>) = get_item i db"
  "get_lease i (db\<lparr>q_rows := rs\<rparr>) = get_lease i db"
  "get_lease i (db\<lparr>q_workers := ws\<rparr>) = get_lease i db"
  "get_lease i (db\<lparr>q_heartbeats := hs\<rparr>) = get_lease i db"
  "get_lease i (db\<lparr>q_metrics := ms\<rparr>) = get_lease i db"
  by (simp_all add: table_defs)

lemma get_item_id: "get_item i db = Some r \<Longrightarrow> qi_run_id r = i"
  by (auto simp: get_item_def dest: row_of_Some)

lemma get_item_row: "get_item i db = Some r \<Longrightarrow> r \<in> set (q_rows db)"
  by (auto simp: get_item_def dest: row_of_Some)

lemma get_lease_id: "get_lease i db = Some l \<Longrightarrow> rl_run_id l = i"
  by (auto simp: get_lease_def dest: row_of_Some)

lemma enqueue_conflict_id [simp]: "qi_run_id (enqueue_conflict p t r) = qi_run_id r"
  by (simp add: enqueue_conflict_def)

lemma claim_row_sel [simp]:
  "qi_run_id (claim_row now w r) = qi_run_id r"
  "qi_status (claim_row now w r) = Running"
  "qi_attempts (claim_row now w r) = qi_attempts r + 1"
  "qi_locked_by (claim_row now w r) = Some w"
  "qi_locked_at (claim_row now w r) = Some now"
  "qi_started_at (claim_row now w r) = coalesce (qi_started_at r) (Some now)"
  by (simp_all add: claim_row_def)

definition new_item :: "instant \<Rightarrow> string \<Rightarrow> int \<Rightarrow> instant \<Rightarrow> queue_item" where
  "new_item now run_id priority available =
     \<lparr>qi_run_id = run_id, qi_status = Pending, qi_priority = priority,
      qi_created_at = now, qi_available_at = available, qi_started_at = None,
      qi_completed_at = None, qi_attempts = 0, qi_last_error = None,
      qi_locked_by = None, qi_locked_at = None\<rparr>"

lemma get_item_enqueue [queue_view]:
  "get_item i (fst (enqueue now run_id p t db)) =
    (if i = run_id
     then Some (case get_item i db of
            None \<Rightarrow> new_item now run_id p (case t of None \<Rightarrow> now | Some u \<Rightarrow> u)
          | Some r \<Rightarrow> enqueue_conflict p (case t of None \<Rightarrow> now | Some u \<Rightarrow> u) r)
     else get_item i db)"
  by (simp add: enqueue_def Let_def get_item_def row_of_upsert new_item_def split: option.split)

lemma get_lease_enqueue [queue_view]:
  "get_lease i (fst (enqueue now run_id p t db)) = get_lease i db"
  by (simp add: enqueue_def Let_def)

text \<open>An \<open>UPDATE run_queue SET .. WHERE run_id = ? AND ..\<close> seen from one run.\<close>

lemma get_item_update_rows:
  assumes "\<And>r. p r \<Longrightarrow> qi_run_id (f r) = qi_run_id r"
  shows "get_item i (db\<lparr>q_rows := update_where p f (q_rows db)\<rparr>) =
    map_option (\<lambda>r. if p r then f r else r) (get_item i db)"
  using assms by (simp add: get_item_def row_of_update_where)

lemma get_item_update_run:
  assumes "\<And>r. p r \<Longrightarrow> qi_run_id (f r) = qi_run_id r"
  shows "get_item i (db\<lparr>q_rows := update_where (\<lambda>r. qi_run_id r = run_id \<and> p r) f (q_rows db)\<rparr>) =
    (if i = run_id then map_option (\<lambda>r. if p r then f r else r) (get_item i db) else get_item i db)"
proof -
  have "get_item i (db\<lparr>q_rows := update_where (\<lambda>r. qi_run_id r = run_id \<and> p r) f (q_rows db)\<rparr>) =
    map_option (\<lambda>r. if qi_run_id r = run_id \<and> p r then f r else r) (get_item i db)"
    by (rule get_item_update_rows) (use assms in auto)
  then show ?thesis
    by (cases "get_item i db") (auto dest: get_item_id)
qed

definition lock_row :: "instant \<Rightarrow> string \<Rightarrow> queue_item \<Rightarrow> queue_item" where
  "lock_row now w r =
     (if qi_status r = Running then r\<lparr>qi_locked_at := Some now, qi_locked_by := Some w\<rparr> else r)"

lemma get_item_upsert_lease [queue_view]:
  "get_item i (upsert_lease now run_id w db) =
    (if i = run_id then map_option (lock_row now w) (get_item i db) else get_item i db)"
proof -
  let ?db = "\<lambda>ls. db\<lparr>q_leases := ls,
    q_rows := update_where (\<lambda>r. qi_run_id r = run_id \<and> qi_status r = Running)
      (\<lambda>r. r\<lparr>qi_locked_at := Some now, qi_locked_by := Some w\<rparr>) (q_rows db)\<rparr>"
  have "get_item i (?db ls) =
    (if i = run_id then map_option (lock_row now w) (get_item i db) else get_item i db)" for ls
    using get_item_update_run [of "\<lambda>r. qi_status r = Running"
        "\<lambda>r. r\<lparr>qi_locked_at := Some now, qi_locked_by := Some w\<rparr>" i run_id "db\<lparr>q_leases := ls\<rparr>"]
    by (simp add: lock_row_def [abs_def])
  then show ?thesis by (simp add: upsert_lease_def Let_def)
qed

text \<open>The lease after a renewal: the existing one keeps the time it was acquired.\<close>

definition renewed_lease :: "instant \<Rightarrow> string \<Rightarrow> string \<Rightarrow> int \<Rightarrow> run_lease option \<Rightarrow> run_lease" where
  "renewed_lease now run_id w window lo =
     (case lo of
        None \<Rightarrow> \<lparr>rl_run_id = run_id, rl_worker_id = w, rl_acquired_at = now,
                  rl_expires_at = now + window, rl_heartbeat_at = now\<rparr>
      | Some l \<Rightarrow> l\<lparr>rl_worker_id := w, rl_expires_at := now + window, rl_heartbeat_at := now\<rparr>)"

lemma renewed_lease_sel [simp]:
  "rl_worker_id (renewed_lease now run_id w window lo) = w"
  "rl_expires_at (renewed_lease now run_id w window lo) = now + window"
  "rl_heartbeat_at (renewed_lease now run_id w window lo) = now"
  by (simp_all add: renewed_lease_def split: option.split)

lemma get_lease_upsert_lease [queue_view]:
  "get_lease i (upsert_lease now run_id w db) =
    (if i = run_id then Some (renewed_lease now run_id w (stale_window db) (get_lease i db))
     else get_lease i db)"
  by (simp add: upsert_lease_def Let_def get_lease_def row_of_upsert renewed_lease_def)

lemma get_item_delete_lease [queue_view]: "get_item i (delete_lease run_id db) = get_item i db"
  by (simp add: delete_lease_def)

lemma get_lease_delete_lease [queue_view]:
  "get_lease i (delete_lease run_id db) = (if i = run_id then None else get_lease i db)"
  by (simp add: table_defs row_of_delete_where)

lemma get_item_fold_delete_lease [queue_view]:
  "get_item i (fold delete_lease ids db) = get_item i db"
  by (induction ids arbitrary: db) (simp_all add: queue_view)

lemma get_lease_fold_delete_lease [queue_view]:
  "get_lease i (fold delete_lease ids db) = (if i \<in> set ids then None else get_lease i db)"
  by (induction ids arbitrary: db) (simp_all add: queue_view)


lemma get_item_mark_terminal [queue_view]:
  "get_item i (fst (mark_terminal now run_id st err db)) =
    (if i = run_id
     then map_option (\<lambda>r. if qi_status r = Completed then r
       else r\<lparr>qi_status := st, qi_completed_at := Some now, qi_last_error := err,
              qi_locked_by := None, qi_locked_at := None\<rparr>) (get_item i db)
     else get_item i db)"
  by (cases "get_item i db") (auto simp: mark_terminal_def Let_def queue_view get_item_update_run)

lemma get_lease_mark_terminal [queue_view]:
  "get_lease i (fst (mark_terminal now run_id st err db)) =
    (if i = run_id then None else get_lease i db)"
  by (simp add: mark_terminal_def Let_def queue_view)

lemma get_item_cancel_pending [queue_view]:
  "get_item i (fst (cancel_pending now run_id db)) =
    (if i = run_id
     then map_option (\<lambda>r. if qi_status r = Pending
       then r\<lparr>qi_status := Canceled, qi_completed_at := Some now, qi_locked_by := None,
              qi_locked_at := None,
              qi_last_error := coalesce (qi_last_error r) (Some ''canceled before execution'')\<rparr>
       else r) (get_item i db)
     else get_item i db)"
  by (simp add: cancel_pending_def Let_def queue_view get_item_update_run)

lemma get_lease_cancel_pending [queue_view]:
  "get_lease i (fst (cancel_pending now run_id db)) =
    (if i = run_id then None else get_lease i db)"
  by (simp add: cancel_pending_def Let_def queue_view)

definition running_row :: "instant \<Rightarrow> string option \<Rightarrow> queue_item \<Rightarrow> queue_item" where
  "running_row now w r =
     (if qi_status r = Completed then r
      else r\<lparr>qi_status := Running, qi_started_at := coalesce (qi_started_at r) (Some now),
             qi_locked_by := coalesce w (qi_locked_by r), qi_locked_at := Some now\<rparr>)"

lemma get_item_mark_running [queue_view]:
  "get_item i (fst (mark_running now run_id w db)) =
    (if i = run_id then map_option (running_row now w) (get_item i db) else get_item i db)"
  by (cases "get_item i db")
    (auto simp: mark_running_def Let_def queue_view get_item_update_run running_row_def lock_row_def
      split: option.splits)

lemma get_lease_mark_running [queue_view]:
  "get_lease i (fst (mark_running now run_id w db)) =
    (case w of None \<Rightarrow> get_lease i db
     | Some v \<Rightarrow> get_lease i (upsert_lease now run_id v db))"
  by (simp add: mark_running_def Let_def queue_view split: option.splits)

lemma view_insert_heartbeat [queue_view]:
  "get_item i (insert_worker_heartbeat w st now run p c m db) = get_item i db"
  "get_lease i (insert_worker_heartbeat w st now run p c m db) = get_lease i db"
  by (simp_all add: insert_worker_heartbeat_def)

lemma view_register_worker [queue_view]:
  "get_item i (fst (register_worker now w h pid t caps st db)) = get_item i db"
  "get_lease i (fst (register_worker now w h pid t caps st db)) = get_lease i db"
  by (simp_all add: register_worker_def Let_def queue_view)

lemma stale_window_ops [simp]:
  "stale_window (insert_worker_heartbeat w st now run p c m db) = stale_window db"
  "stale_window (fst (register_worker now w h pid t caps st db)) = stale_window db"
  by (simp_all add: insert_worker_heartbeat_def register_worker_def Let_def)

lemma get_item_heartbeat [queue_view]:
  "get_item i (heartbeat now now' w st run p c m db) =
    (if run = Some i then map_option (lock_row now w) (get_item i db) else get_item i db)"
  by (auto simp: heartbeat_def Let_def queue_view split: option.splits)

lemma get_lease_heartbeat [queue_view]:
  "get_lease i (heartbeat now now' w st run p c m db) =
    (case run of None \<Rightarrow> get_lease i db
     | Some run_id \<Rightarrow> get_lease i (upsert_lease now run_id w db))"
  by (auto simp: heartbeat_def Let_def queue_view split: option.splits)

lemma view_worker_ops [queue_view]:
  "get_item i (fst (drain_worker w db)) = get_item i db"
  "get_item i (fst (shutdown_worker w db)) = get_item i db"
  "get_item i (fst (detect_stale_workers now s db)) = get_item i db"
  "get_lease i (fst (drain_worker w db)) = get_lease i db"
  "get_lease i (fst (shutdown_worker w db)) = get_lease i db"
  "get_lease i (fst (detect_stale_workers now s db)) = get_lease i db"
  by (simp_all add: drain_worker_def shutdown_worker_def detect_stale_workers_def Let_def)

lemma view_metrics [queue_view]:
  "get_item i (fst (record_scheduler_metrics t1 t2 t3 db)) = get_item i db"
  "get_lease i (fst (record_scheduler_metrics t1 t2 t3 db)) = get_lease i db"
  by (simp_all add: record_scheduler_metrics_def scheduler_status_of_def Let_def queue_view)

section \<open>Claiming seen from one run\<close>

definition fresh_lease :: "instant \<Rightarrow> string \<Rightarrow> string \<Rightarrow> queue_db \<Rightarrow> run_lease" where
  "fresh_lease now run_id w db =
     \<lparr>rl_run_id = run_id, rl_worker_id = w, rl_acquired_at = now,
      rl_expires_at = now + stale_window db, rl_heartbeat_at = now\<rparr>"

definition claimed_db :: "instant \<Rightarrow> string \<Rightarrow> queue_item \<Rightarrow> queue_db \<Rightarrow> queue_db" where
  "claimed_db now w r db =
     db\<lparr>q_rows := update_where (\<lambda>x. qi_run_id x = qi_run_id r) (claim_row now w) (q_rows db),
        q_leases := delete_where (\<lambda>l. rl_run_id l = qi_run_id r) (q_leases db)
          @ [fresh_lease now (qi_run_id r) w db]\<rparr>"

definition queue_keys :: "queue_db \<Rightarrow> bool" where
  "queue_keys db \<longleftrightarrow> distinct (map qi_run_id (q_rows db)) \<and> distinct (map rl_run_id (q_leases db))
     \<and> distinct (map wr_worker_id (q_workers db))"

lemma set_claim_candidates [simp]:
  "set (claim_candidates now db) = {r \<in> set (q_rows db). claimable now db r}"
  by (simp add: claim_candidates_def)

lemma claim_next_None:
  "snd (claim_next now w db) = None \<longleftrightarrow> (\<forall>r \<in> set (q_rows db). \<not> claimable now db r)"
proof -
  have "snd (claim_next now w db) = None \<longleftrightarrow> claim_candidates now db = []"
    by (simp add: claim_next_def Let_def split: list.split)
  also have "\<dots> \<longleftrightarrow> set (claim_candidates now db) = {}" by (rule set_empty [symmetric])
  also have "\<dots> \<longleftrightarrow> {r \<in> set (q_rows db). claimable now db r} = {}"
    by (simp only: set_claim_candidates)
  finally show ?thesis by blast
qed

lemma claim_next_None_db: "snd (claim_next now w db) = None \<Longrightarrow> fst (claim_next now w db) = db"
  by (auto simp: claim_next_def Let_def split: list.splits)

lemma claim_next_best:
  assumes "snd (claim_next now w db) = Some item"
  obtains r where "r \<in> set (q_rows db)" "claimable now db r" "item = claim_row now w r"
    "\<forall>r' \<in> set (q_rows db). claimable now db r' \<longrightarrow> claim_key r \<le> claim_key r'"
    "fst (claim_next now w db) = claimed_db now w r db"
proof -
  let ?xs = "filter (claimable now db) (q_rows db)"
  obtain r rest where c: "claim_candidates now db = r # rest"
    using assms by (auto simp: claim_next_def split: list.splits)
  then have ne: "?xs \<noteq> []" by (auto simp: claim_candidates_def)
  have hd: "r = hd (sort_key claim_key ?xs)" using c by (simp add: claim_candidates_def)
  show thesis
  proof
    show "r \<in> set (q_rows db)" "claimable now db r"
      using hd_sort_key_least(1) [OF ne, of claim_key] hd by simp_all
    show "\<forall>r' \<in> set (q_rows db). claimable now db r' \<longrightarrow> claim_key r \<le> claim_key r'"
      using hd_sort_key_least(2) [OF ne, of claim_key] hd by simp
    show "item = claim_row now w r"
      using assms c by (simp add: claim_next_def Let_def)
    show "fst (claim_next now w db) = claimed_db now w r db"
      using c by (simp add: claim_next_def Let_def delete_lease_def fresh_lease_def claimed_db_def)
  qed
qed

lemma claim_next_view:
  assumes "queue_keys db" and "snd (claim_next now w db) = Some item"
  obtains r where "get_item (qi_run_id item) db = Some r" "claimable now db r"
    "item = claim_row now w r"
    "\<forall>i. get_item i (fst (claim_next now w db)) =
      (if i = qi_run_id item then Some item else get_item i db)"
    "\<forall>i. get_lease i (fst (claim_next now w db)) =
      (if i = qi_run_id item then Some (fresh_lease now i w db) else get_lease i db)"
    "\<forall>r' \<in> set (q_rows db). claimable now db r' \<longrightarrow> claim_key r \<le> claim_key r'"
proof -
  obtain r where r: "r \<in> set (q_rows db)" "claimable now db r" "item = claim_row now w r"
    and least: "\<forall>r' \<in> set (q_rows db). claimable now db r' \<longrightarrow> claim_key r \<le> claim_key r'"
    and db': "fst (claim_next now w db) = claimed_db now w r db"
    by (rule claim_next_best [OF assms(2)])
  have get: "get_item (qi_run_id r) db = Some r"
    using assms(1) r(1) by (simp add: get_item_def queue_keys_def row_of_in)
  show thesis
  proof
    show "get_item (qi_run_id item) db = Some r" "claimable now db r" "item = claim_row now w r"
      "\<forall>r' \<in> set (q_rows db). claimable now db r' \<longrightarrow> claim_key r \<le> claim_key r'"
      using get r least by simp_all
    show "\<forall>i. get_item i (fst (claim_next now w db)) =
      (if i = qi_run_id item then Some item else get_item i db)"
      using get get_item_update_run [of "\<lambda>_. True" "claim_row now w" _ "qi_run_id r" db]
      by (auto simp: db' r(3) claimed_db_def)
    show "\<forall>i. get_lease i (fst (claim_next now w db)) =
      (if i = qi_run_id item then Some (fresh_lease now i w db) else get_lease i db)"
      by (auto simp: db' r(3) claimed_db_def get_lease_def row_of_append row_of_delete_where fresh_lease_def
          split: option.splits)
  qed
qed

section \<open>Stale recovery seen from one run\<close>

definition requeued_row :: "instant \<Rightarrow> queue_item \<Rightarrow> queue_item" where
  "requeued_row now r =
     r\<lparr>qi_status := Pending, qi_available_at := now, qi_locked_by := None, qi_locked_at := None,
       qi_last_error := Some ''requeued after stale worker lease expired''\<rparr>"

lemma requeue_stale_parts:
  fixes timeout db s now
  defines "cutoff \<equiv> now - seconds (stale_timeout s db)"
  shows "set (rq_requeued_runs (snd (requeue_stale now t1 t2 t3 t4 s db))) =
      {qi_run_id r | r. r \<in> set (q_rows db) \<and> stale_job cutoff r}" (is ?ids)
    and "get_item i (fst (requeue_stale now t1 t2 t3 t4 s db)) =
      map_option (\<lambda>r. if stale_job cutoff r then requeued_row now r else r) (get_item i db)" (is ?get)
    and "get_lease i (fst (requeue_stale now t1 t2 t3 t4 s db)) =
      (if i \<in> {qi_run_id r | r. r \<in> set (q_rows db) \<and> stale_job cutoff r} then None
       else get_lease i db)" (is ?lease)
proof -
  obtain db1 ws where d: "detect_stale_workers t1 (Some (stale_timeout s db)) db = (db1, ws)"
    by fastforce
  then have rows: "q_rows db1 = q_rows db"
    and view: "get_item i db1 = get_item i db" "get_lease i db1 = get_lease i db"
    using view_worker_ops(3,6) [of i t1 "Some (stale_timeout s db)" db]
    by (auto simp: detect_stale_workers_def Let_def)
  show ?ids
    by (auto simp: requeue_stale_def Let_def d rows cutoff_def)
  show ?get
    using get_item_update_rows [of "stale_job cutoff" "requeued_row now" i db1] view
    by (simp add: requeue_stale_def Let_def d cutoff_def requeued_row_def [abs_def] queue_view
        cong: if_cong)
  show ?lease
    by (auto simp: requeue_stale_def Let_def d cutoff_def queue_view rows view)
qed

lemma requeued_distinct:
  assumes "queue_keys db"
  shows "distinct (rq_requeued_runs (snd (requeue_stale now t1 t2 t3 t4 s db)))"
proof -
  obtain db1 ws where d: "detect_stale_workers t1 (Some (stale_timeout s db)) db = (db1, ws)"
    by fastforce
  then have "q_rows db1 = q_rows db" by (auto simp: detect_stale_workers_def Let_def)
  with assms have "inj_on qi_run_id (set (q_rows db1))" and "distinct (q_rows db1)"
    by (auto simp: queue_keys_def distinct_map)
  then show ?thesis
    by (auto simp: requeue_stale_def Let_def d distinct_map intro: inj_on_subset)
qed

section \<open>Operations as steps\<close>

text \<open>
  Every public operation that writes the database, with the clock readings it makes as arguments;
  a step is one committed transaction. \<open>dequeue\<close> is \<open>claim_next\<close>.
\<close>

datatype queue_op =
    Op_Enqueue instant string int "instant option"
  | Op_Claim instant string
  | Op_Running instant string "string option"
  | Op_Completed instant string
  | Op_Failed instant string string
  | Op_Canceled instant string "string option"
  | Op_Cancel_Pending instant string
  | Op_Register instant string string "int option" "instant option" "pydict option" string
  | Op_Heartbeat instant instant string string "string option" pydict "pyfloat option" "int option"
  | Op_Drain string
  | Op_Shutdown string
  | Op_Detect instant "int option"
  | Op_Requeue instant instant instant instant instant "int option"
  | Op_Metrics instant instant instant

fun queue_exec :: "queue_op \<Rightarrow> queue_db \<Rightarrow> queue_db" where
  "queue_exec (Op_Enqueue now i p t) db = fst (enqueue now i p t db)"
| "queue_exec (Op_Claim now w) db = fst (claim_next now w db)"
| "queue_exec (Op_Running now i w) db = fst (mark_running now i w db)"
| "queue_exec (Op_Completed now i) db = fst (mark_completed now i db)"
| "queue_exec (Op_Failed now i e) db = fst (mark_failed now i e db)"
| "queue_exec (Op_Canceled now i e) db = fst (mark_canceled now i e db)"
| "queue_exec (Op_Cancel_Pending now i) db = fst (cancel_pending now i db)"
| "queue_exec (Op_Register now w h pid t caps st) db = fst (register_worker now w h pid t caps st db)"
| "queue_exec (Op_Heartbeat now now' w st run p c m) db = heartbeat now now' w st run p c m db"
| "queue_exec (Op_Drain w) db = fst (drain_worker w db)"
| "queue_exec (Op_Shutdown w) db = fst (shutdown_worker w db)"
| "queue_exec (Op_Detect now s) db = fst (detect_stale_workers now s db)"
| "queue_exec (Op_Requeue now t1 t2 t3 t4 s) db = fst (requeue_stale now t1 t2 t3 t4 s db)"
| "queue_exec (Op_Metrics t1 t2 t3) db = fst (record_scheduler_metrics t1 t2 t3 db)"

lemmas terminal_defs = mark_completed_def mark_failed_def mark_canceled_def

inductive queue_reachable :: "int \<Rightarrow> queue_db \<Rightarrow> bool" for stale :: int where
  initial: "queue_reachable stale (migrate_legacy_worker_heartbeats legacy (new_queue stale))"
| step: "queue_reachable stale db \<Longrightarrow> queue_reachable stale (queue_exec op db)"

inductive_cases queue_reachable_stepE: "queue_reachable stale db"

section \<open>The invariant\<close>

text \<open>
  Only a running row is locked, and a lock has its time; a running row has been started; a failed
  or canceled row has its completion time; the counter of attempts does not go below zero.
\<close>

definition row_ok :: "queue_item \<Rightarrow> bool" where
  "row_ok r \<longleftrightarrow>
     (qi_status r \<noteq> Running \<longrightarrow> qi_locked_by r = None \<and> qi_locked_at r = None) \<and>
     (qi_locked_by r \<noteq> None \<longrightarrow> qi_locked_at r \<noteq> None) \<and>
     (qi_status r = Running \<longrightarrow> qi_started_at r \<noteq> None) \<and>
     (qi_status r \<in> {Failed, Canceled} \<longrightarrow> qi_completed_at r \<noteq> None) \<and>
     0 \<le> qi_attempts r"

definition lease_ok :: "int \<Rightarrow> run_lease \<Rightarrow> bool" where
  "lease_ok window l \<longleftrightarrow> rl_expires_at l = rl_heartbeat_at l + window"

text \<open>A row and the lease of its run name the same worker.\<close>

definition owner_ok :: "queue_item option \<Rightarrow> run_lease option \<Rightarrow> bool" where
  "owner_ok ro lo \<longleftrightarrow>
     (case (ro, lo) of
        (Some r, Some l) \<Rightarrow> (case qi_locked_by r of None \<Rightarrow> True | Some w \<Rightarrow> rl_worker_id l = w)
      | _ \<Rightarrow> True)"

definition cell_ok :: "int \<Rightarrow> queue_item option \<Rightarrow> run_lease option \<Rightarrow> bool" where
  "cell_ok window ro lo \<longleftrightarrow>
     (\<forall>r. ro = Some r \<longrightarrow> row_ok r) \<and> (\<forall>l. lo = Some l \<longrightarrow> lease_ok window l) \<and> owner_ok ro lo"

definition run_ok :: "queue_db \<Rightarrow> string \<Rightarrow> bool" where
  "run_ok db i \<longleftrightarrow> cell_ok (stale_window db) (get_item i db) (get_lease i db)"

definition queue_inv :: "queue_db \<Rightarrow> bool" where
  "queue_inv db \<longleftrightarrow> queue_keys db \<and> (\<forall>i. run_ok db i)"

lemma queue_invD:
  assumes "queue_inv db"
  shows "queue_keys db" "run_ok db i"
  using assms by (simp_all add: queue_inv_def)

lemmas row_effects = row_ok_def new_item_def enqueue_conflict_def lock_row_def running_row_def
  requeued_row_def claim_row_def

lemmas cell_ok_defs = cell_ok_def owner_ok_def lease_ok_def

subsection \<open>Keys stay unique\<close>

lemma queue_keys_worker_op:
  "queue_keys db \<Longrightarrow> queue_keys (fst (register_worker now w h pid t caps st db))"
  "queue_keys db \<Longrightarrow> queue_keys (insert_worker_heartbeat w st now run p c m db)"
  "queue_keys db \<Longrightarrow> queue_keys (fst (drain_worker w db))"
  "queue_keys db \<Longrightarrow> queue_keys (fst (shutdown_worker w db))"
  "queue_keys db \<Longrightarrow> queue_keys (fst (detect_stale_workers now s db))"
  by (simp_all add: queue_keys_def register_worker_def insert_worker_heartbeat_def drain_worker_def
      shutdown_worker_def detect_stale_workers_def Let_def distinct_upsert map_update_where)

lemma queue_keys_update_workers:
  "queue_keys db \<Longrightarrow> (\<And>w. p w \<Longrightarrow> wr_worker_id (f w) = wr_worker_id w) \<Longrightarrow>
     queue_keys (db\<lparr>q_workers := update_where p f (q_workers db)\<rparr>)"
  by (simp add: queue_keys_def map_update_where)

lemma queue_keys_update_rows:
  "queue_keys db \<Longrightarrow> (\<And>r. p r \<Longrightarrow> qi_run_id (f r) = qi_run_id r) \<Longrightarrow>
     queue_keys (db\<lparr>q_rows := update_where p f (q_rows db)\<rparr>)"
  by (simp add: queue_keys_def map_update_where)

lemma queue_keys_delete_lease: "queue_keys db \<Longrightarrow> queue_keys (delete_lease i db)"
  by (simp add: queue_keys_def delete_lease_def map_delete_where_distinct)

lemma queue_keys_fold_delete_lease: "queue_keys db \<Longrightarrow> queue_keys (fold delete_lease ids db)"
  by (induction ids arbitrary: db) (simp_all add: queue_keys_delete_lease)

lemma queue_keys_upsert_lease: "queue_keys db \<Longrightarrow> queue_keys (upsert_lease now i w db)"
  by (simp add: queue_keys_def upsert_lease_def Let_def distinct_upsert map_update_where)

lemma queue_keys_enqueue: "queue_keys db \<Longrightarrow> queue_keys (fst (enqueue now i p t db))"
  by (simp add: queue_keys_def enqueue_def Let_def distinct_upsert)

lemma queue_keys_claim: "queue_keys db \<Longrightarrow> queue_keys (fst (claim_next now w db))"
proof (cases "snd (claim_next now w db)")
  case None
  then show "queue_keys db \<Longrightarrow> ?thesis" by (simp add: claim_next_None_db)
next
  case (Some item)
  then obtain r where "fst (claim_next now w db) = claimed_db now w r db"
    by (rule claim_next_best)
  then show "queue_keys db \<Longrightarrow> ?thesis"
    by (auto simp: claimed_db_def queue_keys_def map_update_where map_delete_where_distinct
        fresh_lease_def)
qed

lemma queue_keys_metrics:
  "queue_keys db \<Longrightarrow> queue_keys (fst (record_scheduler_metrics t1 t2 t3 db))"
  using queue_keys_worker_op(5) [of db t1 None]
  by (simp add: record_scheduler_metrics_def scheduler_status_of_def Let_def queue_keys_def)

lemma queue_keys_mark:
  "queue_keys db \<Longrightarrow> queue_keys (fst (mark_terminal now i st e db))"
  "queue_keys db \<Longrightarrow> queue_keys (fst (cancel_pending now i db))"
  "queue_keys db \<Longrightarrow> queue_keys (fst (mark_running now i w db))"
  by (auto simp: mark_terminal_def cancel_pending_def mark_running_def Let_def
      intro!: queue_keys_delete_lease queue_keys_upsert_lease queue_keys_update_rows
      split: option.split)

lemma queue_keys_heartbeat: "queue_keys db \<Longrightarrow> queue_keys (heartbeat now now' w st run p c m db)"
  by (auto simp: heartbeat_def Let_def intro!: queue_keys_upsert_lease queue_keys_worker_op
      queue_keys_update_workers split: option.split)

lemma queue_keys_requeue:
  "queue_keys db \<Longrightarrow> queue_keys (fst (requeue_stale now t1 t2 t3 t4 s db))"
  using queue_keys_worker_op(5) [of db t1 "Some (stale_timeout s db)"]
  by (auto simp: requeue_stale_def Let_def split: prod.split
      intro!: queue_keys_metrics queue_keys_fold_delete_lease queue_keys_update_rows)

lemma queue_keys_exec: "queue_keys db \<Longrightarrow> queue_keys (queue_exec op db)"
  by (cases op) (simp_all add: terminal_defs queue_keys_worker_op queue_keys_enqueue queue_keys_claim
      queue_keys_mark queue_keys_heartbeat queue_keys_requeue queue_keys_metrics)

subsection \<open>Every run stays well-formed\<close>

lemma stale_window_exec [simp]: "stale_window (queue_exec op db) = stale_window db"
proof -
  have fold: "stale_window (fold delete_lease ids db) = stale_window db" for ids db
    by (induction ids arbitrary: db) (simp_all add: delete_lease_def)
  have detect: "stale_window (fst (detect_stale_workers t s db)) = stale_window db" for t s db
    by (simp add: detect_stale_workers_def Let_def)
  have metrics: "stale_window (fst (record_scheduler_metrics t1 t2 t3 db)) = stale_window db"
    for t1 t2 t3 db
    by (simp add: record_scheduler_metrics_def scheduler_status_of_def Let_def detect)
  have lease: "stale_window (upsert_lease now i w db) = stale_window db" for now i w db
    by (simp add: upsert_lease_def Let_def)
  have requeue: "stale_window (fst (requeue_stale now t1 t2 t3 t4 s db)) = stale_window db"
    for now t1 t2 t3 t4 s db
    using detect [of t1 "Some (stale_timeout s db)" db]
    by (cases "detect_stale_workers t1 (Some (stale_timeout s db)) db")
      (simp add: requeue_stale_def Let_def metrics fold)
  have claim: "stale_window (fst (claim_next now w db)) = stale_window db" for now w db
    by (simp add: claim_next_def Let_def delete_lease_def split: list.split)
  show ?thesis
    by (cases op)
      (auto simp: enqueue_def mark_running_def terminal_defs mark_terminal_def cancel_pending_def
        heartbeat_def drain_worker_def shutdown_worker_def delete_lease_def detect metrics lease
        requeue claim Let_def split: option.split)
qed

lemma cell_ok_no_lease: "(\<And>r. ro = Some r \<Longrightarrow> row_ok r) \<Longrightarrow> cell_ok window ro None"
  by (auto simp: cell_ok_defs split: option.split)

lemma cell_ok_row: "cell_ok window (Some r) lo \<Longrightarrow> row_ok r"
  by (simp add: cell_ok_def)

lemma cell_ok_unlocked:
  assumes "cell_ok window ro lo" and "row_ok r" and "qi_locked_by r = None"
  shows "cell_ok window (Some r) lo"
  using assms by (auto simp: cell_ok_defs split: option.split)

lemma cell_ok_drop_row:
  assumes "cell_ok window ro lo" and "\<And>r. ro = Some r \<Longrightarrow> row_ok (f r)"
  shows "cell_ok window (map_option f ro) None"
  using assms by (auto simp: cell_ok_defs split: option.split)

lemma cell_ok_lock:
  assumes "cell_ok window ro lo"
  shows "cell_ok window (map_option (lock_row now w) ro) (Some (renewed_lease now i w window lo))"
  using assms
  by (cases ro) (auto simp: cell_ok_defs lock_row_def row_ok_def split: option.split)

lemma cell_ok_running:
  assumes "cell_ok window ro lo"
  shows "cell_ok window (map_option (running_row now (Some w)) ro) (Some (renewed_lease now i w window lo))"
    and "cell_ok window (map_option (running_row now None) ro) lo"
  using assms
  by (cases ro; auto simp: cell_ok_defs running_row_def row_ok_def or_else_def split: option.splits)+

lemma cell_ok_enqueue:
  assumes "cell_ok window ro lo"
  shows "cell_ok window (Some (case ro of None \<Rightarrow> new_item now i p t | Some r \<Rightarrow> enqueue_conflict p t r)) lo"
proof (rule cell_ok_unlocked [OF assms])
  show "row_ok (case ro of None \<Rightarrow> new_item now i p t | Some r \<Rightarrow> enqueue_conflict p t r)"
    using assms
    by (cases ro) (auto simp: new_item_def enqueue_conflict_def row_ok_def dest!: cell_ok_row)
  show "qi_locked_by (case ro of None \<Rightarrow> new_item now i p t | Some r \<Rightarrow> enqueue_conflict p t r) = None"
    by (simp add: new_item_def enqueue_conflict_def split: option.split)
qed

lemma run_ok_claim:
  assumes "queue_keys db" and "run_ok db i"
  shows "run_ok (fst (claim_next now w db)) i"
proof (cases "snd (claim_next now w db)")
  case None
  with assms show ?thesis by (simp add: claim_next_None_db)
next
  case (Some item)
  obtain r where
    view: "get_item (qi_run_id item) db = Some r" "claimable now db r" "item = claim_row now w r"
    "\<forall>i. get_item i (fst (claim_next now w db)) =
      (if i = qi_run_id item then Some item else get_item i db)"
    "\<forall>i. get_lease i (fst (claim_next now w db)) =
      (if i = qi_run_id item then Some (fresh_lease now i w db) else get_lease i db)"
    "\<forall>r' \<in> set (q_rows db). claimable now db r' \<longrightarrow> claim_key r \<le> claim_key r'"
    by (rule claim_next_view [OF assms(1) Some])
  have "stale_window (fst (claim_next now w db)) = stale_window db"
    using stale_window_exec [of "Op_Claim now w" db] by simp
  with assms(2) view(1,3) show ?thesis
    by (cases "i = qi_run_id item")
      (auto simp: run_ok_def cell_ok_defs view(4,5) [rule_format] row_ok_def fresh_lease_def or_else_def
        split: option.splits)
qed

lemma run_ok_requeue:
  assumes "queue_keys db" and "run_ok db i"
  shows "run_ok (fst (requeue_stale now t1 t2 t3 t4 s db)) i"
proof -
  let ?cutoff = "now - seconds (stale_timeout s db)" and ?db = "fst (requeue_stale now t1 t2 t3 t4 s db)"
  have win: "stale_window ?db = stale_window db"
    using stale_window_exec [of "Op_Requeue now t1 t2 t3 t4 s" db] by simp
  show ?thesis
  proof (cases "\<exists>r. get_item i db = Some r \<and> stale_job ?cutoff r")
    case True
    then obtain r where r: "get_item i db = Some r" "stale_job ?cutoff r" by blast
    then have "i \<in> {qi_run_id r | r. r \<in> set (q_rows db) \<and> stale_job ?cutoff r}"
      using get_item_row get_item_id by blast
    then have none: "get_lease i ?db = None" by (simp only: requeue_stale_parts(3) if_True)
    have "get_item i ?db = Some (requeued_row now r)"
      using r by (simp add: requeue_stale_parts(2))
    moreover have "row_ok r"
      using assms(2) r(1) by (simp add: run_ok_def cell_ok_def)
    ultimately show ?thesis
      by (auto simp: run_ok_def win none requeued_row_def row_ok_def intro!: cell_ok_no_lease)
  next
    case False
    have row: "get_item i ?db = get_item i db"
      using False by (cases "get_item i db") (auto simp: requeue_stale_parts(2))
    have "get_lease i ?db = None \<or> get_lease i ?db = get_lease i db"
      by (simp only: requeue_stale_parts(3) split: if_split) simp
    then show ?thesis
      using assms(2) by (auto simp: run_ok_def win row cell_ok_defs split: option.splits)
  qed
qed

lemma run_ok_exec:
  assumes "queue_inv db"
  shows "run_ok (queue_exec op db) i"
proof -
  note keys = queue_invD(1) [OF assms] and run = queue_invD(2) [OF assms, of i]
  then have cell: "cell_ok (stale_window db) (get_item i db) (get_lease i db)"
    by (simp add: run_ok_def)
  then have row: "get_item i db = Some r \<Longrightarrow> row_ok r" for r
    by (simp add: cell_ok_def)
  have cell': "cell_ok (stale_window db) (get_item i (queue_exec op db)) (get_lease i (queue_exec op db))"
  proof (cases op)
    case (Op_Claim now w)
    with run_ok_claim [OF keys run, of now w] show ?thesis
      using stale_window_exec [of op db] by (simp add: run_ok_def)
  next
    case (Op_Requeue now t1 t2 t3 t4 s)
    with run_ok_requeue [OF keys run, of now t1 t2 t3 t4 s] show ?thesis
      using stale_window_exec [of op db] by (simp add: run_ok_def)
  next
    case (Op_Enqueue now j p t)
    with cell show ?thesis
      using cell_ok_enqueue [OF cell] by (cases "i = j") (simp_all add: queue_view)
  next
    case (Op_Running now j w)
    with cell show ?thesis
      by (cases w) (auto simp: queue_view cell_ok_running)
  next
    case (Op_Heartbeat now now' w st run p c m)
    with cell show ?thesis
      by (cases run) (auto simp: queue_view cell_ok_lock)
  next
    case Op_Completed
    with cell row show ?thesis
      by (auto simp: queue_view terminal_defs row_ok_def intro!: cell_ok_drop_row)
  next
    case Op_Failed
    with cell row show ?thesis
      by (auto simp: queue_view terminal_defs row_ok_def intro!: cell_ok_drop_row)
  next
    case Op_Canceled
    with cell row show ?thesis
      by (auto simp: queue_view terminal_defs row_ok_def intro!: cell_ok_drop_row)
  next
    case Op_Cancel_Pending
    with cell row show ?thesis
      by (auto simp: queue_view row_ok_def intro!: cell_ok_drop_row)
  qed (use cell in \<open>simp_all add: queue_view\<close>)
  then show ?thesis by (simp add: run_ok_def)
qed

lemma queue_inv_exec: "queue_inv db \<Longrightarrow> queue_inv (queue_exec op db)"
  using run_ok_exec queue_keys_exec unfolding queue_inv_def by blast

lemma queue_inv_initial: "queue_inv (migrate_legacy_worker_heartbeats legacy (new_queue stale))"
proof -
  have row: "queue_inv (migrate_row row db)" if "queue_inv db" for row db
    using that
    by (simp add: queue_inv_def run_ok_def migrate_row_def Let_def queue_keys_def distinct_upsert)
  have "queue_inv (fold migrate_row rows db)" if "queue_inv db" for rows db
    using that by (induction rows arbitrary: db) (simp_all add: row)
  moreover have "queue_inv (new_queue stale)"
    "queue_inv ((new_queue stale)\<lparr>q_heartbeats := []\<rparr>)"
    by (simp_all add: new_queue_def queue_inv_def queue_keys_def run_ok_def cell_ok_defs table_defs)
  ultimately show ?thesis
    by (cases legacy) (simp_all add: migrate_legacy_worker_heartbeats_def)
qed

lemma reachable_inv: "queue_reachable stale db \<Longrightarrow> queue_inv db"
  by (induction rule: queue_reachable.induct) (auto intro: queue_inv_initial queue_inv_exec)

section \<open>Sequences of operations\<close>

abbreviation queue_run :: "queue_op list \<Rightarrow> queue_db \<Rightarrow> queue_db" where
  "queue_run ops db \<equiv> fold queue_exec ops db"

lemma reachable_run: "queue_reachable stale db \<Longrightarrow> queue_reachable stale (queue_run ops db)"
  by (induction ops arbitrary: db) (auto intro: queue_reachable.step)

lemma queue_inv_run: "queue_inv db \<Longrightarrow> queue_inv (queue_run ops db)"
  by (induction ops arbitrary: db) (auto intro: queue_inv_exec)

lemma q_stale_after_exec [simp]: "q_stale_after (queue_exec op db) = q_stale_after db"
  using stale_window_exec [of op db] by (simp add: stale_window_def seconds_def)

text \<open>The run an operation claims, if it is a claim and finds one.\<close>

fun claimed_run :: "queue_op \<Rightarrow> queue_db \<Rightarrow> string option" where
  "claimed_run (Op_Claim now w) db = map_option qi_run_id (snd (claim_next now w db))"
| "claimed_run _ db = None"

fun claims :: "string \<Rightarrow> queue_op list \<Rightarrow> queue_db \<Rightarrow> nat" where
  "claims i [] db = 0"
| "claims i (op # ops) db =
     (if claimed_run op db = Some i then 1 else 0) + claims i ops (queue_exec op db)"

lemma claim_get_item:
  assumes "queue_keys db"
  shows "get_item i (fst (claim_next now w db)) =
    (if claimed_run (Op_Claim now w) db = Some i then map_option (claim_row now w) (get_item i db)
     else get_item i db)"
proof (cases "snd (claim_next now w db)")
  case None
  then show ?thesis by (simp add: claim_next_None_db)
next
  case (Some item)
  obtain r where
    view: "get_item (qi_run_id item) db = Some r" "claimable now db r" "item = claim_row now w r"
    "\<forall>i. get_item i (fst (claim_next now w db)) =
      (if i = qi_run_id item then Some item else get_item i db)"
    "\<forall>i. get_lease i (fst (claim_next now w db)) =
      (if i = qi_run_id item then Some (fresh_lease now i w db) else get_lease i db)"
    "\<forall>r' \<in> set (q_rows db). claimable now db r' \<longrightarrow> claim_key r \<le> claim_key r'"
    by (rule claim_next_view [OF assms Some])
  then show ?thesis using Some by auto
qed

lemma claimed_run_claimable:
  assumes "queue_keys db" and "claimed_run (Op_Claim now w) db = Some i"
  obtains r where "get_item i db = Some r" "claimable now db r"
proof -
  from assms(2) obtain item where item: "snd (claim_next now w db) = Some item" "qi_run_id item = i"
    by auto
  show thesis
    by (rule claim_next_view [OF assms(1) item(1)]) (use item(2) that in blast)
qed

text \<open>A row, once inserted, is never deleted; what an operation does to one row.\<close>

definition row_later :: "nat \<Rightarrow> queue_item \<Rightarrow> queue_item \<Rightarrow> bool" where
  "row_later n r r' \<longleftrightarrow>
     qi_attempts r' = qi_attempts r + int n \<and> qi_created_at r' = qi_created_at r \<and>
     (qi_status r = Completed \<longrightarrow> qi_status r' = Completed \<and> qi_started_at r' = qi_started_at r)"

lemma row_later_trans: "row_later m r r' \<Longrightarrow> row_later n r' r'' \<Longrightarrow> row_later (m + n) r r''"
  by (simp add: row_later_def)

lemma exec_row_claim:
  assumes keys: "queue_keys db" and r: "get_item i db = Some r"
  shows "\<exists>r'. get_item i (queue_exec (Op_Claim now w) db) = Some r' \<and>
    row_later (if claimed_run (Op_Claim now w) db = Some i then 1 else 0) r r'"
proof (cases "claimed_run (Op_Claim now w) db = Some i")
  case True
  obtain r0 where "get_item i db = Some r0" "claimable now db r0"
    by (rule claimed_run_claimable [OF keys True])
  then have "qi_status r \<noteq> Completed" using r by (auto simp: claimable_def)
  with True r show ?thesis
    using claim_get_item [OF keys, of i now w]
    by (simp add: row_later_def claim_row_def del: claimed_run.simps)
next
  case False
  with r show ?thesis
    using claim_get_item [OF keys, of i now w] by (simp add: row_later_def del: claimed_run.simps)
qed

lemma exec_row:
  assumes "queue_inv db" and "get_item i db = Some r"
  shows "\<exists>r'. get_item i (queue_exec op db) = Some r' \<and>
    row_later (if claimed_run op db = Some i then 1 else 0) r r'"
proof (cases "\<exists>now w. op = Op_Claim now w")
  case True
  then obtain now w where "op = Op_Claim now w" by blast
  then show ?thesis using exec_row_claim [OF queue_invD(1) [OF assms(1)] assms(2)] by blast
next
  case False
  then have none: "claimed_run op db = None" by (cases op) auto
  have "case get_item i (queue_exec op db) of None \<Rightarrow> False | Some r' \<Rightarrow> row_later 0 r r'"
  proof (cases op)
    case Op_Claim
    with False show ?thesis by simp
  next
    case Op_Requeue
    with assms(2) show ?thesis
      by (simp add: requeue_stale_parts(2) requeued_row_def stale_job_def row_later_def)
  qed (use assms(2) in \<open>auto simp: queue_view terminal_defs enqueue_conflict_def lock_row_def
         running_row_def row_later_def\<close>)
  then show ?thesis by (auto simp: none split: option.splits)
qed

lemma run_row:
  assumes "queue_inv db" and "get_item i db = Some r"
  shows "\<exists>r'. get_item i (queue_run ops db) = Some r' \<and> row_later (claims i ops db) r r'"
  using assms
proof (induction ops arbitrary: db r)
  case Nil
  then show ?case by (simp add: row_later_def)
next
  case (Cons op ops)
  from exec_row [OF Cons.prems] obtain r1 where r1: "get_item i (queue_exec op db) = Some r1"
    "row_later (if claimed_run op db = Some i then 1 else 0) r r1" by blast
  from Cons.IH [OF queue_inv_exec [OF Cons.prems(1)] r1(1)] obtain r' where
    "get_item i (queue_run ops (queue_exec op db)) = Some r'"
    "row_later (claims i ops (queue_exec op db)) r1 r'" by blast
  with row_later_trans [OF r1(2)] show ?case by auto
qed

subsection \<open>A claimed run stays with its worker\<close>

text \<open>
  Run \<open>i\<close> is running in the hands of worker \<open>w\<close>, and was last locked at \<open>t\<close> or later.
\<close>

definition held_by :: "string \<Rightarrow> string \<Rightarrow> instant \<Rightarrow> queue_db \<Rightarrow> bool" where
  "held_by i w t db \<longleftrightarrow>
     (case get_item i db of
        None \<Rightarrow> False
      | Some r \<Rightarrow> qi_status r = Running \<and> qi_locked_by r = Some w \<and>
          (case qi_locked_at r of None \<Rightarrow> False | Some u \<Rightarrow> t \<le> u))"

text \<open>
  The operations that leave run \<open>i\<close> to worker \<open>w\<close>: everything about other runs and about workers,
  heartbeats of \<open>w\<close> itself, and claims and stale recoveries made before the lock is stale.
\<close>

fun leaves_alone :: "string \<Rightarrow> string \<Rightarrow> instant \<Rightarrow> int \<Rightarrow> queue_op \<Rightarrow> bool" where
  "leaves_alone i w t stale (Op_Enqueue _ j _ _) = (j \<noteq> i)"
| "leaves_alone i w t stale (Op_Claim now _) = (now - seconds stale \<le> t)"
| "leaves_alone i w t stale (Op_Running now j v) = (j = i \<longrightarrow> t \<le> now \<and> v \<in> {None, Some w})"
| "leaves_alone i w t stale (Op_Completed _ j) = (j \<noteq> i)"
| "leaves_alone i w t stale (Op_Failed _ j _) = (j \<noteq> i)"
| "leaves_alone i w t stale (Op_Canceled _ j _) = (j \<noteq> i)"
| "leaves_alone i w t stale (Op_Heartbeat now _ v _ run _ _ _) = (run = Some i \<longrightarrow> v = w \<and> t \<le> now)"
| "leaves_alone i w t stale (Op_Requeue now _ _ _ _ s) =
     (now - seconds (the (int_or s (Some stale))) \<le> t)"
| "leaves_alone i w t stale _ = True"

lemma held_not_claimable:
  assumes "held_by i w t db" and "get_item i db = Some r" and "now - stale_window db \<le> t"
  shows "\<not> claimable now db r"
  using assms by (auto simp: held_by_def claimable_def split: option.splits)

lemma held_not_claimed:
  assumes "queue_keys db" and "held_by i w t db" and "now - stale_window db \<le> t"
  shows "claimed_run (Op_Claim now v) db \<noteq> Some i"
proof
  assume "claimed_run (Op_Claim now v) db = Some i"
  then obtain r where "get_item i db = Some r" "claimable now db r"
    by (rule claimed_run_claimable [OF assms(1)])
  with held_not_claimable [OF assms(2) _ assms(3)] show False by blast
qed

lemma held_exec:
  assumes inv: "queue_inv db" and held: "held_by i w t db"
    and alone: "leaves_alone i w t (q_stale_after db) op"
  shows "held_by i w t (queue_exec op db)"
proof -
  obtain r u where r: "get_item i db = Some r" "qi_status r = Running" "qi_locked_by r = Some w"
    "qi_locked_at r = Some u" "t \<le> u"
    using held by (auto simp: held_by_def split: option.splits)
  show ?thesis
  proof (cases op)
    case (Op_Claim now v)
    then have "claimed_run op db \<noteq> Some i"
      using held_not_claimed [OF queue_invD(1) [OF inv] held] alone by (simp add: stale_window_def)
    with Op_Claim have "get_item i (queue_exec op db) = get_item i db"
      by (simp only: queue_exec.simps claim_get_item [OF queue_invD(1) [OF inv]] if_False)
    with held show ?thesis by (simp add: held_by_def)
  next
    case (Op_Requeue now t1 t2 t3 t4 s)
    with alone r have "\<not> stale_job (now - seconds (stale_timeout s db)) r"
      by (simp add: stale_job_def stale_timeout_def)
    with Op_Requeue r show ?thesis
      by (simp add: held_by_def requeue_stale_parts(2))
  qed (use r alone in \<open>auto simp: held_by_def queue_view terminal_defs lock_row_def running_row_def\<close>)
qed

lemma held_run:
  assumes "queue_inv db" and "held_by i w t db"
    and "\<forall>op \<in> set ops. leaves_alone i w t (q_stale_after db) op"
  shows "held_by i w t (queue_run ops db)"
  using assms
proof (induction ops arbitrary: db)
  case (Cons op ops)
  then show ?case
    using held_exec [of db i w t op] queue_inv_exec [of db op] by simp
qed simp

lemma claim_holds:
  assumes "queue_keys db" and "snd (claim_next now w db) = Some item"
  shows "held_by (qi_run_id item) w now (fst (claim_next now w db))"
proof -
  have "claimed_run (Op_Claim now w) db = Some (qi_run_id item)" using assms(2) by simp
  moreover obtain r where "get_item (qi_run_id item) db = Some r"
    by (rule claimed_run_claimable [OF assms(1) calculation])
  ultimately show ?thesis
    by (simp add: held_by_def claim_get_item [OF assms(1)])
qed

end
