(* ===== verification/Queue_Props.thy ===== *)
theory Queue_Props
  imports Queue_Inv
begin

text \<open>
  The properties of the run queue, over the databases that any sequence of its operations reaches,
  each with a concrete execution to which it applies.
\<close>

text \<open>A queue with two enqueued runs, the later one more urgent, and a stale window of 30 seconds.\<close>

definition sample_queue :: queue_db where
  "sample_queue = queue_run [Op_Enqueue 0 ''a'' 1 None, Op_Enqueue 5 ''b'' 9 None]
     (migrate_legacy_worker_heartbeats None (new_queue 30))"

lemma sample_queue_reachable: "queue_reachable 30 sample_queue"
  unfolding sample_queue_def by (intro reachable_run queue_reachable.initial)

lemmas sample_eval = sample_queue_def new_queue_def migrate_legacy_worker_heartbeats_def
  enqueue_def upsert_def get_item_def claim_next_def claim_candidates_def claimable_def
  claim_key_def claim_row_def stale_window_def seconds_def delete_lease_def delete_where_def
  Let_def update_where_def

lemma sample_claim:
  "snd (claim_next 10 ''w1'' sample_queue) =
    Some \<lparr>qi_run_id = ''b'', qi_status = Running, qi_priority = 9, qi_created_at = 5,
      qi_available_at = 5, qi_started_at = Some 10, qi_completed_at = None, qi_attempts = 1,
      qi_last_error = None, qi_locked_by = Some ''w1'', qi_locked_at = Some 10\<rparr>"
  by code_simp

text \<open>C1 (queue invariant). In every database the operations of \<open>SQLiteRunQueue\<close> reach, in any
  order and at any clock readings: run, lease and worker ids are unique; only a running row carries
  a lock, and then the time of it; a running row has its start time and a failed or canceled one its
  completion time; every lease expires exactly one stale window after its heartbeat; and the worker
  in the lock of a row is the worker of the run's lease.\<close>

theorem queue_invariant:
  assumes "queue_reachable stale db"
  shows "queue_inv db"
  using assms by (rule reachable_inv)

theorem queue_invariant_witness:
  "queue_inv (queue_exec (Op_Heartbeat 12 12 ''w1'' ''busy'' (Some ''b'') [] None None)
     (queue_exec (Op_Claim 10 ''w1'') sample_queue))"
  by (rule queue_invariant [of 30]) (intro queue_reachable.step sample_queue_reachable)

text \<open>C2 (claim). A claim on a reachable database returns nothing exactly when no row is claimable,
  and then changes nothing. Otherwise it returns a claimable row that is least in the order of
  falling priority, creation time and run id, marked as running and locked by the caller with one
  more attempt; the database then holds that row and a fresh lease for it, and the rows and leases
  of all other runs are as before.\<close>

theorem claim_next_correct:
  assumes "queue_reachable stale db"
  shows "case claim_next now w db of
      (db', None) \<Rightarrow> db' = db \<and> (\<forall>r \<in> set (q_rows db). \<not> claimable now db r)
    | (db', Some item) \<Rightarrow>
        (\<exists>r. get_item (qi_run_id item) db = Some r \<and> claimable now db r \<and> item = claim_row now w r \<and>
           qi_status item = Running \<and> qi_locked_by item = Some w \<and> qi_locked_at item = Some now \<and>
           qi_attempts item = qi_attempts r + 1 \<and>
           (\<forall>r' \<in> set (q_rows db). claimable now db r' \<longrightarrow> qi_priority r' \<le> qi_priority r \<and>
              (qi_priority r' = qi_priority r \<longrightarrow> qi_created_at r \<le> qi_created_at r' \<and>
                (qi_created_at r' = qi_created_at r \<longrightarrow> qi_run_id r \<le> qi_run_id r')))) \<and>
        (\<forall>i. get_item i db' = (if i = qi_run_id item then Some item else get_item i db)) \<and>
        (\<forall>i. get_lease i db' =
           (if i = qi_run_id item then Some (fresh_lease now i w db) else get_lease i db))"
proof (cases "snd (claim_next now w db)")
  case None
  then show ?thesis
    using claim_next_None [of now w db] claim_next_None_db [of now w db]
    by (cases "claim_next now w db") auto
next
  case (Some item)
  have keys: "queue_keys db" using reachable_inv [OF assms] by (rule queue_invD)
  have order: "claim_key r \<le> claim_key r' \<longleftrightarrow> qi_priority r' \<le> qi_priority r \<and>
      (qi_priority r' = qi_priority r \<longrightarrow> qi_created_at r \<le> qi_created_at r' \<and>
        (qi_created_at r' = qi_created_at r \<longrightarrow> qi_run_id r \<le> qi_run_id r'))" for r r'
    by (auto simp: claim_key_def less_eq_prod_def)
  show ?thesis
    by (rule claim_next_view [OF keys Some])
      (use Some in \<open>cases "claim_next now w db"; auto simp: order [symmetric] claim_row_def\<close>)
qed

theorem claim_next_correct_witness:
  "case claim_next 10 ''w1'' sample_queue of
      (db', None) \<Rightarrow> False
    | (db', Some item) \<Rightarrow> qi_run_id item = ''b'' \<and> get_item ''b'' db' = Some item \<and>
        get_item ''a'' db' = get_item ''a'' sample_queue"
  using claim_next_correct [OF sample_queue_reachable, of 10 "''w1''"] sample_claim
  by (cases "claim_next 10 ''w1'' sample_queue") auto

text \<open>C3 (single owner). A run claimed by a worker stays running in that worker's hands, and no
  claim returns it to anybody, through every sequence of operations in which nobody else writes the
  run (enqueues, finishes, or sends a heartbeat for it) and all claims and stale recoveries come at
  most one stale window after the claim.\<close>

theorem claimed_run_not_reclaimed:
  assumes "queue_reachable stale db"
    and "snd (claim_next t w db) = Some item"
    and "\<forall>op \<in> set ops. leaves_alone (qi_run_id item) w t (q_stale_after db) op"
    and "now \<le> t + stale_window db"
  shows "held_by (qi_run_id item) w t (queue_run ops (fst (claim_next t w db)))
    \<and> claimed_run (Op_Claim now v) (queue_run ops (fst (claim_next t w db))) \<noteq> Some (qi_run_id item)"
proof -
  let ?db1 = "fst (claim_next t w db)" and ?i = "qi_run_id item"
  have inv: "queue_inv db" using assms(1) by (rule reachable_inv)
  have inv1: "queue_inv ?db1" using queue_inv_exec [OF inv, of "Op_Claim t w"] by simp
  have stale: "q_stale_after ?db1 = q_stale_after db"
    using q_stale_after_exec [of "Op_Claim t w" db] by simp
  have "stale_window (queue_run ops d) = stale_window d" for d
    by (induction ops arbitrary: d) simp_all
  then have window: "stale_window (queue_run ops ?db1) = stale_window db"
    using stale by (simp add: stale_window_def)
  have held: "held_by ?i w t (queue_run ops ?db1)"
    using held_run [OF inv1 claim_holds [OF queue_invD(1) [OF inv] assms(2)]] assms(3) stale by simp
  moreover have "claimed_run (Op_Claim now v) (queue_run ops ?db1) \<noteq> Some ?i"
    by (rule held_not_claimed [OF queue_invD(1) [OF queue_inv_run [OF inv1]] held])
      (use assms(4) window in simp)
  ultimately show ?thesis by blast
qed

theorem claimed_run_not_reclaimed_witness:
  "claimed_run (Op_Claim 25000000 ''w3'')
     (queue_run [Op_Claim 20 ''w2'', Op_Requeue 21 21 21 21 21 None, Op_Completed 22 ''a'']
       (fst (claim_next 10 ''w1'' sample_queue))) \<noteq> Some ''b''"
  using claimed_run_not_reclaimed [OF sample_queue_reachable sample_claim,
      of "[Op_Claim 20 ''w2'', Op_Requeue 21 21 21 21 21 None, Op_Completed 22 ''a'']"
        25000000 "''w3''"]
  by (simp add: sample_queue_def stale_window_def seconds_def int_or_def new_queue_def
      migrate_legacy_worker_heartbeats_def enqueue_def Let_def del: claimed_run.simps)

text \<open>C9 (completed is final, attempts count claims). Through every sequence of operations a row is
  never deleted, its creation time stays, its counter of attempts grows by exactly the number of
  claims that returned it, and once completed it stays completed with the same start time.\<close>

theorem row_history:
  assumes "queue_reachable stale db" and "get_item i db = Some r"
  shows "\<exists>r'. get_item i (queue_run ops db) = Some r' \<and>
    qi_attempts r' = qi_attempts r + int (claims i ops db) \<and>
    qi_created_at r' = qi_created_at r \<and>
    (qi_status r = Completed \<longrightarrow> qi_status r' = Completed \<and> qi_started_at r' = qi_started_at r)"
  using run_row [OF reachable_inv [OF assms(1)] assms(2), of ops]
  by (auto simp: row_later_def)

theorem row_history_witness:
  "\<exists>r'. get_item ''b'' (queue_run [Op_Claim 10 ''w1'', Op_Completed 12 ''b'', Op_Failed 13 ''b'' ''late'']
      sample_queue) = Some r' \<and> qi_attempts r' = 1"
proof -
  have row: "get_item ''b'' sample_queue = Some (new_item 5 ''b'' 9 5)"
    by code_simp
  have count: "claims ''b'' [Op_Claim 10 ''w1'', Op_Completed 12 ''b'', Op_Failed 13 ''b'' ''late'']
      sample_queue = 1"
    by code_simp
  show ?thesis
    using row_history [OF sample_queue_reachable row,
        of "[Op_Claim 10 ''w1'', Op_Completed 12 ''b'', Op_Failed 13 ''b'' ''late'']"] count
    by (auto simp: new_item_def)
qed

text \<open>C4 (stale recovery). \<open>requeue_stale\<close> puts back exactly the running rows whose lock is older
  than the timeout: it reports their ids once each, in the order of their locks, makes each
  pending, unlocked and available at once, deletes its lease, and leaves every other row and
  every other lease as it was.\<close>

theorem requeue_stale_exact:
  assumes "queue_reachable stale db"
  shows "(let cutoff = now - seconds (stale_timeout s db);
            hit = (\<lambda>i. case get_item i db of None \<Rightarrow> False | Some r \<Rightarrow> stale_job cutoff r)
        in case requeue_stale now t1 t2 t3 t4 s db of
          (db', res) \<Rightarrow>
            set (rq_requeued_runs res) = {i. hit i} \<and> distinct (rq_requeued_runs res) \<and>
            (\<forall>i. get_item i db' = (if hit i then map_option (requeued_row now) (get_item i db)
                                   else get_item i db)) \<and>
            (\<forall>i. get_lease i db' = (if hit i then None else get_lease i db)))"
proof -
  let ?cutoff = "now - seconds (stale_timeout s db)"
  let ?hit = "\<lambda>i. case get_item i db of None \<Rightarrow> False | Some r \<Rightarrow> stale_job ?cutoff r"
  let ?res = "snd (requeue_stale now t1 t2 t3 t4 s db)" and ?db = "fst (requeue_stale now t1 t2 t3 t4 s db)"
  have keys: "queue_keys db" using reachable_inv [OF assms] by (rule queue_invD)
  have ids: "{qi_run_id r | r. r \<in> set (q_rows db) \<and> stale_job ?cutoff r} = {i. ?hit i}"
    using keys get_item_row get_item_id
    by (auto simp: queue_keys_def get_item_def row_of_in split: option.splits dest: row_of_Some)
  have "distinct (rq_requeued_runs ?res)"
    by (rule requeued_distinct [OF keys])
  moreover have "get_item i ?db = (if ?hit i then map_option (requeued_row now) (get_item i db)
      else get_item i db)" for i
    by (cases "get_item i db") (simp_all add: requeue_stale_parts(2))
  moreover have "get_lease i ?db = (if ?hit i then None else get_lease i db)" for i
    by (simp only: requeue_stale_parts(3) ids mem_Collect_eq)
  moreover have "set (rq_requeued_runs ?res) = {i. ?hit i}"
    by (simp only: requeue_stale_parts(1) ids)
  ultimately show ?thesis
    by (cases "requeue_stale now t1 t2 t3 t4 s db") (simp add: Let_def)
qed

theorem requeue_stale_exact_witness:
  "set (rq_requeued_runs (snd (requeue_stale 40000000 40000000 40000000 40000000 40000000 None
      (fst (claim_next 10 ''w1'' sample_queue))))) =
     {i. case get_item i (fst (claim_next 10 ''w1'' sample_queue)) of None \<Rightarrow> False
         | Some r \<Rightarrow> stale_job 10000000 r}"
proof -
  have reach: "queue_reachable 30 (fst (claim_next 10 ''w1'' sample_queue))"
    using queue_reachable.step [OF sample_queue_reachable, of "Op_Claim 10 ''w1''"] by simp
  have "stale_timeout None (fst (claim_next 10 ''w1'' sample_queue)) = 30" by code_simp
  then show ?thesis
    using requeue_stale_exact [OF reach, of 40000000 None 40000000 40000000 40000000 40000000]
    by (simp add: Let_def seconds_def split: prod.splits)
qed

text \<open>Remark (a run enqueued while it runs). Enqueueing a run that is running keeps its status and the
  lease of its worker but clears the lock of the row: from then on, whatever the clock says, no
  claim takes the row and no stale recovery finds it, although its worker may be gone.\<close>

theorem enqueue_running_orphans:
  assumes "get_item i db = Some r" and "qi_status r = Running"
  shows "\<exists>r'. get_item i (fst (enqueue now i p t db)) = Some r' \<and>
    qi_status r' = Running \<and> qi_locked_by r' = None \<and>
    get_lease i (fst (enqueue now i p t db)) = get_lease i db \<and>
    (\<forall>later d. \<not> claimable later d r') \<and> (\<forall>cutoff. \<not> stale_job cutoff r')"
  using assms
  by (simp add: queue_view enqueue_conflict_def claimable_def stale_job_def)

theorem enqueue_running_orphans_witness:
  "\<exists>r'. get_item ''b'' (fst (enqueue 11 ''b'' 0 None (fst (claim_next 10 ''w1'' sample_queue)))) = Some r'
    \<and> (\<forall>cutoff. \<not> stale_job cutoff r')"
proof -
  have "map_option qi_status (get_item ''b'' (fst (claim_next 10 ''w1'' sample_queue))) = Some Running"
    by code_simp
  then obtain r where "get_item ''b'' (fst (claim_next 10 ''w1'' sample_queue)) = Some r"
    "qi_status r = Running" by auto
  from enqueue_running_orphans [OF this, of 11 0 None] show ?thesis by blast
qed

text \<open>Remark (a late heartbeat takes the lease back). A heartbeat names no lease it holds: a worker that
  reports a run it lost to stale recovery becomes the owner in the row and in the lease again, even
  when another worker has claimed the run since.\<close>

theorem heartbeat_takes_lease:
  assumes "get_item i db = Some r" and "qi_status r = Running"
  shows "held_by i w now (heartbeat now now' w st (Some i) p c m db) \<and>
    map_option rl_worker_id (get_lease i (heartbeat now now' w st (Some i) p c m db)) = Some w"
  using assms by (simp add: held_by_def queue_view lock_row_def)

theorem heartbeat_takes_lease_witness:
  "held_by ''b'' ''w1'' 60000000 (heartbeat 60000000 60000000 ''w1'' ''busy'' (Some ''b'') [] None None
     (queue_run [Op_Claim 10 ''w1'', Op_Claim 50000000 ''w2''] sample_queue))"
proof -
  have "map_option (\<lambda>r. (qi_status r, qi_locked_by r))
      (get_item ''b'' (queue_run [Op_Claim 10 ''w1'', Op_Claim 50000000 ''w2''] sample_queue)) =
    Some (Running, Some ''w2'')"
    by code_simp
  then obtain r where "get_item ''b'' (queue_run [Op_Claim 10 ''w1'', Op_Claim 50000000 ''w2'']
      sample_queue) = Some r" "qi_status r = Running" by auto
  from heartbeat_takes_lease [OF this] show ?thesis by blast
qed

text \<open>Remark (cancel of a running run). \<open>cancel_pending\<close> reports \<open>False\<close> for a run that is running and
  leaves its row unchanged, but deletes the lease of the worker that holds it.\<close>

theorem cancel_pending_drops_lease:
  assumes "queue_reachable stale db" and "get_item i db = Some r" and "qi_status r = Running"
  shows "snd (cancel_pending now i db) = False \<and>
    get_item i (fst (cancel_pending now i db)) = Some r \<and>
    get_lease i (fst (cancel_pending now i db)) = None"
proof -
  have "queue_keys db" using reachable_inv [OF assms(1)] by (rule queue_invD)
  then have "r' \<in> set (q_rows db) \<Longrightarrow> qi_run_id r' = i \<Longrightarrow> r' = r" for r'
    using assms(2) row_of_in [of qi_run_id "q_rows db" r']
    by (auto simp: get_item_def queue_keys_def)
  with assms(2,3) show ?thesis
    by (auto simp: queue_view) (auto simp: cancel_pending_def Let_def filter_empty_conv)
qed

theorem cancel_pending_drops_lease_witness:
  "snd (cancel_pending 11 ''b'' (queue_exec (Op_Claim 10 ''w1'') sample_queue)) = False"
proof -
  have "map_option qi_status (get_item ''b'' (queue_exec (Op_Claim 10 ''w1'') sample_queue)) = Some Running"
    by code_simp
  then obtain r where "get_item ''b'' (queue_exec (Op_Claim 10 ''w1'') sample_queue) = Some r"
    "qi_status r = Running" by auto
  from cancel_pending_drops_lease [OF queue_reachable.step [OF sample_queue_reachable] this, of 11]
  show ?thesis by blast
qed

end
