(* ===== verification/Run_Store.thy ===== *)
theory Run_Store
  imports Run_Types
begin

text \<open>
  The storage contract, \<open>sim/api/storage/base.py\<close>: the records every backend returns, the operations
  of the \<open>RunStore\<close> protocol as a record of functions over a backend state, and the laws the services
  rely on as the locale \<open>run_store\<close>. The theories \<open>Memory_Store\<close> and \<open>Sqlite_Store\<close> interpret it.
\<close>

section \<open>Records\<close>

(* sim/api/storage/base.py:13-30 RunRecord *)
record run_record =
  rr_run_id :: string
  rr_run_type :: run_type
  rr_status :: run_status
  rr_created_at :: instant
  rr_started_at :: "instant option"
  rr_completed_at :: "instant option"
  rr_config :: pydict
  rr_report :: pydict
  rr_events :: "pydict list"
  rr_snapshots :: "pydict list"
  rr_accounts :: "pydict list"
  rr_logs :: "pydict list"
  rr_error :: "string option"
  rr_verification :: pydict

(* sim/api/storage/base.py:39-51 TournamentRecord *)
record tournament_record =
  tr_tournament_id :: string
  tr_tournament_type :: string
  tr_status :: run_status
  tr_created_at :: instant
  tr_started_at :: "instant option"
  tr_completed_at :: "instant option"
  tr_config :: pydict
  tr_report :: pydict
  tr_error :: "string option"

text \<open>The dictionary that links a tournament to one of its runs.\<close>

record tournament_child =
  tc_tournament_id :: string
  tc_child_run_id :: string
  tc_child_key :: string
  tc_run_type :: run_type
  tc_dimensions :: pydict

text \<open>A record as \<open>create_run\<close> and \<open>create_tournament\<close> make it.\<close>

definition new_run :: "instant \<Rightarrow> string \<Rightarrow> run_type \<Rightarrow> pydict \<Rightarrow> run_record" where
  "new_run now run_id run_type config =
     \<lparr>rr_run_id = run_id, rr_run_type = run_type, rr_status = Pending, rr_created_at = now,
      rr_started_at = None, rr_completed_at = None, rr_config = config, rr_report = [],
      rr_events = [], rr_snapshots = [], rr_accounts = [], rr_logs = [], rr_error = None,
      rr_verification = []\<rparr>"

definition new_tournament :: "instant \<Rightarrow> string \<Rightarrow> string \<Rightarrow> pydict \<Rightarrow> tournament_record" where
  "new_tournament now tournament_id tournament_type config =
     \<lparr>tr_tournament_id = tournament_id, tr_tournament_type = tournament_type, tr_status = Pending,
      tr_created_at = now, tr_started_at = None, tr_completed_at = None, tr_config = config,
      tr_report = [], tr_error = None\<rparr>"

text \<open>\<open>if x is not None: record.f = x\<close>.\<close>

definition assign :: "'a option \<Rightarrow> 'a \<Rightarrow> 'a" where
  "assign x old = (case x of None \<Rightarrow> old | Some v \<Rightarrow> v)"

lemma assign_simps [simp]: "assign None old = old" "assign (Some v) old = v"
  by (simp_all add: assign_def)

definition apply_update ::
  "run_status option \<Rightarrow> instant option \<Rightarrow> instant option \<Rightarrow> string option \<Rightarrow> run_record \<Rightarrow> run_record" where
  "apply_update status started_at completed_at error r =
     r\<lparr>rr_status := assign status (rr_status r),
       rr_started_at := or_else started_at (rr_started_at r),
       rr_completed_at := or_else completed_at (rr_completed_at r),
       rr_error := or_else error (rr_error r)\<rparr>"

lemma apply_update_sel [simp]:
  "rr_run_id (apply_update st sa ca err r) = rr_run_id r"
  "rr_run_type (apply_update st sa ca err r) = rr_run_type r"
  "rr_status (apply_update st sa ca err r) = assign st (rr_status r)"
  "rr_error (apply_update st sa ca err r) = or_else err (rr_error r)"
  "rr_config (apply_update st sa ca err r) = rr_config r"
  "rr_events (apply_update st sa ca err r) = rr_events r"
  "rr_snapshots (apply_update st sa ca err r) = rr_snapshots r"
  "rr_accounts (apply_update st sa ca err r) = rr_accounts r"
  "rr_logs (apply_update st sa ca err r) = rr_logs r"
  "rr_report (apply_update st sa ca err r) = rr_report r"
  "rr_created_at (apply_update st sa ca err r) = rr_created_at r"
  "rr_verification (apply_update st sa ca err r) = rr_verification r"
  "rr_started_at (apply_update st sa ca err r) = or_else sa (rr_started_at r)"
  "rr_completed_at (apply_update st sa ca err r) = or_else ca (rr_completed_at r)"
  by (simp_all add: apply_update_def)

definition apply_tournament_update ::
  "run_status option \<Rightarrow> instant option \<Rightarrow> instant option \<Rightarrow> pydict option \<Rightarrow> string option
   \<Rightarrow> tournament_record \<Rightarrow> tournament_record" where
  "apply_tournament_update status started_at completed_at report error r =
     r\<lparr>tr_status := assign status (tr_status r),
       tr_started_at := or_else started_at (tr_started_at r),
       tr_completed_at := or_else completed_at (tr_completed_at r),
       tr_report := assign report (tr_report r),
       tr_error := or_else error (tr_error r)\<rparr>"

section \<open>The protocol\<close>

text \<open>
  The operations a service calls on \<open>self._store\<close>. A creation takes the clock reading and the
  generated id.
\<close>

(* sim/api/storage/base.py:54-182 RunStore *)
record 's store_ops =
  so_create_run :: "instant \<Rightarrow> string \<Rightarrow> run_type \<Rightarrow> pydict \<Rightarrow> 's \<Rightarrow> 's \<times> run_record result"
  so_update_run :: "string \<Rightarrow> run_status option \<Rightarrow> instant option \<Rightarrow> instant option
    \<Rightarrow> string option \<Rightarrow> 's \<Rightarrow> 's \<times> run_record option"
  so_get_run :: "string \<Rightarrow> 's \<Rightarrow> run_record option"
  so_list_runs :: "'s \<Rightarrow> run_record list"
  so_delete_run :: "string \<Rightarrow> 's \<Rightarrow> 's \<times> bool"
  so_store_result :: "string \<Rightarrow> pydict \<Rightarrow> pydict list \<Rightarrow> pydict list \<Rightarrow> pydict list
    \<Rightarrow> pydict list option \<Rightarrow> 's \<Rightarrow> 's \<times> run_record option"
  so_get_report :: "string \<Rightarrow> 's \<Rightarrow> pydict option"
  so_get_events :: "string \<Rightarrow> string option \<Rightarrow> string option \<Rightarrow> int option \<Rightarrow> int \<Rightarrow> 's
    \<Rightarrow> pydict list option"
  so_get_snapshots :: "string \<Rightarrow> string option \<Rightarrow> int option \<Rightarrow> int \<Rightarrow> 's \<Rightarrow> pydict list option"
  so_get_accounts :: "string \<Rightarrow> string option \<Rightarrow> string option \<Rightarrow> int option \<Rightarrow> int \<Rightarrow> 's
    \<Rightarrow> pydict list option"
  so_get_logs :: "string \<Rightarrow> int option \<Rightarrow> int \<Rightarrow> 's \<Rightarrow> pydict list option"
  so_append_log :: "string \<Rightarrow> pydict \<Rightarrow> 's \<Rightarrow> 's \<times> bool"
  so_store_verification :: "string \<Rightarrow> pydict \<Rightarrow> 's \<Rightarrow> 's \<times> pydict option"
  so_get_verification :: "string \<Rightarrow> 's \<Rightarrow> pydict option"
  so_create_tournament :: "instant \<Rightarrow> string \<Rightarrow> string \<Rightarrow> pydict \<Rightarrow> 's \<Rightarrow> 's \<times> tournament_record result"
  so_update_tournament :: "string \<Rightarrow> run_status option \<Rightarrow> instant option \<Rightarrow> instant option
    \<Rightarrow> pydict option \<Rightarrow> string option \<Rightarrow> 's \<Rightarrow> 's \<times> tournament_record option"
  so_get_tournament :: "string \<Rightarrow> 's \<Rightarrow> tournament_record option"
  so_list_tournaments :: "'s \<Rightarrow> tournament_record list"
  so_link_child :: "string \<Rightarrow> string \<Rightarrow> string \<Rightarrow> run_type \<Rightarrow> pydict \<Rightarrow> 's \<Rightarrow> 's \<times> unit result"
  so_list_children :: "string \<Rightarrow> 's \<Rightarrow> tournament_child list option"

section \<open>The laws\<close>

text \<open>
  What a backend promises, in terms of \<open>get_run\<close>. \<open>ok\<close> is the backend's own invariant, \<open>canon\<close> what
  storing a dictionary turns it into, \<open>arrange\<close> the order in which it returns snapshots.
\<close>

locale run_store =
  fixes ops :: "'s store_ops"
    and ok :: "'s \<Rightarrow> bool"
    and canon :: "pydict \<Rightarrow> pydict"
    and arrange :: "pydict list \<Rightarrow> pydict list"
  assumes create_run: "ok s \<Longrightarrow> so_get_run ops run_id s = None \<Longrightarrow>
      (case so_create_run ops now run_id run_type config s of
         (s', res) \<Rightarrow> ok s' \<and> res = Inr (new_run now run_id run_type config) \<and>
           (\<forall>i. so_get_run ops i s' =
              (if i = run_id then Some (new_run now run_id run_type (canon config))
               else so_get_run ops i s)))"
    and update_run: "ok s \<Longrightarrow>
      (case so_update_run ops run_id st sa ca err s of
         (s', res) \<Rightarrow> ok s' \<and> res = so_get_run ops run_id s' \<and>
           (\<forall>i. so_get_run ops i s' =
              (if i = run_id then map_option (apply_update st sa ca err) (so_get_run ops i s)
               else so_get_run ops i s)))"
    and store_result: "ok s \<Longrightarrow>
      (case so_store_result ops run_id report events snapshots accounts logs s of
         (s', res) \<Rightarrow> ok s' \<and> res = so_get_run ops run_id s' \<and>
           (\<forall>i. so_get_run ops i s' =
              (if i = run_id
               then map_option (\<lambda>r. r\<lparr>rr_report := canon report, rr_events := map canon events,
                      rr_snapshots := map canon (arrange snapshots),
                      rr_accounts := map canon accounts,
                      rr_logs := (case logs of None \<Rightarrow> rr_logs r | Some ls \<Rightarrow> map canon ls)\<rparr>)
                    (so_get_run ops i s)
               else so_get_run ops i s)))"
    and append_log: "ok s \<Longrightarrow>
      (case so_append_log ops run_id entry s of
         (s', res) \<Rightarrow> ok s' \<and> res = (so_get_run ops run_id s \<noteq> None) \<and>
           (\<forall>i. so_get_run ops i s' =
              (if i = run_id then map_option (\<lambda>r. r\<lparr>rr_logs := rr_logs r @ [canon entry]\<rparr>)
                 (so_get_run ops i s)
               else so_get_run ops i s)))"
    and store_verification: "ok s \<Longrightarrow>
      (case so_store_verification ops run_id report s of
         (s', res) \<Rightarrow> ok s' \<and> res = map_option rr_verification (so_get_run ops run_id s') \<and>
           (\<forall>i. so_get_run ops i s' =
              (if i = run_id then map_option (\<lambda>r. r\<lparr>rr_verification := canon report\<rparr>)
                 (so_get_run ops i s)
               else so_get_run ops i s)))"
    and delete_run: "ok s \<Longrightarrow>
      (case so_delete_run ops run_id s of
         (s', res) \<Rightarrow> ok s' \<and> res = (so_get_run ops run_id s \<noteq> None) \<and>
           (\<forall>i. so_get_run ops i s' = (if i = run_id then None else so_get_run ops i s)))"
    and list_runs: "ok s \<Longrightarrow> set (so_list_runs ops s) = {r. \<exists>i. so_get_run ops i s = Some r} \<and>
      distinct (map rr_run_id (so_list_runs ops s))"
    and get_report: "ok s \<Longrightarrow> so_get_report ops i s = map_option rr_report (so_get_run ops i s)"
    and get_events: "ok s \<Longrightarrow> so_get_events ops i None None None 0 s =
      map_option rr_events (so_get_run ops i s)"
    and get_snapshots: "ok s \<Longrightarrow> so_get_snapshots ops i None None 0 s =
      map_option rr_snapshots (so_get_run ops i s)"
    and get_accounts: "ok s \<Longrightarrow> so_get_accounts ops i None None None 0 s =
      map_option rr_accounts (so_get_run ops i s)"
    and get_logs: "ok s \<Longrightarrow> so_get_logs ops i lmt off s =
      map_option (slice_from off lmt \<circ> rr_logs) (so_get_run ops i s)"
    and get_verification: "ok s \<Longrightarrow> so_get_verification ops i s =
      map_option rr_verification (so_get_run ops i s)"
    and get_run_id: "ok s \<Longrightarrow> so_get_run ops i s = Some r \<Longrightarrow> rr_run_id r = i"
    and canon_idem: "canon (canon d) = canon d"
    and length_arrange: "length (arrange ds) = length ds"

end
