(* ===== verification/Py_Text.thy ===== *)
theory Py_Text
  imports Py_Value
begin

text \<open>
  \<open>str()\<close> and \<open>repr()\<close> of Python values: the shortest decimal that reads back as the float, string
  literals with Python's choice of quote and escapes, and the text of containers.
\<close>

section \<open>Floats\<close>

text \<open>
  The position of the decimal point: \<open>k\<close> with \<open>10 ^ (k - 1) \<le> n / d < 10 ^ k\<close>. The quotients of
  binary64 values need at most 324 steps below one.
\<close>

fun below_one :: "nat \<Rightarrow> nat \<Rightarrow> nat \<Rightarrow> int" where
  "below_one 0 n d = 0"
| "below_one (Suc fuel) n d = (if d \<le> 10 * n then 0 else below_one fuel (10 * n) d - 1)"

definition decimal_point :: "nat \<Rightarrow> nat \<Rightarrow> int" where
  "decimal_point n d =
     (if d \<le> n then int (length (nat_digits (n div d))) else below_one 400 n d)"

text \<open>The multiple of \<open>10 ^ (k - p)\<close> nearest to \<open>n / d\<close>, and whether it reads back as \<open>x\<close>.\<close>

definition decimal_digits :: "nat \<Rightarrow> nat \<Rightarrow> int \<Rightarrow> nat \<Rightarrow> nat" where
  "decimal_digits n d k p =
     (if k \<le> int p then nat (round_div (int n * 10 ^ nat (int p - k)) (int d))
      else nat (round_div (int n) (int d * 10 ^ nat (k - int p))))"

definition reads_back :: "pyfloat \<Rightarrow> int \<Rightarrow> nat \<Rightarrow> nat \<Rightarrow> bool" where
  "reads_back x k p c \<longleftrightarrow>
     (if int p \<le> k then round_quot (int c * 10 ^ nat (k - int p)) 1 0
      else round_quot (int c) (10 ^ nat (int p - k)) 0) = x"

text \<open>The shortest digits, at most 17 of them, with the position of the point.\<close>

definition shortest_digits :: "pyfloat \<Rightarrow> nat \<Rightarrow> nat \<Rightarrow> nat \<times> int \<times> nat" where
  "shortest_digits x n d =
     (let k = decimal_point n d;
          tries = map (\<lambda>p. (p, decimal_digits n d k p)) [1..<18];
          (p, c) = (case find (\<lambda>(p, c). reads_back x k p c) tries of None \<Rightarrow> last tries | Some t \<Rightarrow> t)
      in if c = 10 ^ p then (1, k + 1, 1) else (c, k, p))"

definition exponent_text :: "int \<Rightarrow> string" where
  "exponent_text e =
     (if e < 0 then ''-'' else ''+'') @ (if \<bar>e\<bar> < 10 then ''0'' else []) @ nat_str (nat \<bar>e\<bar>)"

definition digits_text :: "nat \<Rightarrow> int \<Rightarrow> nat \<Rightarrow> string" where
  "digits_text c k p =
     (let ds = nat_str c in
      if k \<le> -4 \<or> 16 < k then
        take 1 ds @ (if p = 1 then [] else ''.'' @ drop 1 ds) @ ''e'' @ exponent_text (k - 1)
      else if k \<le> 0 then ''0.'' @ replicate (nat (- k)) (CHR ''0'') @ ds
      else if int p \<le> k then ds @ replicate (nat (k - int p)) (CHR ''0'') @ ''.0''
      else take (nat k) ds @ ''.'' @ drop (nat k) ds)"

fun float_repr :: "pyfloat \<Rightarrow> string" where
  "float_repr NaN = ''nan''"
| "float_repr PInf = ''inf''"
| "float_repr MInf = ''-inf''"
| "float_repr (Fin m e) =
     (if m = 0 then ''0.0''
      else let n = nat \<bar>m\<bar> * 2 ^ nat e; d = 2 ^ nat (- e);
               (c, k, p) = shortest_digits (Fin \<bar>m\<bar> e) n d
           in (if m < 0 then ''-'' else []) @ digits_text c k p)"

section \<open>Values\<close>

fun py_repr :: "pyval \<Rightarrow> string" where
  "py_repr PNone = ''None''"
| "py_repr (PBool b) = (if b then ''True'' else ''False'')"
| "py_repr (PInt i) = int_str i"
| "py_repr (PFloat f) = float_repr f"
| "py_repr (PStr s) = string_repr s"
| "py_repr (PList xs) = ''['' @ join '', '' (map py_repr xs) @ '']''"
| "py_repr (PTuple xs) =
     ''('' @ join '', '' (map py_repr xs) @ (if length xs = 1 then '',)'' else '')'')"
| "py_repr (PDict d) =
     ''{'' @ join '', '' (map (\<lambda>(k, v). string_repr k @ '': '' @ py_repr v) d) @ ''}''"

fun py_str :: "pyval \<Rightarrow> string" where
  "py_str (PStr s) = s"
| "py_str v = py_repr v"

text \<open>Floats as Python prints them.\<close>

lemma float_repr_half: "float_repr (Fin 201 (- 1)) = ''100.5''"
  by (simp add: float_eval shortest_digits_def decimal_point_def decimal_digits_def reads_back_def
      digits_text_def nat_str_def nat_digits.simps digit_char_def upt_rec) code_simp

end
