(* ===== verification/Float_Order.thy ===== *)
theory Float_Order
  imports Complex_Main Py_Float
begin

text \<open>
  The order of floats: on values other than NaN the comparison \<open>float_lt\<close> is the order of the real
  numbers they denote, extended by the two infinities. Rounding keeps the sign of the operations.
\<close>

fun float_key :: "pyfloat \<Rightarrow> int \<times> real" where
  "float_key (Fin m e) = (0, of_int m * 2 powr of_int e)"
| "float_key PInf = (1, 0)"
| "float_key MInf = (- 1, 0)"
| "float_key NaN = (0, 0)"

definition key_less :: "int \<times> real \<Rightarrow> int \<times> real \<Rightarrow> bool" where
  "key_less a b \<longleftrightarrow> fst a < fst b \<or> (fst a = fst b \<and> snd a < snd b)"

lemma scaled_powr: "e \<le> e' \<Longrightarrow> of_int (m * 2 ^ nat (e' - e)) * 2 powr of_int e = of_int m * (2::real) powr of_int e'"
proof -
  assume le: "e \<le> e'"
  have "(2::real) ^ nat (e' - e) = 2 powr of_int (e' - e)"
    using le by (simp add: powr_realpow [symmetric])
  then have "(2::real) ^ nat (e' - e) * 2 powr of_int e = 2 powr of_int e'"
    by (simp only: powr_add [symmetric]) simp
  then show ?thesis by simp
qed

lemma float_lt_Fin: "float_lt (Fin m1 e1) (Fin m2 e2) \<longleftrightarrow>
    of_int m1 * (2::real) powr of_int e1 < of_int m2 * 2 powr of_int e2"
proof -
  define e where "e = min e1 e2"
  have e: "e \<le> e1" "e \<le> e2" by (simp_all add: e_def)
  have "of_int m1 * (2::real) powr of_int e1 < of_int m2 * 2 powr of_int e2 \<longleftrightarrow>
      of_int (m1 * 2 ^ nat (e1 - e)) * (2::real) powr of_int e < of_int (m2 * 2 ^ nat (e2 - e)) * 2 powr of_int e"
    by (simp only: scaled_powr [OF e(1)] scaled_powr [OF e(2)])
  also have "\<dots> \<longleftrightarrow> m1 * 2 ^ nat (e1 - e) < m2 * 2 ^ nat (e2 - e)"
    by (simp only: mult_less_cancel_right_pos powr_gt_zero of_int_less_iff)
  finally show ?thesis by (simp add: e_def Let_def)
qed

lemma float_lt_key: "float_lt a b \<longleftrightarrow> a \<noteq> NaN \<and> b \<noteq> NaN \<and> key_less (float_key a) (float_key b)"
  by (cases a; cases b) (simp_all add: key_less_def float_lt_Fin del: float_lt.simps(1))

lemma key_less_trans: "key_less a b \<Longrightarrow> key_less b c \<Longrightarrow> key_less a c"
  by (auto simp: key_less_def)

lemma key_less_irrefl: "\<not> key_less a a"
  by (auto simp: key_less_def)

lemma key_not_less_trans: "\<not> key_less a b \<Longrightarrow> \<not> key_less b c \<Longrightarrow> \<not> key_less a c"
  by (auto simp: key_less_def)

lemma float_lt_trans: "float_lt a b \<Longrightarrow> float_lt b c \<Longrightarrow> float_lt a c"
  by (auto simp: float_lt_key intro: key_less_trans)

lemma float_lt_irrefl: "\<not> float_lt a a"
  by (simp add: float_lt_key key_less_irrefl)

lemma float_key_abs: "t \<noteq> NaN \<Longrightarrow> \<not> key_less (float_key (float_abs t)) (0, 0)"
  by (cases t) (auto simp: key_less_def mult_less_0_iff)

lemma float_key_neg: "float_key (float_neg t) = (- fst (float_key t), - snd (float_key t))"
  by (cases t) auto

text \<open>No value is below minus a threshold and above the threshold.\<close>

lemma float_abs_NaN [simp]: "float_abs t = NaN \<longleftrightarrow> t = NaN"
  by (cases t) auto

lemma not_both_sides: "\<not> (float_lt p (float_neg (float_abs t)) \<and> float_lt (float_abs t) p)"
proof
  assume a: "float_lt p (float_neg (float_abs t)) \<and> float_lt (float_abs t) p"
  then have lt: "float_lt (float_abs t) (float_neg (float_abs t))"
    using float_lt_trans by blast
  then have "t \<noteq> NaN" by (auto simp: float_lt_key)
  from float_key_abs [OF this] lt show False
    by (auto simp: float_lt_key float_key_neg key_less_def)
qed

lemma zero_not_outside:
  "\<not> float_lt float_zero (float_neg (float_abs t))" "\<not> float_lt (float_abs t) float_zero"
proof -
  show "\<not> float_lt float_zero (float_neg (float_abs t))"
    using float_key_abs [of t]
    by (cases "t = NaN") (auto simp: float_lt_key float_key_neg float_zero_def key_less_def)
  show "\<not> float_lt (float_abs t) float_zero"
    using float_key_abs [of t] by (cases "t = NaN") (auto simp: float_lt_key float_zero_def)
qed

section \<open>Signs\<close>

text \<open>The rules on comparisons with zero are rewrite rules of this section only.\<close>

lemma lt_zero_Fin [simp]:
  "float_lt (Fin m e) float_zero \<longleftrightarrow> m < 0" "float_lt float_zero (Fin m e) \<longleftrightarrow> 0 < m"
  by (simp_all add: float_lt_key key_less_def float_zero_def mult_less_0_iff zero_less_mult_iff)

lemma lt_zero_inf [simp]:
  "float_lt MInf float_zero" "\<not> float_lt PInf float_zero" "float_lt float_zero PInf" "\<not> float_lt float_zero MInf"
  "\<not> float_lt NaN x" "\<not> float_lt x NaN"
  by (auto simp: float_lt_key key_less_def float_zero_def)

lemma canon_sign:
  "(float_lt (canon m e) float_zero \<longleftrightarrow> m < 0) \<and> (float_lt float_zero (canon m e) \<longleftrightarrow> 0 < m)"
proof (induction m e rule: canon.induct)
  case (1 m e)
  show ?case
  proof (cases "m \<noteq> 0 \<and> even m")
    case True
    then obtain k where k: "m = 2 * k" by (auto elim: evenE)
    with True 1 show ?thesis by (subst (1 2) canon.simps) auto
  next
    case False
    then show ?thesis by (subst (1 2) canon.simps) auto
  qed
qed

lemma round_div_nonneg: "0 \<le> n \<Longrightarrow> 0 < d \<Longrightarrow> 0 \<le> round_div n d"
  by (simp add: round_div_def Let_def pos_imp_zdiv_nonneg_iff)

text \<open>Rounding does not change the sign, though it may lose it.\<close>

lemma round_quot_sign:
  assumes "0 < d"
  shows "float_lt (round_quot n d x) float_zero \<Longrightarrow> n < 0" "float_lt float_zero (round_quot n d x) \<Longrightarrow> 0 < n"
proof -
  define u where "u = ulp_exp n d x"
  define q where "q = (if u \<le> x then round_div (\<bar>n\<bar> * 2 ^ nat (x - u)) d else round_div \<bar>n\<bar> (d * 2 ^ nat (u - x)))"
  have q: "0 \<le> q" using assms by (simp add: q_def round_div_nonneg)
  have r: "round_quot n d x = (if n = 0 then Fin 0 0
      else if int (bit_len (nat q)) + u > 1024 then (if 0 < n then PInf else MInf) else canon (sgn n * q) u)"
    unfolding round_quot_def Let_def u_def q_def by simp
  have s: "n \<noteq> 0 \<Longrightarrow> sgn n * q < 0 \<Longrightarrow> n < 0" "n \<noteq> 0 \<Longrightarrow> 0 < sgn n * q \<Longrightarrow> 0 < n"
    using q by (cases "0 < n"; simp)+
  show "n < 0" if l: "float_lt (round_quot n d x) float_zero"
  proof (cases "n = 0 \<or> int (bit_len (nat q)) + u > 1024")
    case True
    then show ?thesis using l by (cases "0 < n"; cases "n = 0") (simp_all add: r)
  next
    case False
    then have "round_quot n d x = canon (sgn n * q) u" by (simp add: r)
    with l have "sgn n * q < 0" by (simp only: canon_sign)
    with s(1) False show ?thesis by blast
  qed
  show "0 < n" if l: "float_lt float_zero (round_quot n d x)"
  proof (cases "n = 0 \<or> int (bit_len (nat q)) + u > 1024")
    case True
    then show ?thesis using l by (cases "0 < n"; cases "n = 0") (simp_all add: r)
  next
    case False
    then have "round_quot n d x = canon (sgn n * q) u" by (simp add: r)
    with l have "0 < sgn n * q" by (simp only: canon_sign)
    with s(2) False show ?thesis by blast
  qed
qed

lemma sub_sign_Fin:
  "float_lt (float_sub (Fin m1 e1) (Fin m2 e2)) float_zero \<Longrightarrow> float_lt (Fin m1 e1) (Fin m2 e2)"
  "float_lt float_zero (float_sub (Fin m1 e1) (Fin m2 e2)) \<Longrightarrow> float_lt (Fin m2 e2) (Fin m1 e1)"
proof -
  define e where "e = min e1 e2"
  have sub: "float_sub (Fin m1 e1) (Fin m2 e2) = round_quot (m1 * 2 ^ nat (e1 - e) - m2 * 2 ^ nat (e2 - e)) 1 e"
    by (simp add: float_sub_def Let_def e_def)
  have lt: "float_lt (Fin m1 e1) (Fin m2 e2) \<longleftrightarrow> m1 * 2 ^ nat (e1 - e) < m2 * 2 ^ nat (e2 - e)"
    "float_lt (Fin m2 e2) (Fin m1 e1) \<longleftrightarrow> m2 * 2 ^ nat (e2 - e) < m1 * 2 ^ nat (e1 - e)"
    by (simp_all add: Let_def e_def min.commute)
  show "float_lt (float_sub (Fin m1 e1) (Fin m2 e2)) float_zero \<Longrightarrow> float_lt (Fin m1 e1) (Fin m2 e2)"
    "float_lt float_zero (float_sub (Fin m1 e1) (Fin m2 e2)) \<Longrightarrow> float_lt (Fin m2 e2) (Fin m1 e1)"
    unfolding sub lt by (drule round_quot_sign [rotated]; simp)+
qed

lemma sub_sign:
  "float_lt (float_sub a b) float_zero \<Longrightarrow> float_lt a b" "float_lt float_zero (float_sub a b) \<Longrightarrow> float_lt b a"
proof -
  have inf: "float_lt (float_sub a b) float_zero \<longrightarrow> float_lt a b" "float_lt float_zero (float_sub a b) \<longrightarrow> float_lt b a"
    if "\<not> is_finite a \<or> \<not> is_finite b"
    using that by (cases a; cases b; simp add: float_sub_def)+
  show "float_lt (float_sub a b) float_zero \<Longrightarrow> float_lt a b" "float_lt float_zero (float_sub a b) \<Longrightarrow> float_lt b a"
    using inf sub_sign_Fin by (cases a; cases b; metis is_finite.simps)+
qed

lemma div_sign:
  assumes "float_lt float_zero b" and "float_div a b = Inr q"
  shows "float_lt q float_zero \<Longrightarrow> float_lt a float_zero" "float_lt float_zero q \<Longrightarrow> float_lt float_zero a"
proof -
  have "(float_lt q float_zero \<longrightarrow> float_lt a float_zero) \<and> (float_lt float_zero q \<longrightarrow> float_lt float_zero a)"
  proof (cases "is_finite a \<and> is_finite b")
    case True
    then obtain m1 e1 m2 e2 where f: "a = Fin m1 e1" "b = Fin m2 e2" by (cases a; cases b) auto
    have pos: "0 < m2" using assms(1) f by simp
    then have "q = round_quot m1 m2 (e1 - e2)" using assms(2) f by auto
    then show ?thesis using round_quot_sign [OF pos, of m1 "e1 - e2"] f by auto
  next
    case False
    then show ?thesis using assms by (cases a; cases b) (auto split: if_splits)
  qed
  then show "float_lt q float_zero \<Longrightarrow> float_lt a float_zero" "float_lt float_zero q \<Longrightarrow> float_lt float_zero a"
    by blast+
qed

lemma mul_sign:
  assumes "0 < m"
  shows "float_lt (float_mul q (Fin m e)) float_zero \<Longrightarrow> float_lt q float_zero"
    "float_lt float_zero (float_mul q (Fin m e)) \<Longrightarrow> float_lt float_zero q"
proof -
  have "(float_lt (float_mul q (Fin m e)) float_zero \<longrightarrow> float_lt q float_zero) \<and>
      (float_lt float_zero (float_mul q (Fin m e)) \<longrightarrow> float_lt float_zero q)"
  proof (cases q)
    case (Fin n x)
    then show ?thesis
      using round_quot_sign [of 1 "n * m" "x + e"] assms by (auto simp: mult_less_0_iff zero_less_mult_iff)
  qed (use assms in auto)
  then show "float_lt (float_mul q (Fin m e)) float_zero \<Longrightarrow> float_lt q float_zero"
    "float_lt float_zero (float_mul q (Fin m e)) \<Longrightarrow> float_lt float_zero q" by blast+
qed

lemma outside_sign:
  "float_lt p (float_neg (float_abs t)) \<Longrightarrow> float_lt p float_zero" "float_lt (float_abs t) p \<Longrightarrow> float_lt float_zero p"
  using zero_not_outside [of t] unfolding float_lt_key
  by (auto simp: float_zero_def key_less_def)

declare lt_zero_Fin [simp del] lt_zero_inf [simp del]

end
