(* ===== verification/Benchmark_Models.thy ===== *)
theory Benchmark_Models
  imports Run_Types Py_Text Float_Order "HOL-Library.Product_Lexorder"
begin

text \<open>
  Benchmark results, \<open>sim/tes_benchmarks/models.py\<close>: the result classes, their JSON form and the
  comparison of two runs. The text of a time and the reading of a float from text are functions of the
  standard library and given as a record of functions.
\<close>

section \<open>Result classes\<close>

(* sim/tes_benchmarks/models.py:11-20 BenchmarkScenario *)
record benchmark_scenario =
  bs_name :: string
  bs_operation_count :: int
  bs_elapsed_ms :: pyfloat
  bs_ops_per_sec :: pyfloat
  bs_notes :: "string option"
  bs_config :: pydict

(* sim/tes_benchmarks/models.py:46-56 BenchmarkRun *)
record benchmark_run =
  bm_benchmark_id :: string
  bm_created_at :: instant
  bm_git_sha :: "string option"
  bm_machine :: pydict
  bm_scenarios :: "benchmark_scenario list"
  bm_notes :: "string option"
  bm_config :: pydict

text \<open>\<open>isoformat\<close>, \<open>_parse_datetime\<close>'s \<open>fromisoformat\<close> and \<open>float\<close> of a string.\<close>

record text_codec =
  xc_isoformat :: "instant \<Rightarrow> string"
  xc_fromiso :: "string \<Rightarrow> instant result"
  xc_float :: "string \<Rightarrow> pyfloat result"

text \<open>\<open>benchmark_id or uuid4().hex\<close> and \<open>created_at or datetime.now(UTC)\<close>.\<close>

(* sim/tes_benchmarks/models.py:58-78 create *)
definition create_benchmark ::
  "benchmark_scenario list \<Rightarrow> string option \<Rightarrow> pydict \<Rightarrow> string option \<Rightarrow> pydict option \<Rightarrow> string option
   \<Rightarrow> instant option \<Rightarrow> string \<Rightarrow> instant \<Rightarrow> benchmark_run" where
  "create_benchmark scenarios git_sha machine notes config benchmark_id created_at new_id now =
     \<lparr>bm_benchmark_id = the (str_or benchmark_id (Some new_id)),
      bm_created_at = the (or_else created_at (Some now)), bm_git_sha = git_sha, bm_machine = machine,
      bm_scenarios = scenarios, bm_notes = notes,
      bm_config = (case config of None \<Rightarrow> [] | Some c \<Rightarrow> c)\<rparr>"

section \<open>JSON form\<close>

(* sim/tes_benchmarks/models.py:22-32 to_dict *)
definition scenario_to_dict :: "benchmark_scenario \<Rightarrow> pydict" where
  "scenario_to_dict s =
     [(''name'', PStr (bs_name s)), (''operation_count'', PInt (bs_operation_count s)),
      (''elapsed_ms'', PFloat (bs_elapsed_ms s)), (''ops_per_sec'', PFloat (bs_ops_per_sec s)),
      (''config'', PDict (bs_config s))] @
     (case bs_notes s of None \<Rightarrow> [] | Some n \<Rightarrow> [(''notes'', PStr n)])"

text \<open>\<open>float(value)\<close>, \<open>dict(value)\<close> and \<open>str(value) if value is not None else None\<close>.\<close>

definition type_error :: "string \<Rightarrow> 'a result" where
  "type_error m = Inl (TypeError m)"

fun py_float :: "text_codec \<Rightarrow> pyval \<Rightarrow> pyfloat result" where
  "py_float xc (PFloat f) = Inr f"
| "py_float xc (PInt i) = int_to_float i"
| "py_float xc (PBool b) = Inr (float_of_int (if b then 1 else 0))"
| "py_float xc (PStr s) = xc_float xc s"
| "py_float xc v = type_error ''float() argument must be a string or a real number''"

definition pair_of :: "pyval \<Rightarrow> (string \<times> pyval) result" where
  "pair_of v = (case v of
      PList [PStr k, w] \<Rightarrow> Inr (k, w)
    | PTuple [PStr k, w] \<Rightarrow> Inr (k, w)
    | _ \<Rightarrow> type_error ''cannot convert dictionary update sequence element to a sequence'')"

definition update_all :: "(string \<times> pyval) list \<Rightarrow> pydict" where
  "update_all kvs = fold (\<lambda>(k, v) d. AList.update k v d) kvs []"

fun py_dict :: "pyval \<Rightarrow> pydict result" where
  "py_dict (PDict d) = Inr d"
| "py_dict (PList xs) = bind_r (map_r pair_of xs) (\<lambda>kvs. Inr (update_all kvs))"
| "py_dict (PTuple xs) = bind_r (map_r pair_of xs) (\<lambda>kvs. Inr (update_all kvs))"
| "py_dict (PStr s) =
     (if s = [] then Inr []
      else Inl (ValueError ''dictionary update sequence element #0 has length 1; 2 is required''))"
| "py_dict v = type_error ''object is not iterable''"

definition optional_str :: "pyval \<Rightarrow> string option" where
  "optional_str v = (if v = PNone then None else Some (py_str v))"

(* sim/tes_benchmarks/models.py:196-199 _require_int *)
definition require_int_bm :: "pyval \<Rightarrow> string \<Rightarrow> int result" where
  "require_int_bm value field_name =
     (case value of PInt i \<Rightarrow> Inr i | _ \<Rightarrow> Inl (ValueError (field_name @ '' must be an integer'')))"

(* sim/tes_benchmarks/models.py:34-43 from_dict *)
definition scenario_from_dict :: "text_codec \<Rightarrow> pydict \<Rightarrow> benchmark_scenario result" where
  "scenario_from_dict xc payload =
     bind_r (dindex payload ''name'') (\<lambda>name.
     bind_r (dindex payload ''operation_count'') (\<lambda>count.
     bind_r (require_int_bm count ''operation_count'') (\<lambda>operation_count.
     bind_r (bind_r (dindex payload ''elapsed_ms'') (py_float xc)) (\<lambda>elapsed_ms.
     bind_r (bind_r (dindex payload ''ops_per_sec'') (py_float xc)) (\<lambda>ops_per_sec.
     bind_r (py_dict (dget_default payload ''config'' (PDict []))) (\<lambda>config.
       Inr \<lparr>bs_name = py_str name, bs_operation_count = operation_count, bs_elapsed_ms = elapsed_ms,
            bs_ops_per_sec = ops_per_sec, bs_notes = optional_str (dget payload ''notes''),
            bs_config = config\<rparr>))))))"

(* sim/tes_benchmarks/models.py:80-91 to_dict *)
definition benchmark_to_dict :: "text_codec \<Rightarrow> benchmark_run \<Rightarrow> pydict" where
  "benchmark_to_dict xc b =
     [(''benchmark_id'', PStr (bm_benchmark_id b)),
      (''created_at'', PStr (xc_isoformat xc (bm_created_at b))),
      (''git_sha'', case bm_git_sha b of None \<Rightarrow> PNone | Some s \<Rightarrow> PStr s),
      (''machine'', PDict (bm_machine b)),
      (''scenarios'', PList (map (\<lambda>s. PDict (scenario_to_dict s)) (bm_scenarios b))),
      (''config'', PDict (bm_config b))] @
     (case bm_notes b of None \<Rightarrow> [] | Some n \<Rightarrow> [(''notes'', PStr n)])"

text \<open>\<open>for item in value\<close> where every item is indexed with a string.\<close>

definition subscript_item :: "pyval \<Rightarrow> pydict result" where
  "subscript_item v = (case v of PDict d \<Rightarrow> Inr d | _ \<Rightarrow> type_error ''indices must be integers'')"

fun subscript_items :: "pyval \<Rightarrow> pydict list result" where
  "subscript_items (PList xs) = map_r subscript_item xs"
| "subscript_items (PTuple xs) = map_r subscript_item xs"
| "subscript_items (PDict d) = (if d = [] then Inr [] else type_error ''string indices must be integers'')"
| "subscript_items (PStr s) = (if s = [] then Inr [] else type_error ''string indices must be integers'')"
| "subscript_items v = type_error ''object is not iterable''"

text \<open>\<open>datetime.fromisoformat(value.replace("Z", "+00:00"))\<close>, made aware.\<close>

(* sim/tes_benchmarks/models.py:189-193 _parse_datetime *)
definition parse_benchmark_time :: "text_codec \<Rightarrow> string \<Rightarrow> instant result" where
  "parse_benchmark_time xc value =
     xc_fromiso xc (concat (map (\<lambda>c. if c = CHR ''Z'' then ''+00:00'' else [c]) value))"

(* sim/tes_benchmarks/models.py:93-103 from_dict *)
definition benchmark_from_dict :: "text_codec \<Rightarrow> pydict \<Rightarrow> benchmark_run result" where
  "benchmark_from_dict xc payload =
     bind_r (dindex payload ''benchmark_id'') (\<lambda>benchmark_id.
     bind_r (bind_r (dindex payload ''created_at'') (\<lambda>t. parse_benchmark_time xc (py_str t))) (\<lambda>created_at.
     bind_r (py_dict (dget_default payload ''machine'' (PDict []))) (\<lambda>machine.
     bind_r (bind_r (subscript_items (dget_default payload ''scenarios'' (PList [])))
               (map_r (scenario_from_dict xc))) (\<lambda>scenarios.
     bind_r (py_dict (dget_default payload ''config'' (PDict []))) (\<lambda>config.
       Inr \<lparr>bm_benchmark_id = py_str benchmark_id, bm_created_at = created_at,
            bm_git_sha = optional_str (dget payload ''git_sha''), bm_machine = machine,
            bm_scenarios = scenarios, bm_notes = optional_str (dget payload ''notes''),
            bm_config = config\<rparr>)))))"

text \<open>The codec reads back what it writes, and writes no \<open>Z\<close> (the offset of \<open>isoformat\<close> is \<open>+00:00\<close>).\<close>

definition codec_ok :: "text_codec \<Rightarrow> instant \<Rightarrow> bool" where
  "codec_ok xc t \<longleftrightarrow> CHR ''Z'' \<notin> set (xc_isoformat xc t) \<and> xc_fromiso xc (xc_isoformat xc t) = Inr t"

lemma replace_Z_id:
  "CHR ''Z'' \<notin> set s \<Longrightarrow> concat (map (\<lambda>c. if c = CHR ''Z'' then ''+00:00'' else [c]) s) = s"
  by (induction s) auto

lemma scenario_dict_roundtrip: "scenario_from_dict xc (scenario_to_dict s) = Inr s"
  by (cases s) (auto simp: scenario_from_dict_def scenario_to_dict_def require_int_bm_def dindex_def
      dget_def dget_default_def optional_str_def split: option.splits)

lemma subscript_dicts: "subscript_items (PList (map (\<lambda>s. PDict (f s)) xs)) = Inr (map f xs)"
  by (induction xs) (simp_all add: subscript_item_def)

lemma benchmark_dict_roundtrip:
  assumes "codec_ok xc (bm_created_at b)"
  shows "benchmark_from_dict xc (benchmark_to_dict xc b) = Inr b"
proof -
  have "map_r (scenario_from_dict xc) (map scenario_to_dict ss) = Inr ss" for ss
    by (induction ss) (simp_all add: scenario_dict_roundtrip)
  moreover have "parse_benchmark_time xc (xc_isoformat xc (bm_created_at b)) = Inr (bm_created_at b)"
    using assms by (simp add: parse_benchmark_time_def codec_ok_def replace_Z_id)
  ultimately show ?thesis
    by (cases b) (auto simp: benchmark_from_dict_def benchmark_to_dict_def dindex_def dget_def
        dget_default_def optional_str_def subscript_dicts simp del: subscript_items.simps
        split: option.splits)
qed

section \<open>Comparison\<close>

(* sim/tes_benchmarks/models.py:106-116 ScenarioComparison *)
record scenario_comparison =
  cs_name :: string
  cs_baseline_ops_per_sec :: "pyfloat option"
  cs_candidate_ops_per_sec :: "pyfloat option"
  cs_percent_delta :: "pyfloat option"
  cs_regression :: bool
  cs_improvement :: bool
  cs_threshold_percent :: pyfloat

(* sim/tes_benchmarks/models.py:130-138 BenchmarkComparison *)
record benchmark_comparison =
  bc_baseline_id :: string
  bc_candidate_id :: string
  bc_threshold_percent :: pyfloat
  bc_has_regression :: bool
  bc_scenarios :: "scenario_comparison list"

definition opt_float :: "pyfloat option \<Rightarrow> pyval" where
  "opt_float x = (case x of None \<Rightarrow> PNone | Some f \<Rightarrow> PFloat f)"

(* sim/tes_benchmarks/models.py:118-127 to_dict *)
definition scenario_comparison_to_dict :: "scenario_comparison \<Rightarrow> pydict" where
  "scenario_comparison_to_dict c =
     [(''name'', PStr (cs_name c)),
      (''baseline_ops_per_sec'', opt_float (cs_baseline_ops_per_sec c)),
      (''candidate_ops_per_sec'', opt_float (cs_candidate_ops_per_sec c)),
      (''percent_delta'', opt_float (cs_percent_delta c)),
      (''regression'', PBool (cs_regression c)), (''improvement'', PBool (cs_improvement c)),
      (''threshold_percent'', PFloat (cs_threshold_percent c))]"

(* sim/tes_benchmarks/models.py:140-147 to_dict *)
definition benchmark_comparison_to_dict :: "benchmark_comparison \<Rightarrow> pydict" where
  "benchmark_comparison_to_dict c =
     [(''baseline_id'', PStr (bc_baseline_id c)), (''candidate_id'', PStr (bc_candidate_id c)),
      (''threshold_percent'', PFloat (bc_threshold_percent c)),
      (''has_regression'', PBool (bc_has_regression c)),
      (''scenarios'', PList (map (\<lambda>s. PDict (scenario_comparison_to_dict s)) (bc_scenarios c)))]"

text \<open>\<open>{scenario.name: scenario for ..}\<close>: the last scenario of a name stays.\<close>

definition by_name :: "benchmark_scenario list \<Rightarrow> (string \<times> benchmark_scenario) list" where
  "by_name ss = fold (\<lambda>s. AList.update (bs_name s) s) ss []"

text \<open>\<open>((candidate - baseline) / baseline) * 100.0\<close> for a positive baseline.\<close>

definition percent_delta :: "pyfloat \<Rightarrow> pyfloat \<Rightarrow> pyfloat result" where
  "percent_delta b c =
     bind_r (float_div (float_sub c b) b) (\<lambda>q. Inr (float_mul q (float_of_int 100)))"

(* sim/tes_benchmarks/models.py:158-179 compare_benchmark_runs (loop) *)
definition compare_scenario ::
  "(string \<times> benchmark_scenario) list \<Rightarrow> (string \<times> benchmark_scenario) list \<Rightarrow> pyfloat \<Rightarrow> string
   \<Rightarrow> scenario_comparison result" where
  "compare_scenario baseline_by_name candidate_by_name threshold name =
     (let baseline_ops = map_option bs_ops_per_sec (map_of baseline_by_name name);
          candidate_ops = map_option bs_ops_per_sec (map_of candidate_by_name name)
      in bind_r (case (baseline_ops, candidate_ops) of
                   (Some b, Some c) \<Rightarrow>
                     if float_lt float_zero b then bind_r (percent_delta b c) (\<lambda>p. Inr (Some p)) else Inr None
                 | _ \<Rightarrow> Inr None)
           (\<lambda>delta. Inr
             \<lparr>cs_name = name, cs_baseline_ops_per_sec = baseline_ops,
              cs_candidate_ops_per_sec = candidate_ops, cs_percent_delta = delta,
              cs_regression = (case delta of None \<Rightarrow> False
                               | Some p \<Rightarrow> float_lt p (float_neg (float_abs threshold))),
              cs_improvement = (case delta of None \<Rightarrow> False
                                | Some p \<Rightarrow> float_lt (float_abs threshold) p),
              cs_threshold_percent = threshold\<rparr>))"

(* sim/tes_benchmarks/models.py:150-186 compare_benchmark_runs *)
definition compare_benchmark_runs ::
  "benchmark_run \<Rightarrow> benchmark_run \<Rightarrow> pyfloat \<Rightarrow> benchmark_comparison result" where
  "compare_benchmark_runs baseline candidate threshold =
     (let baseline_by_name = by_name (bm_scenarios baseline);
          candidate_by_name = by_name (bm_scenarios candidate);
          names = sort (remdups (map fst baseline_by_name @ map fst candidate_by_name))
      in bind_r (map_r (compare_scenario baseline_by_name candidate_by_name threshold) names)
           (\<lambda>comparisons. Inr
             \<lparr>bc_baseline_id = bm_benchmark_id baseline, bc_candidate_id = bm_benchmark_id candidate,
              bc_threshold_percent = threshold,
              bc_has_regression = list_ex cs_regression comparisons,
              bc_scenarios = comparisons\<rparr>))"


section \<open>Lemmas on the comparison\<close>

lemma percent_delta_ok: "float_lt float_zero b \<Longrightarrow> \<exists>p. percent_delta b c = Inr p"
proof -
  assume pos: "float_lt float_zero b"
  then have "\<exists>q. float_div x b = Inr q" for x
    by (cases x; cases b) (auto simp: float_zero_def Let_def)
  then obtain q where "float_div (float_sub c b) b = Inr q" by blast
  then show ?thesis by (simp add: percent_delta_def)
qed

lemma float_of_int_100: "float_of_int 100 = Fin 25 2"
  by (simp add: float_eval)

lemma compare_scenario_ok: "\<exists>c. compare_scenario bs cs t name = Inr c"
proof (cases "map_of bs name")
  case None
  then show ?thesis by (simp add: compare_scenario_def)
next
  case (Some b)
  note b = this
  show ?thesis
  proof (cases "map_of cs name")
    case None
    with b show ?thesis by (simp add: compare_scenario_def)
  next
    case (Some c)
    have "\<exists>d. (if float_lt float_zero (bs_ops_per_sec b)
        then bind_r (percent_delta (bs_ops_per_sec b) (bs_ops_per_sec c)) (\<lambda>p. Inr (Some p))
        else Inr None) = Inr d"
      using percent_delta_ok [of "bs_ops_per_sec b" "bs_ops_per_sec c"] by auto
    with b Some show ?thesis by (auto simp: compare_scenario_def Let_def)
  qed
qed

lemma compare_scenario_name: "compare_scenario bs cs t name = Inr c \<Longrightarrow> cs_name c = name"
  by (auto simp: compare_scenario_def Let_def bind_r_Inr_iff)

lemma map_of_by_name: "map_of (by_name ss) n = map_of (rev (map (\<lambda>s. (bs_name s, s)) ss)) n"
proof -
  have "map_of (fold (\<lambda>s. AList.update (bs_name s) s) ss acc) n =
      (case map_of (rev (map (\<lambda>s. (bs_name s, s)) ss)) n of None \<Rightarrow> map_of acc n | Some s \<Rightarrow> Some s)" for acc
    by (induction ss arbitrary: acc) (auto simp: update_conv' split: option.splits)
  then show ?thesis by (simp add: by_name_def split: option.split)
qed

lemma keys_by_name: "fst ` set (by_name ss) = bs_name ` set ss"
proof -
  have "n \<in> fst ` set (by_name ss) \<longleftrightarrow> n \<in> bs_name ` set ss" for n
  proof -
    have "n \<in> fst ` set (by_name ss) \<longleftrightarrow> map_of (by_name ss) n \<noteq> None"
      by (simp add: map_of_eq_None_iff)
    also have "\<dots> \<longleftrightarrow> n \<in> fst ` set (map (\<lambda>s. (bs_name s, s)) ss)"
      by (simp only: map_of_by_name) (simp add: map_of_eq_None_iff)
    finally show ?thesis by force
  qed
  then show ?thesis by blast
qed

end
