(* ===== verification/Memory_Store.thy ===== *)
theory Memory_Store
  imports Run_Store Benchmark_Models
begin

text \<open>
  The process-local backend, \<open>sim/api/storage/in_memory.py\<close>: dictionaries in insertion order, every
  operation under the lock as one function. Copies (\<open>deepcopy\<close>) are the identity on values. The
  benchmark methods are in theory \<open>Benchmark_Store\<close>.
\<close>

(* sim/api/storage/in_memory.py:16-28 InMemoryRunStore *)
record mem_store =
  ms_records :: "(string \<times> run_record) list"
  ms_tournaments :: "(string \<times> tournament_record) list"
  ms_children :: "(string \<times> tournament_child list) list"
  ms_benchmarks :: "(string \<times> benchmark_run) list"

definition empty_mem :: mem_store where
  "empty_mem = \<lparr>ms_records = [], ms_tournaments = [], ms_children = [],
     ms_benchmarks = []\<rparr>"

section \<open>Runs\<close>

(* sim/api/storage/in_memory.py:66-69 get_run *)
definition mem_get_run :: "string \<Rightarrow> mem_store \<Rightarrow> run_record option" where
  "mem_get_run run_id s = map_of (ms_records s) run_id"

(* sim/api/storage/in_memory.py:30-41 create_run *)
definition mem_create_run ::
  "instant \<Rightarrow> string \<Rightarrow> run_type \<Rightarrow> pydict \<Rightarrow> mem_store \<Rightarrow> mem_store \<times> run_record result" where
  "mem_create_run now run_id run_type config s =
     (let record = new_run now run_id run_type config
      in (s\<lparr>ms_records := AList.update run_id record (ms_records s)\<rparr>, Inr record))"

text \<open>\<open>record = self._records.get(run_id)\<close>, then an assignment to its fields.\<close>

definition mem_modify :: "string \<Rightarrow> (run_record \<Rightarrow> run_record) \<Rightarrow> mem_store \<Rightarrow> mem_store" where
  "mem_modify run_id f s =
     (case mem_get_run run_id s of
        None \<Rightarrow> s
      | Some record \<Rightarrow> s\<lparr>ms_records := AList.update run_id (f record) (ms_records s)\<rparr>)"

(* sim/api/storage/in_memory.py:43-64 update_run *)
definition mem_update_run ::
  "string \<Rightarrow> run_status option \<Rightarrow> instant option \<Rightarrow> instant option \<Rightarrow> string option \<Rightarrow> mem_store
   \<Rightarrow> mem_store \<times> run_record option" where
  "mem_update_run run_id status started_at completed_at error s =
     (let s' = mem_modify run_id (apply_update status started_at completed_at error) s
      in (s', mem_get_run run_id s'))"

(* sim/api/storage/in_memory.py:80-95 update_run_status *)
definition mem_update_run_status ::
  "string \<Rightarrow> run_status \<Rightarrow> instant option \<Rightarrow> instant option \<Rightarrow> string option \<Rightarrow> mem_store
   \<Rightarrow> mem_store \<times> run_record option" where
  "mem_update_run_status run_id status started_at completed_at error s =
     mem_update_run run_id (Some status) started_at completed_at error s"

(* sim/api/storage/in_memory.py:71-74 list_runs *)
definition mem_list_runs :: "mem_store \<Rightarrow> run_record list" where
  "mem_list_runs s = sort_key rr_created_at (map snd (ms_records s))"

(* sim/api/storage/in_memory.py:76-78 delete_run *)
definition mem_delete_run :: "string \<Rightarrow> mem_store \<Rightarrow> mem_store \<times> bool" where
  "mem_delete_run run_id s =
     (s\<lparr>ms_records := AList.delete run_id (ms_records s)\<rparr>, mem_get_run run_id s \<noteq> None)"

(* sim/api/storage/in_memory.py:184-204 store_result *)
definition mem_store_result ::
  "string \<Rightarrow> pydict \<Rightarrow> pydict list \<Rightarrow> pydict list \<Rightarrow> pydict list \<Rightarrow> pydict list option \<Rightarrow> mem_store
   \<Rightarrow> mem_store \<times> run_record option" where
  "mem_store_result run_id report events snapshots accounts logs s =
     (let s' = mem_modify run_id (\<lambda>r. r\<lparr>rr_report := report, rr_events := events,
                 rr_snapshots := snapshots, rr_accounts := accounts,
                 rr_logs := (case logs of None \<Rightarrow> rr_logs r | Some ls \<Rightarrow> ls)\<rparr>) s
      in (s', mem_get_run run_id s'))"

(* sim/api/storage/in_memory.py:97-99 get_report *)
definition mem_get_report :: "string \<Rightarrow> mem_store \<Rightarrow> pydict option" where
  "mem_get_report run_id s = map_option rr_report (mem_get_run run_id s)"

section \<open>Filters\<close>

(* sim/api/storage/in_memory.py:311-315 _page *)
definition page :: "int option \<Rightarrow> int \<Rightarrow> 'a list \<Rightarrow> 'a list" where
  "page limit offset items =
     (let start = nat (max 0 offset) in
      case limit of
        None \<Rightarrow> drop start items
      | Some n \<Rightarrow> drop start (take (start + nat (max 0 n)) items))"

(* sim/api/storage/in_memory.py:318-324 _event_symbol *)
definition mem_event_symbol :: "pydict \<Rightarrow> string option" where
  "mem_event_symbol event =
     (case dict_value (dget event ''data'') of
        Some data \<Rightarrow> string_value (dget data ''symbol'')
      | None \<Rightarrow> string_value (dget event ''symbol''))"

(* sim/api/storage/in_memory.py:327-330 _matches_event *)
definition mem_matches_event :: "string option \<Rightarrow> string option \<Rightarrow> pydict \<Rightarrow> bool" where
  "mem_matches_event symbol event_type event \<longleftrightarrow>
     (case event_type of None \<Rightarrow> True | Some t \<Rightarrow> py_eq (dget event ''type'') (PStr t)) \<and>
     (symbol = None \<or> mem_event_symbol event = symbol)"

(* sim/api/storage/in_memory.py:333-340 _matches_symbol *)
definition mem_matches_symbol :: "string option \<Rightarrow> pydict \<Rightarrow> bool" where
  "mem_matches_symbol symbol payload \<longleftrightarrow>
     (case symbol of
        None \<Rightarrow> True
      | Some sy \<Rightarrow>
          py_eq (dget payload ''symbol'') (PStr sy) \<or>
          (case dict_value (dget payload ''symbols'') of None \<Rightarrow> False | Some d \<Rightarrow> has_key sy d))"

(* sim/api/storage/in_memory.py:343-350 _matches_account *)
definition mem_matches_account :: "string option \<Rightarrow> string option \<Rightarrow> pydict \<Rightarrow> bool" where
  "mem_matches_account account_id symbol payload \<longleftrightarrow>
     (case account_id of None \<Rightarrow> True | Some a \<Rightarrow> py_str (dget payload ''account_id'') = a) \<and>
     (case symbol of
        None \<Rightarrow> True
      | Some sy \<Rightarrow>
          (case dict_value (dget payload ''positions'') of None \<Rightarrow> False | Some d \<Rightarrow> has_key sy d) \<or>
          (case dict_value (dget payload ''mark_to_market'') of None \<Rightarrow> False | Some d \<Rightarrow> has_key sy d))"

(* sim/api/storage/in_memory.py:101-114 get_events *)
definition mem_get_events ::
  "string \<Rightarrow> string option \<Rightarrow> string option \<Rightarrow> int option \<Rightarrow> int \<Rightarrow> mem_store \<Rightarrow> pydict list option" where
  "mem_get_events run_id symbol event_type limit offset s =
     map_option (\<lambda>record. page limit offset
       (filter (mem_matches_event symbol event_type) (rr_events record))) (mem_get_run run_id s)"

(* sim/api/storage/in_memory.py:116-128 get_snapshots *)
definition mem_get_snapshots ::
  "string \<Rightarrow> string option \<Rightarrow> int option \<Rightarrow> int \<Rightarrow> mem_store \<Rightarrow> pydict list option" where
  "mem_get_snapshots run_id symbol limit offset s =
     map_option (\<lambda>record. page limit offset
       (filter (mem_matches_symbol symbol) (rr_snapshots record))) (mem_get_run run_id s)"

(* sim/api/storage/in_memory.py:130-147 get_accounts *)
definition mem_get_accounts ::
  "string \<Rightarrow> string option \<Rightarrow> string option \<Rightarrow> int option \<Rightarrow> int \<Rightarrow> mem_store \<Rightarrow> pydict list option" where
  "mem_get_accounts run_id account_id symbol limit offset s =
     map_option (\<lambda>record. page limit offset
       (filter (mem_matches_account account_id symbol) (rr_accounts record))) (mem_get_run run_id s)"

(* sim/api/storage/in_memory.py:149-159 get_logs *)
definition mem_get_logs :: "string \<Rightarrow> int option \<Rightarrow> int \<Rightarrow> mem_store \<Rightarrow> pydict list option" where
  "mem_get_logs run_id limit offset s =
     map_option (\<lambda>record. page limit offset (rr_logs record)) (mem_get_run run_id s)"

(* sim/api/storage/in_memory.py:161-167 append_log *)
definition mem_append_log :: "string \<Rightarrow> pydict \<Rightarrow> mem_store \<Rightarrow> mem_store \<times> bool" where
  "mem_append_log run_id entry s =
     (mem_modify run_id (\<lambda>r. r\<lparr>rr_logs := rr_logs r @ [entry]\<rparr>) s, mem_get_run run_id s \<noteq> None)"

(* sim/api/storage/in_memory.py:177-182 get_verification *)
definition mem_get_verification :: "string \<Rightarrow> mem_store \<Rightarrow> pydict option" where
  "mem_get_verification run_id s = map_option rr_verification (mem_get_run run_id s)"

(* sim/api/storage/in_memory.py:169-175 store_verification *)
definition mem_store_verification ::
  "string \<Rightarrow> pydict \<Rightarrow> mem_store \<Rightarrow> mem_store \<times> pydict option" where
  "mem_store_verification run_id report s =
     (let s' = mem_modify run_id (\<lambda>r. r\<lparr>rr_verification := report\<rparr>) s
      in (s', mem_get_verification run_id s'))"

section \<open>Tournaments\<close>

(* sim/api/storage/in_memory.py:235-246 create_tournament *)
definition mem_create_tournament ::
  "instant \<Rightarrow> string \<Rightarrow> string \<Rightarrow> pydict \<Rightarrow> mem_store \<Rightarrow> mem_store \<times> tournament_record result" where
  "mem_create_tournament now tournament_id tournament_type config s =
     (let record = new_tournament now tournament_id tournament_type config
      in (s\<lparr>ms_tournaments := AList.update tournament_id record (ms_tournaments s),
            ms_children := AList.update tournament_id [] (ms_children s)\<rparr>, Inr record))"

(* sim/api/storage/in_memory.py:274-277 get_tournament *)
definition mem_get_tournament :: "string \<Rightarrow> mem_store \<Rightarrow> tournament_record option" where
  "mem_get_tournament tournament_id s = map_of (ms_tournaments s) tournament_id"

(* sim/api/storage/in_memory.py:248-272 update_tournament *)
definition mem_update_tournament ::
  "string \<Rightarrow> run_status option \<Rightarrow> instant option \<Rightarrow> instant option \<Rightarrow> pydict option \<Rightarrow> string option
   \<Rightarrow> mem_store \<Rightarrow> mem_store \<times> tournament_record option" where
  "mem_update_tournament tournament_id status started_at completed_at report error s =
     (case mem_get_tournament tournament_id s of
        None \<Rightarrow> (s, None)
      | Some record \<Rightarrow>
          (let record' = apply_tournament_update status started_at completed_at report error record
           in (s\<lparr>ms_tournaments := AList.update tournament_id record' (ms_tournaments s)\<rparr>,
               Some record')))"

(* sim/api/storage/in_memory.py:279-282 list_tournaments *)
definition mem_list_tournaments :: "mem_store \<Rightarrow> tournament_record list" where
  "mem_list_tournaments s = sort_key tr_created_at (map snd (ms_tournaments s))"

(* sim/api/storage/in_memory.py:284-302 link_tournament_child *)
definition mem_link_child ::
  "string \<Rightarrow> string \<Rightarrow> string \<Rightarrow> run_type \<Rightarrow> pydict \<Rightarrow> mem_store \<Rightarrow> mem_store \<times> unit result" where
  "mem_link_child tournament_id child_run_id child_key run_type dimensions s =
     (let children = (case map_of (ms_children s) tournament_id of None \<Rightarrow> [] | Some cs \<Rightarrow> cs);
          child = \<lparr>tc_tournament_id = tournament_id, tc_child_run_id = child_run_id,
                   tc_child_key = child_key, tc_run_type = run_type, tc_dimensions = dimensions\<rparr>
      in (s\<lparr>ms_children := AList.update tournament_id (children @ [child]) (ms_children s)\<rparr>, Inr ()))"

(* sim/api/storage/in_memory.py:304-308 list_tournament_children *)
definition mem_list_children :: "string \<Rightarrow> mem_store \<Rightarrow> tournament_child list option" where
  "mem_list_children tournament_id s =
     (if mem_get_tournament tournament_id s = None then None
      else Some (case map_of (ms_children s) tournament_id of None \<Rightarrow> [] | Some cs \<Rightarrow> cs))"

section \<open>The backend as an implementation of the protocol\<close>

definition mem_ops :: "mem_store store_ops" where
  "mem_ops =
     \<lparr>so_create_run = mem_create_run, so_update_run = mem_update_run, so_get_run = mem_get_run,
      so_list_runs = mem_list_runs, so_delete_run = mem_delete_run,
      so_store_result = mem_store_result, so_get_report = mem_get_report,
      so_get_events = mem_get_events, so_get_snapshots = mem_get_snapshots,
      so_get_accounts = mem_get_accounts, so_get_logs = mem_get_logs,
      so_append_log = mem_append_log, so_store_verification = mem_store_verification,
      so_get_verification = mem_get_verification, so_create_tournament = mem_create_tournament,
      so_update_tournament = mem_update_tournament, so_get_tournament = mem_get_tournament,
      so_list_tournaments = mem_list_tournaments, so_link_child = mem_link_child,
      so_list_children = mem_list_children\<rparr>"

text \<open>The invariant: keys are unique and every record is stored under its own id.\<close>

definition mem_ok :: "mem_store \<Rightarrow> bool" where
  "mem_ok s \<longleftrightarrow> distinct (map fst (ms_records s)) \<and>
     (\<forall>(k, r) \<in> set (ms_records s). rr_run_id r = k) \<and> distinct (map fst (ms_benchmarks s)) \<and>
     (\<forall>(k, b) \<in> set (ms_benchmarks s). bm_benchmark_id b = k)"

lemma page_slice: "page limit offset xs = slice_from offset limit xs"
  by (cases limit) (simp_all add: page_def slice_from_def Let_def take_drop add.commute)

lemma mem_matches_none [simp]:
  "mem_matches_event None None = (\<lambda>_. True)"
  "mem_matches_symbol None = (\<lambda>_. True)"
  "mem_matches_account None None = (\<lambda>_. True)"
  by (simp_all add: fun_eq_iff mem_matches_event_def mem_matches_symbol_def mem_matches_account_def)

lemma mem_ok_empty: "mem_ok empty_mem"
  by (simp add: mem_ok_def empty_mem_def)

lemma set_alist_update: "set (AList.update k v xs) \<subseteq> insert (k, v) (set xs)"
  by (induction xs) auto

lemma mem_ok_put:
  assumes "mem_ok s" and "rr_run_id r = k"
  shows "mem_ok (s\<lparr>ms_records := AList.update k r (ms_records s)\<rparr>)"
  using assms set_alist_update [of k r "ms_records s"]
  by (auto simp: mem_ok_def distinct_update)

lemma mem_ok_remove: "mem_ok s \<Longrightarrow> mem_ok (s\<lparr>ms_records := AList.delete k (ms_records s)\<rparr>)"
proof -
  have "set (AList.delete k xs) \<subseteq> set xs" for xs :: "(string \<times> run_record) list"
    by (auto simp: AList.delete_eq)
  then show "mem_ok s \<Longrightarrow> ?thesis"
    by (fastforce simp: mem_ok_def distinct_delete)
qed

lemma mem_get_run_id: "mem_ok s \<Longrightarrow> mem_get_run i s = Some r \<Longrightarrow> rr_run_id r = i"
  by (auto simp: mem_ok_def mem_get_run_def dest!: map_of_SomeD)

lemma mem_get_modify:
  "mem_get_run i (mem_modify run_id f s) =
    (if i = run_id then map_option f (mem_get_run i s) else mem_get_run i s)"
  by (auto simp: mem_modify_def mem_get_run_def update_conv' split: option.split)

lemma mem_ok_modify:
  assumes "mem_ok s" and "\<And>r. rr_run_id (f r) = rr_run_id r"
  shows "mem_ok (mem_modify run_id f s)"
  using assms mem_get_run_id [OF assms(1), of run_id]
  by (auto simp: mem_modify_def intro: mem_ok_put split: option.split)

lemma mem_list_runs_get:
  assumes "mem_ok s"
  shows "set (mem_list_runs s) = {r. \<exists>i. mem_get_run i s = Some r}"
    and "distinct (map rr_run_id (mem_list_runs s))"
proof -
  have dist: "distinct (map fst (ms_records s))"
    and own: "\<And>k r. (k, r) \<in> set (ms_records s) \<Longrightarrow> rr_run_id r = k"
    using assms by (auto simp: mem_ok_def)
  show "set (mem_list_runs s) = {r. \<exists>i. mem_get_run i s = Some r}"
    using dist by (force simp: mem_list_runs_def mem_get_run_def)
  have "map rr_run_id (map snd (ms_records s)) = map fst (ms_records s)"
    using own by auto
  with dist have "distinct (map rr_run_id (map snd (ms_records s)))"
    by (simp only:)
  then show "distinct (map rr_run_id (mem_list_runs s))"
    by (simp only: mem_list_runs_def distinct_map_sort_key)
qed

lemma map_id_lambda: "map (\<lambda>d. d) xs = xs"
  by (induction xs) simp_all

interpretation mem: run_store mem_ops mem_ok "\<lambda>d. d" "\<lambda>ds. ds"
proof (unfold_locales, goal_cases)
  case (1 s run_id now run_type config)
  then show ?case
    using mem_ok_put [of s "new_run now run_id run_type config" run_id]
    by (auto simp: mem_ops_def mem_create_run_def Let_def new_run_def mem_get_run_def update_conv')
next
  case (2 s run_id st sa ca err)
  then show ?case
    by (simp add: mem_ops_def mem_update_run_def Let_def mem_get_modify mem_ok_modify)
next
  case (3 s run_id report events snapshots accounts logs)
  then show ?case
    by (simp add: mem_ops_def mem_store_result_def Let_def mem_get_modify mem_ok_modify map_id_lambda
        cong: option.case_cong)
next
  case (4 s run_id entry)
  then show ?case
    by (simp add: mem_ops_def mem_append_log_def mem_get_modify mem_ok_modify)
next
  case (5 s run_id report)
  then show ?case
    by (simp add: mem_ops_def mem_store_verification_def mem_get_verification_def Let_def
        mem_get_modify mem_ok_modify)
next
  case (6 s run_id)
  then show ?case
    by (simp add: mem_ops_def mem_delete_run_def mem_ok_remove mem_get_run_def AList.delete_conv')
next
  case (7 s)
  then show ?case using mem_list_runs_get [of s] by (simp add: mem_ops_def)
qed (auto simp: mem_ops_def mem_get_report_def mem_get_events_def mem_get_snapshots_def
    mem_get_accounts_def mem_get_logs_def mem_get_verification_def page_slice comp_def
    mem_get_run_id option.map_ident)

end
