(* ===== verification/Sqlite_Store.thy ===== *)
theory Sqlite_Store
  imports Run_Store Benchmark_Models
begin

text \<open>
  The durable backend, \<open>sim/api/storage/sqlite.py\<close>: the tables as lists of rows, every operation as
  the sequence of its statements. A JSON column holds what reading it decodes to, the dictionary with
  sorted keys (\<open>json_sort_dict\<close>). Foreign keys are enforced: deleting a run deletes its rows in the
  artifact tables, and linking a run or a tournament that does not exist raises. The order of the
  \<open>created_at\<close> text is that of theory \<open>Timestamps\<close>. Integer columns are assumed to fit into 64 bits.
  The operations on the benchmark tables are in theory \<open>Benchmark_Store\<close>.
\<close>

section \<open>Tables\<close>

(* sim/api/storage/sqlite.py:564-574 runs *)
record runs_row =
  rn_run_id :: string
  rn_run_type :: run_type
  rn_status :: run_status
  rn_created_at :: instant
  rn_started_at :: "instant option"
  rn_completed_at :: "instant option"
  rn_config_json :: pydict
  rn_report_json :: "pydict option"
  rn_error :: "string option"

(* sim/api/storage/sqlite.py:576-581 run_verifications *)
record verification_row =
  vr_run_id :: string
  vr_verified_at :: "string option"
  vr_status :: string
  vr_report_json :: pydict

(* sim/api/storage/sqlite.py:583-586 run_reports *)
record report_row =
  rp_run_id :: string
  rp_report_json :: pydict

(* sim/api/storage/sqlite.py:588-596 run_events *)
record event_row =
  er_run_id :: string
  er_sequence :: nat
  er_event_type :: "string option"
  er_symbol :: "string option"
  er_step :: "int option"
  er_payload_json :: pydict

(* sim/api/storage/sqlite.py:598-605 run_snapshots *)
record snapshot_row =
  sr_run_id :: string
  sr_sequence :: nat
  sr_step :: "int option"
  sr_symbol :: "string option"
  sr_payload_json :: pydict

(* sim/api/storage/sqlite.py:607-614 run_accounts *)
record account_row =
  ar_run_id :: string
  ar_sequence :: nat
  ar_account_id :: "string option"
  ar_symbol :: "string option"
  ar_payload_json :: pydict

(* sim/api/storage/sqlite.py:616-623 run_logs *)
record log_row =
  lr_run_id :: string
  lr_sequence :: nat
  lr_level :: "string option"
  lr_message :: "string option"
  lr_payload_json :: pydict

(* sim/api/storage/sqlite.py:660-670 tournaments *)
record tournament_row =
  tn_tournament_id :: string
  tn_tournament_type :: string
  tn_status :: run_status
  tn_created_at :: instant
  tn_started_at :: "instant option"
  tn_completed_at :: "instant option"
  tn_config_json :: pydict
  tn_report_json :: "pydict option"
  tn_error :: "string option"

(* sim/api/storage/sqlite.py:672-679 tournament_children *)
record child_row =
  ch_tournament_id :: string
  ch_child_run_id :: string
  ch_child_key :: string
  ch_run_type :: run_type
  ch_dimensions_json :: pydict

(* sim/api/storage/sqlite.py:637-644 benchmark_runs *)
record benchmark_row =
  bn_benchmark_id :: string
  bn_created_at :: instant
  bn_git_sha :: "string option"
  bn_machine_json :: pydict
  bn_notes :: "string option"
  bn_config_json :: pydict

(* sim/api/storage/sqlite.py:646-656 benchmark_scenarios *)
record scenario_row =
  sn_benchmark_id :: string
  sn_sequence :: nat
  sn_scenario_name :: string
  sn_operation_count :: int
  sn_elapsed_ms :: pyfloat
  sn_ops_per_sec :: pyfloat
  sn_notes :: "string option"
  sn_config_json :: pydict

(* sim/api/storage/sqlite.py:555-686 _initialize_schema *)
record sql_store =
  sq_runs :: "runs_row list"
  sq_verifications :: "verification_row list"
  sq_reports :: "report_row list"
  sq_events :: "event_row list"
  sq_snapshots :: "snapshot_row list"
  sq_accounts :: "account_row list"
  sq_logs :: "log_row list"
  sq_tournaments :: "tournament_row list"
  sq_children :: "child_row list"
  sq_benchmarks :: "benchmark_row list"
  sq_scenarios :: "scenario_row list"

(* sim/api/storage/sqlite.py:30-43 __init__ *)
definition empty_sql :: sql_store where
  "empty_sql = \<lparr>sq_runs = [], sq_verifications = [], sq_reports = [], sq_events = [],
     sq_snapshots = [], sq_accounts = [], sq_logs = [], sq_tournaments = [], sq_children = [],
     sq_benchmarks = [], sq_scenarios = []\<rparr>"

text \<open>\<open>_decode_json(column, {})\<close>.\<close>

(* sim/api/storage/sqlite.py:801-807 _decode_json *)
definition decode_json :: "pydict option \<Rightarrow> pydict" where
  "decode_json column = (case column of None \<Rightarrow> [] | Some d \<Rightarrow> d)"

(* sim/api/storage/sqlite.py:797-798 _encode_json *)
definition encode_json :: "pydict \<Rightarrow> pydict" where
  "encode_json value = json_sort_dict value"

text \<open>The key by which the text of \<open>_format_datetime\<close> sorts: within a second, zero comes last.\<close>

definition store_time_key :: "instant \<Rightarrow> int \<times> int" where
  "store_time_key t = (t div 1000000, if t mod 1000000 = 0 then 1000000 else t mod 1000000)"

section \<open>Rows of the artifact tables\<close>

(* sim/api/storage/sqlite.py:897-898 _dict_value *)
definition sql_dict_value :: "pyval \<Rightarrow> string \<Rightarrow> pyval" where
  "sql_dict_value value key = (case dict_value value of None \<Rightarrow> PNone | Some d \<Rightarrow> dget d key)"

(* sim/api/storage/sqlite.py:877-881 _event_symbol *)
definition sql_event_symbol :: "pydict \<Rightarrow> string option" where
  "sql_event_symbol event =
     (case string_value (dget event ''symbol'') of
        Some direct \<Rightarrow> Some direct
      | None \<Rightarrow> string_value (sql_dict_value (dget event ''data'') ''symbol''))"

text \<open>The only key of a dictionary of length one.\<close>

definition single_key :: "pyval \<Rightarrow> string option" where
  "single_key v = (case dict_value v of Some [(k, _)] \<Rightarrow> Some k | _ \<Rightarrow> None)"

(* sim/api/storage/sqlite.py:884-894 _account_symbol *)
definition sql_account_symbol :: "pydict \<Rightarrow> string option" where
  "sql_account_symbol account =
     (case string_value (dget account ''symbol'') of
        Some direct \<Rightarrow> Some direct
      | None \<Rightarrow>
          (case single_key (dget account ''positions'') of
             Some k \<Rightarrow> Some k
           | None \<Rightarrow> single_key (dget account ''mark_to_market'')))"

(* sim/api/storage/sqlite.py:823-834 _event_rows *)
definition event_rows :: "string \<Rightarrow> pydict list \<Rightarrow> event_row list" where
  "event_rows run_id events =
     map (\<lambda>(index, event). \<lparr>er_run_id = run_id, er_sequence = index,
            er_event_type = string_value (dget event ''type''),
            er_symbol = sql_event_symbol event,
            er_step = int_value (py_or (dget event ''step'')
                        (sql_dict_value (dget event ''data'') ''step'')),
            er_payload_json = encode_json event\<rparr>) (enum_list events)"

(* sim/api/storage/sqlite.py:837-846 _snapshot_rows *)
definition snapshot_rows :: "string \<Rightarrow> pydict list \<Rightarrow> snapshot_row list" where
  "snapshot_rows run_id snapshots =
     map (\<lambda>(index, snapshot). \<lparr>sr_run_id = run_id, sr_sequence = index,
            sr_step = int_value (dget snapshot ''step''),
            sr_symbol = (case single_key (dget snapshot ''symbols'') of
                           Some k \<Rightarrow> Some k
                         | None \<Rightarrow> string_value (dget snapshot ''symbol'')),
            sr_payload_json = encode_json snapshot\<rparr>) (enum_list snapshots)"

(* sim/api/storage/sqlite.py:849-861 _account_rows *)
definition account_rows :: "string \<Rightarrow> pydict list \<Rightarrow> account_row list" where
  "account_rows run_id accounts =
     map (\<lambda>(index, account). \<lparr>ar_run_id = run_id, ar_sequence = index,
            ar_account_id = string_value (dget account ''account_id''),
            ar_symbol = sql_account_symbol account,
            ar_payload_json = encode_json account\<rparr>) (enum_list accounts)"

(* sim/api/storage/sqlite.py:864-874 _log_rows *)
definition log_rows :: "string \<Rightarrow> pydict list \<Rightarrow> log_row list" where
  "log_rows run_id logs =
     map (\<lambda>(index, entry). \<lparr>lr_run_id = run_id, lr_sequence = index,
            lr_level = string_value (dget entry ''level''),
            lr_message = string_value (dget entry ''message''),
            lr_payload_json = encode_json entry\<rparr>) (enum_list logs)"

section \<open>Reading\<close>

(* sim/api/storage/sqlite.py:761-764 _run_exists *)
definition run_exists :: "string \<Rightarrow> sql_store \<Rightarrow> bool" where
  "run_exists run_id s \<longleftrightarrow> row_of rn_run_id run_id (sq_runs s) \<noteq> None"

text \<open>
  \<open>SELECT payload_json .. WHERE p ORDER BY key LIMIT ? OFFSET ?\<close>; without a limit, \<open>OFFSET\<close> is used
  only when it is positive.
\<close>

(* sim/api/storage/sqlite.py:766-786 _fetch_payloads *)
definition fetch_payloads ::
  "('r \<Rightarrow> bool) \<Rightarrow> ('r \<Rightarrow> 'k :: linorder) \<Rightarrow> ('r \<Rightarrow> pydict) \<Rightarrow> int option \<Rightarrow> int \<Rightarrow> 'r list
   \<Rightarrow> pydict list" where
  "fetch_payloads p key payload limit offset rows =
     (let selected = sort_key key (filter p rows);
          page = (case limit of
                    Some n \<Rightarrow> take (nat (max 0 n)) (drop (nat (max 0 offset)) selected)
                  | None \<Rightarrow> if 0 < offset then drop (nat offset) selected else selected)
      in map payload page)"

text \<open>A clause \<open>column = ?\<close> that is there only when the filter is given; \<open>NULL\<close> never matches.\<close>

definition column_is :: "string option \<Rightarrow> string option \<Rightarrow> bool" where
  "column_is wanted column \<longleftrightarrow> wanted = None \<or> column = wanted"

(* sim/api/storage/sqlite.py:188-214 get_events *)
definition sql_get_events ::
  "string \<Rightarrow> string option \<Rightarrow> string option \<Rightarrow> int option \<Rightarrow> int \<Rightarrow> sql_store \<Rightarrow> pydict list option" where
  "sql_get_events run_id symbol event_type limit offset s =
     (if \<not> run_exists run_id s then None
      else Some (fetch_payloads (\<lambda>r. er_run_id r = run_id \<and> column_is symbol (er_symbol r) \<and>
                   column_is event_type (er_event_type r))
                 er_sequence er_payload_json limit offset (sq_events s)))"

text \<open>\<open>ORDER BY step ASC, sequence ASC\<close>: \<open>NULL\<close> comes first.\<close>

definition step_key :: "int option \<Rightarrow> int \<times> int" where
  "step_key step = (case step of None \<Rightarrow> (0, 0) | Some n \<Rightarrow> (1, n))"

(* sim/api/storage/sqlite.py:216-238 get_snapshots *)
definition sql_get_snapshots ::
  "string \<Rightarrow> string option \<Rightarrow> int option \<Rightarrow> int \<Rightarrow> sql_store \<Rightarrow> pydict list option" where
  "sql_get_snapshots run_id symbol limit offset s =
     (if \<not> run_exists run_id s then None
      else Some (fetch_payloads (\<lambda>r. sr_run_id r = run_id \<and> column_is symbol (sr_symbol r))
                 (\<lambda>r. (step_key (sr_step r), sr_sequence r)) sr_payload_json limit offset
                 (sq_snapshots s)))"

(* sim/api/storage/sqlite.py:240-261 get_accounts *)
definition sql_get_accounts ::
  "string \<Rightarrow> string option \<Rightarrow> string option \<Rightarrow> int option \<Rightarrow> int \<Rightarrow> sql_store \<Rightarrow> pydict list option" where
  "sql_get_accounts run_id account_id symbol limit offset s =
     (if \<not> run_exists run_id s then None
      else Some (fetch_payloads (\<lambda>r. ar_run_id r = run_id \<and> column_is account_id (ar_account_id r) \<and>
                   column_is symbol (ar_symbol r))
                 ar_sequence ar_payload_json limit offset (sq_accounts s)))"

(* sim/api/storage/sqlite.py:263-279 get_logs *)
definition sql_get_logs :: "string \<Rightarrow> int option \<Rightarrow> int \<Rightarrow> sql_store \<Rightarrow> pydict list option" where
  "sql_get_logs run_id limit offset s =
     (if \<not> run_exists run_id s then None
      else Some (fetch_payloads (\<lambda>r. lr_run_id r = run_id) lr_sequence lr_payload_json limit offset
                 (sq_logs s)))"

(* sim/api/storage/sqlite.py:175-186 get_report *)
definition sql_get_report :: "string \<Rightarrow> sql_store \<Rightarrow> pydict option" where
  "sql_get_report run_id s =
     (if \<not> run_exists run_id s then None
      else Some (decode_json
        (case row_of rp_run_id run_id (sq_reports s) of
           Some row \<Rightarrow> Some (rp_report_json row)
         | None \<Rightarrow> (case row_of rn_run_id run_id (sq_runs s) of
                      None \<Rightarrow> None | Some row \<Rightarrow> rn_report_json row))))"

(* sim/api/storage/sqlite.py:327-334 get_verification *)
definition sql_get_verification :: "string \<Rightarrow> sql_store \<Rightarrow> pydict option" where
  "sql_get_verification run_id s =
     (if \<not> run_exists run_id s then None
      else Some (case row_of vr_run_id run_id (sq_verifications s) of
                   None \<Rightarrow> [] | Some row \<Rightarrow> decode_json (Some (vr_report_json row))))"

text \<open>\<open>x or []\<close> and \<open>x or {}\<close> on an optional list.\<close>

definition or_empty :: "'a list option \<Rightarrow> 'a list" where
  "or_empty x = (case x of None \<Rightarrow> [] | Some xs \<Rightarrow> xs)"

(* sim/api/storage/sqlite.py:733-750 _record_from_row *)
definition record_from_row :: "sql_store \<Rightarrow> runs_row \<Rightarrow> run_record" where
  "record_from_row s row =
     (let run_id = rn_run_id row in
      \<lparr>rr_run_id = run_id, rr_run_type = rn_run_type row, rr_status = rn_status row,
       rr_created_at = rn_created_at row, rr_started_at = rn_started_at row,
       rr_completed_at = rn_completed_at row, rr_config = decode_json (Some (rn_config_json row)),
       rr_report = or_empty (sql_get_report run_id s),
       rr_events = or_empty (sql_get_events run_id None None None 0 s),
       rr_snapshots = or_empty (sql_get_snapshots run_id None None 0 s),
       rr_accounts = or_empty (sql_get_accounts run_id None None None 0 s),
       rr_logs = or_empty (sql_get_logs run_id None 0 s),
       rr_error = rn_error row,
       rr_verification = or_empty (sql_get_verification run_id s)\<rparr>)"

(* sim/api/storage/sqlite.py:124-129 get_run *)
definition sql_get_run :: "string \<Rightarrow> sql_store \<Rightarrow> run_record option" where
  "sql_get_run run_id s = map_option (record_from_row s) (row_of rn_run_id run_id (sq_runs s))"

(* sim/api/storage/sqlite.py:131-136 list_runs *)
definition sql_list_runs :: "sql_store \<Rightarrow> run_record list" where
  "sql_list_runs s = map (record_from_row s)
     (sort_key (\<lambda>r. (store_time_key (rn_created_at r), rn_run_id r)) (sq_runs s))"

section \<open>Writing\<close>

text \<open>\<open>INSERT\<close> without a conflict clause: a row with the same primary key raises.\<close>

definition unique_failed :: "string \<Rightarrow> py_exc" where
  "unique_failed column = OtherError ''IntegrityError'' (''UNIQUE constraint failed: '' @ column)"

definition foreign_key_failed :: py_exc where
  "foreign_key_failed = OtherError ''IntegrityError'' ''FOREIGN KEY constraint failed''"

(* sim/api/storage/sqlite.py:45-73 create_run *)
definition sql_create_run ::
  "instant \<Rightarrow> string \<Rightarrow> run_type \<Rightarrow> pydict \<Rightarrow> sql_store \<Rightarrow> sql_store \<times> run_record result" where
  "sql_create_run now run_id run_type config s =
     (let record = new_run now run_id run_type config;
          row = \<lparr>rn_run_id = run_id, rn_run_type = run_type, rn_status = rr_status record,
                 rn_created_at = now, rn_started_at = None, rn_completed_at = None,
                 rn_config_json = encode_json config, rn_report_json = None, rn_error = None\<rparr>
      in if run_exists run_id s then (s, Inl (unique_failed ''runs.run_id''))
         else (s\<lparr>sq_runs := sq_runs s @ [row]\<rparr>, Inr record))"

(* sim/api/storage/sqlite.py:75-105 update_run *)
definition sql_update_run ::
  "string \<Rightarrow> run_status option \<Rightarrow> instant option \<Rightarrow> instant option \<Rightarrow> string option \<Rightarrow> sql_store
   \<Rightarrow> sql_store \<times> run_record option" where
  "sql_update_run run_id status started_at completed_at error s =
     (let s' = (if status = None \<and> started_at = None \<and> completed_at = None \<and> error = None then s
                else s\<lparr>sq_runs := update_where (\<lambda>r. rn_run_id r = run_id)
                       (\<lambda>r. r\<lparr>rn_status := assign status (rn_status r),
                               rn_started_at := or_else started_at (rn_started_at r),
                               rn_completed_at := or_else completed_at (rn_completed_at r),
                               rn_error := or_else error (rn_error r)\<rparr>) (sq_runs s)\<rparr>)
      in (s', sql_get_run run_id s'))"

(* sim/api/storage/sqlite.py:107-122 update_run_status *)
definition sql_update_run_status ::
  "string \<Rightarrow> run_status \<Rightarrow> instant option \<Rightarrow> instant option \<Rightarrow> string option \<Rightarrow> sql_store
   \<Rightarrow> sql_store \<times> run_record option" where
  "sql_update_run_status run_id status started_at completed_at error s =
     sql_update_run run_id (Some status) started_at completed_at error s"

text \<open>\<open>DELETE FROM runs\<close> with the \<open>ON DELETE CASCADE\<close> clauses of the schema.\<close>

(* sim/api/storage/sqlite.py:138-141 delete_run *)
definition sql_delete_run :: "string \<Rightarrow> sql_store \<Rightarrow> sql_store \<times> bool" where
  "sql_delete_run run_id s =
     (s\<lparr>sq_runs := delete_where (\<lambda>r. rn_run_id r = run_id) (sq_runs s),
        sq_verifications := delete_where (\<lambda>r. vr_run_id r = run_id) (sq_verifications s),
        sq_reports := delete_where (\<lambda>r. rp_run_id r = run_id) (sq_reports s),
        sq_events := delete_where (\<lambda>r. er_run_id r = run_id) (sq_events s),
        sq_snapshots := delete_where (\<lambda>r. sr_run_id r = run_id) (sq_snapshots s),
        sq_accounts := delete_where (\<lambda>r. ar_run_id r = run_id) (sq_accounts s),
        sq_logs := delete_where (\<lambda>r. lr_run_id r = run_id) (sq_logs s),
        sq_children := delete_where (\<lambda>r. ch_child_run_id r = run_id) (sq_children s)\<rparr>,
      run_exists run_id s)"

(* sim/api/storage/sqlite.py:752-759 _replace_payload_rows *)
definition replace_payload_rows :: "('r \<Rightarrow> string) \<Rightarrow> string \<Rightarrow> 'r list \<Rightarrow> 'r list \<Rightarrow> 'r list" where
  "replace_payload_rows key run_id rows table = delete_where (\<lambda>r. key r = run_id) table @ rows"

(* sim/api/storage/sqlite.py:143-173 store_result *)
definition sql_store_result ::
  "string \<Rightarrow> pydict \<Rightarrow> pydict list \<Rightarrow> pydict list \<Rightarrow> pydict list \<Rightarrow> pydict list option \<Rightarrow> sql_store
   \<Rightarrow> sql_store \<times> run_record option" where
  "sql_store_result run_id report events snapshots accounts logs s =
     (if sql_get_run run_id s = None then (s, None)
      else
        (let s1 = s\<lparr>sq_reports := upsert rp_run_id (\<lambda>r. r\<lparr>rp_report_json := encode_json report\<rparr>)
                    \<lparr>rp_run_id = run_id, rp_report_json = encode_json report\<rparr> (sq_reports s)\<rparr>;
             s2 = s1\<lparr>sq_runs := update_where (\<lambda>r. rn_run_id r = run_id)
                    (\<lambda>r. r\<lparr>rn_report_json := Some (encode_json report)\<rparr>) (sq_runs s1)\<rparr>;
             s3 = s2\<lparr>sq_events := replace_payload_rows er_run_id run_id
                    (event_rows run_id events) (sq_events s2)\<rparr>;
             s4 = s3\<lparr>sq_snapshots := replace_payload_rows sr_run_id run_id
                    (snapshot_rows run_id snapshots) (sq_snapshots s3)\<rparr>;
             s5 = s4\<lparr>sq_accounts := replace_payload_rows ar_run_id run_id
                    (account_rows run_id accounts) (sq_accounts s4)\<rparr>;
             s6 = (case logs of
                     None \<Rightarrow> s5
                   | Some ls \<Rightarrow> s5\<lparr>sq_logs := replace_payload_rows lr_run_id run_id
                       (log_rows run_id ls) (sq_logs s5)\<rparr>)
         in (s6, sql_get_run run_id s6)))"

text \<open>\<open>SELECT COALESCE(MAX(sequence), -1) + 1\<close>.\<close>

definition next_sequence :: "string \<Rightarrow> log_row list \<Rightarrow> nat" where
  "next_sequence run_id rows =
     (case map lr_sequence (filter (\<lambda>r. lr_run_id r = run_id) rows) of
        [] \<Rightarrow> 0 | n # ns \<Rightarrow> Suc (fold max ns n))"

(* sim/api/storage/sqlite.py:281-303 append_log *)
definition sql_append_log :: "string \<Rightarrow> pydict \<Rightarrow> sql_store \<Rightarrow> sql_store \<times> bool" where
  "sql_append_log run_id entry s =
     (if \<not> run_exists run_id s then (s, False)
      else
        (let row = \<lparr>lr_run_id = run_id, lr_sequence = next_sequence run_id (sq_logs s),
                    lr_level = string_value (py_or (dget entry ''level'') (dget entry ''category'')),
                    lr_message = string_value (py_or (dget entry ''message'') (dget entry ''type'')),
                    lr_payload_json = encode_json entry\<rparr>
         in (s\<lparr>sq_logs := sq_logs s @ [row]\<rparr>, True)))"

(* sim/api/storage/sqlite.py:305-325 store_verification *)
definition sql_store_verification ::
  "string \<Rightarrow> pydict \<Rightarrow> sql_store \<Rightarrow> sql_store \<times> pydict option" where
  "sql_store_verification run_id report s =
     (if \<not> run_exists run_id s then (s, None)
      else
        (let verified_at = string_value (dget report ''verified_at'');
             status = the (str_or (string_value (dget report ''status'')) (Some ''failed''));
             s' = s\<lparr>sq_verifications := upsert vr_run_id
                    (\<lambda>r. r\<lparr>vr_verified_at := verified_at, vr_status := status,
                            vr_report_json := encode_json report\<rparr>)
                    \<lparr>vr_run_id = run_id, vr_verified_at = verified_at, vr_status = status,
                     vr_report_json = encode_json report\<rparr> (sq_verifications s)\<rparr>
         in (s', sql_get_verification run_id s')))"

section \<open>Tournaments\<close>

(* sim/api/storage/sqlite.py:720-731 _tournament_from_row *)
definition tournament_from_row :: "tournament_row \<Rightarrow> tournament_record" where
  "tournament_from_row row =
     \<lparr>tr_tournament_id = tn_tournament_id row, tr_tournament_type = tn_tournament_type row,
      tr_status = tn_status row, tr_created_at = tn_created_at row,
      tr_started_at = tn_started_at row, tr_completed_at = tn_completed_at row,
      tr_config = decode_json (Some (tn_config_json row)),
      tr_report = decode_json (tn_report_json row), tr_error = tn_error row\<rparr>"

(* sim/api/storage/sqlite.py:402-407 get_tournament *)
definition sql_get_tournament :: "string \<Rightarrow> sql_store \<Rightarrow> tournament_record option" where
  "sql_get_tournament tournament_id s =
     map_option tournament_from_row (row_of tn_tournament_id tournament_id (sq_tournaments s))"

(* sim/api/storage/sqlite.py:336-364 create_tournament *)
definition sql_create_tournament ::
  "instant \<Rightarrow> string \<Rightarrow> string \<Rightarrow> pydict \<Rightarrow> sql_store \<Rightarrow> sql_store \<times> tournament_record result" where
  "sql_create_tournament now tournament_id tournament_type config s =
     (let record = new_tournament now tournament_id tournament_type config;
          row = \<lparr>tn_tournament_id = tournament_id, tn_tournament_type = tournament_type,
                 tn_status = tr_status record, tn_created_at = now, tn_started_at = None,
                 tn_completed_at = None, tn_config_json = encode_json config,
                 tn_report_json = None, tn_error = None\<rparr>
      in if sql_get_tournament tournament_id s \<noteq> None
         then (s, Inl (unique_failed ''tournaments.tournament_id''))
         else (s\<lparr>sq_tournaments := sq_tournaments s @ [row]\<rparr>, Inr record))"

(* sim/api/storage/sqlite.py:366-400 update_tournament *)
definition sql_update_tournament ::
  "string \<Rightarrow> run_status option \<Rightarrow> instant option \<Rightarrow> instant option \<Rightarrow> pydict option \<Rightarrow> string option
   \<Rightarrow> sql_store \<Rightarrow> sql_store \<times> tournament_record option" where
  "sql_update_tournament tournament_id status started_at completed_at report error s =
     (let s' = (if status = None \<and> started_at = None \<and> completed_at = None \<and> report = None \<and> error = None
                then s
                else s\<lparr>sq_tournaments := update_where (\<lambda>r. tn_tournament_id r = tournament_id)
                       (\<lambda>r. r\<lparr>tn_status := assign status (tn_status r),
                               tn_started_at := or_else started_at (tn_started_at r),
                               tn_completed_at := or_else completed_at (tn_completed_at r),
                               tn_report_json := or_else (map_option encode_json report) (tn_report_json r),
                               tn_error := or_else error (tn_error r)\<rparr>) (sq_tournaments s)\<rparr>)
      in (s', sql_get_tournament tournament_id s'))"

(* sim/api/storage/sqlite.py:409-414 list_tournaments *)
definition sql_list_tournaments :: "sql_store \<Rightarrow> tournament_record list" where
  "sql_list_tournaments s = map tournament_from_row
     (sort_key (\<lambda>r. (store_time_key (tn_created_at r), tn_tournament_id r)) (sq_tournaments s))"

text \<open>
  The primary key of \<open>tournament_children\<close> is the pair of tournament and child key: a second child
  with the same key replaces the first.
\<close>

(* sim/api/storage/sqlite.py:416-437 link_tournament_child *)
definition sql_link_child ::
  "string \<Rightarrow> string \<Rightarrow> string \<Rightarrow> run_type \<Rightarrow> pydict \<Rightarrow> sql_store \<Rightarrow> sql_store \<times> unit result" where
  "sql_link_child tournament_id child_run_id child_key run_type dimensions s =
     (if sql_get_tournament tournament_id s = None \<or> \<not> run_exists child_run_id s
      then (s, Inl foreign_key_failed)
      else (s\<lparr>sq_children := upsert (\<lambda>r. (ch_tournament_id r, ch_child_key r))
               (\<lambda>r. r\<lparr>ch_child_run_id := child_run_id, ch_run_type := run_type,
                       ch_dimensions_json := encode_json dimensions\<rparr>)
               \<lparr>ch_tournament_id = tournament_id, ch_child_run_id = child_run_id,
                ch_child_key = child_key, ch_run_type = run_type,
                ch_dimensions_json = encode_json dimensions\<rparr> (sq_children s)\<rparr>, Inr ()))"

(* sim/api/storage/sqlite.py:439-460 list_tournament_children *)
definition sql_list_children :: "string \<Rightarrow> sql_store \<Rightarrow> tournament_child list option" where
  "sql_list_children tournament_id s =
     (if sql_get_tournament tournament_id s = None then None
      else Some (map (\<lambda>row. \<lparr>tc_tournament_id = ch_tournament_id row,
               tc_child_run_id = ch_child_run_id row, tc_child_key = ch_child_key row,
               tc_run_type = ch_run_type row,
               tc_dimensions = decode_json (Some (ch_dimensions_json row))\<rparr>)
             (sort_key ch_child_key
               (filter (\<lambda>r. ch_tournament_id r = tournament_id) (sq_children s)))))"

section \<open>The backend as an implementation of the protocol\<close>

definition sql_ops :: "sql_store store_ops" where
  "sql_ops =
     \<lparr>so_create_run = sql_create_run, so_update_run = sql_update_run, so_get_run = sql_get_run,
      so_list_runs = sql_list_runs, so_delete_run = sql_delete_run,
      so_store_result = sql_store_result, so_get_report = sql_get_report,
      so_get_events = sql_get_events, so_get_snapshots = sql_get_snapshots,
      so_get_accounts = sql_get_accounts, so_get_logs = sql_get_logs,
      so_append_log = sql_append_log, so_store_verification = sql_store_verification,
      so_get_verification = sql_get_verification, so_create_tournament = sql_create_tournament,
      so_update_tournament = sql_update_tournament, so_get_tournament = sql_get_tournament,
      so_list_tournaments = sql_list_tournaments, so_link_child = sql_link_child,
      so_list_children = sql_list_children\<rparr>"

end
