(* ===== verification/Sqlite_Laws.thy ===== *)
theory Sqlite_Laws
  imports Sqlite_Store
begin

text \<open>
  The durable backend keeps the laws of the storage contract. The proof looks at the tables through
  one run: its row, and for each artifact table the payloads of its rows in the order of the query.
\<close>

section \<open>Stable sorting\<close>

lemma insort_key_map:
  "insort_key f (g x) (map g xs) = map g (insort_key (\<lambda>y. f (g y)) x xs)"
  by (induction xs) simp_all

lemma sort_key_map: "sort_key f (map g xs) = map g (sort_key (\<lambda>y. f (g y)) xs)"
  by (induction xs) (simp_all add: insort_key_map)

lemma insort_key_pair:
  assumes "\<forall>y \<in> set ys. g x \<le> g y"
  shows "insort_key (\<lambda>y. (f y, g y)) x ys = insort_key f x ys"
  using assms by (induction ys) auto

text \<open>Sorting by a second column does nothing to a list already in its order.\<close>

lemma sort_key_pair:
  "sorted (map g xs) \<Longrightarrow> sort_key (\<lambda>y. (f y, g y)) xs = sort_key f xs"
  by (induction xs) (simp_all add: insort_key_pair)

lemma insort_key_snoc:
  "f a \<le> f x \<Longrightarrow> insort_key f a (ys @ [x]) = insort_key f a ys @ [x]"
  by (induction ys) simp_all

lemma sort_key_snoc:
  "\<forall>y \<in> set xs. f y \<le> f x \<Longrightarrow> sort_key f (xs @ [x]) = sort_key f xs @ [x]"
  by (induction xs) (simp_all add: insort_key_snoc)

section \<open>The payloads of one run\<close>

definition payloads :: "('r \<Rightarrow> string) \<Rightarrow> ('r \<Rightarrow> 'k :: linorder) \<Rightarrow> ('r \<Rightarrow> pydict) \<Rightarrow> string \<Rightarrow> 'r list
   \<Rightarrow> pydict list" where
  "payloads key seq payload i rows = map payload (sort_key seq (filter (\<lambda>r. key r = i) rows))"

lemma payloads_replace:
  assumes "\<forall>r \<in> set new. key r = run_id"
  shows "payloads key seq payload i (replace_payload_rows key run_id new rows) =
    (if i = run_id then map payload (sort_key seq new) else payloads key seq payload i rows)"
proof -
  have "filter (\<lambda>r. key r = i) (delete_where (\<lambda>r. key r = run_id) rows) =
    (if i = run_id then [] else filter (\<lambda>r. key r = i) rows)"
    by (auto simp: delete_where_def intro: filter_cong)
  moreover have "filter (\<lambda>r. key r = i) new = (if i = run_id then new else [])"
    using assms by auto
  ultimately show ?thesis by (simp add: payloads_def replace_payload_rows_def)
qed

lemma payloads_delete:
  "payloads key seq payload i (delete_where (\<lambda>r. key r = run_id) rows) =
    (if i = run_id then [] else payloads key seq payload i rows)"
  by (auto simp: payloads_def delete_where_def intro!: arg_cong [of _ _ "map payload"]
      arg_cong [of _ _ "sort_key seq"] filter_cong)

lemma payloads_none: "i \<notin> key ` set rows \<Longrightarrow> payloads key seq payload i rows = []"
proof -
  assume "i \<notin> key ` set rows"
  then have "filter (\<lambda>r. key r = i) rows = []" by (auto simp: filter_empty_conv)
  then show ?thesis by (simp add: payloads_def)
qed

lemma fetch_all:
  "fetch_payloads (\<lambda>r. key r = i) seq payload limit offset rows =
    slice_from offset limit (payloads key seq payload i rows)"
  by (cases limit) (auto simp: fetch_payloads_def payloads_def slice_from_def Let_def take_map drop_map)

lemma column_is_None [simp]: "column_is None c"
  by (simp add: column_is_def)

text \<open>The rows written for a list of artifacts come back as the encoded artifacts.\<close>

lemma map_enum_snd:
  fixes f :: "'b \<Rightarrow> 'a"
  shows "map (\<lambda>(i, x). f x) (enum_list xs) = map f xs"
proof -
  have "map (\<lambda>(i, x). f x) ys = map f (map snd ys)" for ys :: "(nat \<times> 'b) list"
    by (induction ys) auto
  from this [of "enum_list xs"] show ?thesis by (simp only: map_snd_enum_list)
qed

lemma map_enum_fst: "map (\<lambda>(i, x). i) (enum_list xs) = [0..<length xs]"
  by (simp add: split_def)

lemma event_rows_payloads:
  "map er_payload_json (sort_key er_sequence (event_rows run_id events)) = map encode_json events"
proof -
  have "map er_sequence (event_rows run_id events) = [0..<length events]"
    by (simp add: event_rows_def comp_def split_def)
  then have "sort_key er_sequence (event_rows run_id events) = event_rows run_id events"
    by (simp add: sort_key_id_if_sorted)
  then show ?thesis
    using map_enum_snd [of encode_json events] by (simp add: event_rows_def comp_def split_def)
qed

lemma account_rows_payloads:
  "map ar_payload_json (sort_key ar_sequence (account_rows run_id accounts)) = map encode_json accounts"
proof -
  have "map ar_sequence (account_rows run_id accounts) = [0..<length accounts]"
    by (simp add: account_rows_def comp_def split_def)
  then have "sort_key ar_sequence (account_rows run_id accounts) = account_rows run_id accounts"
    by (simp add: sort_key_id_if_sorted)
  then show ?thesis
    using map_enum_snd [of encode_json accounts] by (simp add: account_rows_def comp_def split_def)
qed

lemma log_rows_payloads:
  "map lr_payload_json (sort_key lr_sequence (log_rows run_id logs)) = map encode_json logs"
proof -
  have "map lr_sequence (log_rows run_id logs) = [0..<length logs]"
    by (simp add: log_rows_def comp_def split_def)
  then have "sort_key lr_sequence (log_rows run_id logs) = log_rows run_id logs"
    by (simp add: sort_key_id_if_sorted)
  then show ?thesis
    using map_enum_snd [of encode_json logs] by (simp add: log_rows_def comp_def split_def)
qed

text \<open>Snapshots come back in the order of their steps, those without a step first.\<close>

definition snapshot_order :: "pydict list \<Rightarrow> pydict list" where
  "snapshot_order snapshots = sort_key (\<lambda>d. step_key (int_value (dget d ''step''))) snapshots"

lemma snapshot_rows_payloads:
  "map sr_payload_json (sort_key (\<lambda>r. (step_key (sr_step r), sr_sequence r)) (snapshot_rows run_id snapshots)) =
    map encode_json (snapshot_order snapshots)"
proof -
  let ?row = "\<lambda>(index, snapshot). \<lparr>sr_run_id = run_id, sr_sequence = index,
            sr_step = int_value (dget snapshot ''step''),
            sr_symbol = (case single_key (dget snapshot ''symbols'') of
                           Some k \<Rightarrow> Some k
                         | None \<Rightarrow> string_value (dget snapshot ''symbol'')),
            sr_payload_json = encode_json snapshot\<rparr>"
  let ?step = "\<lambda>d. step_key (int_value (dget d ''step''))"
  have "map sr_sequence (snapshot_rows run_id snapshots) = [0..<length snapshots]"
    by (simp add: snapshot_rows_def comp_def split_def)
  then have "sort_key (\<lambda>r. (step_key (sr_step r), sr_sequence r)) (snapshot_rows run_id snapshots) =
      sort_key (\<lambda>r. step_key (sr_step r)) (snapshot_rows run_id snapshots)"
    by (simp add: sort_key_pair)
  also have "\<dots> = map ?row (sort_key (\<lambda>p. ?step (snd p)) (enum_list snapshots))"
    by (simp add: snapshot_rows_def sort_key_map split_def)
  finally have "map sr_payload_json (sort_key (\<lambda>r. (step_key (sr_step r), sr_sequence r))
        (snapshot_rows run_id snapshots)) =
      map encode_json (map snd (sort_key (\<lambda>p. ?step (snd p)) (enum_list snapshots)))"
    by (simp add: split_def)
  also have "map snd (sort_key (\<lambda>p. ?step (snd p)) (enum_list snapshots)) = sort_key ?step snapshots"
    using sort_key_map [of ?step snd "enum_list snapshots"] by simp
  finally show ?thesis by (simp add: snapshot_order_def)
qed

lemma rows_run_id:
  "\<forall>r \<in> set (event_rows run_id events). er_run_id r = run_id"
  "\<forall>r \<in> set (snapshot_rows run_id snapshots). sr_run_id r = run_id"
  "\<forall>r \<in> set (account_rows run_id accounts). ar_run_id r = run_id"
  "\<forall>r \<in> set (log_rows run_id logs). lr_run_id r = run_id"
  by (auto simp: event_rows_def snapshot_rows_def account_rows_def log_rows_def)

lemma fold_max_ge: "(n :: nat) \<le> fold max ns n" "m \<in> set ns \<Longrightarrow> m \<le> fold max ns n"
proof (induction ns arbitrary: n)
  case (Cons a ns)
  { case 1 show ?case using Cons(1) [of "max a n"] by simp }
  { case 2 then show ?case using Cons(1) [of "max a n"] Cons(2) [of "max a n"] by auto }
qed simp_all

lemma next_sequence_greater:
  "r \<in> set rows \<Longrightarrow> lr_run_id r = run_id \<Longrightarrow> lr_sequence r < next_sequence run_id rows"
proof -
  assume "r \<in> set rows" "lr_run_id r = run_id"
  then have "lr_sequence r \<in> set (map lr_sequence (filter (\<lambda>r. lr_run_id r = run_id) rows))"
    by auto
  moreover have "m \<in> set ms \<Longrightarrow> m < (case ms of [] \<Rightarrow> 0 | n # ns \<Rightarrow> Suc (fold max ns n))" for m ms
    using fold_max_ge by (cases ms) (auto simp: less_Suc_eq_le)
  ultimately show ?thesis
    unfolding next_sequence_def by blast
qed

lemma logs_append:
  assumes "lr_run_id row = run_id" and "lr_sequence row = next_sequence run_id rows"
  shows "payloads lr_run_id lr_sequence lr_payload_json i (rows @ [row]) =
    (if i = run_id then payloads lr_run_id lr_sequence lr_payload_json i rows @ [lr_payload_json row]
     else payloads lr_run_id lr_sequence lr_payload_json i rows)"
proof -
  have "\<forall>y \<in> set (filter (\<lambda>r. lr_run_id r = run_id) rows). lr_sequence y \<le> lr_sequence row"
    using next_sequence_greater assms by (auto intro: less_imp_le)
  then show ?thesis using assms(1) by (simp add: payloads_def sort_key_snoc)
qed

section \<open>A run seen through the tables\<close>

definition report_of :: "sql_store \<Rightarrow> runs_row \<Rightarrow> pydict" where
  "report_of s row = decode_json (case row_of rp_run_id (rn_run_id row) (sq_reports s) of
     Some rep \<Rightarrow> Some (rp_report_json rep) | None \<Rightarrow> rn_report_json row)"

definition verification_of :: "sql_store \<Rightarrow> string \<Rightarrow> pydict" where
  "verification_of s i = (case row_of vr_run_id i (sq_verifications s) of
     None \<Rightarrow> [] | Some row \<Rightarrow> vr_report_json row)"

definition view_record :: "sql_store \<Rightarrow> runs_row \<Rightarrow> run_record" where
  "view_record s row =
     (let i = rn_run_id row in
      \<lparr>rr_run_id = i, rr_run_type = rn_run_type row, rr_status = rn_status row,
       rr_created_at = rn_created_at row, rr_started_at = rn_started_at row,
       rr_completed_at = rn_completed_at row, rr_config = rn_config_json row,
       rr_report = report_of s row,
       rr_events = payloads er_run_id er_sequence er_payload_json i (sq_events s),
       rr_snapshots = payloads sr_run_id (\<lambda>r. (step_key (sr_step r), sr_sequence r)) sr_payload_json i
         (sq_snapshots s),
       rr_accounts = payloads ar_run_id ar_sequence ar_payload_json i (sq_accounts s),
       rr_logs = payloads lr_run_id lr_sequence lr_payload_json i (sq_logs s),
       rr_error = rn_error row,
       rr_verification = verification_of s i\<rparr>)"

lemma run_exists_row: "row_of rn_run_id i (sq_runs s) = Some row \<Longrightarrow> run_exists i s"
  by (simp add: run_exists_def)

lemma sql_reads:
  assumes "row_of rn_run_id i (sq_runs s) = Some row"
  shows "sql_get_report i s = Some (report_of s row)"
    and "sql_get_events i None None lmt off s =
      Some (slice_from off lmt (payloads er_run_id er_sequence er_payload_json i (sq_events s)))"
    and "sql_get_snapshots i None lmt off s =
      Some (slice_from off lmt (payloads sr_run_id (\<lambda>r. (step_key (sr_step r), sr_sequence r))
        sr_payload_json i (sq_snapshots s)))"
    and "sql_get_accounts i None None lmt off s =
      Some (slice_from off lmt (payloads ar_run_id ar_sequence ar_payload_json i (sq_accounts s)))"
    and "sql_get_logs i lmt off s =
      Some (slice_from off lmt (payloads lr_run_id lr_sequence lr_payload_json i (sq_logs s)))"
    and "sql_get_verification i s = Some (verification_of s i)"
  using run_exists_row [OF assms] row_of_Some [OF assms] assms
  by (auto simp: sql_get_report_def sql_get_events_def sql_get_snapshots_def sql_get_accounts_def
      sql_get_logs_def sql_get_verification_def report_of_def verification_of_def fetch_all
      decode_json_def split: option.splits)

lemma record_from_row_view:
  assumes "row_of rn_run_id i (sq_runs s) = Some row"
  shows "record_from_row s row = view_record s row"
  using sql_reads [OF assms] row_of_Some [OF assms]
  by (simp add: record_from_row_def view_record_def Let_def or_empty_def decode_json_def)

lemma sql_get_run_view:
  "sql_get_run i s = map_option (view_record s) (row_of rn_run_id i (sq_runs s))"
  by (cases "row_of rn_run_id i (sq_runs s)") (simp_all add: sql_get_run_def record_from_row_view)

lemma sql_get_run_exists: "sql_get_run i s \<noteq> None \<longleftrightarrow> run_exists i s"
  by (simp add: sql_get_run_def run_exists_def)

lemma sql_get_run_id: "sql_get_run i s = Some r \<Longrightarrow> rr_run_id r = i"
  by (auto simp: sql_get_run_view view_record_def Let_def dest: row_of_Some)

text \<open>The invariant: run ids are unique, and the artifact tables only speak of existing runs.\<close>

definition sql_ok :: "sql_store \<Rightarrow> bool" where
  "sql_ok s \<longleftrightarrow>
     (let ids = rn_run_id ` set (sq_runs s) in
      distinct (map rn_run_id (sq_runs s)) \<and>
      vr_run_id ` set (sq_verifications s) \<subseteq> ids \<and> rp_run_id ` set (sq_reports s) \<subseteq> ids \<and>
      er_run_id ` set (sq_events s) \<subseteq> ids \<and> sr_run_id ` set (sq_snapshots s) \<subseteq> ids \<and>
      ar_run_id ` set (sq_accounts s) \<subseteq> ids \<and> lr_run_id ` set (sq_logs s) \<subseteq> ids \<and>
      distinct (map bn_benchmark_id (sq_benchmarks s)))"

lemma sql_ok_empty: "sql_ok empty_sql"
  by (simp add: sql_ok_def empty_sql_def)

lemma run_exists_iff: "run_exists i s \<longleftrightarrow> i \<in> rn_run_id ` set (sq_runs s)"
  using row_of_None [of rn_run_id i "sq_runs s"] by (auto simp: run_exists_def)

text \<open>Nothing is left of a run that does not exist.\<close>

lemma sql_ok_absent:
  assumes "sql_ok s" and "\<not> run_exists i s"
  shows "row_of rp_run_id i (sq_reports s) = None" "row_of vr_run_id i (sq_verifications s) = None"
    "payloads er_run_id er_sequence er_payload_json i (sq_events s) = []"
    "payloads sr_run_id sseq sr_payload_json i (sq_snapshots s) = []"
    "payloads ar_run_id ar_sequence ar_payload_json i (sq_accounts s) = []"
    "payloads lr_run_id lr_sequence lr_payload_json i (sq_logs s) = []"
  using assms unfolding sql_ok_def Let_def run_exists_iff
  by (auto simp: row_of_None intro!: payloads_none)

lemma sql_create_laws:
  assumes "sql_ok s" and "sql_get_run run_id s = None"
  shows "case sql_create_run now run_id run_type config s of
     (s', res) \<Rightarrow> sql_ok s' \<and> res = Inr (new_run now run_id run_type config) \<and>
       (\<forall>i. sql_get_run i s' = (if i = run_id then Some (new_run now run_id run_type (encode_json config))
          else sql_get_run i s))"
proof -
  have absent: "\<not> run_exists run_id s" using assms(2) sql_get_run_exists by blast
  then have ok: "sql_ok (fst (sql_create_run now run_id run_type config s))"
    using assms(1) by (auto simp: sql_create_run_def Let_def sql_ok_def run_exists_iff)
  have none: "row_of rn_run_id run_id (sq_runs s) = None"
    using absent by (simp add: run_exists_def)
  have "sql_get_run i (fst (sql_create_run now run_id run_type config s)) =
     (if i = run_id then Some (new_run now run_id run_type (encode_json config)) else sql_get_run i s)" for i
    using absent none sql_ok_absent [OF assms(1) absent]
    by (cases "row_of rn_run_id i (sq_runs s)")
      (auto simp: sql_create_run_def Let_def sql_get_run_view row_of_append view_record_def report_of_def
        verification_of_def new_run_def decode_json_def encode_json_def)
  with ok absent show ?thesis
    by (cases "sql_create_run now run_id run_type config s") (auto simp: sql_create_run_def Let_def)
qed

text \<open>An \<open>UPDATE runs SET .. WHERE run_id = ?\<close>.\<close>

lemma sql_get_update_runs:
  assumes "\<And>r. rn_run_id (f r) = rn_run_id r"
  shows "sql_get_run i (s\<lparr>sq_runs := update_where (\<lambda>r. rn_run_id r = run_id) f (sq_runs s)\<rparr>) =
    (if i = run_id then map_option (\<lambda>r. view_record s (f r)) (row_of rn_run_id i (sq_runs s))
     else sql_get_run i s)"
proof -
  have "row_of rn_run_id i (update_where (\<lambda>r. rn_run_id r = run_id) f (sq_runs s)) =
    map_option (\<lambda>r. if rn_run_id r = run_id then f r else r) (row_of rn_run_id i (sq_runs s))"
    using assms by (simp add: row_of_update_where)
  then show ?thesis
    by (cases "row_of rn_run_id i (sq_runs s)")
      (auto simp: sql_get_run_view view_record_def report_of_def verification_of_def Let_def
        dest: row_of_Some)
qed

lemma sql_ok_update_runs:
  assumes "sql_ok s" and "\<And>r. rn_run_id (f r) = rn_run_id r"
  shows "sql_ok (s\<lparr>sq_runs := update_where p f (sq_runs s)\<rparr>)"
proof -
  have "map rn_run_id (update_where p f (sq_runs s)) = map rn_run_id (sq_runs s)"
    using assms(2) by (simp add: map_update_where)
  moreover from this have "rn_run_id ` set (update_where p f (sq_runs s)) = rn_run_id ` set (sq_runs s)"
    by (metis image_set)
  ultimately show ?thesis using assms(1) by (simp add: sql_ok_def)
qed

lemma sql_update_laws:
  assumes "sql_ok s"
  shows "case sql_update_run run_id st sa ca err s of
     (s', res) \<Rightarrow> sql_ok s' \<and> res = sql_get_run run_id s' \<and>
       (\<forall>i. sql_get_run i s' = (if i = run_id then map_option (apply_update st sa ca err) (sql_get_run i s)
          else sql_get_run i s))"
proof (cases "st = None \<and> sa = None \<and> ca = None \<and> err = None")
  case True
  have "apply_update None None None None = (\<lambda>r. r)"
    by (simp add: apply_update_def fun_eq_iff)
  with True assms show ?thesis
    by (simp add: sql_update_run_def option.map_ident)
next
  case False
  let ?f = "\<lambda>r. r\<lparr>rn_status := assign st (rn_status r), rn_started_at := or_else sa (rn_started_at r),
    rn_completed_at := or_else ca (rn_completed_at r), rn_error := or_else err (rn_error r)\<rparr>"
  let ?s = "s\<lparr>sq_runs := update_where (\<lambda>r. rn_run_id r = run_id) ?f (sq_runs s)\<rparr>"
  have eq: "sql_update_run run_id st sa ca err s = (?s, sql_get_run run_id ?s)"
    using False by (auto simp: sql_update_run_def Let_def)
  have "view_record s (?f r) = apply_update st sa ca err (view_record s r)" for r
    by (simp add: view_record_def apply_update_def report_of_def Let_def split: option.split)
  then have "sql_get_run i ?s = (if i = run_id then map_option (apply_update st sa ca err) (sql_get_run i s)
      else sql_get_run i s)" for i
    by (subst sql_get_update_runs) (simp_all add: sql_get_run_view option.map_comp comp_def)
  then show ?thesis
    using sql_ok_update_runs [OF assms, of ?f] by (simp add: eq)
qed

subsection \<open>Results, logs, verifications, deletion\<close>

lemma row_of_upsert_other:
  assumes "\<And>r. key (f r) = key r" "i \<noteq> key new"
  shows "row_of key i (upsert key f new rows) = row_of key i rows"
  using assms by (simp add: row_of_upsert)

text \<open>The state after \<open>store_result\<close>, table by table.\<close>

lemma store_result_state:
  fixes report events snapshots accounts logs
  assumes "run_exists run_id s"
  defines "s' \<equiv> fst (sql_store_result run_id report events snapshots accounts logs s)"
  shows "sq_runs s' = update_where (\<lambda>r. rn_run_id r = run_id)
      (\<lambda>r. r\<lparr>rn_report_json := Some (encode_json report)\<rparr>) (sq_runs s)"
    and "sq_reports s' = upsert rp_run_id (\<lambda>r. r\<lparr>rp_report_json := encode_json report\<rparr>)
      \<lparr>rp_run_id = run_id, rp_report_json = encode_json report\<rparr> (sq_reports s)"
    and "sq_events s' = replace_payload_rows er_run_id run_id (event_rows run_id events) (sq_events s)"
    and "sq_snapshots s' = replace_payload_rows sr_run_id run_id (snapshot_rows run_id snapshots)
      (sq_snapshots s)"
    and "sq_accounts s' = replace_payload_rows ar_run_id run_id (account_rows run_id accounts)
      (sq_accounts s)"
    and "sq_logs s' = (case logs of None \<Rightarrow> sq_logs s
      | Some ls \<Rightarrow> replace_payload_rows lr_run_id run_id (log_rows run_id ls) (sq_logs s))"
    and "sq_verifications s' = sq_verifications s"
    and "sq_benchmarks s' = sq_benchmarks s"
    and "snd (sql_store_result run_id report events snapshots accounts logs s) = sql_get_run run_id s'"
proof -
  have "sql_get_run run_id s \<noteq> None" using assms(1) sql_get_run_exists by blast
  then show "sq_runs s' = update_where (\<lambda>r. rn_run_id r = run_id)
      (\<lambda>r. r\<lparr>rn_report_json := Some (encode_json report)\<rparr>) (sq_runs s)"
    and "sq_reports s' = upsert rp_run_id (\<lambda>r. r\<lparr>rp_report_json := encode_json report\<rparr>)
      \<lparr>rp_run_id = run_id, rp_report_json = encode_json report\<rparr> (sq_reports s)"
    and "sq_events s' = replace_payload_rows er_run_id run_id (event_rows run_id events) (sq_events s)"
    and "sq_snapshots s' = replace_payload_rows sr_run_id run_id (snapshot_rows run_id snapshots)
      (sq_snapshots s)"
    and "sq_accounts s' = replace_payload_rows ar_run_id run_id (account_rows run_id accounts)
      (sq_accounts s)"
    and "sq_logs s' = (case logs of None \<Rightarrow> sq_logs s
      | Some ls \<Rightarrow> replace_payload_rows lr_run_id run_id (log_rows run_id ls) (sq_logs s))"
    and "sq_verifications s' = sq_verifications s"
    and "sq_benchmarks s' = sq_benchmarks s"
    and "snd (sql_store_result run_id report events snapshots accounts logs s) = sql_get_run run_id s'"
    by (auto simp: sql_store_result_def Let_def s'_def split: option.split)
qed

lemma replace_ids:
  assumes "\<forall>r \<in> set new. key r = run_id" and "key ` set rows \<subseteq> ids" and "run_id \<in> ids"
  shows "key ` set (replace_payload_rows key run_id new rows) \<subseteq> ids"
  using assms by (auto simp: replace_payload_rows_def)

lemma upsert_ids:
  assumes "\<And>r. key (f r) = key r" and "key ` set rows \<subseteq> ids" and "key new \<in> ids"
  shows "key ` set (upsert key f new rows) \<subseteq> ids"
  using assms by (auto dest!: in_upsert)

lemma sql_store_result_laws:
  assumes ok: "sql_ok s"
  shows "case sql_store_result run_id report events snapshots accounts logs s of
     (s', res) \<Rightarrow> sql_ok s' \<and> res = sql_get_run run_id s' \<and>
       (\<forall>i. sql_get_run i s' = (if i = run_id
          then map_option (\<lambda>r. r\<lparr>rr_report := encode_json report, rr_events := map encode_json events,
                 rr_snapshots := map encode_json (snapshot_order snapshots),
                 rr_accounts := map encode_json accounts,
                 rr_logs := (case logs of None \<Rightarrow> rr_logs r | Some ls \<Rightarrow> map encode_json ls)\<rparr>)
               (sql_get_run i s)
          else sql_get_run i s))"
proof (cases "run_exists run_id s")
  case False
  then have "sql_get_run run_id s = None" using sql_get_run_exists by blast
  then show ?thesis using ok by (auto simp: sql_store_result_def)
next
  case True
  let ?res = "sql_store_result run_id report events snapshots accounts logs s"
  note st = store_result_state [OF True, of report events snapshots accounts logs]
  have row: "row_of rn_run_id i (sq_runs (fst ?res)) =
      map_option (\<lambda>r. if rn_run_id r = run_id then r\<lparr>rn_report_json := Some (encode_json report)\<rparr> else r)
        (row_of rn_run_id i (sq_runs s))" for i
    unfolding st(1) by (rule row_of_update_where) simp
  have rep: "row_of rp_run_id i (sq_reports (fst ?res)) =
      (if i = run_id then Some (case row_of rp_run_id i (sq_reports s) of
           None \<Rightarrow> \<lparr>rp_run_id = run_id, rp_report_json = encode_json report\<rparr>
         | Some r \<Rightarrow> r\<lparr>rp_report_json := encode_json report\<rparr>)
       else row_of rp_run_id i (sq_reports s))" for i
    unfolding st(2) by (subst row_of_upsert) simp_all
  have report: "rp_report_json (case row_of rp_run_id i (sq_reports s) of
           None \<Rightarrow> \<lparr>rp_run_id = run_id, rp_report_json = encode_json report\<rparr>
         | Some r \<Rightarrow> r\<lparr>rp_report_json := encode_json report\<rparr>) = encode_json report" for i
    by (simp split: option.split)
  note loads = payloads_replace [OF rows_run_id(1)] payloads_replace [OF rows_run_id(2)]
    payloads_replace [OF rows_run_id(3)] payloads_replace [OF rows_run_id(4)]
  have get: "sql_get_run i (fst ?res) = (if i = run_id
          then map_option (\<lambda>r. r\<lparr>rr_report := encode_json report, rr_events := map encode_json events,
                 rr_snapshots := map encode_json (snapshot_order snapshots),
                 rr_accounts := map encode_json accounts,
                 rr_logs := (case logs of None \<Rightarrow> rr_logs r | Some ls \<Rightarrow> map encode_json ls)\<rparr>)
               (sql_get_run i s)
          else sql_get_run i s)" for i
  proof (cases "row_of rn_run_id i (sq_runs s)")
    case None
    then show ?thesis by (cases "i = run_id") (simp_all add: sql_get_run_view row)
  next
    case (Some r)
    then have "rn_run_id r = i" by (auto dest: row_of_Some)
    with Some show ?thesis
      by (cases "i = run_id")
        (simp_all add: sql_get_run_view row view_record_def Let_def report_of_def rep report
          decode_json_def verification_of_def st(3-7) loads event_rows_payloads
          snapshot_rows_payloads account_rows_payloads log_rows_payloads split: option.split)
  qed
  have ids2: "map rn_run_id (sq_runs (fst ?res)) = map rn_run_id (sq_runs s)"
    unfolding st(1) by (rule map_update_where) simp
  then have ids1: "rn_run_id ` set (sq_runs (fst ?res)) = rn_run_id ` set (sq_runs s)"
    by (metis image_set)
  note ids = ids1 ids2
  let ?ids = "rn_run_id ` set (sq_runs s)"
  have in_ids: "run_id \<in> ?ids" using True by (simp only: run_exists_iff)
  have old: "rp_run_id ` set (sq_reports s) \<subseteq> ?ids" "er_run_id ` set (sq_events s) \<subseteq> ?ids"
    "sr_run_id ` set (sq_snapshots s) \<subseteq> ?ids" "ar_run_id ` set (sq_accounts s) \<subseteq> ?ids"
    "lr_run_id ` set (sq_logs s) \<subseteq> ?ids" "vr_run_id ` set (sq_verifications s) \<subseteq> ?ids"
    "distinct (map rn_run_id (sq_runs s))" "distinct (map bn_benchmark_id (sq_benchmarks s))"
    using ok by (simp_all only: sql_ok_def Let_def)
  have "lr_run_id ` set (sq_logs (fst ?res)) \<subseteq> ?ids"
    using replace_ids [OF rows_run_id(4) old(5) in_ids] old(5)
    by (simp only: st(6) split: option.split) blast
  moreover have "rp_run_id ` set (sq_reports (fst ?res)) \<subseteq> ?ids"
    unfolding st(2) by (rule upsert_ids [OF _ old(1)]) (simp_all add: in_ids del: image_iff)
  ultimately have "sql_ok (fst ?res)"
    using replace_ids [OF rows_run_id(1) old(2) in_ids] replace_ids [OF rows_run_id(2) old(3) in_ids]
      replace_ids [OF rows_run_id(3) old(4) in_ids] old(6-8)
    by (simp only: sql_ok_def Let_def ids st(3-5,7,8))
  with get st(9) show ?thesis by (cases ?res) simp
qed

lemma view_record_tables:
  "view_record (s\<lparr>sq_logs := ls\<rparr>) row =
    (view_record s row)\<lparr>rr_logs := payloads lr_run_id lr_sequence lr_payload_json (rn_run_id row) ls\<rparr>"
  "view_record (s\<lparr>sq_verifications := vs\<rparr>) row =
    (view_record s row)\<lparr>rr_verification :=
      verification_of (s\<lparr>sq_verifications := vs\<rparr>) (rn_run_id row)\<rparr>"
  by (simp_all add: view_record_def Let_def report_of_def verification_of_def)

lemma view_record_logs [simp]:
  "rr_logs (view_record s row) = payloads lr_run_id lr_sequence lr_payload_json (rn_run_id row) (sq_logs s)"
  "rr_verification (view_record s row) = verification_of s (rn_run_id row)"
  by (simp_all add: view_record_def Let_def)

lemma sql_append_log_laws:
  assumes ok: "sql_ok s"
  shows "case sql_append_log run_id entry s of
     (s', res) \<Rightarrow> sql_ok s' \<and> res = (sql_get_run run_id s \<noteq> None) \<and>
       (\<forall>i. sql_get_run i s' = (if i = run_id
          then map_option (\<lambda>r. r\<lparr>rr_logs := rr_logs r @ [encode_json entry]\<rparr>) (sql_get_run i s)
          else sql_get_run i s))"
proof (cases "run_exists run_id s")
  case False
  then have "sql_get_run run_id s = None" using sql_get_run_exists by blast
  then show ?thesis using ok False by (simp add: sql_append_log_def)
next
  case True
  obtain row where res: "sql_append_log run_id entry s = (s\<lparr>sq_logs := sq_logs s @ [row]\<rparr>, True)"
    and row: "lr_run_id row = run_id" "lr_sequence row = next_sequence run_id (sq_logs s)"
      "lr_payload_json row = encode_json entry"
    using True by (auto simp: sql_append_log_def Let_def)
  let ?s = "s\<lparr>sq_logs := sq_logs s @ [row]\<rparr>"
  have "sql_ok ?s" using ok True row(1) by (auto simp: sql_ok_def Let_def run_exists_iff)
  moreover have "sql_get_run i ?s = (if i = run_id
      then map_option (\<lambda>r. r\<lparr>rr_logs := rr_logs r @ [encode_json entry]\<rparr>) (sql_get_run i s)
      else sql_get_run i s)" for i
  proof (cases "row_of rn_run_id i (sq_runs s)")
    case (Some r)
    then have "rn_run_id r = i" by (auto dest: row_of_Some)
    with Some show ?thesis
      by (cases "i = run_id")
        (simp_all add: sql_get_run_view view_record_tables logs_append [OF row(1,2)] row(3))
  qed (cases "i = run_id"; simp add: sql_get_run_view)
  ultimately show ?thesis
    using True sql_get_run_exists [of run_id s] by (simp add: res)
qed

lemma sql_verification_laws:
  assumes ok: "sql_ok s"
  shows "case sql_store_verification run_id report s of
     (s', res) \<Rightarrow> sql_ok s' \<and> res = map_option rr_verification (sql_get_run run_id s') \<and>
       (\<forall>i. sql_get_run i s' = (if i = run_id
          then map_option (\<lambda>r. r\<lparr>rr_verification := encode_json report\<rparr>) (sql_get_run i s)
          else sql_get_run i s))"
proof (cases "run_exists run_id s")
  case False
  then have "sql_get_run run_id s = None" using sql_get_run_exists by blast
  then show ?thesis using ok False by (simp add: sql_store_verification_def)
next
  case True
  then obtain r where r: "row_of rn_run_id run_id (sq_runs s) = Some r"
    by (auto simp: run_exists_def)
  obtain f new where f: "\<And>v. vr_run_id (f v) = vr_run_id v" "\<And>v. vr_report_json (f v) = encode_json report"
      "vr_run_id new = run_id" "vr_report_json new = encode_json report"
    and res: "sql_store_verification run_id report s =
      (s\<lparr>sq_verifications := upsert vr_run_id f new (sq_verifications s)\<rparr>,
       sql_get_verification run_id (s\<lparr>sq_verifications := upsert vr_run_id f new (sq_verifications s)\<rparr>))"
  proof -
    let ?v = "string_value (dget report ''verified_at'')"
    let ?st = "the (str_or (string_value (dget report ''status'')) (Some ''failed''))"
    show ?thesis
      by (rule that [of "\<lambda>r. r\<lparr>vr_verified_at := ?v, vr_status := ?st, vr_report_json := encode_json report\<rparr>"
            "\<lparr>vr_run_id = run_id, vr_verified_at = ?v, vr_status = ?st, vr_report_json = encode_json report\<rparr>"])
        (use True in \<open>simp_all add: sql_store_verification_def Let_def\<close>)
  qed
  let ?s = "s\<lparr>sq_verifications := upsert vr_run_id f new (sq_verifications s)\<rparr>"
  have ver: "verification_of ?s i = (if i = run_id then encode_json report else verification_of s i)" for i
    using f by (auto simp: verification_of_def row_of_upsert split: option.splits)
  have "sql_ok ?s"
    using ok True upsert_ids [of vr_run_id f "sq_verifications s" "rn_run_id ` set (sq_runs s)" new] f
    by (auto simp: sql_ok_def Let_def run_exists_iff)
  moreover have get: "sql_get_run i ?s = (if i = run_id
      then map_option (\<lambda>r. r\<lparr>rr_verification := encode_json report\<rparr>) (sql_get_run i s)
      else sql_get_run i s)" for i
  proof (cases "row_of rn_run_id i (sq_runs s)")
    case (Some r)
    then have "rn_run_id r = i" by (auto dest: row_of_Some)
    with Some show ?thesis
      by (cases "i = run_id") (auto simp: sql_get_run_view view_record_tables ver)
  qed (cases "i = run_id"; simp add: sql_get_run_view)
  moreover have "sql_get_verification run_id ?s = map_option rr_verification (sql_get_run run_id ?s)"
    using sql_reads(6) [of run_id ?s r] r row_of_Some [OF r] by (simp add: sql_get_run_view ver get)
  ultimately show ?thesis by (simp add: res)
qed

lemma sql_delete_laws:
  assumes ok: "sql_ok s"
  shows "case sql_delete_run run_id s of
     (s', res) \<Rightarrow> sql_ok s' \<and> res = (sql_get_run run_id s \<noteq> None) \<and>
       (\<forall>i. sql_get_run i s' = (if i = run_id then None else sql_get_run i s))"
proof -
  let ?s = "fst (sql_delete_run run_id s)"
  have row: "row_of rn_run_id i (sq_runs ?s) = (if i = run_id then None else row_of rn_run_id i (sq_runs s))" for i
    by (auto simp: sql_delete_run_def row_of_delete_where)
  have "sql_ok ?s"
    using ok by (auto simp: sql_ok_def Let_def sql_delete_run_def map_delete_where_distinct)
  moreover have "sql_get_run i ?s = (if i = run_id then None else sql_get_run i s)" for i
  proof (cases "row_of rn_run_id i (sq_runs s)")
    case (Some r)
    then have "rn_run_id r = i" by (auto dest: row_of_Some)
    then have "i \<noteq> run_id \<Longrightarrow> view_record ?s r = view_record s r"
      by (simp add: view_record_def Let_def report_of_def verification_of_def sql_delete_run_def
          row_of_delete_where payloads_delete)
    with Some show ?thesis by (simp add: sql_get_run_view row)
  qed (simp add: sql_get_run_view row)
  ultimately show ?thesis
    using sql_get_run_exists [of run_id s] by (cases "sql_delete_run run_id s") (auto simp: sql_delete_run_def)
qed

lemma sql_list_laws:
  assumes "sql_ok s"
  shows "set (sql_list_runs s) = {r. \<exists>i. sql_get_run i s = Some r}"
    and "distinct (map rr_run_id (sql_list_runs s))"
proof -
  have dist: "distinct (map rn_run_id (sq_runs s))" using assms by (simp add: sql_ok_def Let_def)
  show "set (sql_list_runs s) = {r. \<exists>i. sql_get_run i s = Some r}"
    using row_of_in [OF dist]
    by (auto simp: sql_list_runs_def sql_get_run_def image_iff dest: row_of_Some)
  have "map rr_run_id (sql_list_runs s) = map rn_run_id
      (sort_key (\<lambda>r. (store_time_key (rn_created_at r), rn_run_id r)) (sq_runs s))"
    by (simp add: sql_list_runs_def record_from_row_def Let_def)
  then show "distinct (map rr_run_id (sql_list_runs s))"
    using dist by (simp only: distinct_map_sort_key)
qed

lemma sql_reads_laws:
  "sql_get_report i s = map_option rr_report (sql_get_run i s)"
  "sql_get_events i None None None 0 s = map_option rr_events (sql_get_run i s)"
  "sql_get_snapshots i None None 0 s = map_option rr_snapshots (sql_get_run i s)"
  "sql_get_accounts i None None None 0 s = map_option rr_accounts (sql_get_run i s)"
  "sql_get_logs i lmt off s = map_option (slice_from off lmt \<circ> rr_logs) (sql_get_run i s)"
  "sql_get_verification i s = map_option rr_verification (sql_get_run i s)"
proof -
  have "(sql_get_report i s, sql_get_events i None None None 0 s, sql_get_snapshots i None None 0 s,
      sql_get_accounts i None None None 0 s, sql_get_logs i lmt off s, sql_get_verification i s) =
    (map_option rr_report (sql_get_run i s), map_option rr_events (sql_get_run i s),
      map_option rr_snapshots (sql_get_run i s), map_option rr_accounts (sql_get_run i s),
      map_option (slice_from off lmt \<circ> rr_logs) (sql_get_run i s),
      map_option rr_verification (sql_get_run i s))"
  proof (cases "row_of rn_run_id i (sq_runs s)")
    case None
    then have "\<not> run_exists i s" by (simp add: run_exists_def)
    with None show ?thesis
      by (simp add: sql_get_run_view sql_get_report_def sql_get_events_def sql_get_snapshots_def
          sql_get_accounts_def sql_get_logs_def sql_get_verification_def)
  next
    case (Some r)
    then have "rn_run_id r = i" by (auto dest: row_of_Some)
    with Some show ?thesis
      by (simp add: sql_get_run_view sql_reads [OF Some]) (simp add: view_record_def Let_def)
  qed
  then show "sql_get_report i s = map_option rr_report (sql_get_run i s)"
    "sql_get_events i None None None 0 s = map_option rr_events (sql_get_run i s)"
    "sql_get_snapshots i None None 0 s = map_option rr_snapshots (sql_get_run i s)"
    "sql_get_accounts i None None None 0 s = map_option rr_accounts (sql_get_run i s)"
    "sql_get_logs i lmt off s = map_option (slice_from off lmt \<circ> rr_logs) (sql_get_run i s)"
    "sql_get_verification i s = map_option rr_verification (sql_get_run i s)"
    by simp_all
qed

interpretation sql: run_store sql_ops sql_ok encode_json snapshot_order
proof (unfold_locales, goal_cases)
  case (1 s run_id now run_type config)
  then show ?case using sql_create_laws [of s run_id now run_type config]
    by (simp add: sql_ops_def split: prod.splits)
next
  case (2 s run_id st sa ca err)
  then show ?case using sql_update_laws [of s run_id st sa ca err]
    by (simp add: sql_ops_def split: prod.splits)
next
  case (3 s run_id report events snapshots accounts logs)
  then show ?case using sql_store_result_laws [of s run_id report events snapshots accounts logs]
    by (simp add: sql_ops_def split: prod.splits)
next
  case (4 s run_id entry)
  then show ?case using sql_append_log_laws [of s run_id entry]
    by (simp add: sql_ops_def split: prod.splits)
next
  case (5 s run_id report)
  then show ?case using sql_verification_laws [of s run_id report]
    by (simp add: sql_ops_def split: prod.splits)
next
  case (6 s run_id)
  then show ?case using sql_delete_laws [of s run_id]
    by (simp add: sql_ops_def split: prod.splits)
next
  case (7 s)
  then show ?case using sql_list_laws by (simp add: sql_ops_def)
qed (simp_all add: sql_ops_def sql_reads_laws encode_json_def snapshot_order_def sql_get_run_id)

end
