(* ===== verification/Store_Refinement.thy ===== *)
theory Store_Refinement
  imports Memory_Store Sqlite_Laws
begin

text \<open>
  The abstract specification of run storage, a map from run ids to records, and the proof that both
  backends implement it: the in-memory one exactly, the SQLite one up to the normal form of JSON and
  the order of snapshots. It follows that the two agree after every sequence of operations. Where
  they do not agree, in the order of \<open>list_runs\<close> and in the symbol filters, the differences are stated.
\<close>

section \<open>Operations and the abstract specification\<close>

datatype store_op =
    St_Create instant string run_type pydict
  | St_Update string "run_status option" "instant option" "instant option" "string option"
  | St_Result string pydict "pydict list" "pydict list" "pydict list" "pydict list option"
  | St_Log string pydict
  | St_Verification string pydict
  | St_Delete string

fun exec_store :: "'s store_ops \<Rightarrow> store_op \<Rightarrow> 's \<Rightarrow> 's" where
  "exec_store ops (St_Create now i ty cfg) s = fst (so_create_run ops now i ty cfg s)"
| "exec_store ops (St_Update i st sa ca err) s = fst (so_update_run ops i st sa ca err s)"
| "exec_store ops (St_Result i rep ev sn ac lg) s = fst (so_store_result ops i rep ev sn ac lg s)"
| "exec_store ops (St_Log i l) s = fst (so_append_log ops i l s)"
| "exec_store ops (St_Verification i rep) s = fst (so_store_verification ops i rep s)"
| "exec_store ops (St_Delete i) s = fst (so_delete_run ops i s)"

type_synonym run_map = "string \<Rightarrow> run_record option"

definition modify_run :: "string \<Rightarrow> (run_record \<Rightarrow> run_record) \<Rightarrow> run_map \<Rightarrow> run_map" where
  "modify_run i f m = m(i := map_option f (m i))"

fun spec_step :: "(pydict \<Rightarrow> pydict) \<Rightarrow> (pydict list \<Rightarrow> pydict list) \<Rightarrow> store_op \<Rightarrow> run_map \<Rightarrow> run_map" where
  "spec_step nf order (St_Create now i ty cfg) m = m(i \<mapsto> new_run now i ty (nf cfg))"
| "spec_step nf order (St_Update i st sa ca err) m = modify_run i (apply_update st sa ca err) m"
| "spec_step nf order (St_Result i rep ev sn ac lg) m =
     modify_run i (\<lambda>r. r\<lparr>rr_report := nf rep, rr_events := map nf ev,
        rr_snapshots := map nf (order sn), rr_accounts := map nf ac,
        rr_logs := (case lg of None \<Rightarrow> rr_logs r | Some ls \<Rightarrow> map nf ls)\<rparr>) m"
| "spec_step nf order (St_Log i l) m =
     modify_run i (\<lambda>r. r\<lparr>rr_logs := rr_logs r @ [nf l]\<rparr>) m"
| "spec_step nf order (St_Verification i rep) m =
     modify_run i (\<lambda>r. r\<lparr>rr_verification := nf rep\<rparr>) m"
| "spec_step nf order (St_Delete i) m = m(i := None)"

text \<open>Ids are generated: a creation uses one that is not in use.\<close>

fun fresh_op :: "store_op \<Rightarrow> run_map \<Rightarrow> bool" where
  "fresh_op (St_Create now i ty cfg) m = (m i = None)"
| "fresh_op _ m = True"

fun fresh_ops :: "(pydict \<Rightarrow> pydict) \<Rightarrow> (pydict list \<Rightarrow> pydict list) \<Rightarrow> store_op list \<Rightarrow> run_map \<Rightarrow> bool" where
  "fresh_ops nf order [] m = True"
| "fresh_ops nf order (op # ops) m =
     (fresh_op op m \<and> fresh_ops nf order ops (spec_step nf order op m))"

context run_store
begin

definition view :: "'s \<Rightarrow> run_map" where
  "view s = (\<lambda>i. so_get_run ops i s)"

lemma exec_refines:
  assumes "ok s" and "fresh_op op (view s)"
  shows "ok (exec_store ops op s)"
    and "view (exec_store ops op s) = spec_step canon arrange op (view s)"
proof -
  have "ok (exec_store ops op s) \<and> view (exec_store ops op s) = spec_step canon arrange op (view s)"
  proof (cases op)
    case (St_Create now i ty cfg)
    with create_run [OF assms(1), where run_id = i and now = now and run_type = ty and config = cfg] assms(2) show ?thesis
      by (auto simp: view_def split: prod.splits)
  next
    case (St_Update i st sa ca err)
    with update_run [OF assms(1), where run_id = i and st = st and sa = sa and ca = ca and err = err] show ?thesis
      by (auto simp: view_def modify_run_def split: prod.splits)
  next
    case (St_Result i rep ev sn ac lg)
    with store_result [OF assms(1), where run_id = i and report = rep and events = ev and
        snapshots = sn and accounts = ac and logs = lg] show ?thesis
      by (auto simp: view_def modify_run_def split: prod.splits)
  next
    case (St_Log i l)
    with append_log [OF assms(1), where run_id = i and entry = l] show ?thesis
      by (auto simp: view_def modify_run_def split: prod.splits)
  next
    case (St_Verification i rep)
    with store_verification [OF assms(1), where run_id = i and report = rep] show ?thesis
      by (auto simp: view_def modify_run_def split: prod.splits)
  next
    case (St_Delete i)
    with delete_run [OF assms(1), where run_id = i] show ?thesis
      by (auto simp: view_def split: prod.splits)
  qed
  then show "ok (exec_store ops op s)" "view (exec_store ops op s) = spec_step canon arrange op (view s)"
    by simp_all
qed

lemma run_refines:
  assumes "ok s" and "fresh_ops canon arrange os (view s)"
  shows "ok (fold (exec_store ops) os s)"
    and "view (fold (exec_store ops) os s) = fold (spec_step canon arrange) os (view s)"
proof -
  have "ok (fold (exec_store ops) os s) \<and>
    view (fold (exec_store ops) os s) = fold (spec_step canon arrange) os (view s)"
    using assms
  proof (induction os arbitrary: s)
    case (Cons op os)
    then show ?case using exec_refines [of s op] by simp
  qed simp
  then show "ok (fold (exec_store ops) os s)"
    "view (fold (exec_store ops) os s) = fold (spec_step canon arrange) os (view s)" by simp_all
qed

end

section \<open>The two backends agree\<close>

text \<open>What the SQLite backend returns for a record the in-memory backend holds.\<close>

definition encode_record :: "run_record \<Rightarrow> run_record" where
  "encode_record r = r\<lparr>rr_config := encode_json (rr_config r), rr_report := encode_json (rr_report r),
     rr_events := map encode_json (rr_events r),
     rr_snapshots := map encode_json (snapshot_order (rr_snapshots r)),
     rr_accounts := map encode_json (rr_accounts r), rr_logs := map encode_json (rr_logs r),
     rr_verification := encode_json (rr_verification r)\<rparr>"

definition encode_map :: "run_map \<Rightarrow> run_map" where
  "encode_map m = (\<lambda>i. map_option encode_record (m i))"

lemma encode_new_run: "encode_record (new_run now i ty cfg) = new_run now i ty (encode_json cfg)"
  by (simp add: encode_record_def new_run_def encode_json_def snapshot_order_def)

lemma encode_modify:
  assumes "\<And>r. encode_record (f r) = g (encode_record r)"
  shows "encode_map (modify_run i f m) = modify_run i g (encode_map m)"
  using assms by (auto simp: encode_map_def modify_run_def fun_eq_iff option.map_comp comp_def)

lemma spec_step_encode:
  "encode_map (spec_step (\<lambda>d. d) (\<lambda>ds. ds) op m) =
    spec_step encode_json snapshot_order op (encode_map m)"
proof (cases op)
  case (St_Create now i ty cfg)
  then show ?thesis by (auto simp: encode_map_def encode_new_run)
next
  case (St_Update i st sa ca err)
  then show ?thesis
    by (simp del: fun_upd_apply) (rule encode_modify, simp add: encode_record_def apply_update_def)
next
  case (St_Result i rep ev sn ac lg)
  then show ?thesis
    by simp (rule encode_modify, simp add: encode_record_def map_id_lambda split: option.split)
next
  case (St_Log i l)
  then show ?thesis by simp (rule encode_modify, simp add: encode_record_def)
next
  case (St_Verification i rep)
  then show ?thesis by simp (rule encode_modify, simp add: encode_record_def)
next
  case (St_Delete i)
  then show ?thesis by (auto simp: encode_map_def)
qed

lemma spec_run_encode:
  "encode_map (fold (spec_step (\<lambda>d. d) (\<lambda>ds. ds)) os m) =
    fold (spec_step encode_json snapshot_order) os (encode_map m)"
  by (induction os arbitrary: m) (simp_all add: spec_step_encode)

lemma fresh_encode:
  "fresh_ops (\<lambda>d. d) (\<lambda>ds. ds) os m \<Longrightarrow> fresh_ops encode_json snapshot_order os (encode_map m)"
proof (induction os arbitrary: m)
  case (Cons op os)
  then have "fresh_op op (encode_map m)" by (cases op) (auto simp: encode_map_def)
  with Cons show ?case by (simp add: spec_step_encode [symmetric])
qed simp

lemma sql_get_ops: "so_get_run sql_ops = sql_get_run"
  by (simp add: sql_ops_def)

lemma mem_get_ops: "so_get_run mem_ops = mem_get_run"
  by (simp add: mem_ops_def)

lemma empty_views: "mem.view empty_mem = (\<lambda>i. None)" "sql.view empty_sql = (\<lambda>i. None)"
  unfolding mem.view_def sql.view_def
  by (simp_all add: mem_ops_def sql_ops_def mem_get_run_def empty_mem_def sql_get_run_def empty_sql_def)

lemma sql_run_spec:
  assumes "fresh_ops encode_json snapshot_order os (\<lambda>i. None)"
  shows "sql_get_run i (fold (exec_store sql_ops) os empty_sql) =
    fold (spec_step encode_json snapshot_order) os (\<lambda>i. None) i"
proof -
  have "sql.view (fold (exec_store sql_ops) os empty_sql) =
    fold (spec_step encode_json snapshot_order) os (\<lambda>i. None)"
    using sql.run_refines(2) [OF sql_ok_empty, of os] assms by (simp add: empty_views)
  then have "sql.view (fold (exec_store sql_ops) os empty_sql) i =
    fold (spec_step encode_json snapshot_order) os (\<lambda>i. None) i" by simp
  then show ?thesis unfolding sql.view_def by (simp add: sql_get_ops)
qed

text \<open>C7 (SQLite storage implements the specification). After any sequence of creations, updates,
  stored results, logs, verifications and deletions on an empty database, with fresh ids, reading a
  run from the tables gives the record of the abstract map in which every stored dictionary is in
  JSON normal form and the snapshots are in the order of their steps: nothing of another run, of an
  earlier result or of a deleted run shows.\<close>

theorem sqlite_refines_map:
  assumes "fresh_ops encode_json snapshot_order os (\<lambda>i. None)"
  shows "sql_get_run i (fold (exec_store sql_ops) os empty_sql) =
    fold (spec_step encode_json snapshot_order) os (\<lambda>i. None) i"
  using assms by (rule sql_run_spec)

theorem sqlite_refines_map_witness:
  "map_option rr_logs (sql_get_run ''r'' (fold (exec_store sql_ops)
      [St_Create 5 ''r'' Session [], St_Log ''r'' [(''m'', PInt 1)], St_Create 6 ''s'' Backtest [],
       St_Log ''s'' [(''m'', PInt 2)], St_Log ''r'' [(''m'', PInt 3)]] empty_sql)) =
    Some [[(''m'', PInt 1)], [(''m'', PInt 3)]]"
  by (subst sqlite_refines_map)
    (simp_all add: modify_run_def new_run_def encode_json_def json_sort_dict_def)

text \<open>C8 (the backends agree). After any sequence of operations with fresh ids, started on empty
  stores, the run the SQLite backend returns is the run the in-memory backend returns, with every
  dictionary in JSON normal form and the snapshots in the order of their steps.\<close>

theorem backends_agree:
  assumes "fresh_ops (\<lambda>d. d) (\<lambda>ds. ds) os (\<lambda>i. None)"
  shows "sql_get_run i (fold (exec_store sql_ops) os empty_sql) =
    map_option encode_record (mem_get_run i (fold (exec_store mem_ops) os empty_mem))"
proof -
  have none: "encode_map (\<lambda>i. None) = (\<lambda>i. None)" by (simp add: encode_map_def)
  have "mem.view (fold (exec_store mem_ops) os empty_mem) =
    fold (spec_step (\<lambda>d. d) (\<lambda>ds. ds)) os (\<lambda>i. None)"
    using mem.run_refines(2) [OF mem_ok_empty, of os] assms by (simp add: empty_views)
  moreover have "sql.view (fold (exec_store sql_ops) os empty_sql) =
    fold (spec_step encode_json snapshot_order) os (\<lambda>i. None)"
    using sql.run_refines(2) [OF sql_ok_empty, of os] fresh_encode [OF assms]
    by (simp add: empty_views none)
  ultimately have "sql.view (fold (exec_store sql_ops) os empty_sql) =
      encode_map (mem.view (fold (exec_store mem_ops) os empty_mem))"
    by (simp add: spec_run_encode none)
  then have "sql.view (fold (exec_store sql_ops) os empty_sql) i =
      encode_map (mem.view (fold (exec_store mem_ops) os empty_mem)) i" by simp
  then show ?thesis
    unfolding sql.view_def mem.view_def by (simp add: encode_map_def sql_get_ops mem_get_ops)
qed

theorem backends_agree_witness:
  "sql_get_run ''r'' (fold (exec_store sql_ops)
      [St_Create 5 ''r'' Session [(''b'', PInt 1), (''a'', PInt 2)], St_Log ''r'' [], St_Delete ''x'']
      empty_sql) =
    map_option encode_record (mem_get_run ''r'' (fold (exec_store mem_ops)
      [St_Create 5 ''r'' Session [(''b'', PInt 1), (''a'', PInt 2)], St_Log ''r'' [], St_Delete ''x'']
      empty_mem))"
  by (rule backends_agree) simp

text \<open>Remark (order of \<open>list_runs\<close>). Of two runs created in the same second, the first exactly on the
  second, the in-memory backend lists the older one first; the SQLite backend sorts by timestamp text,
  in which \<open>Z\<close> follows \<open>.\<close>, and lists the younger one first.\<close>

theorem list_runs_order_differs:
  assumes "a \<noteq> b" and "0 < f" and "f < 1000000"
  shows "let os = [St_Create (seconds n) a Session [], St_Create (seconds n + f) b Session []] in
    map rr_run_id (mem_list_runs (fold (exec_store mem_ops) os empty_mem)) = [a, b] \<and>
    map rr_run_id (sql_list_runs (fold (exec_store sql_ops) os empty_sql)) = [b, a]"
proof -
  let ?os = "[St_Create (seconds n) a Session [], St_Create (seconds n + f) b Session []]"
  have "map rr_run_id (mem_list_runs (fold (exec_store mem_ops) ?os empty_mem)) = [a, b]"
    using assms(1,2)
    by (simp add: mem_ops_def mem_create_run_def empty_mem_def Let_def mem_list_runs_def new_run_def)
  moreover have "(seconds n + f) mod 1000000 = f" "(seconds n + f) div 1000000 = n"
    using assms(2,3) by (simp_all add: seconds_def)
  moreover have "seconds n mod 1000000 = 0" "seconds n div 1000000 = n" by (simp_all add: seconds_def)
  moreover have "map rr_run_id (sql_list_runs (fold (exec_store sql_ops) ?os empty_sql)) = [b, a]"
    using assms calculation(2-5)
    by (simp add: sql_ops_def sql_create_run_def empty_sql_def Let_def sql_list_runs_def
        new_run_def run_exists_def record_from_row_def store_time_key_def)
  ultimately show ?thesis by (simp add: Let_def)
qed

theorem list_runs_order_differs_witness:
  "map rr_run_id (sql_list_runs (fold (exec_store sql_ops)
     [St_Create (seconds 7) ''a'' Session [], St_Create (seconds 7 + 250000) ''b'' Session []] empty_sql)) =
   [''b'', ''a'']"
  using list_runs_order_differs [of "''a''" "''b''" 250000 7] by (simp add: Let_def)

text \<open>Remark (symbol filter of accounts). An account with positions in two symbols is found under each of
  them in the in-memory backend and under neither in the SQLite backend, which stores a symbol only
  when there is exactly one.\<close>

theorem account_filter_differs:
  assumes "x \<noteq> y" and "sy \<in> {x, y}"
  shows "let account = [(''account_id'', PStr ''acc''), (''positions'', PDict [(x, PInt 1), (y, PInt 2)])] in
    mem_matches_account None (Some sy) account \<and> sql_account_symbol account = None"
  using assms by (auto simp: mem_matches_account_def sql_account_symbol_def single_key_def Let_def)

theorem account_filter_differs_witness:
  "mem_matches_account None (Some ''A'')
     [(''account_id'', PStr ''acc''), (''positions'', PDict [(''A'', PInt 1), (''B'', PInt 2)])]"
  using account_filter_differs [of "''A''" "''B''" "''A''"] by (simp add: Let_def)

end
