(* ===== verification/Stream_Service.thy ===== *)
theory Stream_Service
  imports Run_Store Py_Text Timestamps
begin

text \<open>
  The in-process stream of run messages, \<open>sim/api/services/stream_service.py\<close>: recent messages per
  run, subscriber queues, closing, and replay from memory or from the persisted logs.

  Subscribers are objects with identity: a queue is a number, its content a list. A generator is
  modelled by its first step (\<open>subscribe\<close>) and its further steps (\<open>receive\<close>). Parsing and printing of
  a message by pydantic, and the text of timestamps, are the functions of a record \<open>stream_codec\<close>.
\<close>

section \<open>Messages\<close>

(* sim/api/models.py:15-15 StreamCategory *)
datatype stream_category = Cat_Status | Cat_Progress | Cat_Event | Cat_Snapshot | Cat_Account
  | Cat_Log | Cat_Error | Cat_Completed

fun category_str :: "stream_category \<Rightarrow> string" where
  "category_str Cat_Status = ''status''"
| "category_str Cat_Progress = ''progress''"
| "category_str Cat_Event = ''event''"
| "category_str Cat_Snapshot = ''snapshot''"
| "category_str Cat_Account = ''account''"
| "category_str Cat_Log = ''log''"
| "category_str Cat_Error = ''error''"
| "category_str Cat_Completed = ''completed''"

definition all_categories :: "stream_category list" where
  "all_categories = [Cat_Status, Cat_Progress, Cat_Event, Cat_Snapshot, Cat_Account, Cat_Log,
     Cat_Error, Cat_Completed]"

(* sim/api/services/stream_service.py:171-171 _CATEGORIES *)
definition category_of :: "string \<Rightarrow> stream_category option" where
  "category_of s = find (\<lambda>c. category_str c = s) all_categories"

lemma category_of_str [simp]: "category_of (category_str c) = Some c"
  by (cases c) (simp_all add: category_of_def all_categories_def)

(* sim/api/models.py:398-404 StreamMessage *)
record stream_message =
  sg_run_id :: string
  sg_timestamp :: instant
  sg_step :: "int option"
  sg_category :: stream_category
  sg_type :: string
  sg_payload :: pydict

text \<open>
  \<open>isoformat\<close> of an instant, \<open>fromisoformat\<close>, and pydantic's \<open>model_dump(mode="json")\<close> and
  \<open>model_validate\<close>.
\<close>

record stream_codec =
  sc_isoformat :: "instant \<Rightarrow> string"
  sc_fromiso :: "string \<Rightarrow> instant option"
  sc_dump :: "stream_message \<Rightarrow> pydict"
  sc_validate :: "pydict \<Rightarrow> stream_message result"

definition int_or_none :: "int option \<Rightarrow> pyval" where
  "int_or_none step = (case step of None \<Rightarrow> PNone | Some n \<Rightarrow> PInt n)"

lemma int_value_int_or_none [simp]: "int_value (int_or_none step) = step"
  by (cases step) (simp_all add: int_or_none_def)

(* sim/api/services/stream_service.py:106-117 to_log *)
definition to_log :: "stream_codec \<Rightarrow> stream_message \<Rightarrow> pydict" where
  "to_log cd message =
     [(''timestamp'', PStr (str_replace ''+00:00'' ''Z'' (sc_isoformat cd (sg_timestamp message)))),
      (''step'', int_or_none (sg_step message)),
      (''level'', PStr (category_str (sg_category message))),
      (''category'', PStr (category_str (sg_category message))),
      (''type'', PStr (sg_type message)),
      (''message'', PStr (sg_type message)),
      (''payload'', PDict (sg_payload message)),
      (''stream'', PDict (sc_dump cd message))]"

(* sim/api/services/stream_service.py:178-183 _parse_timestamp *)
definition parse_timestamp :: "stream_codec \<Rightarrow> instant \<Rightarrow> pyval \<Rightarrow> instant option" where
  "parse_timestamp cd now value =
     (case string_value value of Some s \<Rightarrow> sc_fromiso cd (str_replace ''Z'' ''+00:00'' s) | None \<Rightarrow> Some now)"

text \<open>
  The outer result is an exception of \<open>model_validate\<close>; the inner \<open>None\<close> is a log that is not a
  stream message. \<open>now\<close> is the reading \<open>_parse_timestamp\<close> makes when there is no timestamp.
\<close>

(* sim/api/services/stream_service.py:119-141 from_log *)
definition from_log ::
  "stream_codec \<Rightarrow> instant \<Rightarrow> string \<Rightarrow> pydict \<Rightarrow> stream_message option result" where
  "from_log cd now run_id entry =
     (case dict_value (dget entry ''stream'') of
        Some stream \<Rightarrow> bind_r (sc_validate cd stream) (\<lambda>m. Inr (Some m))
      | None \<Rightarrow>
          (case string_value (py_or (dget entry ''category'') (dget entry ''level'')) of
             None \<Rightarrow> Inr None
           | Some category \<Rightarrow>
               (case (parse_timestamp cd now (dget entry ''timestamp''), category_of category) of
                  (Some t, Some c) \<Rightarrow>
                    Inr (Some \<lparr>sg_run_id = run_id, sg_timestamp = t,
                      sg_step = int_value (dget entry ''step''), sg_category = c,
                      sg_type = py_str (py_or (py_or (dget entry ''type'') (dget entry ''message''))
                                  (PStr category)),
                      sg_payload = dict_or_empty (dget entry ''payload'')\<rparr>)
                | _ \<Rightarrow> Inr None)))"

text \<open>What a publisher passes: a message, or a dictionary to make one from.\<close>

datatype stream_input = Ready stream_message | Fields pydict

text \<open>\<open>value in _CATEGORIES\<close> needs a hashable value.\<close>

fun hashable :: "pyval \<Rightarrow> bool" where
  "hashable (PList _) = False"
| "hashable (PDict _) = False"
| "hashable (PTuple xs) = list_all hashable xs"
| "hashable _ = True"

fun type_name :: "pyval \<Rightarrow> string" where
  "type_name (PList _) = ''list''"
| "type_name (PDict _) = ''dict''"
| "type_name (PTuple (x # xs)) = (if hashable x then type_name (PTuple xs) else type_name x)"
| "type_name _ = ''object''"

(* sim/api/services/stream_service.py:174-175 _invalid_category *)
definition invalid_category :: "pyval \<Rightarrow> py_exc" where
  "invalid_category value = ValueError (''invalid stream category: '' @ py_repr value)"

(* sim/api/services/stream_service.py:143-168 _coerce_message *)
fun coerce_message :: "instant \<Rightarrow> string \<Rightarrow> stream_input \<Rightarrow> stream_message result" where
  "coerce_message now run_id (Ready message) =
     (if sg_run_id message \<noteq> run_id
      then Inl (ValueError ''stream message run_id does not match publish run_id'')
      else Inr message)"
| "coerce_message now run_id (Fields message) =
     (let category = dget message ''category'' in
      if \<not> hashable category
      then Inl (TypeError (''unhashable type: '' @ string_repr (type_name category)))
      else
        (case string_value category of
           None \<Rightarrow> Inl (invalid_category category)
         | Some name \<Rightarrow>
             (case category_of name of
                None \<Rightarrow> Inl (invalid_category category)
              | Some c \<Rightarrow>
                  Inr \<lparr>sg_run_id = run_id, sg_timestamp = now,
                    sg_step = int_value (dget message ''step''), sg_category = c,
                    sg_type = py_str (py_or (py_or (dget message ''type'') category)
                                (PStr ''message'')),
                    sg_payload = dict_or_empty (dget message ''payload'')\<rparr>)))"

section \<open>State\<close>

datatype stream_item = Item stream_message | Sentinel

(* sim/api/services/stream_service.py:22-30 __init__ *)
record stream_state =
  st_recent_limit :: nat
  st_recent :: "(string \<times> stream_message list) list"
  st_subscribers :: "(string \<times> nat list) list"
  st_queues :: "(nat \<times> stream_item list) list"
  st_closed :: "string list"
  st_next_queue :: nat

definition new_stream :: "int \<Rightarrow> stream_state" where
  "new_stream recent_limit =
     \<lparr>st_recent_limit = nat (max 1 recent_limit), st_recent = [], st_subscribers = [],
      st_queues = [], st_closed = [], st_next_queue = 0\<rparr>"

text \<open>\<open>d.get(run_id, ())\<close>.\<close>

definition entries :: "(string \<times> 'a list) list \<Rightarrow> string \<Rightarrow> 'a list" where
  "entries d run_id = (case map_of d run_id of None \<Rightarrow> [] | Some xs \<Rightarrow> xs)"

lemma entries_update [simp]:
  "entries (AList.update k v d) i = (if i = k then v else entries d i)"
  by (simp add: entries_def update_conv')

lemma entries_delete [simp]:
  "entries (AList.delete k d) i = (if i = k then [] else entries d i)"
  by (simp add: entries_def AList.delete_conv')

text \<open>\<open>deque(maxlen=n).append(x)\<close>.\<close>

definition bounded_append :: "nat \<Rightarrow> 'a list \<Rightarrow> 'a \<Rightarrow> 'a list" where
  "bounded_append n xs x = (let ys = xs @ [x] in drop (length ys - n) ys)"

definition queue_of :: "stream_state \<Rightarrow> nat \<Rightarrow> stream_item list" where
  "queue_of s q = (case map_of (st_queues s) q of None \<Rightarrow> [] | Some xs \<Rightarrow> xs)"

text \<open>\<open>subscriber.put(item)\<close>.\<close>

definition put :: "stream_item \<Rightarrow> nat \<Rightarrow> stream_state \<Rightarrow> stream_state" where
  "put item q s = s\<lparr>st_queues := AList.update q (queue_of s q @ [item]) (st_queues s)\<rparr>"

section \<open>Operations\<close>

text \<open>The part of \<open>publish\<close> that touches the service.\<close>

definition publish_state :: "string \<Rightarrow> stream_message \<Rightarrow> stream_state \<Rightarrow> stream_state" where
  "publish_state run_id message s =
     (let s1 = s\<lparr>st_recent := AList.update run_id
                  (bounded_append (st_recent_limit s) (entries (st_recent s) run_id) message)
                  (st_recent s)\<rparr>
      in fold (put (Item message)) (entries (st_subscribers s1) run_id) s1)"

(* sim/api/services/stream_service.py:32-49 publish *)
definition publish ::
  "'s store_ops \<Rightarrow> stream_codec \<Rightarrow> instant \<Rightarrow> string \<Rightarrow> stream_input \<Rightarrow> bool \<Rightarrow> stream_state \<times> 's
   \<Rightarrow> (stream_state \<times> 's) \<times> stream_message result" where
  "publish ops cd now run_id message persist st =
     (case st of (s, db) \<Rightarrow>
       (case coerce_message now run_id message of
          Inl e \<Rightarrow> ((s, db), Inl e)
        | Inr m \<Rightarrow>
            (let s' = publish_state run_id m s;
                 db' = (if persist then fst (so_append_log ops run_id (to_log cd m) db) else db)
             in ((s', db'), Inr m))))"

text \<open>The generator up to its first \<open>get\<close>: a queue, registered unless the run is closed.\<close>

(* sim/api/services/stream_service.py:51-60 subscribe (start) *)
definition subscribe :: "string \<Rightarrow> stream_state \<Rightarrow> stream_state \<times> nat option" where
  "subscribe run_id s =
     (let q = st_next_queue s;
          s1 = s\<lparr>st_next_queue := Suc q, st_queues := AList.update q [] (st_queues s)\<rparr>
      in if run_id \<in> set (st_closed s) then (s1, None)
         else (s1\<lparr>st_subscribers :=
                 AList.update run_id (entries (st_subscribers s) run_id @ [q]) (st_subscribers s)\<rparr>,
               Some q))"

datatype received = Blocked | Yielded stream_message | Finished

text \<open>One \<open>queue.get()\<close>; on the sentinel the generator leaves and deregisters.\<close>

(* sim/api/services/stream_service.py:61-71 subscribe (loop) *)
definition receive :: "string \<Rightarrow> nat \<Rightarrow> stream_state \<Rightarrow> stream_state \<times> received" where
  "receive run_id q s =
     (case queue_of s q of
        [] \<Rightarrow> (s, Blocked)
      | Item m # rest \<Rightarrow> (s\<lparr>st_queues := AList.update q rest (st_queues s)\<rparr>, Yielded m)
      | Sentinel # rest \<Rightarrow>
          (let s1 = s\<lparr>st_queues := AList.update q rest (st_queues s)\<rparr>
           in (if map_of (st_subscribers s1) run_id \<noteq> None
               then s1\<lparr>st_subscribers := AList.update run_id
                      (remove1 q (entries (st_subscribers s1) run_id)) (st_subscribers s1)\<rparr>
               else s1, Finished)))"

(* sim/api/services/stream_service.py:73-80 close *)
definition close_stream :: "string \<Rightarrow> stream_state \<Rightarrow> stream_state" where
  "close_stream run_id s =
     (let subscribers = entries (st_subscribers s) run_id;
          s1 = s\<lparr>st_closed := List.insert run_id (st_closed s),
                 st_subscribers := AList.delete run_id (st_subscribers s)\<rparr>
      in fold (put Sentinel) subscribers s1)"

(* sim/api/services/stream_service.py:102-104 is_closed *)
definition is_closed :: "string \<Rightarrow> stream_state \<Rightarrow> bool" where
  "is_closed run_id s \<longleftrightarrow> run_id \<in> set (st_closed s)"

text \<open>\<open>xs[-n:]\<close> for positive \<open>n\<close>.\<close>

definition last_n :: "nat \<Rightarrow> 'a list \<Rightarrow> 'a list" where
  "last_n n xs = drop (length xs - n) xs"

text \<open>The loop over the persisted logs: messages that parse, until one raises.\<close>

fun parse_logs :: "stream_codec \<Rightarrow> instant \<Rightarrow> string \<Rightarrow> pydict list \<Rightarrow> stream_message list result" where
  "parse_logs cd now run_id [] = Inr []"
| "parse_logs cd now run_id (entry # logs) =
     bind_r (from_log cd now run_id entry) (\<lambda>parsed.
       bind_r (parse_logs cd now run_id logs) (\<lambda>ms.
         Inr (case parsed of None \<Rightarrow> ms | Some m \<Rightarrow> m # ms)))"

(* sim/api/services/stream_service.py:82-100 replay_recent *)
definition replay_recent ::
  "'s store_ops \<Rightarrow> stream_codec \<Rightarrow> instant \<Rightarrow> string \<Rightarrow> int \<Rightarrow> stream_state \<times> 's
   \<Rightarrow> stream_message list result" where
  "replay_recent ops cd now run_id limit st =
     (case st of (s, db) \<Rightarrow>
       (let bounded_limit = max 0 limit;
            recent = entries (st_recent s) run_id
        in if bounded_limit = 0 then Inr []
           else if recent \<noteq> [] then Inr (last_n (nat bounded_limit) recent)
           else (case so_get_logs ops run_id (Some bounded_limit) 0 db of
                   None \<Rightarrow> Inr []
                 | Some logs \<Rightarrow> parse_logs cd now run_id (last_n (nat bounded_limit) logs))))"

end
