(* ===== verification/Stream_Props.thy ===== *)
theory Stream_Props
  imports Stream_Service Store_Refinement
begin

text \<open>
  Correctness of the stream service: what a subscriber receives, what is replayed from memory and
  from the persisted logs, and the round trip of a message through its log.
\<close>

section \<open>A concrete codec and messages\<close>

text \<open>
  For the concrete runs below: a codec that keeps the instant as a number in the dump, and its text
  as decimal digits.
\<close>

definition plain_dump :: "stream_message \<Rightarrow> pydict" where
  "plain_dump m = [(''category'', PStr (category_str (sg_category m))), (''payload'', PDict (sg_payload m)),
     (''run_id'', PStr (sg_run_id m)), (''step'', int_or_none (sg_step m)),
     (''timestamp'', PInt (sg_timestamp m)), (''type'', PStr (sg_type m))]"

definition plain_validate :: "pydict \<Rightarrow> stream_message result" where
  "plain_validate d =
     (case (string_value (dget d ''category''), dict_value (dget d ''payload''),
            string_value (dget d ''run_id''), int_value (dget d ''timestamp''),
            string_value (dget d ''type'')) of
        (Some c, Some p, Some i, Some t, Some ty) \<Rightarrow>
          (case category_of c of
             None \<Rightarrow> Inl (OtherError ''ValidationError'' ''category'')
           | Some cat \<Rightarrow> Inr \<lparr>sg_run_id = i, sg_timestamp = t, sg_step = int_value (dget d ''step''),
               sg_category = cat, sg_type = ty, sg_payload = p\<rparr>)
      | _ \<Rightarrow> Inl (OtherError ''ValidationError'' ''fields''))"

definition plain_codec :: stream_codec where
  "plain_codec = \<lparr>sc_isoformat = int_str, sc_fromiso = (\<lambda>s. None), sc_dump = plain_dump, sc_validate = plain_validate\<rparr>"

lemma plain_codec_roundtrip: "plain_validate (plain_dump m) = Inr m"
  by (simp add: plain_validate_def plain_dump_def)

definition sample_message :: "string \<Rightarrow> int \<Rightarrow> stream_message" where
  "sample_message run_id t = \<lparr>sg_run_id = run_id, sg_timestamp = t, sg_step = None,
     sg_category = Cat_Progress, sg_type = ''progress'', sg_payload = []\<rparr>"

section \<open>Queues\<close>

lemma queue_of_put: "queue_of (put x p s) q = (if q = p then queue_of s q @ [x] else queue_of s q)"
  by (simp add: put_def queue_of_def update_conv')

lemma put_other [simp]:
  "st_recent (put x p s) = st_recent s" "st_subscribers (put x p s) = st_subscribers s"
  "st_closed (put x p s) = st_closed s" "st_next_queue (put x p s) = st_next_queue s"
  "st_recent_limit (put x p s) = st_recent_limit s"
  by (simp_all add: put_def)

lemma fold_put_other [simp]:
  "st_recent (fold (put x) qs s) = st_recent s" "st_subscribers (fold (put x) qs s) = st_subscribers s"
  "st_closed (fold (put x) qs s) = st_closed s" "st_next_queue (fold (put x) qs s) = st_next_queue s"
  "st_recent_limit (fold (put x) qs s) = st_recent_limit s"
  by (induction qs arbitrary: s) simp_all

lemma queue_of_fold_put:
  "distinct qs \<Longrightarrow> queue_of (fold (put x) qs s) q = queue_of s q @ (if q \<in> set qs then [x] else [])"
  by (induction qs arbitrary: s) (auto simp: queue_of_put)

lemma queue_of_update [simp]:
  "queue_of (s\<lparr>st_recent := r\<rparr>) q = queue_of s q" "queue_of (s\<lparr>st_subscribers := u\<rparr>) q = queue_of s q"
  "queue_of (s\<lparr>st_closed := c\<rparr>) q = queue_of s q" "queue_of (s\<lparr>st_next_queue := n\<rparr>) q = queue_of s q"
  by (simp_all add: queue_of_def)

lemma queue_of_new [simp]:
  "queue_of (s\<lparr>st_next_queue := n, st_queues := AList.update p xs (st_queues s)\<rparr>) q =
    (if q = p then xs else queue_of s q)"
  by (simp add: queue_of_def update_conv')

section \<open>Sequences of operations\<close>

datatype stream_op = Pub string stream_message | Sub string | Close string

fun exec_stream :: "stream_op \<Rightarrow> stream_state \<Rightarrow> stream_state" where
  "exec_stream (Pub run_id m) s = publish_state run_id m s"
| "exec_stream (Sub run_id) s = fst (subscribe run_id s)"
| "exec_stream (Close run_id) s = close_stream run_id s"

text \<open>The messages published for one run, in order.\<close>

fun published :: "string \<Rightarrow> stream_op list \<Rightarrow> stream_message list" where
  "published i [] = []"
| "published i (Pub j m # ops) = (if j = i then m # published i ops else published i ops)"
| "published i (_ # ops) = published i ops"

text \<open>The invariant: a queue is registered at most once, and its number has been given out.\<close>

definition stream_ok :: "stream_state \<Rightarrow> bool" where
  "stream_ok s \<longleftrightarrow>
     (\<forall>i. distinct (entries (st_subscribers s) i) \<and>
          (\<forall>q \<in> set (entries (st_subscribers s) i). q < st_next_queue s) \<and>
          (\<forall>j. j \<noteq> i \<longrightarrow> set (entries (st_subscribers s) i) \<inter> set (entries (st_subscribers s) j) = {}))"

lemma stream_ok_new: "stream_ok (new_stream n)"
  by (simp add: stream_ok_def new_stream_def entries_def)

lemma stream_ok_subscribe: "stream_ok s \<Longrightarrow> stream_ok (fst (subscribe i s))"
proof -
  assume ok: "stream_ok s"
  then have "\<And>j. st_next_queue s \<notin> set (entries (st_subscribers s) j)"
    by (auto simp: stream_ok_def)
  with ok show ?thesis
    by (auto simp: stream_ok_def subscribe_def Let_def less_Suc_eq)
qed

lemma stream_ok_exec: "stream_ok s \<Longrightarrow> stream_ok (exec_stream op s)"
proof (cases op)
  case (Pub i m)
  then show "stream_ok s \<Longrightarrow> ?thesis" by (simp add: publish_state_def Let_def stream_ok_def)
next
  case (Sub i)
  then show "stream_ok s \<Longrightarrow> ?thesis" by (simp add: stream_ok_subscribe)
next
  case (Close i)
  then show "stream_ok s \<Longrightarrow> ?thesis" by (auto simp: close_stream_def Let_def stream_ok_def)
qed

text \<open>Queue \<open>q\<close> is registered for run \<open>i\<close> and holds \<open>xs\<close>.\<close>

definition attached :: "string \<Rightarrow> nat \<Rightarrow> stream_item list \<Rightarrow> stream_state \<Rightarrow> bool" where
  "attached i q xs s \<longleftrightarrow> stream_ok s \<and> q \<in> set (entries (st_subscribers s) i) \<and> queue_of s q = xs"

lemma attached_not_next: "attached i q xs s \<Longrightarrow> q \<noteq> st_next_queue s"
  by (auto simp: attached_def stream_ok_def)

lemma attached_other_run: "attached i q xs s \<Longrightarrow> j \<noteq> i \<Longrightarrow> q \<notin> set (entries (st_subscribers s) j)"
  by (auto simp: attached_def stream_ok_def)

lemma attached_exec:
  assumes "attached i q xs s" and "op \<noteq> Close i"
  shows "attached i q (xs @ map Item (published i [op])) (exec_stream op s)"
proof -
  have ok: "stream_ok (exec_stream op s)" using assms(1) stream_ok_exec by (simp add: attached_def)
  have dist: "distinct (entries (st_subscribers s) j)" for j
    using assms(1) by (simp add: attached_def stream_ok_def)
  show ?thesis
  proof (cases op)
    case (Pub j m)
    then show ?thesis
      using ok assms(1) dist attached_other_run [OF assms(1), of j]
      by (auto simp: attached_def publish_state_def Let_def queue_of_fold_put)
  next
    case (Sub j)
    then show ?thesis
      using ok assms(1) attached_not_next [OF assms(1)]
      by (auto simp: attached_def subscribe_def Let_def)
  next
    case (Close j)
    then show ?thesis
      using ok assms dist attached_other_run [OF assms(1), of j]
      by (auto simp: attached_def close_stream_def Let_def queue_of_fold_put)
  qed
qed

lemma published_Cons: "published i (op # ops) = published i [op] @ published i ops"
  by (cases op) auto

lemma attached_run:
  assumes "attached i q xs s" and "Close i \<notin> set ops"
  shows "attached i q (xs @ map Item (published i ops)) (fold exec_stream ops s)"
  using assms
proof (induction ops arbitrary: xs s)
  case (Cons op ops)
  have "attached i q (xs @ map Item (published i [op])) (exec_stream op s)"
    using Cons.prems by (intro attached_exec) auto
  from Cons.IH [OF this] Cons.prems(2) show ?case
    by (simp add: published_Cons [of i op ops])
qed simp

text \<open>A queue that is registered nowhere receives nothing more.\<close>

definition detached :: "nat \<Rightarrow> stream_item list \<Rightarrow> stream_state \<Rightarrow> bool" where
  "detached q xs s \<longleftrightarrow> stream_ok s \<and> (\<forall>i. q \<notin> set (entries (st_subscribers s) i)) \<and>
     q < st_next_queue s \<and> queue_of s q = xs"

lemma attached_close:
  "attached i q xs s \<Longrightarrow> detached q (xs @ [Sentinel]) (close_stream i s)"
proof -
  assume a: "attached i q xs s"
  have "stream_ok (close_stream i s)"
    using a stream_ok_exec [of s "Close i"] by (simp add: attached_def)
  moreover have "q \<notin> set (entries (st_subscribers (close_stream i s)) j)" for j
    using attached_other_run [OF a, of j] by (simp add: close_stream_def Let_def)
  ultimately show ?thesis
    using a by (auto simp: detached_def attached_def stream_ok_def close_stream_def Let_def
        queue_of_fold_put)
qed

lemma detached_exec: "detached q xs s \<Longrightarrow> detached q xs (exec_stream op s)"
proof -
  assume d: "detached q xs s"
  have ok: "stream_ok (exec_stream op s)" using d stream_ok_exec by (simp add: detached_def)
  have dist: "distinct (entries (st_subscribers s) j)" for j
    using d by (simp add: detached_def stream_ok_def)
  show ?thesis
    using d ok dist
    by (cases op) (auto simp: detached_def publish_state_def subscribe_def close_stream_def Let_def
        queue_of_fold_put)
qed

lemma detached_run: "detached q xs s \<Longrightarrow> detached q xs (fold exec_stream ops s)"
  by (induction ops arbitrary: s) (simp_all add: detached_exec)

lemma subscribe_attached:
  assumes "stream_ok s" and "\<not> is_closed i s"
  obtains q where "subscribe i s = (exec_stream (Sub i) s, Some q)"
    "attached i q [] (exec_stream (Sub i) s)"
proof
  show "subscribe i s = (exec_stream (Sub i) s, Some (st_next_queue s))"
    using assms(2) by (simp add: subscribe_def Let_def is_closed_def)
  show "attached i (st_next_queue s) [] (exec_stream (Sub i) s)"
    using assms stream_ok_exec [of s "Sub i"]
    by (simp add: attached_def subscribe_def Let_def is_closed_def)
qed

section \<open>What a subscriber receives\<close>

text \<open>The generator run until it ends, at most \<open>n\<close> steps: what it yields, and whether it ended.\<close>

fun receive_all :: "nat \<Rightarrow> string \<Rightarrow> nat \<Rightarrow> stream_state \<Rightarrow> stream_message list \<times> bool" where
  "receive_all 0 i q s = ([], False)"
| "receive_all (Suc n) i q s =
     (case receive i q s of
        (s', Yielded m) \<Rightarrow> (case receive_all n i q s' of (ms, fin) \<Rightarrow> (m # ms, fin))
      | (s', Finished) \<Rightarrow> ([], True)
      | (s', Blocked) \<Rightarrow> ([], False))"

lemma receive_all_items:
  "queue_of s q = map Item ms @ [Sentinel] \<Longrightarrow> receive_all (Suc (length ms)) i q s = (ms, True)"
proof (induction ms arbitrary: s)
  case Nil
  then show ?case by (simp add: receive_def Let_def)
next
  case (Cons m ms)
  let ?s = "s\<lparr>st_queues := AList.update q (map Item ms @ [Sentinel]) (st_queues s)\<rparr>"
  have "receive i q s = (?s, Yielded m)" using Cons.prems by (simp add: receive_def)
  moreover have "queue_of ?s q = map Item ms @ [Sentinel]" by (simp add: queue_of_def update_conv')
  ultimately show ?case using Cons.IH [of ?s] by simp
qed

text \<open>Remark (delivery). A subscriber to an open run receives exactly the messages published for that run
  between its subscription and the closing of the run, each once and in order, and then ends, whatever
  is published, subscribed or closed for other runs meanwhile and for any run afterwards.\<close>

theorem subscriber_receives:
  assumes "\<not> is_closed i (fold exec_stream before (new_stream n))"
    and "Close i \<notin> set ops"
  shows "case subscribe i (fold exec_stream before (new_stream n)) of
      (s, None) \<Rightarrow> False
    | (s, Some q) \<Rightarrow>
        receive_all (Suc (length (published i ops))) i q
          (fold exec_stream after (close_stream i (fold exec_stream ops s))) =
        (published i ops, True)"
proof -
  let ?s = "fold exec_stream before (new_stream n)"
  have "stream_ok (fold exec_stream b s)" if "stream_ok s" for b s
    using that by (induction b arbitrary: s) (simp_all add: stream_ok_exec)
  then have "stream_ok ?s" by (simp add: stream_ok_new)
  then obtain q where sub: "subscribe i ?s = (exec_stream (Sub i) ?s, Some q)"
    and "attached i q [] (exec_stream (Sub i) ?s)"
    by (rule subscribe_attached) (rule assms(1))
  then have "attached i q (map Item (published i ops)) (fold exec_stream ops (exec_stream (Sub i) ?s))"
    using attached_run [of i q "[]"] assms(2) by fastforce
  then have "detached q (map Item (published i ops) @ [Sentinel])
      (fold exec_stream after (close_stream i (fold exec_stream ops (exec_stream (Sub i) ?s))))"
    by (intro detached_run attached_close)
  then have "queue_of (fold exec_stream after (close_stream i (fold exec_stream ops
      (exec_stream (Sub i) ?s)))) q = map Item (published i ops) @ [Sentinel]"
    by (simp only: detached_def)
  from receive_all_items [OF this] show ?thesis
    by (simp only: sub prod.case option.case)
qed

theorem subscriber_receives_witness:
  "case subscribe ''r'' (fold exec_stream [Close ''x''] (new_stream 100)) of
      (s, None) \<Rightarrow> False
    | (s, Some q) \<Rightarrow>
        receive_all (Suc (length (published ''r'' [Sub ''r'', Pub ''r'' (sample_message ''r'' 1), Pub ''y'' (sample_message ''y'' 2), Close ''y'']))) ''r'' q
          (fold exec_stream [] (close_stream ''r'' (fold exec_stream
             [Sub ''r'', Pub ''r'' (sample_message ''r'' 1), Pub ''y'' (sample_message ''y'' 2), Close ''y''] s))) =
        (published ''r'' [Sub ''r'', Pub ''r'' (sample_message ''r'' 1), Pub ''y'' (sample_message ''y'' 2), Close ''y''], True)"
proof (rule subscriber_receives)
  show "\<not> is_closed ''r'' (fold exec_stream [Close ''x''] (new_stream 100))"
    by (simp add: is_closed_def close_stream_def new_stream_def Let_def entries_def)
  show "Close ''r'' \<notin> set [Sub ''r'', Pub ''r'' (sample_message ''r'' 1), Pub ''y'' (sample_message ''y'' 2), Close ''y'']" by simp
qed

section \<open>Replay\<close>

lemma bounded_append_last_n: "bounded_append n (last_n n xs) x = last_n n (xs @ [x])"
proof (cases "length xs \<le> n")
  case True
  then show ?thesis by (simp add: bounded_append_def last_n_def Let_def)
next
  case False
  show ?thesis
  proof (cases n)
    case 0
    then show ?thesis by (simp add: bounded_append_def last_n_def)
  next
    case (Suc k)
    with False have "length xs - k = Suc (length xs - Suc k)" by simp
    with False Suc show ?thesis by (simp add: bounded_append_def last_n_def Let_def drop_Suc tl_drop)
  qed
qed

lemma length_last_n: "length (last_n n xs) = min n (length xs)"
  by (simp add: last_n_def)

lemma last_n_last_n: "last_n m (last_n n xs) = last_n (min m n) xs"
  by (cases "n \<le> length xs") (auto simp: last_n_def min_def)

lemma recent_exec:
  "entries (st_recent (exec_stream op s)) i =
    (if published i [op] = [] then entries (st_recent s) i
     else bounded_append (st_recent_limit s) (entries (st_recent s) i) (hd (published i [op])))"
  "st_recent_limit (exec_stream op s) = st_recent_limit s"
  by (cases op; simp add: publish_state_def subscribe_def close_stream_def Let_def)+

lemma recent_run:
  "entries (st_recent s) i = last_n (st_recent_limit s) ms \<Longrightarrow>
    entries (st_recent (fold exec_stream ops s)) i = last_n (st_recent_limit s) (ms @ published i ops)
    \<and> st_recent_limit (fold exec_stream ops s) = st_recent_limit s"
proof (induction ops arbitrary: s ms)
  case (Cons op ops)
  have "entries (st_recent (exec_stream op s)) i = last_n (st_recent_limit s) (ms @ published i [op])"
    by (cases op; simp only: recent_exec(1); simp add: bounded_append_last_n Cons.prems)
  then show ?case
    using Cons.IH [of "exec_stream op s" "ms @ published i [op]"] published_Cons [of i op ops]
    by (simp add: recent_exec(2))
qed simp

text \<open>Remark (replay from memory). Once a run has published messages in this process, \<open>replay_recent\<close>
  returns the last of them, in order, as many as the caller and the service allow.\<close>

theorem replay_recent_last:
  assumes "published i os \<noteq> []" and "0 < limit"
  shows "replay_recent ops cd now i limit (fold exec_stream os (new_stream n), db) =
    Inr (last_n (min (nat limit) (nat (max 1 n))) (published i os))"
proof -
  let ?s = "fold exec_stream os (new_stream n)"
  have "entries (st_recent ?s) i = last_n (st_recent_limit (new_stream n)) ([] @ published i os)"
    using recent_run [of "new_stream n" i "[]" os]
    by (simp add: new_stream_def entries_def last_n_def)
  then have recent: "entries (st_recent ?s) i = last_n (nat (max 1 n)) (published i os)"
    by (simp add: new_stream_def)
  have "length (entries (st_recent ?s) i) \<noteq> 0"
    using assms(1) by (simp add: recent length_last_n)
  with assms(2) show ?thesis
    by (auto simp: replay_recent_def Let_def recent last_n_last_n)
qed

theorem replay_recent_last_witness:
  "replay_recent mem_ops plain_codec 9 ''r'' 1 (fold exec_stream [Pub ''r'' (sample_message ''r'' 1),
       Pub ''s'' (sample_message ''s'' 2), Pub ''r'' (sample_message ''r'' 3)] (new_stream 5), empty_mem) =
    Inr [sample_message ''r'' 3]"
  by (subst replay_recent_last) (simp_all add: last_n_def)

text \<open>Remark (replay from the logs). When the messages of a run are only in the database, as after a
  restart, \<open>replay_recent\<close> reads its first \<open>limit\<close> logs: it returns the oldest messages of the run, and
  the most recent ones are not among them.\<close>

theorem replay_persisted_oldest:
  assumes "sql_ok db" and "sql_get_run i db = Some r"
    and "rr_logs r = map (\<lambda>m. encode_json (to_log cd m)) ms"
    and "\<And>m. m \<in> set ms \<Longrightarrow> from_log cd now i (encode_json (to_log cd m)) = Inr (Some m)"
    and "0 < limit" and "nat limit < length ms"
  shows "replay_recent sql_ops cd now i limit (new_stream n, db) = Inr (take (nat limit) ms)"
proof -
  have logs: "so_get_logs sql_ops i (Some limit) 0 db = Some (take (nat limit) (rr_logs r))"
    using sql.get_logs [OF assms(1), of i "Some limit" 0] assms(2,5)
    by (simp add: sql_get_ops slice_from_def)
  have parse: "parse_logs cd now i (map (\<lambda>m. encode_json (to_log cd m)) xs) = Inr xs"
    if "set xs \<subseteq> set ms" for xs
    using that by (induction xs) (simp_all add: assms(4))
  have "last_n (nat limit) (take (nat limit) (rr_logs r)) = take (nat limit) (rr_logs r)"
    by (simp add: last_n_def)
  then show ?thesis
    using assms(3,5) parse [of "take (nat limit) ms"] set_take_subset [of "nat limit" ms]
    by (simp add: replay_recent_def Let_def logs new_stream_def entries_def take_map)
qed

definition sample_logged :: sql_store where
  "sample_logged = fold (exec_store sql_ops) [St_Create 5 ''r'' Session [],
     St_Log ''r'' (to_log plain_codec (sample_message ''r'' 6)),
     St_Log ''r'' (to_log plain_codec (sample_message ''r'' 7))] empty_sql"

theorem replay_persisted_oldest_witness:
  "replay_recent sql_ops plain_codec 9 ''r'' 1 (new_stream 100, sample_logged) =
    Inr [sample_message ''r'' 6]"
proof -
  let ?log = "\<lambda>m. encode_json (to_log plain_codec m)"
  let ?ms = "[sample_message ''r'' 6, sample_message ''r'' 7]"
  have ok: "sql_ok sample_logged"
    unfolding sample_logged_def by (rule sql.run_refines(1) [OF sql_ok_empty]) (simp add: empty_views)
  have view: "sql_get_run ''r'' sample_logged =
      Some ((new_run 5 ''r'' Session [])\<lparr>rr_logs := map ?log ?ms\<rparr>)"
    unfolding sample_logged_def
    by (subst sql_run_spec) (simp_all add: modify_run_def new_run_def encode_json_def)
  have parse: "from_log plain_codec 9 ''r'' (?log (sample_message ''r'' t)) =
      Inr (Some (sample_message ''r'' t))" for t
    using plain_codec_roundtrip [of "sample_message ''r'' t"]
    by (simp add: from_log_def to_log_def plain_codec_def encode_json_def json_sort_dict_def
        plain_dump_def sample_message_def int_or_none_def)
  have "replay_recent sql_ops plain_codec 9 ''r'' 1 (new_stream 100, sample_logged) = Inr (take (nat 1) ?ms)"
    by (rule replay_persisted_oldest [OF ok view]) (auto simp: parse new_run_def)
  then show ?thesis by simp
qed

text \<open>Remark (a message and its log). The log a message is persisted as reads back as that message in any
  backend that keeps JSON, given that pydantic reads back what it dumps.\<close>

theorem log_roundtrip:
  assumes "sc_validate cd (json_sort_dict (sc_dump cd m)) = Inr m"
  shows "from_log cd now i (encode_json (to_log cd m)) = Inr (Some m)"
proof -
  have "map_of (encode_json (to_log cd m)) ''stream'' =
      Some (PDict (json_sort_dict (sc_dump cd m)))"
    unfolding encode_json_def
    by (subst map_of_json_sort_dict) (simp_all add: to_log_def json_sort_dict_def)
  then show ?thesis using assms by (simp add: from_log_def dget_def)
qed

theorem log_roundtrip_witness:
  "from_log plain_codec 0 ''r'' (encode_json (to_log plain_codec (sample_message ''r'' 6))) =
    Inr (Some (sample_message ''r'' 6))"
  by (rule log_roundtrip)
    (simp add: plain_codec_def plain_dump_def plain_validate_def json_sort_dict_def sample_message_def
      int_or_none_def category_of_def all_categories_def)

end
