(* ===== verification/Run_Service.thy ===== *)
theory Run_Service
  imports Stream_Service
begin

text \<open>
  The lifecycle of a run, \<open>sim/api/services/run_service.py\<close>, over any backend: creation, execution,
  cancellation, deletion and the reads, with their messages to the stream. A service call is a
  function of the environment (store, stream, clock) that returns a result and the new environment,
  whatever the outcome. The execution of a session or a backtest, which ends in the C++ engine, is a
  parameter: the progress payloads it reports, then its artifacts or its exception.
\<close>

section \<open>The environment\<close>

text \<open>The n-th reading of the clock is \<open>en_clock n\<close>.\<close>

(* sim/api/services/run_service.py:17-22 RunService (__init__) *)
record 's env =
  en_store :: 's
  en_stream :: "stream_state option"
  en_clock :: "nat \<Rightarrow> instant"
  en_ticks :: nat

type_synonym ('s, 'a) svc = "'s env \<Rightarrow> 's env \<times> 'a result"

definition return_s :: "'a \<Rightarrow> ('s, 'a) svc" where
  "return_s x e = (e, Inr x)"

definition raise_s :: "py_exc \<Rightarrow> ('s, 'a) svc" where
  "raise_s exc e = (e, Inl exc)"

definition bind_s :: "('s, 'a) svc \<Rightarrow> ('a \<Rightarrow> ('s, 'b) svc) \<Rightarrow> ('s, 'b) svc" where
  "bind_s m k e = (case m e of (e', Inl exc) \<Rightarrow> (e', Inl exc) | (e', Inr x) \<Rightarrow> k x e')"

definition then_s :: "('s, 'a) svc \<Rightarrow> ('s, 'b) svc \<Rightarrow> ('s, 'b) svc" where
  "then_s m n = bind_s m (\<lambda>_. n)"

text \<open>\<open>datetime.now(UTC)\<close>, and a call of the store that changes it.\<close>

definition now_s :: "('s, instant) svc" where
  "now_s e = (e\<lparr>en_ticks := Suc (en_ticks e)\<rparr>, Inr (en_clock e (en_ticks e)))"

definition store_s :: "('s \<Rightarrow> 's \<times> 'a) \<Rightarrow> ('s, 'a) svc" where
  "store_s f e = (case f (en_store e) of (db, x) \<Rightarrow> (e\<lparr>en_store := db\<rparr>, Inr x))"

definition read_s :: "('s \<Rightarrow> 'a) \<Rightarrow> ('s, 'a) svc" where
  "read_s f e = (e, Inr (f (en_store e)))"

text \<open>A call of the store that may raise.\<close>

definition store_raise_s :: "('s \<Rightarrow> 's \<times> 'a result) \<Rightarrow> ('s, 'a) svc" where
  "store_raise_s f e = (case f (en_store e) of (db, x) \<Rightarrow> (e\<lparr>en_store := db\<rparr>, x))"

definition option_s :: "py_exc \<Rightarrow> 'a option \<Rightarrow> ('s, 'a) svc" where
  "option_s exc x = (case x of None \<Rightarrow> raise_s exc | Some v \<Rightarrow> return_s v)"

fun seq_s :: "('a \<Rightarrow> ('s, unit) svc) \<Rightarrow> 'a list \<Rightarrow> ('s, unit) svc" where
  "seq_s f [] = return_s ()"
| "seq_s f (x # xs) = then_s (f x) (seq_s f xs)"

section \<open>Summaries\<close>

(* sim/api/models.py:239-255 RunSummary *)
record run_summary =
  ru_run_id :: string
  ru_run_type :: run_type
  ru_status :: run_status
  ru_created_at :: instant
  ru_started_at :: "instant option"
  ru_completed_at :: "instant option"
  ru_config :: pydict
  ru_report_summary :: pydict
  ru_error :: "string option"
  ru_scenario :: "string option"
  ru_strategy :: "string option"
  ru_step_count :: int
  ru_trade_count :: int
  ru_rejection_count :: int
  ru_polling_url :: "string option"
  ru_stream_url :: "string option"

(* sim/api/models.py:258-259 RunDetail *)
record run_detail = run_summary +
  rd_report :: pydict

definition summary_keys :: "string list" where
  "summary_keys = [''total_steps'', ''total_orders'', ''total_trades'', ''total_volume'',
     ''ending_equity'', ''final_equity'', ''rejected_orders'', ''total_rejections'']"

(* sim/api/services/run_service.py:326-337 _report_summary *)
definition report_summary :: "pydict \<Rightarrow> pydict" where
  "report_summary report =
     map (\<lambda>key. (key, dget report key)) (filter (\<lambda>key. has_key key report) summary_keys)"

(* sim/api/services/run_service.py:340-342 _string_field *)
definition string_field :: "pydict \<Rightarrow> string \<Rightarrow> string option" where
  "string_field source key = string_value (dget source key)"

(* sim/api/services/run_service.py:345-347 _summary_int *)
definition summary_int :: "pydict \<Rightarrow> string \<Rightarrow> int option" where
  "summary_int source key = int_value (dget source key)"

(* sim/api/services/run_service.py:299-320 _to_summary *)
definition to_summary :: "run_record \<Rightarrow> run_summary" where
  "to_summary record =
     (let rs = report_summary (rr_report record) in
      \<lparr>ru_run_id = rr_run_id record, ru_run_type = rr_run_type record,
       ru_status = rr_status record, ru_created_at = rr_created_at record,
       ru_started_at = rr_started_at record, ru_completed_at = rr_completed_at record,
       ru_config = rr_config record, ru_report_summary = rs, ru_error = rr_error record,
       ru_scenario = string_field (rr_config record) ''scenario'',
       ru_strategy = string_field (rr_config record) ''strategy'',
       ru_step_count = the (int_or (int_or (summary_int rs ''total_steps'')
                              (summary_int (rr_config record) ''steps'')) (Some 0)),
       ru_trade_count = the (int_or (summary_int rs ''total_trades'') (Some 0)),
       ru_rejection_count = the (int_or (int_or (summary_int rs ''total_rejections'')
                              (summary_int rs ''rejected_orders'')) (Some 0)),
       ru_polling_url = None, ru_stream_url = None\<rparr>)"

(* sim/api/services/run_service.py:322-324 _to_detail *)
definition to_detail :: "run_record \<Rightarrow> run_detail" where
  "to_detail record = run_summary.extend (to_summary record) (run_detail.fields (rr_report record))"

section \<open>Messages\<close>

(* sim/api/services/run_service.py:274-287 _publish *)
definition publish_s ::
  "'s store_ops \<Rightarrow> stream_codec \<Rightarrow> string \<Rightarrow> stream_category \<Rightarrow> string \<Rightarrow> pydict \<Rightarrow> pyval
   \<Rightarrow> ('s, unit) svc" where
  "publish_s ops cd run_id category message_type payload step e =
     (case en_stream e of
        None \<Rightarrow> (e, Inr ())
      | Some st \<Rightarrow>
          (case publish ops cd (en_clock e (en_ticks e)) run_id
                  (Fields [(''category'', PStr (category_str category)), (''type'', PStr message_type),
                           (''payload'', PDict payload), (''step'', step)])
                  True (st, en_store e) of
             ((st', db'), res) \<Rightarrow>
               (e\<lparr>en_stream := Some st', en_store := db', en_ticks := Suc (en_ticks e)\<rparr>,
                bind_r res (\<lambda>_. Inr ()))))"

(* sim/api/services/run_service.py:289-291 _close_stream *)
definition close_stream_s :: "string \<Rightarrow> ('s, unit) svc" where
  "close_stream_s run_id e =
     (e\<lparr>en_stream := map_option (close_stream run_id) (en_stream e)\<rparr>, Inr ())"

text \<open>\<open>v if isinstance(v, int) else None\<close>, where a \<open>bool\<close> is an \<open>int\<close>.\<close>

fun int_instance :: "pyval \<Rightarrow> pyval" where
  "int_instance (PInt i) = PInt i"
| "int_instance (PBool b) = PBool b"
| "int_instance _ = PNone"

(* sim/api/services/run_service.py:240-244 _progress_publisher *)
definition publish_progress :: "'s store_ops \<Rightarrow> stream_codec \<Rightarrow> string \<Rightarrow> pydict \<Rightarrow> ('s, unit) svc" where
  "publish_progress ops cd run_id payload =
     publish_s ops cd run_id Cat_Progress ''progress'' payload (int_instance (dget payload ''step''))"

section \<open>Execution\<close>

text \<open>The artifacts an execution returns; the payloads of its progress callback and its outcome.\<close>

record artifacts =
  af_report :: pydict
  af_events :: "pydict list"
  af_snapshots :: "pydict list"
  af_accounts :: "pydict list"

type_synonym executor = "string \<Rightarrow> pydict list \<times> artifacts result"

text \<open>
  \<open>SessionRunRequest(**config)\<close> followed by \<open>run_session\<close>, and the same for backtests: building the
  request may raise, and then nothing is run.
\<close>

record engines =
  eg_session :: "pydict \<Rightarrow> executor result"
  eg_backtest :: "pydict \<Rightarrow> executor result"

(* sim/api/services/run_service.py:246-263 _publish_result_streams *)
definition publish_result_streams ::
  "'s store_ops \<Rightarrow> stream_codec \<Rightarrow> string \<Rightarrow> pydict \<Rightarrow> artifacts \<Rightarrow> ('s, unit) svc" where
  "publish_result_streams ops cd run_id config result =
     then_s
       (if truthy (dget_default config ''stream_events'' (PBool False)) then
          seq_s (\<lambda>event.
            publish_s ops cd run_id Cat_Event (py_str (dget_default event ''type'' (PStr ''event''))) event
              (int_instance (py_or (dget event ''step'')
                 (dget (dict_or_empty (dget event ''data'')) ''step''))))
            (af_events result)
        else return_s ())
       (if truthy (dget_default config ''stream_snapshots'' (PBool False)) then
          seq_s (\<lambda>snapshot.
            publish_s ops cd run_id Cat_Snapshot ''snapshot'' snapshot
              (int_instance (dget snapshot ''step''))) (af_snapshots result)
        else return_s ())"

(* sim/api/services/run_service.py:265-272 _completion_payload *)
definition completion_payload :: "artifacts \<Rightarrow> pydict" where
  "completion_payload result =
     [(''report_summary'', PDict (report_summary (af_report result))),
      (''total_events'', PInt (int (length (af_events result)))),
      (''total_snapshots'', PInt (int (length (af_snapshots result)))),
      (''total_accounts'', PInt (int (length (af_accounts result))))]"

text \<open>\<open>_execute_record\<close> up to the call of the executor, and from its outcome on.\<close>

(* sim/api/services/run_service.py:194-196 _execute_record (start) *)
definition begin_record ::
  "'s store_ops \<Rightarrow> stream_codec \<Rightarrow> string \<Rightarrow> run_type \<Rightarrow> pydict \<Rightarrow> ('s, unit) svc" where
  "begin_record ops cd run_id run_type config =
     bind_s now_s (\<lambda>now.
     bind_s (store_s (so_update_run ops run_id (Some Running) (Some now) None None)) (\<lambda>_.
     publish_s ops cd run_id Cat_Status ''run_started''
       [(''run_type'', PStr (run_type_str run_type)), (''config'', PDict config)] PNone))"

text \<open>The handlers: mark the run as failed, tell the stream, close it, raise.\<close>

(* sim/api/services/run_service.py:199-217 _execute_record (handlers) *)
definition fail_record ::
  "'s store_ops \<Rightarrow> stream_codec \<Rightarrow> string \<Rightarrow> string \<Rightarrow> string \<Rightarrow> py_exc \<Rightarrow> ('s, 'a) svc" where
  "fail_record ops cd run_id error published_error exc =
     bind_s now_s (\<lambda>now.
     bind_s (store_s (so_update_run ops run_id (Some Failed) None (Some now) (Some error))) (\<lambda>_.
     bind_s (publish_s ops cd run_id Cat_Error ''run_failed'' [(''error'', PStr published_error)] PNone) (\<lambda>_.
     bind_s (close_stream_s run_id) (\<lambda>_.
     raise_s exc))))"

(* sim/api/services/run_service.py:197-238 _execute_record (outcome) *)
definition finish_record ::
  "'s store_ops \<Rightarrow> stream_codec \<Rightarrow> string \<Rightarrow> pydict \<Rightarrow> artifacts result \<Rightarrow> ('s, run_detail) svc" where
  "finish_record ops cd run_id config outcome =
     (case outcome of
        Inl (InvalidRequestError m) \<Rightarrow>
          fail_record ops cd run_id ''invalid request''
            (if m = [] then ''invalid request'' else m) (InvalidRequestError m)
      | Inl exc \<Rightarrow>
          fail_record ops cd run_id (exc_message exc) (exc_message exc)
            (RunExecutionError (exc_message exc))
      | Inr result \<Rightarrow>
          bind_s (publish_result_streams ops cd run_id config result) (\<lambda>_.
          bind_s (store_s (so_store_result ops run_id (af_report result) (af_events result)
                   (af_snapshots result) (af_accounts result) None)) (\<lambda>_.
          bind_s now_s (\<lambda>now.
          bind_s (store_s (so_update_run ops run_id (Some Completed) None (Some now) None)) (\<lambda>updated.
          bind_s (option_s (RunNotFoundError run_id) updated) (\<lambda>completed.
          bind_s (publish_s ops cd run_id Cat_Completed ''run_completed'' (completion_payload result) PNone) (\<lambda>_.
          bind_s (close_stream_s run_id) (\<lambda>_.
          return_s (to_detail completed)))))))))"

text \<open>The call of the executor inside the \<open>try\<close>: the messages it sends on its way, then its outcome; an
  exception of a message is an outcome too.\<close>

(* sim/api/services/run_service.py:197-198 _execute_record (try) *)
definition attempt_s :: "('s, 'a) svc \<Rightarrow> 'b result \<Rightarrow> ('s, 'b result) svc" where
  "attempt_s m outcome e =
     (case m e of (e', Inl exc) \<Rightarrow> (e', Inr (Inl exc)) | (e', Inr _) \<Rightarrow> (e', Inr outcome))"

(* sim/api/services/run_service.py:187-238 _execute_record *)
definition execute_record ::
  "'s store_ops \<Rightarrow> stream_codec \<Rightarrow> string \<Rightarrow> run_type \<Rightarrow> pydict \<Rightarrow> executor \<Rightarrow> ('s, run_detail) svc" where
  "execute_record ops cd run_id run_type config executor =
     bind_s (begin_record ops cd run_id run_type config) (\<lambda>_.
     bind_s (attempt_s (seq_s (publish_progress ops cd run_id) (fst (executor run_id))) (snd (executor run_id)))
       (finish_record ops cd run_id config))"

(* sim/api/services/run_service.py:293-297 _require_run *)
definition require_run :: "'s store_ops \<Rightarrow> string \<Rightarrow> ('s, run_record) svc" where
  "require_run ops run_id =
     bind_s (read_s (so_get_run ops run_id)) (option_s (RunNotFoundError run_id))"

(* sim/api/services/run_service.py:34-56 execute_pending_run *)
definition execute_pending_run ::
  "'s store_ops \<Rightarrow> stream_codec \<Rightarrow> engines \<Rightarrow> string \<Rightarrow> ('s, run_detail) svc" where
  "execute_pending_run ops cd eg run_id =
     bind_s (require_run ops run_id) (\<lambda>record.
       if rr_status record = Completed then
         raise_s (InvalidRequestError (''run is already completed: '' @ run_id))
       else if rr_status record = Canceled then
         raise_s (InvalidRequestError (''run is canceled: '' @ run_id))
       else
         (case rr_run_type record of
            Session \<Rightarrow>
              (case eg_session eg (rr_config record) of
                 Inl exc \<Rightarrow> raise_s exc
               | Inr executor \<Rightarrow>
                   execute_record ops cd (rr_run_id record) (rr_run_type record) (rr_config record) executor)
          | Backtest \<Rightarrow>
              (case eg_backtest eg (rr_config record) of
                 Inl exc \<Rightarrow> raise_s exc
               | Inr executor \<Rightarrow>
                   execute_record ops cd (rr_run_id record) (rr_run_type record) (rr_config record) executor)
          | Benchmark \<Rightarrow>
              raise_s (InvalidRequestError (''unsupported run type: '' @ run_type_str Benchmark))))"

text \<open>\<open>_execute\<close>: a new run, executed at once. The generated id is an argument.\<close>

(* sim/api/services/run_service.py:181-185 _execute *)
definition execute_new ::
  "'s store_ops \<Rightarrow> stream_codec \<Rightarrow> string \<Rightarrow> run_type \<Rightarrow> pydict \<Rightarrow> executor \<Rightarrow> ('s, run_detail) svc" where
  "execute_new ops cd new_id run_type config executor =
     bind_s now_s (\<lambda>now.
     bind_s (store_raise_s (so_create_run ops now new_id run_type config)) (\<lambda>record.
     execute_record ops cd (rr_run_id record) run_type config executor))"

(* sim/api/services/run_service.py:87-94 run_session *)
definition run_session_s ::
  "'s store_ops \<Rightarrow> stream_codec \<Rightarrow> string \<Rightarrow> pydict \<Rightarrow> executor \<Rightarrow> ('s, run_detail) svc" where
  "run_session_s ops cd new_id config executor = execute_new ops cd new_id Session config executor"

(* sim/api/services/run_service.py:96-103 run_backtest *)
definition run_backtest_s ::
  "'s store_ops \<Rightarrow> stream_codec \<Rightarrow> string \<Rightarrow> pydict \<Rightarrow> executor \<Rightarrow> ('s, run_detail) svc" where
  "run_backtest_s ops cd new_id config executor = execute_new ops cd new_id Backtest config executor"

section \<open>Queueing, cancellation, deletion\<close>

definition queue_run_s ::
  "'s store_ops \<Rightarrow> stream_codec \<Rightarrow> string \<Rightarrow> run_type \<Rightarrow> pydict \<Rightarrow> ('s, run_detail) svc" where
  "queue_run_s ops cd new_id run_type config =
     bind_s now_s (\<lambda>now.
     bind_s (store_raise_s (so_create_run ops now new_id run_type config)) (\<lambda>record.
     bind_s (publish_s ops cd (rr_run_id record) Cat_Status ''run_queued''
              [(''run_type'', PStr (run_type_str run_type)), (''config'', PDict (rr_config record))] PNone) (\<lambda>_.
     return_s (to_detail record))))"

(* sim/api/services/run_service.py:24-27 queue_session *)
definition queue_session :: "'s store_ops \<Rightarrow> stream_codec \<Rightarrow> string \<Rightarrow> pydict \<Rightarrow> ('s, run_detail) svc" where
  "queue_session ops cd new_id config = queue_run_s ops cd new_id Session config"

(* sim/api/services/run_service.py:29-32 queue_backtest *)
definition queue_backtest :: "'s store_ops \<Rightarrow> stream_codec \<Rightarrow> string \<Rightarrow> pydict \<Rightarrow> ('s, run_detail) svc" where
  "queue_backtest ops cd new_id config = queue_run_s ops cd new_id Backtest config"

(* sim/api/services/run_service.py:58-85 cancel_run *)
definition cancel_run :: "'s store_ops \<Rightarrow> stream_codec \<Rightarrow> string \<Rightarrow> ('s, run_detail) svc" where
  "cancel_run ops cd run_id =
     bind_s (require_run ops run_id) (\<lambda>record.
       if rr_status record = Completed then
         raise_s (InvalidRequestError (''completed run cannot be canceled: '' @ run_id))
       else if rr_status record = Canceled then return_s (to_detail record)
       else
         bind_s now_s (\<lambda>now.
         bind_s (store_s (so_update_run ops run_id (Some Canceled) None
                  (if rr_status record = Pending then Some now else None) (Some ''canceled''))) (\<lambda>res.
         bind_s (option_s (RunNotFoundError run_id) res) (\<lambda>updated.
         bind_s (store_s (so_append_log ops run_id
                  [(''level'', PStr ''warning''), (''message'', PStr ''run cancellation requested''),
                   (''status'', PStr (run_status_str (rr_status record))),
                   (''timestamp'', PStr (sc_isoformat cd now))])) (\<lambda>_.
         bind_s (publish_s ops cd run_id Cat_Status ''run_canceled''
                  [(''previous_status'', PStr (run_status_str (rr_status record)))] PNone) (\<lambda>_.
         bind_s (if rr_status record = Pending then close_stream_s run_id else return_s ()) (\<lambda>_.
         return_s (to_detail updated))))))))"

(* sim/api/services/run_service.py:170-174 delete_run *)
definition delete_run_s :: "'s store_ops \<Rightarrow> string \<Rightarrow> ('s, unit) svc" where
  "delete_run_s ops run_id =
     bind_s (store_s (so_delete_run ops run_id)) (\<lambda>deleted.
       if \<not> deleted then raise_s (RunNotFoundError run_id) else close_stream_s run_id)"

section \<open>Reads\<close>

(* sim/api/services/run_service.py:105-106 list_runs *)
definition list_runs_s :: "'s store_ops \<Rightarrow> ('s, run_summary list) svc" where
  "list_runs_s ops = bind_s (read_s (so_list_runs ops)) (\<lambda>rs. return_s (map to_summary rs))"

(* sim/api/services/run_service.py:108-109 get_run *)
definition get_run_s :: "'s store_ops \<Rightarrow> string \<Rightarrow> ('s, run_detail) svc" where
  "get_run_s ops run_id = bind_s (require_run ops run_id) (\<lambda>r. return_s (to_detail r))"

(* sim/api/services/run_service.py:111-115 get_report *)
definition get_report_s :: "'s store_ops \<Rightarrow> string \<Rightarrow> ('s, pydict) svc" where
  "get_report_s ops run_id =
     bind_s (read_s (so_get_report ops run_id)) (option_s (RunNotFoundError run_id))"

(* sim/api/services/run_service.py:117-131 get_events *)
definition get_events_s ::
  "'s store_ops \<Rightarrow> string \<Rightarrow> string option \<Rightarrow> string option \<Rightarrow> int option \<Rightarrow> int
   \<Rightarrow> ('s, pydict list) svc" where
  "get_events_s ops run_id symbol event_type limit offset =
     bind_s (read_s (so_get_events ops run_id symbol event_type limit offset))
       (option_s (RunNotFoundError run_id))"

(* sim/api/services/run_service.py:133-144 get_snapshots *)
definition get_snapshots_s ::
  "'s store_ops \<Rightarrow> string \<Rightarrow> string option \<Rightarrow> int option \<Rightarrow> int \<Rightarrow> ('s, pydict list) svc" where
  "get_snapshots_s ops run_id symbol limit offset =
     bind_s (read_s (so_get_snapshots ops run_id symbol limit offset))
       (option_s (RunNotFoundError run_id))"

(* sim/api/services/run_service.py:146-156 get_accounts *)
definition get_accounts_s ::
  "'s store_ops \<Rightarrow> string \<Rightarrow> string option \<Rightarrow> string option \<Rightarrow> ('s, pydict list) svc" where
  "get_accounts_s ops run_id account_id symbol =
     bind_s (read_s (so_get_accounts ops run_id account_id symbol None 0))
       (option_s (RunNotFoundError run_id))"

(* sim/api/services/run_service.py:158-168 get_logs *)
definition get_logs_s :: "'s store_ops \<Rightarrow> string \<Rightarrow> int option \<Rightarrow> int \<Rightarrow> ('s, pydict list) svc" where
  "get_logs_s ops run_id limit offset =
     bind_s (read_s (so_get_logs ops run_id limit offset)) (option_s (RunNotFoundError run_id))"

end
