(* ===== verification/Run_Lifecycle.thy ===== *)
theory Run_Lifecycle
  imports Run_Service Store_Refinement
begin

text \<open>
  The lifecycle of a run over any backend that keeps the storage contract, and the properties of the
  service on the SQLite backend. Service calls are reasoned about with weakest preconditions.
\<close>

section \<open>Weakest preconditions\<close>

definition wp_s :: "('s, 'a) svc \<Rightarrow> 's env \<Rightarrow> ('s env \<Rightarrow> 'a result \<Rightarrow> bool) \<Rightarrow> bool" where
  "wp_s m e P = (case m e of (e', res) \<Rightarrow> P e' res)"

named_theorems wp_rules "weakest preconditions of the service combinators"

lemma wp_return [wp_rules]: "wp_s (return_s x) e P = P e (Inr x)"
  by (simp add: wp_s_def return_s_def)

lemma wp_raise [wp_rules]: "wp_s (raise_s exc) e P = P e (Inl exc)"
  by (simp add: wp_s_def raise_s_def)

lemma wp_bind [wp_rules]:
  "wp_s (bind_s m k) e P =
    wp_s m e (\<lambda>e' res. case res of Inl exc \<Rightarrow> P e' (Inl exc) | Inr x \<Rightarrow> wp_s (k x) e' P)"
  by (simp add: wp_s_def bind_s_def split: prod.split sum.split)

lemma wp_then [wp_rules]:
  "wp_s (then_s m n) e P =
    wp_s m e (\<lambda>e' res. case res of Inl exc \<Rightarrow> P e' (Inl exc) | Inr _ \<Rightarrow> wp_s n e' P)"
  by (simp add: then_s_def wp_bind)

lemma wp_now [wp_rules]:
  "wp_s now_s e P = P (e\<lparr>en_ticks := Suc (en_ticks e)\<rparr>) (Inr (en_clock e (en_ticks e)))"
  by (simp add: wp_s_def now_s_def)

lemma wp_store [wp_rules]:
  "wp_s (store_s f) e P = (case f (en_store e) of (db, x) \<Rightarrow> P (e\<lparr>en_store := db\<rparr>) (Inr x))"
  by (simp add: wp_s_def store_s_def split: prod.split)

lemma wp_read [wp_rules]: "wp_s (read_s f) e P = P e (Inr (f (en_store e)))"
  by (simp add: wp_s_def read_s_def)

lemma wp_option [wp_rules]:
  "wp_s (option_s exc x) e P = (case x of None \<Rightarrow> P e (Inl exc) | Some v \<Rightarrow> P e (Inr v))"
  by (simp add: option_s_def wp_rules split: option.split)

lemma wp_attempt [wp_rules]:
  "wp_s (attempt_s m outcome) e P =
    wp_s m e (\<lambda>e' res. P e' (Inr (case res of Inl exc \<Rightarrow> Inl exc | Inr _ \<Rightarrow> outcome)))"
  by (simp add: wp_s_def attempt_s_def split: prod.split sum.split)

lemma wp_close [wp_rules]:
  "wp_s (close_stream_s i) e P = P (e\<lparr>en_stream := map_option (close_stream i) (en_stream e)\<rparr>) (Inr ())"
  by (simp add: wp_s_def close_stream_s_def)

lemma wp_mono:
  "wp_s m e P \<Longrightarrow> (\<And>e' res. P e' res \<Longrightarrow> Q e' res) \<Longrightarrow> wp_s m e Q"
  by (auto simp: wp_s_def split: prod.splits)

section \<open>What publishing leaves alone\<close>

context run_store
begin

text \<open>From \<open>s\<close> to \<open>s'\<close> only logs were added to run \<open>i\<close>.\<close>

definition only_logs :: "string \<Rightarrow> 's \<Rightarrow> 's \<Rightarrow> bool" where
  "only_logs i s s' \<longleftrightarrow> ok s' \<and> (\<forall>j. j \<noteq> i \<longrightarrow> so_get_run ops j s' = so_get_run ops j s) \<and>
     (\<exists>ls. so_get_run ops i s' = map_option (\<lambda>r. r\<lparr>rr_logs := rr_logs r @ ls\<rparr>) (so_get_run ops i s))"

lemma only_logs_refl: "ok s \<Longrightarrow> only_logs i s s"
proof -
  have "(\<lambda>r. r\<lparr>rr_logs := rr_logs r @ []\<rparr>) = (\<lambda>r. r :: run_record)" by (simp add: fun_eq_iff)
  then show "ok s \<Longrightarrow> ?thesis"
    unfolding only_logs_def by (auto intro!: exI [of _ "[]"] simp: option.map_ident)
qed

lemma only_logs_trans: "only_logs i s s' \<Longrightarrow> only_logs i s' s'' \<Longrightarrow> only_logs i s s''"
proof -
  assume a: "only_logs i s s'" "only_logs i s' s''"
  then obtain ls ls' where
    "so_get_run ops i s' = map_option (\<lambda>r. r\<lparr>rr_logs := rr_logs r @ ls\<rparr>) (so_get_run ops i s)"
    "so_get_run ops i s'' = map_option (\<lambda>r. r\<lparr>rr_logs := rr_logs r @ ls'\<rparr>) (so_get_run ops i s')"
    by (auto simp: only_logs_def)
  then have "so_get_run ops i s'' =
      map_option (\<lambda>r. r\<lparr>rr_logs := rr_logs r @ (ls @ ls')\<rparr>) (so_get_run ops i s)"
    by (cases "so_get_run ops i s") simp_all
  moreover have "ok s''" "\<forall>j. j \<noteq> i \<longrightarrow> so_get_run ops j s'' = so_get_run ops j s"
    using a by (auto simp: only_logs_def)
  ultimately show ?thesis unfolding only_logs_def by blast
qed

lemma only_logs_append: "ok s \<Longrightarrow> only_logs i s (fst (so_append_log ops i entry s))"
  using append_log [of s i entry] by (auto simp: only_logs_def split: prod.splits)

lemma wp_publish:
  assumes "ok (en_store e)"
    and "\<And>e'. only_logs i (en_store e) (en_store e') \<Longrightarrow> P e' (Inr ())"
  shows "wp_s (publish_s ops cd i cat ty payload step) e P"
proof (cases "en_stream e")
  case None
  then show ?thesis
    using assms only_logs_refl by (simp add: wp_s_def publish_s_def)
next
  case (Some st)
  let ?msg = "Fields [(''category'', PStr (category_str cat)), (''type'', PStr ty),
    (''payload'', PDict payload), (''step'', step)]"
  obtain m where m: "coerce_message (en_clock e (en_ticks e)) i ?msg = Inr m"
    by (simp add: Let_def)
  then show ?thesis
    using assms(2) only_logs_append [OF assms(1), of i "to_log cd m"] Some
    by (simp add: wp_s_def publish_s_def publish_def Let_def del: coerce_message.simps)
qed

lemma wp_seq_publish:
  assumes "ok (en_store e)"
    and "\<And>e'. only_logs i (en_store e) (en_store e') \<Longrightarrow> P e' (Inr ())"
  shows "wp_s (seq_s (\<lambda>x. publish_s ops cd i (cat x) (ty x) (payload x) (step x)) xs) e P"
  using assms
proof (induction xs arbitrary: e)
  case Nil
  then show ?case using only_logs_refl by (simp add: wp_return)
next
  case (Cons x xs)
  have "wp_s (seq_s (\<lambda>x. publish_s ops cd i (cat x) (ty x) (payload x) (step x)) xs) e' P"
    if "only_logs i (en_store e) (en_store e')" for e'
    using that Cons.prems(2) only_logs_trans [OF that] by (intro Cons.IH) (auto simp: only_logs_def)
  then show ?case
    by (simp add: wp_then) (rule wp_publish [OF Cons.prems(1)], simp)
qed

lemma wp_result_streams:
  assumes "ok (en_store e)"
    and "\<And>e'. only_logs i (en_store e) (en_store e') \<Longrightarrow> P e' (Inr ())"
  shows "wp_s (publish_result_streams ops cd i config a) e P"
proof -
  have snd: "wp_s (if truthy (dget_default config ''stream_snapshots'' (PBool False)) then
        seq_s (\<lambda>snapshot. publish_s ops cd i Cat_Snapshot ''snapshot'' snapshot
              (int_instance (dget snapshot ''step''))) (af_snapshots a)
       else return_s ()) e' P"
    if "only_logs i (en_store e) (en_store e')" for e'
    using that assms(2) only_logs_trans [OF that]
    by (auto simp: wp_return only_logs_def intro!: wp_seq_publish)
  show ?thesis
    unfolding publish_result_streams_def wp_then
    using snd only_logs_refl [OF assms(1)]
    by (auto simp: wp_return intro!: wp_seq_publish [OF assms(1)])
qed

section \<open>Execution of one run\<close>

text \<open>Everywhere but at run \<open>i\<close> the two stores agree.\<close>

definition others_same :: "string \<Rightarrow> 's \<Rightarrow> 's \<Rightarrow> bool" where
  "others_same i s s' \<longleftrightarrow> ok s' \<and> (\<forall>j. j \<noteq> i \<longrightarrow> so_get_run ops j s' = so_get_run ops j s)"

lemma others_same_logs: "only_logs i s s' \<Longrightarrow> others_same i s s'"
  by (simp add: only_logs_def others_same_def)

lemma others_same_trans: "others_same i s s' \<Longrightarrow> others_same i s' s'' \<Longrightarrow> others_same i s s''"
  by (simp add: others_same_def)

lemma others_same_ok: "others_same i s s' \<Longrightarrow> ok s'"
  by (simp add: others_same_def)

lemma only_logs_get:
  assumes "only_logs i s s'" and "so_get_run ops i s = Some r"
  obtains ls where "so_get_run ops i s' = Some (r\<lparr>rr_logs := rr_logs r @ ls\<rparr>)"
  using assms by (auto simp: only_logs_def)

lemma update_step:
  assumes "ok s" and "so_get_run ops i s = Some r"
  shows "\<exists>s'. so_update_run ops i st sa ca err s = (s', Some (apply_update st sa ca err r)) \<and>
    others_same i s s' \<and> so_get_run ops i s' = Some (apply_update st sa ca err r)"
  using update_run [OF assms(1), where run_id = i and st = st and sa = sa and ca = ca and err = err] assms(2)
  by (auto simp: others_same_def split: prod.splits)

lemma result_step:
  assumes "ok s" and "so_get_run ops i s = Some r"
  shows "\<exists>s' r'. so_store_result ops i (af_report a) (af_events a) (af_snapshots a) (af_accounts a) None s =
      (s', Some r') \<and> others_same i s s' \<and> so_get_run ops i s' = Some r' \<and>
    r' = r\<lparr>rr_report := canon (af_report a), rr_events := map canon (af_events a),
       rr_snapshots := map canon (arrange (af_snapshots a)), rr_accounts := map canon (af_accounts a)\<rparr>"
  using store_result [OF assms(1), where run_id = i and report = "af_report a" and events = "af_events a"
      and snapshots = "af_snapshots a" and accounts = "af_accounts a" and logs = None] assms(2)
  by (auto simp: others_same_def split: prod.splits)

text \<open>
  The record of a run after a successful execution, against the one before: completed, with the
  artifacts; the error and the rest are as they were.
\<close>

definition completed_with :: "artifacts \<Rightarrow> run_record \<Rightarrow> run_record \<Rightarrow> bool" where
  "completed_with a r r' \<longleftrightarrow>
     rr_status r' = Completed \<and> rr_completed_at r' \<noteq> None \<and>
     rr_report r' = canon (af_report a) \<and> rr_events r' = map canon (af_events a) \<and>
     rr_snapshots r' = map canon (arrange (af_snapshots a)) \<and> rr_accounts r' = map canon (af_accounts a) \<and>
     rr_error r' = rr_error r \<and> rr_config r' = rr_config r \<and> rr_run_type r' = rr_run_type r \<and>
     rr_created_at r' = rr_created_at r \<and> rr_started_at r' = rr_started_at r \<and>
     rr_verification r' = rr_verification r \<and> (\<exists>ls. rr_logs r' = rr_logs r @ ls)"

definition failed_with :: "string \<Rightarrow> run_record \<Rightarrow> run_record \<Rightarrow> bool" where
  "failed_with error r r' \<longleftrightarrow>
     rr_status r' = Failed \<and> rr_completed_at r' \<noteq> None \<and> rr_error r' = Some error \<and>
     rr_report r' = rr_report r \<and> rr_events r' = rr_events r \<and> rr_snapshots r' = rr_snapshots r \<and>
     rr_accounts r' = rr_accounts r \<and> rr_config r' = rr_config r \<and> rr_run_type r' = rr_run_type r \<and>
     rr_created_at r' = rr_created_at r \<and> rr_started_at r' = rr_started_at r \<and>
     rr_verification r' = rr_verification r"

lemma wp_finish_ok:
  assumes "ok (en_store e)" and "so_get_run ops i (en_store e) = Some r"
  shows "wp_s (finish_record ops cd i config (Inr a)) e (\<lambda>e' res.
    others_same i (en_store e) (en_store e') \<and>
    (\<exists>r' ls. so_get_run ops i (en_store e') = Some (r'\<lparr>rr_logs := rr_logs r' @ ls\<rparr>) \<and>
       completed_with a r r' \<and> res = Inr (to_detail r')))"
proof -
  let ?P = "\<lambda>e' res. others_same i (en_store e) (en_store e') \<and>
    (\<exists>r' ls. so_get_run ops i (en_store e') = Some (r'\<lparr>rr_logs := rr_logs r' @ ls\<rparr>) \<and>
       completed_with a r r' \<and> res = Inr (to_detail r'))"
  have tail: "wp_s (bind_s (store_s (so_store_result ops i (af_report a) (af_events a)
                   (af_snapshots a) (af_accounts a) None)) (\<lambda>_.
          bind_s now_s (\<lambda>now.
          bind_s (store_s (so_update_run ops i (Some Completed) None (Some now) None)) (\<lambda>updated.
          bind_s (option_s (RunNotFoundError i) updated) (\<lambda>completed.
          bind_s (publish_s ops cd i Cat_Completed ''run_completed'' (completion_payload a) PNone) (\<lambda>_.
          bind_s (close_stream_s i) (\<lambda>_. return_s (to_detail completed)))))))) e1 ?P"
    if logs: "only_logs i (en_store e) (en_store e1)" for e1
  proof -
    from logs assms(2) obtain ls where
      g1: "so_get_run ops i (en_store e1) = Some (r\<lparr>rr_logs := rr_logs r @ ls\<rparr>)"
      by (rule only_logs_get)
    have ok1: "ok (en_store e1)" using logs by (simp add: only_logs_def)
    from result_step [OF ok1 g1, of a] obtain s2 r2 where
      s2: "so_store_result ops i (af_report a) (af_events a) (af_snapshots a) (af_accounts a) None
        (en_store e1) = (s2, Some r2)" "others_same i (en_store e1) s2" "so_get_run ops i s2 = Some r2"
      and r2: "r2 = (r\<lparr>rr_logs := rr_logs r @ ls\<rparr>)\<lparr>rr_report := canon (af_report a),
        rr_events := map canon (af_events a), rr_snapshots := map canon (arrange (af_snapshots a)),
        rr_accounts := map canon (af_accounts a)\<rparr>"
      by blast
    let ?t = "en_clock e1 (en_ticks e1)"
    from update_step [OF others_same_ok [OF s2(2)] s2(3), of "Some Completed" None "Some ?t" None]
    obtain s3 where s3: "so_update_run ops i (Some Completed) None (Some ?t) None s2 =
        (s3, Some (apply_update (Some Completed) None (Some ?t) None r2))" "others_same i s2 s3"
        "so_get_run ops i s3 = Some (apply_update (Some Completed) None (Some ?t) None r2)"
      by blast
    have fin: "completed_with a r (apply_update (Some Completed) None (Some ?t) None r2)"
      by (simp add: completed_with_def r2)
    have same: "others_same i (en_store e) s3"
      using others_same_logs [OF logs] s2(2) s3(2) others_same_trans by blast
    have end_ok: "others_same i (en_store e) (en_store e') \<and>
        (\<exists>r' ls. so_get_run ops i (en_store e') = Some (r'\<lparr>rr_logs := rr_logs r' @ ls\<rparr>) \<and>
          completed_with a r r' \<and>
          to_detail (apply_update (Some Completed) None (Some ?t) None r2) = to_detail r')"
      if e': "only_logs i s3 (en_store e')" for e'
    proof -
      obtain ls where "so_get_run ops i (en_store e') =
          Some ((apply_update (Some Completed) None (Some ?t) None r2)
            \<lparr>rr_logs := rr_logs (apply_update (Some Completed) None (Some ?t) None r2) @ ls\<rparr>)"
        by (rule only_logs_get [OF e' s3(3)])
      then show ?thesis
        using fin others_same_trans [OF same others_same_logs [OF e']] by blast
    qed
    show ?thesis
      by (simp add: wp_rules s2(1) s3(1))
        (rule wp_publish, use s3(2) others_same_ok in simp, use end_ok in simp)
  qed
  show ?thesis
    unfolding finish_record_def sum.case wp_bind [of "publish_result_streams ops cd i config a"]
    by (rule wp_result_streams [OF assms(1)]) (simp only: sum.case, rule tail)
qed

lemma wp_fail:
  assumes "ok (en_store e)" and "so_get_run ops i (en_store e) = Some r"
  shows "wp_s (fail_record ops cd i err perr exc) e (\<lambda>e' res.
    others_same i (en_store e) (en_store e') \<and> res = Inl exc \<and>
    (\<exists>r'. so_get_run ops i (en_store e') = Some r' \<and> failed_with err r r'))"
proof -
  let ?t = "en_clock e (en_ticks e)"
  from update_step [OF assms, of "Some Failed" None "Some ?t" "Some err"]
  obtain s2 where s2: "so_update_run ops i (Some Failed) None (Some ?t) (Some err) (en_store e) =
      (s2, Some (apply_update (Some Failed) None (Some ?t) (Some err) r))" "others_same i (en_store e) s2"
      "so_get_run ops i s2 = Some (apply_update (Some Failed) None (Some ?t) (Some err) r)"
    by blast
  have end_ok: "others_same i (en_store e) (en_store e') \<and>
      (\<exists>r'. so_get_run ops i (en_store e') = Some r' \<and> failed_with err r r')"
    if e': "only_logs i s2 (en_store e')" for e'
  proof -
    obtain ls where "so_get_run ops i (en_store e') =
        Some ((apply_update (Some Failed) None (Some ?t) (Some err) r)
          \<lparr>rr_logs := rr_logs (apply_update (Some Failed) None (Some ?t) (Some err) r) @ ls\<rparr>)"
      by (rule only_logs_get [OF e' s2(3)])
    then show ?thesis
      using others_same_trans [OF s2(2) others_same_logs [OF e']] by (simp add: failed_with_def)
  qed
  show ?thesis
    unfolding fail_record_def
    by (simp add: wp_rules s2(1))
      (rule wp_publish, use s2(2) others_same_ok in simp, use end_ok in simp)
qed

text \<open>The exception a failed execution raises, and the error it records.\<close>

fun raised :: "py_exc \<Rightarrow> py_exc" where
  "raised (InvalidRequestError m) = InvalidRequestError m"
| "raised exc = RunExecutionError (exc_message exc)"

fun recorded :: "py_exc \<Rightarrow> string" where
  "recorded (InvalidRequestError m) = ''invalid request''"
| "recorded exc = exc_message exc"

lemma wp_finish_fail:
  assumes "ok (en_store e)" and "so_get_run ops i (en_store e) = Some r"
  shows "wp_s (finish_record ops cd i config (Inl exc)) e (\<lambda>e' res.
    others_same i (en_store e) (en_store e') \<and> res = Inl (raised exc) \<and>
    (\<exists>r'. so_get_run ops i (en_store e') = Some r' \<and> failed_with (recorded exc) r r'))"
  unfolding finish_record_def
  by (cases exc) (simp_all only: sum.case py_exc.case raised.simps recorded.simps wp_fail [OF assms])

text \<open>The start of an execution: running, with its start time.\<close>

lemma wp_begin:
  assumes "ok (en_store e)" and "so_get_run ops i (en_store e) = Some r"
    and "\<And>e' t ls. others_same i (en_store e) (en_store e') \<Longrightarrow>
      so_get_run ops i (en_store e') = Some ((apply_update (Some Running) (Some t) None None r)
        \<lparr>rr_logs := rr_logs r @ ls\<rparr>) \<Longrightarrow> P e' (Inr ())"
  shows "wp_s (begin_record ops cd i ty config) e P"
proof -
  let ?t = "en_clock e (en_ticks e)"
  from update_step [OF assms(1,2), of "Some Running" "Some ?t" None None]
  obtain s2 where s2: "so_update_run ops i (Some Running) (Some ?t) None None (en_store e) =
      (s2, Some (apply_update (Some Running) (Some ?t) None None r))" "others_same i (en_store e) s2"
      "so_get_run ops i s2 = Some (apply_update (Some Running) (Some ?t) None None r)"
    by blast
  have end_ok: "P e' (Inr ())" if e': "only_logs i s2 (en_store e')" for e'
  proof -
    obtain ls where "so_get_run ops i (en_store e') =
        Some ((apply_update (Some Running) (Some ?t) None None r)
          \<lparr>rr_logs := rr_logs (apply_update (Some Running) (Some ?t) None None r) @ ls\<rparr>)"
      by (rule only_logs_get [OF e' s2(3)])
    then show ?thesis
      using assms(3) others_same_trans [OF s2(2) others_same_logs [OF e']] by simp
  qed
  show ?thesis
    unfolding begin_record_def
    by (simp add: wp_rules s2(1))
      (rule wp_publish, use s2(2) others_same_ok in simp, use end_ok in simp)
qed

text \<open>The whole of \<open>_execute_record\<close>.\<close>

definition started :: "run_record \<Rightarrow> run_record \<Rightarrow> bool" where
  "started r r1 \<longleftrightarrow> rr_status r1 = Running \<and> rr_started_at r1 \<noteq> None \<and> rr_completed_at r1 = rr_completed_at r \<and>
     rr_error r1 = rr_error r \<and> rr_config r1 = rr_config r \<and> rr_run_type r1 = rr_run_type r \<and>
     rr_created_at r1 = rr_created_at r \<and> rr_report r1 = rr_report r \<and> rr_events r1 = rr_events r \<and>
     rr_snapshots r1 = rr_snapshots r \<and> rr_accounts r1 = rr_accounts r \<and>
     rr_verification r1 = rr_verification r"

lemma wp_execute:
  assumes "ok (en_store e)" and "so_get_run ops i (en_store e) = Some r"
  shows "wp_s (execute_record ops cd i ty config executor) e (\<lambda>e' res.
    others_same i (en_store e) (en_store e') \<and>
    (\<exists>r1 r'. started r r1 \<and> so_get_run ops i (en_store e') = Some r' \<and>
      (case snd (executor i) of
         Inr a \<Rightarrow> completed_with a r1 r' \<and> (\<exists>d. res = Inr d \<and> ru_status d = Completed \<and> ru_run_id d = i)
       | Inl exc \<Rightarrow> failed_with (recorded exc) r1 r' \<and> res = Inl (raised exc))))"
    (is "wp_s _ e ?Q")
proof -
  have finish: "wp_s (finish_record ops cd i config (snd (executor i))) e2 ?Q"
    if others: "others_same i (en_store e) (en_store e1)"
      and logs: "only_logs i (en_store e1) (en_store e2)"
      and get1: "so_get_run ops i (en_store e1) =
        Some ((apply_update (Some Running) (Some t) None None r)\<lparr>rr_logs := rr_logs r @ ls\<rparr>)" for e1 e2 t ls
  proof -
    obtain ls' where get2: "so_get_run ops i (en_store e2) =
        Some ((apply_update (Some Running) (Some t) None None r)\<lparr>rr_logs := rr_logs r @ ls @ ls'\<rparr>)"
      using only_logs_get [OF logs get1] by fastforce
    let ?r1 = "(apply_update (Some Running) (Some t) None None r)\<lparr>rr_logs := rr_logs r @ ls @ ls'\<rparr>"
    have ok2: "ok (en_store e2)" using logs by (simp add: only_logs_def)
    have st: "started r ?r1" by (simp add: started_def)
    have id: "rr_run_id ?r1 = i" using get_run_id [OF ok2 get2] .
    have same: "others_same i (en_store e) (en_store e2)"
      using others_same_trans [OF others others_same_logs [OF logs]] .
    show ?thesis
    proof (cases "snd (executor i)")
      case (Inl exc)
      show ?thesis
        unfolding Inl
        by (rule wp_mono [OF wp_finish_fail [OF ok2 get2]])
          (use st same others_same_trans in \<open>auto simp: Inl\<close>)
    next
      case (Inr a)
      have detail: "ru_status (to_detail r') = Completed \<and> ru_run_id (to_detail r') = i \<and>
          completed_with a ?r1 (r'\<lparr>rr_logs := rr_logs r' @ xs\<rparr>)"
        if "completed_with a ?r1 r'" "so_get_run ops i (en_store e3) = Some (r'\<lparr>rr_logs := rr_logs r' @ xs\<rparr>)"
          "ok (en_store e3)" for r' xs e3
        using that get_run_id [OF that(3,2)]
        by (auto simp: completed_with_def to_detail_def to_summary_def Let_def run_summary.defs)
      show ?thesis
        unfolding Inr
        by (rule wp_mono [OF wp_finish_ok [OF ok2 get2]])
          (use st same others_same_trans others_same_ok detail in \<open>simp add: Inr, blast\<close>)
    qed
  qed
  have middle: "wp_s (bind_s (attempt_s (seq_s (publish_progress ops cd i) (fst (executor i))) (snd (executor i)))
      (finish_record ops cd i config)) e1 ?Q"
    if "others_same i (en_store e) (en_store e1)"
      and "so_get_run ops i (en_store e1) =
        Some ((apply_update (Some Running) (Some t) None None r)\<lparr>rr_logs := rr_logs r @ ls\<rparr>)" for e1 t ls
    unfolding wp_bind wp_attempt publish_progress_def [abs_def]
    by (rule wp_seq_publish) (use that others_same_ok finish in \<open>simp_all only: sum.case\<close>)
  show ?thesis
    unfolding execute_record_def wp_bind [of "begin_record ops cd i ty config"]
    by (rule wp_begin [OF assms]) (use middle in \<open>simp only: sum.case\<close>)
qed

section \<open>Guards and cancellation\<close>

lemma wp_require:
  "wp_s (require_run ops i) e P =
    (case so_get_run ops i (en_store e) of
       None \<Rightarrow> P e (Inl (RunNotFoundError i)) | Some r \<Rightarrow> P e (Inr r))"
  by (simp add: require_run_def wp_rules)

text \<open>The executor of a record, as \<open>execute_pending_run\<close> chooses it.\<close>

lemma wp_pending:
  assumes "ok (en_store e)" and "so_get_run ops i (en_store e) = Some r"
    and "rr_status r \<notin> {Completed, Canceled}"
    and "(rr_run_type r = Session \<and> eg_session eg (rr_config r) = Inr executor) \<or>
      (rr_run_type r = Backtest \<and> eg_backtest eg (rr_config r) = Inr executor)"
  shows "wp_s (execute_pending_run ops cd eg i) e P =
    wp_s (execute_record ops cd i (rr_run_type r) (rr_config r) executor) e P"
  using assms get_run_id [OF assms(1,2)]
  by (auto simp: execute_pending_run_def wp_rules wp_require)

lemma wp_pending_guard:
  assumes "case so_get_run ops i (en_store e) of None \<Rightarrow> True
    | Some r \<Rightarrow> rr_status r \<in> {Completed, Canceled} \<or> rr_run_type r = Benchmark"
  shows "\<exists>exc. execute_pending_run ops cd eg i e = (e, Inl exc) \<and> api_error exc \<noteq> None"
proof -
  have "wp_s (execute_pending_run ops cd eg i) e (\<lambda>e' res. e' = e \<and> (\<exists>exc. res = Inl exc \<and> api_error exc \<noteq> None))"
    using assms
    by (cases "so_get_run ops i (en_store e)")
      (auto simp: execute_pending_run_def wp_rules wp_require)
  then show ?thesis by (auto simp: wp_s_def split: prod.splits)
qed

text \<open>The first call of a sequence, evaluated.\<close>

lemma bind_require:
  "so_get_run ops i (en_store e) = Some r \<Longrightarrow> bind_s (require_run ops i) k e = k r e"
  by (simp add: require_run_def bind_s_def read_s_def option_s_def return_s_def)

lemma bind_now: "bind_s now_s k e = k (en_clock e (en_ticks e)) (e\<lparr>en_ticks := Suc (en_ticks e)\<rparr>)"
  by (simp add: bind_s_def now_s_def)

lemma bind_store:
  "f (en_store e) = (db, x) \<Longrightarrow> bind_s (store_s f) k e = k x (e\<lparr>en_store := db\<rparr>)"
  by (simp add: bind_s_def store_s_def)

lemma bind_option: "bind_s (option_s exc (Some v)) k = k v"
  by (simp add: bind_s_def option_s_def return_s_def fun_eq_iff)

lemma append_step:
  assumes "ok s"
  shows "\<exists>s' b. so_append_log ops i entry s = (s', b) \<and> only_logs i s s'"
  using only_logs_append [OF assms, of i entry]
  by (cases "so_append_log ops i entry s") auto

lemma wp_cancel:
  assumes "ok (en_store e)" and "so_get_run ops i (en_store e) = Some r"
    and "rr_status r \<notin> {Completed, Canceled}"
  shows "wp_s (cancel_run ops cd i) e (\<lambda>e' res. others_same i (en_store e) (en_store e') \<and>
    (\<exists>d r'. res = Inr d \<and> ru_status d = Canceled \<and> so_get_run ops i (en_store e') = Some r' \<and>
       rr_status r' = Canceled \<and> rr_error r' = Some ''canceled'' \<and> rr_config r' = rr_config r \<and>
       (rr_status r = Running \<longrightarrow> rr_completed_at r' = rr_completed_at r) \<and>
       (rr_status r = Pending \<longrightarrow> rr_completed_at r' \<noteq> None)))"
    (is "wp_s _ e ?Q")
proof -
  let ?t = "en_clock e (en_ticks e)"
  define c where "c = (if rr_status r = Pending then Some ?t else None)"
  let ?r = "apply_update (Some Canceled) None c (Some ''canceled'') r"
  from update_step [OF assms(1,2), of "Some Canceled" None c "Some ''canceled''"]
  obtain s2 where s2: "so_update_run ops i (Some Canceled) None c (Some ''canceled'') (en_store e) =
      (s2, Some ?r)" "others_same i (en_store e) s2" "so_get_run ops i s2 = Some ?r" by blast
  let ?entry = "[(''level'', PStr ''warning''), (''message'', PStr ''run cancellation requested''),
    (''status'', PStr (run_status_str (rr_status r))), (''timestamp'', PStr (sc_isoformat cd ?t))]"
  from append_step [OF others_same_ok [OF s2(2)], of i ?entry] obtain s3 b where
    s3: "so_append_log ops i ?entry s2 = (s3, b)" "only_logs i s2 s3" by blast
  have end_ok: "?Q e' (Inr (to_detail ?r))" if e': "only_logs i s3 (en_store e')" for e'
  proof -
    have logs: "only_logs i s2 (en_store e')" by (rule only_logs_trans [OF s3(2) e'])
    obtain ls where "so_get_run ops i (en_store e') = Some (?r\<lparr>rr_logs := rr_logs ?r @ ls\<rparr>)"
      by (rule only_logs_get [OF logs s2(3)])
    then show ?thesis
      using others_same_trans [OF s2(2) others_same_logs [OF logs]]
      by (auto simp: to_detail_def to_summary_def Let_def run_summary.defs c_def)
  qed
  have last: "wp_s (bind_s (publish_s ops cd i Cat_Status ''run_canceled''
        [(''previous_status'', PStr (run_status_str (rr_status r)))] PNone) (\<lambda>_.
      bind_s (if rr_status r = Pending then close_stream_s i else return_s ()) (\<lambda>_.
      return_s (to_detail ?r)))) e3 ?Q" if "en_store e3 = s3" for e3
  proof -
    have ok3: "ok (en_store e3)" using s3(2) that by (simp add: only_logs_def)
    have after: "wp_s (bind_s (if rr_status r = Pending then close_stream_s i else return_s ())
        (\<lambda>_. return_s (to_detail ?r))) e' ?Q" if "only_logs i (en_store e3) (en_store e')" for e'
    proof -
      have logs: "only_logs i s3 (en_store (e'\<lparr>en_stream := x\<rparr>))" "only_logs i s3 (en_store e')" for x
        using that \<open>en_store e3 = s3\<close> by simp_all
      have close: "wp_s (bind_s (close_stream_s i) (\<lambda>_. return_s (to_detail ?r))) e' ?Q"
        by (simp only: wp_bind wp_close wp_return sum.case) (rule end_ok [OF logs(1)])
      have keep: "wp_s (bind_s (return_s ()) (\<lambda>_. return_s (to_detail ?r))) e' ?Q"
        by (simp only: wp_bind wp_return sum.case) (rule end_ok [OF logs(2)])
      show ?thesis using close keep by (simp only: split: if_split) simp
    qed
    show ?thesis
      unfolding wp_bind [of "publish_s ops cd i Cat_Status ty pl st" for ty pl st]
      by (rule wp_publish [OF ok3]) (simp only: sum.case, rule after)
  qed
  have "cancel_run ops cd i e = bind_s (publish_s ops cd i Cat_Status ''run_canceled''
        [(''previous_status'', PStr (run_status_str (rr_status r)))] PNone) (\<lambda>_.
      bind_s (if rr_status r = Pending then close_stream_s i else return_s ()) (\<lambda>_.
      return_s (to_detail ?r))) (e\<lparr>en_ticks := Suc (en_ticks e), en_store := s3\<rparr>)" (is "_ = ?rest")
    using assms(2,3) s2(1) s3(1)
    by (simp add: cancel_run_def bind_require [OF assms(2)] bind_now bind_store bind_option
        c_def [symmetric] cong: if_weak_cong)
  moreover have "case ?rest of (e', res) \<Rightarrow> ?Q e' res"
    using last [of "e\<lparr>en_ticks := Suc (en_ticks e), en_store := s3\<rparr>"] unfolding wp_s_def by simp
  ultimately show ?thesis by (simp only: wp_s_def)
qed

end

end
