(* ===== verification/Run_Props.thy ===== *)
theory Run_Props
  imports Run_Lifecycle
begin

text \<open>
  Properties of the run service on the SQLite backend, each with a concrete run: an engine that
  reports one progress payload and returns one event, or raises.
\<close>

section \<open>A concrete environment\<close>

definition quiet_codec :: stream_codec where
  "quiet_codec = \<lparr>sc_isoformat = int_str, sc_fromiso = (\<lambda>s. None), sc_dump = (\<lambda>m. []),
     sc_validate = (\<lambda>d. Inl (OtherError ''ValidationError'' ''message''))\<rparr>"

definition sample_artifacts :: artifacts where
  "sample_artifacts = \<lparr>af_report = [(''total_steps'', PInt 3)], af_events = [[(''type'', PStr ''Trade'')]],
     af_snapshots = [], af_accounts = []\<rparr>"

definition good_engines :: engines where
  "good_engines = \<lparr>eg_session = (\<lambda>config. Inr (\<lambda>run_id. ([[(''step'', PInt 1)]], Inr sample_artifacts))),
     eg_backtest = (\<lambda>config. Inl (ValueError ''strategy''))\<rparr>"

definition bad_engines :: engines where
  "bad_engines = \<lparr>eg_session = (\<lambda>config. Inr (\<lambda>run_id. ([], Inl (RuntimeError ''engine stopped'')))),
     eg_backtest = (\<lambda>config. Inl (ValueError ''strategy''))\<rparr>"

definition sample_env :: "store_op list \<Rightarrow> sql_store env" where
  "sample_env os = \<lparr>en_store = fold (exec_store sql_ops) (St_Create 5 ''r'' Session [] # os) empty_sql,
     en_stream = Some (new_stream 100), en_clock = int, en_ticks = 6\<rparr>"

lemma sample_env_ok:
  assumes "fresh_ops encode_json snapshot_order (St_Create 5 ''r'' Session [] # os) (\<lambda>i. None)"
  shows "sql_ok (en_store (sample_env os))"
  using sql.run_refines(1) [OF sql_ok_empty, of "St_Create 5 ''r'' Session [] # os"] assms
  by (simp add: sample_env_def empty_views)

lemma sample_env_get:
  assumes "fresh_ops encode_json snapshot_order (St_Create 5 ''r'' Session [] # os) (\<lambda>i. None)"
  shows "sql_get_run ''r'' (en_store (sample_env os)) =
    fold (spec_step encode_json snapshot_order) os [''r'' \<mapsto> new_run 5 ''r'' Session []] ''r''"
  using sql_run_spec [OF assms, of "''r''"] by (simp add: sample_env_def encode_json_def)

section \<open>Properties\<close>

text \<open>C5 (a successful execution). Executing a stored session or backtest that is neither completed nor
  canceled, with an engine that returns its artifacts, completes it: the stored record is completed,
  with start and completion times and the artifacts in JSON normal form, the returned detail says so,
  and no other run changes. The error of an earlier failed attempt stays in the record.\<close>

theorem execute_pending_success:
  assumes "sql_ok (en_store e)" and "sql_get_run i (en_store e) = Some r"
    and "rr_status r \<notin> {Completed, Canceled}"
    and "(rr_run_type r = Session \<and> eg_session eg (rr_config r) = Inr executor) \<or>
      (rr_run_type r = Backtest \<and> eg_backtest eg (rr_config r) = Inr executor)"
    and "snd (executor i) = Inr a"
  shows "case execute_pending_run sql_ops cd eg i e of (e', res) \<Rightarrow>
    (\<exists>d. res = Inr d \<and> ru_run_id d = i \<and> ru_status d = Completed) \<and>
    (\<forall>j. j \<noteq> i \<longrightarrow> sql_get_run j (en_store e') = sql_get_run j (en_store e)) \<and>
    (\<exists>r'. sql_get_run i (en_store e') = Some r' \<and> rr_status r' = Completed \<and>
       rr_started_at r' \<noteq> None \<and> rr_completed_at r' \<noteq> None \<and>
       rr_report r' = encode_json (af_report a) \<and> rr_events r' = map encode_json (af_events a) \<and>
       rr_snapshots r' = map encode_json (snapshot_order (af_snapshots a)) \<and>
       rr_accounts r' = map encode_json (af_accounts a) \<and>
       rr_config r' = rr_config r \<and> rr_error r' = rr_error r)"
proof -
  have get: "so_get_run sql_ops i (en_store e) = Some r" using assms(2) by (simp add: sql_get_ops)
  note wp = sql.wp_execute [OF assms(1) get, of cd "rr_run_type r" "rr_config r" executor]
  have "wp_s (execute_pending_run sql_ops cd eg i) e (\<lambda>e' res.
    (\<exists>d. res = Inr d \<and> ru_run_id d = i \<and> ru_status d = Completed) \<and>
    (\<forall>j. j \<noteq> i \<longrightarrow> sql_get_run j (en_store e') = sql_get_run j (en_store e)) \<and>
    (\<exists>r'. sql_get_run i (en_store e') = Some r' \<and> rr_status r' = Completed \<and>
       rr_started_at r' \<noteq> None \<and> rr_completed_at r' \<noteq> None \<and>
       rr_report r' = encode_json (af_report a) \<and> rr_events r' = map encode_json (af_events a) \<and>
       rr_snapshots r' = map encode_json (snapshot_order (af_snapshots a)) \<and>
       rr_accounts r' = map encode_json (af_accounts a) \<and>
       rr_config r' = rr_config r \<and> rr_error r' = rr_error r))"
    unfolding sql.wp_pending [OF assms(1) get assms(3,4)]
    by (rule wp_mono [OF wp])
      (auto simp: assms(5) sql.others_same_def sql.completed_with_def sql.started_def sql_get_ops)
  then show ?thesis by (simp add: wp_s_def)
qed

theorem execute_pending_success_witness:
  "\<exists>r'. sql_get_run ''r'' (en_store (fst (execute_pending_run sql_ops quiet_codec good_engines ''r''
      (sample_env [])))) = Some r' \<and> rr_status r' = Completed"
proof -
  have fresh: "fresh_ops encode_json snapshot_order [St_Create 5 ''r'' Session []] (\<lambda>i. None)" by simp
  have get: "sql_get_run ''r'' (en_store (sample_env [])) = Some (new_run 5 ''r'' Session [])"
    using sample_env_get [OF fresh] by simp
  show ?thesis
    using execute_pending_success [OF sample_env_ok [OF fresh] get, of good_engines
        "\<lambda>run_id. ([[(''step'', PInt 1)]], Inr sample_artifacts)" sample_artifacts quiet_codec]
    by (auto simp: new_run_def good_engines_def split: prod.splits)
qed

text \<open>C6 (a failed execution). When the engine raises, the run is marked as failed with its completion
  time and the message of the exception (for an invalid request the fixed text), its report, events,
  snapshots, accounts, verification and configuration and all other runs stay as they were, and the caller gets the invalid request itself or a run-execution error
  with the message.\<close>

theorem execute_pending_failure:
  assumes "sql_ok (en_store e)" and "sql_get_run i (en_store e) = Some r"
    and "rr_status r \<notin> {Completed, Canceled}"
    and "(rr_run_type r = Session \<and> eg_session eg (rr_config r) = Inr executor) \<or>
      (rr_run_type r = Backtest \<and> eg_backtest eg (rr_config r) = Inr executor)"
    and "snd (executor i) = Inl exc"
  shows "case execute_pending_run sql_ops cd eg i e of (e', res) \<Rightarrow>
    res = Inl (case exc of InvalidRequestError m \<Rightarrow> InvalidRequestError m
                         | _ \<Rightarrow> RunExecutionError (exc_message exc)) \<and>
    (\<forall>j. j \<noteq> i \<longrightarrow> sql_get_run j (en_store e') = sql_get_run j (en_store e)) \<and>
    (\<exists>r'. sql_get_run i (en_store e') = Some r' \<and> rr_status r' = Failed \<and> rr_completed_at r' \<noteq> None \<and>
       rr_error r' = Some (case exc of InvalidRequestError _ \<Rightarrow> ''invalid request'' | _ \<Rightarrow> exc_message exc) \<and>
       rr_report r' = rr_report r \<and> rr_events r' = rr_events r \<and> rr_snapshots r' = rr_snapshots r \<and>
       rr_accounts r' = rr_accounts r \<and> rr_verification r' = rr_verification r \<and> rr_config r' = rr_config r \<and>
       rr_run_type r' = rr_run_type r \<and> rr_created_at r' = rr_created_at r \<and> rr_started_at r' \<noteq> None)"
proof -
  have get: "so_get_run sql_ops i (en_store e) = Some r" using assms(2) by (simp add: sql_get_ops)
  note wp = sql.wp_execute [OF assms(1) get, of cd "rr_run_type r" "rr_config r" executor]
  have exc: "sql.raised exc = (case exc of InvalidRequestError m \<Rightarrow> InvalidRequestError m
      | _ \<Rightarrow> RunExecutionError (exc_message exc))"
    "sql.recorded exc = (case exc of InvalidRequestError _ \<Rightarrow> ''invalid request'' | _ \<Rightarrow> exc_message exc)"
    by (cases exc; simp)+
  have "wp_s (execute_pending_run sql_ops cd eg i) e (\<lambda>e' res. res = Inl (sql.raised exc) \<and>
    (\<forall>j. j \<noteq> i \<longrightarrow> sql_get_run j (en_store e') = sql_get_run j (en_store e)) \<and>
    (\<exists>r'. sql_get_run i (en_store e') = Some r' \<and> rr_status r' = Failed \<and> rr_completed_at r' \<noteq> None \<and>
       rr_error r' = Some (sql.recorded exc) \<and>
       rr_report r' = rr_report r \<and> rr_events r' = rr_events r \<and> rr_snapshots r' = rr_snapshots r \<and>
       rr_accounts r' = rr_accounts r \<and> rr_verification r' = rr_verification r \<and> rr_config r' = rr_config r \<and>
       rr_run_type r' = rr_run_type r \<and> rr_created_at r' = rr_created_at r \<and> rr_started_at r' \<noteq> None))"
    unfolding sql.wp_pending [OF assms(1) get assms(3,4)]
    by (rule wp_mono [OF wp])
      (auto simp: assms(5) sql.others_same_def sql.failed_with_def sql.started_def sql_get_ops)
  then show ?thesis by (simp only: wp_s_def exc)
qed

theorem execute_pending_failure_witness:
  "snd (execute_pending_run sql_ops quiet_codec bad_engines ''r'' (sample_env [])) =
    Inl (RunExecutionError ''engine stopped'')"
proof -
  have fresh: "fresh_ops encode_json snapshot_order [St_Create 5 ''r'' Session []] (\<lambda>i. None)" by simp
  have get: "sql_get_run ''r'' (en_store (sample_env [])) = Some (new_run 5 ''r'' Session [])"
    using sample_env_get [OF fresh] by simp
  show ?thesis
    using execute_pending_failure [OF sample_env_ok [OF fresh] get, of bad_engines
        "\<lambda>run_id. ([], Inl (RuntimeError ''engine stopped''))" "RuntimeError ''engine stopped''" quiet_codec]
    by (auto simp: new_run_def bad_engines_def exc_message_def split: prod.splits)
qed

text \<open>Remark (guards). Executing a run that does not exist, is completed or canceled, or is a benchmark raises
  an API error and changes neither store, stream nor clock.\<close>

theorem execute_pending_guarded:
  assumes "case sql_get_run i (en_store e) of None \<Rightarrow> True
    | Some r \<Rightarrow> rr_status r \<in> {Completed, Canceled} \<or> rr_run_type r = Benchmark"
  shows "\<exists>exc. execute_pending_run sql_ops cd eg i e = (e, Inl exc) \<and> api_error exc \<noteq> None"
  using sql.wp_pending_guard [of i e] assms by (simp add: sql_get_ops)

theorem execute_pending_guarded_witness:
  "\<exists>exc. execute_pending_run sql_ops quiet_codec good_engines ''x'' (sample_env []) =
    (sample_env [], Inl exc) \<and> api_error exc \<noteq> None"
proof (rule execute_pending_guarded)
  have "sql_get_run ''x'' (en_store (sample_env [])) = None"
    using sql_run_spec [of "[St_Create 5 ''r'' Session []]" "''x''"] by (simp add: sample_env_def)
  then show "case sql_get_run ''x'' (en_store (sample_env [])) of None \<Rightarrow> True
    | Some r \<Rightarrow> rr_status r \<in> {Completed, Canceled} \<or> rr_run_type r = Benchmark" by simp
qed

lemma detail_status: "ru_status (to_detail r) = rr_status r"
  by (simp add: to_detail_def to_summary_def Let_def run_summary.defs)

text \<open>C29 (cancellation of a running run is lost). Canceling a run while it is being executed succeeds and
  marks it as canceled; when the execution then returns, the call succeeds and the run becomes completed
  with its report, events, snapshots and accounts, and keeps the error text of the cancellation; no other
  run changes.\<close>

theorem cancel_overwritten_by_completion:
  assumes "sql_ok (en_store e)" and "sql_get_run i (en_store e) = Some r" and "rr_status r = Running"
  shows "case cancel_run sql_ops cd i e of (e1, res1) \<Rightarrow>
    (\<exists>d. res1 = Inr d \<and> ru_status d = Canceled) \<and>
    map_option rr_status (sql_get_run i (en_store e1)) = Some Canceled \<and>
    (case finish_record sql_ops cd i config (Inr a) e1 of (e2, res2) \<Rightarrow>
       (\<exists>d. res2 = Inr d \<and> ru_status d = Completed) \<and>
       (\<forall>j. j \<noteq> i \<longrightarrow> sql_get_run j (en_store e2) = sql_get_run j (en_store e)) \<and>
       (\<exists>r2. sql_get_run i (en_store e2) = Some r2 \<and> rr_status r2 = Completed \<and>
         rr_completed_at r2 \<noteq> None \<and> rr_error r2 = Some ''canceled'' \<and>
         rr_report r2 = encode_json (af_report a) \<and> rr_events r2 = map encode_json (af_events a) \<and>
         rr_snapshots r2 = map encode_json (snapshot_order (af_snapshots a)) \<and>
         rr_accounts r2 = map encode_json (af_accounts a)))"
proof -
  have get: "so_get_run sql_ops i (en_store e) = Some r" using assms(2) by (simp add: sql_get_ops)
  obtain e1 res1 where c: "cancel_run sql_ops cd i e = (e1, res1)" by fastforce
  from sql.wp_cancel [OF assms(1) get, of cd] c assms(3) obtain d r1 where
    d: "res1 = Inr d" "ru_status d = Canceled" and ok1: "sql_ok (en_store e1)"
    and same: "sql.others_same i (en_store e) (en_store e1)" and r1: "so_get_run sql_ops i (en_store e1) = Some r1" "rr_status r1 = Canceled"
      "rr_error r1 = Some ''canceled''"
    using sql.others_same_ok by (auto simp: wp_s_def)
  from sql.wp_finish_ok [OF ok1 r1(1), of cd config a] d r1 c show ?thesis
    using same
    by (auto simp: wp_s_def sql.completed_with_def sql.others_same_def sql_get_ops detail_status split: prod.splits)
qed

theorem cancel_overwritten_by_completion_witness:
  "case cancel_run sql_ops quiet_codec ''r'' (sample_env [St_Update ''r'' (Some Running) (Some 6) None None]) of
     (e1, res1) \<Rightarrow> map_option rr_status (sql_get_run ''r'' (en_store e1)) = Some Canceled \<and>
       (case finish_record sql_ops quiet_codec ''r'' [] (Inr sample_artifacts) e1 of (e2, res2) \<Rightarrow>
          map_option rr_status (sql_get_run ''r'' (en_store e2)) = Some Completed)"
proof -
  let ?os = "[St_Update ''r'' (Some Running) (Some 6) None None]"
  have fresh: "fresh_ops encode_json snapshot_order (St_Create 5 ''r'' Session [] # ?os) (\<lambda>i. None)" by simp
  have get: "sql_get_run ''r'' (en_store (sample_env ?os)) =
      Some (apply_update (Some Running) (Some 6) None None (new_run 5 ''r'' Session []))"
    using sample_env_get [OF fresh] by (simp add: modify_run_def)
  show ?thesis
    using cancel_overwritten_by_completion [OF sample_env_ok [OF fresh] get, where cd = quiet_codec and config = "[]" and
        a = sample_artifacts]
    by (auto split: prod.splits)
qed

end
