(* ===== verification/Benchmark_Store.thy ===== *)
theory Benchmark_Store
  imports Memory_Store Sqlite_Laws
begin

text \<open>
  The benchmark part of the storage contract: the operations of \<open>sim/api/storage/base.py\<close>, their
  implementations in both backends, and the locale \<open>benchmark_store\<close>, which extends the contract of
  runs: storing a benchmark keeps every run and makes exactly that benchmark readable.
\<close>

(* sim/api/storage/base.py:170-182 RunStore (benchmarks) *)
record 's benchmark_ops =
  bo_store :: "benchmark_run \<Rightarrow> 's \<Rightarrow> 's \<times> benchmark_run result"
  bo_list :: "'s \<Rightarrow> benchmark_run list result"
  bo_get :: "string \<Rightarrow> 's \<Rightarrow> benchmark_run option result"
  bo_compare :: "string \<Rightarrow> string \<Rightarrow> pyfloat \<Rightarrow> 's \<Rightarrow> benchmark_comparison option result"

text \<open>\<open>compare_benchmark_runs\<close> of both backends, over their own \<open>get_benchmark_run\<close>.\<close>

definition compare_stored ::
  "(string \<Rightarrow> 's \<Rightarrow> benchmark_run option result) \<Rightarrow> string \<Rightarrow> string \<Rightarrow> pyfloat \<Rightarrow> 's
   \<Rightarrow> benchmark_comparison option result" where
  "compare_stored get baseline_id candidate_id threshold s =
     bind_r (get baseline_id s) (\<lambda>baseline.
     bind_r (get candidate_id s) (\<lambda>candidate.
       case (baseline, candidate) of
         (Some b, Some c) \<Rightarrow> bind_r (compare_benchmark_runs b c threshold) (\<lambda>r. Inr (Some r))
       | _ \<Rightarrow> Inr None))"

section \<open>In memory\<close>

text \<open>\<open>BenchmarkRun.from_dict(record.to_dict())\<close>, the copy the backend returns.\<close>

definition copy_benchmark :: "text_codec \<Rightarrow> benchmark_run \<Rightarrow> benchmark_run result" where
  "copy_benchmark xc b = benchmark_from_dict xc (benchmark_to_dict xc b)"

(* sim/api/storage/in_memory.py:207-210 store_benchmark_run *)
definition mem_store_benchmark ::
  "text_codec \<Rightarrow> benchmark_run \<Rightarrow> mem_store \<Rightarrow> mem_store \<times> benchmark_run result" where
  "mem_store_benchmark xc benchmark s =
     (s\<lparr>ms_benchmarks := AList.update (bm_benchmark_id benchmark) benchmark (ms_benchmarks s)\<rparr>,
      copy_benchmark xc benchmark)"

(* sim/api/storage/in_memory.py:212-215 list_benchmark_runs *)
definition mem_list_benchmarks :: "text_codec \<Rightarrow> mem_store \<Rightarrow> benchmark_run list result" where
  "mem_list_benchmarks xc s =
     map_r (copy_benchmark xc)
       (sort_key (\<lambda>b. (bm_created_at b, bm_benchmark_id b)) (map snd (ms_benchmarks s)))"

(* sim/api/storage/in_memory.py:217-220 get_benchmark_run *)
definition mem_get_benchmark :: "text_codec \<Rightarrow> string \<Rightarrow> mem_store \<Rightarrow> benchmark_run option result" where
  "mem_get_benchmark xc benchmark_id s =
     (case map_of (ms_benchmarks s) benchmark_id of
        None \<Rightarrow> Inr None
      | Some record \<Rightarrow> bind_r (copy_benchmark xc record) (\<lambda>b. Inr (Some b)))"

(* sim/api/storage/in_memory.py:222-233 compare_benchmark_runs *)
definition mem_compare_benchmarks ::
  "text_codec \<Rightarrow> string \<Rightarrow> string \<Rightarrow> pyfloat \<Rightarrow> mem_store \<Rightarrow> benchmark_comparison option result" where
  "mem_compare_benchmarks xc = compare_stored (mem_get_benchmark xc)"

definition mem_benchmark_ops :: "text_codec \<Rightarrow> mem_store benchmark_ops" where
  "mem_benchmark_ops xc =
     \<lparr>bo_store = mem_store_benchmark xc, bo_list = mem_list_benchmarks xc,
      bo_get = mem_get_benchmark xc, bo_compare = mem_compare_benchmarks xc\<rparr>"

section \<open>SQLite\<close>

(* sim/api/storage/sqlite.py:689-718 _benchmark_from_row *)
definition benchmark_from_row :: "sql_store \<Rightarrow> benchmark_row \<Rightarrow> benchmark_run" where
  "benchmark_from_row s row =
     \<lparr>bm_benchmark_id = bn_benchmark_id row, bm_created_at = bn_created_at row,
      bm_git_sha = bn_git_sha row, bm_machine = decode_json (Some (bn_machine_json row)),
      bm_scenarios = map (\<lambda>r. \<lparr>bs_name = sn_scenario_name r, bs_operation_count = sn_operation_count r,
          bs_elapsed_ms = sn_elapsed_ms r, bs_ops_per_sec = sn_ops_per_sec r, bs_notes = sn_notes r,
          bs_config = decode_json (Some (sn_config_json r))\<rparr>)
        (sort_key sn_sequence (filter (\<lambda>r. sn_benchmark_id r = bn_benchmark_id row) (sq_scenarios s))),
      bm_notes = bn_notes row, bm_config = decode_json (Some (bn_config_json row))\<rparr>"

(* sim/api/storage/sqlite.py:523-529 get_benchmark_run *)
definition sql_get_benchmark :: "string \<Rightarrow> sql_store \<Rightarrow> benchmark_run option" where
  "sql_get_benchmark benchmark_id s =
     map_option (benchmark_from_row s) (row_of bn_benchmark_id benchmark_id (sq_benchmarks s))"

(* sim/api/storage/sqlite.py:516-521 list_benchmark_runs *)
definition sql_list_benchmarks :: "sql_store \<Rightarrow> benchmark_run list" where
  "sql_list_benchmarks s =
     map (benchmark_from_row s)
       (sort_key (\<lambda>r. (store_time_key (bn_created_at r), bn_benchmark_id r)) (sq_benchmarks s))"

(* sim/api/storage/sqlite.py:486-509 store_benchmark_run (scenarios) *)
definition scenario_rows :: "benchmark_run \<Rightarrow> scenario_row list" where
  "scenario_rows benchmark =
     map (\<lambda>(index, scenario).
       \<lparr>sn_benchmark_id = bm_benchmark_id benchmark, sn_sequence = index,
        sn_scenario_name = bs_name scenario, sn_operation_count = bs_operation_count scenario,
        sn_elapsed_ms = bs_elapsed_ms scenario, sn_ops_per_sec = bs_ops_per_sec scenario,
        sn_notes = bs_notes scenario, sn_config_json = encode_json (bs_config scenario)\<rparr>)
       (enum_list (bm_scenarios benchmark))"

text \<open>
  SQLite stores a NaN as \<open>NULL\<close>, which the two \<open>REAL NOT NULL\<close> columns refuse; the transaction is
  rolled back.
\<close>

definition null_measure :: "benchmark_run \<Rightarrow> bool" where
  "null_measure b \<longleftrightarrow> list_ex (\<lambda>s. bs_elapsed_ms s = NaN \<or> bs_ops_per_sec s = NaN) (bm_scenarios b)"

(* sim/api/storage/sqlite.py:463-514 store_benchmark_run *)
definition sql_store_benchmark :: "benchmark_run \<Rightarrow> sql_store \<Rightarrow> sql_store \<times> benchmark_run result" where
  "sql_store_benchmark benchmark s =
     (let bid = bm_benchmark_id benchmark;
          row = \<lparr>bn_benchmark_id = bid, bn_created_at = bm_created_at benchmark,
                 bn_git_sha = bm_git_sha benchmark, bn_machine_json = encode_json (bm_machine benchmark),
                 bn_notes = bm_notes benchmark, bn_config_json = encode_json (bm_config benchmark)\<rparr>;
          s1 = s\<lparr>sq_benchmarks := upsert bn_benchmark_id (\<lambda>r. row) row (sq_benchmarks s)\<rparr>;
          s2 = s1\<lparr>sq_scenarios := delete_where (\<lambda>r. sn_benchmark_id r = bid) (sq_scenarios s1)
                   @ scenario_rows benchmark\<rparr>
      in if null_measure benchmark
         then (s, Inl (OtherError ''IntegrityError'' ''NOT NULL constraint failed''))
         else (s2, case sql_get_benchmark bid s2 of
                     None \<Rightarrow> Inl (RuntimeError (''failed to store benchmark run: '' @ bid))
                   | Some stored \<Rightarrow> Inr stored))"

(* sim/api/storage/sqlite.py:531-542 compare_benchmark_runs *)
definition sql_compare_benchmarks ::
  "string \<Rightarrow> string \<Rightarrow> pyfloat \<Rightarrow> sql_store \<Rightarrow> benchmark_comparison option result" where
  "sql_compare_benchmarks = compare_stored (\<lambda>i s. Inr (sql_get_benchmark i s))"

definition sql_benchmark_ops :: "sql_store benchmark_ops" where
  "sql_benchmark_ops =
     \<lparr>bo_store = sql_store_benchmark, bo_list = (\<lambda>s. Inr (sql_list_benchmarks s)),
      bo_get = (\<lambda>i s. Inr (sql_get_benchmark i s)), bo_compare = sql_compare_benchmarks\<rparr>"

section \<open>The contract\<close>

text \<open>
  \<open>storable\<close> says which benchmarks the backend accepts, \<open>stored\<close> what reading one back gives.
\<close>

locale benchmark_store = run_store ops ok canon arrange
  for ops :: "'s store_ops" and ok canon arrange +
  fixes bops :: "'s benchmark_ops"
    and storable :: "benchmark_run \<Rightarrow> bool"
    and stored :: "benchmark_run \<Rightarrow> benchmark_run"
  assumes store_benchmark: "ok s \<Longrightarrow> storable b \<Longrightarrow>
      (case bo_store bops b s of
         (s', res) \<Rightarrow> ok s' \<and> res = Inr (stored b) \<and>
           (\<forall>i. so_get_run ops i s' = so_get_run ops i s) \<and>
           (\<forall>i. bo_get bops i s' = (if i = bm_benchmark_id b then Inr (Some (stored b)) else bo_get bops i s)))"
    and list_benchmarks: "ok s \<Longrightarrow> bo_list bops s = Inr bs \<Longrightarrow>
      set bs = {b. \<exists>i. bo_get bops i s = Inr (Some b)} \<and> distinct (map bm_benchmark_id bs)"
    and compare_benchmarks: "bo_compare bops i j t s = compare_stored (bo_get bops) i j t s"
    and stored_id: "bm_benchmark_id (stored b) = bm_benchmark_id b"

text \<open>JSON normal form of the dictionaries of a benchmark.\<close>

definition encode_benchmark :: "benchmark_run \<Rightarrow> benchmark_run" where
  "encode_benchmark b = b\<lparr>bm_machine := encode_json (bm_machine b), bm_config := encode_json (bm_config b),
     bm_scenarios := map (\<lambda>s. s\<lparr>bs_config := encode_json (bs_config s)\<rparr>) (bm_scenarios b)\<rparr>"


section \<open>The backends keep it\<close>

lemma copy_benchmark_ok: "codec_ok xc (bm_created_at b) \<Longrightarrow> copy_benchmark xc b = Inr b"
  by (simp add: copy_benchmark_def benchmark_dict_roundtrip)

lemma copy_benchmark_id: "copy_benchmark xc b = Inr c \<Longrightarrow> bm_benchmark_id c = bm_benchmark_id b"
  by (auto simp: copy_benchmark_def benchmark_from_dict_def benchmark_to_dict_def dindex_def
      bind_r_Inr_iff)

lemma map_r_set: "map_r f xs = Inr ys \<Longrightarrow> y \<in> set ys \<longleftrightarrow> (\<exists>x \<in> set xs. f x = Inr y)"
  by (induction xs arbitrary: ys) (auto simp: bind_r_Inr_iff)

lemma map_r_image:
  "map_r f xs = Inr ys \<Longrightarrow> (\<And>x y. f x = Inr y \<Longrightarrow> g y = h x) \<Longrightarrow> map g ys = map h xs"
  by (induction xs arbitrary: ys) (auto simp: bind_r_Inr_iff)

lemma mem_list_benchmarks_laws:
  assumes "mem_ok s" and "mem_list_benchmarks xc s = Inr bs"
  shows "set bs = {b. \<exists>i. mem_get_benchmark xc i s = Inr (Some b)} \<and> distinct (map bm_benchmark_id bs)"
proof -
  let ?xs = "sort_key (\<lambda>b. (bm_created_at b, bm_benchmark_id b)) (map snd (ms_benchmarks s))"
  from assms(2) have all: "map_r (copy_benchmark xc) ?xs = Inr bs"
    by (simp only: mem_list_benchmarks_def)
  from assms(1) have dist: "distinct (map fst (ms_benchmarks s))"
    and own: "\<And>k b. (k, b) \<in> set (ms_benchmarks s) \<Longrightarrow> bm_benchmark_id b = k"
    by (auto simp: mem_ok_def)
  have get: "mem_get_benchmark xc i s = Inr (Some b) \<longleftrightarrow>
      (\<exists>x. (i, x) \<in> set (ms_benchmarks s) \<and> copy_benchmark xc x = Inr b)" for i b
    using dist by (auto simp: mem_get_benchmark_def bind_r_Inr_iff split: option.splits)
      (metis map_of_is_SomeI option.inject)
  have "set bs = {b. \<exists>i. mem_get_benchmark xc i s = Inr (Some b)}"
    by (auto simp: get map_r_set [OF all]) force+
  moreover have "map bm_benchmark_id bs = map bm_benchmark_id ?xs"
    by (rule map_r_image [OF all]) (rule copy_benchmark_id)
  moreover have "map bm_benchmark_id (map snd (ms_benchmarks s)) = map fst (ms_benchmarks s)"
    using own by auto
  ultimately show ?thesis using dist by (simp only: distinct_map_sort_key)
qed

interpretation mem_benchmarks: benchmark_store mem_ops mem_ok "\<lambda>d. d" "\<lambda>ds. ds" "mem_benchmark_ops xc"
    "\<lambda>b. codec_ok xc (bm_created_at b)" "\<lambda>b. b"
  for xc
proof (unfold_locales, goal_cases)
  case (1 s b)
  then show ?case
    using set_alist_update [of "bm_benchmark_id b" b "ms_benchmarks s"]
    by (auto simp: mem_benchmark_ops_def mem_store_benchmark_def mem_ops_def mem_get_run_def
        mem_get_benchmark_def copy_benchmark_ok update_conv' mem_ok_def distinct_update)
next
  case (2 s bs)
  then show ?case using mem_list_benchmarks_laws [of s xc bs] by (simp add: mem_benchmark_ops_def)
qed (simp_all add: mem_benchmark_ops_def mem_compare_benchmarks_def)

text \<open>The tables: only the two benchmark tables change, and the scenarios come back in their order.\<close>

lemma sorted_enum: "sort_key sn_sequence (scenario_rows b) = scenario_rows b"
proof (rule sort_key_id_if_sorted)
  have "map sn_sequence (scenario_rows b) = [0..<length (bm_scenarios b)]"
    by (simp add: scenario_rows_def comp_def split_def flip: map_fst_enum_list)
  then show "sorted (map sn_sequence (scenario_rows b))" by simp
qed

lemma scenario_rows_id: "r \<in> set (scenario_rows b) \<Longrightarrow> sn_benchmark_id r = bm_benchmark_id b"
  by (auto simp: scenario_rows_def)

lemma scenario_rows_payload:
  "map (\<lambda>r. \<lparr>bs_name = sn_scenario_name r, bs_operation_count = sn_operation_count r,
      bs_elapsed_ms = sn_elapsed_ms r, bs_ops_per_sec = sn_ops_per_sec r, bs_notes = sn_notes r,
      bs_config = decode_json (Some (sn_config_json r))\<rparr>) (scenario_rows b) =
   map (\<lambda>s. s\<lparr>bs_config := encode_json (bs_config s)\<rparr>) (bm_scenarios b)"
proof -
  have "map f (scenario_rows b) = map g (map snd (enum_list (bm_scenarios b)))"
    if "\<And>i s. f \<lparr>sn_benchmark_id = bm_benchmark_id b, sn_sequence = i,
        sn_scenario_name = bs_name s, sn_operation_count = bs_operation_count s,
        sn_elapsed_ms = bs_elapsed_ms s, sn_ops_per_sec = bs_ops_per_sec s,
        sn_notes = bs_notes s, sn_config_json = encode_json (bs_config s)\<rparr> = g s" for f g
  proof -
    have "map f (scenario_rows b) = map (\<lambda>p. g (snd p)) (enum_list (bm_scenarios b))"
      using that by (simp add: scenario_rows_def comp_def split_def)
    also have "\<dots> = map g (map snd (enum_list (bm_scenarios b)))" by (simp only: map_map comp_def)
    finally show ?thesis by simp
  qed
  from this [of "\<lambda>r. \<lparr>bs_name = sn_scenario_name r, bs_operation_count = sn_operation_count r,
      bs_elapsed_ms = sn_elapsed_ms r, bs_ops_per_sec = sn_ops_per_sec r, bs_notes = sn_notes r,
      bs_config = decode_json (Some (sn_config_json r))\<rparr>"
      "\<lambda>s. s\<lparr>bs_config := encode_json (bs_config s)\<rparr>"]
  show ?thesis by (simp add: decode_json_def)
qed

lemma sql_get_stored:
  assumes "\<not> null_measure b"
  shows "sql_get_benchmark i (fst (sql_store_benchmark b s)) =
    (if i = bm_benchmark_id b then Some (encode_benchmark b) else sql_get_benchmark i s)"
proof -
  let ?s = "fst (sql_store_benchmark b s)"
  have sc: "sq_scenarios ?s = delete_where (\<lambda>r. sn_benchmark_id r = bm_benchmark_id b) (sq_scenarios s)
      @ scenario_rows b"
    using assms by (simp add: sql_store_benchmark_def Let_def)
  have own: "filter (\<lambda>r. sn_benchmark_id r = bm_benchmark_id b) (sq_scenarios ?s) = scenario_rows b"
    unfolding sc by (auto simp: delete_where_def filter_empty_conv intro!: filter_True scenario_rows_id)
  have other: "filter (\<lambda>r. sn_benchmark_id r = j) (sq_scenarios ?s) =
      filter (\<lambda>r. sn_benchmark_id r = j) (sq_scenarios s)" if "j \<noteq> bm_benchmark_id b" for j
  proof -
    have "filter (\<lambda>r. sn_benchmark_id r = j) (scenario_rows b) = []"
      using that by (auto simp: filter_empty_conv dest: scenario_rows_id)
    moreover have "filter (\<lambda>r. sn_benchmark_id r \<noteq> bm_benchmark_id b \<and> sn_benchmark_id r = j) xs =
        filter (\<lambda>r. sn_benchmark_id r = j) xs" for xs
      using that by (induction xs) auto
    ultimately show ?thesis by (simp add: sc delete_where_def)
  qed
  define row where "row = \<lparr>bn_benchmark_id = bm_benchmark_id b, bn_created_at = bm_created_at b,
                 bn_git_sha = bm_git_sha b, bn_machine_json = encode_json (bm_machine b),
                 bn_notes = bm_notes b, bn_config_json = encode_json (bm_config b)\<rparr>"
  have bm: "sq_benchmarks ?s = upsert bn_benchmark_id (\<lambda>r. row) row (sq_benchmarks s)"
    using assms by (simp add: sql_store_benchmark_def Let_def row_def)
  have id: "bn_benchmark_id row = bm_benchmark_id b" by (simp add: row_def)
  show ?thesis
  proof (cases "i = bm_benchmark_id b")
    case True
    have "row_of bn_benchmark_id i (sq_benchmarks ?s) = Some row"
    proof (cases "i \<in> bn_benchmark_id ` set (sq_benchmarks s)")
      case T: True
      have "row_of bn_benchmark_id i (update_where (\<lambda>r. bn_benchmark_id r = i) (\<lambda>r. row) rs) = Some row"
        if "i \<in> bn_benchmark_id ` set rs" for rs
        using that by (induction rs) (auto simp: id True)
      with T show ?thesis by (simp add: bm upsert_def id True)
    next
      case False
      then have "row_of bn_benchmark_id i (sq_benchmarks s) = None" by (simp add: row_of_None)
      with False show ?thesis by (simp add: bm upsert_def id True row_of_append)
    qed
    then show ?thesis
      using own sorted_enum [of b] scenario_rows_payload [of b] True
      by (simp add: sql_get_benchmark_def benchmark_from_row_def row_def encode_benchmark_def
          decode_json_def)
  next
    case False
    have "row_of bn_benchmark_id i (sq_benchmarks ?s) = row_of bn_benchmark_id i (sq_benchmarks s)"
    proof -
      have "row_of bn_benchmark_id i (update_where (\<lambda>r. bn_benchmark_id r = bm_benchmark_id b) (\<lambda>r. row) rs) =
          row_of bn_benchmark_id i rs" for rs
        using False by (induction rs) (auto simp: id)
      then show ?thesis using False by (auto simp: bm upsert_def id row_of_append split: option.split)
    qed
    moreover have "benchmark_from_row ?s r = benchmark_from_row s r" if "bn_benchmark_id r = i" for r
      using that False by (simp add: benchmark_from_row_def other)
    ultimately show ?thesis
      using False by (auto simp: sql_get_benchmark_def dest: row_of_Some intro!: map_option_cong)
  qed
qed

lemma sql_store_benchmark_others:
  "sql_get_run i (fst (sql_store_benchmark b s)) = sql_get_run i s"
  "sql_ok s \<Longrightarrow> sql_ok (fst (sql_store_benchmark b s))"
proof -
  have same: "sql_get_run i (s\<lparr>sq_benchmarks := xs, sq_scenarios := ys\<rparr>) = sql_get_run i s" for xs ys
    by (simp add: sql_get_run_view) (rule option.map_cong [OF refl],
        simp add: view_record_def Let_def report_of_def verification_of_def)
  then show "sql_get_run i (fst (sql_store_benchmark b s)) = sql_get_run i s"
    by (simp add: sql_store_benchmark_def Let_def)
  have "distinct (map bn_benchmark_id rs) \<Longrightarrow>
      distinct (map bn_benchmark_id (upsert bn_benchmark_id (\<lambda>r. row) row rs))" for row rs
    by (auto simp: upsert_def update_where_def comp_def if_distrib cong: if_cong)
  then show "sql_ok s \<Longrightarrow> sql_ok (fst (sql_store_benchmark b s))"
    by (auto simp: sql_store_benchmark_def Let_def sql_ok_def)
qed


lemma sql_list_benchmarks_set:
  assumes "sql_ok s"
  shows "set (sql_list_benchmarks s) = {b. \<exists>i. sql_get_benchmark i s = Some b} \<and>
    distinct (map bm_benchmark_id (sql_list_benchmarks s))"
proof -
  have dist: "distinct (map bn_benchmark_id (sq_benchmarks s))"
    using assms by (simp add: sql_ok_def Let_def)
  then have "row_of bn_benchmark_id i (sq_benchmarks s) = Some r \<longleftrightarrow>
      r \<in> set (sq_benchmarks s) \<and> bn_benchmark_id r = i" for i r
    by (auto dest: row_of_Some row_of_in)
  then have "set (sql_list_benchmarks s) = {b. \<exists>i. sql_get_benchmark i s = Some b}"
    by (auto simp: sql_list_benchmarks_def sql_get_benchmark_def)
  moreover have "map bm_benchmark_id (sql_list_benchmarks s) = map bn_benchmark_id
      (sort_key (\<lambda>r. (store_time_key (bn_created_at r), bn_benchmark_id r)) (sq_benchmarks s))"
    by (simp add: sql_list_benchmarks_def benchmark_from_row_def)
  ultimately show ?thesis using dist by (simp only: distinct_map_sort_key)
qed

interpretation sql_benchmarks: benchmark_store sql_ops sql_ok encode_json snapshot_order
    sql_benchmark_ops "\<lambda>b. \<not> null_measure b" encode_benchmark
proof (unfold_locales, goal_cases)
  case (1 s b)
  then show ?case
    using sql_store_benchmark_others [where b = b and s = s] sql_get_stored [where b = b and s = s]
    by (cases "sql_store_benchmark b s")
      (auto simp: sql_benchmark_ops_def sql_ops_def sql_store_benchmark_def Let_def)
next
  case (2 s bs)
  then show ?case using sql_list_benchmarks_set [of s] by (auto simp: sql_benchmark_ops_def)
qed (simp_all add: sql_benchmark_ops_def sql_compare_benchmarks_def encode_benchmark_def)

end
