(* ===== verification/Benchmark_Service.thy ===== *)
theory Benchmark_Service
  imports Run_Lifecycle Benchmark_Store
begin

text \<open>
  Benchmarks of the API, \<open>sim/api/services/benchmark_service.py\<close>: queueing, execution and comparison
  over any backend. Running the benchmark itself (the C++ executable, or the timed fallback) is a
  parameter that returns a result or raises; the last section proves what an execution leaves behind.
\<close>

section \<open>Details\<close>

text \<open>\<open>len(value)\<close>.\<close>

fun py_len :: "pyval \<Rightarrow> int result" where
  "py_len (PList xs) = Inr (int (length xs))"
| "py_len (PTuple xs) = Inr (int (length xs))"
| "py_len (PDict d) = Inr (int (length d))"
| "py_len (PStr s) = Inr (int (length s))"
| "py_len v = Inl (TypeError ''object has no len()'')"

(* sim/api/services/benchmark_service.py:141-158 _run_detail *)
definition benchmark_run_detail :: "run_record \<Rightarrow> run_detail result" where
  "benchmark_run_detail record =
     bind_r (py_len (dget_default (rr_report record) ''scenarios'' (PList []))) (\<lambda>n. Inr
       \<lparr>ru_run_id = rr_run_id record, ru_run_type = rr_run_type record,
        ru_status = rr_status record, ru_created_at = rr_created_at record,
        ru_started_at = rr_started_at record, ru_completed_at = rr_completed_at record,
        ru_config = rr_config record,
        ru_report_summary = [(''benchmark_id'', dget (rr_report record) ''benchmark_id''),
          (''scenario_count'', PInt n)],
        ru_error = rr_error record, ru_scenario = None, ru_strategy = None, ru_step_count = 0,
        ru_trade_count = 0, ru_rejection_count = 0,
        ru_polling_url = Some (''/runs/'' @ rr_run_id record), ru_stream_url = None,
        rd_report = rr_report record\<rparr>)"

text \<open>Raising a computed result, and \<open>try: m except Exception as exc: h\<close>.\<close>

definition lift_s :: "'a result \<Rightarrow> ('s, 'a) svc" where
  "lift_s r e = (e, r)"

definition catch_s :: "('s, 'a) svc \<Rightarrow> (py_exc \<Rightarrow> ('s, 'a) svc) \<Rightarrow> ('s, 'a) svc" where
  "catch_s m h e = (case m e of (e', Inl exc) \<Rightarrow> h exc e' | (e', Inr x) \<Rightarrow> (e', Inr x))"

lemma wp_lift [wp_rules]: "wp_s (lift_s r) e P = P e r"
  by (simp add: wp_s_def lift_s_def)

lemma wp_catch [wp_rules]:
  "wp_s (catch_s m h) e P =
    wp_s m e (\<lambda>e' res. case res of Inl exc \<Rightarrow> wp_s (h exc) e' P | Inr x \<Rightarrow> P e' (Inr x))"
  by (simp add: wp_s_def catch_s_def split: prod.split sum.split)

section \<open>Operations\<close>

(* sim/api/services/benchmark_service.py:23-25 queue_benchmark *)
definition queue_benchmark :: "'s store_ops \<Rightarrow> string \<Rightarrow> pydict \<Rightarrow> ('s, run_detail) svc" where
  "queue_benchmark ops new_id config =
     bind_s now_s (\<lambda>now.
     bind_s (store_raise_s (so_create_run ops now new_id Benchmark config)) (\<lambda>record.
     lift_s (benchmark_run_detail record)))"

(* sim/api/services/benchmark_service.py:27-31 run_benchmark *)
definition run_benchmark ::
  "'s benchmark_ops \<Rightarrow> (pydict \<Rightarrow> benchmark_run result) \<Rightarrow> pydict \<Rightarrow> bool \<Rightarrow> ('s, benchmark_run) svc" where
  "run_benchmark bops engine config persist =
     bind_s (lift_s (engine config)) (\<lambda>benchmark.
       if persist then store_raise_s (bo_store bops benchmark) else return_s benchmark)"

(* sim/api/services/benchmark_service.py:43-53 execute_pending_run (try) *)
definition benchmark_body ::
  "'s store_ops \<Rightarrow> 's benchmark_ops \<Rightarrow> text_codec \<Rightarrow> (pydict \<Rightarrow> benchmark_run result) \<Rightarrow> string \<Rightarrow> pydict
   \<Rightarrow> ('s, run_record option) svc" where
  "benchmark_body ops bops xc engine run_id config =
     bind_s (lift_s (engine config)) (\<lambda>benchmark.
     bind_s (store_raise_s (bo_store bops benchmark)) (\<lambda>stored.
     bind_s (store_s (so_store_result ops run_id (benchmark_to_dict xc stored) [] [] []
              (Some [[(''level'', PStr ''info''), (''message'', PStr ''benchmark completed''),
                      (''benchmark_id'', PStr (bm_benchmark_id stored))]]))) (\<lambda>_.
     bind_s now_s (\<lambda>now.
     store_s (so_update_run ops run_id (Some Completed) None (Some now) None)))))"

(* sim/api/services/benchmark_service.py:54-57 execute_pending_run (except) *)
definition benchmark_failed :: "'s store_ops \<Rightarrow> string \<Rightarrow> py_exc \<Rightarrow> ('s, 'a) svc" where
  "benchmark_failed ops run_id exc =
     bind_s now_s (\<lambda>now.
     bind_s (store_s (so_update_run ops run_id (Some Failed) None (Some now) (Some (exc_message exc)))) (\<lambda>_.
     raise_s exc))"

(* sim/api/services/benchmark_service.py:33-60 execute_pending_run *)
definition execute_pending_benchmark ::
  "'s store_ops \<Rightarrow> 's benchmark_ops \<Rightarrow> text_codec \<Rightarrow> (pydict \<Rightarrow> benchmark_run result) \<Rightarrow> string
   \<Rightarrow> ('s, run_detail) svc" where
  "execute_pending_benchmark ops bops xc engine run_id =
     bind_s (require_run ops run_id) (\<lambda>record.
       if rr_run_type record \<noteq> Benchmark then
         raise_s (InvalidRequestError (''unsupported benchmark run type: '' @ run_type_str (rr_run_type record)))
       else if rr_status record = Completed then
         raise_s (InvalidRequestError (''run is already completed: '' @ run_id))
       else
         bind_s now_s (\<lambda>now.
         bind_s (store_s (so_update_run ops run_id (Some Running) (Some now) None None)) (\<lambda>_.
         bind_s (catch_s (benchmark_body ops bops xc engine run_id (rr_config record))
                  (benchmark_failed ops run_id)) (\<lambda>res.
         bind_s (option_s (RunNotFoundError run_id) res) (\<lambda>completed.
         lift_s (benchmark_run_detail completed))))))"

(* sim/api/services/benchmark_service.py:62-63 list_benchmark_runs *)
definition list_benchmark_runs_s :: "'s benchmark_ops \<Rightarrow> ('s, benchmark_run list) svc" where
  "list_benchmark_runs_s bops = bind_s (read_s (bo_list bops)) lift_s"

(* sim/api/services/benchmark_service.py:65-69 latest_benchmark_run *)
definition latest_benchmark_run :: "'s benchmark_ops \<Rightarrow> ('s, benchmark_run) svc" where
  "latest_benchmark_run bops =
     bind_s (list_benchmark_runs_s bops) (\<lambda>runs.
       if runs = [] then raise_s (RunNotFoundError ''latest benchmark'') else return_s (last runs))"

(* sim/api/services/benchmark_service.py:71-75 get_benchmark_run *)
definition get_benchmark_run_s :: "'s benchmark_ops \<Rightarrow> string \<Rightarrow> ('s, benchmark_run) svc" where
  "get_benchmark_run_s bops benchmark_id =
     bind_s (bind_s (read_s (bo_get bops benchmark_id)) lift_s) (option_s (RunNotFoundError benchmark_id))"

text \<open>\<open>runs[-2]\<close> of a list of at least two.\<close>

definition second_last :: "'a list \<Rightarrow> 'a" where
  "second_last xs = xs ! (length xs - 2)"

text \<open>\<open>baseline_id or runs[-2].benchmark_id\<close> when one of the ids is missing.\<close>

definition default_ids :: "benchmark_run list \<Rightarrow> string option \<Rightarrow> string option \<Rightarrow> (string \<times> string) result" where
  "default_ids runs baseline_id candidate_id =
     (case (baseline_id, candidate_id) of
        (Some b, Some c) \<Rightarrow> Inr (b, c)
      | _ \<Rightarrow>
          if length runs < 2 then
            Inl (InvalidRequestError ''at least two benchmark runs are required for latest comparison'')
          else Inr (the (str_or baseline_id (Some (bm_benchmark_id (second_last runs)))),
                    the (str_or candidate_id (Some (bm_benchmark_id (last runs))))))"

(* sim/api/services/benchmark_service.py:77-93 compare *)
definition compare_benchmarks_s ::
  "'s benchmark_ops \<Rightarrow> string option \<Rightarrow> string option \<Rightarrow> pyfloat \<Rightarrow> ('s, benchmark_comparison) svc" where
  "compare_benchmarks_s bops baseline_id candidate_id threshold =
     bind_s (list_benchmark_runs_s bops) (\<lambda>runs.
     bind_s (lift_s (default_ids runs baseline_id candidate_id)) (\<lambda>(b, c).
     bind_s (bind_s (read_s (bo_compare bops b c threshold)) lift_s)
       (option_s (RunNotFoundError (b @ '' or '' @ c)))))"

(* sim/api/services/benchmark_service.py:95-99 latest_regressions *)
definition latest_regressions :: "'s benchmark_ops \<Rightarrow> pyfloat \<Rightarrow> ('s, benchmark_comparison) svc" where
  "latest_regressions bops threshold =
     bind_s (list_benchmark_runs_s bops) (\<lambda>runs.
       if length runs < 2 then
         raise_s (InvalidRequestError ''at least two benchmark runs are required for regression comparison'')
       else lift_s (compare_benchmark_runs (second_last runs) (last runs) threshold))"

text \<open>The timed loop of the fallback; \<open>elapsed\<close> is what the performance counter measured.\<close>

(* sim/api/services/benchmark_service.py:117-138 _fallback_benchmark *)
definition fallback_benchmark ::
  "pyfloat \<Rightarrow> pydict \<Rightarrow> pydict \<Rightarrow> string \<Rightarrow> instant \<Rightarrow> benchmark_run result" where
  "fallback_benchmark measured machine config new_id now =
     (let operations = (10000 :: int);
          total = sum_list [0..operations - 1];
          elapsed = float_max measured (round_quot 1 1000000 0)
      in bind_r (float_div (float_of_int operations) elapsed) (\<lambda>rate. Inr
           (create_benchmark
             [\<lparr>bs_name = ''api_python_smoke'', bs_operation_count = operations,
               bs_elapsed_ms = float_mul elapsed (float_of_int 1000), bs_ops_per_sec = rate,
               bs_notes = Some (''fallback_total='' @ int_str total), bs_config = []\<rparr>]
             None machine
             (Some ''C++ benchmark executable was not available; API fallback smoke benchmark was used.'')
             (Some config) None None new_id now)))"

section \<open>What an execution leaves behind\<close>

context benchmark_store
begin

lemma store_benchmark_step:
  assumes "ok s" and "storable b"
  shows "\<exists>s'. bo_store bops b s = (s', Inr (stored b)) \<and> ok s' \<and>
    (\<forall>i. so_get_run ops i s' = so_get_run ops i s) \<and>
    bo_get bops (bm_benchmark_id b) s' = Inr (Some (stored b))"
  using store_benchmark [OF assms] by (cases "bo_store bops b s") auto

text \<open>The record after a successful benchmark.\<close>

definition benchmarked :: "text_codec \<Rightarrow> benchmark_run \<Rightarrow> run_record \<Rightarrow> run_record \<Rightarrow> bool" where
  "benchmarked xc b r r' \<longleftrightarrow>
     rr_status r' = Completed \<and> rr_completed_at r' \<noteq> None \<and> rr_started_at r' \<noteq> None \<and>
     rr_report r' = canon (benchmark_to_dict xc (stored b)) \<and> rr_events r' = [] \<and>
     rr_snapshots r' = [] \<and> rr_accounts r' = [] \<and> rr_config r' = rr_config r"

lemma arrange_Nil: "arrange [] = []"
  using length_arrange [of "[]"] by simp

lemma execute_benchmark_ok:
  assumes "ok (en_store e)" and "so_get_run ops i (en_store e) = Some r"
    and "rr_run_type r = Benchmark" and "rr_status r \<noteq> Completed"
    and "engine (rr_config r) = Inr b" and "storable b"
  shows "case execute_pending_benchmark ops bops xc engine i e of (e', res) \<Rightarrow>
    ok (en_store e') \<and> (\<forall>j. j \<noteq> i \<longrightarrow> so_get_run ops j (en_store e') = so_get_run ops j (en_store e)) \<and>
    (\<exists>r'. so_get_run ops i (en_store e') = Some r' \<and> benchmarked xc b r r' \<and>
      res = benchmark_run_detail r')"
proof -
  let ?t = "en_clock e (en_ticks e)"
  let ?logs = "Some [[(''level'', PStr ''info''), (''message'', PStr ''benchmark completed''),
     (''benchmark_id'', PStr (bm_benchmark_id (stored b)))]]"
  from update_step [OF assms(1,2), of "Some Running" "Some ?t" None None]
  obtain s2 where s2: "so_update_run ops i (Some Running) (Some ?t) None None (en_store e) =
      (s2, Some (apply_update (Some Running) (Some ?t) None None r))" "others_same i (en_store e) s2"
      "so_get_run ops i s2 = Some (apply_update (Some Running) (Some ?t) None None r)"
    by blast
  from store_benchmark_step [OF others_same_ok [OF s2(2)] assms(6)] obtain s3 where
    s3: "bo_store bops b s2 = (s3, Inr (stored b))" "ok s3"
      "\<And>i. so_get_run ops i s3 = so_get_run ops i s2" by blast
  obtain s4 res4 where s4: "so_store_result ops i (benchmark_to_dict xc (stored b)) [] [] [] ?logs s3 =
      (s4, res4)" by fastforce
  let ?r4 = "(apply_update (Some Running) (Some ?t) None None r)\<lparr>
      rr_report := canon (benchmark_to_dict xc (stored b)), rr_events := [], rr_snapshots := [],
      rr_accounts := [], rr_logs := map canon (the ?logs)\<rparr>"
  have g4: "ok s4" "so_get_run ops i s4 = Some ?r4"
    "\<And>j. j \<noteq> i \<Longrightarrow> so_get_run ops j s4 = so_get_run ops j s3"
    using store_result [OF s3(2), where run_id = i and report = "benchmark_to_dict xc (stored b)" and
        events = "[]" and snapshots = "[]" and accounts = "[]" and logs = ?logs] s4 s3(3) s2(3)
    by (auto simp: arrange_Nil)
  let ?t' = "en_clock e (Suc (en_ticks e))"
  from update_step [OF g4(1,2), of "Some Completed" None "Some ?t'" None] obtain s5 where
    s5: "so_update_run ops i (Some Completed) None (Some ?t') None s4 =
      (s5, Some (apply_update (Some Completed) None (Some ?t') None ?r4))" "others_same i s4 s5"
      "so_get_run ops i s5 = Some (apply_update (Some Completed) None (Some ?t') None ?r4)"
    by blast
  have same: "so_get_run ops j s5 = so_get_run ops j (en_store e)" if "j \<noteq> i" for j
    using that s5(2) g4(3) s3(3) s2(2) by (simp add: others_same_def)
  have "wp_s (execute_pending_benchmark ops bops xc engine i) e (\<lambda>e' res.
      ok (en_store e') \<and> (\<forall>j. j \<noteq> i \<longrightarrow> so_get_run ops j (en_store e') = so_get_run ops j (en_store e)) \<and>
      (\<exists>r'. so_get_run ops i (en_store e') = Some r' \<and> benchmarked xc b r r' \<and>
        res = benchmark_run_detail r'))"
    using assms(2-5) s2(1) s3(1) s4 s5(1,3) same others_same_ok [OF s5(2)]
    by (simp add: execute_pending_benchmark_def benchmark_body_def wp_rules wp_require store_raise_s_def
        wp_s_def [of "store_raise_s f" for f] benchmarked_def)
  then show ?thesis by (simp add: wp_s_def)
qed

lemma execute_benchmark_failed:
  assumes "ok (en_store e)" and "so_get_run ops i (en_store e) = Some r"
    and "rr_run_type r = Benchmark" and "rr_status r \<noteq> Completed"
    and "engine (rr_config r) = Inl exc"
  shows "case execute_pending_benchmark ops bops xc engine i e of (e', res) \<Rightarrow>
    res = Inl exc \<and> ok (en_store e') \<and>
    (\<forall>j. j \<noteq> i \<longrightarrow> so_get_run ops j (en_store e') = so_get_run ops j (en_store e)) \<and>
    (\<exists>r'. so_get_run ops i (en_store e') = Some r' \<and> rr_status r' = Failed \<and>
      rr_error r' = Some (exc_message exc) \<and> rr_report r' = rr_report r)"
proof -
  let ?t = "en_clock e (en_ticks e)" and ?t' = "en_clock e (Suc (en_ticks e))"
  let ?r2 = "apply_update (Some Running) (Some ?t) None None r"
  from update_step [OF assms(1,2), of "Some Running" "Some ?t" None None]
  obtain s2 where s2: "so_update_run ops i (Some Running) (Some ?t) None None (en_store e) =
      (s2, Some ?r2)" "others_same i (en_store e) s2" "so_get_run ops i s2 = Some ?r2"
    by blast
  from update_step [OF others_same_ok [OF s2(2)] s2(3), of "Some Failed" None "Some ?t'" "Some (exc_message exc)"]
  obtain s3 where s3: "so_update_run ops i (Some Failed) None (Some ?t') (Some (exc_message exc)) s2 =
      (s3, Some (apply_update (Some Failed) None (Some ?t') (Some (exc_message exc)) ?r2))"
      "others_same i s2 s3"
      "so_get_run ops i s3 = Some (apply_update (Some Failed) None (Some ?t') (Some (exc_message exc)) ?r2)"
    by blast
  have "wp_s (execute_pending_benchmark ops bops xc engine i) e (\<lambda>e' res.
      res = Inl exc \<and> ok (en_store e') \<and>
      (\<forall>j. j \<noteq> i \<longrightarrow> so_get_run ops j (en_store e') = so_get_run ops j (en_store e)) \<and>
      (\<exists>r'. so_get_run ops i (en_store e') = Some r' \<and> rr_status r' = Failed \<and>
        rr_error r' = Some (exc_message exc) \<and> rr_report r' = rr_report r))"
    using assms(2-5) s2 s3
    by (simp add: execute_pending_benchmark_def benchmark_body_def benchmark_failed_def wp_rules
        wp_require others_same_def)
  then show ?thesis by (simp add: wp_s_def)
qed

end

end
