(* ===== verification/Benchmark_Props.thy ===== *)
theory Benchmark_Props
  imports Run_Props Benchmark_Service
begin

text \<open>
  Properties of benchmarks: what a comparison of two benchmark runs reports, and what executing a
  benchmark run leaves in the SQLite store.
\<close>

lemma map_of_keyed: "map_of (map (\<lambda>x. (k x, x)) xs) n = find (\<lambda>x. k x = n) xs"
  by (induction xs) auto

lemma map_of_by_name_find: "map_of (by_name ss) n = find (\<lambda>x. bs_name x = n) (rev ss)"
  using map_of_keyed [of bs_name "rev ss"] by (simp add: map_of_by_name rev_map)

text \<open>The change in percent has the sign of the difference of the rates.\<close>

lemma percent_sign:
  assumes "float_lt float_zero b" and "percent_delta b c = Inr p"
  shows "float_lt p float_zero \<Longrightarrow> float_lt c b" "float_lt float_zero p \<Longrightarrow> float_lt b c"
proof -
  obtain q where q: "float_div (float_sub c b) b = Inr q" and p: "p = float_mul q (Fin 25 2)"
    using assms(2) by (auto simp: percent_delta_def bind_r_Inr_iff float_of_int_100)
  show "float_lt p float_zero \<Longrightarrow> float_lt c b" "float_lt float_zero p \<Longrightarrow> float_lt b c"
    using div_sign [OF assms(1) q] sub_sign mul_sign [of 25 q 2] unfolding p by (metis zero_less_numeral)+
qed

text \<open>One scenario of a comparison: the rates and the change in percent, and what is read off the change.\<close>

definition rates_compared :: "benchmark_scenario list \<Rightarrow> benchmark_scenario list \<Rightarrow> scenario_comparison \<Rightarrow> bool" where
  "rates_compared bs cs s \<longleftrightarrow>
     cs_baseline_ops_per_sec s = map_option bs_ops_per_sec (find (\<lambda>x. bs_name x = cs_name s) (rev bs)) \<and>
     cs_candidate_ops_per_sec s = map_option bs_ops_per_sec (find (\<lambda>x. bs_name x = cs_name s) (rev cs)) \<and>
     (case (cs_baseline_ops_per_sec s, cs_candidate_ops_per_sec s) of
        (Some x, Some y) \<Rightarrow>
          if float_lt float_zero x
          then \<exists>q. float_div (float_sub y x) x = Inr q \<and> cs_percent_delta s = Some (float_mul q (float_of_int 100))
          else cs_percent_delta s = None
      | _ \<Rightarrow> cs_percent_delta s = None)"

definition flags_set :: "pyfloat \<Rightarrow> scenario_comparison \<Rightarrow> bool" where
  "flags_set t s \<longleftrightarrow>
     (cs_regression s \<longleftrightarrow> (\<exists>p. cs_percent_delta s = Some p \<and> float_lt p (float_neg (float_abs t)))) \<and>
     (cs_improvement s \<longleftrightarrow> (\<exists>p. cs_percent_delta s = Some p \<and> float_lt (float_abs t) p)) \<and>
     cs_threshold_percent s = t"

lemma compare_scenario_compared:
  assumes "compare_scenario (by_name bs) (by_name cs) t name = Inr s"
  shows "rates_compared bs cs s" "flags_set t s"
proof -
  let ?b = "map_option bs_ops_per_sec (map_of (by_name bs) name)"
  let ?c = "map_option bs_ops_per_sec (map_of (by_name cs) name)"
  have "cs_name s = name \<and> cs_baseline_ops_per_sec s = ?b \<and> cs_candidate_ops_per_sec s = ?c \<and>
      (case (?b, ?c) of
         (Some b, Some c) \<Rightarrow>
           if float_lt float_zero b then bind_r (percent_delta b c) (\<lambda>p. Inr (Some p)) else Inr None
       | _ \<Rightarrow> Inr None) = Inr (cs_percent_delta s)"
    using assms unfolding compare_scenario_def Let_def bind_r_Inr_iff sum.inject by (elim exE conjE) (hypsubst, simp)
  then show "rates_compared bs cs s"
    unfolding rates_compared_def map_of_by_name_find percent_delta_def
    by (auto simp: bind_r_Inr_iff split: option.splits if_splits)
  have "cs_threshold_percent s = t \<and>
      cs_regression s = (case cs_percent_delta s of None \<Rightarrow> False | Some p \<Rightarrow> float_lt p (float_neg (float_abs t))) \<and>
      cs_improvement s = (case cs_percent_delta s of None \<Rightarrow> False | Some p \<Rightarrow> float_lt (float_abs t) p)"
    using assms by (simp add: compare_scenario_def Let_def bind_r_Inr_iff) (elim exE conjE, hypsubst, simp)
  then show "flags_set t s" by (simp add: flags_set_def split: option.split)
qed

lemma compared_direction:
  assumes "rates_compared bs cs s" and "flags_set t s"
  shows "cs_regression s \<Longrightarrow> \<exists>x y. cs_baseline_ops_per_sec s = Some x \<and> cs_candidate_ops_per_sec s = Some y \<and> float_lt y x"
    "cs_improvement s \<Longrightarrow> \<exists>x y. cs_baseline_ops_per_sec s = Some x \<and> cs_candidate_ops_per_sec s = Some y \<and> float_lt x y"
proof -
  have delta: "\<exists>x y. cs_baseline_ops_per_sec s = Some x \<and> cs_candidate_ops_per_sec s = Some y \<and>
      float_lt float_zero x \<and> percent_delta x y = Inr p" if "cs_percent_delta s = Some p" for p
    using assms(1) that
    by (auto simp: rates_compared_def percent_delta_def split: option.splits if_splits)
  show "cs_regression s \<Longrightarrow> \<exists>x y. cs_baseline_ops_per_sec s = Some x \<and> cs_candidate_ops_per_sec s = Some y \<and> float_lt y x"
    using assms(2) delta percent_sign(1) outside_sign(1) unfolding flags_set_def by metis
  show "cs_improvement s \<Longrightarrow> \<exists>x y. cs_baseline_ops_per_sec s = Some x \<and> cs_candidate_ops_per_sec s = Some y \<and> float_lt x y"
    using assms(2) delta percent_sign(2) outside_sign(2) unfolding flags_set_def by metis
qed

text \<open>C35 (comparing benchmarks). A comparison always succeeds, with the ids of the two runs and the
  threshold. It lists every scenario name of either run once, in order; its rates are those of the last
  scenario of that name on each side; it has a change in percent, (candidate - baseline) / baseline * 100 in
  float arithmetic, exactly when both sides have the scenario and the baseline rate is positive. A scenario
  is a regression exactly when its change is below minus the absolute threshold, and then the candidate is
  slower; it is an improvement exactly when the change is above the absolute threshold, and then the
  candidate is faster; so it is never both. The comparison has a regression exactly when a scenario has,
  and comparing a run with itself finds none.\<close>

theorem benchmark_comparison:
  "\<exists>r. compare_benchmark_runs b c t = Inr r \<and>
     bc_baseline_id r = bm_benchmark_id b \<and> bc_candidate_id r = bm_benchmark_id c \<and> bc_threshold_percent r = t \<and>
     map cs_name (bc_scenarios r) = sorted_list_of_set (bs_name ` set (bm_scenarios b) \<union> bs_name ` set (bm_scenarios c)) \<and>
     (\<forall>s \<in> set (bc_scenarios r).
        cs_baseline_ops_per_sec s = map_option bs_ops_per_sec (find (\<lambda>x. bs_name x = cs_name s) (rev (bm_scenarios b))) \<and>
        cs_candidate_ops_per_sec s = map_option bs_ops_per_sec (find (\<lambda>x. bs_name x = cs_name s) (rev (bm_scenarios c))) \<and>
        (case (cs_baseline_ops_per_sec s, cs_candidate_ops_per_sec s) of
           (Some x, Some y) \<Rightarrow>
             if float_lt float_zero x
             then \<exists>q. float_div (float_sub y x) x = Inr q \<and> cs_percent_delta s = Some (float_mul q (float_of_int 100))
             else cs_percent_delta s = None
         | _ \<Rightarrow> cs_percent_delta s = None) \<and>
        (cs_regression s \<longleftrightarrow> (\<exists>p. cs_percent_delta s = Some p \<and> float_lt p (float_neg (float_abs t)))) \<and>
        (cs_improvement s \<longleftrightarrow> (\<exists>p. cs_percent_delta s = Some p \<and> float_lt (float_abs t) p)) \<and>
        cs_threshold_percent s = t \<and>
        (cs_regression s \<longrightarrow>
           (\<exists>x y. cs_baseline_ops_per_sec s = Some x \<and> cs_candidate_ops_per_sec s = Some y \<and> float_lt y x)) \<and>
        (cs_improvement s \<longrightarrow>
           (\<exists>x y. cs_baseline_ops_per_sec s = Some x \<and> cs_candidate_ops_per_sec s = Some y \<and> float_lt x y)) \<and>
        \<not> (cs_regression s \<and> cs_improvement s)) \<and>
     (bc_has_regression r \<longleftrightarrow> (\<exists>s \<in> set (bc_scenarios r). cs_regression s)) \<and>
     (b = c \<longrightarrow> \<not> bc_has_regression r \<and> (\<forall>s \<in> set (bc_scenarios r). \<not> cs_improvement s))"
  (is "\<exists>r. _ \<and> _ \<and> _ \<and> _ \<and> _ \<and> (\<forall>s \<in> set (bc_scenarios r). ?Q s) \<and> _ \<and> _")
proof -
  let ?bs = "by_name (bm_scenarios b)" and ?cs = "by_name (bm_scenarios c)"
  let ?names = "sort (remdups (map fst ?bs @ map fst ?cs))"
  obtain ss where ss: "map_r (compare_scenario ?bs ?cs t) ?names = Inr ss"
    using map_r_total compare_scenario_ok by meson
  have "map cs_name ss = ?names"
    using ss by (rule map_r_map) (rule compare_scenario_name)
  also have "?names = sorted_list_of_set (set (map fst ?bs @ map fst ?cs))"
    by (simp only: sorted_list_of_set_sort_remdups)
  also have "set (map fst ?bs @ map fst ?cs) = bs_name ` set (bm_scenarios b) \<union> bs_name ` set (bm_scenarios c)"
    by (simp add: keys_by_name)
  finally have names: "map cs_name ss =
      sorted_list_of_set (bs_name ` set (bm_scenarios b) \<union> bs_name ` set (bm_scenarios c))" .
  have each: "rates_compared (bm_scenarios b) (bm_scenarios c) s" "flags_set t s" if "s \<in> set ss" for s
    using map_r_members [OF ss that] compare_scenario_compared by blast+
  have one: "(\<not> (cs_regression s \<and> cs_improvement s)) \<and> (b = c \<longrightarrow> \<not> cs_regression s \<and> \<not> cs_improvement s)"
    if "s \<in> set ss" for s
    using compared_direction [OF each [OF that]] each [OF that] float_lt_irrefl float_lt_trans
    unfolding rates_compared_def by (metis option.sel)
  let ?r = "\<lparr>bc_baseline_id = bm_benchmark_id b, bc_candidate_id = bm_benchmark_id c, bc_threshold_percent = t,
    bc_has_regression = list_ex cs_regression ss, bc_scenarios = ss\<rparr>"
  have r: "compare_benchmark_runs b c t = Inr ?r"
    using ss by (simp add: compare_benchmark_runs_def Let_def)
  have all: "\<forall>s \<in> set (bc_scenarios ?r). ?Q s"
  proof
    fix s
    assume "s \<in> set (bc_scenarios ?r)"
    then have s: "s \<in> set ss" by simp
    show "?Q s"
      using each [OF s] compared_direction [OF each [OF s]] one [OF s]
      unfolding rates_compared_def flags_set_def by blast
  qed
  have "b = c \<longrightarrow> \<not> bc_has_regression ?r \<and> (\<forall>s \<in> set (bc_scenarios ?r). \<not> cs_improvement s)"
    using one by (auto simp: list_ex_iff)
  then show ?thesis
    by (intro exI [of _ ?r] conjI r all) (simp_all add: names list_ex_iff)
qed

definition sample_benchmark :: benchmark_run where
  "sample_benchmark = \<lparr>bm_benchmark_id = ''x'', bm_created_at = 7, bm_git_sha = None, bm_machine = [],
     bm_scenarios = [\<lparr>bs_name = ''match'', bs_operation_count = 5, bs_elapsed_ms = float_of_int 2,
       bs_ops_per_sec = float_of_int 3, bs_notes = None, bs_config = []\<rparr>], bm_notes = None, bm_config = []\<rparr>"

theorem benchmark_comparison_witness:
  "\<exists>r s. compare_benchmark_runs sample_benchmark sample_benchmark float_zero = Inr r \<and> bc_scenarios r = [s] \<and>
     cs_name s = ''match'' \<and> \<not> cs_regression s"
proof -
  obtain r where r: "compare_benchmark_runs sample_benchmark sample_benchmark float_zero = Inr r"
    "map cs_name (bc_scenarios r) = [''match'']" "\<not> bc_has_regression r"
    "bc_has_regression r \<longleftrightarrow> (\<exists>s \<in> set (bc_scenarios r). cs_regression s)"
    using benchmark_comparison [of sample_benchmark sample_benchmark float_zero] by (auto simp: sample_benchmark_def)
  then show ?thesis by (auto simp: map_eq_Cons_conv)
qed

text \<open>A store with one benchmark run, canceled before it began.\<close>

definition canceled_benchmark :: "sql_store env" where
  "canceled_benchmark = \<lparr>en_store = fst (sql_update_run ''b'' (Some Canceled) None None None
     (fst (sql_create_run 5 ''b'' Benchmark [] empty_sql))), en_stream = None, en_clock = int, en_ticks = 6\<rparr>"

lemma canceled_benchmark_ok:
  "sql_ok (en_store canceled_benchmark)"
  "sql_get_run ''b'' (en_store canceled_benchmark) = Some (new_run 5 ''b'' Benchmark [] \<lparr>rr_status := Canceled\<rparr>)"
proof -
  have none: "sql_get_run i empty_sql = None" for i
    by (simp add: sql_get_run_def empty_sql_def)
  obtain s1 where s1: "s1 = fst (sql_create_run 5 ''b'' Benchmark [] empty_sql)" "sql_ok s1"
    "sql_get_run ''b'' s1 = Some (new_run 5 ''b'' Benchmark [])"
    using sql.create_run [OF sql_ok_empty, of "''b''" 5 Benchmark "[]"] none
    by (auto simp: sql_ops_def encode_json_def split: prod.splits)
  show "sql_ok (en_store canceled_benchmark)"
    "sql_get_run ''b'' (en_store canceled_benchmark) = Some (new_run 5 ''b'' Benchmark [] \<lparr>rr_status := Canceled\<rparr>)"
    using sql.update_run [OF s1(2), of "''b''" "Some Canceled" None None None] s1(3)
    by (auto simp: sql_ops_def canceled_benchmark_def s1(1) apply_update_def split: prod.splits)
qed

text \<open>C36 (executing a benchmark). Executing a stored benchmark run that is not completed, even one that is
  canceled, with an engine that returns a benchmark the store can hold, completes the run: its report is
  the stored benchmark, its other artifacts are empty, and no other run has changed. When the engine
  raises, the run is failed with the message and keeps its report, and the exception is passed on.\<close>

theorem benchmark_executed:
  assumes "sql_ok (en_store e)" and "sql_get_run i (en_store e) = Some r"
    and "rr_run_type r = Benchmark" and "rr_status r \<noteq> Completed"
    and "\<And>b. engine (rr_config r) = Inr b \<Longrightarrow> \<not> null_measure b"
  shows "case execute_pending_benchmark sql_ops sql_benchmark_ops xc engine i e of (e', res) \<Rightarrow>
    (\<forall>j. j \<noteq> i \<longrightarrow> sql_get_run j (en_store e') = sql_get_run j (en_store e)) \<and>
    (\<exists>r'. sql_get_run i (en_store e') = Some r' \<and>
      (case engine (rr_config r) of
         Inr b \<Rightarrow> rr_status r' = Completed \<and> rr_completed_at r' \<noteq> None \<and> rr_config r' = rr_config r \<and>
           rr_report r' = encode_json (benchmark_to_dict xc (encode_benchmark b)) \<and> rr_events r' = [] \<and>
           rr_snapshots r' = [] \<and> rr_accounts r' = [] \<and> res = benchmark_run_detail r'
       | Inl exc \<Rightarrow> rr_status r' = Failed \<and> rr_error r' = Some (exc_message exc) \<and>
           rr_report r' = rr_report r \<and> res = Inl exc))"
proof (cases "engine (rr_config r)")
  case (Inl exc)
  then show ?thesis
    using sql_benchmarks.execute_benchmark_failed [of e i r engine exc xc] assms(1-4)
    by (auto simp: sql_ops_def split: prod.splits)
next
  case (Inr b)
  then show ?thesis
    using sql_benchmarks.execute_benchmark_ok [of e i r engine b xc] assms(1-4) assms(5) [OF Inr]
    by (auto simp: sql_ops_def sql_benchmarks.benchmarked_def split: prod.splits)
qed

theorem benchmark_executed_witness:
  "case execute_pending_benchmark sql_ops sql_benchmark_ops
      \<lparr>xc_isoformat = int_str, xc_fromiso = (\<lambda>s. Inr 0), xc_float = (\<lambda>s. Inr float_zero)\<rparr>
      (\<lambda>config. Inr sample_benchmark) ''b'' canceled_benchmark of
    (e', res) \<Rightarrow> map_option rr_status (sql_get_run ''b'' (en_store e')) = Some Completed"
  using benchmark_executed [OF canceled_benchmark_ok, of
      "\<lambda>config. Inr sample_benchmark"
      "\<lparr>xc_isoformat = int_str, xc_fromiso = (\<lambda>s. Inr 0), xc_float = (\<lambda>s. Inr float_zero)\<rparr>"]
  by (auto simp: new_run_def null_measure_def sample_benchmark_def float_eval split: prod.splits)

end
