(* ===== verification/Tournament_Store.thy ===== *)
theory Tournament_Store
  imports Benchmark_Service Run_Queue "HOL-Library.Multiset"
begin

text \<open>
  The tournament half of the storage contract as the locale \<open>tournament_store\<close>, interpreted by both
  backends, and the world of a worker: the run store and the run queue, tables of one database that
  no statement joins. The operations of a store act on the first half of that world.
\<close>

section \<open>The contract\<close>

text \<open>What an operation on one half of the store leaves of the other half.\<close>

definition same_tournaments :: "'s store_ops \<Rightarrow> ('s \<Rightarrow> bool) \<Rightarrow> 's \<Rightarrow> 's \<Rightarrow> bool" where
  "same_tournaments ops tok s s' \<longleftrightarrow> tok s' \<and>
     (\<forall>i. so_get_tournament ops i s' = so_get_tournament ops i s) \<and>
     (\<forall>i. so_list_children ops i s' = so_list_children ops i s) \<and>
     so_list_tournaments ops s' = so_list_tournaments ops s"

definition same_runs :: "'s store_ops \<Rightarrow> ('s \<Rightarrow> bool) \<Rightarrow> 's \<Rightarrow> 's \<Rightarrow> bool" where
  "same_runs ops ok s s' \<longleftrightarrow> ok s' \<and> (\<forall>i. so_get_run ops i s' = so_get_run ops i s)"

text \<open>The children of a tournament; none when it does not exist.\<close>

definition children_of :: "'s store_ops \<Rightarrow> string \<Rightarrow> 's \<Rightarrow> tournament_child list" where
  "children_of ops i s = (case so_list_children ops i s of None \<Rightarrow> [] | Some cs \<Rightarrow> cs)"

locale tournament_store = run_store ops ok canon arrange
  for ops :: "'s store_ops" and ok canon arrange +
  fixes tok :: "'s \<Rightarrow> bool"
  assumes create_run_keeps: "tok s \<Longrightarrow> same_tournaments ops tok s (fst (so_create_run ops now i ty config s))"
    and update_run_keeps: "tok s \<Longrightarrow> same_tournaments ops tok s (fst (so_update_run ops i st sa ca err s))"
    and store_result_keeps: "tok s \<Longrightarrow>
      same_tournaments ops tok s (fst (so_store_result ops i doc events snapshots accounts logs s))"
    and append_log_keeps: "tok s \<Longrightarrow> same_tournaments ops tok s (fst (so_append_log ops i entry s))"
    and create_tournament: "ok s \<Longrightarrow> tok s \<Longrightarrow> so_get_tournament ops tid s = None \<Longrightarrow>
      (case so_create_tournament ops now tid kind config s of
         (s', res) \<Rightarrow> same_runs ops ok s s' \<and> tok s' \<and> res = Inr (new_tournament now tid kind config) \<and>
           (\<forall>i. so_get_tournament ops i s' =
              (if i = tid then Some (new_tournament now tid kind (canon config))
               else so_get_tournament ops i s)) \<and>
           (\<forall>i. so_list_children ops i s' = (if i = tid then Some [] else so_list_children ops i s)))"
    and update_tournament: "ok s \<Longrightarrow> tok s \<Longrightarrow>
      (case so_update_tournament ops tid st sa ca report err s of
         (s', res) \<Rightarrow> same_runs ops ok s s' \<and> tok s' \<and> res = so_get_tournament ops tid s' \<and>
           (\<forall>i. so_get_tournament ops i s' =
              (if i = tid then map_option (apply_tournament_update st sa ca (map_option canon report) err)
                 (so_get_tournament ops i s)
               else so_get_tournament ops i s)) \<and>
           (\<forall>i. so_list_children ops i s' = so_list_children ops i s))"
    and link_child: "ok s \<Longrightarrow> tok s \<Longrightarrow> so_list_children ops tid s = Some cs \<Longrightarrow>
      so_get_run ops run_id s \<noteq> None \<Longrightarrow> key \<notin> tc_child_key ` set cs \<Longrightarrow>
      (case so_link_child ops tid run_id key ty dimensions s of
         (s', res) \<Rightarrow> same_runs ops ok s s' \<and> tok s' \<and> res = Inr () \<and>
           (\<forall>i. so_get_tournament ops i s' = so_get_tournament ops i s) \<and>
           (\<forall>i. i \<noteq> tid \<longrightarrow> so_list_children ops i s' = so_list_children ops i s) \<and>
           (\<exists>cs'. so_list_children ops tid s' = Some cs' \<and> mset cs' = add_mset
              \<lparr>tc_tournament_id = tid, tc_child_run_id = run_id, tc_child_key = key, tc_run_type = ty,
               tc_dimensions = canon dimensions\<rparr> (mset cs)))"
    and children_None: "so_list_children ops tid s = None \<longleftrightarrow> so_get_tournament ops tid s = None"
    and get_tournament_id: "tok s \<Longrightarrow> so_get_tournament ops tid s = Some r \<Longrightarrow> tr_tournament_id r = tid"
    and list_tournaments: "tok s \<Longrightarrow>
      set (so_list_tournaments ops s) = {r. \<exists>i. so_get_tournament ops i s = Some r} \<and>
      distinct (map tr_tournament_id (so_list_tournaments ops s))"

section \<open>The in-memory backend\<close>

definition mem_tournaments_ok :: "mem_store \<Rightarrow> bool" where
  "mem_tournaments_ok s \<longleftrightarrow> distinct (map fst (ms_tournaments s)) \<and>
     (\<forall>(k, r) \<in> set (ms_tournaments s). tr_tournament_id r = k)"

lemma mem_ops_sel:
  "so_create_run mem_ops = mem_create_run" "so_update_run mem_ops = mem_update_run"
  "so_store_result mem_ops = mem_store_result" "so_append_log mem_ops = mem_append_log"
  "so_get_run mem_ops = mem_get_run" "so_create_tournament mem_ops = mem_create_tournament"
  "so_update_tournament mem_ops = mem_update_tournament" "so_get_tournament mem_ops = mem_get_tournament"
  "so_list_tournaments mem_ops = mem_list_tournaments" "so_link_child mem_ops = mem_link_child"
  "so_list_children mem_ops = mem_list_children"
  by (simp_all add: mem_ops_def)

lemma mem_same_tournaments:
  assumes "ms_tournaments s' = ms_tournaments s" "ms_children s' = ms_children s" "mem_tournaments_ok s"
  shows "same_tournaments mem_ops mem_tournaments_ok s s'"
proof -
  have "mem_tournaments_ok s'" using assms by (simp add: mem_tournaments_ok_def)
  moreover have "mem_get_tournament i s' = mem_get_tournament i s" for i
    using assms by (simp only: mem_get_tournament_def)
  ultimately show ?thesis
    using assms by (simp add: same_tournaments_def mem_ops_sel mem_list_children_def mem_list_tournaments_def)
qed

lemma mem_same_runs:
  assumes "ms_records s' = ms_records s" "ms_benchmarks s' = ms_benchmarks s" "mem_ok s"
  shows "same_runs mem_ops mem_ok s s'"
  using assms by (simp add: same_runs_def mem_ok_def mem_ops_sel mem_get_run_def)

lemma mem_modify_tables [simp]:
  "ms_tournaments (mem_modify i f s) = ms_tournaments s" "ms_children (mem_modify i f s) = ms_children s"
  by (simp_all add: mem_modify_def split: option.split)

lemma mem_tournaments_ok_put:
  assumes "mem_tournaments_ok s" and "tr_tournament_id r = k"
  shows "mem_tournaments_ok (s\<lparr>ms_tournaments := AList.update k r (ms_tournaments s)\<rparr>)"
  using assms set_alist_update [of k r "ms_tournaments s"]
  by (auto simp: mem_tournaments_ok_def distinct_update)

lemma mem_tournaments_ok_children [simp]:
  "mem_tournaments_ok (s\<lparr>ms_children := c\<rparr>) = mem_tournaments_ok s"
  by (simp add: mem_tournaments_ok_def)

lemma mem_tournament_id:
  "mem_tournaments_ok s \<Longrightarrow> mem_get_tournament i s = Some r \<Longrightarrow> tr_tournament_id r = i"
  by (auto simp: mem_tournaments_ok_def mem_get_tournament_def dest!: map_of_SomeD)

lemma apply_tournament_update_id [simp]:
  "tr_tournament_id (apply_tournament_update st sa ca report err r) = tr_tournament_id r"
  by (simp add: apply_tournament_update_def)

lemma mem_list_tournaments_get:
  assumes "mem_tournaments_ok s"
  shows "set (mem_list_tournaments s) = {r. \<exists>i. mem_get_tournament i s = Some r}"
    and "distinct (map tr_tournament_id (mem_list_tournaments s))"
proof -
  have dist: "distinct (map fst (ms_tournaments s))"
    and own: "\<And>k r. (k, r) \<in> set (ms_tournaments s) \<Longrightarrow> tr_tournament_id r = k"
    using assms by (auto simp: mem_tournaments_ok_def)
  show "set (mem_list_tournaments s) = {r. \<exists>i. mem_get_tournament i s = Some r}"
    using dist by (force simp: mem_list_tournaments_def mem_get_tournament_def)
  have "map tr_tournament_id (map snd (ms_tournaments s)) = map fst (ms_tournaments s)"
    using own by auto
  with dist have "distinct (map tr_tournament_id (map snd (ms_tournaments s)))" by (simp only:)
  then show "distinct (map tr_tournament_id (mem_list_tournaments s))"
    by (simp only: mem_list_tournaments_def distinct_map_sort_key)
qed

interpretation mem_tournaments: tournament_store mem_ops mem_ok "\<lambda>d. d" "\<lambda>ds. ds" mem_tournaments_ok
proof (unfold_locales, goal_cases)
  case (1 s now i ty config)
  then show ?case by (simp add: mem_same_tournaments mem_ops_sel mem_create_run_def Let_def)
next
  case (2 s i st sa ca err)
  then show ?case by (simp add: mem_same_tournaments mem_ops_sel mem_update_run_def Let_def)
next
  case (3 s i report events snapshots accounts logs)
  then show ?case by (simp add: mem_same_tournaments mem_ops_sel mem_store_result_def Let_def)
next
  case (4 s i entry)
  then show ?case by (simp add: mem_same_tournaments mem_ops_sel mem_append_log_def)
next
  case (5 s tid now kind config)
  let ?s = "s\<lparr>ms_tournaments := AList.update tid (new_tournament now tid kind config) (ms_tournaments s)\<rparr>"
  have "mem_tournaments_ok ?s"
    using 5(2) by (rule mem_tournaments_ok_put) (simp add: new_tournament_def)
  then show ?case
    using 5 mem_same_runs [of "fst (mem_create_tournament now tid kind config s)" s]
    by (simp add: mem_ops_sel mem_create_tournament_def mem_get_tournament_def Let_def
        mem_list_children_def update_conv')
next
  case (6 s tid st sa ca report err)
  show ?case
  proof (cases "mem_get_tournament tid s")
    case None
    then show ?thesis
      using 6 mem_same_runs [of s s]
      by (auto simp: mem_ops_sel mem_update_tournament_def)
  next
    case (Some r)
    let ?r = "apply_tournament_update st sa ca report err r"
    let ?s = "s\<lparr>ms_tournaments := AList.update tid ?r (ms_tournaments s)\<rparr>"
    have "mem_tournaments_ok ?s"
      using 6(2) by (rule mem_tournaments_ok_put) (simp add: mem_tournament_id [OF 6(2) Some])
    then show ?thesis
      using 6 Some mem_same_runs [of ?s s]
      by (simp add: mem_ops_sel mem_update_tournament_def mem_get_tournament_def mem_list_children_def
          update_conv' option.map_ident Let_def)
  qed
next
  case (7 s tid cs run_id key ty dimensions)
  then show ?case
    using mem_same_runs [of "fst (mem_link_child tid run_id key ty dimensions s)" s]
    by (auto simp: mem_ops_sel mem_link_child_def mem_get_tournament_def Let_def
        mem_list_children_def update_conv' split: if_splits)
next
  case (8 tid s)
  then show ?case by (simp add: mem_ops_sel mem_list_children_def)
next
  case (9 s tid r)
  then show ?case by (simp add: mem_ops_sel mem_tournament_id)
next
  case (10 s)
  then show ?case using mem_list_tournaments_get by (simp add: mem_ops_sel)
qed

section \<open>The SQLite backend\<close>

text \<open>Ids and keys are unique, and the foreign key of a child row points to a tournament.\<close>

definition sql_tournaments_ok :: "sql_store \<Rightarrow> bool" where
  "sql_tournaments_ok s \<longleftrightarrow> distinct (map tn_tournament_id (sq_tournaments s)) \<and>
     distinct (map (\<lambda>r. (ch_tournament_id r, ch_child_key r)) (sq_children s)) \<and>
     ch_tournament_id ` set (sq_children s) \<subseteq> tn_tournament_id ` set (sq_tournaments s)"

lemma sql_ops_sel:
  "so_create_run sql_ops = sql_create_run" "so_update_run sql_ops = sql_update_run"
  "so_store_result sql_ops = sql_store_result" "so_append_log sql_ops = sql_append_log"
  "so_get_run sql_ops = sql_get_run" "so_create_tournament sql_ops = sql_create_tournament"
  "so_update_tournament sql_ops = sql_update_tournament" "so_get_tournament sql_ops = sql_get_tournament"
  "so_list_tournaments sql_ops = sql_list_tournaments" "so_link_child sql_ops = sql_link_child"
  "so_list_children sql_ops = sql_list_children"
  by (simp_all add: sql_ops_def)

lemma sql_same_tournaments:
  assumes "sq_tournaments s' = sq_tournaments s" "sq_children s' = sq_children s" "sql_tournaments_ok s"
  shows "same_tournaments sql_ops sql_tournaments_ok s s'"
proof -
  have "sql_tournaments_ok s'" using assms by (simp add: sql_tournaments_ok_def)
  moreover have "sql_get_tournament i s' = sql_get_tournament i s" for i
    using assms by (simp only: sql_get_tournament_def)
  ultimately show ?thesis
    using assms by (simp add: same_tournaments_def sql_ops_sel sql_list_children_def sql_list_tournaments_def)
qed

text \<open>Rows of the two tournament tables do not show in a run.\<close>

lemma sql_same_runs:
  assumes "sql_ok s"
  shows "same_runs sql_ops sql_ok s (s\<lparr>sq_tournaments := ts, sq_children := cs\<rparr>)"
proof -
  have "sql_get_run i (s\<lparr>sq_tournaments := ts, sq_children := cs\<rparr>) = sql_get_run i s" for i
    by (simp add: sql_get_run_view) (rule option.map_cong [OF refl],
        simp add: view_record_def Let_def report_of_def verification_of_def)
  then show ?thesis using assms by (simp add: same_runs_def sql_ops_sel sql_ok_def)
qed

lemma sql_same_runs_tables:
  "sql_ok s \<Longrightarrow> same_runs sql_ops sql_ok s (s\<lparr>sq_tournaments := ts\<rparr>)"
  "sql_ok s \<Longrightarrow> same_runs sql_ops sql_ok s (s\<lparr>sq_children := cs\<rparr>)"
  "sql_ok s \<Longrightarrow> same_runs sql_ops sql_ok s s"
  using sql_same_runs [where s = s and ts = ts and cs = "sq_children s"]
    sql_same_runs [where s = s and ts = "sq_tournaments s" and cs = cs]
    sql_same_runs [where s = s and ts = "sq_tournaments s" and cs = "sq_children s"] by simp_all

lemma sql_run_tables:
  "sq_tournaments (fst (sql_create_run now i ty config s)) = sq_tournaments s"
  "sq_children (fst (sql_create_run now i ty config s)) = sq_children s"
  "sq_tournaments (fst (sql_update_run i st sa ca err s)) = sq_tournaments s"
  "sq_children (fst (sql_update_run i st sa ca err s)) = sq_children s"
  "sq_tournaments (fst (sql_store_result i doc events snapshots accounts logs s)) = sq_tournaments s"
  "sq_children (fst (sql_store_result i doc events snapshots accounts logs s)) = sq_children s"
  "sq_tournaments (fst (sql_append_log i entry s)) = sq_tournaments s"
  "sq_children (fst (sql_append_log i entry s)) = sq_children s"
  by (simp_all add: sql_create_run_def sql_update_run_def sql_store_result_def sql_append_log_def Let_def
      split: option.split)

lemma sql_create_tournament_laws:
  assumes ok: "sql_ok s" "sql_tournaments_ok s" and none: "sql_get_tournament tid s = None"
  shows "case sql_create_tournament now tid kind config s of
     (s', res) \<Rightarrow> same_runs sql_ops sql_ok s s' \<and> sql_tournaments_ok s' \<and>
       res = Inr (new_tournament now tid kind config) \<and>
       (\<forall>i. sql_get_tournament i s' = (if i = tid then Some (new_tournament now tid kind (encode_json config))
          else sql_get_tournament i s)) \<and>
       (\<forall>i. sql_list_children i s' = (if i = tid then Some [] else sql_list_children i s))"
proof -
  have absent: "tid \<notin> tn_tournament_id ` set (sq_tournaments s)"
    using none by (simp add: sql_get_tournament_def row_of_None)
  then have no_child: "filter (\<lambda>r. ch_tournament_id r = tid) (sq_children s) = []"
    using ok(2) by (auto simp: sql_tournaments_ok_def filter_empty_conv)
  obtain s' res where run: "sql_create_tournament now tid kind config s = (s', res)" by fastforce
  then have s': "s' = s\<lparr>sq_tournaments := sq_tournaments s' \<rparr>" "sq_children s' = sq_children s"
      "res = Inr (new_tournament now tid kind config)"
    and get: "sql_get_tournament i s' = (if i = tid then Some (new_tournament now tid kind (encode_json config))
          else sql_get_tournament i s)" for i
    using none by (auto simp: sql_create_tournament_def Let_def sql_get_tournament_def row_of_append
        tournament_from_row_def new_tournament_def decode_json_def split: option.splits)
  have "sql_tournaments_ok s'"
    using run none absent ok(2)
    by (auto simp: sql_create_tournament_def Let_def sql_tournaments_ok_def image_subset_iff)
  moreover have "same_runs sql_ops sql_ok s s'"
    using sql_same_runs_tables(1) [OF ok(1), of "sq_tournaments s'"] s'(1) by simp
  ultimately show ?thesis
    using s' get no_child none by (simp add: run sql_list_children_def)
qed

lemma sql_update_tournament_laws:
  assumes ok: "sql_ok s" "sql_tournaments_ok s"
  shows "case sql_update_tournament tid st sa ca report err s of
     (s', res) \<Rightarrow> same_runs sql_ops sql_ok s s' \<and> sql_tournaments_ok s' \<and> res = sql_get_tournament tid s' \<and>
       (\<forall>i. sql_get_tournament i s' =
          (if i = tid then map_option (apply_tournament_update st sa ca (map_option encode_json report) err)
             (sql_get_tournament i s)
           else sql_get_tournament i s)) \<and>
       (\<forall>i. sql_list_children i s' = sql_list_children i s)"
proof -
  let ?f = "\<lambda>r. r\<lparr>tn_status := assign st (tn_status r), tn_started_at := or_else sa (tn_started_at r),
    tn_completed_at := or_else ca (tn_completed_at r),
    tn_report_json := or_else (map_option encode_json report) (tn_report_json r),
    tn_error := or_else err (tn_error r)\<rparr>"
  let ?s = "s\<lparr>sq_tournaments := update_where (\<lambda>r. tn_tournament_id r = tid) ?f (sq_tournaments s)\<rparr>"
  have "?s = s" if "st = None" "sa = None" "ca = None" "report = None" "err = None"
    using that by (simp add: update_where_def)
  then have eq: "sql_update_tournament tid st sa ca report err s = (?s, sql_get_tournament tid ?s)"
    unfolding sql_update_tournament_def Let_def by presburger
  have "tournament_from_row (?f r) =
      apply_tournament_update st sa ca (map_option encode_json report) err (tournament_from_row r)" for r
    by (cases report) (simp_all add: tournament_from_row_def apply_tournament_update_def decode_json_def)
  then have get: "sql_get_tournament i ?s =
      (if i = tid then map_option (apply_tournament_update st sa ca (map_option encode_json report) err)
         (sql_get_tournament i s) else sql_get_tournament i s)" for i
    by (cases "row_of tn_tournament_id i (sq_tournaments s)")
      (auto simp: sql_get_tournament_def row_of_update_where dest: row_of_Some)
  have ids: "map tn_tournament_id (sq_tournaments ?s) = map tn_tournament_id (sq_tournaments s)"
    by (simp add: map_update_where)
  then have "tn_tournament_id ` set (sq_tournaments ?s) = tn_tournament_id ` set (sq_tournaments s)"
    by (metis image_set)
  with ids have "sql_tournaments_ok ?s"
    using ok(2) unfolding sql_tournaments_ok_def by simp
  then show ?thesis
    using get sql_same_runs_tables(1) [OF ok(1)] by (auto simp: eq sql_list_children_def)
qed

lemma sql_link_child_laws:
  assumes ok: "sql_ok s" "sql_tournaments_ok s" and cs: "sql_list_children tid s = Some cs"
    and run: "sql_get_run run_id s \<noteq> None" and key: "key \<notin> tc_child_key ` set cs"
  shows "case sql_link_child tid run_id key ty dimensions s of
     (s', res) \<Rightarrow> same_runs sql_ops sql_ok s s' \<and> sql_tournaments_ok s' \<and> res = Inr () \<and>
       (\<forall>i. sql_get_tournament i s' = sql_get_tournament i s) \<and>
       (\<forall>i. i \<noteq> tid \<longrightarrow> sql_list_children i s' = sql_list_children i s) \<and>
       (\<exists>cs'. sql_list_children tid s' = Some cs' \<and> mset cs' = add_mset
          \<lparr>tc_tournament_id = tid, tc_child_run_id = run_id, tc_child_key = key, tc_run_type = ty,
           tc_dimensions = encode_json dimensions\<rparr> (mset cs))"
proof -
  let ?row = "\<lparr>ch_tournament_id = tid, ch_child_run_id = run_id, ch_child_key = key, ch_run_type = ty,
    ch_dimensions_json = encode_json dimensions\<rparr>"
  let ?s = "s\<lparr>sq_children := sq_children s @ [?row]\<rparr>"
  let ?child = "\<lambda>row. \<lparr>tc_tournament_id = ch_tournament_id row, tc_child_run_id = ch_child_run_id row,
    tc_child_key = ch_child_key row, tc_run_type = ch_run_type row,
    tc_dimensions = decode_json (Some (ch_dimensions_json row))\<rparr>"
  from cs have there: "sql_get_tournament tid s \<noteq> None"
    and cs_eq: "cs = map ?child (sort_key ch_child_key
               (filter (\<lambda>r. ch_tournament_id r = tid) (sq_children s)))"
    by (auto simp: sql_list_children_def split: if_splits)
  have "run_exists run_id s"
    using run by (simp add: run_exists_def sql_get_run_def)
  have new: "(tid, key) \<notin> (\<lambda>r. (ch_tournament_id r, ch_child_key r)) ` set (sq_children s)"
    using key by (auto simp: cs_eq image_iff)
  then have "sql_link_child tid run_id key ty dimensions s = (?s, Inr ())"
    using there \<open>run_exists run_id s\<close> by (auto simp: sql_link_child_def upsert_def)
  moreover have "sql_tournaments_ok ?s"
    using ok(2) new there unfolding sql_tournaments_ok_def
    by (auto simp: sql_get_tournament_def row_of_None)
  moreover have "sql_get_tournament i ?s = sql_get_tournament i s" for i
    by (simp add: sql_get_tournament_def)
  moreover have "mset (map ?child (sort_key ch_child_key
      (filter (\<lambda>r. ch_tournament_id r = tid) (sq_children ?s)))) = add_mset (?child ?row) (mset cs)"
    by (simp add: cs_eq mset_map [symmetric] del: mset_map) (simp add: mset_map)
  ultimately show ?thesis
    using there sql_same_runs_tables(2) [OF ok(1)]
    by (auto simp: sql_list_children_def decode_json_def)
qed

text \<open>The links of a tournament by their key, and the effect of a link in general: one with the key of an earlier
  link takes its place.\<close>

definition links_by_key :: "tournament_child list \<Rightarrow> string \<Rightarrow> tournament_child option" where
  "links_by_key cs = map_of (map (\<lambda>c. (tc_child_key c, c)) cs)"

definition child_of_row :: "child_row \<Rightarrow> tournament_child" where
  "child_of_row row = \<lparr>tc_tournament_id = ch_tournament_id row, tc_child_run_id = ch_child_run_id row,
     tc_child_key = ch_child_key row, tc_run_type = ch_run_type row,
     tc_dimensions = decode_json (Some (ch_dimensions_json row))\<rparr>"

lemma sql_list_children_rows:
  "sql_list_children tid s = (if sql_get_tournament tid s = None then None
     else Some (map child_of_row (sort_key ch_child_key (filter (\<lambda>r. ch_tournament_id r = tid) (sq_children s)))))"
  by (simp add: sql_list_children_def child_of_row_def)

lemma links_listed:
  assumes "sql_tournaments_ok s" and "sql_list_children tid s = Some cs"
  shows "sorted (map tc_child_key cs)" "distinct (map tc_child_key cs)"
    "links_by_key cs k = map_option child_of_row
       (row_of (\<lambda>r. (ch_tournament_id r, ch_child_key r)) (tid, k) (sq_children s))"
proof -
  let ?rows = "filter (\<lambda>r. ch_tournament_id r = tid) (sq_children s)"
  have cs: "cs = map child_of_row (sort_key ch_child_key ?rows)"
    using assms(2) by (simp add: sql_list_children_rows split: if_splits)
  have keys: "map tc_child_key cs = map ch_child_key (sort_key ch_child_key ?rows)"
    by (simp add: cs child_of_row_def)
  show "sorted (map tc_child_key cs)" by (simp add: keys)
  have dist: "distinct (map (\<lambda>r. (ch_tournament_id r, ch_child_key r)) (sq_children s))"
    using assms(1) by (simp add: sql_tournaments_ok_def)
  then have "distinct (map ch_child_key ?rows)"
    by (induction "sq_children s" arbitrary: s) (auto simp: distinct_map inj_on_def)
  then show dist_keys: "distinct (map tc_child_key cs)" by (simp only: keys distinct_map_sort_key)
  let ?row = "row_of (\<lambda>r. (ch_tournament_id r, ch_child_key r)) (tid, k) (sq_children s)"
  show "links_by_key cs k = map_option child_of_row ?row"
  proof (cases ?row)
    case None
    then have "k \<notin> fst ` set (map (\<lambda>c. (tc_child_key c, c)) cs)"
      by (auto simp: row_of_None cs child_of_row_def image_iff)
    then show ?thesis using None by (simp add: links_by_key_def map_of_eq_None_iff)
  next
    case (Some r)
    then have "r \<in> set ?rows" "ch_child_key r = k" by (auto dest: row_of_Some)
    then have "(k, child_of_row r) \<in> set (map (\<lambda>c. (tc_child_key c, c)) cs)"
      by (auto simp: cs child_of_row_def image_iff)
    then show ?thesis
      using Some dist_keys by (simp add: links_by_key_def comp_def map_of_eq_Some_iff)
  qed
qed

lemma filter_upsert_other:
  assumes "\<And>r. P (f r) = P r" and "\<And>r. key r = key new \<Longrightarrow> \<not> P r" and "\<not> P new"
  shows "filter P (upsert key f new rs) = filter P rs"
proof -
  have "filter P (update_where (\<lambda>r. key r = key new) f rs) = filter P rs" for rs
    using assms by (induction rs) auto
  then show ?thesis using assms(3) by (simp add: upsert_def)
qed

lemma sql_link_child_replaces:
  assumes ok: "sql_ok s" "sql_tournaments_ok s" and cs: "sql_list_children tid s = Some cs"
    and run: "sql_get_run run_id s \<noteq> None"
  shows "case sql_link_child tid run_id key ty dimensions s of
     (s', res) \<Rightarrow> same_runs sql_ops sql_ok s s' \<and> sql_tournaments_ok s' \<and> res = Inr () \<and>
       (\<forall>i. sql_get_tournament i s' = sql_get_tournament i s) \<and>
       (\<forall>i. i \<noteq> tid \<longrightarrow> sql_list_children i s' = sql_list_children i s) \<and>
       (\<exists>cs'. sql_list_children tid s' = Some cs' \<and> links_by_key cs' = (links_by_key cs)(key \<mapsto>
          \<lparr>tc_tournament_id = tid, tc_child_run_id = run_id, tc_child_key = key, tc_run_type = ty,
           tc_dimensions = encode_json dimensions\<rparr>))"
proof -
  let ?key = "\<lambda>r. (ch_tournament_id r, ch_child_key r)"
  let ?f = "\<lambda>r. r\<lparr>ch_child_run_id := run_id, ch_run_type := ty, ch_dimensions_json := encode_json dimensions\<rparr>"
  let ?row = "\<lparr>ch_tournament_id = tid, ch_child_run_id = run_id, ch_child_key = key, ch_run_type = ty,
    ch_dimensions_json = encode_json dimensions\<rparr>"
  let ?s = "s\<lparr>sq_children := upsert ?key ?f ?row (sq_children s)\<rparr>"
  have there: "sql_get_tournament tid s \<noteq> None"
    using cs by (auto simp: sql_list_children_rows split: if_splits)
  have "run_exists run_id s" using run by (simp add: run_exists_def sql_get_run_def)
  then have step: "sql_link_child tid run_id key ty dimensions s = (?s, Inr ())"
    using there by (simp add: sql_link_child_def)
  have get: "sql_get_tournament i ?s = sql_get_tournament i s" for i by (simp add: sql_get_tournament_def)
  have ok': "sql_tournaments_ok ?s"
    using ok(2) there distinct_upsert [of ?key ?f "sq_children s" ?row]
    by (auto simp: sql_tournaments_ok_def sql_get_tournament_def row_of_None dest!: in_upsert)
  have others: "sql_list_children i ?s = sql_list_children i s" if "i \<noteq> tid" for i
    using that filter_upsert_other [of "\<lambda>r. ch_tournament_id r = i" ?f ?key ?row "sq_children s"]
    by (simp add: sql_list_children_rows get)
  obtain cs' where cs': "sql_list_children tid ?s = Some cs'"
    using there by (simp add: sql_list_children_rows get)
  have "links_by_key cs' k = ((links_by_key cs)(key \<mapsto>
          \<lparr>tc_tournament_id = tid, tc_child_run_id = run_id, tc_child_key = key, tc_run_type = ty,
           tc_dimensions = encode_json dimensions\<rparr>)) k" for k
    using links_listed(3) [OF ok' cs', of k] links_listed(3) [OF ok(2) cs, of k]
    by (auto simp: row_of_upsert child_of_row_def decode_json_def dest!: row_of_Some split: option.splits)
  then show ?thesis
    using step get ok' others cs' sql_same_runs_tables(2) [OF ok(1)] by auto
qed

lemma sql_list_tournaments_get:
  assumes "sql_tournaments_ok s"
  shows "set (sql_list_tournaments s) = {r. \<exists>i. sql_get_tournament i s = Some r} \<and>
    distinct (map tr_tournament_id (sql_list_tournaments s))"
proof -
  have dist: "distinct (map tn_tournament_id (sq_tournaments s))"
    using assms by (simp add: sql_tournaments_ok_def)
  then have "row_of tn_tournament_id i (sq_tournaments s) = Some r \<longleftrightarrow>
      r \<in> set (sq_tournaments s) \<and> tn_tournament_id r = i" for i r
    by (auto dest: row_of_Some row_of_in)
  then have "set (sql_list_tournaments s) = {r. \<exists>i. sql_get_tournament i s = Some r}"
    by (auto simp: sql_list_tournaments_def sql_get_tournament_def)
  moreover have "map tr_tournament_id (sql_list_tournaments s) = map tn_tournament_id
      (sort_key (\<lambda>r. (store_time_key (tn_created_at r), tn_tournament_id r)) (sq_tournaments s))"
    by (simp add: sql_list_tournaments_def tournament_from_row_def)
  ultimately show ?thesis using dist by (simp only: distinct_map_sort_key)
qed

lemma sql_get_tournament_id: "sql_get_tournament i s = Some r \<Longrightarrow> tr_tournament_id r = i"
  by (auto simp: sql_get_tournament_def tournament_from_row_def dest: row_of_Some)

interpretation sql_tournaments: tournament_store sql_ops sql_ok encode_json snapshot_order sql_tournaments_ok
proof (unfold_locales, goal_cases)
  case (5 s tid now kind config)
  then show ?case using sql_create_tournament_laws [of s tid now kind config] by (auto simp: sql_ops_sel split: prod.splits)
next
  case (6 s tid st sa ca report err)
  then show ?case
    using sql_update_tournament_laws [of s tid st sa ca report err] by (auto simp: sql_ops_sel split: prod.splits)
next
  case (7 s tid cs run_id key ty dimensions)
  then show ?case
    using sql_link_child_laws [of s tid cs run_id key ty dimensions] by (auto simp: sql_ops_sel split: prod.splits)
next
  case (8 tid s)
  then show ?case by (simp add: sql_ops_sel sql_list_children_def)
next
  case (9 s tid r)
  then show ?case by (simp add: sql_ops_sel sql_get_tournament_id)
next
  case (10 s)
  then show ?case using sql_list_tournaments_get by (simp add: sql_ops_sel)
qed (simp_all add: sql_ops_sel sql_same_tournaments sql_run_tables)

section \<open>The world of a worker\<close>

text \<open>
  The store and the queue open the same database file; the store never touches the tables of the
  queue. A store operation acts on the first half of the pair.
\<close>

definition on_store :: "('s \<Rightarrow> 's \<times> 'a) \<Rightarrow> 's \<times> 'q \<Rightarrow> ('s \<times> 'q) \<times> 'a" where
  "on_store f w = (case f (fst w) of (s', x) \<Rightarrow> ((s', snd w), x))"

definition with_queue :: "'s store_ops \<Rightarrow> ('s \<times> 'q) store_ops" where
  "with_queue ops =
     \<lparr>so_create_run = (\<lambda>now i ty config. on_store (so_create_run ops now i ty config)),
      so_update_run = (\<lambda>i st sa ca err. on_store (so_update_run ops i st sa ca err)),
      so_get_run = (\<lambda>i w. so_get_run ops i (fst w)),
      so_list_runs = (\<lambda>w. so_list_runs ops (fst w)),
      so_delete_run = (\<lambda>i. on_store (so_delete_run ops i)),
      so_store_result = (\<lambda>i doc ev sn ac lg. on_store (so_store_result ops i doc ev sn ac lg)),
      so_get_report = (\<lambda>i w. so_get_report ops i (fst w)),
      so_get_events = (\<lambda>i sy ty n off w. so_get_events ops i sy ty n off (fst w)),
      so_get_snapshots = (\<lambda>i sy n off w. so_get_snapshots ops i sy n off (fst w)),
      so_get_accounts = (\<lambda>i a sy n off w. so_get_accounts ops i a sy n off (fst w)),
      so_get_logs = (\<lambda>i n off w. so_get_logs ops i n off (fst w)),
      so_append_log = (\<lambda>i entry. on_store (so_append_log ops i entry)),
      so_store_verification = (\<lambda>i doc. on_store (so_store_verification ops i doc)),
      so_get_verification = (\<lambda>i w. so_get_verification ops i (fst w)),
      so_create_tournament = (\<lambda>now i kind config. on_store (so_create_tournament ops now i kind config)),
      so_update_tournament = (\<lambda>i st sa ca doc err. on_store (so_update_tournament ops i st sa ca doc err)),
      so_get_tournament = (\<lambda>i w. so_get_tournament ops i (fst w)),
      so_list_tournaments = (\<lambda>w. so_list_tournaments ops (fst w)),
      so_link_child = (\<lambda>i run key ty dims. on_store (so_link_child ops i run key ty dims)),
      so_list_children = (\<lambda>i w. so_list_children ops i (fst w))\<rparr>"

definition with_queue_benchmarks :: "'s benchmark_ops \<Rightarrow> ('s \<times> 'q) benchmark_ops" where
  "with_queue_benchmarks bops =
     \<lparr>bo_store = (\<lambda>b. on_store (bo_store bops b)), bo_list = (\<lambda>w. bo_list bops (fst w)),
      bo_get = (\<lambda>i w. bo_get bops i (fst w)),
      bo_compare = (\<lambda>i j t w. bo_compare bops i j t (fst w))\<rparr>"

text \<open>The queue a tournament service may hold, \<open>queue: Any | None\<close>.\<close>

record 'w queue_client =
  qc_enqueue :: "instant \<Rightarrow> string \<Rightarrow> int \<Rightarrow> 'w \<Rightarrow> 'w \<times> queue_item result"
  qc_cancel_pending :: "instant \<Rightarrow> string \<Rightarrow> 'w \<Rightarrow> 'w \<times> bool"

text \<open>A call of the queue acts on the second half.\<close>

definition on_queue :: "(queue_db \<Rightarrow> queue_db \<times> 'a) \<Rightarrow> 's \<times> queue_db \<Rightarrow> ('s \<times> queue_db) \<times> 'a" where
  "on_queue f w = (case f (snd w) of (q', x) \<Rightarrow> ((fst w, q'), x))"

definition run_queue_client :: "('s \<times> queue_db) queue_client" where
  "run_queue_client =
     \<lparr>qc_enqueue = (\<lambda>now i priority. on_queue (enqueue now i priority None)),
      qc_cancel_pending = (\<lambda>now i. on_queue (cancel_pending now i))\<rparr>"

lemma with_queue_sel:
  "so_create_run (with_queue ops) now i ty config = on_store (so_create_run ops now i ty config)"
  "so_update_run (with_queue ops) i st sa ca err = on_store (so_update_run ops i st sa ca err)"
  "so_get_run (with_queue ops) i w = so_get_run ops i (fst w)"
  "so_store_result (with_queue ops) i doc ev sn ac lg = on_store (so_store_result ops i doc ev sn ac lg)"
  "so_append_log (with_queue ops) i entry = on_store (so_append_log ops i entry)"
  "so_create_tournament (with_queue ops) now i kind config = on_store (so_create_tournament ops now i kind config)"
  "so_update_tournament (with_queue ops) i st sa ca doc' err = on_store (so_update_tournament ops i st sa ca doc' err)"
  "so_get_tournament (with_queue ops) i w = so_get_tournament ops i (fst w)"
  "so_list_tournaments (with_queue ops) w = so_list_tournaments ops (fst w)"
  "so_link_child (with_queue ops) i run key ty dims = on_store (so_link_child ops i run key ty dims)"
  "so_list_children (with_queue ops) i w = so_list_children ops i (fst w)"
  by (simp_all add: with_queue_def)

lemma on_store_fst: "fst (on_store f w) = (fst (f (fst w)), snd w)"
  by (simp add: on_store_def split: prod.split)

lemma case_on_store: "(case on_store f w of (w', x) \<Rightarrow> P w' x) = (case f (fst w) of (s', x) \<Rightarrow> P (s', snd w) x)"
  by (simp add: on_store_def split: prod.split)

lemma same_tournaments_world:
  "same_tournaments (with_queue ops) (\<lambda>w. tok (fst w)) w (s', q) \<longleftrightarrow> same_tournaments ops tok (fst w) s'"
  by (simp add: same_tournaments_def with_queue_sel)

lemma same_runs_world:
  "same_runs (with_queue ops) (\<lambda>w. ok (fst w) \<and> Q (snd w)) w (s', q') \<longleftrightarrow>
    same_runs ops ok (fst w) s' \<and> Q q'"
  by (auto simp: same_runs_def with_queue_sel)

text \<open>
  The laws carry over, together with any fact about the queue: no operation of the store, and nothing
  built from them, changes a queue.
\<close>

context run_store
begin

lemma with_queue_laws: "run_store (with_queue ops) (\<lambda>w. ok (fst w) \<and> Q (snd w)) canon arrange"
proof (unfold_locales, goal_cases)
  case (1 s run_id now run_type config)
  then show ?case
    using create_run [of "fst s" run_id now run_type config] by (simp add: with_queue_sel case_on_store cong: if_cong split del: if_split)
next
  case (2 s run_id st sa ca err)
  then show ?case
    using update_run [of "fst s" run_id st sa ca err] by (simp add: with_queue_sel case_on_store cong: if_cong split del: if_split)
next
  case (3 s run_id report events snapshots accounts logs)
  then show ?case
    using store_result [of "fst s" run_id report events snapshots accounts logs]
    by (simp add: with_queue_sel case_on_store cong: if_cong split del: if_split)
next
  case (4 s run_id entry)
  then show ?case
    using append_log [of "fst s" run_id entry] by (simp add: with_queue_sel case_on_store cong: if_cong split del: if_split)
next
  case (5 s run_id report)
  then show ?case
    using store_verification [of "fst s" run_id report] by (simp add: with_queue_def case_on_store cong: if_cong split del: if_split)
next
  case (6 s run_id)
  then show ?case
    using delete_run [of "fst s" run_id] by (simp add: with_queue_def case_on_store cong: if_cong split del: if_split)
qed (auto simp: with_queue_def list_runs get_report get_events get_snapshots get_accounts get_logs
    get_verification canon_idem length_arrange dest: get_run_id)

end

context tournament_store
begin

lemma with_queue_tournament_laws:
  "tournament_store (with_queue ops) (\<lambda>w. ok (fst w) \<and> Q (snd w)) canon arrange (\<lambda>w. tok (fst w))"
proof (intro tournament_store.intro with_queue_laws, unfold_locales, goal_cases)
  case (5 s tid now kind config)
  then show ?case
    using create_tournament [of "fst s" tid now kind config]
    by (simp add: with_queue_sel case_on_store same_runs_world cong: if_cong split del: if_split)
next
  case (6 s tid st sa ca report err)
  then show ?case
    using update_tournament [of "fst s" tid st sa ca report err]
    by (simp add: with_queue_sel case_on_store same_runs_world cong: if_cong split del: if_split)
next
  case (7 s tid cs run_id key ty dimensions)
  then show ?case
    using link_child [of "fst s" tid cs run_id key ty dimensions]
    by (simp add: with_queue_sel case_on_store same_runs_world cong: if_cong split del: if_split)
next
  case (8 tid s)
  then show ?case by (simp add: with_queue_sel children_None)
next
  case (9 s tid r)
  then show ?case by (simp add: with_queue_sel get_tournament_id)
next
  case (10 s)
  then show ?case using list_tournaments by (simp add: with_queue_sel)
qed (simp_all add: with_queue_sel on_store_fst same_tournaments_world create_run_keeps update_run_keeps
    store_result_keeps append_log_keeps)

end

interpretation world: tournament_store "with_queue sql_ops" "\<lambda>w. sql_ok (fst w) \<and> Q (snd w)" encode_json
    snapshot_order "\<lambda>w. sql_tournaments_ok (fst w)"
  for Q :: "queue_db \<Rightarrow> bool"
  by (rule sql_tournaments.with_queue_tournament_laws)

end
