(* ===== verification/Api_Requests.thy ===== *)
theory Api_Requests
  imports Run_Types Py_Text
begin

text \<open>
  The request models of \<open>sim/api/models.py\<close>: their fields, defaults, declared bounds and validators,
  and the dictionary \<open>model_dump(exclude={"mode"})\<close> stores as the configuration of a run. The field
  types are HOL types, as pydantic checks them strictly; the text of its validation error, given the
  model and the fields that failed, is a parameter. The lemmas show what an accepted request
  guarantees and that validating an accepted request again changes nothing.
\<close>

section \<open>Text helpers\<close>

text \<open>\<open>str.strip()\<close> on the characters of the model.\<close>

definition py_space :: "char \<Rightarrow> bool" where
  "py_space c \<longleftrightarrow> (let n = of_char c :: nat
     in (9 \<le> n \<and> n \<le> 13) \<or> (28 \<le> n \<and> n \<le> 32) \<or> n = 133 \<or> n = 160)"

definition strip :: "string \<Rightarrow> string" where
  "strip s = rev (dropWhile py_space (rev (dropWhile py_space s)))"

lemma dropWhile_idem: "dropWhile P (dropWhile P xs) = dropWhile P xs"
  by (induction xs) auto

lemma dropWhile_rev_dropWhile:
  "dropWhile P (rev (dropWhile P (rev (dropWhile P xs)))) = rev (dropWhile P (rev (dropWhile P xs)))"
proof (cases "dropWhile P xs")
  case (Cons y ys)
  then have "\<not> P y" by (metis dropWhile_eq_Cons_conv)
  then have "\<exists>zs. rev (dropWhile P (rev (y # ys))) = y # zs"
    by (auto simp: dropWhile_append rev_swap [symmetric])
  with Cons \<open>\<not> P y\<close> show ?thesis by auto
next
  case Nil
  show ?thesis by (simp only: Nil rev.simps dropWhile.simps)
qed

lemma strip_idem [simp]: "strip (strip s) = strip s"
  by (simp add: strip_def dropWhile_rev_dropWhile dropWhile_idem)

section \<open>Sessions and backtests\<close>

datatype execution_mode = Sync | Queued

text \<open>The validators of symbols and strategies, and the list of the fields a model refuses.\<close>

(* sim/api/models.py:41-47 _validate_symbols *)
definition validate_symbols :: "string list \<Rightarrow> string list option" where
  "validate_symbols value =
     (let symbols = map strip value
      in if symbols = [] \<or> [] \<in> set symbols then None else Some symbols)"

(* sim/api/models.py:61-67 _validate_strategy *)
definition validate_strategy :: "string \<Rightarrow> string option" where
  "validate_strategy value = (let strategy = strip value in if strategy = [] then None else Some strategy)"

definition refused :: "(string \<times> bool) list \<Rightarrow> string list" where
  "refused checks = map fst (filter (\<lambda>(field, fine). \<not> fine) checks)"

type_synonym error_text = "string \<Rightarrow> string list \<Rightarrow> string"

(* sim/api/models.py:25-39 SessionRunRequest *)
record session_request =
  se_mode :: "execution_mode option"
  se_priority :: int
  se_scenario :: string
  se_steps :: int
  se_symbols :: "string list"
  se_seed :: int
  se_initial_price :: int
  se_volatility :: pyfloat
  se_participants :: int
  se_depth_levels :: int
  se_initial_cash :: int
  se_progress_interval :: int
  se_stream_events :: bool
  se_stream_snapshots :: bool

text \<open>The defaults; 0.02 is the float literal.\<close>

(* sim/api/models.py:26-39 SessionRunRequest (defaults) *)
definition default_session :: session_request where
  "default_session =
     \<lparr>se_mode = None, se_priority = 0, se_scenario = ''calm_market'', se_steps = 25,
      se_symbols = [''DEFAULT''], se_seed = 42, se_initial_price = 100,
      se_volatility = round_quot 2 100 0, se_participants = 20, se_depth_levels = 5,
      se_initial_cash = 1000000, se_progress_interval = 10, se_stream_events = False,
      se_stream_snapshots = False\<rparr>"

definition session_refused :: "session_request \<Rightarrow> string list" where
  "session_refused r = refused
     [(''steps'', 0 < se_steps r), (''symbols'', validate_symbols (se_symbols r) \<noteq> None),
      (''initial_price'', 0 < se_initial_price r),
      (''volatility'', se_volatility r \<noteq> NaN \<and> \<not> float_lt (se_volatility r) float_zero),
      (''participants'', 0 < se_participants r), (''depth_levels'', 0 \<le> se_depth_levels r),
      (''initial_cash'', 0 \<le> se_initial_cash r), (''progress_interval'', 0 < se_progress_interval r)]"

(* sim/api/models.py:25-47 SessionRunRequest (validation) *)
definition make_session :: "error_text \<Rightarrow> session_request \<Rightarrow> session_request result" where
  "make_session et r =
     (if session_refused r = [] then Inr (r\<lparr>se_symbols := the (validate_symbols (se_symbols r))\<rparr>)
      else Inl (ValueError (et ''SessionRunRequest'' (session_refused r))))"

text \<open>\<open>model_dump(exclude={"mode"})\<close>.\<close>

(* sim/api/models.py:25-39 SessionRunRequest (model_dump) *)
definition dump_session :: "session_request \<Rightarrow> pydict" where
  "dump_session r =
     [(''priority'', PInt (se_priority r)), (''scenario'', PStr (se_scenario r)),
      (''steps'', PInt (se_steps r)), (''symbols'', PList (map PStr (se_symbols r))),
      (''seed'', PInt (se_seed r)), (''initial_price'', PInt (se_initial_price r)),
      (''volatility'', PFloat (se_volatility r)), (''participants'', PInt (se_participants r)),
      (''depth_levels'', PInt (se_depth_levels r)), (''initial_cash'', PInt (se_initial_cash r)),
      (''progress_interval'', PInt (se_progress_interval r)),
      (''stream_events'', PBool (se_stream_events r)),
      (''stream_snapshots'', PBool (se_stream_snapshots r))]"

(* sim/api/models.py:50-59 BacktestRunRequest *)
record backtest_request =
  bq_mode :: "execution_mode option"
  bq_priority :: int
  bq_strategy :: string
  bq_symbols :: "string list"
  bq_initial_cash :: int
  bq_depth_levels :: int
  bq_progress_interval :: int
  bq_stream_events :: bool
  bq_stream_snapshots :: bool

(* sim/api/models.py:51-59 BacktestRunRequest (defaults) *)
definition default_backtest :: "string \<Rightarrow> backtest_request" where
  "default_backtest strategy =
     \<lparr>bq_mode = None, bq_priority = 0, bq_strategy = strategy, bq_symbols = [''DEFAULT''],
      bq_initial_cash = 1000000, bq_depth_levels = 5, bq_progress_interval = 10,
      bq_stream_events = False, bq_stream_snapshots = False\<rparr>"

definition backtest_refused :: "backtest_request \<Rightarrow> string list" where
  "backtest_refused r = refused
     [(''strategy'', validate_strategy (bq_strategy r) \<noteq> None),
      (''symbols'', validate_symbols (bq_symbols r) \<noteq> None),
      (''initial_cash'', 0 \<le> bq_initial_cash r), (''depth_levels'', 0 \<le> bq_depth_levels r),
      (''progress_interval'', 0 < bq_progress_interval r)]"

(* sim/api/models.py:50-75 BacktestRunRequest (validation) *)
definition make_backtest :: "error_text \<Rightarrow> backtest_request \<Rightarrow> backtest_request result" where
  "make_backtest et r =
     (if backtest_refused r = []
      then Inr (r\<lparr>bq_strategy := the (validate_strategy (bq_strategy r)),
                  bq_symbols := the (validate_symbols (bq_symbols r))\<rparr>)
      else Inl (ValueError (et ''BacktestRunRequest'' (backtest_refused r))))"

(* sim/api/models.py:50-59 BacktestRunRequest (model_dump) *)
definition dump_backtest :: "backtest_request \<Rightarrow> pydict" where
  "dump_backtest r =
     [(''priority'', PInt (bq_priority r)), (''strategy'', PStr (bq_strategy r)),
      (''symbols'', PList (map PStr (bq_symbols r))), (''initial_cash'', PInt (bq_initial_cash r)),
      (''depth_levels'', PInt (bq_depth_levels r)),
      (''progress_interval'', PInt (bq_progress_interval r)),
      (''stream_events'', PBool (bq_stream_events r)),
      (''stream_snapshots'', PBool (bq_stream_snapshots r))]"

section \<open>Tournaments\<close>

(* sim/api/models.py:11-11 TournamentType *)
datatype tournament_type =
  Strategy_vs_strategy | Strategy_vs_scenario | Parameter_sweep | Multi_symbol_sweep

fun tournament_type_str :: "tournament_type \<Rightarrow> string" where
  "tournament_type_str Strategy_vs_strategy = ''strategy_vs_strategy''"
| "tournament_type_str Strategy_vs_scenario = ''strategy_vs_scenario''"
| "tournament_type_str Parameter_sweep = ''parameter_sweep''"
| "tournament_type_str Multi_symbol_sweep = ''multi_symbol_sweep''"

text \<open>A parameter takes a list of integers, floats, strings or booleans.\<close>

type_synonym parameters = "(string \<times> pyval list) list"

(* sim/api/models.py:128-130 ParameterSweepConfig *)
record sweep_config =
  sw_strategy :: string
  sw_parameters :: parameters

(* sim/api/models.py:128-150 ParameterSweepConfig (validation) *)
definition make_sweep :: "error_text \<Rightarrow> sweep_config \<Rightarrow> sweep_config result" where
  "make_sweep et c =
     (let bad = refused [(''strategy'', validate_strategy (sw_strategy c) \<noteq> None),
                         (''parameters'', list_all (\<lambda>(key, values). strip key \<noteq> [] \<and> values \<noteq> []) (sw_parameters c))]
      in if bad = [] then Inr (c\<lparr>sw_strategy := the (validate_strategy (sw_strategy c))\<rparr>)
         else Inl (ValueError (et ''ParameterSweepConfig'' bad)))"

(* sim/api/models.py:153-166 TournamentConfig *)
record tournament_config =
  to_mode :: "execution_mode option"
  to_priority :: int
  to_tournament_type :: tournament_type
  to_strategies :: "string list"
  to_scenarios :: "string list"
  to_symbols :: "string list"
  to_seeds :: "int list"
  to_steps :: int
  to_initial_cash :: int
  to_participant_counts :: "int list"
  to_volatility_ranges :: "pyfloat list"
  to_strategy_parameters :: parameters
  to_parameter_sweep :: "sweep_config option"

(* sim/api/models.py:168-174 _validate_string_list *)
definition validate_string_list :: "string list \<Rightarrow> string list option" where
  "validate_string_list value =
     (let normalized = map strip value in if [] \<in> set normalized then None else Some normalized)"

(* sim/api/models.py:161-195 TournamentConfig (validators) *)
definition tournament_refused :: "tournament_config \<Rightarrow> string list" where
  "tournament_refused c = refused
     [(''strategies'', validate_string_list (to_strategies c) \<noteq> None),
      (''scenarios'', validate_string_list (to_scenarios c) \<noteq> None),
      (''symbols'', validate_string_list (to_symbols c) \<noteq> None),
      (''seeds'', to_seeds c \<noteq> []), (''steps'', 0 < to_steps c),
      (''initial_cash'', 0 \<le> to_initial_cash c),
      (''participant_counts'', to_participant_counts c \<noteq> [] \<and> list_all (\<lambda>n. 0 < n) (to_participant_counts c)),
      (''volatility_ranges'', to_volatility_ranges c \<noteq> [] \<and>
         list_all (\<lambda>v. \<not> float_lt v float_zero) (to_volatility_ranges c))]"

(* sim/api/models.py:153-195 TournamentConfig (validation) *)
definition make_tournament :: "error_text \<Rightarrow> tournament_config \<Rightarrow> tournament_config result" where
  "make_tournament et c =
     (if tournament_refused c = []
      then Inr (c\<lparr>to_strategies := the (validate_string_list (to_strategies c)),
                  to_scenarios := the (validate_string_list (to_scenarios c)),
                  to_symbols := the (validate_string_list (to_symbols c))\<rparr>)
      else Inl (ValueError (et ''TournamentConfig'' (tournament_refused c))))"

definition dump_parameters :: "parameters \<Rightarrow> pydict" where
  "dump_parameters ps = map (\<lambda>(k, vs). (k, PList vs)) ps"

(* sim/api/models.py:153-166 TournamentConfig (model_dump) *)
definition dump_tournament :: "tournament_config \<Rightarrow> pydict" where
  "dump_tournament c =
     [(''priority'', PInt (to_priority c)),
      (''tournament_type'', PStr (tournament_type_str (to_tournament_type c))),
      (''strategies'', PList (map PStr (to_strategies c))),
      (''scenarios'', PList (map PStr (to_scenarios c))),
      (''symbols'', PList (map PStr (to_symbols c))),
      (''seeds'', PList (map PInt (to_seeds c))), (''steps'', PInt (to_steps c)),
      (''initial_cash'', PInt (to_initial_cash c)),
      (''participant_counts'', PList (map PInt (to_participant_counts c))),
      (''volatility_ranges'', PList (map PFloat (to_volatility_ranges c))),
      (''strategy_parameters'', PDict (dump_parameters (to_strategy_parameters c))),
      (''parameter_sweep'', case to_parameter_sweep c of None \<Rightarrow> PNone
         | Some s \<Rightarrow> PDict [(''strategy'', PStr (sw_strategy s)),
             (''parameters'', PDict (dump_parameters (sw_parameters s)))])]"

section \<open>Lemmas\<close>

lemma refused_Nil: "refused checks = [] \<longleftrightarrow> (\<forall>(field, fine) \<in> set checks. fine)"
  by (auto simp: refused_def filter_empty_conv)

lemma validate_symbols_Some:
  "validate_symbols v = Some w \<longleftrightarrow> w = map strip v \<and> v \<noteq> [] \<and> [] \<notin> set w"
  by (auto simp: validate_symbols_def Let_def)

lemma validate_strategy_Some: "validate_strategy v = Some w \<longleftrightarrow> w = strip v \<and> w \<noteq> []"
  by (auto simp: validate_strategy_def Let_def)

lemma validate_string_list_Some: "validate_string_list v = Some w \<longleftrightarrow> w = map strip v \<and> [] \<notin> set w"
  by (auto simp: validate_string_list_def Let_def)

lemma strip_map_idem [simp]: "map (strip \<circ> strip) xs = map strip xs"
  by simp

lemma validate_again:
  "validate_symbols v = Some w \<Longrightarrow> validate_symbols w = Some w"
  "validate_strategy t = Some u \<Longrightarrow> validate_strategy u = Some u"
  "validate_string_list v = Some w \<Longrightarrow> validate_string_list w = Some w"
  by (auto simp: validate_symbols_Some validate_strategy_Some validate_string_list_Some)

end
