(* ===== verification/Py_Sort.thy ===== *)
theory Py_Sort
  imports Float_Order "HOL-Library.Multiset"
begin

text \<open>
  \<open>sorted(xs, key=.., reverse=True)\<close> over a comparison that need not be a linear order of the type
  (tuples of floats and strings). The sort is stable; reversing sorts the reversed list and reverses
  the outcome, as CPython does. The locale states what the comparison has to promise on the elements
  sorted; the lemmas in it are what the callers rely on.
\<close>

text \<open>Insertion after all elements that are not greater.\<close>

fun insert_by :: "('a \<Rightarrow> 'a \<Rightarrow> bool) \<Rightarrow> 'a \<Rightarrow> 'a list \<Rightarrow> 'a list" where
  "insert_by lt x [] = [x]"
| "insert_by lt x (y # ys) = (if lt x y then x # y # ys else y # insert_by lt x ys)"

definition py_sorted :: "('a \<Rightarrow> 'a \<Rightarrow> bool) \<Rightarrow> 'a list \<Rightarrow> 'a list" where
  "py_sorted lt xs = foldl (\<lambda>acc x. insert_by lt x acc) [] xs"

definition py_sorted_reverse :: "('a \<Rightarrow> 'a \<Rightarrow> bool) \<Rightarrow> 'a list \<Rightarrow> 'a list" where
  "py_sorted_reverse lt xs = rev (py_sorted lt (rev xs))"

lemma mset_insert_by [simp]: "mset (insert_by lt x ys) = add_mset x (mset ys)"
  by (induction ys) auto

lemma mset_py_sorted [simp]: "mset (py_sorted lt xs) = mset xs"
proof -
  have "mset (foldl (\<lambda>acc x. insert_by lt x acc) acc xs) = mset acc + mset xs" for acc
    by (induction xs arbitrary: acc) auto
  then show ?thesis by (simp add: py_sorted_def)
qed

lemma mset_py_sorted_reverse [simp]: "mset (py_sorted_reverse lt xs) = mset xs"
  by (simp add: py_sorted_reverse_def)

lemma set_py_sorted_reverse [simp]: "set (py_sorted_reverse lt xs) = set xs"
  by (metis mset_py_sorted_reverse set_mset_mset)

lemma length_py_sorted_reverse [simp]: "length (py_sorted_reverse lt xs) = length xs"
  by (metis mset_py_sorted_reverse size_mset)

locale weak_order =
  fixes lt :: "'a \<Rightarrow> 'a \<Rightarrow> bool" and dom :: "'a set"
  assumes asym: "x \<in> dom \<Longrightarrow> y \<in> dom \<Longrightarrow> lt x y \<Longrightarrow> \<not> lt y x"
    and not_less_trans: "x \<in> dom \<Longrightarrow> y \<in> dom \<Longrightarrow> z \<in> dom \<Longrightarrow> \<not> lt x y \<Longrightarrow> \<not> lt y z \<Longrightarrow> \<not> lt x z"
begin

lemma sorted_insert_by:
  assumes "sorted_wrt (\<lambda>a b. \<not> lt b a) ys" and "insert x (set ys) \<subseteq> dom"
  shows "sorted_wrt (\<lambda>a b. \<not> lt b a) (insert_by lt x ys)"
  using assms
proof (induction ys)
  case (Cons y ys)
  show ?case
  proof (cases "lt x y")
    case True
    then have "\<not> lt y x" using Cons.prems(2) asym by simp
    moreover have "\<not> lt z x" if "z \<in> set ys" for z
      using that Cons.prems \<open>\<not> lt y x\<close> not_less_trans [of z y x] by auto
    ultimately show ?thesis using True Cons.prems by simp
  next
    case False
    have "set (insert_by lt x ys) = insert x (set ys)"
      by (metis mset_insert_by set_mset_add_mset_insert set_mset_mset)
    with False Cons show ?thesis by simp
  qed
qed simp

lemma sorted_py_sorted:
  assumes "set xs \<subseteq> dom"
  shows "sorted_wrt (\<lambda>a b. \<not> lt b a) (py_sorted lt xs)"
proof -
  have "set xs \<subseteq> dom \<Longrightarrow> set acc \<subseteq> dom \<Longrightarrow> sorted_wrt (\<lambda>a b. \<not> lt b a) acc \<Longrightarrow>
      sorted_wrt (\<lambda>a b. \<not> lt b a) (foldl (\<lambda>acc x. insert_by lt x acc) acc xs)" for acc
  proof (induction xs arbitrary: acc)
    case (Cons x xs)
    have "set (insert_by lt x acc) = insert x (set acc)"
      by (metis mset_insert_by set_mset_add_mset_insert set_mset_mset)
    with Cons show ?case by (simp add: sorted_insert_by)
  qed simp
  with assms show ?thesis by (simp add: py_sorted_def)
qed

lemma sorted_reverse:
  assumes "set xs \<subseteq> dom"
  shows "sorted_wrt (\<lambda>a b. \<not> lt a b) (py_sorted_reverse lt xs)"
  using sorted_py_sorted [of "rev xs"] assms by (simp add: py_sorted_reverse_def sorted_wrt_rev)

end

end
