(* ===== verification/Tournament_Expansion.thy ===== *)
theory Tournament_Expansion
  imports Api_Requests Py_Sort
begin

text \<open>
  Expansion of a tournament into its child runs, the first half of \<open>sim/api/tournaments.py\<close>. The
  lemmas count the children, show that they come sorted by their keys, and that the configuration of a
  backtest child depends on strategy and symbols only.
\<close>

section \<open>Keys\<close>

(* sim/api/tournaments.py:13-20 ChildRunSpec *)
record child_run_spec =
  sp_child_key :: string
  sp_run_type :: run_type
  sp_config :: pydict
  sp_dimensions :: pydict

(* sim/api/tournaments.py:297-300 _require *)
definition require_values :: "'a list \<Rightarrow> string \<Rightarrow> 'a list result" where
  "require_values values label =
     (if values = [] then Inl (ValueError (label @ '' must contain at least one value'')) else Inr values)"

(* sim/api/tournaments.py:304-310 _key (value) *)
fun render_part :: "pyval \<Rightarrow> string" where
  "render_part (PDict d) =
     (let text = join '','' (map (\<lambda>(k, v). k @ ''='' @ py_str v) (sort_key fst d))
      in if text = [] then ''none'' else text)"
| "render_part (PList xs) = join ''+'' (map py_str xs)"
| "render_part v = py_str v"

(* sim/api/tournaments.py:303-314 _key *)
definition tournament_key :: "(string \<times> pyval) list \<Rightarrow> string" where
  "tournament_key parts =
     join ''|'' (map (\<lambda>(key, value). key @ ''='' @ render_part value) (sort_key fst parts))"

text \<open>\<open>itertools.product\<close> of two and of several lists, the last factor running fastest.\<close>

definition product2 :: "'a list \<Rightarrow> 'b list \<Rightarrow> ('a \<times> 'b) list" where
  "product2 xs ys = concat (map (\<lambda>x. map (Pair x) ys) xs)"

fun product_all :: "'a list list \<Rightarrow> 'a list list" where
  "product_all [] = [[]]"
| "product_all (xs # xss) = concat (map (\<lambda>x. map ((#) x) (product_all xss)) xs)"

lemma length_product2 [simp]: "length (product2 xs ys) = length xs * length ys"
  by (induction xs) (simp_all add: product2_def)

lemma set_product2: "set (product2 xs ys) = set xs \<times> set ys"
  by (auto simp: product2_def)

section \<open>Child runs\<close>

text \<open>The child run of one combination of a tournament over backtests.\<close>

definition backtest_spec ::
  "error_text \<Rightarrow> tournament_config \<Rightarrow> string \<Rightarrow> string list \<Rightarrow> string \<Rightarrow> pydict \<Rightarrow> child_run_spec result" where
  "backtest_spec et config strategy symbols key dimensions =
     bind_r (make_backtest et ((default_backtest strategy)\<lparr>bq_symbols := symbols,
               bq_initial_cash := to_initial_cash config\<rparr>)) (\<lambda>request.
       Inr \<lparr>sp_child_key = key, sp_run_type = Backtest, sp_config = dump_backtest request,
            sp_dimensions = dimensions\<rparr>)"

(* sim/api/tournaments.py:104-124 _strategy_backtests *)
definition strategy_backtests ::
  "error_text \<Rightarrow> tournament_config \<Rightarrow> bool \<Rightarrow> child_run_spec list result" where
  "strategy_backtests et config include_parameters =
     bind_r (require_values (to_strategies config) ''strategies'') (\<lambda>strategies.
     bind_r (require_values (to_symbols config) ''symbols'') (\<lambda>symbols.
       map_r (\<lambda>(strategy, seed).
         let params = (if include_parameters then dump_parameters (to_strategy_parameters config) else []);
             key = tournament_key [(''strategy'', PStr strategy), (''seed'', PInt seed),
                     (''symbols'', PList (map PStr symbols)), (''parameters'', PDict params)]
         in backtest_spec et config strategy symbols key
              [(''strategy'', PStr strategy), (''seed'', PInt seed),
               (''symbols'', PList (map PStr symbols)), (''parameters'', PDict params)])
         (product2 strategies (to_seeds config))))"

(* sim/api/tournaments.py:131-159 _scenario_sessions (loop) *)
definition scenario_spec ::
  "error_text \<Rightarrow> tournament_config \<Rightarrow> string list \<Rightarrow> string \<times> string \<times> int \<times> int \<times> pyfloat
   \<Rightarrow> child_run_spec result" where
  "scenario_spec et config symbols combination =
     (case combination of (strategy, scenario, seed, participants, volatility) \<Rightarrow>
        let key = tournament_key [(''strategy'', PStr strategy), (''scenario'', PStr scenario),
                    (''seed'', PInt seed), (''participants'', PInt participants),
                    (''volatility'', PFloat volatility)]
        in bind_r (make_session et (default_session\<lparr>se_scenario := scenario, se_steps := to_steps config,
                     se_symbols := symbols, se_seed := seed, se_volatility := volatility,
                     se_participants := participants, se_initial_cash := to_initial_cash config\<rparr>))
             (\<lambda>request. Inr \<lparr>sp_child_key = key, sp_run_type = Session, sp_config = dump_session request,
                sp_dimensions = [(''strategy'', PStr strategy), (''scenario'', PStr scenario),
                  (''seed'', PInt seed), (''symbols'', PList (map PStr symbols)),
                  (''participants'', PInt participants), (''volatility'', PFloat volatility)]\<rparr>))"

(* sim/api/tournaments.py:127-160 _scenario_sessions *)
definition scenario_sessions :: "error_text \<Rightarrow> tournament_config \<Rightarrow> child_run_spec list result" where
  "scenario_sessions et config =
     bind_r (require_values (to_scenarios config) ''scenarios'') (\<lambda>scenarios.
     bind_r (require_values (to_symbols config) ''symbols'') (\<lambda>symbols.
       let strategies = (if to_strategies config = [] then [''session_participants''] else to_strategies config)
       in map_r (scenario_spec et config symbols)
         (product2 strategies (product2 scenarios (product2 (to_seeds config)
           (product2 (to_participant_counts config) (to_volatility_ranges config)))))))"

(* sim/api/tournaments.py:212-216 _parameter_combinations *)
definition parameter_combinations :: "parameters \<Rightarrow> pydict list" where
  "parameter_combinations ps =
     (if ps = [] then [[]]
      else let sorted_ps = sort_key fst ps
           in map (\<lambda>values. zip (map fst sorted_ps) values) (product_all (map snd sorted_ps)))"

(* sim/api/tournaments.py:163-185 _parameter_sweep *)
definition parameter_sweep :: "error_text \<Rightarrow> tournament_config \<Rightarrow> child_run_spec list result" where
  "parameter_sweep et config =
     bind_r (case to_parameter_sweep config of
               Some sweep \<Rightarrow> Inr (sw_strategy sweep)
             | None \<Rightarrow> bind_r (require_values (to_strategies config) ''strategies'') (\<lambda>ss. Inr (hd ss)))
     (\<lambda>strategy.
     let ps = (case to_parameter_sweep config of
                 Some sweep \<Rightarrow> sw_parameters sweep | None \<Rightarrow> to_strategy_parameters config);
         combos = parameter_combinations ps
     in bind_r (require_values (to_symbols config) ''symbols'') (\<lambda>symbols.
       map_r (\<lambda>(seed, params).
         let key = tournament_key [(''strategy'', PStr strategy), (''seed'', PInt seed),
                     (''symbols'', PList (map PStr symbols)), (''parameters'', PDict params)]
         in backtest_spec et config strategy symbols key
              [(''strategy'', PStr strategy), (''seed'', PInt seed),
               (''symbols'', PList (map PStr symbols)), (''parameters'', PDict params)])
         (product2 (to_seeds config) combos)))"

(* sim/api/tournaments.py:188-209 _multi_symbol_sweep *)
definition multi_symbol_sweep :: "error_text \<Rightarrow> tournament_config \<Rightarrow> child_run_spec list result" where
  "multi_symbol_sweep et config =
     bind_r (require_values (to_strategies config) ''strategies'') (\<lambda>strategies.
     bind_r (require_values (to_symbols config) ''symbols'') (\<lambda>all_symbols.
       let symbol_sets = map (\<lambda>s. [s]) all_symbols
             @ (if 1 < length (to_symbols config) then [to_symbols config] else [])
       in map_r (\<lambda>(strategy, symbols, seed).
         let key = tournament_key [(''strategy'', PStr strategy), (''symbols'', PList (map PStr symbols)),
                     (''seed'', PInt seed)]
         in backtest_spec et config strategy symbols key
              [(''strategy'', PStr strategy), (''seed'', PInt seed),
               (''symbols'', PList (map PStr symbols))])
         (product2 strategies (product2 symbol_sets (to_seeds config)))))"

text \<open>The branches before the sort.\<close>

fun child_specs :: "error_text \<Rightarrow> tournament_config \<Rightarrow> tournament_type \<Rightarrow> child_run_spec list result" where
  "child_specs et config Strategy_vs_strategy = strategy_backtests et config False"
| "child_specs et config Strategy_vs_scenario = scenario_sessions et config"
| "child_specs et config Parameter_sweep = parameter_sweep et config"
| "child_specs et config Multi_symbol_sweep = multi_symbol_sweep et config"

(* sim/api/tournaments.py:23-37 expand_tournament *)
definition expand_tournament :: "error_text \<Rightarrow> tournament_config \<Rightarrow> child_run_spec list result" where
  "expand_tournament et config =
     bind_r (child_specs et config (to_tournament_type config)) (\<lambda>specs.
       Inr (sort_key sp_child_key specs))"

section \<open>What the children are\<close>

text \<open>A configuration the model of the request accepted: stripped, non-empty names, positive counts.\<close>

definition accepted_config :: "tournament_config \<Rightarrow> bool" where
  "accepted_config c \<longleftrightarrow> tournament_refused c = [] \<and>
     validate_string_list (to_strategies c) = Some (to_strategies c) \<and>
     validate_string_list (to_scenarios c) = Some (to_scenarios c) \<and>
     validate_string_list (to_symbols c) = Some (to_symbols c) \<and>
     (\<forall>s. to_parameter_sweep c = Some s \<longrightarrow> validate_strategy (sw_strategy s) = Some (sw_strategy s))"

lemma make_tournament_accepted:
  assumes "make_tournament et c = Inr c'"
    and "\<And>s. to_parameter_sweep c = Some s \<Longrightarrow> \<exists>s0. make_sweep et s0 = Inr s"
  shows "accepted_config c'"
proof -
  from assms(1) have ok: "tournament_refused c = []" and c': "c' = c\<lparr>to_strategies := the (validate_string_list (to_strategies c)),
                  to_scenarios := the (validate_string_list (to_scenarios c)),
                  to_symbols := the (validate_string_list (to_symbols c))\<rparr>"
    by (auto simp: make_tournament_def split: if_splits)
  from ok obtain ss sc sy where v: "validate_string_list (to_strategies c) = Some ss"
    "validate_string_list (to_scenarios c) = Some sc" "validate_string_list (to_symbols c) = Some sy"
    by (auto simp: tournament_refused_def refused_Nil)
  note v' = validate_again(3) [OF v(1)] validate_again(3) [OF v(2)] validate_again(3) [OF v(3)]
  have "tournament_refused c' = []"
    using ok v v' by (simp add: tournament_refused_def refused_Nil c')
  moreover have "validate_strategy (sw_strategy s) = Some (sw_strategy s)"
    if "to_parameter_sweep c = Some s" for s
  proof -
    from assms(2) [OF that] obtain s0 where "make_sweep et s0 = Inr s" by blast
    then obtain t where "validate_strategy (sw_strategy s0) = Some t" "sw_strategy s = t"
      by (auto simp: make_sweep_def Let_def refused_Nil split: if_splits)
    then show ?thesis using validate_again(2) by simp
  qed
  ultimately show ?thesis using v v' by (simp add: accepted_config_def c')
qed

lemma accepted_names:
  assumes "accepted_config c"
  shows "s \<in> set (to_strategies c) \<Longrightarrow> validate_strategy s = Some s"
    and "set symbols \<subseteq> set (to_symbols c) \<Longrightarrow> symbols \<noteq> [] \<Longrightarrow> validate_symbols symbols = Some symbols"
proof -
  have fix_each: "strip x = x \<and> x \<noteq> []" if "validate_string_list xs = Some xs" "x \<in> set xs" for x xs
  proof -
    have eq: "map strip xs = map id xs" and "[] \<notin> set xs"
      using that(1) by (auto simp: validate_string_list_Some)
    with that(2) show ?thesis by (auto simp only: map_eq_conv id_apply)
  qed
  show "validate_strategy s = Some s" if "s \<in> set (to_strategies c)"
    using fix_each [OF _ that] assms by (simp add: accepted_config_def validate_strategy_Some)
  show "validate_symbols symbols = Some symbols" if "set symbols \<subseteq> set (to_symbols c)" "symbols \<noteq> []"
  proof -
    have "strip x = x \<and> x \<noteq> []" if "x \<in> set symbols" for x
      using fix_each [of "to_symbols c" x] that \<open>set symbols \<subseteq> _\<close> assms by (auto simp: accepted_config_def)
    then have "map strip symbols = symbols" "[] \<notin> set symbols" by (auto simp: map_idI)
    with that(2) show ?thesis by (simp add: validate_symbols_Some)
  qed
qed

lemma backtest_accepts:
  assumes "accepted_config c" and "validate_strategy strategy = Some strategy"
    and "symbols \<noteq> []" "set symbols \<subseteq> set (to_symbols c)"
  shows "\<exists>s. backtest_spec et c strategy symbols key dims = Inr s"
proof -
  have "0 \<le> to_initial_cash c"
    using assms(1) by (auto simp: accepted_config_def tournament_refused_def refused_Nil)
  then show ?thesis
    using accepted_names(2) [OF assms(1,4,3)] assms(2)
    by (simp add: backtest_spec_def make_backtest_def backtest_refused_def refused_Nil default_backtest_def)
qed

lemma expand_sorted:
  assumes "expand_tournament et c = Inr specs"
  shows "sorted (map sp_child_key specs)"
  using assms by (auto simp: expand_tournament_def bind_r_Inr_iff)

lemma length_expand:
  assumes "expand_tournament et c = Inr specs"
  obtains raw where "child_specs et c (to_tournament_type c) = Inr raw" "specs = sort_key sp_child_key raw"
    "length raw = length specs"
  using assms by (auto simp: expand_tournament_def bind_r_Inr_iff)

text \<open>The configurations of the children of a sweep do not depend on seed or parameters.\<close>

lemma backtest_spec_config:
  "backtest_spec et c strategy symbols key dims = Inr s \<Longrightarrow>
    backtest_spec et c strategy symbols key' dims' = Inr s' \<Longrightarrow> sp_config s = sp_config s'"
  by (auto simp: backtest_spec_def bind_r_Inr_iff)

lemma sweep_same_config:
  assumes "parameter_sweep et c = Inr specs" and "s \<in> set specs" and "s' \<in> set specs"
  shows "sp_config s = sp_config s'"
proof -
  from assms(1) obtain strategy symbols where
    all: "map_r (\<lambda>(seed, params). backtest_spec et c strategy symbols
         (tournament_key [(''strategy'', PStr strategy), (''seed'', PInt seed),
                     (''symbols'', PList (map PStr symbols)), (''parameters'', PDict params)])
         [(''strategy'', PStr strategy), (''seed'', PInt seed),
               (''symbols'', PList (map PStr symbols)), (''parameters'', PDict params)])
       (product2 (to_seeds c) (parameter_combinations (case to_parameter_sweep c of
                 Some sweep \<Rightarrow> sw_parameters sweep | None \<Rightarrow> to_strategy_parameters c))) = Inr specs"
    by (auto simp: parameter_sweep_def bind_r_Inr_iff Let_def)
  from map_r_members [OF all assms(2)] map_r_members [OF all assms(3)]
  show ?thesis by (auto intro: backtest_spec_config)
qed

lemma sweep_all_backtests:
  assumes "parameter_sweep et c = Inr specs" and "s \<in> set specs"
  shows "sp_run_type s = Backtest"
  using assms by (auto simp: parameter_sweep_def bind_r_Inr_iff Let_def backtest_spec_def
      dest!: map_r_members)

text \<open>Every accepted configuration with the lists its type needs expands, to as many children as there
  are combinations.\<close>

fun child_count :: "tournament_config \<Rightarrow> tournament_type \<Rightarrow> nat" where
  "child_count c Strategy_vs_strategy = length (to_strategies c) * length (to_seeds c)"
| "child_count c Strategy_vs_scenario = max 1 (length (to_strategies c)) * (length (to_scenarios c) *
     (length (to_seeds c) * (length (to_participant_counts c) * length (to_volatility_ranges c))))"
| "child_count c Parameter_sweep = length (to_seeds c) * length (parameter_combinations
     (case to_parameter_sweep c of Some s \<Rightarrow> sw_parameters s | None \<Rightarrow> to_strategy_parameters c))"
| "child_count c Multi_symbol_sweep = length (to_strategies c) * ((length (to_symbols c) +
     (if 1 < length (to_symbols c) then 1 else 0)) * length (to_seeds c))"

fun lists_given :: "tournament_config \<Rightarrow> tournament_type \<Rightarrow> bool" where
  "lists_given c Strategy_vs_scenario \<longleftrightarrow> to_scenarios c \<noteq> [] \<and> NaN \<notin> set (to_volatility_ranges c)"
| "lists_given c Parameter_sweep \<longleftrightarrow> to_parameter_sweep c \<noteq> None \<or> to_strategies c \<noteq> []"
| "lists_given c _ \<longleftrightarrow> to_strategies c \<noteq> []"

lemma session_accepts:
  assumes "accepted_config c" and "to_symbols c \<noteq> []" and "n \<in> set (to_participant_counts c)"
    and "v \<in> set (to_volatility_ranges c)" and "v \<noteq> NaN"
  shows "\<exists>s. scenario_spec et c (to_symbols c) (strategy, scenario, seed, n, v) = Inr s"
proof -
  have "\<exists>r. make_session et (default_session\<lparr>se_scenario := scenario, se_steps := to_steps c,
      se_symbols := to_symbols c, se_seed := seed, se_volatility := v, se_participants := n,
      se_initial_cash := to_initial_cash c\<rparr>) = Inr r"
    using assms accepted_names(2) [OF assms(1), of "to_symbols c"]
    by (auto simp: make_session_def session_refused_def refused_Nil default_session_def
        accepted_config_def tournament_refused_def list_all_iff)
  then show ?thesis by (auto simp: scenario_spec_def Let_def)
qed

lemma child_specs_total:
  assumes "accepted_config c" and "to_symbols c \<noteq> []" and "lists_given c ty"
  shows "\<exists>specs. child_specs et c ty = Inr specs \<and> length specs = child_count c ty"
proof (cases ty)
  case Strategy_vs_strategy
  have "\<exists>ys. map_r f (product2 (to_strategies c) (to_seeds c)) = Inr ys \<and>
      length ys = child_count c ty"
    if "\<And>s n. s \<in> set (to_strategies c) \<Longrightarrow> \<exists>y. f (s, n) = Inr y" for f :: "_ \<Rightarrow> child_run_spec result"
    using map_r_total [of "product2 (to_strategies c) (to_seeds c)" f] that
    by (auto simp: set_product2 Strategy_vs_strategy)
  then show ?thesis
    using assms accepted_names(1) [OF assms(1)] backtest_accepts [OF assms(1)] Strategy_vs_strategy
    by (simp add: strategy_backtests_def require_values_def)
next
  case Strategy_vs_scenario
  let ?strategies = "if to_strategies c = [] then [''session_participants''] else to_strategies c"
  let ?xs = "product2 ?strategies (product2 (to_scenarios c) (product2 (to_seeds c)
           (product2 (to_participant_counts c) (to_volatility_ranges c))))"
  have n: "length ?xs = child_count c ty"
    by (simp add: Strategy_vs_scenario max_def) (cases "to_strategies c"; simp)
  have "\<exists>ys. map_r (scenario_spec et c (to_symbols c)) ?xs = Inr ys \<and> length ys = length ?xs"
  proof (rule map_r_total)
    fix x
    assume "x \<in> set ?xs"
    then obtain a b d n v where x: "x = (a, b, d, n, v)" and "n \<in> set (to_participant_counts c)"
      "v \<in> set (to_volatility_ranges c)" by (auto simp: set_product2)
    moreover from this have "v \<noteq> NaN" using assms(3) Strategy_vs_scenario by auto
    ultimately show "\<exists>y. scenario_spec et c (to_symbols c) x = Inr y"
      using session_accepts [OF assms(1,2)] by blast
  qed
  moreover have "child_specs et c ty = map_r (scenario_spec et c (to_symbols c)) ?xs"
    using assms(2,3) Strategy_vs_scenario
    by (simp only: child_specs.simps scenario_sessions_def require_values_def lists_given.simps if_False
        bind_r_simps Let_def)
  ultimately show ?thesis by (simp only: n)
next
  case Parameter_sweep
  let ?ps = "case to_parameter_sweep c of Some s \<Rightarrow> sw_parameters s | None \<Rightarrow> to_strategy_parameters c"
  obtain strategy where st: "(case to_parameter_sweep c of
               Some sweep \<Rightarrow> Inr (sw_strategy sweep)
             | None \<Rightarrow> bind_r (require_values (to_strategies c) ''strategies'') (\<lambda>ss. Inr (hd ss))) = Inr strategy"
    "validate_strategy strategy = Some strategy"
    using assms accepted_names(1) [OF assms(1), of "hd (to_strategies c)"] Parameter_sweep
    by (cases "to_parameter_sweep c") (auto simp: accepted_config_def require_values_def)
  have "\<exists>ys. map_r f (product2 (to_seeds c) (parameter_combinations ?ps)) = Inr ys \<and>
      length ys = child_count c ty"
    if "\<And>x. \<exists>y. f x = Inr y" for f :: "_ \<Rightarrow> child_run_spec result"
    using map_r_total [of "product2 (to_seeds c) (parameter_combinations ?ps)" f] that Parameter_sweep by simp
  then show ?thesis
    using assms(2) backtest_accepts [OF assms(1) st(2)] Parameter_sweep
    by (simp add: parameter_sweep_def require_values_def st(1) Let_def split_def)
next
  case Multi_symbol_sweep
  let ?sets = "map (\<lambda>s. [s]) (to_symbols c) @ (if 1 < length (to_symbols c) then [to_symbols c] else [])"
  let ?xs = "product2 (to_strategies c) (product2 ?sets (to_seeds c))"
  have n: "length ?xs = child_count c ty" by (simp add: Multi_symbol_sweep)
  have "\<exists>ys. map_r f ?xs = Inr ys \<and> length ys = child_count c ty"
    if "\<And>s sy d. s \<in> set (to_strategies c) \<Longrightarrow> sy \<noteq> [] \<Longrightarrow> set sy \<subseteq> set (to_symbols c) \<Longrightarrow>
        \<exists>y. f (s, sy, d) = Inr y" for f :: "_ \<Rightarrow> child_run_spec result"
  proof -
    have sets: "sy \<noteq> [] \<and> set sy \<subseteq> set (to_symbols c)" if "sy \<in> set ?sets" for sy
      using that assms(2) by (auto split: if_splits)
    have "\<exists>ys. map_r f ?xs = Inr ys \<and> length ys = length ?xs"
    proof (rule map_r_total)
      fix x
      assume "x \<in> set ?xs"
      then obtain s sy d where "x = (s, sy, d)" "s \<in> set (to_strategies c)" "sy \<in> set ?sets"
        unfolding set_product2 by blast
      then show "\<exists>y. f x = Inr y" using that sets by blast
    qed
    then show ?thesis by (simp only: n)
  qed
  then show ?thesis
    using assms(2,3) accepted_names(1) [OF assms(1)] backtest_accepts [OF assms(1)] Multi_symbol_sweep
    by (simp add: multi_symbol_sweep_def require_values_def Let_def)
qed

end
