(* ===== verification/Tournament_Report.thy ===== *)
theory Tournament_Report
  imports Run_Store Py_Text Py_Sort
begin

text \<open>
  Aggregation of child runs into a ranked report, the second half of \<open>sim/api/tournaments.py\<close>. The
  power function of floats (\<open>**\<close>, the C library's \<open>pow\<close>) is a parameter; \<open>sum\<close> adds from left to
  right. The last section proves what a report says of the children and how it ranks them.
\<close>

section \<open>Metrics\<close>

text \<open>\<open>x ** y\<close> on floats, which may raise \<open>OverflowError\<close>.\<close>

type_synonym power_fun = "pyfloat \<Rightarrow> pyfloat \<Rightarrow> pyfloat result"

text \<open>\<open>isinstance(value, (int, float)) and not isinstance(value, bool)\<close>, converted.\<close>

definition as_number :: "pyval \<Rightarrow> pyfloat option result" where
  "as_number v = (case v of
      PInt i \<Rightarrow> bind_r (int_to_float i) (\<lambda>f. Inr (Some f))
    | PFloat f \<Rightarrow> Inr (Some f)
    | _ \<Rightarrow> Inr None)"

(* sim/api/tournaments.py:293-294 _number *)
definition number_or :: "pyval \<Rightarrow> pyfloat \<Rightarrow> pyfloat result" where
  "number_or value fallback =
     bind_r (as_number value) (\<lambda>n. Inr (case n of None \<Rightarrow> fallback | Some f \<Rightarrow> f))"

(* sim/api/tournaments.py:258-267 _max_drawdown *)
fun drawdown_loop :: "pyfloat \<Rightarrow> pyfloat \<Rightarrow> pyval list \<Rightarrow> pyfloat result" where
  "drawdown_loop peak drawdown [] = Inr drawdown"
| "drawdown_loop peak drawdown (item # items) =
     bind_r (number_or item peak) (\<lambda>value.
       let peak' = float_max peak value
       in drawdown_loop peak' (float_max drawdown (float_sub peak' value)) items)"

(* sim/api/tournaments.py:258-267 _max_drawdown *)
definition max_drawdown :: "pyval \<Rightarrow> pyfloat result" where
  "max_drawdown curve =
     (case list_value curve of
        Some (x # xs) \<Rightarrow> bind_r (number_or x float_zero) (\<lambda>peak. drawdown_loop peak float_zero (x # xs))
      | _ \<Rightarrow> Inr float_zero)"

text \<open>\<open>sum(xs)\<close>: an empty sum is the integer zero; \<open>sum(xs) / len(xs)\<close> of a non-empty list.\<close>

definition sum_floats :: "pyfloat list \<Rightarrow> pyfloat" where
  "sum_floats xs = py_sum xs"

definition sum_value :: "pyfloat list \<Rightarrow> pyval" where
  "sum_value xs = (if xs = [] then PInt 0 else PFloat (sum_floats xs))"

definition mean_floats :: "pyfloat list \<Rightarrow> pyfloat" where
  "mean_floats xs = float_div_nat (sum_floats xs) (length xs)"

text \<open>The loop over consecutive pairs of the curve.\<close>

(* sim/api/tournaments.py:273-278 _stability (returns) *)
fun curve_returns :: "pyval list \<Rightarrow> pyfloat list result" where
  "curve_returns (before # after # rest) =
     bind_r (number_or before float_zero) (\<lambda>base.
     bind_r (if base = float_zero then Inr []
             else bind_r (number_or after base) (\<lambda>a.
                  bind_r (float_div (float_sub a base) (float_abs base)) (\<lambda>q. Inr [q]))) (\<lambda>here.
     bind_r (curve_returns (after # rest)) (\<lambda>more. Inr (here @ more))))"
| "curve_returns _ = Inr []"

(* sim/api/tournaments.py:270-282 _stability *)
definition stability :: "power_fun \<Rightarrow> pyval \<Rightarrow> pyfloat result" where
  "stability pow curve =
     (case list_value curve of
        None \<Rightarrow> Inr float_zero
      | Some xs \<Rightarrow>
          if length xs < 2 then Inr float_zero
          else
            bind_r (curve_returns xs) (\<lambda>returns.
              if returns = [] then Inr float_zero
              else
                let average = mean_floats returns
                in bind_r (map_r (\<lambda>item. pow (float_sub item average) (float_of_int 2)) returns) (\<lambda>squares.
                   let variance = mean_floats squares
                   in if float_lt float_zero variance
                      then bind_r (pow variance (Fin 1 (- 1))) (\<lambda>root. float_div average root)
                      else Inr average)))"

(* sim/api/tournaments.py:285-286 _sum_mapping *)
definition sum_mapping :: "pyval \<Rightarrow> pyval result" where
  "sum_mapping value =
     (case dict_value value of
        None \<Rightarrow> Inr (PFloat float_zero)
      | Some d \<Rightarrow> bind_r (map_r (\<lambda>(k, v). number_or v float_zero) d) (\<lambda>fs. Inr (sum_value fs)))"

(* sim/api/tournaments.py:289-290 _sum_abs_mapping *)
definition sum_abs_mapping :: "pyval \<Rightarrow> pyval result" where
  "sum_abs_mapping value =
     (case dict_value value of
        None \<Rightarrow> Inr (PFloat float_zero)
      | Some d \<Rightarrow> bind_r (map_r (\<lambda>(k, v). bind_r (number_or v float_zero) (\<lambda>f. Inr (float_abs f))) d)
                   (\<lambda>fs. Inr (sum_value fs)))"

text \<open>The metrics of one run; \<open>total_volume\<close> may be the integer zero of an empty sum.\<close>

record metrics =
  mx_ending_equity :: pyfloat
  mx_total_pnl :: pyfloat
  mx_return_stability :: pyfloat
  mx_max_drawdown :: pyfloat
  mx_total_volume :: pyval
  mx_fill_ratio :: pyfloat
  mx_rejection_rate :: pyfloat
  mx_exposure :: pyval
  mx_score :: pyfloat

text \<open>\<open>ending + total_pnl + (stability * 1000.0) - drawdown - (rejection_rate * 100.0)\<close>.\<close>

definition score_of :: "pyfloat \<Rightarrow> pyfloat \<Rightarrow> pyfloat \<Rightarrow> pyfloat \<Rightarrow> pyfloat \<Rightarrow> pyfloat" where
  "score_of ending total_pnl stab drawdown rate =
     float_sub (float_sub (float_add (float_add ending total_pnl) (float_mul stab (float_of_int 1000)))
       drawdown) (float_mul rate (float_of_int 100))"

(* sim/api/tournaments.py:219-242 _metrics *)
definition run_metrics :: "power_fun \<Rightarrow> pydict \<Rightarrow> pydict \<Rightarrow> metrics result" where
  "run_metrics pow report config =
     bind_r (number_or (dget config ''initial_cash'') float_zero) (\<lambda>cash.
     bind_r (number_or (dget report ''starting_equity'') cash) (\<lambda>starting.
     bind_r (number_or (dget report ''final_equity'') starting) (\<lambda>final.
     bind_r (number_or (dget report ''ending_equity'') final) (\<lambda>ending.
     bind_r (number_or (dget report ''total_pnl'') (float_sub ending starting)) (\<lambda>total_pnl.
     bind_r (sum_mapping (dget report ''per_symbol_volume'')) (\<lambda>volumes.
     bind_r (as_number (dget report ''total_volume'')) (\<lambda>volume.
     bind_r (number_or (dget report ''total_orders'') float_zero) (\<lambda>total_orders.
     bind_r (number_or (dget report ''total_rejections'') float_zero) (\<lambda>rejections.
     bind_r (number_or (dget report ''rejected_orders'') rejections) (\<lambda>rejected.
     bind_r (number_or (dget report ''fill_ratio'') float_zero) (\<lambda>fill_ratio.
     bind_r (if float_lt float_zero total_orders then float_div rejected total_orders
             else Inr float_zero) (\<lambda>rate.
     bind_r (sum_abs_mapping (py_or (dget report ''per_symbol_position'') (dget report ''final_positions'')))
       (\<lambda>exposure.
     bind_r (max_drawdown (dget report ''equity_curve'')) (\<lambda>drawdown.
     bind_r (stability pow (dget report ''equity_curve'')) (\<lambda>stab.
       Inr \<lparr>mx_ending_equity = ending, mx_total_pnl = total_pnl, mx_return_stability = stab,
            mx_max_drawdown = drawdown,
            mx_total_volume = (case volume of None \<Rightarrow> volumes | Some f \<Rightarrow> PFloat f),
            mx_fill_ratio = fill_ratio, mx_rejection_rate = rate, mx_exposure = exposure,
            mx_score = score_of ending total_pnl stab drawdown rate\<rparr>)))))))))))))))"

(* sim/api/tournaments.py:232-242 _metrics (result) *)
definition metrics_dict :: "metrics \<Rightarrow> pydict" where
  "metrics_dict m =
     [(''ending_equity'', PFloat (mx_ending_equity m)), (''total_pnl'', PFloat (mx_total_pnl m)),
      (''return_stability'', PFloat (mx_return_stability m)),
      (''max_drawdown'', PFloat (mx_max_drawdown m)), (''total_volume'', mx_total_volume m),
      (''fill_ratio'', PFloat (mx_fill_ratio m)), (''rejection_rate'', PFloat (mx_rejection_rate m)),
      (''final_position_exposure'', mx_exposure m), (''score'', PFloat (mx_score m))]"

section \<open>The report\<close>

text \<open>An entry of the lists \<open>results\<close> and \<open>failures\<close>; a failure has no metrics and score zero.\<close>

record report_item =
  ri_rank :: nat
  ri_child_run_id :: string
  ri_child_key :: string
  ri_status :: run_status
  ri_dimensions :: pydict
  ri_metrics :: "metrics option"
  ri_error :: "string option"

definition ri_score :: "report_item \<Rightarrow> pyfloat" where
  "ri_score item = (case ri_metrics item of None \<Rightarrow> float_zero | Some m \<Rightarrow> mx_score m)"

definition ri_ending_equity :: "report_item \<Rightarrow> pyfloat" where
  "ri_ending_equity item = (case ri_metrics item of None \<Rightarrow> float_zero | Some m \<Rightarrow> mx_ending_equity m)"

definition opt_str :: "string option \<Rightarrow> pyval" where
  "opt_str s = (case s of None \<Rightarrow> PNone | Some t \<Rightarrow> PStr t)"

(* sim/api/tournaments.py:57-66 build_report (item) *)
definition report_item_dict :: "report_item \<Rightarrow> pydict" where
  "report_item_dict item =
     [(''rank'', PInt (int (ri_rank item))), (''child_run_id'', PStr (ri_child_run_id item)),
      (''child_key'', PStr (ri_child_key item)), (''status'', PStr (run_status_str (ri_status item))),
      (''dimensions'', PDict (ri_dimensions item)),
      (''metrics'', PDict (case ri_metrics item of None \<Rightarrow> [] | Some m \<Rightarrow> metrics_dict m)),
      (''score'', PFloat (ri_score item)), (''error'', opt_str (ri_error item))]"

(* sim/api/tournaments.py:245-255 _failure_result *)
definition failure_result :: "tournament_child \<Rightarrow> run_status \<Rightarrow> string option \<Rightarrow> report_item" where
  "failure_result link status error =
     \<lparr>ri_rank = 0, ri_child_run_id = tc_child_run_id link, ri_child_key = tc_child_key link,
      ri_status = status, ri_dimensions = tc_dimensions link, ri_metrics = None, ri_error = error\<rparr>"

text \<open>One child: a result, a failure, or nothing while it is pending or running.\<close>

datatype child_outcome = Ranked report_item | Unranked report_item | Unfinished

(* sim/api/tournaments.py:49-72 build_report (loop) *)
definition child_outcome_of ::
  "power_fun \<Rightarrow> (string \<Rightarrow> run_record option) \<Rightarrow> tournament_child \<Rightarrow> child_outcome result" where
  "child_outcome_of pow records link =
     (let record = records (tc_child_run_id link);
          status = (case record of None \<Rightarrow> Failed | Some r \<Rightarrow> rr_status r);
          error = (case record of None \<Rightarrow> Some ''missing child run'' | Some r \<Rightarrow> rr_error r)
      in case (status, record) of
           (Completed, Some r) \<Rightarrow>
             bind_r (run_metrics pow (rr_report r) (rr_config r)) (\<lambda>m.
               Inr (Ranked \<lparr>ri_rank = 0, ri_child_run_id = rr_run_id r, ri_child_key = tc_child_key link,
                 ri_status = status, ri_dimensions = tc_dimensions link, ri_metrics = Some m,
                 ri_error = None\<rparr>))
         | (Failed, _) \<Rightarrow> Inr (Unranked (failure_result link status error))
         | (Canceled, _) \<Rightarrow> Inr (Unranked (failure_result link status (str_or error (Some ''canceled''))))
         | _ \<Rightarrow> Inr Unfinished)"

fun ranked_items :: "child_outcome list \<Rightarrow> report_item list" where
  "ranked_items [] = []"
| "ranked_items (Ranked i # os) = i # ranked_items os"
| "ranked_items (_ # os) = ranked_items os"

fun unranked_items :: "child_outcome list \<Rightarrow> report_item list" where
  "unranked_items [] = []"
| "unranked_items (Unranked i # os) = i # unranked_items os"
| "unranked_items (_ # os) = unranked_items os"

text \<open>
  The tuples \<open>(score, ending_equity, child_key)\<close> compare by their first components that differ.
\<close>

(* sim/api/tournaments.py:76-80 build_report (key) *)
definition rank_lt :: "report_item \<Rightarrow> report_item \<Rightarrow> bool" where
  "rank_lt a b \<longleftrightarrow>
     (let same = (\<lambda>x y. x \<noteq> NaN \<and> y \<noteq> NaN \<and> \<not> float_lt x y \<and> \<not> float_lt y x)
      in if \<not> same (ri_score a) (ri_score b) then float_lt (ri_score a) (ri_score b)
         else if \<not> same (ri_ending_equity a) (ri_ending_equity b)
              then float_lt (ri_ending_equity a) (ri_ending_equity b)
         else ri_child_key a < ri_child_key b)"

text \<open>\<open>for index, item in enumerate(items, start=n): item["rank"] = index\<close>.\<close>

definition with_ranks :: "nat \<Rightarrow> report_item list \<Rightarrow> report_item list" where
  "with_ranks start items = map (\<lambda>(index, item). item\<lparr>ri_rank := start + index\<rparr>) (enum_list items)"

record tournament_report =
  tp_tournament_id :: string
  tp_status :: run_status
  tp_generated_at :: string
  tp_child_count :: nat
  tp_completed_child_count :: nat
  tp_failed_child_count :: nat
  tp_results :: "report_item list"
  tp_failures :: "report_item list"

(* sim/api/tournaments.py:40-101 build_report *)
definition build_report ::
  "power_fun \<Rightarrow> string \<Rightarrow> string \<Rightarrow> tournament_child list \<Rightarrow> run_record list \<Rightarrow> tournament_report result" where
  "build_report pow generated_at tournament_id child_links runs =
     (let records = map_of (rev (map (\<lambda>r. (rr_run_id r, r)) runs))
      in bind_r (map_r (child_outcome_of pow records) (sort_key tc_child_key child_links)) (\<lambda>outcomes.
         let failures = unranked_items outcomes;
             completed = length (ranked_items outcomes);
             failed = length (filter (\<lambda>i. ri_status i = Failed) failures);
             canceled = length (filter (\<lambda>i. ri_status i = Canceled) failures);
             ranked = py_sorted_reverse rank_lt (ranked_items outcomes);
             total = length child_links;
             terminal = completed + failed + canceled;
             status = (if total = 0 then Failed else if terminal = total then Completed else Running)
         in Inr \<lparr>tp_tournament_id = tournament_id, tp_status = status, tp_generated_at = generated_at,
                 tp_child_count = total, tp_completed_child_count = completed,
                 tp_failed_child_count = failed, tp_results = with_ranks 1 ranked,
                 tp_failures = with_ranks (length ranked + 1) failures\<rparr>))"

(* sim/api/tournaments.py:92-101 build_report (result) *)
definition report_dict :: "tournament_report \<Rightarrow> pydict" where
  "report_dict r =
     [(''tournament_id'', PStr (tp_tournament_id r)), (''status'', PStr (run_status_str (tp_status r))),
      (''generated_at'', PStr (tp_generated_at r)), (''child_count'', PInt (int (tp_child_count r))),
      (''completed_child_count'', PInt (int (tp_completed_child_count r))),
      (''failed_child_count'', PInt (int (tp_failed_child_count r))),
      (''results'', PList (map (\<lambda>i. PDict (report_item_dict i)) (tp_results r))),
      (''failures'', PList (map (\<lambda>i. PDict (report_item_dict i)) (tp_failures r)))]"


section \<open>What a report says\<close>

text \<open>The order of the ranking, on entries whose scores and equities are numbers.\<close>

definition rankable :: "report_item set" where
  "rankable = {i. ri_score i \<noteq> NaN \<and> ri_ending_equity i \<noteq> NaN}"

lemma float_incomparable_trans:
  assumes "b \<noteq> NaN" "\<not> float_lt a b" "\<not> float_lt b c" "a \<noteq> NaN" "c \<noteq> NaN"
  shows "\<not> float_lt a c"
  using assms key_not_less_trans [of "float_key a" "float_key b" "float_key c"] by (auto simp: float_lt_key)

lemma key_cases: "key_less a b \<or> key_less b a \<or> a = b"
  by (cases a; cases b) (auto simp: key_less_def)

text \<open>A lexicographic step: the keys decide, and equal keys leave it to the rest.\<close>

definition key_then :: "int \<times> real \<Rightarrow> int \<times> real \<Rightarrow> bool \<Rightarrow> bool" where
  "key_then a b rest \<longleftrightarrow> key_less a b \<or> (a = b \<and> rest)"

lemma key_then_asym: "key_then a b p \<Longrightarrow> (p \<Longrightarrow> \<not> q) \<Longrightarrow> \<not> key_then b a q"
  by (auto simp: key_then_def key_less_def)

lemma key_then_trans:
  assumes "\<not> key_then a b p" "\<not> key_then b c q" "\<not> p \<Longrightarrow> \<not> q \<Longrightarrow> \<not> r"
  shows "\<not> key_then a c r"
proof
  assume ac: "key_then a c r"
  have ab: "b = a \<or> key_less b a" and bc: "c = b \<or> key_less c b"
    using assms(1,2) key_cases [of a b] key_cases [of b c] by (auto simp: key_then_def)
  have "c = a \<or> key_less c a" using ab bc by (auto dest: key_less_trans)
  then have "a = c" using ac by (auto simp: key_then_def key_less_def)
  with ab bc have "b = a" "c = b" by (auto simp: key_less_def)
  with assms ac show False by (auto simp: key_then_def key_less_irrefl)
qed

lemma rank_lt_keys:
  assumes "a \<in> rankable" "b \<in> rankable"
  shows "rank_lt a b \<longleftrightarrow> key_then (float_key (ri_score a)) (float_key (ri_score b))
    (key_then (float_key (ri_ending_equity a)) (float_key (ri_ending_equity b)) (ri_child_key a < ri_child_key b))"
  using assms key_cases [of "float_key (ri_score a)" "float_key (ri_score b)"] key_less_irrefl
    key_cases [of "float_key (ri_ending_equity a)" "float_key (ri_ending_equity b)"] key_less_trans
  by (auto simp: rank_lt_def Let_def rankable_def float_lt_key key_then_def)

interpretation ranking: weak_order rank_lt rankable
proof
  fix x y
  assume "x \<in> rankable" "y \<in> rankable" "rank_lt x y"
  then show "\<not> rank_lt y x"
    by (simp add: rank_lt_keys) (erule key_then_asym, erule key_then_asym, simp)
next
  fix x y z
  assume d: "x \<in> rankable" "y \<in> rankable" "z \<in> rankable"
  assume "\<not> rank_lt x y" "\<not> rank_lt y z"
  with d show "\<not> rank_lt x z"
    by (simp add: rank_lt_keys) (erule (1) key_then_trans, erule (1) key_then_trans, simp)
qed

lemma with_ranks_ranks: "map ri_rank (with_ranks n xs) = [n..<n + length xs]"
proof (rule nth_equalityI)
  fix i assume "i < length (map ri_rank (with_ranks n xs))"
  then show "map ri_rank (with_ranks n xs) ! i = [n..<n + length xs] ! i"
    by (simp add: with_ranks_def enum_list_def)
qed (simp add: with_ranks_def)

lemma with_ranks_other:
  assumes "\<And>i n. f (i\<lparr>ri_rank := n\<rparr>) = f i"
  shows "map f (with_ranks n xs) = map f xs"
proof -
  have "map f (with_ranks n xs) = map f (map snd (enum_list xs))"
    by (simp add: with_ranks_def comp_def split_def assms del: map_snd_enum_list)
  then show ?thesis by simp
qed

lemma with_ranks_keys [simp]:
  "map ri_child_key (with_ranks n xs) = map ri_child_key xs"
  "map ri_child_run_id (with_ranks n xs) = map ri_child_run_id xs"
  "map ri_status (with_ranks n xs) = map ri_status xs"
  by (rule with_ranks_other, simp)+

lemma length_with_ranks [simp]: "length (with_ranks n xs) = length xs"
  by (simp add: with_ranks_def)

lemma rank_lt_rank [simp]: "rank_lt (a\<lparr>ri_rank := m\<rparr>) (b\<lparr>ri_rank := n\<rparr>) = rank_lt a b"
  by (simp add: rank_lt_def ri_score_def ri_ending_equity_def)

lemma rankable_rank [simp]: "a\<lparr>ri_rank := n\<rparr> \<in> rankable \<longleftrightarrow> a \<in> rankable"
  by (simp add: rankable_def ri_score_def ri_ending_equity_def)

lemma with_ranks_nth: "i < length xs \<Longrightarrow> with_ranks n xs ! i = (xs ! i)\<lparr>ri_rank := n + i\<rparr>"
  by (simp add: with_ranks_def enum_list_def)

lemma with_ranks_rankable: "set (with_ranks n xs) \<subseteq> rankable \<longleftrightarrow> set xs \<subseteq> rankable"
  by (auto simp: in_set_conv_nth subset_iff with_ranks_nth)

lemma with_ranks_sorted:
  "sorted_wrt (\<lambda>a b. \<not> rank_lt a b) (with_ranks n xs) \<longleftrightarrow> sorted_wrt (\<lambda>a b. \<not> rank_lt a b) xs"
  by (simp add: sorted_wrt_iff_nth_less with_ranks_nth)

text \<open>The status a report gives a child, and the children it ranks and those it does not.\<close>

definition link_status :: "run_record list \<Rightarrow> tournament_child \<Rightarrow> run_status" where
  "link_status runs link =
     (case map_of (rev (map (\<lambda>r. (rr_run_id r, r)) runs)) (tc_child_run_id link) of
        None \<Rightarrow> Failed | Some r \<Rightarrow> rr_status r)"

lemma record_key: "map_of (rev (map (\<lambda>r. (rr_run_id r, r)) runs)) i = Some r \<Longrightarrow> rr_run_id r = i"
  by (auto dest!: map_of_SomeD)

lemma outcome_cases:
  assumes "child_outcome_of pow (map_of (rev (map (\<lambda>r. (rr_run_id r, r)) runs))) link = Inr res"
  shows "case link_status runs link of
      Completed \<Rightarrow> (\<exists>i. res = Ranked i \<and> ri_child_key i = tc_child_key link \<and>
        ri_child_run_id i = tc_child_run_id link \<and> ri_status i = Completed \<and> ri_metrics i \<noteq> None)
    | Pending \<Rightarrow> res = Unfinished | Running \<Rightarrow> res = Unfinished
    | st \<Rightarrow> (\<exists>i. res = Unranked i \<and> ri_child_key i = tc_child_key link \<and>
        ri_child_run_id i = tc_child_run_id link \<and> ri_status i = st \<and> ri_metrics i = None)"
  using assms record_key
  by (auto simp: child_outcome_of_def link_status_def Let_def failure_result_def bind_r_Inr_iff
      split: option.splits run_status.splits)

text \<open>Children and entries, by key, run and status.\<close>

definition link_row :: "run_record list \<Rightarrow> tournament_child \<Rightarrow> string \<times> string \<times> run_status" where
  "link_row runs l = (tc_child_key l, tc_child_run_id l, link_status runs l)"

definition item_row :: "report_item \<Rightarrow> string \<times> string \<times> run_status" where
  "item_row i = (ri_child_key i, ri_child_run_id i, ri_status i)"

lemma outcome_rows:
  assumes "map_r (child_outcome_of pow (map_of (rev (map (\<lambda>r. (rr_run_id r, r)) runs)))) links = Inr os"
  shows "map item_row (ranked_items os) = map (link_row runs) (filter (\<lambda>l. link_status runs l = Completed) links)"
    and "map item_row (unranked_items os) =
      map (link_row runs) (filter (\<lambda>l. link_status runs l \<in> {Failed, Canceled}) links)"
proof -
  have "map item_row (ranked_items os) = map (link_row runs) (filter (\<lambda>l. link_status runs l = Completed) links) \<and>
    map item_row (unranked_items os) =
      map (link_row runs) (filter (\<lambda>l. link_status runs l \<in> {Failed, Canceled}) links)"
    using assms
  proof (induction links arbitrary: os)
    case (Cons l links)
    then obtain x xs where os: "os = x # xs"
      "child_outcome_of pow (map_of (rev (map (\<lambda>r. (rr_run_id r, r)) runs))) l = Inr x"
      "map_r (child_outcome_of pow (map_of (rev (map (\<lambda>r. (rr_run_id r, r)) runs)))) links = Inr xs"
      by (auto simp: bind_r_Inr_iff)
    from outcome_cases [OF os(2)] Cons.IH [OF os(3)] os(1) show ?case
      by (cases "link_status runs l") (auto simp: link_row_def item_row_def)
  qed simp
  then show "map item_row (ranked_items os) = map (link_row runs) (filter (\<lambda>l. link_status runs l = Completed) links)"
    and "map item_row (unranked_items os) =
      map (link_row runs) (filter (\<lambda>l. link_status runs l \<in> {Failed, Canceled}) links)" by blast+
qed

lemma with_ranks_rows [simp]: "map item_row (with_ranks n xs) = map item_row xs"
  by (rule with_ranks_other) (simp add: item_row_def)

definition finished :: "run_status \<Rightarrow> bool" where
  "finished st \<longleftrightarrow> st \<in> {Completed, Failed, Canceled}"

lemma filter_item_rows: "filter (\<lambda>i. ri_status i = st) xs = filter (\<lambda>i. snd (snd (item_row i)) = st) xs"
  by (simp add: item_row_def)

lemma build_report_Inr:
  assumes "build_report pow now tid links runs = Inr rep"
  obtains os where
    "map_r (child_outcome_of pow (map_of (rev (map (\<lambda>r. (rr_run_id r, r)) runs))))
       (sort_key tc_child_key links) = Inr os"
    "tp_results rep = with_ranks 1 (py_sorted_reverse rank_lt (ranked_items os))"
    "tp_failures rep = with_ranks (length (ranked_items os) + 1) (unranked_items os)"
    "tp_child_count rep = length links" "tp_tournament_id rep = tid"
    "tp_completed_child_count rep = length (ranked_items os)"
    "tp_failed_child_count rep = length (filter (\<lambda>i. ri_status i = Failed) (unranked_items os))"
    "tp_status rep = (if links = [] then Failed
       else if length (ranked_items os) + length (filter (\<lambda>i. ri_status i = Failed) (unranked_items os)) +
               length (filter (\<lambda>i. ri_status i = Canceled) (unranked_items os)) = length links
       then Completed else Running)"
  using assms that by (auto simp: build_report_def bind_r_Inr_iff Let_def split: if_splits)

text \<open>A report looks at five fields of a record.\<close>

definition report_view :: "run_record \<Rightarrow> string \<times> run_status \<times> string option \<times> pydict \<times> pydict" where
  "report_view r = (rr_run_id r, rr_status r, rr_error r, rr_report r, rr_config r)"

lemma outcome_view:
  assumes "\<And>i. map_option report_view (f i) = map_option report_view (g i)"
  shows "child_outcome_of pow f = child_outcome_of pow g"
proof
  fix link
  show "child_outcome_of pow f link = child_outcome_of pow g link"
    using assms [of "tc_child_run_id link"]
    by (cases "f (tc_child_run_id link)"; cases "g (tc_child_run_id link)")
      (auto simp: child_outcome_of_def Let_def report_view_def split: run_status.split)
qed

lemma records_view:
  "map_option report_view (map_of (rev (map (\<lambda>r. (rr_run_id r, r)) runs)) i) =
    map_of (rev (map (\<lambda>v. (fst v, v)) (map report_view runs))) i"
proof -
  have "map_option report_view (map_of (map (\<lambda>r. (rr_run_id r, r)) xs) i) =
      map_of (map (\<lambda>v. (fst v, v)) (map report_view xs)) i" for xs
    by (induction xs) (simp_all add: report_view_def)
  from this [of "rev runs"] show ?thesis by (simp only: rev_map)
qed

lemma build_report_view:
  assumes "map report_view runs = map report_view runs'"
  shows "build_report pow now tid links runs = build_report pow now tid links runs'"
proof -
  have "child_outcome_of pow (map_of (rev (map (\<lambda>r. (rr_run_id r, r)) runs))) =
      child_outcome_of pow (map_of (rev (map (\<lambda>r. (rr_run_id r, r)) runs')))"
    by (rule outcome_view) (simp only: records_view assms)
  then show ?thesis by (simp only: build_report_def Let_def)
qed

end
