(* ===== verification/Tournament_Service.thy ===== *)
theory Tournament_Service
  imports Tournament_Store Tournament_Expansion Tournament_Report
begin

text \<open>
  Tournaments of the API, \<open>sim/api/services/tournament_service.py\<close>: creation of the parent and its
  children, aggregation, cancellation and the reads, over any store and an optional queue. The last
  sections prove what an aggregation stores, and that calls which only use the run half of a store
  leave tournaments and queue alone.
\<close>

section \<open>Views\<close>

(* sim/api/models.py:198-209 TournamentRun *)
record tournament_run =
  tu_tournament_id :: string
  tu_status :: run_status
  tu_tournament_type :: string
  tu_created_at :: instant
  tu_started_at :: "instant option"
  tu_completed_at :: "instant option"
  tu_config :: pydict
  tu_child_count :: nat
  tu_completed_child_count :: nat
  tu_failed_child_count :: nat
  tu_error :: "string option"

(* sim/api/services/tournament_service.py:131-135 _to_run (counts) *)
definition count_children :: "'s store_ops \<Rightarrow> run_status \<Rightarrow> tournament_child list \<Rightarrow> 's \<Rightarrow> nat" where
  "count_children ops status children s =
     length (filter (\<lambda>child. case so_get_run ops (tc_child_run_id child) s of
         None \<Rightarrow> False | Some r \<Rightarrow> rr_status r = status) children)"

(* sim/api/services/tournament_service.py:131-148 _to_run *)
definition to_tournament_run :: "'s store_ops \<Rightarrow> tournament_record \<Rightarrow> 's \<Rightarrow> tournament_run" where
  "to_tournament_run ops record s =
     (let children = children_of ops (tr_tournament_id record) s
      in \<lparr>tu_tournament_id = tr_tournament_id record, tu_status = tr_status record,
          tu_tournament_type = tr_tournament_type record, tu_created_at = tr_created_at record,
          tu_started_at = tr_started_at record, tu_completed_at = tr_completed_at record,
          tu_config = tr_config record, tu_child_count = length children,
          tu_completed_child_count = count_children ops Completed children s,
          tu_failed_child_count = count_children ops Failed children s,
          tu_error = tr_error record\<rparr>)"

(* sim/api/services/tournament_service.py:125-129 _require_tournament *)
definition require_tournament :: "'s store_ops \<Rightarrow> string \<Rightarrow> ('s, tournament_record) svc" where
  "require_tournament ops tid =
     bind_s (read_s (so_get_tournament ops tid)) (option_s (RunNotFoundError tid))"

(* sim/api/services/tournament_service.py:45-46 list_tournaments *)
definition list_tournaments_s :: "'s store_ops \<Rightarrow> ('s, tournament_run list) svc" where
  "list_tournaments_s ops = read_s (\<lambda>s. map (\<lambda>record. to_tournament_run ops record s) (so_list_tournaments ops s))"

(* sim/api/services/tournament_service.py:48-49 get_tournament *)
definition get_tournament_s :: "'s store_ops \<Rightarrow> string \<Rightarrow> ('s, tournament_run) svc" where
  "get_tournament_s ops tid =
     bind_s (require_tournament ops tid) (\<lambda>record. read_s (to_tournament_run ops record))"

text \<open>\<open>children = list_tournament_children(..)\<close>; \<open>if children is None: raise\<close>.\<close>

definition require_children :: "'s store_ops \<Rightarrow> string \<Rightarrow> ('s, tournament_child list) svc" where
  "require_children ops tid =
     bind_s (read_s (so_list_children ops tid)) (option_s (RunNotFoundError tid))"

text \<open>A child with the detail of its run, where the run service finds one.\<close>

(* sim/api/services/tournament_service.py:56-64 get_children (loop) *)
fun enrich_children :: "'s store_ops \<Rightarrow> tournament_child list
   \<Rightarrow> ('s, (tournament_child \<times> run_detail option) list) svc" where
  "enrich_children ops [] = return_s []"
| "enrich_children ops (child # children) =
     bind_s (catch_s (bind_s (get_run_s ops (tc_child_run_id child)) (\<lambda>d. return_s (Some d)))
              (\<lambda>_. return_s None)) (\<lambda>detail.
     bind_s (enrich_children ops children) (\<lambda>rest. return_s ((child, detail) # rest)))"

(* sim/api/services/tournament_service.py:51-64 get_children *)
definition get_children_s :: "'s store_ops \<Rightarrow> string
   \<Rightarrow> ('s, (tournament_child \<times> run_detail option) list) svc" where
  "get_children_s ops tid =
     bind_s (require_tournament ops tid) (\<lambda>_.
     bind_s (require_children ops tid) (enrich_children ops))"

section \<open>Creation\<close>

text \<open>One child: its run, its link and, with a queue, its place in the queue.\<close>

(* sim/api/services/tournament_service.py:32-42 run_tournament (loop) *)
definition create_child ::
  "'s store_ops \<Rightarrow> 's queue_client option \<Rightarrow> string \<Rightarrow> int \<Rightarrow> child_run_spec \<times> string \<Rightarrow> ('s, unit) svc" where
  "create_child ops queue tid priority child_spec =
     (case child_spec of (spec, new_id) \<Rightarrow>
       bind_s now_s (\<lambda>now.
       bind_s (store_raise_s (so_create_run ops now new_id (sp_run_type spec) (sp_config spec))) (\<lambda>child.
       bind_s (store_raise_s (so_link_child ops tid (rr_run_id child) (sp_child_key spec)
                (sp_run_type spec) (sp_dimensions spec))) (\<lambda>_.
       case queue of
         None \<Rightarrow> return_s ()
       | Some q \<Rightarrow>
           bind_s now_s (\<lambda>now.
           bind_s (store_raise_s (qc_enqueue q now (rr_run_id child) priority)) (\<lambda>_. return_s ()))))))"

text \<open>The generated ids of the tournament and of the runs are arguments.\<close>

(* sim/api/services/tournament_service.py:22-43 run_tournament *)
definition run_tournament ::
  "error_text \<Rightarrow> 's store_ops \<Rightarrow> 's queue_client option \<Rightarrow> string \<Rightarrow> (nat \<Rightarrow> string) \<Rightarrow> tournament_config
   \<Rightarrow> ('s, tournament_run) svc" where
  "run_tournament et ops queue new_tid new_ids request =
     (case expand_tournament et request of
        Inl (ValueError m) \<Rightarrow> raise_s (InvalidRequestError m)
      | Inl exc \<Rightarrow> raise_s exc
      | Inr specs \<Rightarrow>
          bind_s now_s (\<lambda>now.
          bind_s (store_raise_s (so_create_tournament ops now new_tid
                   (tournament_type_str (to_tournament_type request)) (dump_tournament request))) (\<lambda>record.
          bind_s now_s (\<lambda>started_at.
          bind_s (store_s (so_update_tournament ops (tr_tournament_id record) (Some Running)
                   (Some started_at) None None None)) (\<lambda>_.
          bind_s (seq_s (create_child ops queue (tr_tournament_id record) (to_priority request))
                   (zip specs (map new_ids [0..<length specs]))) (\<lambda>_.
          get_tournament_s ops (tr_tournament_id record)))))))"

section \<open>Aggregation\<close>

text \<open>\<open>build_report\<close>, which reads the clock once its entries are computed.\<close>

definition build_report_s ::
  "power_fun \<Rightarrow> (instant \<Rightarrow> string) \<Rightarrow> string \<Rightarrow> tournament_child list \<Rightarrow> run_record list
   \<Rightarrow> ('s, tournament_report) svc" where
  "build_report_s pow fmt tid children runs e =
     (case build_report pow (fmt (en_clock e (en_ticks e))) tid children runs of
        Inl exc \<Rightarrow> (e, Inl exc)
      | Inr report \<Rightarrow> (e\<lparr>en_ticks := Suc (en_ticks e)\<rparr>, Inr report))"

(* sim/api/services/tournament_service.py:77-81 aggregate (child_records) *)
definition child_records :: "'s store_ops \<Rightarrow> tournament_child list \<Rightarrow> 's \<Rightarrow> run_record list" where
  "child_records ops children s =
     concat (map (\<lambda>child. case so_get_run ops (tc_child_run_id child) s of
         None \<Rightarrow> [] | Some run \<Rightarrow> [run]) children)"

(* sim/api/services/tournament_service.py:72-92 aggregate *)
definition aggregate_tournament ::
  "'s store_ops \<Rightarrow> power_fun \<Rightarrow> (instant \<Rightarrow> string) \<Rightarrow> string \<Rightarrow> ('s, tournament_report) svc" where
  "aggregate_tournament ops pow fmt tid =
     bind_s (require_tournament ops tid) (\<lambda>_.
     bind_s (require_children ops tid) (\<lambda>children.
     bind_s (read_s (child_records ops children)) (\<lambda>runs.
     bind_s (build_report_s pow fmt tid children runs) (\<lambda>report.
     bind_s (if tp_status report \<in> {Completed, Failed, Canceled}
             then bind_s now_s (\<lambda>now. return_s (Some now)) else return_s None) (\<lambda>completed_at.
     bind_s (store_s (so_update_tournament ops tid (Some (tp_status report)) None completed_at
              (Some (report_dict report)) None)) (\<lambda>updated.
     bind_s (option_s (RunNotFoundError tid) updated) (\<lambda>_.
     return_s report)))))))"

(* sim/api/services/tournament_service.py:95-98 aggregate_for_child (loop) *)
definition aggregate_if_parent ::
  "'s store_ops \<Rightarrow> power_fun \<Rightarrow> (instant \<Rightarrow> string) \<Rightarrow> string \<Rightarrow> tournament_record \<Rightarrow> ('s, unit) svc" where
  "aggregate_if_parent ops pow fmt child_run_id tournament =
     bind_s (read_s (children_of ops (tr_tournament_id tournament))) (\<lambda>children.
       if list_ex (\<lambda>child. tc_child_run_id child = child_run_id) children
       then bind_s (aggregate_tournament ops pow fmt (tr_tournament_id tournament)) (\<lambda>_. return_s ())
       else return_s ())"

(* sim/api/services/tournament_service.py:94-98 aggregate_for_child *)
definition aggregate_for_child ::
  "'s store_ops \<Rightarrow> power_fun \<Rightarrow> (instant \<Rightarrow> string) \<Rightarrow> string \<Rightarrow> ('s, unit) svc" where
  "aggregate_for_child ops pow fmt child_run_id =
     bind_s (read_s (so_list_tournaments ops)) (seq_s (aggregate_if_parent ops pow fmt child_run_id))"

text \<open>A stored report is never refreshed. \<open>model\<close> is \<open>TournamentReport(**..)\<close>, which checks the types of the
  fields and may refuse a dictionary.\<close>

(* sim/api/services/tournament_service.py:66-70 get_report *)
definition get_tournament_report ::
  "'s store_ops \<Rightarrow> power_fun \<Rightarrow> (instant \<Rightarrow> string) \<Rightarrow> (pydict \<Rightarrow> 'm result) \<Rightarrow> string \<Rightarrow> ('s, 'm) svc" where
  "get_tournament_report ops pow fmt model tid =
     bind_s (require_tournament ops tid) (\<lambda>record.
       if tr_report record \<noteq> [] then lift_s (model (tr_report record))
       else bind_s (aggregate_tournament ops pow fmt tid) (\<lambda>report. lift_s (model (report_dict report))))"

section \<open>Cancellation\<close>

(* sim/api/services/tournament_service.py:105-114 cancel_tournament (loop) *)
definition cancel_child ::
  "'s store_ops \<Rightarrow> stream_codec \<Rightarrow> 's queue_client option \<Rightarrow> tournament_child \<Rightarrow> ('s, unit) svc" where
  "cancel_child ops cd queue child =
     then_s
       (case queue of
          None \<Rightarrow> return_s ()
        | Some q \<Rightarrow>
            bind_s now_s (\<lambda>now.
            bind_s (store_s (qc_cancel_pending q now (tc_child_run_id child))) (\<lambda>_. return_s ())))
       (catch_s
         (bind_s (read_s (so_get_run ops (tc_child_run_id child))) (\<lambda>run.
            case run of
              None \<Rightarrow> return_s ()
            | Some r \<Rightarrow>
                if rr_status r \<in> {Pending, Running}
                then bind_s (cancel_run ops cd (tc_child_run_id child)) (\<lambda>_. return_s ())
                else return_s ()))
         (\<lambda>_. return_s ()))"

(* sim/api/services/tournament_service.py:100-123 cancel_tournament *)
definition cancel_tournament ::
  "'s store_ops \<Rightarrow> stream_codec \<Rightarrow> 's queue_client option \<Rightarrow> string \<Rightarrow> ('s, tournament_run) svc" where
  "cancel_tournament ops cd queue tid =
     bind_s (require_tournament ops tid) (\<lambda>record.
       if tr_status record = Completed then
         raise_s (InvalidRequestError (''completed tournament cannot be canceled: '' @ tid))
       else
         bind_s (read_s (children_of ops tid)) (\<lambda>children.
         bind_s (seq_s (cancel_child ops cd queue) children) (\<lambda>_.
         bind_s now_s (\<lambda>now.
         bind_s (store_s (so_update_tournament ops tid (Some Canceled) None (Some now) None
                  (Some ''canceled''))) (\<lambda>updated.
         bind_s (option_s (RunNotFoundError tid) updated) (\<lambda>record'.
         read_s (to_tournament_run ops record')))))))"

section \<open>What an aggregation stores\<close>

lemma children_of_same: "so_list_children ops i s' = so_list_children ops i s \<Longrightarrow>
    children_of ops i s' = children_of ops i s"
  by (simp add: children_of_def)

lemma child_records_same:
  "(\<And>i. so_get_run ops i s' = so_get_run ops i s) \<Longrightarrow> child_records ops cs s' = child_records ops cs s"
  by (simp add: child_records_def)

lemma wp_require_tournament:
  "wp_s (require_tournament ops tid) e P = (case so_get_tournament ops tid (en_store e) of
     None \<Rightarrow> P e (Inl (RunNotFoundError tid)) | Some r \<Rightarrow> P e (Inr r))"
  by (simp add: require_tournament_def wp_rules)

lemma wp_require_children:
  "wp_s (require_children ops tid) e P = (case so_list_children ops tid (en_store e) of
     None \<Rightarrow> P e (Inl (RunNotFoundError tid)) | Some cs \<Rightarrow> P e (Inr cs))"
  by (simp add: require_children_def wp_rules)

lemma wp_build_report:
  "wp_s (build_report_s pow fmt tid cs runs) e P =
    (case build_report pow (fmt (en_clock e (en_ticks e))) tid cs runs of
       Inl exc \<Rightarrow> P e (Inl exc) | Inr rep \<Rightarrow> P (e\<lparr>en_ticks := Suc (en_ticks e)\<rparr>) (Inr rep))"
  by (simp add: wp_s_def build_report_s_def split: sum.split)

lemma wp_void: "wp_s (bind_s m (\<lambda>_. return_s ())) e P = wp_s m e (\<lambda>e' res. P e' (bind_r res (\<lambda>_. Inr ())))"
  unfolding wp_bind wp_return by (auto simp: wp_s_def split: prod.split sum.split)

context tournament_store
begin

text \<open>Only tournament \<open>tid\<close> may differ, and no child of any.\<close>

definition only_tournament :: "string \<Rightarrow> 's \<Rightarrow> 's \<Rightarrow> bool" where
  "only_tournament tid s s' \<longleftrightarrow> same_runs ops ok s s' \<and> tok s' \<and>
     (\<forall>i. i \<noteq> tid \<longrightarrow> so_get_tournament ops i s' = so_get_tournament ops i s) \<and>
     (\<forall>i. so_list_children ops i s' = so_list_children ops i s)"

lemma update_tournament_step:
  assumes "ok s" "tok s" and "so_get_tournament ops tid s = Some r"
  shows "\<exists>s'. so_update_tournament ops tid st sa ca rep err s =
      (s', Some (apply_tournament_update st sa ca (map_option canon rep) err r)) \<and>
    only_tournament tid s s' \<and>
    so_get_tournament ops tid s' = Some (apply_tournament_update st sa ca (map_option canon rep) err r)"
  using update_tournament [OF assms(1,2), of tid st sa ca rep err] assms(3)
  by (auto simp: only_tournament_def split: prod.splits)

text \<open>The record of a tournament after an aggregation.\<close>

definition aggregated :: "tournament_report \<Rightarrow> tournament_record \<Rightarrow> tournament_record \<Rightarrow> bool" where
  "aggregated rep r r' \<longleftrightarrow> tr_status r' = tp_status rep \<and> tr_report r' = canon (report_dict rep) \<and>
     tr_config r' = tr_config r \<and> tr_error r' = tr_error r \<and> tr_started_at r' = tr_started_at r"

lemma wp_aggregate:
  assumes "ok (en_store e)" "tok (en_store e)"
    and r: "so_get_tournament ops tid (en_store e) = Some r"
    and cs: "so_list_children ops tid (en_store e) = Some cs"
    and rep: "build_report pow (fmt (en_clock e (en_ticks e))) tid cs (child_records ops cs (en_store e)) = Inr rep"
  shows "wp_s (aggregate_tournament ops pow fmt tid) e (\<lambda>e' res. res = Inr rep \<and>
    only_tournament tid (en_store e) (en_store e') \<and> en_stream e' = en_stream e \<and>
    en_clock e' = en_clock e \<and>
    (\<exists>r'. so_get_tournament ops tid (en_store e') = Some r' \<and> aggregated rep r r'))"
proof -
  let ?done = "tp_status rep \<in> {Completed, Failed, Canceled}"
  define e2 where "e2 = e\<lparr>en_ticks := (if ?done then Suc (Suc (en_ticks e)) else Suc (en_ticks e))\<rparr>"
  define ca where "ca = (if ?done then Some (en_clock e (Suc (en_ticks e))) else None)"
  have "en_store e2 = en_store e" by (simp add: e2_def)
  from update_tournament_step [OF assms(1-3), of "Some (tp_status rep)" None ca "Some (report_dict rep)" None]
  obtain s' where s': "so_update_tournament ops tid (Some (tp_status rep)) None ca (Some (report_dict rep)) None
      (en_store e) = (s', Some (apply_tournament_update (Some (tp_status rep)) None ca
        (Some (canon (report_dict rep))) None r))"
    "only_tournament tid (en_store e) s'"
    "so_get_tournament ops tid s' = Some (apply_tournament_update (Some (tp_status rep)) None ca
        (Some (canon (report_dict rep))) None r)" by auto
  have "wp_s (if ?done then bind_s now_s (\<lambda>now. return_s (Some now)) else return_s None)
      (e\<lparr>en_ticks := Suc (en_ticks e)\<rparr>) P = P e2 (Inr ca)" for P
    by (cases ?done) (simp_all add: wp_rules e2_def ca_def)
  then show ?thesis
    using s' r cs rep
    by (simp add: aggregate_tournament_def wp_rules wp_require_tournament wp_require_children wp_build_report
        aggregated_def apply_tournament_update_def \<open>en_store e2 = en_store e\<close>) (simp add: e2_def)
qed

lemma aggregate_raises:
  assumes "so_get_tournament ops tid (en_store e) = Some r"
    and "so_list_children ops tid (en_store e) = Some cs"
    and "build_report pow (fmt (en_clock e (en_ticks e))) tid cs (child_records ops cs (en_store e)) = Inl exc"
  shows "aggregate_tournament ops pow fmt tid e = (e, Inl exc)"
proof -
  have "wp_s (aggregate_tournament ops pow fmt tid) e (\<lambda>e' res. (e', res) = (e, Inl exc))"
    using assms by (simp add: aggregate_tournament_def wp_rules wp_require_tournament wp_require_children
        wp_build_report)
  then show ?thesis by (simp add: wp_s_def split: prod.splits)
qed

text \<open>Whether a report can be built does not depend on the time it is built at.\<close>

definition reportable :: "power_fun \<Rightarrow> string \<Rightarrow> 's \<Rightarrow> bool" where
  "reportable pow tid s \<longleftrightarrow> (\<forall>cs. so_list_children ops tid s = Some cs \<longrightarrow>
     (\<exists>g rep. build_report pow g tid cs (child_records ops cs s) = Inr rep))"

text \<open>The stored report of a tournament is the report on its children as they are.\<close>

definition up_to_date :: "power_fun \<Rightarrow> (instant \<Rightarrow> string) \<Rightarrow> string \<Rightarrow> 's \<Rightarrow> bool" where
  "up_to_date pow fmt tid s \<longleftrightarrow> (\<exists>now rep r cs. so_get_tournament ops tid s = Some r \<and>
     so_list_children ops tid s = Some cs \<and>
     build_report pow (fmt now) tid cs (child_records ops cs s) = Inr rep \<and>
     tr_status r = tp_status rep \<and> tr_report r = canon (report_dict rep))"

text \<open>Runs and children are as before; the tournaments of \<open>T\<close> may have changed.\<close>

definition reports_only :: "string set \<Rightarrow> 's \<Rightarrow> 's \<Rightarrow> bool" where
  "reports_only T s s' \<longleftrightarrow> same_runs ops ok s s' \<and> tok s' \<and>
     (\<forall>i. i \<notin> T \<longrightarrow> so_get_tournament ops i s' = so_get_tournament ops i s) \<and>
     (\<forall>i. so_list_children ops i s' = so_list_children ops i s)"

lemma reports_only_refl: "ok s \<Longrightarrow> tok s \<Longrightarrow> reports_only T s s"
  by (simp add: reports_only_def same_runs_def)

lemma reports_only_trans: "reports_only T s s' \<Longrightarrow> reports_only T s' s'' \<Longrightarrow> reports_only T s s''"
  by (simp add: reports_only_def same_runs_def)

lemma reports_only_one: "only_tournament tid s s' \<Longrightarrow> tid \<in> T \<Longrightarrow> reports_only T s s'"
  by (auto simp: reports_only_def only_tournament_def)

lemma reports_only_views:
  assumes "reports_only T s s'"
  shows "ok s'" "tok s'" "children_of ops i s' = children_of ops i s"
    "so_get_run ops i s' = so_get_run ops i s" "reportable pow i s' = reportable pow i s"
    "child_records ops cs s' = child_records ops cs s"
    "so_list_children ops i s' = so_list_children ops i s"
proof -
  have records: "child_records ops cs s' = child_records ops cs s" for cs
    using assms by (intro child_records_same) (simp add: reports_only_def same_runs_def)
  then show "child_records ops cs s' = child_records ops cs s" .
  show "reportable pow i s' = reportable pow i s"
    using assms by (simp add: reportable_def records reports_only_def)
qed (use assms in \<open>simp_all add: reports_only_def same_runs_def children_of_def\<close>)

lemma up_to_date_kept:
  assumes "only_tournament tid s s'" and "i \<noteq> tid" and "up_to_date pow fmt i s"
  shows "up_to_date pow fmt i s'"
proof -
  have "child_records ops cs s' = child_records ops cs s" for cs
    using assms(1) by (intro child_records_same) (simp add: only_tournament_def same_runs_def)
  with assms show ?thesis by (simp add: up_to_date_def only_tournament_def)
qed

lemma report_any_time:
  "build_report pow g tid cs runs = Inr rep \<Longrightarrow> \<exists>rep'. build_report pow g' tid cs runs = Inr rep'"
  by (auto simp: build_report_def bind_r_Inr_iff Let_def)

text \<open>Nor does it depend on the logs of the runs, or on anything a report does not look at.\<close>

lemma reportable_view:
  assumes "\<And>i. map_option report_view (so_get_run ops i s') = map_option report_view (so_get_run ops i s)"
    and "so_list_children ops tid s' = so_list_children ops tid s"
  shows "reportable pow tid s' = reportable pow tid s"
proof -
  have "map report_view (case so_get_run ops i s' of None \<Rightarrow> [] | Some run \<Rightarrow> [run]) =
      map report_view (case so_get_run ops i s of None \<Rightarrow> [] | Some run \<Rightarrow> [run])" for i
    using assms(1) [of i] by (cases "so_get_run ops i s'"; cases "so_get_run ops i s") simp_all
  then have "map report_view (child_records ops cs s') = map report_view (child_records ops cs s)" for cs
    by (simp add: child_records_def map_concat comp_def)
  then have "build_report pow g tid cs (child_records ops cs s') = build_report pow g tid cs (child_records ops cs s)"
    for g cs by (rule build_report_view)
  then show ?thesis by (simp add: reportable_def assms(2))
qed

lemma wp_aggregate_any:
  assumes ok: "ok (en_store e)" "tok (en_store e)" and there: "so_get_tournament ops tid (en_store e) \<noteq> None"
  shows "wp_s (aggregate_tournament ops pow fmt tid) e (\<lambda>e' res.
    only_tournament tid (en_store e) (en_store e') \<and> en_stream e' = en_stream e \<and>
    (if reportable pow tid (en_store e) then (\<exists>rep. res = Inr rep) \<and> up_to_date pow fmt tid (en_store e')
     else \<exists>exc. res = Inl exc))"
proof -
  from there obtain r cs where r: "so_get_tournament ops tid (en_store e) = Some r"
    "so_list_children ops tid (en_store e) = Some cs"
    using children_None [of tid "en_store e"] by auto
  let ?b = "build_report pow (fmt (en_clock e (en_ticks e))) tid cs (child_records ops cs (en_store e))"
  show ?thesis
  proof (cases ?b)
    case (Inl exc)
    then have "\<not> reportable pow tid (en_store e)"
      using r report_any_time [where g' = "fmt (en_clock e (en_ticks e))"] by (fastforce simp: reportable_def)
    then show ?thesis
      using ok aggregate_raises [where fmt = fmt, OF r Inl]
      by (simp add: wp_s_def only_tournament_def same_runs_def)
  next
    case (Inr rep)
    then have here: "reportable pow tid (en_store e)" using r by (auto simp: reportable_def)
    show ?thesis
      unfolding if_P [OF here]
    proof (rule wp_mono [OF wp_aggregate [where fmt = fmt, OF ok r Inr]], elim conjE exE, intro conjI)
      fix e' :: "'s env" and res r'
      assume a: "only_tournament tid (en_store e) (en_store e')"
        "so_get_tournament ops tid (en_store e') = Some r'" "aggregated rep r r'"
      have "child_records ops cs (en_store e') = child_records ops cs (en_store e)"
        using a(1) by (intro child_records_same) (simp add: only_tournament_def same_runs_def)
      then show "up_to_date pow fmt tid (en_store e')"
        using a r(2) Inr by (auto simp: up_to_date_def only_tournament_def aggregated_def)
    qed auto
  qed
qed

text \<open>The loop over the tournaments of a child.\<close>

definition parent :: "string \<Rightarrow> 's \<Rightarrow> string \<Rightarrow> bool" where
  "parent child s tid \<longleftrightarrow> list_ex (\<lambda>c. tc_child_run_id c = child) (children_of ops tid s)"

lemma only_tournament_there:
  "only_tournament tid s s' \<Longrightarrow> so_get_tournament ops i s' = None \<longleftrightarrow> so_get_tournament ops i s = None"
  using children_None [of i s] children_None [of i s'] by (simp only: only_tournament_def)

text \<open>What one pass of the loop, or several over the tournaments \<open>ts\<close>, have done.\<close>

definition refreshed :: "power_fun \<Rightarrow> (instant \<Rightarrow> string) \<Rightarrow> string \<Rightarrow> string set \<Rightarrow> 's env \<Rightarrow> 's env \<Rightarrow> unit result \<Rightarrow> bool" where
  "refreshed pow fmt run_id ts e e' res \<longleftrightarrow>
     reports_only {t. parent run_id (en_store e) t} (en_store e) (en_store e') \<and> en_stream e' = en_stream e \<and>
     (\<forall>i. so_get_tournament ops i (en_store e') = None \<longleftrightarrow> so_get_tournament ops i (en_store e) = None) \<and>
     (if \<forall>t \<in> ts. parent run_id (en_store e) t \<longrightarrow> reportable pow t (en_store e)
      then res = Inr () \<and>
        (\<forall>t. parent run_id (en_store e) t \<and> (t \<in> ts \<or> up_to_date pow fmt t (en_store e)) \<longrightarrow>
          up_to_date pow fmt t (en_store e'))
      else \<exists>exc. res = Inl exc)"

lemma wp_aggregate_one:
  assumes "ok (en_store e)" "tok (en_store e)"
    and there: "so_get_tournament ops (tr_tournament_id t) (en_store e) \<noteq> None"
  shows "wp_s (aggregate_if_parent ops pow fmt run_id t) e (refreshed pow fmt run_id {tr_tournament_id t} e)"
proof (cases "parent run_id (en_store e) (tr_tournament_id t)")
  case False
  then have "aggregate_if_parent ops pow fmt run_id t e = (e, Inr ())"
    by (simp add: aggregate_if_parent_def parent_def bind_s_def read_s_def return_s_def)
  then show ?thesis using False assms by (auto simp: wp_s_def refreshed_def reports_only_refl)
next
  case True
  let ?tid = "tr_tournament_id t"
  have eq: "wp_s (aggregate_if_parent ops pow fmt run_id t) e P = wp_s (aggregate_tournament ops pow fmt ?tid) e
      (\<lambda>e' res. P e' (bind_r res (\<lambda>_. Inr ())))" for P
    using True by (simp add: aggregate_if_parent_def parent_def wp_bind [of "read_s f" for f] wp_read wp_void)
  show ?thesis
    unfolding eq
  proof (rule wp_mono [OF wp_aggregate_any [OF assms]], elim conjE)
    fix e' :: "'s env" and res :: "tournament_report result"
    assume a: "only_tournament ?tid (en_store e) (en_store e')" "en_stream e' = en_stream e"
      "if reportable pow ?tid (en_store e) then (\<exists>rep. res = Inr rep) \<and> up_to_date pow fmt ?tid (en_store e')
       else \<exists>exc. res = Inl exc"
    have "up_to_date pow fmt i (en_store e')"
      if "reportable pow ?tid (en_store e)" "i = ?tid \<or> up_to_date pow fmt i (en_store e)" for i
      using that a(3) up_to_date_kept [OF a(1), of i] by (auto simp only: if_True)
    then show "refreshed pow fmt run_id {?tid} e e' (bind_r res (\<lambda>_. Inr ()))"
      using a True reports_only_one [OF a(1), of "{t. parent run_id (en_store e) t}"]
        only_tournament_there [OF a(1)] by (auto simp: refreshed_def)
  qed
qed

lemma parent_same: "reports_only T s s' \<Longrightarrow> parent run_id s' = parent run_id s"
  by (simp add: parent_def reports_only_views(3) fun_eq_iff)

lemma refreshed_trans:
  assumes a: "refreshed pow fmt run_id ts e e' (Inr ())" and b: "refreshed pow fmt run_id us e' e'' res"
  shows "refreshed pow fmt run_id (ts \<union> us) e e'' res"
proof -
  let ?T = "{t. parent run_id (en_store e) t}"
  have ab: "reports_only ?T (en_store e) (en_store e')" using a by (simp add: refreshed_def)
  note views = reports_only_views(5) [OF ab] parent_same [OF ab]
  have "reports_only ?T (en_store e) (en_store e'')"
    using reports_only_trans [OF ab] b by (simp add: refreshed_def views)
  then show ?thesis
    using a b by (auto simp: refreshed_def views split: if_splits)
qed

lemma wp_aggregate_list:
  assumes "ok (en_store e)" "tok (en_store e)"
    and "\<forall>t \<in> set ts. so_get_tournament ops (tr_tournament_id t) (en_store e) \<noteq> None"
  shows "wp_s (seq_s (aggregate_if_parent ops pow fmt run_id) ts) e
    (refreshed pow fmt run_id (tr_tournament_id ` set ts) e)"
  using assms
proof (induction ts arbitrary: e)
  case Nil
  then show ?case by (simp add: wp_return refreshed_def reports_only_refl)
next
  case (Cons t ts)
  have "so_get_tournament ops (tr_tournament_id t) (en_store e) \<noteq> None" using Cons.prems(3) by simp
  note step = wp_aggregate_one [OF Cons.prems(1,2) this]
  show ?case
    unfolding seq_s.simps wp_then
  proof (rule wp_mono [OF step])
    fix e' :: "'s env" and res :: "unit result"
    assume a: "refreshed pow fmt run_id {tr_tournament_id t} e e' res"
    show "case res of Inl exc \<Rightarrow> refreshed pow fmt run_id (tr_tournament_id ` set (t # ts)) e e' (Inl exc)
      | Inr _ \<Rightarrow> wp_s (seq_s (aggregate_if_parent ops pow fmt run_id) ts) e'
          (refreshed pow fmt run_id (tr_tournament_id ` set (t # ts)) e)"
    proof (cases res)
      case (Inl exc)
      then show ?thesis using a by (auto simp: refreshed_def)
    next
      case (Inr u)
      have "ok (en_store e')" "tok (en_store e')"
        using a by (simp_all add: refreshed_def reports_only_def same_runs_def)
      then have "wp_s (seq_s (aggregate_if_parent ops pow fmt run_id) ts) e'
          (refreshed pow fmt run_id (tr_tournament_id ` set ts) e')"
        by (rule Cons.IH) (use a Cons.prems(3) in \<open>simp add: refreshed_def\<close>)
      then show ?thesis
        using Inr refreshed_trans [of pow fmt run_id "{tr_tournament_id t}" e e' "tr_tournament_id ` set ts"] a
        by (auto elim: wp_mono)
    qed
  qed
qed

text \<open>
  After a run has ended the reports of all its tournaments are up to date, when they can be built;
  whatever happens no run, no link, no other tournament and no stream changes.
\<close>

lemma wp_aggregate_for_child:
  assumes "ok (en_store e)" "tok (en_store e)"
  shows "wp_s (aggregate_for_child ops pow fmt run_id) e (\<lambda>e' res.
    reports_only {t. parent run_id (en_store e) t} (en_store e) (en_store e') \<and> en_stream e' = en_stream e \<and>
    (if \<forall>t. parent run_id (en_store e) t \<longrightarrow> reportable pow t (en_store e)
     then res = Inr () \<and> (\<forall>t. parent run_id (en_store e) t \<longrightarrow> up_to_date pow fmt t (en_store e'))
     else \<exists>exc. res = Inl exc))"
proof -
  let ?ts = "so_list_tournaments ops (en_store e)"
  have there: "so_get_tournament ops (tr_tournament_id t) (en_store e) \<noteq> None" if "t \<in> set ?ts" for t
    using that list_tournaments [OF assms(2)] get_tournament_id [OF assms(2)] by fastforce
  have listed: "t \<in> tr_tournament_id ` set ?ts" if "parent run_id (en_store e) t" for t
  proof -
    from that obtain r where "so_get_tournament ops t (en_store e) = Some r"
      using children_None [of t "en_store e"]
      by (cases "so_get_tournament ops t (en_store e)") (simp_all add: parent_def children_of_def)
    then show ?thesis
      using list_tournaments [OF assms(2)] get_tournament_id [OF assms(2), of t r] by (auto simp: image_iff)
  qed
  show ?thesis
    unfolding aggregate_for_child_def wp_bind wp_read sum.case
    by (rule wp_mono [OF wp_aggregate_list [OF assms]]) (use there listed in \<open>auto simp: refreshed_def split: if_splits\<close>)
qed

end

end
