(* ===== verification/Tournament_Creation.thy ===== *)
theory Tournament_Creation
  imports Tournament_Service Queue_Inv
begin

text \<open>
  What creating a tournament does to the SQLite database: the parent, its child runs, their links and
  their rows in the run queue, one child after the other.
\<close>

type_synonym world = "sql_store \<times> queue_db"

definition world_ok :: "world \<Rightarrow> bool" where
  "world_ok v \<longleftrightarrow> sql_ok (fst v) \<and> sql_tournaments_ok (fst v)"

text \<open>The link of a child, and its run and queue row once it is made.\<close>

definition child_link :: "string \<Rightarrow> child_run_spec \<times> string \<Rightarrow> tournament_child" where
  "child_link tid x = \<lparr>tc_tournament_id = tid, tc_child_run_id = snd x, tc_child_key = sp_child_key (fst x),
     tc_run_type = sp_run_type (fst x), tc_dimensions = encode_json (sp_dimensions (fst x))\<rparr>"

definition child_made :: "int \<Rightarrow> world \<Rightarrow> child_run_spec \<times> string \<Rightarrow> bool" where
  "child_made priority v x \<longleftrightarrow>
     (\<exists>now. sql_get_run (snd x) (fst v) =
        Some (new_run now (snd x) (sp_run_type (fst x)) (encode_json (sp_config (fst x))))) \<and>
     (\<exists>item. get_item (snd x) (snd v) = Some item \<and> qi_status item = Pending \<and> qi_priority item = priority \<and>
        qi_attempts item = 0)"

definition unused :: "string \<Rightarrow> world \<Rightarrow> bool" where
  "unused i v \<longleftrightarrow> sql_get_run i (fst v) = None \<and> get_item i (snd v) = None"

text \<open>Between two worlds only the runs and rows of \<open>I\<close> and the links of \<open>tid\<close> differ.\<close>

definition only_child :: "string \<Rightarrow> string set \<Rightarrow> world \<Rightarrow> world \<Rightarrow> bool" where
  "only_child tid I v v' \<longleftrightarrow> world_ok v' \<and>
     (\<forall>i. i \<notin> I \<longrightarrow> sql_get_run i (fst v') = sql_get_run i (fst v) \<and> get_item i (snd v') = get_item i (snd v)) \<and>
     (\<forall>i. get_lease i (snd v') = get_lease i (snd v)) \<and> (\<forall>w. get_worker w (snd v') = get_worker w (snd v)) \<and>
     (\<forall>i. sql_get_tournament i (fst v') = sql_get_tournament i (fst v)) \<and>
     (\<forall>i. i \<noteq> tid \<longrightarrow> sql_list_children i (fst v') = sql_list_children i (fst v))"

lemma only_child_trans:
  "only_child tid I v v' \<Longrightarrow> only_child tid J v' v'' \<Longrightarrow> only_child tid (I \<union> J) v v''"
  by (simp add: only_child_def)

lemma wp_store_raise [wp_rules]:
  "wp_s (store_raise_s f) e P = (case f (en_store e) of (db, x) \<Rightarrow> P (e\<lparr>en_store := db\<rparr>) x)"
  by (simp add: wp_s_def store_raise_s_def split: prod.split)

lemma wp_create_child:
  assumes ok: "world_ok (en_store e)" and cs: "sql_list_children tid (fst (en_store e)) = Some cs"
    and new: "unused (snd x) (en_store e)"
  shows "wp_s (create_child (with_queue sql_ops) (Some run_queue_client) tid priority x) e (\<lambda>e' res. res = Inr () \<and>
    only_child tid {snd x} (en_store e) (en_store e') \<and> child_made priority (en_store e') x \<and>
    (\<exists>cs'. sql_list_children tid (fst (en_store e')) = Some cs' \<and> 
      links_by_key cs' = (links_by_key cs)(sp_child_key (fst x) \<mapsto> child_link tid x)))"
proof -
  obtain spec i where x: "x = (spec, i)" by fastforce
  obtain s q where w: "en_store e = (s, q)" by fastforce
  let ?now = "en_clock e (en_ticks e)" and ?now2 = "en_clock e (Suc (en_ticks e))"
  let ?config = "sp_config spec" and ?ty = "sp_run_type spec"
  have s: "sql_ok s" "sql_tournaments_ok s" "sql_get_run i s = None" "get_item i q = None"
    using ok new by (simp_all add: w x world_ok_def unused_def)
  obtain s1 where c1: "sql_create_run ?now i ?ty ?config s = (s1, Inr (new_run ?now i ?ty ?config))" "sql_ok s1"
      "\<And>j. sql_get_run j s1 = (if j = i then Some (new_run ?now i ?ty (encode_json ?config)) else sql_get_run j s)"
    using sql.create_run [of s i ?now ?ty ?config] s(1,3) by (auto simp: sql_ops_sel split: prod.splits)
  have t1: "same_tournaments sql_ops sql_tournaments_ok s s1"
    using sql_tournaments.create_run_keeps [OF s(2), of ?now i ?ty ?config] c1(1) by (simp add: sql_ops_sel)
  then have t1': "sql_tournaments_ok s1" "\<And>j. sql_list_children j s1 = sql_list_children j s"
    "\<And>j. sql_get_tournament j s1 = sql_get_tournament j s"
    by (simp_all add: same_tournaments_def sql_ops_sel)
  have cs1: "sql_list_children tid s1 = Some cs" using cs t1' by (simp add: w)
  obtain s2 cs' where c2: "sql_link_child tid i (sp_child_key spec) ?ty (sp_dimensions spec) s1 = (s2, Inr ())"
      "same_runs sql_ops sql_ok s1 s2" "sql_tournaments_ok s2"
      "\<And>j. sql_get_tournament j s2 = sql_get_tournament j s1"
      "\<And>j. j \<noteq> tid \<Longrightarrow> sql_list_children j s2 = sql_list_children j s1"
      "sql_list_children tid s2 = Some cs'"
      "links_by_key cs' = (links_by_key cs)(sp_child_key (fst x) \<mapsto> child_link tid x)"
    using sql_link_child_replaces [OF c1(2) t1'(1) cs1, of i "sp_child_key spec" ?ty "sp_dimensions spec"] c1(3)
    by (auto simp: x child_link_def split: prod.splits)
  have runs: "sql_ok s2" "\<And>j. sql_get_run j s2 = sql_get_run j s1"
    using c2(2) by (simp_all add: same_runs_def sql_ops_sel)
  have get: "get_item j (fst (enqueue ?now2 i priority None q)) =
      (if j = i then Some (new_item ?now2 i priority ?now2) else get_item j q)" for j
    using s(4) by (simp add: get_item_enqueue)
  then obtain q' where q: "enqueue ?now2 i priority None q = (q', Inr (new_item ?now2 i priority ?now2))"
      "\<And>j. get_item j q' = (if j = i then Some (new_item ?now2 i priority ?now2) else get_item j q)"
      "\<And>j. get_lease j q' = get_lease j q" "\<And>w. get_worker w q' = get_worker w q"
    using get_lease_enqueue [of _ ?now2 i priority None q]
    by (cases "enqueue ?now2 i priority None q") (auto simp: enqueue_def Let_def get_worker_def split: option.splits)
  show ?thesis
    using c1 c2 q runs t1'
    by (simp add: create_child_def wp_rules w x with_queue_sel sql_ops_sel on_store_def run_queue_client_def
        on_queue_def new_run_def [of ?now i ?ty ?config] only_child_def world_ok_def child_made_def)
      (auto simp: new_item_def)
qed

lemma child_made_kept:
  "only_child tid I v v' \<Longrightarrow> snd x \<notin> I \<Longrightarrow> child_made priority v x \<Longrightarrow> child_made priority v' x"
  by (simp add: only_child_def child_made_def)

text \<open>All children of a list are made, one after the other.\<close>

definition keyed_links :: "string \<Rightarrow> (child_run_spec \<times> string) list \<Rightarrow> string \<Rightarrow> tournament_child option" where
  "keyed_links tid xs = map_of (rev (map (\<lambda>x. (sp_child_key (fst x), child_link tid x)) xs))"

definition children_made ::
  "int \<Rightarrow> string \<Rightarrow> tournament_child list \<Rightarrow> (child_run_spec \<times> string) list \<Rightarrow> world \<Rightarrow> world \<Rightarrow> bool" where
  "children_made priority tid cs xs v v' \<longleftrightarrow> only_child tid (snd ` set xs) v v' \<and>
     (\<forall>x \<in> set xs. child_made priority v' x) \<and>
     (\<exists>cs'. sql_list_children tid (fst v') = Some cs' \<and> links_by_key cs' = links_by_key cs ++ keyed_links tid xs)"

lemma children_made_Cons:
  assumes "only_child tid {snd x} v v'" "child_made priority v' x"
    and "links_by_key cs' = (links_by_key cs)(sp_child_key (fst x) \<mapsto> child_link tid x)"
    and "children_made priority tid cs' xs v' v''" and "snd x \<notin> snd ` set xs"
  shows "children_made priority tid cs (x # xs) v v''"
proof -
  have rest: "only_child tid (snd ` set xs) v' v''" "\<forall>y \<in> set xs. child_made priority v'' y"
    and links: "\<exists>cs''. sql_list_children tid (fst v'') = Some cs'' \<and>
        links_by_key cs'' = links_by_key cs' ++ keyed_links tid xs"
    using assms(4) by (simp_all add: children_made_def)
  have "only_child tid ({snd x} \<union> snd ` set xs) v v''"
    by (rule only_child_trans [OF assms(1) rest(1)])
  moreover have "child_made priority v'' x" by (rule child_made_kept [OF rest(1) assms(5,2)])
  moreover have "links_by_key cs' ++ keyed_links tid xs = links_by_key cs ++ keyed_links tid (x # xs)"
    by (simp add: assms(3) keyed_links_def map_add_def fun_eq_iff split: option.split)
  ultimately show ?thesis using rest(2) links by (simp add: children_made_def)
qed

text \<open>Of the children with one key the last has the link.\<close>

lemma keyed_links_last:
  assumes "keyed_links tid xs k = Some c"
  shows "\<exists>n < length xs. sp_child_key (fst (xs ! n)) = k \<and> c = child_link tid (xs ! n) \<and>
    (\<forall>m. n < m \<and> m < length xs \<longrightarrow> sp_child_key (fst (xs ! m)) \<noteq> k)"
  using assms
proof (induction xs rule: rev_induct)
  case (snoc x xs)
  show ?case
  proof (cases "sp_child_key (fst x) = k")
    case True
    then show ?thesis
      using snoc.prems by (intro exI [of _ "length xs"]) (auto simp: keyed_links_def)
  next
    case False
    then have "keyed_links tid xs k = Some c" using snoc.prems by (simp add: keyed_links_def)
    from snoc.IH [OF this] obtain n where n: "n < length xs" "sp_child_key (fst (xs ! n)) = k"
      "c = child_link tid (xs ! n)" "\<forall>m. n < m \<and> m < length xs \<longrightarrow> sp_child_key (fst (xs ! m)) \<noteq> k" by blast
    then show ?thesis
      using False by (intro exI [of _ n]) (auto simp: nth_append less_Suc_eq)
  qed
qed (simp add: keyed_links_def)

lemma keyed_links_dom: "dom (keyed_links tid xs) = (\<lambda>x. sp_child_key (fst x)) ` set xs"
  by (simp add: keyed_links_def dom_map_of_conv_image_fst image_image)

lemma links_listed_keyed:
  assumes "sql_tournaments_ok s" and "sql_list_children tid s = Some cs" and "links_by_key cs = keyed_links tid xs"
  shows "map tc_child_key cs = sorted_list_of_set ((\<lambda>x. sp_child_key (fst x)) ` set xs)"
    and "c \<in> set cs \<Longrightarrow> \<exists>n < length xs. c = child_link tid (xs ! n) \<and>
      (\<forall>m. n < m \<and> m < length xs \<longrightarrow> sp_child_key (fst (xs ! m)) \<noteq> sp_child_key (fst (xs ! n)))"
proof -
  note listed = links_listed [OF assms(1,2)]
  have "set (map tc_child_key cs) = dom (links_by_key cs)"
    by (simp add: links_by_key_def dom_map_of_conv_image_fst image_image)
  then have keys: "set (map tc_child_key cs) = (\<lambda>x. sp_child_key (fst x)) ` set xs"
    by (simp only: assms(3) keyed_links_dom)
  then show "map tc_child_key cs = sorted_list_of_set ((\<lambda>x. sp_child_key (fst x)) ` set xs)"
    using listed(1,2) by (metis sorted_list_of_set.idem_if_sorted_distinct)
  assume "c \<in> set cs"
  then have "links_by_key cs (tc_child_key c) = Some c"
    using listed(2) by (simp add: links_by_key_def comp_def map_of_eq_Some_iff)
  then show "\<exists>n < length xs. c = child_link tid (xs ! n) \<and>
      (\<forall>m. n < m \<and> m < length xs \<longrightarrow> sp_child_key (fst (xs ! m)) \<noteq> sp_child_key (fst (xs ! n)))"
    using keyed_links_last [of tid xs "tc_child_key c" c] by (auto simp: assms(3))
qed

lemma wp_create_children:
  assumes "world_ok (en_store e)" and "sql_list_children tid (fst (en_store e)) = Some cs"
    and "\<forall>x \<in> set xs. unused (snd x) (en_store e)" and "distinct (map snd xs)"
  shows "wp_s (seq_s (create_child (with_queue sql_ops) (Some run_queue_client) tid priority) xs) e
    (\<lambda>e' res. res = Inr () \<and> children_made priority tid cs xs (en_store e) (en_store e'))"
  using assms
proof (induction xs arbitrary: e cs)
  case Nil
  then show ?case by (simp add: wp_return children_made_def only_child_def keyed_links_def)
next
  case (Cons x xs)
  have "unused (snd x) (en_store e)" using Cons.prems(3) by simp
  note step = wp_create_child [OF Cons.prems(1,2) this, of priority]
  have fresh: "snd x \<notin> snd ` set xs" using Cons.prems(4) by simp
  show ?case
    unfolding seq_s.simps wp_then
  proof (rule wp_mono [OF step], elim conjE exE)
    fix e' :: "world env" and res :: "unit result" and cs'
    assume a: "res = Inr ()" "only_child tid {snd x} (en_store e) (en_store e')" "child_made priority (en_store e') x"
      "sql_list_children tid (fst (en_store e')) = Some cs'" 
      "links_by_key cs' = (links_by_key cs)(sp_child_key (fst x) \<mapsto> child_link tid x)"
    have ok: "world_ok (en_store e')" using a(2) by (simp add: only_child_def)
    have others: "\<forall>y \<in> set xs. unused (snd y) (en_store e')"
    proof
      fix y assume "y \<in> set xs"
      moreover from this have "snd y \<noteq> snd x" using fresh by (metis image_eqI)
      ultimately show "unused (snd y) (en_store e')"
        using Cons.prems(3) a(2) by (simp add: unused_def only_child_def)
    qed
    have "wp_s (seq_s (create_child (with_queue sql_ops) (Some run_queue_client) tid priority) xs) e'
      (\<lambda>e'' res'. res' = Inr () \<and> children_made priority tid cs' xs (en_store e') (en_store e''))"
      by (rule Cons.IH [OF ok a(4) others]) (use Cons.prems in simp)
    then have "wp_s (seq_s (create_child (with_queue sql_ops) (Some run_queue_client) tid priority) xs) e'
      (\<lambda>e'' res'. res' = Inr () \<and> children_made priority tid cs (x # xs) (en_store e) (en_store e''))"
      by (rule wp_mono) (use children_made_Cons [OF a(2,3,5) _ fresh] in blast)
    then show "case res of
        Inl exc \<Rightarrow> (Inl exc :: unit result) = Inr () \<and> children_made priority tid cs (x # xs) (en_store e) (en_store e')
      | Inr u \<Rightarrow> wp_s (seq_s (create_child (with_queue sql_ops) (Some run_queue_client) tid priority) xs) e'
          (\<lambda>e'' res'. res' = Inr () \<and> children_made priority tid cs (x # xs) (en_store e) (en_store e''))"
      by (simp add: a(1))
  qed
qed

text \<open>None of the new children has ended.\<close>

lemma count_new_children:
  assumes "\<And>c. c \<in> set cs \<Longrightarrow> \<exists>r. so_get_run ops (tc_child_run_id c) s = Some r \<and> rr_status r = Pending"
    and "st \<noteq> Pending"
  shows "count_children ops st cs s = 0"
  using assms by (fastforce simp: count_children_def filter_empty_conv)

end
