(* ===== verification/Tournament_Props.thy ===== *)
theory Tournament_Props
  imports Tournament_Creation
begin

text \<open>
  Properties of tournaments: how a configuration expands into child runs, what creation leaves in the
  database and in the queue, and what a report says. The sample tournament sets two strategies
  against each other on two seeds.
\<close>

section \<open>Samples\<close>

definition sample_sweep :: tournament_config where
  "sample_sweep = \<lparr>to_mode = None, to_priority = 3, to_tournament_type = Parameter_sweep,
     to_strategies = [''m''], to_scenarios = [], to_symbols = [''X''], to_seeds = [1], to_steps = 2,
     to_initial_cash = 10, to_participant_counts = [1], to_volatility_ranges = [float_zero],
     to_strategy_parameters = [(''w'', [PInt 1, PInt 2])], to_parameter_sweep = None\<rparr>"

definition sample_text :: error_text where
  "sample_text model bad = model"

text \<open>It expands into two children with keys of their own.\<close>

lemma sample_sweep_expands:
  obtains a b where "expand_tournament sample_text sample_sweep = Inr [a, b]" "sp_child_key a \<noteq> sp_child_key b"
proof -
  have "case expand_tournament sample_text sample_sweep of
      Inr [a, b] \<Rightarrow> sp_child_key a \<noteq> sp_child_key b | _ \<Rightarrow> False" by code_simp
  with that show ?thesis by (auto split: sum.splits list.splits)
qed

definition empty_world :: "world env" where
  "empty_world = \<lparr>en_store = (empty_sql, new_queue 30), en_stream = None, en_clock = int, en_ticks = 0\<rparr>"

section \<open>Creation\<close>

lemma wp_to_tournament_run:
  assumes "so_get_tournament ops tid (en_store e) = Some r"
  shows "wp_s (get_tournament_s ops tid) e P = P e (Inr (to_tournament_run ops r (en_store e)))"
  using assms by (simp add: get_tournament_s_def wp_rules wp_require_tournament)

lemma made_pending:
  "child_made priority v x \<Longrightarrow> \<exists>r. sql_get_run (snd x) (fst v) = Some r \<and> rr_status r = Pending"
  by (auto simp: child_made_def new_run_def)

text \<open>The parent as it stands once it is created and marked as running.\<close>

lemma wp_start_tournament:
  assumes "world_ok (en_store e)" and "sql_get_tournament tid (fst (en_store e)) = None"
    and "\<And>e'. world_ok (en_store e') \<Longrightarrow> snd (en_store e') = snd (en_store e) \<Longrightarrow>
      (\<And>i. sql_get_run i (fst (en_store e')) = sql_get_run i (fst (en_store e))) \<Longrightarrow>
      (\<exists>now. sql_get_tournament tid (fst (en_store e')) =
        Some ((new_tournament now tid kind (encode_json config))
          \<lparr>tr_status := Running, tr_started_at := Some (en_clock e (Suc (en_ticks e)))\<rparr>)) \<Longrightarrow>
      (\<And>i. i \<noteq> tid \<Longrightarrow> sql_get_tournament i (fst (en_store e')) = sql_get_tournament i (fst (en_store e))) \<Longrightarrow>
      (\<And>i. sql_list_children i (fst (en_store e')) =
        (if i = tid then Some [] else sql_list_children i (fst (en_store e)))) \<Longrightarrow> wp_s (k tid) e' P"
  shows "wp_s (bind_s now_s (\<lambda>now.
      bind_s (store_raise_s (so_create_tournament (with_queue sql_ops) now tid kind config)) (\<lambda>record.
      bind_s now_s (\<lambda>started_at.
      bind_s (store_s (so_update_tournament (with_queue sql_ops) (tr_tournament_id record) (Some Running)
               (Some started_at) None None None)) (\<lambda>_. k (tr_tournament_id record)))))) e P"
proof -
  obtain s q where w: "en_store e = (s, q)" by fastforce
  let ?now = "en_clock e (en_ticks e)" and ?started = "en_clock e (Suc (en_ticks e))"
  have ok: "sql_ok s" "sql_tournaments_ok s" "sql_get_tournament tid s = None"
    using assms(1,2) by (simp_all add: w world_ok_def)
  obtain s1 where c1: "sql_create_tournament ?now tid kind config s = (s1, Inr (new_tournament ?now tid kind config))"
      "same_runs sql_ops sql_ok s s1" "sql_tournaments_ok s1"
      "\<And>i. sql_get_tournament i s1 = (if i = tid then Some (new_tournament ?now tid kind (encode_json config))
          else sql_get_tournament i s)"
      "\<And>i. sql_list_children i s1 = (if i = tid then Some [] else sql_list_children i s)"
    using sql_create_tournament_laws [OF ok, of ?now kind config] by (auto split: prod.splits)
  have ok1: "sql_ok s1" and runs1: "\<And>i. sql_get_run i s1 = sql_get_run i s"
    using c1(2) by (simp_all add: same_runs_def sql_ops_sel)
  obtain s2 where c2: "sql_update_tournament tid (Some Running) (Some ?started) None None None s1 =
        (s2, sql_get_tournament tid s2)"
      "same_runs sql_ops sql_ok s1 s2" "sql_tournaments_ok s2"
      "\<And>i. sql_get_tournament i s2 = (if i = tid
         then map_option (apply_tournament_update (Some Running) (Some ?started) None None None)
           (sql_get_tournament i s1) else sql_get_tournament i s1)"
      "\<And>i. sql_list_children i s2 = sql_list_children i s1"
    using sql_update_tournament_laws [OF ok1 c1(3), of tid "Some Running" "Some ?started" None None None]
    by (auto split: prod.splits)
  have ok2: "sql_ok s2" and runs2: "\<And>i. sql_get_run i s2 = sql_get_run i s1"
    using c2(2) by (simp_all add: same_runs_def sql_ops_sel)
  let ?e = "e\<lparr>en_ticks := Suc (Suc (en_ticks e)), en_store := (s2, q)\<rparr>"
  have "wp_s (k tid) ?e P"
    by (rule assms(3)) (use c1(4,5) c2(3,4,5) ok2 runs1 runs2 in
      \<open>auto simp: w world_ok_def apply_tournament_update_def new_tournament_def or_else_def\<close>)
  then show ?thesis
    using c1(1) c2(1)
    by (simp add: wp_rules w with_queue_sel sql_ops_sel on_store_def new_tournament_def)
qed

text \<open>C33 (creating a tournament). When a configuration expands into children and the new ids are unused,
  \<open>run_tournament\<close> on the database returns a running tournament, none of its children completed or failed.
  Every child of the expansion gets a pending run with its configuration, and a queue row that is pending,
  unclaimed and has the priority of the request. The links of the tournament, in the order of their keys,
  are one for each key of the expansion, and it belongs to the last child with that key: of children with
  the same key, as a repeated seed gives, only the last is a child of the tournament, and its child count
  is the number of keys, all children when the keys are distinct. No other run or queue row, no lease or
  worker, no other tournament and no other links have changed.\<close>

theorem run_tournament_creates:
  assumes "sql_ok (fst (en_store e))" and "sql_tournaments_ok (fst (en_store e))"
    and specs: "expand_tournament et request = Inr specs"
    and "sql_get_tournament tid (fst (en_store e)) = None" and ids: "inj_on ids {..<length specs}"
    and "\<forall>n < length specs. sql_get_run (ids n) (fst (en_store e)) = None \<and> get_item (ids n) (snd (en_store e)) = None"
  shows "case run_tournament et (with_queue sql_ops) (Some run_queue_client) tid ids request e of (e', res) \<Rightarrow>
    (\<exists>run. res = Inr run \<and> tu_tournament_id run = tid \<and> tu_status run = Running \<and>
       tu_tournament_type run = tournament_type_str (to_tournament_type request) \<and>
       tu_config run = encode_json (dump_tournament request) \<and>
       tu_child_count run = card (sp_child_key ` set specs) \<and>
       (distinct (map sp_child_key specs) \<longrightarrow> tu_child_count run = length specs) \<and>
       tu_completed_child_count run = 0 \<and> tu_failed_child_count run = 0) \<and>
    (\<exists>cs. sql_list_children tid (fst (en_store e')) = Some cs \<and>
       map tc_child_key cs = sorted_list_of_set (sp_child_key ` set specs) \<and>
       (\<forall>c \<in> set cs. \<exists>n < length specs. c = child_link tid (specs ! n, ids n) \<and>
          (\<forall>m. n < m \<and> m < length specs \<longrightarrow> sp_child_key (specs ! m) \<noteq> sp_child_key (specs ! n)))) \<and>
    (\<forall>n < length specs. child_made (to_priority request) (en_store e') (specs ! n, ids n)) \<and>
    (\<forall>i. i \<notin> ids ` {..<length specs} \<longrightarrow> sql_get_run i (fst (en_store e')) = sql_get_run i (fst (en_store e)) \<and>
       get_item i (snd (en_store e')) = get_item i (snd (en_store e))) \<and>
    (\<forall>i. get_lease i (snd (en_store e')) = get_lease i (snd (en_store e))) \<and>
    (\<forall>w. get_worker w (snd (en_store e')) = get_worker w (snd (en_store e))) \<and>
    (\<forall>i. i \<noteq> tid \<longrightarrow> sql_get_tournament i (fst (en_store e')) = sql_get_tournament i (fst (en_store e)) \<and>
       sql_list_children i (fst (en_store e')) = sql_list_children i (fst (en_store e)))"
    (is "case ?run of (e', res) \<Rightarrow> ?post e' res")
proof -
  define xs where "xs = zip specs (map ids [0..<length specs])"
  have xs: "xs = map (\<lambda>n. (specs ! n, ids n)) [0..<length specs]"
    unfolding xs_def by (rule nth_equalityI) simp_all
  have set_xs: "set xs = (\<lambda>n. (specs ! n, ids n)) ` {..<length specs}" "snd ` set xs = ids ` {..<length specs}"
    by (simp_all add: xs image_image atLeast0LessThan)
  have dist: "distinct (map snd xs)"
    using ids by (simp add: xs_def distinct_map atLeast0LessThan)
  have keys: "(\<lambda>x. sp_child_key (fst x)) ` set xs = sp_child_key ` set specs"
    by (simp add: xs image_image atLeast0LessThan) (metis atLeast0LessThan image_image list.set_map map_nth set_upt)
  let ?children = "seq_s (create_child (with_queue sql_ops) (Some run_queue_client) tid (to_priority request)) xs"
  have "wp_s (run_tournament et (with_queue sql_ops) (Some run_queue_client) tid ids request) e ?post"
    unfolding run_tournament_def specs sum.case xs_def [symmetric]
  proof (rule wp_start_tournament)
    show "world_ok (en_store e)" using assms(1,2) by (simp add: world_ok_def)
    fix e1 :: "world env"
    assume e1: "world_ok (en_store e1)" "snd (en_store e1) = snd (en_store e)"
      "\<And>i. sql_get_run i (fst (en_store e1)) = sql_get_run i (fst (en_store e))"
      "\<exists>now. sql_get_tournament tid (fst (en_store e1)) =
        Some ((new_tournament now tid (tournament_type_str (to_tournament_type request))
            (encode_json (dump_tournament request)))
          \<lparr>tr_status := Running, tr_started_at := Some (en_clock e (Suc (en_ticks e)))\<rparr>)"
      "\<And>i. i \<noteq> tid \<Longrightarrow> sql_get_tournament i (fst (en_store e1)) = sql_get_tournament i (fst (en_store e))"
      "\<And>i. sql_list_children i (fst (en_store e1)) =
        (if i = tid then Some [] else sql_list_children i (fst (en_store e)))"
    from e1(4) obtain r where r: "sql_get_tournament tid (fst (en_store e1)) = Some r" "tr_status r = Running"
      "tr_tournament_id r = tid" "tr_tournament_type r = tournament_type_str (to_tournament_type request)"
      "tr_config r = encode_json (dump_tournament request)" by (auto simp: new_tournament_def)
    have unused: "\<forall>x \<in> set xs. unused (snd x) (en_store e1)"
      using assms(6) e1(2,3) by (auto simp: set_xs unused_def)
    have "wp_s ?children e1 (\<lambda>e' res. res = Inr () \<and>
        children_made (to_priority request) tid [] xs (en_store e1) (en_store e'))"
      by (rule wp_create_children [OF e1(1) _ unused dist]) (simp add: e1(6))
    then show "wp_s (bind_s ?children (\<lambda>_. get_tournament_s (with_queue sql_ops) tid)) e1 ?post"
      unfolding wp_bind
    proof (rule wp_mono, elim conjE)
      fix e' :: "world env" and res :: "unit result"
      assume res: "res = Inr ()" and made: "children_made (to_priority request) tid [] xs (en_store e1) (en_store e')"
      from made obtain cs where cs: "sql_list_children tid (fst (en_store e')) = Some cs"
        "links_by_key cs = keyed_links tid xs" by (auto simp: children_made_def links_by_key_def)
      have others: "only_child tid (snd ` set xs) (en_store e1) (en_store e')"
        and all: "\<forall>x \<in> set xs. child_made (to_priority request) (en_store e') x"
        using made by (simp_all add: children_made_def)
      have tok: "sql_tournaments_ok (fst (en_store e'))" using others by (simp add: only_child_def world_ok_def)
      note listed = links_listed_keyed [OF tok cs]
      have nth: "length xs = length specs" "\<And>n. n < length specs \<Longrightarrow> xs ! n = (specs ! n, ids n)" by (simp_all add: xs)
      have get: "sql_get_tournament tid (fst (en_store e')) = Some r"
        using others r(1) by (simp add: only_child_def)
      have pending: "\<exists>r. so_get_run (with_queue sql_ops) (tc_child_run_id c) (en_store e') = Some r \<and>
          rr_status r = Pending" if "c \<in> set cs" for c
      proof -
        from listed(2) [OF that] obtain x where "x \<in> set xs" "c = child_link tid x" by (metis nth_mem)
        with all made_pending [of "to_priority request" "en_store e'" x]
        show ?thesis by (simp add: with_queue_sel sql_ops_sel child_link_def)
      qed
      have none: "count_children (with_queue sql_ops) st cs (en_store e') = 0" if "st \<noteq> Pending" for st
        using pending that by (rule count_new_children)
      have n: "length cs = card (sp_child_key ` set specs)"
        using arg_cong [OF listed(1), of length] by (simp add: keys)
      have distinct: "card (sp_child_key ` set specs) = length specs" if "distinct (map sp_child_key specs)"
        using distinct_card [OF that] by simp
      have links: "map tc_child_key cs = sorted_list_of_set (sp_child_key ` set specs)"
        "\<forall>c \<in> set cs. \<exists>n < length specs. c = child_link tid (specs ! n, ids n) \<and>
          (\<forall>m. n < m \<and> m < length specs \<longrightarrow> sp_child_key (specs ! m) \<noteq> sp_child_key (specs ! n))"
        using listed nth by (simp_all add: keys) metis
      have "?post e' (Inr (to_tournament_run (with_queue sql_ops) r (en_store e')))"
        using r n distinct none cs(1) links all [unfolded set_xs(1)] others [unfolded only_child_def set_xs(2)] e1(2,3,5,6)
        by (simp add: to_tournament_run_def Let_def children_of_def with_queue_sel sql_ops_sel)
      then show "case res of Inl exc \<Rightarrow> ?post e' (Inl exc)
          | Inr u \<Rightarrow> wp_s (get_tournament_s (with_queue sql_ops) tid) e' ?post"
        using get distinct by (simp add: res wp_to_tournament_run with_queue_sel sql_ops_sel)
    qed
  qed (use assms(4) in simp)
  then show ?thesis by (simp add: wp_s_def)
qed

theorem run_tournament_creates_witness:
  "case run_tournament sample_text (with_queue sql_ops) (Some run_queue_client) ''t''
      (\<lambda>n. replicate n (CHR ''r'')) sample_sweep empty_world of
    (e', res) \<Rightarrow> (\<exists>run. res = Inr run \<and> tu_child_count run = 2) \<and>
      (\<exists>item. get_item ''r'' (snd (en_store e')) = Some item \<and> qi_status item = Pending \<and> qi_priority item = 3)"
proof -
  obtain a b where ab: "expand_tournament sample_text sample_sweep = Inr [a, b]"
    "sp_child_key a \<noteq> sp_child_key b" by (rule sample_sweep_expands)
  have "inj_on (\<lambda>n. replicate n (CHR ''r'')) {..<length [a, b]}" by (simp add: inj_on_def)
  moreover have "to_priority sample_sweep = 3" by (simp add: sample_sweep_def)
  ultimately show ?thesis
    using run_tournament_creates [OF _ _ ab(1), of empty_world "''t''" "\<lambda>n. replicate n (CHR ''r'')"] ab(2)
      sql_ok_empty
    by (fastforce simp: empty_world_def sql_tournaments_ok_def empty_sql_def sql_get_tournament_def
        sql_get_run_def new_queue_def get_item_def child_made_def All_less_Suc)
qed

section \<open>Reports\<close>

lemma length_filter_sort_key [simp]: "length (filter P (sort_key f xs)) = length (filter P xs)"
  by (metis mset_filter mset_sort size_mset)

lemma item_row_status: "length (filter (\<lambda>i. ri_status i = st) xs) =
    length (filter (\<lambda>row. snd (snd row) = st) (map item_row xs))"
  by (simp add: filter_map comp_def item_row_def)

lemma link_row_status: "filter (\<lambda>row. snd (snd row) = st) (map (link_row runs) ls) =
    map (link_row runs) (filter (\<lambda>l. link_status runs l = st) ls)"
  by (simp add: filter_map comp_def link_row_def)

lemma length_finished:
  "length (filter (\<lambda>l. link_status runs l = Completed) ls) + length (filter (\<lambda>l. link_status runs l = Failed) ls) +
     length (filter (\<lambda>l. link_status runs l = Canceled) ls) = length (filter (\<lambda>l. finished (link_status runs l)) ls)"
  by (induction ls) (auto simp: finished_def)

lemma length_filter_all: "length (filter P xs) = length xs \<longleftrightarrow> (\<forall>x \<in> set xs. P x)"
  by (metis filter_True filter_id_conv length_filter_less less_irrefl)

text \<open>C34 (the report of a tournament). A report ranks exactly the completed children, then lists the failed
  and the canceled ones by key; a child whose run is missing counts as failed. The ranks are 1, 2, ..
  through both lists. Without NaN scores or equities no entry is below a later one. The counts are
  those of the children; the status is completed when every child has ended, and failed when there
  is none.\<close>

theorem tournament_report_ranks:
  assumes "build_report pow now tid links runs = Inr rep"
  shows "mset (map item_row (tp_results rep)) =
      mset (map (link_row runs) (filter (\<lambda>l. link_status runs l = Completed) links)) \<and>
    map item_row (tp_failures rep) =
      map (link_row runs) (filter (\<lambda>l. link_status runs l \<in> {Failed, Canceled}) (sort_key tc_child_key links)) \<and>
    map ri_rank (tp_results rep @ tp_failures rep) =
      [1..<Suc (length (tp_results rep) + length (tp_failures rep))] \<and>
    (set (tp_results rep) \<subseteq> rankable \<longrightarrow> sorted_wrt (\<lambda>a b. \<not> rank_lt a b) (tp_results rep)) \<and>
    tp_child_count rep = length links \<and>
    tp_completed_child_count rep = length (filter (\<lambda>l. link_status runs l = Completed) links) \<and>
    tp_failed_child_count rep = length (filter (\<lambda>l. link_status runs l = Failed) links) \<and>
    tp_status rep = (if links = [] then Failed
      else if \<forall>l \<in> set links. finished (link_status runs l) then Completed else Running)"
proof -
  obtain os where os: "map_r (child_outcome_of pow (map_of (rev (map (\<lambda>r. (rr_run_id r, r)) runs))))
       (sort_key tc_child_key links) = Inr os"
    "tp_results rep = with_ranks 1 (py_sorted_reverse rank_lt (ranked_items os))"
    "tp_failures rep = with_ranks (length (ranked_items os) + 1) (unranked_items os)"
    "tp_child_count rep = length links"
    "tp_completed_child_count rep = length (ranked_items os)"
    "tp_failed_child_count rep = length (filter (\<lambda>i. ri_status i = Failed) (unranked_items os))"
    "tp_status rep = (if links = [] then Failed
       else if length (ranked_items os) + length (filter (\<lambda>i. ri_status i = Failed) (unranked_items os)) +
               length (filter (\<lambda>i. ri_status i = Canceled) (unranked_items os)) = length links
       then Completed else Running)"
    by (rule build_report_Inr [OF assms], rule that) assumption+
  note rows = outcome_rows [OF os(1)]
  have unranked: "length (filter (\<lambda>i. ri_status i = st) (unranked_items os)) =
      length (filter (\<lambda>l. link_status runs l = st) links)" if "st \<in> {Failed, Canceled}" for st
  proof -
    have "filter (\<lambda>l. link_status runs l = st) (filter (\<lambda>l. link_status runs l \<in> {Failed, Canceled}) ls) =
        filter (\<lambda>l. link_status runs l = st) ls" for ls
      using that by (auto simp: filter_filter intro!: filter_cong)
    then show ?thesis unfolding item_row_status rows(2) link_row_status by simp
  qed
  have ranked: "length (ranked_items os) = length (filter (\<lambda>l. link_status runs l = Completed) links)"
    using arg_cong [OF rows(1), of length] by simp
  show ?thesis
  proof (intro conjI impI)
    have "mset (map item_row (tp_results rep)) = mset (map item_row (ranked_items os))"
      by (simp add: os(2) del: mset_map) (simp add: mset_map)
    then show "mset (map item_row (tp_results rep)) =
        mset (map (link_row runs) (filter (\<lambda>l. link_status runs l = Completed) links))"
      by (simp add: rows(1) mset_filter)
    show "map item_row (tp_failures rep) = map (link_row runs)
        (filter (\<lambda>l. link_status runs l \<in> {Failed, Canceled}) (sort_key tc_child_key links))"
      by (simp only: os(3) with_ranks_rows rows(2))
    show "map ri_rank (tp_results rep @ tp_failures rep) =
        [1..<Suc (length (tp_results rep) + length (tp_failures rep))]"
      using upt_add_eq_append [of 1 "1 + length (ranked_items os)" "length (unranked_items os)"]
      by (simp add: os(2,3) with_ranks_ranks)
    show "sorted_wrt (\<lambda>a b. \<not> rank_lt a b) (tp_results rep)" if "set (tp_results rep) \<subseteq> rankable"
      using that ranking.sorted_reverse
      by (simp add: os(2) with_ranks_sorted with_ranks_rankable)
    show "tp_status rep = (if links = [] then Failed
        else if \<forall>l \<in> set links. finished (link_status runs l) then Completed else Running)"
      using unranked ranked length_finished [of runs links]
        length_filter_all [of "\<lambda>l. finished (link_status runs l)" links] by (simp add: os(7))
    show "tp_failed_child_count rep = length (filter (\<lambda>l. link_status runs l = Failed) links)"
      using unranked by (simp add: os(6))
  qed (simp_all only: os(4,5) ranked)
qed

theorem tournament_report_ranks_witness:
  "\<exists>rep. build_report (\<lambda>x y. Inr x) ''now'' ''t''
      [child_link ''t'' (\<lparr>sp_child_key = ''k'', sp_run_type = Backtest, sp_config = [], sp_dimensions = []\<rparr>, ''r'')]
      [new_run 0 ''r'' Backtest [] \<lparr>rr_status := Canceled\<rparr>] = Inr rep \<and>
    map ri_rank (tp_failures rep) = [1] \<and> tp_status rep = Completed"
proof -
  let ?links = "[child_link ''t'' (\<lparr>sp_child_key = ''k'', sp_run_type = Backtest, sp_config = [],
    sp_dimensions = []\<rparr>, ''r'')]"
  let ?runs = "[new_run 0 ''r'' Backtest [] \<lparr>rr_status := Canceled\<rparr>]"
  have st: "link_status ?runs (child_link ''t'' (\<lparr>sp_child_key = ''k'', sp_run_type = Backtest, sp_config = [],
      sp_dimensions = []\<rparr>, ''r'')) = Canceled"
    by (simp add: link_status_def child_link_def new_run_def)
  obtain rep where rep: "build_report (\<lambda>x y. Inr x) ''now'' ''t'' ?links ?runs = Inr rep"
    by (simp add: build_report_def child_outcome_of_def child_link_def new_run_def Let_def)
  have rows: "tp_results rep = []" "\<exists>row. map item_row (tp_failures rep) = [row]" "tp_status rep = Completed"
    using tournament_report_ranks [OF rep] by (simp_all add: st finished_def link_row_def)
  then have "length (map item_row (tp_failures rep)) = 1" by fastforce
  then have "length (tp_failures rep) = 1" by simp
  then have "map ri_rank (tp_failures rep) = [1]"
    using tournament_report_ranks [OF rep] rows(1) by simp
  with rows rep show ?thesis by simp
qed

section \<open>Expansion\<close>

text \<open>Remark (expanding a tournament). An accepted configuration with symbols and the lists its type needs
  expands into one child per combination, in the order of the child keys.\<close>

theorem expansion_total:
  assumes "make_tournament et c0 = Inr c"
    and "to_parameter_sweep c0 = None \<or> (\<exists>s0 s. make_sweep et s0 = Inr s \<and> to_parameter_sweep c0 = Some s)"
    and "to_symbols c \<noteq> []" and "lists_given c (to_tournament_type c)"
  shows "\<exists>specs. expand_tournament et c = Inr specs \<and> length specs = child_count c (to_tournament_type c) \<and>
    sorted (map sp_child_key specs)"
proof -
  have "accepted_config c" by (rule make_tournament_accepted [OF assms(1)]) (use assms(2) in auto)
  from child_specs_total [OF this assms(3,4)] obtain raw where
    "child_specs et c (to_tournament_type c) = Inr raw" "length raw = child_count c (to_tournament_type c)" by blast
  then have "expand_tournament et c = Inr (sort_key sp_child_key raw)"
    "length (sort_key sp_child_key raw) = child_count c (to_tournament_type c)"
    by (simp_all add: expand_tournament_def)
  with expand_sorted show ?thesis by blast
qed

theorem expansion_total_witness:
  "\<exists>specs. expand_tournament sample_text sample_sweep = Inr specs \<and> length specs = 2"
proof -
  have "make_tournament sample_text sample_sweep = Inr sample_sweep" by code_simp
  from expansion_total [OF this] show ?thesis
    by (auto simp: sample_sweep_def parameter_combinations_def)
qed

text \<open>Remark (a sweep of identical runs). Every child of a parameter sweep runs the same backtest: the
  configurations of any two children are equal, whatever their seeds and parameters. Only the key and
  the dimensions record them.\<close>

theorem sweep_configs_identical:
  assumes "expand_tournament et c = Inr specs" and "to_tournament_type c = Parameter_sweep"
    and "s \<in> set specs" and "s' \<in> set specs"
  shows "sp_config s = sp_config s' \<and> sp_run_type s = sp_run_type s'"
proof -
  obtain raw where raw: "child_specs et c (to_tournament_type c) = Inr raw" "specs = sort_key sp_child_key raw"
    by (rule length_expand [OF assms(1)])
  with assms(3,4) have "s \<in> set raw" "s' \<in> set raw" by simp_all
  moreover have sweep: "parameter_sweep et c = Inr raw" using raw(1) assms(2) by simp
  ultimately show ?thesis
    using sweep_same_config [OF sweep] sweep_all_backtests [OF sweep] by metis
qed

theorem sweep_configs_identical_witness:
  "\<exists>a b. expand_tournament sample_text sample_sweep = Inr [a, b] \<and> sp_child_key a \<noteq> sp_child_key b \<and>
    sp_config a = sp_config b"
proof -
  obtain a b where ab: "expand_tournament sample_text sample_sweep = Inr [a, b]"
    "sp_child_key a \<noteq> sp_child_key b" by (rule sample_sweep_expands)
  moreover have "to_tournament_type sample_sweep = Parameter_sweep" by (simp add: sample_sweep_def)
  ultimately show ?thesis using sweep_configs_identical [OF ab(1), of a b] by simp
qed

end
