(* ===== verification/Service_Frames.thy ===== *)
theory Service_Frames
  imports Tournament_Service
begin

text \<open>
  What services leave alone: a fact about the store that every store operation they use keeps is kept
  by the whole call, whatever its outcome. The rules follow the combinators the services are built of.
\<close>

definition keeps :: "('w \<Rightarrow> bool) \<Rightarrow> ('w, 'a) svc \<Rightarrow> bool" where
  "keeps P m \<longleftrightarrow> (\<forall>e. P (en_store e) \<longrightarrow> P (en_store (fst (m e))))"

named_theorems keeps_intros "preservation by the service combinators"

lemma keepsI: "(\<And>e. P (en_store e) \<Longrightarrow> P (en_store (fst (m e)))) \<Longrightarrow> keeps P m"
  by (simp add: keeps_def)

lemma keepsD: "keeps P m \<Longrightarrow> P (en_store e) \<Longrightarrow> P (en_store (fst (m e)))"
  by (simp add: keeps_def)

lemma keeps_pure [keeps_intros]:
  "keeps P (return_s x)" "keeps P (raise_s exc)" "keeps P now_s" "keeps P (read_s f)" "keeps P (lift_s r)"
  "keeps P (option_s exc v)" "keeps P (close_stream_s i)" "keeps P (build_report_s pow fmt tid cs runs)"
  by (auto simp: keeps_def return_s_def raise_s_def now_s_def read_s_def lift_s_def option_s_def
      close_stream_s_def build_report_s_def split: option.split sum.split)

lemma keeps_bind [keeps_intros]: "keeps P m \<Longrightarrow> (\<And>x. keeps P (k x)) \<Longrightarrow> keeps P (bind_s m k)"
  unfolding keeps_def bind_s_def by (force split: prod.split sum.split)

lemma keeps_then [keeps_intros]: "keeps P m \<Longrightarrow> keeps P n \<Longrightarrow> keeps P (then_s m n)"
  by (simp add: then_s_def keeps_bind)

lemma keeps_catch [keeps_intros]: "keeps P m \<Longrightarrow> (\<And>exc. keeps P (h exc)) \<Longrightarrow> keeps P (catch_s m h)"
  unfolding keeps_def catch_s_def by (force split: prod.split sum.split)

lemma keeps_attempt [keeps_intros]: "keeps P m \<Longrightarrow> keeps P (attempt_s m outcome)"
  unfolding keeps_def attempt_s_def by (force split: prod.split sum.split)

lemma keeps_seq [keeps_intros]: "(\<And>x. keeps P (f x)) \<Longrightarrow> keeps P (seq_s f xs)"
  by (induction xs) (simp_all add: keeps_intros)

lemma keeps_store: "(\<And>s. P s \<Longrightarrow> P (fst (f s))) \<Longrightarrow> keeps P (store_s f)"
  by (auto simp: keeps_def store_s_def split: prod.split) (metis fst_conv)

lemma keeps_store_raise: "(\<And>s. P s \<Longrightarrow> P (fst (f s))) \<Longrightarrow> keeps P (store_raise_s f)"
  by (auto simp: keeps_def store_raise_s_def split: prod.split) (metis fst_conv)

lemma keeps_cases [keeps_intros]:
  "keeps P m \<Longrightarrow> keeps P n \<Longrightarrow> keeps P (if b then m else n)"
  "keeps P m \<Longrightarrow> (\<And>x. keeps P (k x)) \<Longrightarrow> keeps P (case v of None \<Rightarrow> m | Some x \<Rightarrow> k x)"
  "(\<And>exc. keeps P (h exc)) \<Longrightarrow> (\<And>x. keeps P (k' x)) \<Longrightarrow> keeps P (case r of Inl exc \<Rightarrow> h exc | Inr x \<Rightarrow> k' x)"
  "(\<And>a b. keeps P (f a b)) \<Longrightarrow> keeps P (case p of (a, b) \<Rightarrow> f a b)"
  by (simp_all split: option.split sum.split prod.split)

text \<open>The operations a run goes through once it is stored.\<close>

definition store_keeps :: "('w \<Rightarrow> bool) \<Rightarrow> 'w store_ops \<Rightarrow> bool" where
  "store_keeps P ops \<longleftrightarrow>
     (\<forall>i st sa ca err s. P s \<longrightarrow> P (fst (so_update_run ops i st sa ca err s))) \<and>
     (\<forall>i doc ev sn ac lg s. P s \<longrightarrow> P (fst (so_store_result ops i doc ev sn ac lg s))) \<and>
     (\<forall>i entry s. P s \<longrightarrow> P (fst (so_append_log ops i entry s)))"

lemma keeps_store_ops [keeps_intros]:
  assumes "store_keeps P ops"
  shows "keeps P (store_s (so_update_run ops i st sa ca err))"
    "keeps P (store_s (so_store_result ops i doc ev sn ac lg))" "keeps P (store_s (so_append_log ops i entry))"
  using assms by (auto simp: store_keeps_def intro!: keeps_store)

lemma keeps_publish [keeps_intros]:
  assumes "store_keeps P ops"
  shows "keeps P (publish_s ops cd i cat ty payload step)"
proof (rule keepsI)
  fix e :: "'a env"
  assume p: "P (en_store e)"
  show "P (en_store (fst (publish_s ops cd i cat ty payload step e)))"
    using assms p
    by (auto simp: store_keeps_def publish_s_def publish_def Let_def split: option.split sum.split prod.split)
qed

lemma keeps_execute_pending:
  assumes "store_keeps P ops"
  shows "keeps P (execute_pending_run ops cd eg i)"
proof -
  have fail: "keeps P (fail_record ops cd i err msg exc)" for i err msg exc
    unfolding fail_record_def by (intro keeps_intros assms)
  have streams: "keeps P (publish_result_streams ops cd i config r)" for i config r
    unfolding publish_result_streams_def by (intro keeps_intros assms)
  have finish: "keeps P (finish_record ops cd i config outcome)" for i config outcome
    unfolding finish_record_def
    by (intro keeps_intros) (auto split: py_exc.split intro!: keeps_intros assms fail streams)
  have "keeps P (execute_record ops cd i ty config executor)" for i ty config executor
    unfolding execute_record_def begin_record_def publish_progress_def
    by (intro keeps_intros assms finish)
  then show ?thesis
    unfolding execute_pending_run_def require_run_def
    by (intro keeps_intros) (auto split: run_type.split intro!: keeps_intros)
qed

lemma keeps_cancel:
  assumes "store_keeps P ops"
  shows "keeps P (cancel_run ops cd i)"
  unfolding cancel_run_def require_run_def by (intro keeps_intros assms)

lemma keeps_execute_benchmark:
  assumes "store_keeps P ops" and "\<And>b s. P s \<Longrightarrow> P (fst (bo_store bops b s))"
  shows "keeps P (execute_pending_benchmark ops bops xc engine i)"
  unfolding execute_pending_benchmark_def require_run_def benchmark_body_def benchmark_failed_def
  by (intro keeps_intros keeps_store_raise assms)

lemma keeps_aggregate_for_child:
  assumes "\<And>i st sa ca doc err s. P s \<Longrightarrow> P (fst (so_update_tournament ops i st sa ca doc err s))"
  shows "keeps P (aggregate_for_child ops pow fmt i)"
  unfolding aggregate_for_child_def aggregate_if_parent_def aggregate_tournament_def require_tournament_def
    require_children_def
  by (intro keeps_intros keeps_store assms)

text \<open>No operation of the store changes the queue, and none on runs changes a tournament.\<close>

lemma with_queue_keeps:
  "store_keeps (\<lambda>w. snd w = q) (with_queue ops)"
  "snd w = q \<Longrightarrow> snd (fst (so_update_tournament (with_queue ops) i st sa ca doc err w)) = q"
  "snd w = q \<Longrightarrow> snd (fst (bo_store (with_queue_benchmarks bops) b w)) = q"
  by (simp_all add: store_keeps_def with_queue_sel on_store_fst with_queue_benchmarks_def)

context tournament_store
begin

lemma same_tournaments_refl: "tok s \<Longrightarrow> same_tournaments ops tok s s"
  by (simp add: same_tournaments_def)

lemma same_tournaments_trans:
  "same_tournaments ops tok s s' \<Longrightarrow> same_tournaments ops tok s' s'' \<Longrightarrow> same_tournaments ops tok s s''"
  by (simp add: same_tournaments_def)

lemma run_ops_keep_tournaments: "store_keeps (same_tournaments ops tok s0) ops"
proof -
  have "same_tournaments ops tok s0 s \<Longrightarrow> tok s" for s by (simp add: same_tournaments_def)
  then show ?thesis
    unfolding store_keeps_def
    by (blast intro: same_tournaments_trans update_run_keeps store_result_keeps append_log_keeps)
qed

end

end
