(* ===== verification/Worker.thy ===== *)
theory Worker
  imports Service_Frames Queue_Inv
begin

text \<open>
  The worker process, \<open>sim/api/execution/worker.py\<close>, with the adapter that executes a stored run
  (\<open>executor.py\<close>) and the scheduler facade (\<open>scheduler.py\<close>). A worker acts on the world of run store
  and run queue: one pass of its polling loop is a service call, the loop counts passes and jobs.
  Waiting between passes is where other processes write to the database.
\<close>

section \<open>Dispatch\<close>

text \<open>The benchmark service of the executor, \<open>None\<close> when it is not configured.\<close>

record 'w benchmark_service =
  bv_ops :: "'w benchmark_ops"
  bv_codec :: text_codec
  bv_engine :: "pydict \<Rightarrow> benchmark_run result"

(* sim/api/execution/executor.py:17-25 execute *)
definition execute_stored ::
  "'w store_ops \<Rightarrow> stream_codec \<Rightarrow> engines \<Rightarrow> 'w benchmark_service option \<Rightarrow> string \<Rightarrow> ('w, run_detail) svc" where
  "execute_stored ops cd eg benchmarks run_id =
     bind_s (read_s (so_get_run ops run_id)) (\<lambda>record.
       if (case record of None \<Rightarrow> False | Some r \<Rightarrow> rr_run_type r = Benchmark) then
         (case benchmarks of
            None \<Rightarrow> raise_s (RuntimeError ''benchmark service is not configured'')
          | Some b \<Rightarrow> execute_pending_benchmark ops (bv_ops b) (bv_codec b) (bv_engine b) run_id)
       else execute_pending_run ops cd eg run_id)"

section \<open>The worker\<close>

text \<open>What the services of a worker are built from; \<open>wk_tournaments\<close> is \<open>None\<close> without that service.\<close>

(* sim/api/execution/worker.py:35-54 Worker (__init__) *)
record 's worker =
  wk_ops :: "('s \<times> queue_db) store_ops"
  wk_codec :: stream_codec
  wk_engines :: engines
  wk_benchmarks :: "('s \<times> queue_db) benchmark_service option"
  wk_tournaments :: "(power_fun \<times> (instant \<Rightarrow> string)) option"
  wk_worker_id :: string
  wk_hostname :: string
  wk_process_id :: int
  wk_max_jobs :: "int option"
  wk_once :: bool

text \<open>Calls of the queue, which read the clock themselves; a first heartbeat also registers.\<close>

definition queue_s :: "(instant \<Rightarrow> queue_db \<Rightarrow> queue_db \<times> 'a) \<Rightarrow> ('s \<times> queue_db, 'a) svc" where
  "queue_s f = bind_s now_s (\<lambda>now. store_s (on_queue (f now)))"

definition heartbeat_s :: "string \<Rightarrow> string \<Rightarrow> string option \<Rightarrow> pydict \<Rightarrow> ('s \<times> queue_db, unit) svc" where
  "heartbeat_s worker_id status current_run_id progress =
     bind_s now_s (\<lambda>now.
     bind_s (read_s (\<lambda>w. get_worker worker_id (snd w))) (\<lambda>existing.
     bind_s (case existing of None \<Rightarrow> now_s | Some _ \<Rightarrow> return_s now) (\<lambda>now_register.
     store_s (on_queue (\<lambda>q.
       (heartbeat now now_register worker_id status current_run_id progress None None q, ()))))))"

text \<open>\<open>try: m except Exception as exc: h else: k\<close>, and \<open>try: m finally: f\<close>.\<close>

definition try_else_s :: "('w, 'a) svc \<Rightarrow> (py_exc \<Rightarrow> ('w, 'b) svc) \<Rightarrow> ('w, 'b) svc \<Rightarrow> ('w, 'b) svc" where
  "try_else_s m h k e = (case m e of (e', Inl exc) \<Rightarrow> h exc e' | (e', Inr _) \<Rightarrow> k e')"

definition finally_s :: "('w, 'a) svc \<Rightarrow> ('w, unit) svc \<Rightarrow> ('w, 'a) svc" where
  "finally_s m f e =
     (case m e of (e', res) \<Rightarrow>
        (case f e' of (e'', Inl exc) \<Rightarrow> (e'', Inl exc) | (e'', Inr _) \<Rightarrow> (e'', res)))"

definition aggregate_s :: "'s worker \<Rightarrow> string \<Rightarrow> ('s \<times> queue_db, unit) svc" where
  "aggregate_s k run_id =
     (case wk_tournaments k of
        None \<Rightarrow> return_s ()
      | Some (pow, fmt) \<Rightarrow> aggregate_for_child (wk_ops k) pow fmt run_id)"

text \<open>The three parts of the \<open>try\<close> statement of a claimed run; the result says whether it completed.\<close>

(* sim/api/execution/worker.py:99-101 Worker.run (try) *)
definition run_job :: "'s worker \<Rightarrow> string \<Rightarrow> ('s \<times> queue_db, unit) svc" where
  "run_job k run_id =
     bind_s (execute_stored (wk_ops k) (wk_codec k) (wk_engines k) (wk_benchmarks k) run_id) (\<lambda>_.
     aggregate_s k run_id)"

(* sim/api/execution/worker.py:102-117 Worker.run (except) *)
definition job_failed :: "'s worker \<Rightarrow> string \<Rightarrow> py_exc \<Rightarrow> ('s \<times> queue_db, bool) svc" where
  "job_failed k run_id exc =
     bind_s (heartbeat_s (wk_worker_id k) ''busy'' (Some run_id)
              [(''phase'', PStr ''failed''), (''error'', PStr (exc_message exc))]) (\<lambda>_.
     bind_s (queue_s (\<lambda>now. mark_failed now run_id (exc_message exc))) (\<lambda>_.
     bind_s (store_s (so_append_log (wk_ops k) run_id
              [(''level'', PStr ''error''), (''message'', PStr ''worker execution failed''),
               (''error'', PStr (exc_message exc))])) (\<lambda>_.
     bind_s (aggregate_s k run_id) (\<lambda>_. return_s False))))"

(* sim/api/execution/worker.py:118-126 Worker.run (else) *)
definition job_completed :: "'s worker \<Rightarrow> string \<Rightarrow> ('s \<times> queue_db, bool) svc" where
  "job_completed k run_id =
     bind_s (heartbeat_s (wk_worker_id k) ''busy'' (Some run_id) [(''phase'', PStr ''completed'')]) (\<lambda>_.
     bind_s (queue_s (\<lambda>now. mark_completed now run_id)) (\<lambda>_. return_s True))"

(* sim/api/execution/worker.py:87-128 Worker.run (claimed run) *)
definition process_item :: "'s worker \<Rightarrow> string \<Rightarrow> ('s \<times> queue_db, bool) svc" where
  "process_item k run_id =
     bind_s (heartbeat_s (wk_worker_id k) ''busy'' (Some run_id) [(''phase'', PStr ''claimed'')]) (\<lambda>_.
     bind_s (store_s (so_append_log (wk_ops k) run_id
              [(''level'', PStr ''info''), (''message'', PStr ''worker claimed run''),
               (''worker_id'', PStr (wk_worker_id k))])) (\<lambda>_.
     finally_s
       (try_else_s (run_job k run_id) (job_failed k run_id) (job_completed k run_id))
       (heartbeat_s (wk_worker_id k) ''idle'' None [])))"

text \<open>How a pass of the loop ends: \<open>break\<close>, \<open>continue\<close> after a sleep, or a job that completed or failed.\<close>

datatype poll_end = Leave | Sleep | Job bool

(* sim/api/execution/worker.py:69-86 Worker.run (poll) *)
definition poll :: "'s worker \<Rightarrow> ('s \<times> queue_db, poll_end) svc" where
  "poll k =
     bind_s (read_s (\<lambda>w. get_worker (wk_worker_id k) (snd w))) (\<lambda>worker_record.
       if (case worker_record of None \<Rightarrow> False | Some r \<Rightarrow> wr_shutdown_requested r) then
         bind_s (heartbeat_s (wk_worker_id k) ''offline'' None []) (\<lambda>_. return_s Leave)
       else if (case worker_record of None \<Rightarrow> False | Some r \<Rightarrow> wr_drain_requested r) then
         bind_s (heartbeat_s (wk_worker_id k) ''idle'' None []) (\<lambda>_.
           return_s (if wk_once k then Leave else Sleep))
       else
         bind_s (queue_s (\<lambda>now. claim_next now (wk_worker_id k))) (\<lambda>item.
           case item of
             None \<Rightarrow>
               bind_s (heartbeat_s (wk_worker_id k) ''idle'' None []) (\<lambda>_.
                 return_s (if wk_once k then Leave else Sleep))
           | Some item \<Rightarrow>
               bind_s (process_item k (qi_run_id item)) (\<lambda>completed. return_s (Job completed))))"

section \<open>The loop\<close>

(* sim/api/execution/worker.py:22-29 WorkerResult *)
record worker_result =
  ws_worker_id :: string
  ws_jobs_completed :: int
  ws_jobs_failed :: int
  ws_polls :: int

(* sim/api/execution/worker.py:67-67 Worker.run (condition) *)
definition may_poll :: "'s worker \<Rightarrow> worker_result \<Rightarrow> bool" where
  "may_poll k n = (case wk_max_jobs k of None \<Rightarrow> True | Some m \<Rightarrow> ws_jobs_completed n + ws_jobs_failed n < m)"

definition count_job :: "bool \<Rightarrow> worker_result \<Rightarrow> worker_result" where
  "count_job completed n =
     (if completed then n\<lparr>ws_jobs_completed := ws_jobs_completed n + 1\<rparr>
      else n\<lparr>ws_jobs_failed := ws_jobs_failed n + 1\<rparr>)"

text \<open>
  The loop may run forever, so the model observes it: \<open>worker_loop k others N n e\<close> is where it stands
  once its condition has been evaluated \<open>N\<close> times, or earlier if it has ended by then. It is a total
  function; a loop that never ends is \<open>Polling\<close> for every \<open>N\<close>. \<open>others p\<close> is what other processes do to
  the world before pass \<open>p\<close>.
\<close>

datatype loop_state = Polling worker_result | Returned worker_result | Raised py_exc

(* sim/api/execution/worker.py:67-137 Worker.run (while) *)
fun worker_loop ::
  "'s worker \<Rightarrow> (int \<Rightarrow> 's \<times> queue_db \<Rightarrow> 's \<times> queue_db) \<Rightarrow> nat \<Rightarrow> worker_result \<Rightarrow> ('s \<times> queue_db) env
   \<Rightarrow> ('s \<times> queue_db) env \<times> loop_state" where
  "worker_loop k others 0 n e = (e, Polling n)"
| "worker_loop k others (Suc N) n e =
     (if \<not> may_poll k n then (e, Returned n)
      else
        (let n' = n\<lparr>ws_polls := ws_polls n + 1\<rparr>
         in case poll k (e\<lparr>en_store := others (ws_polls n') (en_store e)\<rparr>) of
              (e', Inl exc) \<Rightarrow> (e', Raised exc)
            | (e', Inr Leave) \<Rightarrow> (e', Returned n')
            | (e', Inr Sleep) \<Rightarrow> worker_loop k others N n' e'
            | (e', Inr (Job completed)) \<Rightarrow>
                if wk_once k then (e', Returned (count_job completed n'))
                else worker_loop k others N (count_job completed n') e'))"

definition no_jobs :: "'s worker \<Rightarrow> worker_result" where
  "no_jobs k = \<lparr>ws_worker_id = wk_worker_id k, ws_jobs_completed = 0, ws_jobs_failed = 0, ws_polls = 0\<rparr>"

(* sim/api/execution/worker.py:56-66 Worker.run (registration) *)
definition register_s :: "'s worker \<Rightarrow> ('s \<times> queue_db, worker_record) svc" where
  "register_s k =
     bind_s now_s (\<lambda>now. store_raise_s (on_queue (register_worker now (wk_worker_id k) (wk_hostname k)
       (Some (wk_process_id k)) None
       (Some [(''run_types'', PList [PStr ''session'', PStr ''backtest'', PStr ''benchmark''])]) ''idle'')))"

(* sim/api/execution/worker.py:56-137 Worker.run *)
definition run_worker ::
  "'s worker \<Rightarrow> (int \<Rightarrow> 's \<times> queue_db \<Rightarrow> 's \<times> queue_db) \<Rightarrow> nat \<Rightarrow> ('s \<times> queue_db) env
   \<Rightarrow> ('s \<times> queue_db) env \<times> loop_state" where
  "run_worker k others N e =
     (case register_s k e of
        (e', Inl exc) \<Rightarrow> (e', Raised exc)
      | (e', Inr _) \<Rightarrow> worker_loop k others N (no_jobs k) e')"

text \<open>The worker of the command line: one SQLite file for store and queue, all services configured.\<close>

(* sim/api/execution/worker.py:140-154 build_worker *)
definition build_worker ::
  "stream_codec \<Rightarrow> engines \<Rightarrow> text_codec \<Rightarrow> (pydict \<Rightarrow> benchmark_run result) \<Rightarrow> power_fun
   \<Rightarrow> (instant \<Rightarrow> string) \<Rightarrow> string \<Rightarrow> int \<Rightarrow> string \<Rightarrow> int option \<Rightarrow> bool \<Rightarrow> sql_store worker" where
  "build_worker cd eg xc benchmark_engine pow fmt hostname process_id worker_id max_jobs once =
     \<lparr>wk_ops = with_queue sql_ops, wk_codec = cd, wk_engines = eg,
      wk_benchmarks = Some \<lparr>bv_ops = with_queue_benchmarks sql_benchmark_ops, bv_codec = xc,
        bv_engine = benchmark_engine\<rparr>,
      wk_tournaments = Some (pow, fmt), wk_worker_id = worker_id, wk_hostname = hostname,
      wk_process_id = process_id, wk_max_jobs = max_jobs, wk_once = once\<rparr>"

section \<open>The queue under a worker\<close>

text \<open>Every call of the queue is one of its operations, so what these keep the worker keeps.\<close>

lemma snd_on_queue: "snd (fst (on_queue f w)) = fst (f (snd w))" "fst (fst (on_queue f w)) = fst w"
  by (simp_all add: on_queue_def split: prod.split)

lemma keeps_heartbeat:
  assumes "\<And>op q. R q \<Longrightarrow> R (queue_exec op q)"
  shows "keeps (\<lambda>w. R (snd w)) (heartbeat_s w st run p)"
proof -
  have "R (heartbeat now now' v st' run' p' c m q)" if "R q" for now now' v st' run' p' c m q
    using assms [OF that, of "Op_Heartbeat now now' v st' run' p' c m"] by simp
  then show ?thesis
    unfolding heartbeat_s_def
    by - (intro keeps_intros, rule keeps_store, simp add: snd_on_queue)
qed

lemma keeps_queue:
  assumes "\<And>now q. R q \<Longrightarrow> R (fst (f now q))"
  shows "keeps (\<lambda>w. R (snd w)) (queue_s f)"
  unfolding queue_s_def by (intro keeps_intros, rule keeps_store, simp add: snd_on_queue assms)

lemma keeps_try_else: "keeps P m \<Longrightarrow> (\<And>exc. keeps P (h exc)) \<Longrightarrow> keeps P n \<Longrightarrow> keeps P (try_else_s m h n)"
  unfolding keeps_def try_else_s_def by (force split: prod.split sum.split)

lemma keeps_finally: "keeps P m \<Longrightarrow> keeps P n \<Longrightarrow> keeps P (finally_s m n)"
  unfolding keeps_def finally_s_def by (force split: prod.split sum.split)

text \<open>A worker over a store paired with the queue, whose benchmarks go to the same store.\<close>

definition paired :: "'s worker \<Rightarrow> bool" where
  "paired k \<longleftrightarrow> (\<exists>ops. wk_ops k = with_queue ops) \<and>
     (\<forall>b. wk_benchmarks k = Some b \<longrightarrow> (\<exists>bops. bv_ops b = with_queue_benchmarks bops))"

lemma build_worker_paired:
  "paired (build_worker cd eg xc be pow fmt h pid w m once)"
  by (auto simp: paired_def build_worker_def)

lemma paired_keeps:
  assumes "paired k"
  shows "store_keeps (\<lambda>w. R (snd w)) (wk_ops k)"
    and "R (snd w) \<Longrightarrow> R (snd (fst (so_update_tournament (wk_ops k) i st sa ca doc err w)))"
    and "wk_benchmarks k = Some b \<Longrightarrow> R (snd w) \<Longrightarrow> R (snd (fst (bo_store (bv_ops b) bm w)))"
  using assms
  by (auto simp: paired_def store_keeps_def with_queue_sel on_store_fst with_queue_benchmarks_def)

lemma keeps_job:
  assumes "paired k"
  shows "keeps (\<lambda>w. R (snd w)) (run_job k run_id)" "keeps (\<lambda>w. R (snd w)) (aggregate_s k run_id)"
proof -
  show agg: "keeps (\<lambda>w. R (snd w)) (aggregate_s k run_id)"
    unfolding aggregate_s_def
    by (intro keeps_intros, rule keeps_aggregate_for_child, rule paired_keeps(2) [OF assms, of R])
  have "keeps (\<lambda>w. R (snd w)) (execute_pending_benchmark (wk_ops k) (bv_ops b) (bv_codec b) (bv_engine b) run_id)"
    if "wk_benchmarks k = Some b" for b
    using paired_keeps(3) [OF assms that, of R]
    by (intro keeps_execute_benchmark paired_keeps(1) [OF assms, of R]) blast
  then have bench: "keeps (\<lambda>w. R (snd w)) (case wk_benchmarks k of
            None \<Rightarrow> raise_s (RuntimeError ''benchmark service is not configured'')
          | Some b \<Rightarrow> execute_pending_benchmark (wk_ops k) (bv_ops b) (bv_codec b) (bv_engine b) run_id)"
    by (cases "wk_benchmarks k") (simp_all add: keeps_intros)
  have "keeps (\<lambda>w. R (snd w))
      (execute_stored (wk_ops k) (wk_codec k) (wk_engines k) (wk_benchmarks k) run_id)"
    unfolding execute_stored_def
    by (rule keeps_bind, rule keeps_pure, rule keeps_cases(1), rule bench, rule keeps_execute_pending,
        rule paired_keeps(1) [OF assms])
  then show "keeps (\<lambda>w. R (snd w)) (run_job k run_id)"
    unfolding run_job_def by (intro keeps_intros agg)
qed

lemma keeps_poll:
  assumes k: "paired k" and R: "\<And>op q. R q \<Longrightarrow> R (queue_exec op q)"
  shows "keeps (\<lambda>w. R (snd w)) (poll k)"
proof -
  note hb = keeps_heartbeat [of R, OF R]
  have failed: "keeps (\<lambda>w. R (snd w)) (queue_s (\<lambda>now. mark_failed now i m))" for i m
    using R [of _ "Op_Failed _ i m"] by (intro keeps_queue) simp
  have completed: "keeps (\<lambda>w. R (snd w)) (queue_s (\<lambda>now. mark_completed now i))" for i
    using R [of _ "Op_Completed _ i"] by (intro keeps_queue) simp
  have claim: "keeps (\<lambda>w. R (snd w)) (queue_s (\<lambda>now. claim_next now v))" for v
    using R [of _ "Op_Claim _ v"] by (intro keeps_queue) simp
  have item: "keeps (\<lambda>w. R (snd w)) (process_item k i)" for i
    unfolding process_item_def job_failed_def job_completed_def
    by (intro keeps_intros keeps_try_else keeps_finally hb failed completed keeps_job [OF k]
        paired_keeps(1) [OF k, of R])
  show ?thesis
    unfolding poll_def by (intro keeps_intros hb claim item)
qed

lemma keeps_register:
  assumes R: "\<And>op q. R q \<Longrightarrow> R (queue_exec op q)"
  shows "keeps (\<lambda>w. R (snd w)) (register_s k)"
proof -
  have "R (fst (register_worker now v h pid t caps st q))" if "R q" for now v h pid t caps st q
    using R [OF that, of "Op_Register now v h pid t caps st"] by simp
  then show ?thesis
    unfolding register_s_def
    by - (rule keeps_bind, rule keeps_pure, rule keeps_store_raise, simp add: snd_on_queue)
qed

lemma worker_loop_keeps:
  assumes k: "paired k" and R: "\<And>op q. R q \<Longrightarrow> R (queue_exec op q)"
    and others: "\<And>n w. R (snd w) \<Longrightarrow> R (snd (others n w))"
    and "R (snd (en_store e))"
  shows "R (snd (en_store (fst (worker_loop k others N n e))))"
  using assms(4)
proof (induction N arbitrary: n e)
  case (Suc N)
  let ?n = "n\<lparr>ws_polls := ws_polls n + 1\<rparr>"
  let ?e = "e\<lparr>en_store := others (ws_polls ?n) (en_store e)\<rparr>"
  obtain e2 r where poll: "poll k ?e = (e2, r)" by fastforce
  have "R (snd (en_store ?e))" using others Suc.prems(1) by simp
  from keepsD [where P = "\<lambda>w. R (snd w)", OF keeps_poll [of k R, OF k R] this]
  have "R (snd (en_store e2))" by (simp only: poll fst_conv)
  then show ?case
    using Suc poll by (auto simp: Let_def split: sum.splits poll_end.splits)
qed simp

section \<open>The loop\<close>

definition jobs :: "worker_result \<Rightarrow> int" where
  "jobs n = ws_jobs_completed n + ws_jobs_failed n"

lemma jobs_count [simp]:
  "jobs (count_job c n) = jobs n + 1" "ws_polls (count_job c n) = ws_polls n"
  "jobs (n\<lparr>ws_polls := p\<rparr>) = jobs n" "ws_worker_id (count_job c n) = ws_worker_id n"
  by (simp_all add: jobs_def count_job_def)

lemma may_poll_jobs: "may_poll k n \<longleftrightarrow> (case wk_max_jobs k of None \<Rightarrow> True | Some m \<Rightarrow> jobs n < m)"
  by (simp add: may_poll_def jobs_def split: option.split)

text \<open>A pass with \<open>once\<close> ends the loop.\<close>

lemma once_no_sleep:
  assumes "wk_once k"
  shows "snd (poll k e) \<noteq> Inr Sleep"
proof -
  have "wp_s (poll k) e (\<lambda>e' res. res \<noteq> Inr Sleep)"
    unfolding poll_def using assms
    by (auto simp: wp_s_def bind_s_def return_s_def read_s_def split: prod.splits sum.splits option.splits if_splits)
  then show ?thesis by (simp add: wp_s_def split: prod.splits)
qed

lemma once_ends: "wk_once k \<Longrightarrow> snd (worker_loop k others (Suc N) n e) \<noteq> Polling n'"
  by (auto simp: Let_def split: prod.split sum.split poll_end.split) (metis once_no_sleep snd_conv)

text \<open>The loop goes on from where it stands, and stays where it has ended.\<close>

lemma worker_loop_add:
  "worker_loop k others (N + M) n e =
     (case worker_loop k others N n e of
        (e', Polling n') \<Rightarrow> worker_loop k others M n' e' | ended \<Rightarrow> ended)"
  by (induction N arbitrary: n e) (auto simp: Let_def split: prod.split sum.split poll_end.split)

lemma once_polls:
  "wk_once k \<Longrightarrow> snd (worker_loop k others N n e) = Returned n' \<Longrightarrow> ws_polls n' \<le> ws_polls n + 1"
proof (cases N)
  case (Suc M)
  assume k: "wk_once k" and r: "snd (worker_loop k others N n e) = Returned n'"
  have "snd (poll k e2) \<noteq> Inr Sleep" for e2 using once_no_sleep [OF k] .
  then show ?thesis
    using r k unfolding Suc
    by (auto simp: Let_def split: if_splits prod.splits sum.splits poll_end.splits) (metis snd_conv)
qed simp

lemma ended_stays:
  assumes "worker_loop k others N n e = (e', st)" and "\<And>n'. st \<noteq> Polling n'"
  shows "worker_loop k others (N + M) n e = (e', st)"
  using assms by (cases st) (auto simp: worker_loop_add)

text \<open>The counts of the loop against those it started from.\<close>

definition counted :: "'s worker \<Rightarrow> worker_result \<Rightarrow> worker_result \<Rightarrow> bool" where
  "counted k n n' \<longleftrightarrow> ws_worker_id n' = ws_worker_id n \<and> jobs n \<le> jobs n' \<and>
     jobs n' - jobs n \<le> ws_polls n' - ws_polls n \<and>
     (\<forall>m. wk_max_jobs k = Some m \<longrightarrow> jobs n' \<le> max (jobs n) m)"

lemma counted_refl: "counted k n n"
  by (simp add: counted_def)

lemma counted_trans: "counted k n n' \<Longrightarrow> counted k n' n'' \<Longrightarrow> counted k n n''"
  unfolding counted_def by force

lemma counted_pass:
  assumes "may_poll k n"
  shows "counted k n (n\<lparr>ws_polls := ws_polls n + 1\<rparr>)" "counted k n (count_job c (n\<lparr>ws_polls := ws_polls n + 1\<rparr>))"
  using assms by (auto simp: counted_def may_poll_jobs)

lemma worker_loop_counts:
  "snd (worker_loop k others N n e) \<in> {Polling n', Returned n'} \<Longrightarrow>
    counted k n n' \<and> ws_polls n' - ws_polls n \<le> int N"
proof (induction N arbitrary: n e)
  case (Suc N)
  let ?n = "n\<lparr>ws_polls := ws_polls n + 1\<rparr>"
  let ?e = "e\<lparr>en_store := others (ws_polls ?n) (en_store e)\<rparr>"
  show ?case
  proof (cases "may_poll k n")
    case False
    then show ?thesis using Suc.prems by (auto simp: counted_refl)
  next
    case True
    obtain e2 r where poll: "poll k ?e = (e2, r)" by fastforce
    note pass = counted_pass [OF True]
    from Suc.prems True poll consider
        "n' = ?n"
      | c where "n' = count_job c ?n"
      | "snd (worker_loop k others N ?n e2) \<in> {Polling n', Returned n'}"
      | c where "snd (worker_loop k others N (count_job c ?n) e2) \<in> {Polling n', Returned n'}"
      by (auto simp: Let_def split: if_splits sum.splits poll_end.splits)
    then show ?thesis
    proof cases
      case 3
      from Suc.IH [OF 3] show ?thesis using counted_trans [OF pass(1)] by auto
    next
      case (4 c)
      from Suc.IH [OF 4] show ?thesis using counted_trans [OF pass(2)] by auto
    qed (use pass in auto)
  qed
qed (auto simp: counted_refl)

text \<open>As long as it is polling, every evaluation of the condition was followed by a pass.\<close>

lemma polling_passes:
  "snd (worker_loop k others N n e) = Polling n' \<Longrightarrow> ws_polls n' = ws_polls n + int N"
proof (induction N arbitrary: n e)
  case (Suc N)
  then show ?case by (fastforce simp: Let_def split: if_splits prod.splits sum.splits poll_end.splits)
qed simp

text \<open>A worker asked to shut down leaves the loop.\<close>

lemma poll_shutdown:
  assumes "get_worker (wk_worker_id k) (snd (en_store e)) = Some r" and "wr_shutdown_requested r"
  shows "snd (poll k e) = Inr Leave"
  by (simp add: poll_def heartbeat_s_def bind_s_def read_s_def now_s_def store_s_def return_s_def assms
      split: prod.split)

lemma loop_shutdown:
  assumes "worker_loop k others N n e = (e', Polling n')" and "may_poll k n'"
    and "get_worker (wk_worker_id k) (snd (others (ws_polls n' + 1) (en_store e'))) = Some r"
    and "wr_shutdown_requested r"
  shows "snd (worker_loop k others (Suc N) n e) = Returned (n'\<lparr>ws_polls := ws_polls n' + 1\<rparr>)"
proof -
  let ?e = "e'\<lparr>en_store := others (ws_polls n' + 1) (en_store e')\<rparr>"
  obtain e2 where "poll k ?e = (e2, Inr Leave)"
    using poll_shutdown [of k ?e r] assms(3,4) by (cases "poll k ?e") simp
  then show ?thesis
    using worker_loop_add [of k others N "Suc 0" n e] assms(1,2) by (simp add: Let_def)
qed

end
