(* ===== verification/Worker_Job.thy ===== *)
theory Worker_Job
  imports Worker
begin

text \<open>
  One job of a worker on the SQLite database: the claim, the execution, the reports of the tournaments
  it belongs to and the end of its queue row, composed from the laws of queue, store, run service and
  tournament service. \<open>job_over\<close> says what the job leaves behind, whatever the engine did.
\<close>

section \<open>One job\<close>

lemma wp_heartbeat:
  assumes "\<And>e' now now'. en_store e' = (fst (en_store e), heartbeat now now' w st run p None None (snd (en_store e)))
    \<Longrightarrow> en_stream e' = en_stream e \<Longrightarrow> P e' (Inr ())"
  shows "wp_s (heartbeat_s w st run p) e P"
  unfolding heartbeat_s_def
  by (cases "get_worker w (snd (en_store e))") (auto simp: wp_rules on_queue_def intro: assms)

lemma wp_queue:
  assumes "\<And>e' now q' x. f now (snd (en_store e)) = (q', x) \<Longrightarrow> en_store e' = (fst (en_store e), q') \<Longrightarrow>
    en_stream e' = en_stream e \<Longrightarrow> P e' (Inr x)"
  shows "wp_s (queue_s f) e P"
  unfolding queue_s_def by (auto simp: wp_rules on_queue_def split: prod.split intro: assms)

lemma wp_bind_heartbeat:
  assumes "\<And>e' now now'. en_store e' = (fst (en_store e), heartbeat now now' w st run p None None (snd (en_store e)))
    \<Longrightarrow> wp_s (k ()) e' P"
  shows "wp_s (bind_s (heartbeat_s w st run p) k) e P"
  unfolding wp_bind by (rule wp_heartbeat) (use assms in simp)

lemma wp_bind_queue:
  assumes "\<And>e' now. en_store e' = (fst (en_store e), fst (f now (snd (en_store e)))) \<Longrightarrow>
    wp_s (k (snd (f now (snd (en_store e))))) e' P"
  shows "wp_s (bind_s (queue_s f) k) e P"
  unfolding wp_bind by (rule wp_queue) (metis assms fst_conv snd_conv sum.case(2))

lemma wp_try_else [wp_rules]:
  "wp_s (try_else_s m h n) e P =
    wp_s m e (\<lambda>e' res. case res of Inl exc \<Rightarrow> wp_s (h exc) e' P | Inr _ \<Rightarrow> wp_s n e' P)"
  by (simp add: wp_s_def try_else_s_def split: prod.split sum.split)

lemma wp_finally [wp_rules]:
  "wp_s (finally_s m f) e P =
    wp_s m e (\<lambda>e' res. wp_s f e' (\<lambda>e'' res'. case res' of Inl exc \<Rightarrow> P e'' (Inl exc) | Inr _ \<Rightarrow> P e'' res))"
  by (simp add: wp_s_def finally_s_def split: prod.split sum.split)

lemma wp_keeps: "wp_s m e P \<Longrightarrow> keeps R m \<Longrightarrow> R (en_store e) \<Longrightarrow>
    wp_s m e (\<lambda>e' res. P e' res \<and> R (en_store e'))"
  using keepsD [of R m e] by (auto simp: wp_s_def split: prod.splits)

lemma lock_row_sel [simp]: "qi_status (lock_row now w r) = qi_status r"
  by (simp add: lock_row_def)

text \<open>The row of a run that has ended: unlocked, without a lease, with its time and error.\<close>

definition ended :: "run_status \<Rightarrow> string option \<Rightarrow> string \<Rightarrow> queue_db \<Rightarrow> bool" where
  "ended st err i q \<longleftrightarrow> (\<exists>r. get_item i q = Some r \<and> qi_status r = st \<and> qi_last_error r = err \<and>
     qi_completed_at r \<noteq> None \<and> qi_locked_by r = None \<and> qi_locked_at r = None) \<and> get_lease i q = None"

definition open_row :: "string \<Rightarrow> queue_db \<Rightarrow> bool" where
  "open_row i q \<longleftrightarrow> (\<exists>r. get_item i q = Some r \<and> qi_status r \<noteq> Completed)"

text \<open>The rows and leases of all other runs.\<close>

definition other_rows :: "string \<Rightarrow> queue_db \<Rightarrow> queue_db \<Rightarrow> bool" where
  "other_rows i q q' \<longleftrightarrow> (\<forall>j. j \<noteq> i \<longrightarrow> get_item j q' = get_item j q \<and> get_lease j q' = get_lease j q)"

lemma other_rows_trans: "other_rows i q q' \<Longrightarrow> other_rows i q' q'' \<Longrightarrow> other_rows i q q''"
  by (simp add: other_rows_def)

lemma heartbeat_rows:
  "other_rows i q (heartbeat now now' w st (Some i) p None None q)"
  "open_row i q \<Longrightarrow> open_row i (heartbeat now now' w st (Some i) p None None q)"
  "other_rows i q (heartbeat now now' w st None p None None q)"
  "ended st' err i q \<Longrightarrow> ended st' err i (heartbeat now now' w st None p None None q)"
  by (auto simp: other_rows_def open_row_def ended_def queue_view)

lemma terminal_rows:
  "other_rows i q (fst (mark_terminal now i st err q))"
  "open_row i q \<Longrightarrow> ended st err i (fst (mark_terminal now i st err q))"
  by (auto simp: other_rows_def open_row_def ended_def queue_view)

lemma claim_rows:
  assumes "queue_inv q" and "snd (claim_next now w q) = Some item"
  shows "other_rows (qi_run_id item) q (fst (claim_next now w q))"
    "open_row (qi_run_id item) (fst (claim_next now w q))"
proof -
  have "queue_keys q" using assms(1) by (rule queue_invD)
  from claim_next_view [OF this assms(2)] obtain r where
    "item = claim_row now w r"
    "\<forall>i. get_item i (fst (claim_next now w q)) = (if i = qi_run_id item then Some item else get_item i q)"
    "\<forall>i. get_lease i (fst (claim_next now w q)) =
      (if i = qi_run_id item then Some (fresh_lease now i w q) else get_lease i q)" by metis
  then show "other_rows (qi_run_id item) q (fst (claim_next now w q))"
    "open_row (qi_run_id item) (fst (claim_next now w q))"
    by (auto simp: other_rows_def open_row_def claim_row_def)
qed

section \<open>A job on the SQLite database\<close>

abbreviation runs_of :: "(sql_store \<times> queue_db) env \<Rightarrow> string \<Rightarrow> run_record option" where
  "runs_of e i \<equiv> sql_get_run i (fst (en_store e))"

definition stored_ok :: "(sql_store \<times> queue_db) env \<Rightarrow> bool" where
  "stored_ok e \<longleftrightarrow> sql_ok (fst (en_store e)) \<and> sql_tournaments_ok (fst (en_store e))"

text \<open>The engine a stored session or backtest runs on.\<close>

definition runs_on :: "engines \<Rightarrow> run_record \<Rightarrow> executor \<Rightarrow> bool" where
  "runs_on eg r executor \<longleftrightarrow>
     (rr_run_type r = Session \<and> eg_session eg (rr_config r) = Inr executor) \<or>
     (rr_run_type r = Backtest \<and> eg_backtest eg (rr_config r) = Inr executor)"

text \<open>The record of run \<open>r\<close> after its execution with a given outcome.\<close>

definition executed :: "artifacts result \<Rightarrow> run_record \<Rightarrow> run_record \<Rightarrow> bool" where
  "executed outcome r r' \<longleftrightarrow> rr_completed_at r' \<noteq> None \<and> rr_started_at r' \<noteq> None \<and> rr_config r' = rr_config r \<and>
     rr_run_type r' = rr_run_type r \<and> rr_created_at r' = rr_created_at r \<and>
     rr_verification r' = rr_verification r \<and>
     (case outcome of
        Inr a \<Rightarrow> rr_status r' = Completed \<and> rr_report r' = encode_json (af_report a) \<and>
          rr_events r' = map encode_json (af_events a) \<and>
          rr_snapshots r' = map encode_json (snapshot_order (af_snapshots a)) \<and>
          rr_accounts r' = map encode_json (af_accounts a) \<and> rr_error r' = rr_error r
      | Inl exc \<Rightarrow> rr_status r' = Failed \<and> rr_error r' = Some (sql.recorded exc) \<and>
          rr_report r' = rr_report r \<and> rr_events r' = rr_events r \<and> rr_snapshots r' = rr_snapshots r \<and>
          rr_accounts r' = rr_accounts r)"

lemma executed_logs: "executed outcome (r\<lparr>rr_logs := l\<rparr>) r' = executed outcome r r'"
  "executed outcome r (r'\<lparr>rr_logs := l\<rparr>) = executed outcome r r'"
  by (simp_all add: executed_def split: sum.split)

text \<open>Between two environments only run \<open>i\<close> differs, and neither a tournament nor the queue.\<close>

definition only_run :: "string \<Rightarrow> (sql_store \<times> queue_db) env \<Rightarrow> (sql_store \<times> queue_db) env \<Rightarrow> bool" where
  "only_run i e e' \<longleftrightarrow> stored_ok e' \<and> snd (en_store e') = snd (en_store e) \<and>
     (\<forall>j. j \<noteq> i \<longrightarrow> runs_of e' j = runs_of e j) \<and>
     same_tournaments sql_ops sql_tournaments_ok (fst (en_store e)) (fst (en_store e'))"

lemma wp_append_world:
  assumes "stored_ok e" and "runs_of e i = Some r"
    and "\<And>e'. only_run i e e' \<Longrightarrow> en_stream e' = en_stream e \<Longrightarrow>
      \<exists>ls. runs_of e' i = Some (r\<lparr>rr_logs := ls\<rparr>) \<Longrightarrow> P e' (Inr True)"
  shows "wp_s (store_s (so_append_log (with_queue sql_ops) i entry)) e P"
proof -
  let ?s = "fst (en_store e)"
  have ok: "sql_ok ?s" "sql_tournaments_ok ?s" using assms(1) by (simp_all add: stored_ok_def)
  obtain s' b where s': "sql_append_log i entry ?s = (s', b)" by fastforce
  have "same_tournaments sql_ops sql_tournaments_ok ?s s'"
    using sql_tournaments.append_log_keeps [OF ok(2), of i entry] s' by (simp add: sql_ops_sel)
  moreover have "sql_ok s'" "b" "\<exists>ls. sql_get_run i s' = Some (r\<lparr>rr_logs := ls\<rparr>)"
    "\<And>j. j \<noteq> i \<Longrightarrow> sql_get_run j s' = sql_get_run j ?s"
    using sql.append_log [OF ok(1), of i entry] s' assms(2) by (auto simp: sql_ops_sel)
  ultimately show ?thesis
    using assms(3) [of "e\<lparr>en_store := (s', snd (en_store e))\<rparr>"] s'
    by (simp add: wp_store with_queue_sel on_store_def sql_ops_sel only_run_def stored_ok_def
        same_tournaments_def)
qed

lemma wp_execute_world:
  assumes ok: "stored_ok e" and r: "runs_of e i = Some r"
    and st: "rr_status r \<notin> {Completed, Canceled}" and on: "runs_on eg r executor"
  shows "wp_s (execute_stored (with_queue sql_ops) cd eg benchmarks i) e (\<lambda>e' res. only_run i e e' \<and>
    (\<exists>r'. runs_of e' i = Some r' \<and> executed (snd (executor i)) r r') \<and>
    (case snd (executor i) of Inr a \<Rightarrow> \<exists>d. res = Inr d | Inl exc \<Rightarrow> res = Inl (sql.raised exc)))"
proof -
  let ?ops = "with_queue sql_ops"
  let ?Q = "\<lambda>q. q = snd (en_store e)"
  let ?T = "same_tournaments ?ops (\<lambda>w. sql_tournaments_ok (fst w)) (en_store e)"
  have wok: "sql_ok (fst (en_store e)) \<and> ?Q (snd (en_store e))"
    and tok: "sql_tournaments_ok (fst (en_store e))" using ok by (simp_all add: stored_ok_def)
  have get: "so_get_run ?ops i (en_store e) = Some r" using r by (simp add: with_queue_sel sql_ops_sel)
  have "wp_s (execute_stored ?ops cd eg benchmarks i) e P = wp_s (execute_pending_run ?ops cd eg i) e P" for P
    using on get by (auto simp: execute_stored_def wp_rules runs_on_def)
  note dispatch = this
  note run = world.wp_execute [where Q = ?Q, OF wok get, of cd "rr_run_type r" "rr_config r" executor,
      folded world.wp_pending [where Q = ?Q, OF wok get st on [unfolded runs_on_def]]]
  have frame: "keeps ?T (execute_pending_run ?ops cd eg i)"
    by (rule keeps_execute_pending [OF world.run_ops_keep_tournaments])
  have T: "?T (en_store e') \<Longrightarrow> same_tournaments sql_ops sql_tournaments_ok (fst (en_store e)) (fst (en_store e'))"
    for e' :: "(sql_store \<times> queue_db) env"
    using same_tournaments_world [of sql_ops sql_tournaments_ok "en_store e" "fst (en_store e')" "snd (en_store e')"]
    by simp
  show ?thesis
    unfolding dispatch
  proof (rule wp_mono [OF wp_keeps [OF run frame]], goal_cases)
    case 1
    show ?case using tok by (rule world.same_tournaments_refl)
  next
    case (2 e' res)
    then show ?case
      using T [of e']
      by (cases "snd (executor i)")
        (auto simp: world.others_same_def [where Q = ?Q] only_run_def stored_ok_def with_queue_sel sql_ops_sel executed_def
          world.started_def world.completed_with_def world.failed_with_def same_tournaments_def)
  qed
qed

text \<open>The reports of the tournaments of a run, seen from an environment.\<close>

abbreviation member :: "string \<Rightarrow> (sql_store \<times> queue_db) env \<Rightarrow> string \<Rightarrow> bool" where
  "member i e t \<equiv> world.parent i (en_store e) t"

abbreviation can_report :: "power_fun \<Rightarrow> (sql_store \<times> queue_db) env \<Rightarrow> string \<Rightarrow> bool" where
  "can_report pow e t \<equiv> world.reportable pow t (en_store e)"

abbreviation fresh_report ::
  "power_fun \<Rightarrow> (instant \<Rightarrow> string) \<Rightarrow> (sql_store \<times> queue_db) env \<Rightarrow> string \<Rightarrow> bool" where
  "fresh_report pow fmt e t \<equiv> world.up_to_date pow fmt t (en_store e)"

definition all_report :: "power_fun \<Rightarrow> string \<Rightarrow> (sql_store \<times> queue_db) env \<Rightarrow> bool" where
  "all_report pow i e \<longleftrightarrow> (\<forall>t. member i e t \<longrightarrow> can_report pow e t)"

definition all_fresh :: "power_fun \<Rightarrow> (instant \<Rightarrow> string) \<Rightarrow> string \<Rightarrow> (sql_store \<times> queue_db) env \<Rightarrow> bool" where
  "all_fresh pow fmt i e \<longleftrightarrow> (\<forall>t. member i e t \<longrightarrow> fresh_report pow fmt e t)"

lemma reports_same_store:
  assumes "fst (en_store e') = fst (en_store e)"
  shows "all_report pow i e' = all_report pow i e" "all_fresh pow fmt i e' = all_fresh pow fmt i e"
  using assms
  by (simp_all add: all_report_def all_fresh_def world.parent_def world.reportable_def world.up_to_date_def
      with_queue_sel children_of_def child_records_def)

lemma reports_only_logs:
  assumes "only_run i e e'" and "runs_of e i = Some r" and "runs_of e' i = Some (r\<lparr>rr_logs := ls\<rparr>)"
  shows "all_report pow i e' = all_report pow i e"
proof -
  have "map_option report_view (runs_of e' j) = map_option report_view (runs_of e j)" for j
    using assms by (cases "j = i") (simp_all add: only_run_def report_view_def)
  moreover have "sql_list_children t (fst (en_store e')) = sql_list_children t (fst (en_store e))" for t
    using assms(1) by (simp add: only_run_def same_tournaments_def sql_ops_sel)
  ultimately show ?thesis
    using world.reportable_view [of "en_store e'" "en_store e"]
    by (simp add: all_report_def world.parent_def with_queue_sel sql_ops_sel children_of_def)
qed

text \<open>Refreshing the reports leaves the runs, the links and the queue.\<close>

definition same_links :: "(sql_store \<times> queue_db) env \<Rightarrow> (sql_store \<times> queue_db) env \<Rightarrow> bool" where
  "same_links e e' \<longleftrightarrow> (\<forall>t. sql_list_children t (fst (en_store e')) = sql_list_children t (fst (en_store e)))"

lemma same_links_trans: "same_links e e' \<Longrightarrow> same_links e' e'' \<Longrightarrow> same_links e e''"
  by (simp add: same_links_def)

lemma same_links_store: "fst (en_store e') = fst (en_store e) \<Longrightarrow> same_links e e'"
  by (simp add: same_links_def)

lemma only_run_links: "only_run i e e' \<Longrightarrow> same_links e e'"
  by (simp add: only_run_def same_links_def same_tournaments_def sql_ops_sel)

definition runs_kept :: "(sql_store \<times> queue_db) env \<Rightarrow> (sql_store \<times> queue_db) env \<Rightarrow> bool" where
  "runs_kept e e' \<longleftrightarrow> stored_ok e' \<and> snd (en_store e') = snd (en_store e) \<and>
     (\<forall>j. runs_of e' j = runs_of e j) \<and> same_links e e'"

lemma wp_aggregate_world:
  assumes "stored_ok e" and "wk_ops k = with_queue sql_ops" and "wk_tournaments k = Some (pow, fmt)"
  shows "wp_s (aggregate_s k i) e (\<lambda>e' res. runs_kept e e' \<and> all_report pow i e' = all_report pow i e \<and>
    (if all_report pow i e then res = Inr () \<and> all_fresh pow fmt i e' else \<exists>exc. res = Inl exc))"
proof -
  let ?Q = "\<lambda>q. q = snd (en_store e)"
  have wok: "sql_ok (fst (en_store e)) \<and> ?Q (snd (en_store e))" "sql_tournaments_ok (fst (en_store e))"
    using assms(1) by (simp_all add: stored_ok_def)
  show ?thesis
    unfolding aggregate_s_def assms(2,3) option.case prod.case
  proof (rule wp_mono [OF world.wp_aggregate_for_child [where Q = ?Q, OF wok]], elim conjE)
    fix e' :: "(sql_store \<times> queue_db) env" and res
    assume a: "world.reports_only ?Q {t. member i e t} (en_store e) (en_store e')"
      "if \<forall>t. member i e t \<longrightarrow> can_report pow e t
       then res = Inr () \<and> (\<forall>t. member i e t \<longrightarrow> fresh_report pow fmt e' t) else \<exists>exc. res = Inl exc"
    note views = world.reports_only_views [OF a(1)] world.parent_same [OF a(1)]
    show "runs_kept e e' \<and> all_report pow i e' = all_report pow i e \<and>
      (if all_report pow i e then res = Inr () \<and> all_fresh pow fmt i e' else \<exists>exc. res = Inl exc)"
      using a(2) views
      by (simp add: runs_kept_def same_links_def stored_ok_def all_report_def all_fresh_def with_queue_sel sql_ops_sel)
  qed
qed

lemma wp_job_completed:
  assumes "open_row i (snd (en_store e))"
  shows "wp_s (job_completed k i) e (\<lambda>e' res. res = Inr True \<and> fst (en_store e') = fst (en_store e) \<and>
    other_rows i (snd (en_store e)) (snd (en_store e')) \<and> ended Completed None i (snd (en_store e')))"
  unfolding job_completed_def
proof (rule wp_bind_heartbeat, rule wp_bind_queue)
  fix e1 e2 :: "('a \<times> queue_db) env" and now now' now2
  assume e: "en_store e1 = (fst (en_store e), heartbeat now now' (wk_worker_id k) ''busy'' (Some i)
      [(''phase'', PStr ''completed'')] None None (snd (en_store e)))"
    "en_store e2 = (fst (en_store e1), fst (mark_completed now2 i (snd (en_store e1))))"
  show "wp_s (return_s True) e2 (\<lambda>e' res. res = Inr True \<and> fst (en_store e') = fst (en_store e) \<and>
    other_rows i (snd (en_store e)) (snd (en_store e')) \<and> ended Completed None i (snd (en_store e')))"
    using e other_rows_trans [OF heartbeat_rows(1) terminal_rows(1)]
      terminal_rows(2) [OF heartbeat_rows(2) [OF assms]] by (simp add: wp_return mark_completed_def)
qed

lemma wp_job_failed:
  assumes k: "wk_ops k = with_queue sql_ops" "wk_tournaments k = Some (pow, fmt)"
    and ok: "stored_ok e" and r: "runs_of e i = Some r" and row: "open_row i (snd (en_store e))"
  shows "wp_s (job_failed k i exc) e (\<lambda>e' res. stored_ok e' \<and> (\<forall>j. j \<noteq> i \<longrightarrow> runs_of e' j = runs_of e j) \<and>
    (\<exists>ls. runs_of e' i = Some (r\<lparr>rr_logs := ls\<rparr>)) \<and> same_links e e' \<and>
    other_rows i (snd (en_store e)) (snd (en_store e')) \<and>
    ended Failed (Some (exc_message exc)) i (snd (en_store e')) \<and>
    all_report pow i e' = all_report pow i e \<and>
    (if all_report pow i e then res = Inr False \<and> all_fresh pow fmt i e' else \<exists>exc. res = Inl exc))"
    (is "wp_s _ e ?Q")
proof -
  let ?err = "Some (exc_message exc)"
  have rest: "wp_s (bind_s (aggregate_s k i) (\<lambda>_. return_s False)) e3 ?Q"
    if e2: "fst (en_store e2) = fst (en_store e)" "other_rows i (snd (en_store e)) (snd (en_store e2))"
        "ended Failed ?err i (snd (en_store e2))"
      and e3: "only_run i e2 e3" "\<exists>ls. runs_of e3 i = Some (r\<lparr>rr_logs := ls\<rparr>)" for e2 e3
  proof -
    have ok3: "stored_ok e3" using e3(1) by (simp add: only_run_def)
    have same: "all_report pow i e3 = all_report pow i e"
      using reports_only_logs [OF e3(1)] e3(2) r reports_same_store(1) [OF e2(1)] e2(1) by auto
    have links: "same_links e e3"
      by (rule same_links_trans [OF same_links_store [OF e2(1)] only_run_links [OF e3(1)]])
    show ?thesis
      unfolding wp_bind wp_return
      by (rule wp_mono [OF wp_aggregate_world [OF ok3 k]])
        (use e2 e3 same same_links_trans [OF links] in \<open>auto simp: runs_kept_def only_run_def split: if_splits\<close>)
  qed
  have append: "wp_s (store_s (so_append_log (wk_ops k) i entry)) e2 (\<lambda>e3 res. case res of
      Inl exc' \<Rightarrow> ?Q e3 (Inl exc') | Inr _ \<Rightarrow> wp_s (bind_s (aggregate_s k i) (\<lambda>_. return_s False)) e3 ?Q)"
    if e2: "fst (en_store e2) = fst (en_store e)" "other_rows i (snd (en_store e)) (snd (en_store e2))"
        "ended Failed ?err i (snd (en_store e2))" for e2 entry
    unfolding k(1)
  proof (rule wp_append_world)
    show "stored_ok e2" "runs_of e2 i = Some r" using e2(1) ok r by (simp_all add: stored_ok_def)
  qed (use rest [OF e2] in simp)
  show ?thesis
    unfolding job_failed_def
  proof (rule wp_bind_heartbeat, rule wp_bind_queue, unfold wp_bind [of "store_s f" for f], rule append, goal_cases)
    case (2 e1 now now' e2 now2)
    then show ?case
      using other_rows_trans [OF heartbeat_rows(1) terminal_rows(1)] by (simp add: mark_failed_def)
  next
    case (3 e1 now now' e2 now2)
    then show ?case
      using terminal_rows(2) [OF heartbeat_rows(2) [OF row]] by (simp add: mark_failed_def)
  qed simp
qed

text \<open>What a claimed run of the queue and of the store has become when its pass is over.\<close>

definition job_over ::
  "power_fun \<Rightarrow> (instant \<Rightarrow> string) \<Rightarrow> string \<Rightarrow> artifacts result \<Rightarrow> run_record
   \<Rightarrow> (sql_store \<times> queue_db) env \<Rightarrow> (sql_store \<times> queue_db) env \<Rightarrow> bool result \<Rightarrow> bool" where
  "job_over pow fmt i outcome r e e' res \<longleftrightarrow> stored_ok e' \<and>
     (\<exists>r'. runs_of e' i = Some r' \<and> executed outcome r r') \<and>
     (\<forall>j. j \<noteq> i \<longrightarrow> runs_of e' j = runs_of e j) \<and> same_links e e' \<and>
     other_rows i (snd (en_store e)) (snd (en_store e')) \<and>
     (case outcome of
        Inr _ \<Rightarrow> if all_report pow i e' then ended Completed None i (snd (en_store e'))
                 else \<exists>err. ended Failed (Some err) i (snd (en_store e'))
      | Inl exc \<Rightarrow> ended Failed (Some (exc_message (sql.raised exc))) i (snd (en_store e'))) \<and>
     (if all_report pow i e'
      then all_fresh pow fmt i e' \<and> res = Inr (case outcome of Inr _ \<Rightarrow> True | Inl _ \<Rightarrow> False)
      else \<exists>exc. res = Inl exc)"

lemma wp_run_job:
  assumes k: "wk_ops k = with_queue sql_ops" "wk_tournaments k = Some (pow, fmt)"
    and ok: "stored_ok e" and r: "runs_of e i = Some r"
    and st: "rr_status r \<notin> {Completed, Canceled}" and on: "runs_on (wk_engines k) r executor"
  shows "wp_s (run_job k i) e (\<lambda>e' res. stored_ok e' \<and> snd (en_store e') = snd (en_store e) \<and>
    (\<exists>r'. runs_of e' i = Some r' \<and> executed (snd (executor i)) r r') \<and>
    (\<forall>j. j \<noteq> i \<longrightarrow> runs_of e' j = runs_of e j) \<and> same_links e e' \<and>
    (case snd (executor i) of
       Inr _ \<Rightarrow> if all_report pow i e' then res = Inr () \<and> all_fresh pow fmt i e' else \<exists>exc. res = Inl exc
     | Inl exc \<Rightarrow> res = Inl (sql.raised exc)))" (is "wp_s _ e ?Q")
  unfolding run_job_def k(1) wp_bind
proof (rule wp_mono [OF wp_execute_world [OF ok r st on]], elim conjE exE)
  fix e1 res r'
  assume a: "only_run i e e1" "runs_of e1 i = Some r'" "executed (snd (executor i)) r r'"
    "case snd (executor i) of Inr a \<Rightarrow> \<exists>d. res = Inr d | Inl exc \<Rightarrow> res = Inl (sql.raised exc)"
  show "case res of Inl exc \<Rightarrow> ?Q e1 (Inl exc) | Inr x \<Rightarrow> wp_s (aggregate_s k i) e1 ?Q"
  proof (cases "snd (executor i)")
    case (Inl exc)
    then show ?thesis using a only_run_links [OF a(1)] by (simp add: only_run_def)
  next
    case (Inr art)
    have "stored_ok e1" using a(1) by (simp add: only_run_def)
    note agg = wp_aggregate_world [OF this k]
    have "wp_s (aggregate_s k i) e1 ?Q"
      by (rule wp_mono [OF agg]) (use a Inr same_links_trans [OF only_run_links [OF a(1)]] in
          \<open>auto simp: runs_kept_def only_run_def split: if_splits\<close>)
    moreover from a(4) Inr obtain d where "res = Inr d" by auto
    ultimately show ?thesis by (simp only: sum.case)
  qed
qed

lemma wp_job:
  assumes k: "wk_ops k = with_queue sql_ops" "wk_tournaments k = Some (pow, fmt)"
    and ok: "stored_ok e" and r: "runs_of e i = Some r"
    and st: "rr_status r \<notin> {Completed, Canceled}" and on: "runs_on (wk_engines k) r executor"
    and row: "open_row i (snd (en_store e))"
  shows "wp_s (try_else_s (run_job k i) (job_failed k i) (job_completed k i)) e
    (job_over pow fmt i (snd (executor i)) r e)"
  unfolding wp_try_else
proof (rule wp_mono [OF wp_run_job [OF k ok r st on]], elim conjE exE)
  fix e1 res r'
  assume a: "stored_ok e1" "snd (en_store e1) = snd (en_store e)" "runs_of e1 i = Some r'"
    "executed (snd (executor i)) r r'" "\<forall>j. j \<noteq> i \<longrightarrow> runs_of e1 j = runs_of e j"
    "same_links e e1"
    "case snd (executor i) of
       Inr _ \<Rightarrow> if all_report pow i e1 then res = Inr () \<and> all_fresh pow fmt i e1 else \<exists>exc. res = Inl exc
     | Inl exc \<Rightarrow> res = Inl (sql.raised exc)"
  have row1: "open_row i (snd (en_store e1))" using row a(2) by simp
  have failed: "wp_s (job_failed k i exc) e1 (job_over pow fmt i (snd (executor i)) r e)"
    if "(case snd (executor i) of Inr _ \<Rightarrow> \<not> all_report pow i e1 | Inl exc' \<Rightarrow> exc = sql.raised exc')" for exc
  proof (rule wp_mono [OF wp_job_failed [OF k a(1,3) row1]], elim conjE exE)
    fix e2 ls and res2 :: "bool result"
    assume b: "stored_ok e2" "\<forall>j. j \<noteq> i \<longrightarrow> runs_of e2 j = runs_of e1 j"
      "runs_of e2 i = Some (r'\<lparr>rr_logs := ls\<rparr>)" "same_links e1 e2" "other_rows i (snd (en_store e1)) (snd (en_store e2))"
      "ended Failed (Some (exc_message exc)) i (snd (en_store e2))"
      "all_report pow i e2 = all_report pow i e1"
      "if all_report pow i e1 then res2 = Inr False \<and> all_fresh pow fmt i e2 else \<exists>exc. res2 = Inl exc"
    have others: "\<forall>j. j \<noteq> i \<longrightarrow> runs_of e2 j = runs_of e j" using a(5) b(2) by simp
    have run: "\<exists>r'. runs_of e2 i = Some r' \<and> executed (snd (executor i)) r r'"
      using b(3) a(4) by (simp add: executed_logs)
    have rows: "other_rows i (snd (en_store e)) (snd (en_store e2))" using b(5) a(2) by simp
    show "job_over pow fmt i (snd (executor i)) r e e2 res2"
      unfolding job_over_def b(7)
    proof (intro conjI b(1) others run rows same_links_trans [OF a(6) b(4)], goal_cases)
      case 1
      show ?case using b(6) that by (cases "snd (executor i)") (simp_all, blast)
    next
      case 2
      show ?case
      proof (cases "all_report pow i e1")
        case True
        with that obtain exc' where "snd (executor i) = Inl exc'" by (cases "snd (executor i)") auto
        with True b(8) show ?thesis by simp
      next
        case False
        with b(8) show ?thesis by simp
      qed
    qed
  qed
  have completed: "wp_s (job_completed k i) e1 (job_over pow fmt i (snd (executor i)) r e)"
    if "snd (executor i) = Inr art" "all_report pow i e1" for art
  proof (rule wp_mono [OF wp_job_completed [OF row1]], elim conjE)
    fix e2 :: "(sql_store \<times> queue_db) env" and res2 :: "bool result"
    assume b: "res2 = Inr True" "fst (en_store e2) = fst (en_store e1)"
      "other_rows i (snd (en_store e1)) (snd (en_store e2))" "ended Completed None i (snd (en_store e2))"
    then show "job_over pow fmt i (snd (executor i)) r e e2 res2"
      using a that same_links_trans [OF a(6) same_links_store [OF b(2)]]
      unfolding job_over_def reports_same_store [OF b(2)] by (simp add: stored_ok_def)
  qed
  show "case res of Inl exc \<Rightarrow> wp_s (job_failed k i exc) e1 (job_over pow fmt i (snd (executor i)) r e)
    | Inr _ \<Rightarrow> wp_s (job_completed k i) e1 (job_over pow fmt i (snd (executor i)) r e)"
    using a(7) failed completed by (cases "snd (executor i)") (auto split: if_splits)
qed

lemma job_over_heartbeat:
  assumes "job_over pow fmt i outcome r e e1 res"
    and "en_store e2 = (fst (en_store e1), heartbeat now now' w st None p None None (snd (en_store e1)))"
  shows "job_over pow fmt i outcome r e e2 res"
proof -
  have store: "fst (en_store e2) = fst (en_store e1)" using assms(2) by simp
  have "ended st' err i (snd (en_store e2))" if "ended st' err i (snd (en_store e1))" for st' err
    using heartbeat_rows(4) [OF that] assms(2) by simp
  moreover have "other_rows i (snd (en_store e)) (snd (en_store e2))"
    using assms other_rows_trans [OF _ heartbeat_rows(3)] by (simp add: job_over_def)
  moreover have "same_links e e2"
    using assms(1) same_links_trans [OF _ same_links_store [OF store]] by (simp add: job_over_def)
  ultimately show ?thesis
    using assms(1) store unfolding job_over_def reports_same_store [OF store] stored_ok_def
    by (cases outcome) (auto split: if_splits)
qed

lemma job_overD:
  assumes "job_over pow fmt i outcome r e e' res"
  shows "\<exists>r'. runs_of e' i = Some r' \<and> executed outcome r r'"
    and "\<forall>j. j \<noteq> i \<longrightarrow> runs_of e' j = runs_of e j \<and>
      get_item j (snd (en_store e')) = get_item j (snd (en_store e)) \<and>
      get_lease j (snd (en_store e')) = get_lease j (snd (en_store e))"
    and "\<forall>t. sql_list_children t (fst (en_store e')) = sql_list_children t (fst (en_store e))"
    and "case outcome of
        Inr _ \<Rightarrow> if all_report pow i e' then ended Completed None i (snd (en_store e'))
                 else \<exists>err. ended Failed (Some err) i (snd (en_store e'))
      | Inl exc \<Rightarrow> ended Failed (Some (exc_message (sql.raised exc))) i (snd (en_store e'))"
    and "if all_report pow i e'
      then all_fresh pow fmt i e' \<and> res = Inr (case outcome of Inr _ \<Rightarrow> True | Inl _ \<Rightarrow> False)
      else \<exists>exc. res = Inl exc"
  using assms by (simp_all only: job_over_def same_links_def other_rows_def) blast+

lemma endedD:
  assumes "ended st err i q"
  shows "\<exists>row. get_item i q = Some row \<and> qi_status row = st \<and> qi_locked_by row = None \<and>
    qi_locked_at row = None \<and> qi_completed_at row \<noteq> None \<and> qi_last_error row = err"
    and "get_lease i q = None"
  using assms by (auto simp: ended_def)

text \<open>Whether the worker's record asks it to stop or to drain.\<close>

definition stopping :: "string \<Rightarrow> queue_db \<Rightarrow> bool" where
  "stopping w q \<longleftrightarrow> (case get_worker w q of None \<Rightarrow> False
     | Some r \<Rightarrow> wr_shutdown_requested r \<or> wr_drain_requested r)"

lemma wp_process:
  assumes k: "wk_ops k = with_queue sql_ops" "wk_tournaments k = Some (pow, fmt)"
    and ok: "stored_ok e" and r: "runs_of e i = Some r"
    and st: "rr_status r \<notin> {Completed, Canceled}" and on: "runs_on (wk_engines k) r executor"
    and row: "open_row i (snd (en_store e))"
  shows "wp_s (process_item k i) e (job_over pow fmt i (snd (executor i)) r e)"
  unfolding process_item_def k(1)
proof (rule wp_bind_heartbeat, unfold wp_bind, rule wp_append_world)
  fix e1 :: "(sql_store \<times> queue_db) env" and now now'
  assume e1: "en_store e1 = (fst (en_store e), heartbeat now now' (wk_worker_id k) ''busy'' (Some i)
      [(''phase'', PStr ''claimed'')] None None (snd (en_store e)))"
  show "stored_ok e1" "runs_of e1 i = Some r" using e1 ok r by (simp_all add: stored_ok_def)
  fix e2
  assume e2: "only_run i e1 e2" "\<exists>ls. runs_of e2 i = Some (r\<lparr>rr_logs := ls\<rparr>)"
  then obtain ls where r2: "runs_of e2 i = Some (r\<lparr>rr_logs := ls\<rparr>)" by blast
  have ok2: "stored_ok e2" using e2(1) by (simp add: only_run_def)
  have row2: "open_row i (snd (en_store e2))"
    using e2(1) e1 heartbeat_rows(2) [OF row] by (simp add: only_run_def)
  have from_start: "job_over pow fmt i (snd (executor i)) r e e3 res3"
    if "job_over pow fmt i (snd (executor i)) (r\<lparr>rr_logs := ls\<rparr>) e2 e3 res3" for e3 res3
  proof -
    have "other_rows i (snd (en_store e)) (snd (en_store e2))"
      using e1 e2(1) heartbeat_rows(1) by (simp add: only_run_def)
    then have "other_rows i (snd (en_store e)) (snd (en_store e3))"
      using that other_rows_trans by (fastforce simp: job_over_def)
    moreover have "\<forall>j. j \<noteq> i \<longrightarrow> runs_of e3 j = runs_of e j"
      using that e1 e2(1) by (simp add: job_over_def only_run_def)
    moreover have "same_links e e1" using e1 by (intro same_links_store) simp
    then have "same_links e e3"
      using that same_links_trans only_run_links [OF e2(1)] by (auto simp: job_over_def)
    ultimately show ?thesis using that unfolding job_over_def executed_logs by blast
  qed
  have st2: "rr_status (r\<lparr>rr_logs := ls\<rparr>) \<notin> {Completed, Canceled}" using st by simp
  have on2: "runs_on (wk_engines k) (r\<lparr>rr_logs := ls\<rparr>) executor" using on by (simp add: runs_on_def)
  have "wp_s (finally_s (try_else_s (run_job k i) (job_failed k i) (job_completed k i))
       (heartbeat_s (wk_worker_id k) ''idle'' None [])) e2 (job_over pow fmt i (snd (executor i)) r e)"
    unfolding wp_finally
  proof (rule wp_mono [OF wp_job [OF k ok2 r2 st2 on2 row2]], rule wp_heartbeat)
    fix e3 e4 :: "(sql_store \<times> queue_db) env" and res3 now3 now4
    assume "job_over pow fmt i (snd (executor i)) (r\<lparr>rr_logs := ls\<rparr>) e2 e3 res3"
      "en_store e4 = (fst (en_store e3), heartbeat now3 now4 (wk_worker_id k) ''idle'' None [] None None
         (snd (en_store e3)))"
    then show "case Inr () of Inl exc \<Rightarrow> job_over pow fmt i (snd (executor i)) r e e4 (Inl exc)
      | Inr _ \<Rightarrow> job_over pow fmt i (snd (executor i)) r e e4 res3"
      using from_start job_over_heartbeat by fastforce
  qed
  then show "case Inr True of Inl exc \<Rightarrow> job_over pow fmt i (snd (executor i)) r e e2 (Inl exc)
    | Inr _ \<Rightarrow> wp_s (finally_s (try_else_s (run_job k i) (job_failed k i) (job_completed k i))
       (heartbeat_s (wk_worker_id k) ''idle'' None [])) e2 (job_over pow fmt i (snd (executor i)) r e)"
    by simp
qed

lemma wp_poll_job:
  assumes k: "wk_ops k = with_queue sql_ops" "wk_tournaments k = Some (pow, fmt)"
    and ok: "stored_ok e" "queue_inv (snd (en_store e))" "\<not> stopping (wk_worker_id k) (snd (en_store e))"
    and claim: "snd (claim_next (en_clock e (en_ticks e)) (wk_worker_id k) (snd (en_store e))) = Some item"
    and r: "runs_of e (qi_run_id item) = Some r"
    and st: "rr_status r \<notin> {Completed, Canceled}" and on: "runs_on (wk_engines k) r executor"
  shows "wp_s (poll k) e (\<lambda>e' res.
    job_over pow fmt (qi_run_id item) (snd (executor (qi_run_id item))) r e e' (bind_r res (\<lambda>p. Inr (p = Job True))) \<and>
    (\<forall>p. res = Inr p \<longrightarrow> (\<exists>c. p = Job c)))"
proof -
  let ?i = "qi_run_id item"
  let ?now = "en_clock e (en_ticks e)"
  let ?q = "fst (claim_next ?now (wk_worker_id k) (snd (en_store e)))"
  define e1 where "e1 = e\<lparr>en_ticks := Suc (en_ticks e), en_store := (fst (en_store e), ?q)\<rparr>"
  have go: "\<not> (case get_worker (wk_worker_id k) (snd (en_store e)) of None \<Rightarrow> False | Some r \<Rightarrow> wr_shutdown_requested r)"
    "\<not> (case get_worker (wk_worker_id k) (snd (en_store e)) of None \<Rightarrow> False | Some r \<Rightarrow> wr_drain_requested r)"
    using ok(3) by (auto simp: stopping_def split: option.splits)
  have claimed: "wp_s (queue_s (\<lambda>now. claim_next now (wk_worker_id k))) e P = P e1 (Inr (Some item))" for P
    using claim by (cases "claim_next ?now (wk_worker_id k) (snd (en_store e))")
      (simp add: queue_s_def wp_rules on_queue_def e1_def)
  have "wp_s (poll k) e P = wp_s (process_item k ?i) e1 (\<lambda>e' res. P e' (bind_r res (\<lambda>c. Inr (Job c))))" for P
    using go by (simp add: poll_def wp_bind wp_read wp_return claimed)
      (auto simp: wp_s_def return_s_def split: prod.split sum.split)
  note eq = this
  have e1: "stored_ok e1" "runs_of e1 ?i = Some r" "open_row ?i (snd (en_store e1))"
    using ok(1) r claim_rows(2) [OF ok(2) claim] by (simp_all add: e1_def stored_ok_def)
  show ?thesis
    unfolding eq
  proof (rule wp_mono [OF wp_process [OF k e1(1,2) st on e1(3)]])
    fix e' and res :: "bool result"
    assume over: "job_over pow fmt ?i (snd (executor ?i)) r e1 e' res"
    have "other_rows ?i (snd (en_store e)) (snd (en_store e'))"
      using over claim_rows(1) [OF ok(2) claim] other_rows_trans by (fastforce simp: job_over_def e1_def)
    with over have "job_over pow fmt ?i (snd (executor ?i)) r e e' res"
      unfolding job_over_def same_links_def by (simp add: e1_def)
    then show "job_over pow fmt ?i (snd (executor ?i)) r e e'
        (bind_r (bind_r res (\<lambda>c. Inr (Job c))) (\<lambda>p. Inr (p = Job True))) \<and>
      (\<forall>p. bind_r res (\<lambda>c. Inr (Job c)) = Inr p \<longrightarrow> (\<exists>c. p = Job c))"
      by (cases res) auto
  qed
qed

end
