(* ===== verification/Worker_Props.thy ===== *)
theory Worker_Props
  imports Worker_Job Queue_Props Run_Props
begin

text \<open>
  Properties of the worker of the command line: what one job does to the run store, the run queue and
  the tournaments, and what holds of a whole run of the loop. The sample worker polls a database with
  one pending session.
\<close>

section \<open>A sample world\<close>

definition sample_worker :: "engines \<Rightarrow> sql_store worker" where
  "sample_worker eg = build_worker quiet_codec eg
     \<lparr>xc_isoformat = int_str, xc_fromiso = (\<lambda>s. Inr 0), xc_float = (\<lambda>s. Inr float_zero)\<rparr>
     (\<lambda>config. Inl (RuntimeError ''no benchmark'')) (\<lambda>x y. Inr x) int_str ''host'' 1 ''w1'' (Some 1) True"

definition sample_jobs :: queue_db where
  "sample_jobs = queue_exec (Op_Enqueue 5 ''r'' 5 None) (migrate_legacy_worker_heartbeats None (new_queue 30))"

definition sample_world :: "(sql_store \<times> queue_db) env" where
  "sample_world = \<lparr>en_store = (en_store (sample_env []), sample_jobs), en_stream = Some (new_stream 100),
     en_clock = int, en_ticks = 6\<rparr>"

lemma sample_jobs_reachable: "queue_reachable 30 sample_jobs"
  unfolding sample_jobs_def by (intro queue_reachable.step queue_reachable.initial)

lemma sample_jobs_claim: "map_option qi_run_id (snd (claim_next 6 ''w1'' sample_jobs)) = Some ''r''"
  by code_simp

lemma sample_jobs_go: "\<not> stopping ''w1'' sample_jobs"
  by code_simp

lemma sample_world_sel [simp]:
  "fst (en_store sample_world) = en_store (sample_env [])" "snd (en_store sample_world) = sample_jobs"
  "en_clock sample_world (en_ticks sample_world) = 6"
  by (simp_all add: sample_world_def)

lemma sample_world_ok:
  "sql_ok (en_store (sample_env []))" "sql_tournaments_ok (en_store (sample_env []))"
  "sql_get_run ''r'' (en_store (sample_env [])) = Some (new_run 5 ''r'' Session [])"
  "sql_list_children t (en_store (sample_env [])) = None"
proof -
  have fresh: "fresh_ops encode_json snapshot_order [St_Create 5 ''r'' Session []] (\<lambda>i. None)" by simp
  show "sql_ok (en_store (sample_env []))" by (rule sample_env_ok [OF fresh])
  show "sql_get_run ''r'' (en_store (sample_env [])) = Some (new_run 5 ''r'' Session [])"
    using sample_env_get [OF fresh] by simp
  have empty: "sq_tournaments (en_store (sample_env [])) = []" "sq_children (en_store (sample_env [])) = []"
    by (simp_all add: sample_env_def sql_ops_sel sql_run_tables empty_sql_def)
  then show "sql_tournaments_ok (en_store (sample_env []))" by (simp add: sql_tournaments_ok_def)
  show "sql_list_children t (en_store (sample_env [])) = None"
    by (simp add: sql_list_children_def sql_get_tournament_def empty)
qed

text \<open>No report to build where no tournament lists the run.\<close>

lemma no_parent_reports:
  assumes "\<And>t. sql_list_children t (fst (en_store e)) = None"
  shows "all_report pow i e"
  using assms by (simp add: all_report_def world.parent_def children_of_def with_queue_sel sql_ops_sel)

section \<open>Jobs\<close>

text \<open>C30 (a job that succeeds). When a worker polls a reachable queue, is not asked to stop, and claims
  a run whose stored session or backtest is neither completed nor canceled, and the engine returns its
  artifacts, then afterwards the stored run is completed with its report, events, snapshots and accounts in
  JSON normal form and its other fields but logs and times as they were, no other run, no other queue row
  or lease and no link of a tournament has changed, and the row of the run is unlocked, has its completion time and no lease. When a
  report can be built for every tournament of the run, the row is completed without error, those
  tournaments hold reports on their children as they now are, and the pass counts as a completed job.
  Otherwise the row is failed although the run is completed, and the exception leaves the worker.\<close>

theorem worker_job_completed:
  assumes k: "k = build_worker cd eg xc be pow fmt host pid w m once"
    and "sql_ok (fst (en_store e))" and "sql_tournaments_ok (fst (en_store e))"
    and "queue_reachable stale (snd (en_store e))" and "\<not> stopping w (snd (en_store e))"
    and "snd (claim_next (en_clock e (en_ticks e)) w (snd (en_store e))) = Some item"
    and "sql_get_run (qi_run_id item) (fst (en_store e)) = Some r"
    and "rr_status r \<notin> {Completed, Canceled}" and "runs_on eg r executor"
    and "snd (executor (qi_run_id item)) = Inr a"
  shows "case poll k e of (e', res) \<Rightarrow>
    (\<exists>r'. sql_get_run (qi_run_id item) (fst (en_store e')) = Some r' \<and> rr_status r' = Completed \<and>
       rr_started_at r' \<noteq> None \<and> rr_completed_at r' \<noteq> None \<and> rr_report r' = encode_json (af_report a) \<and>
       rr_events r' = map encode_json (af_events a) \<and>
       rr_snapshots r' = map encode_json (snapshot_order (af_snapshots a)) \<and>
       rr_accounts r' = map encode_json (af_accounts a) \<and> rr_config r' = rr_config r \<and>
       rr_run_type r' = rr_run_type r \<and> rr_created_at r' = rr_created_at r \<and>
       rr_verification r' = rr_verification r \<and> rr_error r' = rr_error r) \<and>
    (\<forall>j. j \<noteq> qi_run_id item \<longrightarrow> sql_get_run j (fst (en_store e')) = sql_get_run j (fst (en_store e)) \<and>
       get_item j (snd (en_store e')) = get_item j (snd (en_store e)) \<and>
       get_lease j (snd (en_store e')) = get_lease j (snd (en_store e))) \<and>
    (\<forall>t. sql_list_children t (fst (en_store e')) = sql_list_children t (fst (en_store e))) \<and>
    get_lease (qi_run_id item) (snd (en_store e')) = None \<and>
    (\<exists>row. get_item (qi_run_id item) (snd (en_store e')) = Some row \<and> qi_locked_by row = None \<and>
       qi_locked_at row = None \<and> qi_completed_at row \<noteq> None \<and>
       (if all_report pow (qi_run_id item) e'
        then res = Inr (Job True) \<and> qi_status row = Completed \<and> qi_last_error row = None \<and>
          all_fresh pow fmt (qi_run_id item) e'
        else (\<exists>exc. res = Inl exc) \<and> qi_status row = Failed))"
proof -
  have "wk_ops k = with_queue sql_ops" "wk_tournaments k = Some (pow, fmt)" "wk_worker_id k = w"
    "wk_engines k = eg" by (simp_all add: k build_worker_def)
  then have "wp_s (poll k) e (\<lambda>e' res.
    job_over pow fmt (qi_run_id item) (Inr a) r e e' (bind_r res (\<lambda>p. Inr (p = Job True))) \<and>
    (\<forall>p. res = Inr p \<longrightarrow> (\<exists>c. p = Job c)))"
    using wp_poll_job [of k pow fmt e item r executor] assms reachable_inv [OF assms(4)]
    by (simp add: stored_ok_def)
  then show ?thesis
    by (cases "snd (poll k e)")
      (auto simp: wp_s_def job_over_def executed_def ended_def other_rows_def same_links_def split: prod.splits if_splits)
qed

theorem worker_job_completed_witness:
  "snd (poll (sample_worker good_engines) sample_world) = Inr (Job True) \<and>
   (\<exists>row. get_item ''r'' (snd (en_store (fst (poll (sample_worker good_engines) sample_world)))) = Some row \<and>
      qi_status row = Completed)"
proof -
  from sample_jobs_claim obtain item where item: "snd (claim_next 6 ''w1'' sample_jobs) = Some item"
    "qi_run_id item = ''r''" by auto
  have on: "runs_on good_engines (new_run 5 ''r'' Session [])
      (\<lambda>run_id. ([[(''step'', PInt 1)]], Inr sample_artifacts))"
    by (simp add: runs_on_def new_run_def good_engines_def)
  have "rr_status (new_run 5 ''r'' Session []) \<notin> {Completed, Canceled}" by (simp add: new_run_def)
  note job = worker_job_completed [OF sample_worker_def [of good_engines], of sample_world 30 item
      "new_run 5 ''r'' Session []" "\<lambda>run_id. ([[(''step'', PInt 1)]], Inr sample_artifacts)" sample_artifacts,
      simplified item(2) sample_world_sel snd_conv, OF sample_world_ok(1,2) sample_jobs_reachable
      sample_jobs_go item(1) sample_world_ok(3) this on refl]
  show ?thesis
  proof (cases "poll (sample_worker good_engines) sample_world")
    case (Pair e' res)
    have "all_report (\<lambda>x y. Inr x) ''r'' e'"
      using job by (intro no_parent_reports) (simp add: Pair sample_world_ok(4))
    with job show ?thesis by (auto simp: Pair)
  qed
qed

text \<open>C31 (a job that fails). When the engine raises instead, the stored run is failed with the message
  of the exception (a fixed text for an invalid request) and keeps its report, events, snapshots, accounts,
  configuration, type, creation time and verification, the row is failed, unlocked and without a lease, with
  the message of the API error the run service raised, and no other run, queue row or lease and no link of a
  tournament has changed. The pass counts as a failed job when a report can be built for every
  tournament of the run; otherwise the exception leaves the worker.\<close>

theorem worker_job_failed:
  assumes k: "k = build_worker cd eg xc be pow fmt host pid w m once"
    and "sql_ok (fst (en_store e))" and "sql_tournaments_ok (fst (en_store e))"
    and "queue_reachable stale (snd (en_store e))" and "\<not> stopping w (snd (en_store e))"
    and "snd (claim_next (en_clock e (en_ticks e)) w (snd (en_store e))) = Some item"
    and "sql_get_run (qi_run_id item) (fst (en_store e)) = Some r"
    and "rr_status r \<notin> {Completed, Canceled}" and "runs_on eg r executor"
    and "snd (executor (qi_run_id item)) = Inl exc"
  shows "case poll k e of (e', res) \<Rightarrow>
    (\<exists>r'. sql_get_run (qi_run_id item) (fst (en_store e')) = Some r' \<and> rr_status r' = Failed \<and>
       rr_started_at r' \<noteq> None \<and> rr_completed_at r' \<noteq> None \<and> rr_report r' = rr_report r \<and>
       rr_events r' = rr_events r \<and> rr_snapshots r' = rr_snapshots r \<and> rr_accounts r' = rr_accounts r \<and>
       rr_config r' = rr_config r \<and> rr_run_type r' = rr_run_type r \<and> rr_created_at r' = rr_created_at r \<and>
       rr_verification r' = rr_verification r \<and>
       rr_error r' = Some (case exc of InvalidRequestError _ \<Rightarrow> ''invalid request'' | _ \<Rightarrow> exc_message exc)) \<and>
    (\<forall>j. j \<noteq> qi_run_id item \<longrightarrow> sql_get_run j (fst (en_store e')) = sql_get_run j (fst (en_store e)) \<and>
       get_item j (snd (en_store e')) = get_item j (snd (en_store e)) \<and>
       get_lease j (snd (en_store e')) = get_lease j (snd (en_store e))) \<and>
    (\<forall>t. sql_list_children t (fst (en_store e')) = sql_list_children t (fst (en_store e))) \<and>
    get_lease (qi_run_id item) (snd (en_store e')) = None \<and>
    (\<exists>row. get_item (qi_run_id item) (snd (en_store e')) = Some row \<and> qi_status row = Failed \<and>
       qi_locked_by row = None \<and> qi_locked_at row = None \<and> qi_completed_at row \<noteq> None \<and>
       qi_last_error row = Some (exc_message (case exc of InvalidRequestError msg \<Rightarrow> InvalidRequestError msg
         | _ \<Rightarrow> RunExecutionError (exc_message exc)))) \<and>
    (if all_report pow (qi_run_id item) e' then res = Inr (Job False) \<and> all_fresh pow fmt (qi_run_id item) e'
     else \<exists>exc. res = Inl exc)"
proof -
  have "wk_ops k = with_queue sql_ops" "wk_tournaments k = Some (pow, fmt)" "wk_worker_id k = w"
    "wk_engines k = eg" by (simp_all add: k build_worker_def)
  then have "wp_s (poll k) e (\<lambda>e' res.
    job_over pow fmt (qi_run_id item) (Inl exc) r e e' (bind_r res (\<lambda>p. Inr (p = Job True))) \<and>
    (\<forall>p. res = Inr p \<longrightarrow> (\<exists>c. p = Job c)))"
    using wp_poll_job [of k pow fmt e item r executor] assms reachable_inv [OF assms(4)]
    by (simp add: stored_ok_def)
  then obtain e' res where poll: "poll k e = (e', res)"
    and over: "job_over pow fmt (qi_run_id item) (Inl exc) r e e' (bind_r res (\<lambda>p. Inr (p = Job True)))"
    and jobs: "\<And>p. res = Inr p \<Longrightarrow> \<exists>c. p = Job c" by (auto simp: wp_s_def split: prod.splits)
  have error: "sql.recorded exc = (case exc of InvalidRequestError _ \<Rightarrow> ''invalid request'' | _ \<Rightarrow> exc_message exc)"
    "sql.raised exc = (case exc of InvalidRequestError msg \<Rightarrow> InvalidRequestError msg
       | _ \<Rightarrow> RunExecutionError (exc_message exc))"
    by (cases exc; simp)+
  note facts = job_overD [OF over, unfolded sum.case error(2)]
  have "if all_report pow (qi_run_id item) e' then res = Inr (Job False) \<and> all_fresh pow fmt (qi_run_id item) e'
     else \<exists>exc. res = Inl exc"
    using facts(5) jobs by (cases res) (auto split: if_splits)
  moreover have "\<exists>r'. sql_get_run (qi_run_id item) (fst (en_store e')) = Some r' \<and> rr_status r' = Failed \<and>
       rr_started_at r' \<noteq> None \<and> rr_completed_at r' \<noteq> None \<and> rr_report r' = rr_report r \<and>
       rr_events r' = rr_events r \<and> rr_snapshots r' = rr_snapshots r \<and> rr_accounts r' = rr_accounts r \<and>
       rr_config r' = rr_config r \<and> rr_run_type r' = rr_run_type r \<and> rr_created_at r' = rr_created_at r \<and>
       rr_verification r' = rr_verification r \<and>
       rr_error r' = Some (case exc of InvalidRequestError _ \<Rightarrow> ''invalid request'' | _ \<Rightarrow> exc_message exc)"
    using facts(1) unfolding executed_def sum.case error(1) by blast
  ultimately show ?thesis
    unfolding poll prod.case
    by (intro conjI facts(2,3) endedD(2) [OF facts(4)] endedD(1) [OF facts(4)])
qed

theorem worker_job_failed_witness:
  "snd (poll (sample_worker bad_engines) sample_world) = Inr (Job False) \<and>
   (\<exists>row. get_item ''r'' (snd (en_store (fst (poll (sample_worker bad_engines) sample_world)))) = Some row \<and>
      qi_last_error row = Some ''engine stopped'')"
proof -
  from sample_jobs_claim obtain item where item: "snd (claim_next 6 ''w1'' sample_jobs) = Some item"
    "qi_run_id item = ''r''" by auto
  have on: "runs_on bad_engines (new_run 5 ''r'' Session [])
      (\<lambda>run_id. ([], Inl (RuntimeError ''engine stopped'')))"
    by (simp add: runs_on_def new_run_def bad_engines_def)
  have "rr_status (new_run 5 ''r'' Session []) \<notin> {Completed, Canceled}" by (simp add: new_run_def)
  note job = worker_job_failed [OF sample_worker_def [of bad_engines], of sample_world 30 item
      "new_run 5 ''r'' Session []" "\<lambda>run_id. ([], Inl (RuntimeError ''engine stopped''))"
      "RuntimeError ''engine stopped''",
      simplified item(2) sample_world_sel snd_conv, OF sample_world_ok(1,2) sample_jobs_reachable
      sample_jobs_go item(1) sample_world_ok(3) this on refl]
  show ?thesis
  proof (cases "poll (sample_worker bad_engines) sample_world")
    case (Pair e' res)
    have "all_report (\<lambda>x y. Inr x) ''r'' e'"
      using job by (intro no_parent_reports) (simp add: Pair sample_world_ok(4))
    with job show ?thesis by (auto simp: Pair exc_message_def)
  qed
qed

section \<open>The loop\<close>

text \<open>C32 (a run of the loop). Whatever happens between its passes, as long as it keeps the invariant of
  the queue, the queue has its invariant wherever the worker stands, still polling or ended. Its counts
  are those of its own passes: one pass for each evaluation of the condition while it is polling, and
  never more jobs than passes or than its limit. With \<open>--once\<close> it has ended before a second evaluation, having
  made at most one pass. A worker whose record asks for shutdown before a pass ends with that pass, and no
  later evaluation changes anything once it has ended.\<close>

theorem worker_run_safe:
  assumes k: "k = build_worker cd eg xc be pow fmt host pid w m once"
    and "queue_inv (snd (en_store e))" and "\<And>n v. queue_inv (snd v) \<Longrightarrow> queue_inv (snd (others n v))"
  shows "case run_worker k others N e of (e', st) \<Rightarrow>
    queue_inv (snd (en_store e')) \<and>
    (\<forall>n. st = Polling n \<or> st = Returned n \<longrightarrow> ws_worker_id n = w \<and>
       0 \<le> ws_jobs_completed n + ws_jobs_failed n \<and> ws_jobs_completed n + ws_jobs_failed n \<le> ws_polls n \<and>
       (case m of None \<Rightarrow> True | Some l \<Rightarrow> ws_jobs_completed n + ws_jobs_failed n \<le> max 0 l)) \<and>
    (case st of
       Polling n \<Rightarrow> ws_polls n = int N \<and> (once \<longrightarrow> N = 0) \<and>
         (\<forall>r. may_poll k n \<and> get_worker w (snd (others (int N + 1) (en_store e'))) = Some r \<and>
            wr_shutdown_requested r \<longrightarrow>
            snd (run_worker k others (Suc N) e) = Returned (n\<lparr>ws_polls := int N + 1\<rparr>))
     | Returned n \<Rightarrow> ws_polls n \<le> int N \<and> (once \<longrightarrow> ws_polls n \<le> 1) \<and>
         (\<forall>M. run_worker k others (N + M) e = (e', st))
     | Raised exc \<Rightarrow> \<forall>M. run_worker k others (N + M) e = (e', st))"
proof -
  have sel: "paired k" "wk_worker_id k = w" "wk_max_jobs k = m" "wk_once k = once"
    using build_worker_paired by (simp_all add: k) (simp_all add: build_worker_def)
  obtain e1 res1 where reg: "register_s k e = (e1, res1)" by fastforce
  have "keeps (\<lambda>v. queue_inv (snd v)) (register_s k)" by (rule keeps_register) (rule queue_inv_exec)
  then have inv1: "queue_inv (snd (en_store e1))"
    using keepsD [where P = "\<lambda>v. queue_inv (snd v)" and e = e and m = "register_s k"] assms(2) reg by simp
  show ?thesis
  proof (cases res1)
    case (Inl exc)
    then show ?thesis using inv1 by (simp add: run_worker_def reg)
  next
    case (Inr rec)
    then have run: "run_worker k others M e = worker_loop k others M (no_jobs k) e1" for M
      by (simp add: run_worker_def reg)
    obtain e' st where loop: "worker_loop k others N (no_jobs k) e1 = (e', st)" by fastforce
    have counts: "ws_worker_id n = w \<and> 0 \<le> ws_jobs_completed n + ws_jobs_failed n \<and>
        ws_jobs_completed n + ws_jobs_failed n \<le> ws_polls n \<and> ws_polls n \<le> int N \<and>
        (case m of None \<Rightarrow> True | Some l \<Rightarrow> ws_jobs_completed n + ws_jobs_failed n \<le> max 0 l)"
      if "st = Polling n \<or> st = Returned n" for n
      using worker_loop_counts [of k others N "no_jobs k" e1 n] that sel(2,3) loop
      by (auto simp: counted_def jobs_def no_jobs_def split: option.split)
    have inv: "queue_inv (snd (en_store e'))"
      using worker_loop_keeps [of k queue_inv others e1, OF sel(1) queue_inv_exec assms(3) inv1, of N "no_jobs k"]
      by (simp add: loop)
    note facts = inv counts ended_stays [OF loop]
    show ?thesis
    proof (cases st)
      case (Polling n)
      have "ws_polls n = int N"
        using polling_passes [of k others N "no_jobs k" e1 n] loop by (simp add: Polling) (simp add: no_jobs_def)
      moreover have "once \<longrightarrow> N = 0"
        using once_ends [of k others "N - 1" "no_jobs k" e1 n] sel(4) loop
        by (cases N) (auto simp: Polling simp del: worker_loop.simps)
      ultimately show ?thesis
        using facts loop_shutdown [of k others N "no_jobs k" e1 e' n] loop sel(2)
        by (auto simp: run Polling simp del: worker_loop.simps)
    next
      case (Returned n)
      have "once \<longrightarrow> ws_polls n \<le> 1"
        using once_polls [of k others N "no_jobs k" e1 n] sel(4) loop by (auto simp: Returned) (simp add: no_jobs_def)
      then show ?thesis using facts by (auto simp: run loop Returned)
    next
      case (Raised exc)
      then show ?thesis using facts by (simp add: run loop)
    qed
  qed
qed

theorem worker_run_safe_witness:
  "\<exists>e' st. run_worker (sample_worker bad_engines) (\<lambda>n v. v) 1 sample_world = (e', st) \<and>
     queue_inv (snd (en_store e')) \<and> (case st of Polling n \<Rightarrow> False | Returned n \<Rightarrow> ws_polls n \<le> 1 | Raised exc \<Rightarrow> True)"
proof -
  have inv: "queue_inv (snd (en_store sample_world))"
    using reachable_inv [OF sample_jobs_reachable] by simp
  show ?thesis
    using worker_run_safe [OF sample_worker_def [of bad_engines] inv, where others = "\<lambda>n v. v" and N = 1]
    by (cases "run_worker (sample_worker bad_engines) (\<lambda>n v. v) 1 sample_world") (simp split: loop_state.splits)
qed

text \<open>Remark (one pass). A worker started with \<open>--once\<close> that returns has made exactly one pass of its loop, or none
  when its job limit is not positive, whatever the services and the other processes do.\<close>

theorem worker_once_returns:
  assumes "snd (run_worker (build_worker cd eg xc be pow fmt host pid w m True) others (Suc N) e) = Returned n"
  shows "ws_polls n = (if (case m of None \<Rightarrow> True | Some l \<Rightarrow> 0 < l) then 1 else 0)"
proof -
  let ?k = "build_worker cd eg xc be pow fmt host pid w m True"
  have once: "wk_once ?k" and limit: "wk_max_jobs ?k = m" by (simp_all add: build_worker_def)
  have run: "snd (worker_loop ?k others (Suc N) (no_jobs ?k) e1) = Returned n \<longrightarrow> ?thesis" for e1
    using once once_no_sleep [OF once, of "e1\<lparr>en_store := others 1 (en_store e1)\<rparr>"]
    by (auto simp: may_poll_def limit no_jobs_def count_job_def Let_def
        split: if_splits option.splits prod.splits sum.splits poll_end.splits)
  show ?thesis
    using assms run by (auto simp: run_worker_def simp del: worker_loop.simps split: prod.splits sum.splits)
qed

end
