(* ===== verification/Scheduler.thy ===== *)
theory Scheduler
  imports Queue_Inv
begin

text \<open>
  The scheduler facade, \<open>sim/api/execution/scheduler.py\<close>: worker registry, lease manager, allocator and
  the top-level service over one queue. The lemmas show that each call is at most one operation of
  the queue, so that a queue the facade writes to stays reachable.
\<close>

section \<open>The registry\<close>

(* sim/api/execution/scheduler.py:18-33 register *)
definition registry_register ::
  "instant \<Rightarrow> string \<Rightarrow> string \<Rightarrow> int option \<Rightarrow> instant option \<Rightarrow> pydict option \<Rightarrow> queue_db
   \<Rightarrow> queue_db \<times> worker_record result" where
  "registry_register now worker_id hostname process_id started_at capabilities db =
     register_worker now worker_id hostname process_id started_at capabilities ''idle'' db"

(* sim/api/execution/scheduler.py:35-36 list_workers *)
definition registry_list_workers :: "queue_db \<Rightarrow> worker_record list" where
  "registry_list_workers db = list_worker_records db"

(* sim/api/execution/scheduler.py:38-39 get_worker *)
definition registry_get_worker :: "string \<Rightarrow> queue_db \<Rightarrow> worker_record option" where
  "registry_get_worker worker_id db = get_worker worker_id db"

(* sim/api/execution/scheduler.py:41-42 drain *)
definition registry_drain :: "string \<Rightarrow> queue_db \<Rightarrow> queue_db \<times> worker_record option" where
  "registry_drain worker_id db = drain_worker worker_id db"

(* sim/api/execution/scheduler.py:44-45 shutdown *)
definition registry_shutdown :: "string \<Rightarrow> queue_db \<Rightarrow> queue_db \<times> worker_record option" where
  "registry_shutdown worker_id db = shutdown_worker worker_id db"

(* sim/api/execution/scheduler.py:47-48 detect_stale *)
definition registry_detect_stale :: "instant \<Rightarrow> int option \<Rightarrow> queue_db \<Rightarrow> queue_db \<times> worker_record list" where
  "registry_detect_stale now stale_after_seconds db = detect_stale_workers now stale_after_seconds db"

section \<open>Leases, allocation, status\<close>

(* sim/api/execution/scheduler.py:57-58 requeue_stale *)
definition manager_requeue_stale ::
  "instant \<Rightarrow> instant \<Rightarrow> instant \<Rightarrow> instant \<Rightarrow> instant \<Rightarrow> int option \<Rightarrow> queue_db
   \<Rightarrow> queue_db \<times> requeue_result" where
  "manager_requeue_stale t t1 t2 t3 t4 stale_after_seconds db = requeue_stale t t1 t2 t3 t4 stale_after_seconds db"

text \<open>\<open>asdict(lease)\<close>, whose instants stay instants.\<close>

(* sim/api/execution/scheduler.py:60-61 leases *)
definition manager_leases :: "queue_db \<Rightarrow> run_lease list" where
  "manager_leases db = list_leases db"

(* sim/api/execution/scheduler.py:70-71 claim_next *)
definition allocator_claim_next :: "instant \<Rightarrow> string \<Rightarrow> queue_db \<Rightarrow> queue_db \<times> queue_item option" where
  "allocator_claim_next now worker_id db = claim_next now worker_id db"

text \<open>\<open>asdict\<close> of the two summaries.\<close>

definition status_dict :: "scheduler_status \<Rightarrow> pydict" where
  "status_dict s =
     [(''pending_count'', PInt (int (ss_pending_count s))), (''running_count'', PInt (int (ss_running_count s))),
      (''completed_count'', PInt (int (ss_completed_count s))), (''failed_count'', PInt (int (ss_failed_count s))),
      (''stale_worker_count'', PInt (int (ss_stale_worker_count s))),
      (''stale_job_count'', PInt (int (ss_stale_job_count s))),
      (''queue_depth'', PInt (int (ss_queue_depth s))),
      (''average_wait_seconds'', PFloat (ss_average_wait_seconds s)),
      (''average_run_seconds'', PFloat (ss_average_run_seconds s)),
      (''worker_utilization'', PFloat (ss_worker_utilization s)),
      (''throughput_per_minute'', PFloat (ss_throughput_per_minute s))]"

definition requeue_dict :: "requeue_result \<Rightarrow> pydict" where
  "requeue_dict r =
     [(''stale_workers'', PInt (int (rq_stale_workers r))),
      (''requeued_runs'', PList (map PStr (rq_requeued_runs r)))]"

(* sim/api/execution/scheduler.py:83-85 status *)
definition service_status :: "instant \<Rightarrow> instant \<Rightarrow> instant \<Rightarrow> queue_db \<Rightarrow> queue_db \<times> pydict" where
  "service_status t1 t2 t3 db =
     (case record_scheduler_metrics t1 t2 t3 db of (db', snapshot) \<Rightarrow> (db', status_dict snapshot))"

(* sim/api/execution/scheduler.py:87-89 requeue_stale *)
definition service_requeue_stale ::
  "instant \<Rightarrow> instant \<Rightarrow> instant \<Rightarrow> instant \<Rightarrow> instant \<Rightarrow> int option \<Rightarrow> queue_db
   \<Rightarrow> queue_db \<times> pydict" where
  "service_requeue_stale t t1 t2 t3 t4 stale_after_seconds db =
     (case manager_requeue_stale t t1 t2 t3 t4 stale_after_seconds db of
        (db', result) \<Rightarrow> (db', requeue_dict result))"

lemmas scheduler_defs = registry_register_def registry_list_workers_def registry_get_worker_def
  registry_drain_def registry_shutdown_def registry_detect_stale_def manager_requeue_stale_def
  manager_leases_def allocator_claim_next_def service_status_def service_requeue_stale_def

lemma scheduler_steps:
  "fst (registry_register now w h pid t caps db) = queue_exec (Op_Register now w h pid t caps ''idle'') db"
  "fst (registry_drain w db) = queue_exec (Op_Drain w) db"
  "fst (registry_shutdown w db) = queue_exec (Op_Shutdown w) db"
  "fst (registry_detect_stale now s db) = queue_exec (Op_Detect now s) db"
  "fst (allocator_claim_next now w db) = queue_exec (Op_Claim now w) db"
  "fst (service_status t1 t2 t3 db) = queue_exec (Op_Metrics t1 t2 t3) db"
  "fst (service_requeue_stale t0 t1 t2 t3 t4 s db) = queue_exec (Op_Requeue t0 t1 t2 t3 t4 s) db"
  by (simp_all add: scheduler_defs split: prod.split)

end
