(* ===== verification/Playback.thy ===== *)
theory Playback
  imports Float_Order
begin

text \<open>
  The replay cursor of \<open>sim/tes_replay/playback.py\<close>: a timeline of sorted steps, the position on it,
  and a controller that every command replaces by a new one. A timeline that exists has passed
  \<open>__post_init__\<close>, and so has every cursor, since \<open>replace\<close> runs it again. The lemmas show that a
  controller never leaves its timeline, and relate the two loops to the steps above and below.
\<close>

section \<open>Values\<close>

(* sim/tes_replay/playback.py:8-8 PlaybackState *)
datatype playback_state = Playing | Paused

(* sim/tes_replay/playback.py:11-17 ReplayCursor *)
record replay_cursor =
  cu_step :: int
  cu_state :: playback_state
  cu_speed :: pyfloat

text \<open>\<open>speed <= 0\<close> is false for NaN. The state needs no test: the datatype has the two strings only.\<close>

(* sim/tes_replay/playback.py:19-25 ReplayCursor.__post_init__ *)
definition make_cursor :: "int \<Rightarrow> playback_state \<Rightarrow> pyfloat \<Rightarrow> replay_cursor result" where
  "make_cursor step state speed =
     (if step < 0 then Inl (ValueError ''step must be a non-negative integer'')
      else if speed \<noteq> NaN \<and> \<not> float_lt float_zero speed then Inl (ValueError ''speed must be positive'')
      else Inr \<lparr>cu_step = step, cu_state = state, cu_speed = speed\<rparr>)"

(* sim/tes_replay/playback.py:28-32 ReplayTimeline *)
type_synonym replay_timeline = "int list"

(* sim/tes_replay/playback.py:34-38 ReplayTimeline.__post_init__ *)
definition make_timeline :: "int list \<Rightarrow> replay_timeline result" where
  "make_timeline steps =
     (if list_ex (\<lambda>step. step < 0) steps then Inl (ValueError ''timeline steps must be non-negative integers'')
      else if sort (remdups steps) \<noteq> steps then Inl (ValueError ''timeline steps must be unique and sorted'')
      else Inr steps)"

section \<open>The timeline\<close>

(* sim/tes_replay/playback.py:40-42 first_step *)
definition first_step :: "replay_timeline \<Rightarrow> int" where
  "first_step steps = (if steps \<noteq> [] then hd steps else 0)"

(* sim/tes_replay/playback.py:44-46 last_step *)
definition last_step :: "replay_timeline \<Rightarrow> int" where
  "last_step steps = (if steps \<noteq> [] then last steps else 0)"

(* sim/tes_replay/playback.py:48-51 clamp *)
definition clamp :: "replay_timeline \<Rightarrow> int \<Rightarrow> int" where
  "clamp steps step =
     (if steps = [] then 0 else min (max step (first_step steps)) (last_step steps))"

(* sim/tes_replay/playback.py:53-57 next_step *)
definition next_step :: "replay_timeline \<Rightarrow> int \<Rightarrow> int" where
  "next_step steps step =
     (case find (\<lambda>candidate. step < candidate) steps of Some candidate \<Rightarrow> candidate | None \<Rightarrow> last_step steps)"

(* sim/tes_replay/playback.py:61-65 previous_step (loop) *)
fun previous_loop :: "int \<Rightarrow> int \<Rightarrow> int list \<Rightarrow> int" where
  "previous_loop step previous [] = previous"
| "previous_loop step previous (candidate # rest) =
     (if step \<le> candidate then previous else previous_loop step candidate rest)"

(* sim/tes_replay/playback.py:59-65 previous_step *)
definition previous_step :: "replay_timeline \<Rightarrow> int \<Rightarrow> int" where
  "previous_step steps step = previous_loop step (first_step steps) steps"

section \<open>The controller\<close>

(* sim/tes_replay/playback.py:68-73 ReplayPlaybackController *)
record playback_controller =
  pc_timeline :: replay_timeline
  pc_cursor :: replay_cursor

text \<open>\<open>replace(self, cursor=cursor)\<close> for a cursor that may be refused.\<close>

definition with_cursor :: "playback_controller \<Rightarrow> replay_cursor result \<Rightarrow> playback_controller result" where
  "with_cursor c made = bind_r made (\<lambda>cursor. Inr (c\<lparr>pc_cursor := cursor\<rparr>))"

(* sim/tes_replay/playback.py:75-77 create *)
definition create_playback :: "replay_timeline \<Rightarrow> pyfloat \<Rightarrow> playback_controller result" where
  "create_playback steps speed =
     bind_r (make_cursor (first_step steps) Paused speed) (\<lambda>cursor.
       Inr \<lparr>pc_timeline = steps, pc_cursor = cursor\<rparr>)"

(* sim/tes_replay/playback.py:79-80 play *)
definition play :: "playback_controller \<Rightarrow> playback_controller result" where
  "play c = with_cursor c (make_cursor (cu_step (pc_cursor c)) Playing (cu_speed (pc_cursor c)))"

(* sim/tes_replay/playback.py:82-83 pause *)
definition pause :: "playback_controller \<Rightarrow> playback_controller result" where
  "pause c = with_cursor c (make_cursor (cu_step (pc_cursor c)) Paused (cu_speed (pc_cursor c)))"

(* sim/tes_replay/playback.py:85-86 seek *)
definition seek :: "int \<Rightarrow> playback_controller \<Rightarrow> playback_controller result" where
  "seek step c = with_cursor c
     (make_cursor (clamp (pc_timeline c) step) (cu_state (pc_cursor c)) (cu_speed (pc_cursor c)))"

(* sim/tes_replay/playback.py:88-89 jump_to_step *)
definition jump_to_step :: "int \<Rightarrow> playback_controller \<Rightarrow> playback_controller result" where
  "jump_to_step step c = seek step c"

(* sim/tes_replay/playback.py:91-92 jump_to_event *)
definition jump_to_event :: "int \<Rightarrow> playback_controller \<Rightarrow> playback_controller result" where
  "jump_to_event event_step c = seek event_step c"

(* sim/tes_replay/playback.py:94-95 set_speed *)
definition set_speed :: "pyfloat \<Rightarrow> playback_controller \<Rightarrow> playback_controller result" where
  "set_speed speed c = with_cursor c (make_cursor (cu_step (pc_cursor c)) (cu_state (pc_cursor c)) speed)"

(* sim/tes_replay/playback.py:97-98 next_frame *)
definition next_frame :: "playback_controller \<Rightarrow> playback_controller result" where
  "next_frame c = seek (next_step (pc_timeline c) (cu_step (pc_cursor c))) c"

(* sim/tes_replay/playback.py:100-101 previous_frame *)
definition previous_frame :: "playback_controller \<Rightarrow> playback_controller result" where
  "previous_frame c = seek (previous_step (pc_timeline c) (cu_step (pc_cursor c))) c"

section \<open>Steps above and below\<close>

definition timeline_ok :: "replay_timeline \<Rightarrow> bool" where
  "timeline_ok steps \<longleftrightarrow> sorted steps \<and> distinct steps \<and> (\<forall>step \<in> set steps. 0 \<le> step)"

lemma sort_remdups_fixed: "sort (remdups xs) = xs \<longleftrightarrow> sorted xs \<and> distinct xs"
proof
  assume fixed: "sort (remdups xs) = xs"
  have "sorted (sort (remdups xs))" "distinct (sort (remdups xs))" by simp_all
  then show "sorted xs \<and> distinct xs" by (simp only: fixed)
next
  assume "sorted xs \<and> distinct xs"
  then show "sort (remdups xs) = xs" by (simp add: distinct_remdups_id sorted_sort_id)
qed

lemma make_timeline_Inr: "make_timeline steps = Inr steps' \<longleftrightarrow> steps' = steps \<and> timeline_ok steps"
  by (auto simp: make_timeline_def timeline_ok_def sort_remdups_fixed list_ex_iff not_less not_le)

lemma first_least: "timeline_ok steps \<Longrightarrow> step \<in> set steps \<Longrightarrow> first_step steps \<le> step"
  by (cases steps) (auto simp: timeline_ok_def first_step_def)

lemma last_greatest: "timeline_ok steps \<Longrightarrow> step \<in> set steps \<Longrightarrow> step \<le> last_step steps"
  by (induction steps) (auto simp: timeline_ok_def last_step_def)

lemma ends_in: "steps \<noteq> [] \<Longrightarrow> first_step steps \<in> set steps \<and> last_step steps \<in> set steps"
  by (simp add: first_step_def last_step_def)

lemma first_le_last: "timeline_ok steps \<Longrightarrow> steps \<noteq> [] \<Longrightarrow> first_step steps \<le> last_step steps"
  using first_least ends_in by blast

lemma first_nonneg: "timeline_ok steps \<Longrightarrow> 0 \<le> first_step steps"
  by (cases steps) (auto simp: timeline_ok_def first_step_def)

lemma clamp_id: "timeline_ok steps \<Longrightarrow> step \<in> set steps \<Longrightarrow> clamp steps step = step"
  using first_least last_greatest by (auto simp: clamp_def)

lemma clamp_nonneg: "timeline_ok steps \<Longrightarrow> 0 \<le> clamp steps step"
  using first_nonneg first_le_last by (fastforce simp: clamp_def)

text \<open>The next step is the least one above, the last step when there is none; the previous step the
  greatest below, the first when there is none.\<close>

lemma next_step_least:
  assumes "timeline_ok steps"
  shows "next_step steps step = (if \<exists>s \<in> set steps. step < s then Min {s \<in> set steps. step < s} else last_step steps)"
proof (cases "find (\<lambda>candidate. step < candidate) steps")
  case None
  then have "\<forall>s \<in> set steps. \<not> step < s" by (auto simp: find_None_iff)
  with None show ?thesis by (auto simp: next_step_def)
next
  case (Some c)
  then obtain i where i: "i < length steps" "step < steps ! i" "c = steps ! i" "\<forall>j < i. \<not> step < steps ! j"
    by (auto simp: find_Some_iff)
  have "c \<le> s" if "s \<in> set steps" "step < s" for s
  proof -
    from that obtain j where "j < length steps" "s = steps ! j" by (metis in_set_conv_nth)
    with that(2) i assms show ?thesis by (metis linorder_not_less sorted_nth_mono timeline_ok_def)
  qed
  then have "Min {s \<in> set steps. step < s} = c"
    using i by (intro Min_eqI) auto
  moreover have "\<exists>s \<in> set steps. step < s" using i(1,2) nth_mem by blast
  ultimately show ?thesis using Some by (simp add: next_step_def)
qed

lemma previous_loop_greatest:
  "sorted steps \<Longrightarrow> previous_loop step p steps =
     (if \<exists>s \<in> set steps. s < step then Max {s \<in> set steps. s < step} else p)"
proof (induction steps arbitrary: p)
  case (Cons c rest)
  show ?case
  proof (cases "step \<le> c")
    case True
    then show ?thesis using Cons.prems by auto
  next
    case False
    have split: "{s \<in> set (c # rest). s < step} = insert c {s \<in> set rest. s < step}" using False by auto
    have "Max (insert c {s \<in> set rest. s < step}) =
        (if \<exists>s \<in> set rest. s < step then Max {s \<in> set rest. s < step} else c)"
    proof (cases "\<exists>s \<in> set rest. s < step")
      case True
      then obtain s where s: "s \<in> {s \<in> set rest. s < step}" by blast
      then have "c \<le> s" "s \<le> Max {s \<in> set rest. s < step}" using Cons.prems by (auto intro: Max_ge)
      then have "c \<le> Max {s \<in> set rest. s < step}" by (rule order_trans)
      with True show ?thesis by (subst Max_insert) auto
    next
      case None: False
      then have "{s \<in> set rest. s < step} = {}" by auto
      then show ?thesis using None by (simp only: if_False Max_singleton)
    qed
    moreover have "\<exists>s \<in> set (c # rest). s < step" using False by auto
    moreover have "previous_loop step p (c # rest) = (if \<exists>s \<in> set rest. s < step then Max {s \<in> set rest. s < step} else c)"
      using False Cons by simp
    ultimately show ?thesis by (simp only: split if_True)
  qed
qed simp

lemma previous_step_greatest:
  assumes "timeline_ok steps"
  shows "previous_step steps step =
     (if \<exists>s \<in> set steps. s < step then Max {s \<in> set steps. s < step} else first_step steps)"
  using assms by (simp add: previous_step_def previous_loop_greatest timeline_ok_def)

section \<open>Commands of a player\<close>

text \<open>A command that is refused leaves the controller the caller has.\<close>

datatype playback_op = Op_Play | Op_Pause | Op_Seek int | Op_Speed pyfloat | Op_Next | Op_Previous

fun playback_step :: "playback_op \<Rightarrow> playback_controller \<Rightarrow> playback_controller result" where
  "playback_step Op_Play = play"
| "playback_step Op_Pause = pause"
| "playback_step (Op_Seek step) = seek step"
| "playback_step (Op_Speed speed) = set_speed speed"
| "playback_step Op_Next = next_frame"
| "playback_step Op_Previous = previous_frame"

definition playback_exec :: "playback_op \<Rightarrow> playback_controller \<Rightarrow> playback_controller" where
  "playback_exec op c = (case playback_step op c of Inl exc \<Rightarrow> c | Inr c' \<Rightarrow> c')"

lemmas playback_defs = play_def pause_def seek_def set_speed_def next_frame_def previous_frame_def
  with_cursor_def

definition speed_ok :: "pyfloat \<Rightarrow> bool" where
  "speed_ok speed \<longleftrightarrow> speed = NaN \<or> float_lt float_zero speed"

lemma make_cursor_Inr: "make_cursor step st speed = Inr c \<longleftrightarrow>
    0 \<le> step \<and> speed_ok speed \<and> c = \<lparr>cu_step = step, cu_state = st, cu_speed = speed\<rparr>"
  by (auto simp: make_cursor_def speed_ok_def)

lemma make_cursor_ok:
  "0 \<le> step \<Longrightarrow> speed_ok speed \<Longrightarrow>
    make_cursor step st speed = Inr \<lparr>cu_step = step, cu_state = st, cu_speed = speed\<rparr>"
  by (simp add: make_cursor_Inr)

text \<open>
  The position of a controller lies between the ends of its timeline, at 0 when there is none. It need
  not be a step of the timeline: seeking only clamps.
\<close>

definition playback_ok :: "playback_controller \<Rightarrow> bool" where
  "playback_ok c \<longleftrightarrow> timeline_ok (pc_timeline c) \<and> speed_ok (cu_speed (pc_cursor c)) \<and>
     first_step (pc_timeline c) \<le> cu_step (pc_cursor c) \<and> cu_step (pc_cursor c) \<le> last_step (pc_timeline c)"

lemma playback_ok_nonneg: "playback_ok c \<Longrightarrow> 0 \<le> cu_step (pc_cursor c)"
  using first_nonneg by (fastforce simp: playback_ok_def)

lemma clamp_between: "timeline_ok steps \<Longrightarrow> first_step steps \<le> clamp steps step \<and> clamp steps step \<le> last_step steps"
  using first_le_last by (auto simp: clamp_def first_step_def [of "[]"] last_step_def [of "[]"])

lemma clamp_fixed: "timeline_ok steps \<Longrightarrow> first_step steps \<le> step \<Longrightarrow> step \<le> last_step steps \<Longrightarrow> clamp steps step = step"
  by (auto simp: clamp_def first_step_def last_step_def)

lemma next_step_in: "steps \<noteq> [] \<Longrightarrow> next_step steps step \<in> set steps"
  using ends_in by (auto simp: next_step_def find_Some_iff split: option.split)

lemma previous_step_in: "timeline_ok steps \<Longrightarrow> steps \<noteq> [] \<Longrightarrow> previous_step steps step \<in> set steps"
proof -
  assume a: "timeline_ok steps" "steps \<noteq> []"
  have "Max {s \<in> set steps. s < step} \<in> set steps" if "\<exists>s \<in> set steps. s < step"
    using Max_in [of "{s \<in> set steps. s < step}"] that by auto
  then show ?thesis using a ends_in by (simp add: previous_step_greatest)
qed

text \<open>Seeking within the timeline goes there.\<close>

lemma seek_ok: "playback_ok c \<Longrightarrow>
    seek step c = Inr (c\<lparr>pc_cursor := (pc_cursor c)\<lparr>cu_step := clamp (pc_timeline c) step\<rparr>\<rparr>)"
  by (simp add: playback_defs make_cursor_ok clamp_nonneg playback_ok_def)

lemma next_frame_ok: "playback_ok c \<Longrightarrow> pc_timeline c \<noteq> [] \<Longrightarrow> next_frame c =
    Inr (c\<lparr>pc_cursor := (pc_cursor c)\<lparr>cu_step := next_step (pc_timeline c) (cu_step (pc_cursor c))\<rparr>\<rparr>)"
  by (simp add: next_frame_def seek_ok next_step_in playback_ok_def clamp_id)

lemma previous_frame_ok: "playback_ok c \<Longrightarrow> pc_timeline c \<noteq> [] \<Longrightarrow> previous_frame c =
    Inr (c\<lparr>pc_cursor := (pc_cursor c)\<lparr>cu_step := previous_step (pc_timeline c) (cu_step (pc_cursor c))\<rparr>\<rparr>)"
  by (simp add: previous_frame_def seek_ok previous_step_in playback_ok_def clamp_id)

lemma create_ok: "timeline_ok steps \<Longrightarrow> create_playback steps speed = Inr c \<Longrightarrow> playback_ok c"
  using first_le_last
  by (cases "steps = []") (auto simp: create_playback_def bind_r_Inr_iff make_cursor_Inr playback_ok_def
      first_step_def [of "[]"] last_step_def [of "[]"])

lemma with_cursor_cases:
  "with_cursor c (make_cursor step st speed) =
    (if 0 \<le> step \<and> speed_ok speed
     then Inr (c\<lparr>pc_cursor := \<lparr>cu_step = step, cu_state = st, cu_speed = speed\<rparr>\<rparr>)
     else Inl (ValueError (if step < 0 then ''step must be a non-negative integer'' else ''speed must be positive'')))"
  by (auto simp: with_cursor_def make_cursor_def speed_ok_def)

lemma playback_exec_ok:
  assumes "playback_ok c"
  shows "playback_ok (playback_exec op c) \<and> pc_timeline (playback_exec op c) = pc_timeline c"
  using assms clamp_between [of "pc_timeline c"] clamp_nonneg [of "pc_timeline c"]
  by (cases op) (simp_all add: playback_exec_def play_def pause_def seek_def set_speed_def next_frame_def
      previous_frame_def with_cursor_cases playback_ok_def)

text \<open>Remark (a player stays on its timeline). From a new controller of a valid timeline, through any commands,
  the timeline is the same, the position stays between its first and its last step and the speed stays
  positive or NaN. Only a speed that is not positive is ever refused. Within a timeline the next frame
  is the least step above the position, or the last one, and the previous frame the greatest step below,
  or the first one.\<close>

theorem playback_stays:
  assumes "make_timeline raw = Inr steps" and "create_playback steps speed = Inr c0"
    and "c = fold playback_exec ops c0"
  shows "pc_timeline c = steps \<and> first_step steps \<le> cu_step (pc_cursor c) \<and>
    cu_step (pc_cursor c) \<le> last_step steps \<and>
    (cu_speed (pc_cursor c) = NaN \<or> float_lt float_zero (cu_speed (pc_cursor c))) \<and>
    (\<forall>op exc. playback_step op c = Inl exc \<longrightarrow>
       (\<exists>speed. op = Op_Speed speed \<and> speed \<noteq> NaN \<and> \<not> float_lt float_zero speed)) \<and>
    (steps \<noteq> [] \<longrightarrow>
       cu_step (pc_cursor (playback_exec Op_Next c)) =
         (if \<exists>s \<in> set steps. cu_step (pc_cursor c) < s then Min {s \<in> set steps. cu_step (pc_cursor c) < s}
          else last_step steps) \<and>
       cu_step (pc_cursor (playback_exec Op_Previous c)) =
         (if \<exists>s \<in> set steps. s < cu_step (pc_cursor c) then Max {s \<in> set steps. s < cu_step (pc_cursor c)}
          else first_step steps))"
proof -
  have line: "timeline_ok steps" "pc_timeline c0 = steps"
    using assms(1,2) by (auto simp: make_timeline_Inr create_playback_def bind_r_Inr_iff)
  have "playback_ok (fold playback_exec ops c) \<and> pc_timeline (fold playback_exec ops c) = pc_timeline c"
    if "playback_ok c" for ops c
    using that playback_exec_ok by (induction ops arbitrary: c) fastforce+
  then have ok: "playback_ok c" "pc_timeline c = steps"
    using create_ok [OF line(1) assms(2)] line(2) by (simp_all add: assms(3))
  have refused: "\<exists>speed. op = Op_Speed speed \<and> speed \<noteq> NaN \<and> \<not> float_lt float_zero speed"
    if "playback_step op c = Inl exc" for op exc
    using that ok(1) playback_ok_nonneg [OF ok(1)] clamp_nonneg [of "pc_timeline c"]
    by (cases op) (auto simp: play_def pause_def seek_def set_speed_def next_frame_def previous_frame_def
        with_cursor_cases playback_ok_def speed_ok_def split: if_splits)
  show ?thesis
    using ok refused next_frame_ok [OF ok(1)] previous_frame_ok [OF ok(1)] next_step_least [OF line(1)]
      previous_step_greatest [OF line(1)]
    by (auto simp: playback_exec_def playback_ok_def speed_ok_def)
qed

theorem playback_stays_witness:
  "\<exists>c. create_playback [1, 5] (float_of_int 1) = Inr c \<and> cu_step (pc_cursor (playback_exec (Op_Seek 3) c)) = 3 \<and>
     cu_step (pc_cursor (playback_exec Op_Next (playback_exec (Op_Seek 3) c))) = 5"
proof -
  have made: "make_timeline [1, 5] = Inr [1, 5]" by (simp add: make_timeline_def)
  let ?c = "\<lparr>pc_timeline = [1, 5], pc_cursor = \<lparr>cu_step = 1, cu_state = Paused, cu_speed = float_of_int 1\<rparr>\<rparr>"
  have c: "create_playback [1, 5] (float_of_int 1) = Inr ?c"
    by (simp add: create_playback_def make_cursor_def first_step_def float_eval float_zero_def Let_def)
  have "cu_step (pc_cursor (playback_exec (Op_Seek 3) ?c)) = 3"
    by (simp add: playback_exec_def playback_defs make_cursor_def clamp_def first_step_def last_step_def float_eval float_zero_def Let_def)
  moreover have "{s. (s = 1 \<or> s = 5) \<and> 3 < s} = {5::int}" by auto
  ultimately show ?thesis
    using c playback_stays [OF made c, of "fold playback_exec [Op_Seek 3] ?c" "[Op_Seek 3]"] by auto
qed

section \<open>Playing to the end\<close>

lemma next_step_nth:
  assumes "timeline_ok steps" "n < length steps"
  shows "next_step steps (steps ! n) = steps ! min (Suc n) (length steps - 1)"
proof (cases "Suc n < length steps")
  case True
  have "find (\<lambda>candidate. steps ! n < candidate) steps = Some (steps ! Suc n)"
  proof (unfold find_Some_iff, intro exI conjI)
    show "steps ! n < steps ! Suc n"
      using assms True nth_eq_iff_index_eq [of steps n "Suc n"] sorted_nth_mono [of steps n "Suc n"]
      by (simp add: timeline_ok_def order_less_le)
    show "\<forall>j < Suc n. \<not> steps ! n < steps ! j"
      using assms by (auto simp: timeline_ok_def not_less less_Suc_eq_le intro: sorted_nth_mono)
  qed (use True in simp_all)
  with True show ?thesis by (simp add: next_step_def)
next
  case False
  then have "n = length steps - 1" using assms(2) by simp
  moreover have "find (\<lambda>candidate. last steps < candidate) steps = None"
  proof -
    have "s \<le> last steps" if "s \<in> set steps" for s
      using last_greatest [OF assms(1) that] that by (auto simp: last_step_def split: if_splits)
    then show ?thesis by (simp add: find_None_iff not_less)
  qed
  moreover have "steps \<noteq> []" using assms(2) by auto
  moreover from this have "steps ! (length steps - 1) = last steps" by (simp add: last_conv_nth)
  ultimately show ?thesis using False by (simp add: next_step_def last_step_def)
qed

text \<open>C37 (playing visits every frame). A new controller that keeps asking for the next frame is at the
  timeline's step number \<open>n\<close> after \<open>n\<close> requests, and stays on the last step once it is there: every
  frame is shown, once and in order.\<close>

theorem playback_visits_all:
  assumes "make_timeline raw = Inr steps" and "steps \<noteq> []" and "create_playback steps speed = Inr c"
  shows "\<forall>n. cu_step (pc_cursor (fold playback_exec (replicate n Op_Next) c)) = steps ! min n (length steps - 1)"
proof
  fix n
  have line: "timeline_ok steps" "pc_timeline c = steps" "cu_step (pc_cursor c) = steps ! 0"
    using assms by (auto simp: make_timeline_Inr create_playback_def bind_r_Inr_iff make_cursor_Inr
        first_step_def hd_conv_nth)
  have "cu_step (pc_cursor (fold playback_exec (replicate n Op_Next) c)) = steps ! min (k + n) (length steps - 1)"
    if "playback_ok c" "pc_timeline c = steps" "cu_step (pc_cursor c) = steps ! min k (length steps - 1)" for k c
    using that
  proof (induction n arbitrary: k c)
    case (Suc n)
    let ?c = "playback_exec Op_Next c"
    have "min (Suc (min k (length steps - 1))) (length steps - 1) = min (Suc k) (length steps - 1)" by simp
    moreover have "min k (length steps - 1) < length steps" using assms(2) by (simp add: min_less_iff_disj)
    ultimately have "cu_step (pc_cursor ?c) = steps ! min (Suc k) (length steps - 1)"
      using Suc.prems next_frame_ok [OF Suc.prems(1)] assms(2) next_step_nth [OF line(1)]
      by (simp only: playback_exec_def playback_step.simps) simp
    then show ?case using Suc.IH [of ?c "Suc k"] playback_exec_ok [OF Suc.prems(1)] Suc.prems(2) by simp
  qed simp
  from this [of c 0] show "cu_step (pc_cursor (fold playback_exec (replicate n Op_Next) c)) = steps ! min n (length steps - 1)"
    using create_ok [OF line(1) assms(3)] line by simp
qed

theorem playback_visits_all_witness:
  "\<exists>c. create_playback [1, 5] (float_of_int 1) = Inr c \<and>
     cu_step (pc_cursor (fold playback_exec [Op_Next, Op_Next, Op_Next] c)) = 5"
proof -
  have made: "make_timeline [1, 5] = Inr [1, 5]" by (simp add: make_timeline_def)
  obtain c where c: "create_playback [1, 5] (float_of_int 1) = Inr c"
    by (simp add: create_playback_def make_cursor_def first_step_def float_eval float_zero_def Let_def)
  from playback_visits_all [OF made _ c] have
    "cu_step (pc_cursor (fold playback_exec (replicate 3 Op_Next) c)) = [1, 5] ! min 3 1" by simp
  with c show ?thesis by (simp add: numeral_3_eq_3)
qed

end
