(* ===== verification/Sha256.thy ===== *)
theory Sha256
  imports Py_Value "HOL-Library.Word"
begin

text \<open>
  \<open>hashlib.sha256(data).hexdigest()\<close> on bytes given as numbers below 256, as FIPS 180-4 defines it:
  padding, message schedule and compression on 32-bit words whose addition wraps.
\<close>

type_synonym word32 = "32 word"

definition round_constants :: "word32 list" where
  "round_constants =
     [0x428a2f98, 0x71374491, 0xb5c0fbcf, 0xe9b5dba5, 0x3956c25b, 0x59f111f1, 0x923f82a4, 0xab1c5ed5,
      0xd807aa98, 0x12835b01, 0x243185be, 0x550c7dc3, 0x72be5d74, 0x80deb1fe, 0x9bdc06a7, 0xc19bf174,
      0xe49b69c1, 0xefbe4786, 0x0fc19dc6, 0x240ca1cc, 0x2de92c6f, 0x4a7484aa, 0x5cb0a9dc, 0x76f988da,
      0x983e5152, 0xa831c66d, 0xb00327c8, 0xbf597fc7, 0xc6e00bf3, 0xd5a79147, 0x06ca6351, 0x14292967,
      0x27b70a85, 0x2e1b2138, 0x4d2c6dfc, 0x53380d13, 0x650a7354, 0x766a0abb, 0x81c2c92e, 0x92722c85,
      0xa2bfe8a1, 0xa81a664b, 0xc24b8b70, 0xc76c51a3, 0xd192e819, 0xd6990624, 0xf40e3585, 0x106aa070,
      0x19a4c116, 0x1e376c08, 0x2748774c, 0x34b0bcb5, 0x391c0cb3, 0x4ed8aa4a, 0x5b9cca4f, 0x682e6ff3,
      0x748f82ee, 0x78a5636f, 0x84c87814, 0x8cc70208, 0x90befffa, 0xa4506ceb, 0xbef9a3f7, 0xc67178f2]"

record hash_state =
  ha :: word32  hb :: word32  hc :: word32  hd' :: word32
  he :: word32  hf :: word32  hg :: word32  hh :: word32

definition initial_hash :: hash_state where
  "initial_hash = \<lparr>ha = 0x6a09e667, hb = 0xbb67ae85, hc = 0x3c6ef372, hd' = 0xa54ff53a,
     he = 0x510e527f, hf = 0x9b05688c, hg = 0x1f83d9ab, hh = 0x5be0cd19\<rparr>"

unbundle bit_operations_syntax

definition big_sigma0 :: "word32 \<Rightarrow> word32" where
  "big_sigma0 x = word_rotr 2 x XOR word_rotr 13 x XOR word_rotr 22 x"

definition big_sigma1 :: "word32 \<Rightarrow> word32" where
  "big_sigma1 x = word_rotr 6 x XOR word_rotr 11 x XOR word_rotr 25 x"

definition small_sigma0 :: "word32 \<Rightarrow> word32" where
  "small_sigma0 x = word_rotr 7 x XOR word_rotr 18 x XOR drop_bit 3 x"

definition small_sigma1 :: "word32 \<Rightarrow> word32" where
  "small_sigma1 x = word_rotr 17 x XOR word_rotr 19 x XOR drop_bit 10 x"

definition choice_bits :: "word32 \<Rightarrow> word32 \<Rightarrow> word32 \<Rightarrow> word32" where
  "choice_bits x y z = (x AND y) XOR ((NOT x) AND z)"

definition majority_bits :: "word32 \<Rightarrow> word32 \<Rightarrow> word32 \<Rightarrow> word32" where
  "majority_bits x y z = (x AND y) XOR (x AND z) XOR (y AND z)"

text \<open>The schedule of a block of 16 words.\<close>

definition schedule :: "word32 list \<Rightarrow> word32 list" where
  "schedule block = foldl (\<lambda>w t. w @ [small_sigma1 (w ! (t - 2)) + w ! (t - 7) + small_sigma0 (w ! (t - 15)) + w ! (t - 16)])
     block [16..<64]"

definition compress_round :: "hash_state \<Rightarrow> word32 \<times> word32 \<Rightarrow> hash_state" where
  "compress_round s kw =
     (let t1 = hh s + big_sigma1 (he s) + choice_bits (he s) (hf s) (hg s) + fst kw + snd kw;
          t2 = big_sigma0 (ha s) + majority_bits (ha s) (hb s) (hc s)
      in \<lparr>ha = t1 + t2, hb = ha s, hc = hb s, hd' = hc s, he = hd' s + t1, hf = he s, hg = hf s, hh = hg s\<rparr>)"

definition compress :: "hash_state \<Rightarrow> word32 list \<Rightarrow> hash_state" where
  "compress s block =
     (let r = foldl compress_round s (zip round_constants (schedule block))
      in \<lparr>ha = ha s + ha r, hb = hb s + hb r, hc = hc s + hc r, hd' = hd' s + hd' r,
          he = he s + he r, hf = hf s + hf r, hg = hg s + hg r, hh = hh s + hh r\<rparr>)"

text \<open>A one bit, zeros up to 56 bytes modulo 64, and the length in bits as eight bytes.\<close>

definition big_endian :: "nat \<Rightarrow> int \<Rightarrow> int list" where
  "big_endian k n = map (\<lambda>i. n div 256 ^ (k - 1 - i) mod 256) [0..<k]"

definition padded :: "int list \<Rightarrow> int list" where
  "padded bs = bs @ [128] @ replicate (nat ((55 - int (length bs)) mod 64)) 0 @ big_endian 8 (8 * int (length bs))"

fun words_of :: "int list \<Rightarrow> word32 list" where
  "words_of (a # b # c # d # rest) = of_int (((a * 256 + b) * 256 + c) * 256 + d) # words_of rest"
| "words_of _ = []"

function blocks_of :: "'a list \<Rightarrow> 'a list list" where
  "blocks_of ws = (if length ws < 16 then [] else take 16 ws # blocks_of (drop 16 ws))"
  by auto
termination by (relation "measure length") auto

declare blocks_of.simps [simp del]

definition hex_char :: "nat \<Rightarrow> char" where
  "hex_char n = (if n < 10 then char_of (48 + n) else char_of (87 + n))"

definition hex_word :: "word32 \<Rightarrow> string" where
  "hex_word w = map (\<lambda>i. hex_char (nat (uint w div 16 ^ (7 - i) mod 16))) [0..<8]"

definition hash_words :: "hash_state \<Rightarrow> word32 list" where
  "hash_words s = [ha s, hb s, hc s, hd' s, he s, hf s, hg s, hh s]"

definition sha256_hex :: "int list \<Rightarrow> string" where
  "sha256_hex bs = concat (map hex_word (hash_words (foldl compress initial_hash (blocks_of (words_of (padded bs))))))"

section \<open>The digest\<close>

lemma length_hex_word [simp]: "length (hex_word w) = 8"
  by (simp add: hex_word_def)

definition hex_digits :: "char set" where
  "hex_digits = set ''0123456789abcdef''"

lemma hex_char_digit: "hex_char (nat (n mod 16)) \<in> hex_digits"
proof -
  have "nat (n mod 16) \<in> set [0..<16]" by (simp add: nat_less_iff)
  moreover have "list_all (\<lambda>n. hex_char n \<in> set ''0123456789abcdef'') [0..<16]" by code_simp
  ultimately show ?thesis unfolding hex_digits_def list_all_iff by blast
qed

text \<open>Sixty-four hexadecimal digits.\<close>

lemma sha256_hex_digits: "length (sha256_hex bs) = 64" "set (sha256_hex bs) \<subseteq> hex_digits"
proof -
  have "set (hex_word w) \<subseteq> hex_digits" for w
    using hex_char_digit by (auto simp: hex_word_def)
  then show "set (sha256_hex bs) \<subseteq> hex_digits" by (simp add: sha256_hex_def hash_words_def)
  show "length (sha256_hex bs) = 64" by (simp add: sha256_hex_def hash_words_def)
qed

end
