(* ===== verification/Json_Text.thy ===== *)
theory Json_Text
  imports Py_Text Sha256
begin

text \<open>
  \<open>json.dumps(value, sort_keys=True, separators=(",", ":"), ensure_ascii=False)\<close> and the hash of that
  text, as \<open>sim/tes_replay/verification.py\<close> computes it. Characters are code points below 256, so the
  UTF-8 encoding has one or two bytes each.
\<close>

section \<open>Text\<close>

definition json_char :: "char \<Rightarrow> string" where
  "json_char c =
     (let n = of_char c :: nat in
      if c = CHR 0x22 \<or> c = CHR 0x5C then [CHR 0x5C, c]
      else if n = 10 then [CHR 0x5C, CHR ''n'']
      else if n = 13 then [CHR 0x5C, CHR ''r'']
      else if n = 9 then [CHR 0x5C, CHR ''t'']
      else if n = 8 then [CHR 0x5C, CHR ''b'']
      else if n = 12 then [CHR 0x5C, CHR ''f'']
      else if n < 32 then [CHR 0x5C, CHR ''u'', CHR ''0'', CHR ''0'', hex_digit (n div 16), hex_digit (n mod 16)]
      else [c])"

definition json_string :: "string \<Rightarrow> string" where
  "json_string s = [CHR 0x22] @ concat (map json_char s) @ [CHR 0x22]"

fun json_float :: "pyfloat \<Rightarrow> string" where
  "json_float NaN = ''NaN''"
| "json_float PInf = ''Infinity''"
| "json_float MInf = ''-Infinity''"
| "json_float (Fin m e) = float_repr (Fin m e)"

text \<open>The keys of every dictionary in sorted order.\<close>

fun json_text :: "pyval \<Rightarrow> string" where
  "json_text PNone = ''null''"
| "json_text (PBool b) = (if b then ''true'' else ''false'')"
| "json_text (PInt i) = int_str i"
| "json_text (PFloat f) = json_float f"
| "json_text (PStr s) = json_string s"
| "json_text (PList xs) = ''['' @ join '','' (map json_text xs) @ '']''"
| "json_text (PTuple xs) = ''['' @ join '','' (map json_text xs) @ '']''"
| "json_text (PDict d) =
     ''{'' @ join '','' (map (\<lambda>(k, text). json_string k @ '':'' @ text)
        (sort_key fst (map (\<lambda>(k, v). (k, json_text v)) d))) @ ''}''"

definition utf8 :: "string \<Rightarrow> int list" where
  "utf8 s = concat (map (\<lambda>c. let n = of_char c :: int
     in if n < 128 then [n] else [192 + n div 64, 128 + n mod 64]) s)"

section \<open>Normal forms\<close>

(* sim/tes_replay/verification.py:14-21 _TIMESTAMP_KEYS *)
definition timestamp_keys :: "string list" where
  "timestamp_keys = [''timestamp'', ''created_at'', ''started_at'', ''completed_at'', ''generated_at'', ''updated_at'']"

(* sim/tes_replay/verification.py:419-430 _normalize *)
fun normalize :: "pyval \<Rightarrow> pyval" where
  "normalize (PDict d) = PDict (filter (\<lambda>(k, v). k \<notin> set timestamp_keys)
     (sort_key fst (map (\<lambda>(k, v). (k, normalize v)) d)))"
| "normalize (PList xs) = PList (map normalize xs)"
| "normalize (PTuple xs) = PList (map normalize xs)"
| "normalize v = v"

(* sim/tes_replay/verification.py:277-281 hash_value *)
definition hash_value :: "pyval \<Rightarrow> string" where
  "hash_value v = sha256_hex (utf8 (json_text (normalize v)))"

(* sim/tes_replay/verification.py:273-274 hash_stream *)
definition hash_stream :: "pydict list \<Rightarrow> string" where
  "hash_stream items = hash_value (PList (map (\<lambda>item. normalize (PDict item)) items))"

lemma filter_map_snd: "filter (\<lambda>(k, v). P k) (map (\<lambda>(k, v). (k, f v)) d) = map (\<lambda>(k, v). (k, f v)) (filter (\<lambda>(k, v). P k) d)"
  by (induction d) auto

text \<open>Normalising twice changes nothing, so that hashing a stream equals hashing the list of its items.\<close>

lemma normalize_idem [simp]: "normalize (normalize v) = normalize v"
proof (induction v rule: normalize.induct)
  case (1 d)
  let ?e = "filter (\<lambda>(k, v). k \<notin> set timestamp_keys) (sort_key fst (map (\<lambda>(k, v). (k, normalize v)) d))"
  have "map (\<lambda>(k, v). (k, normalize v)) ?e = ?e"
    using 1 by (auto intro!: map_idI)
  moreover have "sorted (map fst ?e)"
    by (simp add: sorted_filter)
  ultimately show ?case by (simp add: sort_key_id_if_sorted)
qed simp_all

lemmas normalize_dict = normalize.simps(1)

declare normalize.simps(1) [simp del]

lemma hash_stream_list: "hash_stream items = hash_value (PList (map PDict items))"
  by (simp add: hash_stream_def hash_value_def comp_def)

end
