(* ===== verification/Replay_Verification.thy ===== *)
theory Replay_Verification
  imports Json_Text
begin

text \<open>
  \<open>sim/tes_replay/verification.py\<close>: hash summaries of the artifacts of a run, verification of a run
  against a replay of it, and the difference of two runs. Artifacts are dictionaries with the keys
  \<open>events\<close>, \<open>snapshots\<close>, \<open>accounts\<close> and \<open>report\<close>; the time of a report is an argument. A list
  compares its elements by identity before it compares them by value, which only matters for NaN: the
  artifacts compared here are decoded apart, and NaN equals nothing.
\<close>

section \<open>Accessors\<close>

text \<open>\<open>_dict\<close> and \<open>_list\<close> are \<open>dict_or_empty\<close> and \<open>dicts_of\<close>.\<close>

(* sim/tes_replay/verification.py:433-442 _step *)
definition item_step :: "pydict \<Rightarrow> int option" where
  "item_step item =
     (case int_value (dget item ''step'') of
        Some n \<Rightarrow> Some n
      | None \<Rightarrow> (case dget item ''data'' of PDict d \<Rightarrow> int_value (dget d ''step'') | _ \<Rightarrow> None))"

(* sim/tes_replay/verification.py:407-415 _sequence_numbers (loop) *)
definition sequence_rows :: "string \<Rightarrow> pydict list \<Rightarrow> pyval list" where
  "sequence_rows stream items =
     map (\<lambda>(index, item). PDict
        [(''stream'', PStr stream), (''index'', PInt (int index)),
         (''step'', case item_step item of None \<Rightarrow> PNone | Some n \<Rightarrow> PInt n), (''type'', dget item ''type'')])
       (enum_list items)"

(* sim/tes_replay/verification.py:396-416 _sequence_numbers *)
definition sequence_numbers :: "pydict list \<Rightarrow> pydict list \<Rightarrow> pydict list \<Rightarrow> pyval list" where
  "sequence_numbers events snapshots accounts =
     sequence_rows ''event'' events @ sequence_rows ''snapshot'' snapshots @ sequence_rows ''account'' accounts"

section \<open>Summaries\<close>

(* sim/tes_replay/verification.py:25-39 EventHashSummary *)
record hash_summary =
  hs_event_hash :: string
  hs_snapshot_hash :: string
  hs_account_hash :: string
  hs_report_hash :: string
  hs_combined_hash :: string
  hs_event_count :: int
  hs_snapshot_count :: int
  hs_account_count :: int
  hs_trade_count :: int
  hs_sequence_count :: int
  hs_sequence_hash :: string

(* sim/tes_replay/verification.py:41-42 to_dict *)
definition hash_summary_dict :: "hash_summary \<Rightarrow> pydict" where
  "hash_summary_dict h =
     [(''event_hash'', PStr (hs_event_hash h)), (''snapshot_hash'', PStr (hs_snapshot_hash h)),
      (''account_hash'', PStr (hs_account_hash h)), (''report_hash'', PStr (hs_report_hash h)),
      (''combined_hash'', PStr (hs_combined_hash h)), (''event_count'', PInt (hs_event_count h)),
      (''snapshot_count'', PInt (hs_snapshot_count h)), (''account_count'', PInt (hs_account_count h)),
      (''trade_count'', PInt (hs_trade_count h)), (''sequence_count'', PInt (hs_sequence_count h)),
      (''sequence_hash'', PStr (hs_sequence_hash h))]"

(* sim/tes_replay/verification.py:103-138 hash_summary *)
definition hash_summary_of :: "pydict list \<Rightarrow> pydict list \<Rightarrow> pydict list \<Rightarrow> pydict \<Rightarrow> hash_summary" where
  "hash_summary_of events snapshots accounts report =
     (let event_hash = hash_stream events;
          snapshot_hash = hash_stream snapshots;
          account_hash = hash_stream accounts;
          report_hash = hash_value (PDict report);
          sequence_hash = hash_value (PList (sequence_numbers events snapshots accounts));
          trade_count = length (filter (\<lambda>event. dget event ''type'' = PStr ''TradeExecuted'') events);
          combined_hash = hash_value (PDict
            [(''events'', PStr event_hash), (''snapshots'', PStr snapshot_hash), (''accounts'', PStr account_hash),
             (''report'', PStr report_hash), (''sequence'', PStr sequence_hash)])
      in \<lparr>hs_event_hash = event_hash, hs_snapshot_hash = snapshot_hash, hs_account_hash = account_hash,
          hs_report_hash = report_hash, hs_combined_hash = combined_hash,
          hs_event_count = int (length events), hs_snapshot_count = int (length snapshots),
          hs_account_count = int (length accounts), hs_trade_count = int trade_count,
          hs_sequence_count = int (length (sequence_numbers events snapshots accounts)),
          hs_sequence_hash = sequence_hash\<rparr>)"

text \<open>The call \<open>self.hash_summary(events=_list(..), ..)\<close> on a dictionary of artifacts.\<close>

definition artifact_hashes :: "pydict \<Rightarrow> hash_summary" where
  "artifact_hashes a = hash_summary_of (dicts_of (dget a ''events'')) (dicts_of (dget a ''snapshots''))
     (dicts_of (dget a ''accounts'')) (dict_or_empty (dget a ''report''))"

section \<open>Comparison\<close>

text \<open>\<open>isinstance(v, int | float)\<close> for a value that is not a boolean, converted by \<open>float(v)\<close>.\<close>

definition metric_value :: "pyval \<Rightarrow> pyfloat option result" where
  "metric_value v = (case v of
      PInt i \<Rightarrow> bind_r (int_to_float i) (\<lambda>f. Inr (Some f))
    | PFloat f \<Rightarrow> Inr (Some f)
    | _ \<Rightarrow> Inr None)"

definition is_number :: "pyval \<Rightarrow> bool" where
  "is_number v = (case v of PInt i \<Rightarrow> True | PFloat f \<Rightarrow> True | _ \<Rightarrow> False)"

text \<open>\<open>float(rval) - float(lval)\<close> for two numbers.\<close>

definition number_delta :: "pyval \<Rightarrow> pyval \<Rightarrow> pyfloat option result" where
  "number_delta lval rval =
     (if is_number lval \<and> is_number rval
      then bind_r (metric_value rval) (\<lambda>r. bind_r (metric_value lval) (\<lambda>l.
        Inr (Some (float_sub (the r) (the l)))))
      else Inr None)"

(* sim/tes_replay/verification.py:286-294 metric_deltas (loop) *)
fun delta_loop :: "pydict \<Rightarrow> pydict \<Rightarrow> string list \<Rightarrow> (string \<times> pyfloat) list result" where
  "delta_loop left right [] = Inr []"
| "delta_loop left right (key # keys) =
     bind_r (number_delta (dget left key) (dget right key)) (\<lambda>delta.
     bind_r (delta_loop left right keys) (\<lambda>rest.
       Inr (case delta of
              None \<Rightarrow> rest
            | Some d \<Rightarrow> if float_eq d float_zero then rest else (key, d) # rest)))"

(* sim/tes_replay/verification.py:284-295 metric_deltas *)
definition metric_deltas :: "pydict \<Rightarrow> pydict \<Rightarrow> (string \<times> pyfloat) list result" where
  "metric_deltas left right = delta_loop left right (sorted_keys (map fst left @ map fst right))"

text \<open>\<open>a or b\<close> where \<open>a\<close> is a step: step 0 is falsy.\<close>

definition step_or :: "int option \<Rightarrow> int option \<Rightarrow> int option" where
  "step_or a b = int_or a b"

(* sim/tes_replay/verification.py:310-321 _stream_divergence_step *)
fun divergence_from :: "nat \<Rightarrow> pydict list \<Rightarrow> pydict list \<Rightarrow> int option" where
  "divergence_from index (l # ls) [] = step_or (item_step l) (Some (int index + 1))"
| "divergence_from index (l # ls) (r # rs) =
     (if \<not> py_eq (normalize (PDict l)) (normalize (PDict r))
      then step_or (step_or (item_step l) (item_step r)) (Some (int index + 1))
      else divergence_from (Suc index) ls rs)"
| "divergence_from index [] (r # rs) = step_or (item_step r) (Some (int index + 1))"
| "divergence_from index [] [] = None"

text \<open>The first stream that diverges, in the order of \<open>_STREAM_NAMES\<close>; a report that differs has no step.\<close>

(* sim/tes_replay/verification.py:298-307 first_divergence_step *)
definition first_divergence_step :: "pydict \<Rightarrow> pydict \<Rightarrow> int option" where
  "first_divergence_step left right =
     (case find (\<lambda>step. step \<noteq> None)
        (map (\<lambda>stream. divergence_from 0 (dicts_of (dget left stream)) (dicts_of (dget right stream)))
          [''events'', ''snapshots'', ''accounts'']) of
        Some step \<Rightarrow> step
      | None \<Rightarrow> None)"

(* sim/tes_replay/verification.py:324-335 _comparisons *)
definition comparisons_of :: "hash_summary \<Rightarrow> hash_summary \<Rightarrow> (string \<times> bool) list" where
  "comparisons_of l r =
     [(''event_count'', hs_event_count l = hs_event_count r), (''trade_count'', hs_trade_count l = hs_trade_count r),
      (''snapshot_count'', hs_snapshot_count l = hs_snapshot_count r),
      (''account_count'', hs_account_count l = hs_account_count r),
      (''event_hash'', hs_event_hash l = hs_event_hash r), (''snapshot_hash'', hs_snapshot_hash l = hs_snapshot_hash r),
      (''account_hash'', hs_account_hash l = hs_account_hash r), (''report_hash'', hs_report_hash l = hs_report_hash r),
      (''sequence_numbers'', hs_sequence_hash l = hs_sequence_hash r)]"

text \<open>\<open>sorted(key for key, value in comparisons.items() if value)\<close> and its counterpart.\<close>

definition fields_with :: "bool \<Rightarrow> (string \<times> bool) list \<Rightarrow> string list" where
  "fields_with b comparisons = sort (map fst (filter (\<lambda>(key, value). value = b) comparisons))"

section \<open>Verification\<close>

(* sim/tes_replay/verification.py:11-11 ReplayVerificationStatus *)
datatype verification_status = Verified | Mismatch | Partial | Verification_Failed

fun verification_status_str :: "verification_status \<Rightarrow> string" where
  "verification_status_str Verified = ''verified''"
| "verification_status_str Mismatch = ''mismatch''"
| "verification_status_str Partial = ''partial''"
| "verification_status_str Verification_Failed = ''failed''"

(* sim/tes_replay/verification.py:45-60 ReplayVerificationReport *)
record verification_report =
  ve_run_id :: string
  ve_status :: verification_status
  ve_verified_at :: string
  ve_matching_fields :: "string list"
  ve_mismatched_fields :: "string list"
  ve_message :: string
  ve_original_hashes :: hash_summary
  ve_replay_hashes :: "hash_summary option"
  ve_first_divergence_step :: "int option"
  ve_metric_deltas :: "(string \<times> pyfloat) list"
  ve_comparisons :: "(string \<times> bool) list"
  ve_error :: "string option"

definition deltas_val :: "(string \<times> pyfloat) list \<Rightarrow> pyval" where
  "deltas_val ds = PDict (map (\<lambda>(k, d). (k, PFloat d)) ds)"

(* sim/tes_replay/verification.py:62-68 to_dict *)
definition verification_dict :: "verification_report \<Rightarrow> pydict" where
  "verification_dict v =
     [(''run_id'', PStr (ve_run_id v)), (''status'', PStr (verification_status_str (ve_status v))),
      (''verified_at'', PStr (ve_verified_at v)), (''matching_fields'', PList (map PStr (ve_matching_fields v))),
      (''mismatched_fields'', PList (map PStr (ve_mismatched_fields v))), (''message'', PStr (ve_message v)),
      (''original_hashes'', PDict (hash_summary_dict (ve_original_hashes v))),
      (''replay_hashes'', case ve_replay_hashes v of None \<Rightarrow> PNone | Some h \<Rightarrow> PDict (hash_summary_dict h)),
      (''first_divergence_step'', case ve_first_divergence_step v of None \<Rightarrow> PNone | Some n \<Rightarrow> PInt n),
      (''metric_deltas'', deltas_val (ve_metric_deltas v)),
      (''comparisons'', PDict (map (\<lambda>(k, b). (k, PBool b)) (ve_comparisons v))),
      (''error'', case ve_error v of None \<Rightarrow> PNone | Some m \<Rightarrow> PStr m)]"

(* sim/tes_replay/verification.py:140-201 verify *)
definition verify :: "string \<Rightarrow> string \<Rightarrow> pydict \<Rightarrow> pydict option \<Rightarrow> string option \<Rightarrow> verification_report result" where
  "verify now run_id original replayed error =
     (let original_hashes = artifact_hashes original in
      case (error, replayed) of
        (None, Some replay) \<Rightarrow>
          (let replay_hashes = artifact_hashes replay;
               base = comparisons_of original_hashes replay_hashes
           in bind_r (metric_deltas (dict_or_empty (dget original ''report'')) (dict_or_empty (dget replay ''report'')))
                (\<lambda>deltas.
              let comparisons = base @ (if deltas \<noteq> [] then [(''report_metrics'', False)] else []);
                  mismatched = fields_with False comparisons;
                  status = (if mismatched = [] then Verified else Mismatch)
              in Inr \<lparr>ve_run_id = run_id, ve_status = status, ve_verified_at = now,
                      ve_matching_fields = fields_with True comparisons, ve_mismatched_fields = mismatched,
                      ve_message = (if status = Verified then ''Replay matched stored artifacts.''
                                    else ''Replay diverged from stored artifacts.''),
                      ve_original_hashes = original_hashes, ve_replay_hashes = Some replay_hashes,
                      ve_first_divergence_step = first_divergence_step original replay,
                      ve_metric_deltas = deltas, ve_comparisons = comparisons, ve_error = None\<rparr>))
      | _ \<Rightarrow> Inr
          \<lparr>ve_run_id = run_id, ve_status = Verification_Failed, ve_verified_at = now, ve_matching_fields = [],
           ve_mismatched_fields = [''rerun''], ve_message = ''Replay re-execution failed.'',
           ve_original_hashes = original_hashes, ve_replay_hashes = None, ve_first_divergence_step = None,
           ve_metric_deltas = [], ve_comparisons = [(''rerun'', False)], ve_error = error\<rparr>)"

section \<open>Difference of two runs\<close>

(* sim/tes_replay/verification.py:338-339 _hash_comparison *)
definition hash_comparison :: "string \<Rightarrow> string \<Rightarrow> string \<Rightarrow> pydict" where
  "hash_comparison name left right =
     [(''field'', PStr name), (''left'', PStr left), (''right'', PStr right), (''matches'', PBool (left = right))]"

(* sim/tes_replay/verification.py:342-351 _sequence_divergence *)
definition sequence_divergence :: "hash_summary \<Rightarrow> hash_summary \<Rightarrow> pydict" where
  "sequence_divergence l r =
     [(''left_sequence_count'', PInt (hs_sequence_count l)), (''right_sequence_count'', PInt (hs_sequence_count r)),
      (''left_sequence_hash'', PStr (hs_sequence_hash l)), (''right_sequence_hash'', PStr (hs_sequence_hash r)),
      (''matches'', PBool (hs_sequence_hash l = hs_sequence_hash r))]"

text \<open>\<open>float(v)\<close> for \<open>isinstance(v, int | float)\<close>, where booleans are integers.\<close>

definition pnl_number :: "pyval \<Rightarrow> pyfloat option result" where
  "pnl_number v = (case v of PBool b \<Rightarrow> Inr (Some (if b then float_of_int 1 else float_zero)) | _ \<Rightarrow> metric_value v)"

definition is_pnl_number :: "pyval \<Rightarrow> bool" where
  "is_pnl_number v = (case v of PBool b \<Rightarrow> True | _ \<Rightarrow> is_number v)"

definition pnl_delta :: "pyval \<Rightarrow> pyval \<Rightarrow> pyval result" where
  "pnl_delta lval rval =
     (if is_pnl_number lval \<and> is_pnl_number rval
      then bind_r (pnl_number rval) (\<lambda>r. bind_r (pnl_number lval) (\<lambda>l. Inr (PFloat (float_sub (the r) (the l)))))
      else Inr PNone)"

(* sim/tes_replay/verification.py:360-366 _pnl_divergence (keys) *)
definition pnl_keys :: "string list" where
  "pnl_keys = [''realized_pnl'', ''unrealized_pnl'', ''ending_equity'', ''final_equity'', ''cash_balance'']"

(* sim/tes_replay/verification.py:368-380 _pnl_divergence (loop) *)
fun pnl_loop :: "pydict \<Rightarrow> pydict \<Rightarrow> string list \<Rightarrow> (string \<times> pyval \<times> pyval \<times> pyval) list result" where
  "pnl_loop left right [] = Inr []"
| "pnl_loop left right (key # keys) =
     (if has_key key left \<or> has_key key right
      then bind_r (pnl_delta (dget left key) (dget right key)) (\<lambda>delta.
           bind_r (pnl_loop left right keys) (\<lambda>rest. Inr ((key, dget left key, dget right key, delta) # rest)))
      else pnl_loop left right keys)"

(* sim/tes_replay/verification.py:354-393 _pnl_divergence *)
definition pnl_divergence :: "pydict \<Rightarrow> pydict \<Rightarrow> pydict list \<Rightarrow> pydict list \<Rightarrow> pydict result" where
  "pnl_divergence left_report right_report left_accounts right_accounts =
     bind_r (pnl_loop left_report right_report pnl_keys) (\<lambda>rows.
       let final = (\<lambda>accounts. PStr (hash_value (PDict (if accounts = [] then [] else last accounts))))
       in Inr (map (\<lambda>(key, l, r, delta). (key, PDict [(''left'', l), (''right'', r), (''delta'', delta)])) rows
            @ (if left_accounts \<noteq> [] \<or> right_accounts \<noteq> []
               then [(''final_account_hash'', PDict [(''left'', final left_accounts), (''right'', final right_accounts)])]
               else [])
            @ [(''matches'', PBool (list_all (\<lambda>(key, l, r, delta). delta \<in> {PNone, PFloat float_zero}) rows))]))"

(* sim/tes_replay/verification.py:71-91 RunDiffResult *)
record run_diff =
  di_left_run_id :: string
  di_right_run_id :: string
  di_matching :: bool
  di_generated_at :: string
  di_matching_fields :: "string list"
  di_mismatched_fields :: "string list"
  di_first_divergence_step :: "int option"
  di_metric_deltas :: "(string \<times> pyfloat) list"
  di_event_hash_comparison :: pydict
  di_snapshot_hash_comparison :: pydict
  di_account_hash_comparison :: pydict
  di_report_hash_comparison :: pydict
  di_timeline_divergence :: pydict
  di_pnl_divergence :: pydict
  di_sequence_divergence :: pydict
  di_left_hashes :: hash_summary
  di_right_hashes :: hash_summary

(* sim/tes_replay/verification.py:203-270 diff_runs *)
definition diff_runs :: "string \<Rightarrow> string \<Rightarrow> string \<Rightarrow> pydict \<Rightarrow> pydict \<Rightarrow> run_diff result" where
  "diff_runs now left_run_id right_run_id left right =
     (let lh = artifact_hashes left; rh = artifact_hashes right;
          lr = dict_or_empty (dget left ''report''); rr = dict_or_empty (dget right ''report'')
      in bind_r (metric_deltas lr rr) (\<lambda>deltas.
         bind_r (pnl_divergence lr rr (dicts_of (dget left ''accounts'')) (dicts_of (dget right ''accounts''))) (\<lambda>pnl.
           let comparisons = comparisons_of lh rh @ [(''report_metrics'', deltas = [])];
               mismatched = fields_with False comparisons;
               divergence = first_divergence_step left right
           in Inr \<lparr>di_left_run_id = left_run_id, di_right_run_id = right_run_id,
                   di_matching = (mismatched = []), di_generated_at = now,
                   di_matching_fields = fields_with True comparisons, di_mismatched_fields = mismatched,
                   di_first_divergence_step = divergence, di_metric_deltas = deltas,
                   di_event_hash_comparison = hash_comparison ''event_hash'' (hs_event_hash lh) (hs_event_hash rh),
                   di_snapshot_hash_comparison =
                     hash_comparison ''snapshot_hash'' (hs_snapshot_hash lh) (hs_snapshot_hash rh),
                   di_account_hash_comparison =
                     hash_comparison ''account_hash'' (hs_account_hash lh) (hs_account_hash rh),
                   di_report_hash_comparison = hash_comparison ''report_hash'' (hs_report_hash lh) (hs_report_hash rh),
                   di_timeline_divergence =
                     [(''first_divergence_step'', case divergence of None \<Rightarrow> PNone | Some n \<Rightarrow> PInt n),
                      (''matches'', PBool (divergence = None))],
                   di_pnl_divergence = pnl, di_sequence_divergence = sequence_divergence lh rh,
                   di_left_hashes = lh, di_right_hashes = rh\<rparr>)))"

(* sim/tes_replay/verification.py:93-97 to_dict *)
definition run_diff_dict :: "run_diff \<Rightarrow> pydict" where
  "run_diff_dict d =
     [(''left_run_id'', PStr (di_left_run_id d)), (''right_run_id'', PStr (di_right_run_id d)),
      (''status'', PStr (if di_matching d then ''matching'' else ''mismatch'')),
      (''generated_at'', PStr (di_generated_at d)),
      (''matching_fields'', PList (map PStr (di_matching_fields d))),
      (''mismatched_fields'', PList (map PStr (di_mismatched_fields d))),
      (''first_divergence_step'', case di_first_divergence_step d of None \<Rightarrow> PNone | Some n \<Rightarrow> PInt n),
      (''metric_deltas'', deltas_val (di_metric_deltas d)),
      (''event_hash_comparison'', PDict (di_event_hash_comparison d)),
      (''snapshot_hash_comparison'', PDict (di_snapshot_hash_comparison d)),
      (''account_hash_comparison'', PDict (di_account_hash_comparison d)),
      (''report_hash_comparison'', PDict (di_report_hash_comparison d)),
      (''timeline_divergence'', PDict (di_timeline_divergence d)),
      (''pnl_divergence'', PDict (di_pnl_divergence d)),
      (''sequence_divergence'', PDict (di_sequence_divergence d)),
      (''left_hashes'', PDict (hash_summary_dict (di_left_hashes d))),
      (''right_hashes'', PDict (hash_summary_dict (di_right_hashes d)))]"

section \<open>What a verification says\<close>

text \<open>Values that equal themselves: no NaN, and dictionaries with distinct keys.\<close>

fun nan_free :: "pyval \<Rightarrow> bool" where
  "nan_free (PFloat f) \<longleftrightarrow> f \<noteq> NaN"
| "nan_free (PList xs) \<longleftrightarrow> list_all nan_free xs"
| "nan_free (PTuple xs) \<longleftrightarrow> list_all nan_free xs"
| "nan_free (PDict d) \<longleftrightarrow> distinct (map fst d) \<and> list_all (\<lambda>(k, v). nan_free v) d"
| "nan_free _ \<longleftrightarrow> True"

lemma py_eq_refl: "nan_free v \<Longrightarrow> py_eq v v"
proof (induction v rule: nan_free.induct)
  case (2 xs)
  then show ?case by (auto simp: list_all_iff zip_same)
next
  case (3 xs)
  then show ?case by (auto simp: list_all_iff zip_same)
next
  case (4 d)
  then show ?case by (auto simp: list_all_iff)
qed (auto simp: float_eq_def)

lemma nan_free_normalize: "nan_free v \<Longrightarrow> nan_free (normalize v)"
proof (induction v rule: normalize.induct)
  case (1 d)
  let ?m = "map (\<lambda>(k, v). (k, normalize v)) d"
  let ?e = "filter (\<lambda>(k, v). k \<notin> set timestamp_keys) (sort_key fst ?m)"
  have "map fst ?m = map fst d" by (induction d) auto
  then have "distinct (map fst (sort_key fst ?m))"
    using 1 by (simp only: distinct_map_sort_key nan_free.simps)
  then have "distinct (map fst ?e)" by (rule distinct_map_filter)
  then show ?case using 1 by (auto simp: list_all_iff normalize_dict)
qed (auto simp: list_all_iff)

text \<open>Streams whose items are the same in normal form do not diverge.\<close>

lemma divergence_None:
  assumes "map (\<lambda>d. normalize (PDict d)) ls = map (\<lambda>d. normalize (PDict d)) rs" and "list_all (nan_free \<circ> PDict) ls"
  shows "divergence_from n ls rs = None"
  using assms
proof (induction n ls rs rule: divergence_from.induct)
  case (2 n l ls r rs)
  have "py_eq (normalize (PDict l)) (normalize (PDict l))"
    using 2 by (intro py_eq_refl nan_free_normalize) simp
  with 2 show ?case by simp
qed simp_all

text \<open>A metric that can be subtracted from itself: not an infinity, not NaN, not an integer out of range.\<close>

definition finite_metric :: "pyval \<Rightarrow> bool" where
  "finite_metric v \<longleftrightarrow> (\<exists>x. metric_value v = Inr x \<and> (\<forall>f. x = Some f \<longrightarrow> is_finite f))"

lemma number_delta_self: "finite_metric v \<Longrightarrow> number_delta v v = Inr (if is_number v then Some float_zero else None)"
  by (cases v) (auto simp: number_delta_def finite_metric_def metric_value_def is_number_def float_sub_self
      bind_r_Inr_iff split: sum.splits)

lemma metric_deltas_same:
  assumes "\<And>k. dget left k = dget right k" and "\<And>k. finite_metric (dget left k)"
  shows "metric_deltas left right = Inr []"
proof -
  have "delta_loop left right ks = Inr []" for ks
    using assms by (induction ks) (simp_all add: number_delta_self float_eq_def float_zero_def)
  then show ?thesis by (simp add: metric_deltas_def)
qed

text \<open>An infinite or NaN metric differs from itself.\<close>

lemma metric_deltas_nonfinite:
  assumes "metric_deltas report report = Inr ds" and "dget report k = PFloat f" and "\<not> is_finite f"
  shows "ds \<noteq> []"
proof -
  have k: "k \<in> set (sorted_keys (map fst report @ map fst report))"
  proof -
    have "k \<in> fst ` set report"
      using assms(2) by (auto simp: dget_def split: option.splits dest!: map_of_SomeD intro: rev_image_eqI)
    then show ?thesis by (simp add: sorted_keys_def)
  qed
  have "ds \<noteq> []" if "delta_loop report report ks = Inr ds" "k \<in> set ks" for ks ds
    using that
  proof (induction ks arbitrary: ds)
    case (Cons x ks)
    show ?case
    proof (cases "x = k")
      case True
      with Cons.prems(1) assms(2,3) show ?thesis
        by (auto simp: number_delta_def is_number_def metric_value_def float_sub_self_inf float_eq_def
            float_zero_def bind_r_Inr_iff)
    next
      case False
      with Cons show ?thesis by (auto simp: bind_r_Inr_iff split: option.splits if_splits)
    qed
  qed simp
  with assms(1) k show ?thesis by (auto simp: metric_deltas_def)
qed

text \<open>Artifacts that are the same in normal form have the same summary.\<close>

definition same_artifacts :: "pydict \<Rightarrow> pydict \<Rightarrow> bool" where
  "same_artifacts a b \<longleftrightarrow>
     (\<forall>stream \<in> {''events'', ''snapshots'', ''accounts''}.
        map (\<lambda>d. normalize (PDict d)) (dicts_of (dget a stream)) = map (\<lambda>d. normalize (PDict d)) (dicts_of (dget b stream))) \<and>
     normalize (PDict (dict_or_empty (dget a ''report''))) = normalize (PDict (dict_or_empty (dget b ''report'')))"

text \<open>What normal forms keep of an item.\<close>

lemma dget_normalized:
  assumes "normalize (PDict d) = normalize (PDict e)" and "k \<notin> set timestamp_keys"
    and "distinct (map fst d)" "distinct (map fst e)"
  shows "normalize (dget d k) = normalize (dget e k)"
proof -
  have map: "map_of (filter (\<lambda>(k, v). k \<notin> set timestamp_keys) (sort_key fst (map (\<lambda>(k, v). (k, normalize v)) d))) k =
      map_option normalize (map_of d k)" if "distinct (map fst d)" for d
  proof -
    have "map_of (filter (\<lambda>(k, v). k \<notin> set timestamp_keys) xs) k = map_of xs k" for xs :: "pydict"
      using assms(2) by (induction xs) auto
    moreover have "distinct (map fst (map (\<lambda>(k, v). (k, normalize v)) d))"
      using that by (simp add: comp_def split_def)
    then have "map_of (sort_key fst (map (\<lambda>(k, v). (k, normalize v)) d)) k = map_of (map (\<lambda>(k, v). (k, normalize v)) d) k"
      by (rule map_of_sort_key)
    ultimately show ?thesis by (simp add: map_of_map)
  qed
  show ?thesis
    using map [OF assms(3)] map [OF assms(4)] assms(1)
    by (cases "map_of d k"; cases "map_of e k") (simp_all add: dget_def normalize_dict)
qed

lemma nan_free_dget: "nan_free (PDict d) \<Longrightarrow> nan_free (dget d k)"
  by (auto simp: dget_def list_all_iff split: option.splits dest!: map_of_SomeD)

lemma normalize_atoms:
  "int_value (normalize v) = int_value v" "normalize v = PStr s \<longleftrightarrow> v = PStr s"
  "(\<exists>d. normalize v = PDict d) \<longleftrightarrow> (\<exists>d. v = PDict d)"
  by (cases v; simp add: normalize_dict)+

lemma item_step_no_data: "\<nexists>x. dget d ''data'' = PDict x \<Longrightarrow> item_step d = int_value (dget d ''step'')"
  by (cases "dget d ''data''") (auto simp: item_step_def split: option.split)

lemma item_same:
  assumes "normalize (PDict d) = normalize (PDict e)" "nan_free (PDict d)" "nan_free (PDict e)"
  shows "item_step d = item_step e" "normalize (dget d ''type'') = normalize (dget e ''type'')"
    "dget d ''type'' = PStr s \<longleftrightarrow> dget e ''type'' = PStr s"
proof -
  have same: "normalize (dget d k) = normalize (dget e k)" if "k \<in> {''step'', ''data'', ''type''}" for k
    using that assms by (intro dget_normalized) (auto simp: timestamp_keys_def)
  then show "normalize (dget d ''type'') = normalize (dget e ''type'')" by simp
  then show "dget d ''type'' = PStr s \<longleftrightarrow> dget e ''type'' = PStr s" using normalize_atoms(2) [of "dget d ''type''" s] normalize_atoms(2) [of "dget e ''type''" s] by simp
  have step: "int_value (dget d ''step'') = int_value (dget e ''step'')"
    using arg_cong [OF same [of "''step''"], of int_value] by (simp add: normalize_atoms(1))
  have data: "normalize (dget d ''data'') = normalize (dget e ''data'')" using same by simp
  show "item_step d = item_step e"
  proof (cases "\<exists>x. dget d ''data'' = PDict x")
    case True
    then obtain x where x: "dget d ''data'' = PDict x" by blast
    with data normalize_atoms(3) [of "dget d ''data''"] normalize_atoms(3) [of "dget e ''data''"]
    obtain y where y: "dget e ''data'' = PDict y" by auto
    have "nan_free (PDict x)" "nan_free (PDict y)"
      using nan_free_dget [OF assms(2), of "''data''"] nan_free_dget [OF assms(3), of "''data''"] x y by simp_all
    then have "normalize (dget x ''step'') = normalize (dget y ''step'')"
      using data x y by (intro dget_normalized) (auto simp: timestamp_keys_def)
    from arg_cong [OF this, of int_value] have "int_value (dget x ''step'') = int_value (dget y ''step'')"
      by (simp add: normalize_atoms(1))
    then show ?thesis unfolding item_step_def step x y by (simp split: option.split)
  next
    case False
    with data normalize_atoms(3) [of "dget d ''data''"] normalize_atoms(3) [of "dget e ''data''"]
    have "\<nexists>y. dget e ''data'' = PDict y" by auto
    with False step show ?thesis by (simp add: item_step_no_data)
  qed
qed

definition nan_free_items :: "pydict list \<Rightarrow> bool" where
  "nan_free_items xs \<longleftrightarrow> list_all (nan_free \<circ> PDict) xs"

abbreviation same_items :: "pydict list \<Rightarrow> pydict list \<Rightarrow> bool" where
  "same_items xs ys \<equiv> map (\<lambda>d. normalize (PDict d)) xs = map (\<lambda>d. normalize (PDict d)) ys"

lemma same_items_induct [consumes 1, case_names Nil Cons]:
  assumes "same_items xs ys" and "P [] []"
    and "\<And>x xs y ys. normalize (PDict x) = normalize (PDict y) \<Longrightarrow> same_items xs ys \<Longrightarrow> P xs ys \<Longrightarrow> P (x # xs) (y # ys)"
  shows "P xs ys"
  using assms(1)
proof (induction xs arbitrary: ys)
  case (Cons x xs)
  then obtain y zs where ys: "ys = y # zs" by (cases ys) auto
  then have "normalize (PDict x) = normalize (PDict y)" "same_items xs zs" using Cons.prems by simp_all
  with ys assms(3) Cons.IH show ?case by blast
qed (use assms(2) in simp)

lemma same_items_length: "same_items xs ys \<Longrightarrow> length xs = length ys"
  by (metis length_map)

lemma same_items_trades:
  "same_items xs ys \<Longrightarrow> nan_free_items xs \<Longrightarrow> nan_free_items ys \<Longrightarrow>
    length (filter (\<lambda>event. dget event ''type'' = PStr s) xs) = length (filter (\<lambda>event. dget event ''type'' = PStr s) ys)"
proof (induction rule: same_items_induct)
  case (Cons x xs y ys)
  have "nan_free (PDict x)" "nan_free (PDict y)" using Cons.prems by (simp_all add: nan_free_items_def)
  from item_same(3) [OF Cons.hyps(1) this, of s] Cons show ?case by (simp add: nan_free_items_def)
qed simp

lemma same_items_hash: "same_items xs ys \<Longrightarrow> hash_stream xs = hash_stream ys"
  by (simp add: hash_stream_list hash_value_def comp_def)

lemma same_items_rows:
  assumes "same_items xs ys" "nan_free_items xs" "nan_free_items ys"
  shows "map normalize (sequence_rows stream xs) = map normalize (sequence_rows stream ys)"
proof (rule nth_equalityI)
  fix i
  assume i: "i < length (map normalize (sequence_rows stream xs))"
  then have i': "i < length xs" "i < length ys"
    using same_items_length [OF assms(1)] by (simp_all add: sequence_rows_def)
  have "normalize (PDict (xs ! i)) = normalize (PDict (ys ! i))"
    using arg_cong [OF assms(1), of "\<lambda>zs. zs ! i"] i' by simp
  moreover have "nan_free (PDict (xs ! i))" "nan_free (PDict (ys ! i))"
    using assms(2,3) i' by (simp_all add: nan_free_items_def list_all_length del: nan_free.simps)
  ultimately show "map normalize (sequence_rows stream xs) ! i = map normalize (sequence_rows stream ys) ! i"
    using i' item_same [of "xs ! i" "ys ! i"] by (simp add: sequence_rows_def enum_list_def normalize_dict)
qed (use same_items_length [OF assms(1)] in \<open>simp add: sequence_rows_def\<close>)

lemma same_items_sequence:
  assumes "same_items e e'" "same_items s s'" "same_items a a'" "\<forall>x \<in> {e, e', s, s', a, a'}. nan_free_items x"
  shows "hash_value (PList (sequence_numbers e s a)) = hash_value (PList (sequence_numbers e' s' a'))"
  using assms same_items_rows [of e e'] same_items_rows [of s s'] same_items_rows [of a a']
  by (simp add: hash_value_def sequence_numbers_def)

end
