(* ===== verification/Replay_Timeline.thy ===== *)
theory Replay_Timeline
  imports Run_Store Playback Replay_Verification "HOL-Library.Product_Lexorder"
begin

text \<open>
  The pure half of \<open>sim/api/services/replay_service.py\<close>: what a stored artifact says of its step, time,
  symbol and order, the timeline of a run and its filters, and the frames of a replay. The service
  looks order ids up through a Python set, whose iteration order differs from process to process: that
  order is the argument \<open>ids\<close>.
\<close>

section \<open>Artifacts\<close>

(* sim/api/services/replay_service.py:50-57 _RunArtifacts *)
record run_artifacts =
  ra_record :: run_record
  ra_report :: pydict
  ra_events :: "pydict list"
  ra_snapshots :: "pydict list"
  ra_accounts :: "pydict list"
  ra_logs :: "pydict list"

(* sim/api/services/replay_service.py:31-31 TimelineCategory *)
datatype timeline_category = Tl_Command | Tl_Event | Tl_Snapshot | Tl_Account | Tl_Log

fun category_name :: "timeline_category \<Rightarrow> string" where
  "category_name Tl_Command = ''command''"
| "category_name Tl_Event = ''event''"
| "category_name Tl_Snapshot = ''snapshot''"
| "category_name Tl_Account = ''account''"
| "category_name Tl_Log = ''log''"

(* sim/api/services/replay_service.py:34-40 _CATEGORY_ORDER *)
fun category_order :: "timeline_category \<Rightarrow> nat" where
  "category_order Tl_Command = 0"
| "category_order Tl_Event = 1"
| "category_order Tl_Snapshot = 2"
| "category_order Tl_Account = 3"
| "category_order Tl_Log = 4"

(* sim/api/services/replay_service.py:41-47 _ORDER_ID_KEYS *)
definition order_id_keys :: "string list" where
  "order_id_keys = [''order_id'', ''maker_order_id'', ''taker_order_id'', ''resulting_order_id'', ''resting_order_id'']"

section \<open>Reading an item\<close>

text \<open>\<open>_int_value\<close>, \<open>_string_value\<close> and \<open>_report_int\<close> are \<open>int_value\<close>, \<open>string_value\<close> and \<open>int_value\<close> of a key.\<close>

(* sim/api/services/replay_service.py:607-609 _event_data *)
definition event_data :: "pydict \<Rightarrow> pydict" where
  "event_data event = dict_or_empty (dget event ''data'')"

(* sim/api/services/replay_service.py:631-632 _dict_keys *)
definition dict_keys :: "pyval \<Rightarrow> string list" where
  "dict_keys v = map fst (dict_or_empty v)"

(* sim/api/services/replay_service.py:437-441 _entry_step *)
definition entry_step :: "pydict \<Rightarrow> int option" where
  "entry_step payload =
     (case int_value (dget payload ''step'') of
        Some direct \<Rightarrow> Some direct
      | None \<Rightarrow> int_value (dget (event_data payload) ''step''))"

text \<open>The value of the first key there is.\<close>

definition first_key :: "string list \<Rightarrow> pydict \<Rightarrow> pyval option" where
  "first_key ks d = map_option (dget d) (find (\<lambda>k. has_key k d) ks)"

(* sim/api/services/replay_service.py:444-452 _entry_timestamp *)
definition entry_timestamp :: "pydict \<Rightarrow> pyval" where
  "entry_timestamp payload =
     (case first_key [''timestamp'', ''time'', ''created_at''] payload of
        Some v \<Rightarrow> v
      | None \<Rightarrow> (case first_key [''timestamp'', ''time''] (event_data payload) of Some v \<Rightarrow> v | None \<Rightarrow> PNone))"

text \<open>\<open>len(d) == 1\<close> and \<open>next(iter(d))\<close>.\<close>

definition single_key :: "pyval \<Rightarrow> string option" where
  "single_key v = (case v of PDict [(k, _)] \<Rightarrow> Some k | _ \<Rightarrow> None)"

(* sim/api/services/replay_service.py:552-564 _account_symbol *)
definition account_symbol :: "pydict \<Rightarrow> string option" where
  "account_symbol account =
     (case string_value (dget account ''symbol'') of
        Some direct \<Rightarrow> Some direct
      | None \<Rightarrow>
          (case single_key (dget account ''positions'') of
             Some k \<Rightarrow> Some k
           | None \<Rightarrow> single_key (dget account ''mark_to_market'')))"

(* sim/api/services/replay_service.py:455-470 _entry_symbol *)
fun entry_symbol :: "timeline_category \<Rightarrow> pydict \<Rightarrow> string option \<Rightarrow> string option" where
  "entry_symbol Tl_Event payload default_symbol =
     str_or (str_or (string_value (dget (event_data payload) ''symbol'')) (string_value (dget payload ''symbol'')))
       default_symbol"
| "entry_symbol Tl_Snapshot payload default_symbol =
     (case string_value (dget payload ''symbol'') of
        Some v \<Rightarrow> Some v
      | None \<Rightarrow> (case single_key (dget payload ''symbols'') of Some k \<Rightarrow> Some k | None \<Rightarrow> default_symbol))"
| "entry_symbol Tl_Account payload default_symbol = str_or (account_symbol payload) default_symbol"
| "entry_symbol _ payload default_symbol = str_or (string_value (dget payload ''symbol'')) default_symbol"

(* sim/api/services/replay_service.py:473-482 _entry_type *)
fun entry_type :: "timeline_category \<Rightarrow> pydict \<Rightarrow> string" where
  "entry_type Tl_Event payload = the (str_or (string_value (dget payload ''type'')) (Some ''event''))"
| "entry_type Tl_Snapshot payload = the (str_or (string_value (dget payload ''type'')) (Some ''snapshot''))"
| "entry_type Tl_Account payload = the (str_or (string_value (dget payload ''type'')) (Some ''account''))"
| "entry_type Tl_Log payload =
     the (str_or (str_or (string_value (dget payload ''level'')) (string_value (dget payload ''type''))) (Some ''log''))"
| "entry_type Tl_Command payload = ''command''"

(* sim/api/services/replay_service.py:612-616 _first_order_id *)
definition first_order_id :: "string list \<Rightarrow> pydict \<Rightarrow> pyval" where
  "first_order_id ids data = (case first_key ids data of Some v \<Rightarrow> v | None \<Rightarrow> PNone)"

definition labelled :: "string \<Rightarrow> string option \<Rightarrow> string list" where
  "labelled label v = (case v of None \<Rightarrow> [] | Some text \<Rightarrow> [label @ text])"

(* sim/api/services/replay_service.py:485-510 _entry_summary *)
fun entry_summary :: "string list \<Rightarrow> timeline_category \<Rightarrow> string \<Rightarrow> pydict \<Rightarrow> string" where
  "entry_summary ids Tl_Event kind payload =
     (let data = event_data payload;
          order_id = first_order_id ids data;
          qty = int_or (int_value (dget data ''qty'')) (int_value (dget data ''last_fill_qty''))
      in join '' '' ([kind] @ labelled ''symbol='' (string_value (dget data ''symbol''))
           @ labelled ''order='' (if order_id = PNone then None else Some (py_str order_id))
           @ labelled ''qty='' (map_option int_str qty)
           @ labelled ''price='' (map_option int_str (int_value (dget data ''price'')))))"
| "entry_summary ids Tl_Snapshot kind payload =
     (case entry_step payload of None \<Rightarrow> ''snapshot'' | Some step \<Rightarrow> ''snapshot step='' @ int_str step)"
| "entry_summary ids Tl_Account kind payload =
     (case string_value (dget payload ''account_id'') of None \<Rightarrow> ''account'' | Some i \<Rightarrow> ''account '' @ i)"
| "entry_summary ids Tl_Log kind payload =
     the (str_or (string_value (dget payload ''message'')) (Some kind))"
| "entry_summary ids Tl_Command kind payload = kind"

section \<open>The timeline of a run\<close>

(* sim/api/models.py:287-295 TimelineEntry *)
record timeline_entry =
  te_step :: "int option"
  te_timestamp :: pyval
  te_sequence :: nat
  te_symbol :: "string option"
  te_category :: timeline_category
  te_type :: string
  te_summary :: string
  te_payload :: pydict

(* sim/api/services/replay_service.py:397-414 _entry *)
definition make_entry :: "string list \<Rightarrow> nat \<Rightarrow> timeline_category \<Rightarrow> pydict \<Rightarrow> string option \<Rightarrow> timeline_entry" where
  "make_entry ids sequence category payload default_symbol =
     (let kind = entry_type category payload
      in \<lparr>te_step = entry_step payload, te_timestamp = entry_timestamp payload, te_sequence = sequence,
          te_symbol = entry_symbol category payload default_symbol, te_category = category, te_type = kind,
          te_summary = entry_summary ids category kind payload, te_payload = payload\<rparr>)"

(* sim/api/services/replay_service.py:513-514 _sort_step *)
definition sort_step :: "timeline_entry \<Rightarrow> int" where
  "sort_step entry = (case te_step entry of Some n \<Rightarrow> n | None \<Rightarrow> int (te_sequence entry))"

(* sim/api/services/replay_service.py:534-536 _configured_symbols *)
definition configured_symbols :: "pydict \<Rightarrow> string list" where
  "configured_symbols config =
     (case dget config ''symbols'' of PList xs \<Rightarrow> List.map_filter string_value xs | _ \<Rightarrow> [])"

(* sim/api/services/replay_service.py:539-540 _single_symbol *)
definition single_symbol :: "string list \<Rightarrow> string option" where
  "single_symbol symbols = (case symbols of [s] \<Rightarrow> Some s | _ \<Rightarrow> None)"

definition entries_of :: "string list \<Rightarrow> string option \<Rightarrow> timeline_category \<Rightarrow> pydict list \<Rightarrow> timeline_entry list" where
  "entries_of ids default_symbol category items =
     map (\<lambda>(sequence, item). make_entry ids sequence category item default_symbol) (enum_list items)"

definition entry_key :: "timeline_entry \<Rightarrow> int \<times> nat \<times> nat" where
  "entry_key entry = (sort_step entry, te_sequence entry, category_order (te_category entry))"

(* sim/api/services/replay_service.py:383-394 _build_timeline *)
definition build_timeline :: "string list \<Rightarrow> run_artifacts \<Rightarrow> timeline_entry list" where
  "build_timeline ids a =
     (let default_symbol = single_symbol (configured_symbols (rr_config (ra_record a)))
      in sort_key entry_key
        (entries_of ids default_symbol Tl_Event (ra_events a)
         @ entries_of ids default_symbol Tl_Snapshot (ra_snapshots a)
         @ entries_of ids default_symbol Tl_Account (ra_accounts a)
         @ entries_of ids default_symbol Tl_Log (ra_logs a)))"

(* sim/api/services/replay_service.py:567-578 _payload_references_symbol *)
definition references_symbol :: "pydict \<Rightarrow> string \<Rightarrow> bool" where
  "references_symbol payload symbol \<longleftrightarrow>
     string_value (dget payload ''symbol'') = Some symbol \<or>
     string_value (dget (event_data payload) ''symbol'') = Some symbol \<or>
     symbol \<in> set (dict_keys (dget payload ''symbols'')) \<or>
     symbol \<in> set (dict_keys (dget payload ''positions'')) \<or>
     symbol \<in> set (dict_keys (dget payload ''mark_to_market''))"

definition when_given :: "'b option \<Rightarrow> ('b \<Rightarrow> 'a \<Rightarrow> bool) \<Rightarrow> 'a list \<Rightarrow> 'a list" where
  "when_given filter_value test xs = (case filter_value of None \<Rightarrow> xs | Some v \<Rightarrow> filter (test v) xs)"

(* sim/api/services/replay_service.py:417-427 _filter_timeline *)
definition filter_timeline ::
  "string option \<Rightarrow> string option \<Rightarrow> string option \<Rightarrow> timeline_entry list \<Rightarrow> timeline_entry list" where
  "filter_timeline symbol category kind entries =
     when_given kind (\<lambda>t entry. te_type entry = t)
       (when_given category (\<lambda>c entry. category_name (te_category entry) = c)
         (when_given symbol (\<lambda>s entry. te_symbol entry = Some s \<or> references_symbol (te_payload entry) s) entries))"

(* sim/api/services/replay_service.py:430-434 _page *)
definition page_entries :: "int option \<Rightarrow> int \<Rightarrow> 'a list \<Rightarrow> 'a list" where
  "page_entries limit offset entries =
     (let rest = drop (nat (max 0 offset)) entries
      in case limit of None \<Rightarrow> rest | Some n \<Rightarrow> take (nat (max 0 n)) rest)"

text \<open>\<open>_iter_order_values\<close>: the values of all order-id keys, at any depth of dictionaries and lists.\<close>

(* sim/api/services/replay_service.py:586-596 _iter_order_values *)
fun order_values :: "pyval \<Rightarrow> pyval list" where
  "order_values (PDict d) =
     concat (map (\<lambda>(key, nested). (if key \<in> set order_id_keys then [nested] else []) @ order_values nested) d)"
| "order_values (PList xs) = concat (map order_values xs)"
| "order_values _ = []"

(* sim/api/services/replay_service.py:581-583 _payload_has_order_id *)
definition has_order_id :: "pydict \<Rightarrow> string \<Rightarrow> bool" where
  "has_order_id payload order_id \<longleftrightarrow> list_ex (\<lambda>v. py_str v = order_id) (order_values (PDict payload))"

(* sim/api/services/replay_service.py:599-604 _payload_has_account_id *)
definition has_account_id :: "pydict \<Rightarrow> string \<Rightarrow> bool" where
  "has_account_id payload account_id \<longleftrightarrow>
     py_str (dget payload ''account_id'') = account_id \<or> py_str (dget (event_data payload) ''account_id'') = account_id"

section \<open>Symbols\<close>

(* sim/api/services/replay_service.py:543-549 _snapshot_symbols *)
definition snapshot_symbols :: "pydict \<Rightarrow> string list" where
  "snapshot_symbols snapshot =
     (case string_value (dget snapshot ''symbol'') of None \<Rightarrow> [] | Some s \<Rightarrow> [s]) @ dict_keys (dget snapshot ''symbols'')"

definition opt_list :: "'a option \<Rightarrow> 'a list" where
  "opt_list x = (case x of None \<Rightarrow> [] | Some v \<Rightarrow> [v])"

text \<open>The code collects a set; the order and the repetitions of this list do not show in its uses.\<close>

(* sim/api/services/replay_service.py:517-531 _symbols_from_artifacts *)
definition symbols_from_artifacts :: "run_artifacts \<Rightarrow> string list" where
  "symbols_from_artifacts a =
     configured_symbols (rr_config (ra_record a))
     @ concat (map (\<lambda>event. opt_list (entry_symbol Tl_Event event None)) (ra_events a))
     @ concat (map snapshot_symbols (ra_snapshots a))
     @ concat (map (\<lambda>account. opt_list (account_symbol account) @ dict_keys (dget account ''positions'')
                 @ dict_keys (dget account ''mark_to_market'')) (ra_accounts a))"

end
