(* ===== verification/Replay_Frames.thy ===== *)
theory Replay_Frames
  imports Replay_Timeline
begin

text \<open>
  Frames of a replay, the second half of \<open>sim/api/services/replay_service.py\<close>: what happened in one step
  of a run, with the top of the book as it stood, and the figures of the inspection summary.
\<close>

section \<open>The book\<close>

(* sim/api/services/replay_service.py:878-883 _first_int *)
definition first_int :: "pydict \<Rightarrow> string list \<Rightarrow> int option" where
  "first_int value keys =
     (case find (\<lambda>k. int_value (dget value k) \<noteq> None) keys of None \<Rightarrow> None | Some k \<Rightarrow> int_value (dget value k))"

definition opt_int :: "int option \<Rightarrow> pyval" where
  "opt_int x = (case x of None \<Rightarrow> PNone | Some n \<Rightarrow> PInt n)"

definition opt_str :: "string option \<Rightarrow> pyval" where
  "opt_str x = (case x of None \<Rightarrow> PNone | Some s \<Rightarrow> PStr s)"

text \<open>\<open>f(a, b) if a is not None and b is not None else None\<close>.\<close>

definition both :: "(int \<Rightarrow> int \<Rightarrow> pyval result) \<Rightarrow> int option \<Rightarrow> int option \<Rightarrow> pyval result" where
  "both f a b = (case (a, b) of (Some x, Some y) \<Rightarrow> f x y | _ \<Rightarrow> Inr PNone)"

definition quotient_val :: "int \<Rightarrow> int \<Rightarrow> pyval result" where
  "quotient_val a b = bind_r (int_truediv a b) (\<lambda>q. Inr (PFloat q))"

(* sim/api/services/replay_service.py:819-841 _book_payload *)
definition book_payload :: "pyval \<Rightarrow> pydict result" where
  "book_payload v =
     (case dict_value v of
        None \<Rightarrow> Inr []
      | Some d \<Rightarrow>
          (let bid = first_int d [''best_bid'', ''bid'', ''bid_price''];
               ask = first_int d [''best_ask'', ''ask'', ''ask_price''];
               bid_qty = first_int d [''best_bid_qty'', ''bid_qty'', ''bid_quantity''];
               ask_qty = first_int d [''best_ask_qty'', ''ask_qty'', ''ask_quantity'']
           in bind_r (both (\<lambda>a b. Inr (PInt (a - b))) ask bid) (\<lambda>spread.
              bind_r (both (\<lambda>a b. quotient_val (a + b) 2) ask bid) (\<lambda>mid.
              bind_r (both (\<lambda>b a. if 0 < b + a then quotient_val (b - a) (b + a) else Inr PNone) bid_qty ask_qty)
                (\<lambda>imbalance. Inr
                [(''bid'', opt_int bid), (''ask'', opt_int ask), (''bid_qty'', opt_int bid_qty),
                 (''ask_qty'', opt_int ask_qty), (''spread'', spread), (''mid'', mid), (''imbalance'', imbalance),
                 (''bids'', dget_default d ''bids'' (PList [])), (''asks'', dget_default d ''asks'' (PList []))])))))"

text \<open>\<open>sorted(snapshots, key=lambda item: (_entry_step(item) or 0))\<close>.\<close>

definition by_step :: "pydict list \<Rightarrow> pydict list" where
  "by_step snapshots = sort_key (\<lambda>item. the (int_or (entry_step item) (Some 0))) snapshots"

text \<open>\<open>selected[k] = _book_payload(v)\<close> for each pair, in order.\<close>

fun put_books :: "(string \<times> pyval) list \<Rightarrow> pydict \<Rightarrow> pydict result" where
  "put_books [] selected = Inr selected"
| "put_books ((k, v) # rest) selected =
     bind_r (book_payload v) (\<lambda>book. put_books rest (dset k (PDict book) selected))"

text \<open>The books a snapshot has of the symbols selected: its own, then those of its table.\<close>

definition snapshot_books :: "string list \<Rightarrow> pydict \<Rightarrow> (string \<times> pyval) list" where
  "snapshot_books symbols snapshot =
     (case string_value (dget snapshot ''symbol'') of
        Some s \<Rightarrow> if s \<in> set symbols then [(s, dget_default snapshot ''snapshot'' (PDict snapshot))] else []
      | None \<Rightarrow> [])
     @ filter (\<lambda>(s, v). s \<in> set symbols) (dict_or_empty (dget snapshot ''symbols''))"

(* sim/api/services/replay_service.py:802-816 _top_of_book_for_frame *)
definition top_of_book_for_frame :: "pydict list \<Rightarrow> int \<Rightarrow> string list \<Rightarrow> pydict result" where
  "top_of_book_for_frame snapshots step symbols =
     put_books (concat (map (snapshot_books symbols)
       (filter (\<lambda>s. case entry_step s of None \<Rightarrow> False | Some n \<Rightarrow> n \<le> step) (by_step snapshots)))) []"

section \<open>One frame\<close>

(* sim/api/services/replay_service.py:844-855 _trade_payload *)
definition trade_payload :: "pydict \<Rightarrow> pydict" where
  "trade_payload event =
     (let data = event_data event;
          made_up = py_str (dget_default data ''maker_order_id'' (PStr ''m'')) @ ''-''
            @ py_str (dget_default data ''taker_order_id'' (PStr ''t'')) @ ''-''
            @ py_str (dget_default data ''step'' (PStr []))
      in [(''trade_id'', py_or (dget data ''trade_id'') (py_or (dget data ''execution_id'') (PStr made_up))),
          (''symbol'', dget data ''symbol''), (''price'', dget data ''price''), (''qty'', dget data ''qty''),
          (''aggressor_side'', py_or (dget data ''aggressor_side'') (dget data ''side'')),
          (''timestamp'', entry_timestamp event), (''step'', opt_int (entry_step event)), (''event'', PDict event)])"

(* sim/api/services/replay_service.py:858-869 _account_delta *)
definition account_delta :: "pydict \<Rightarrow> pydict" where
  "account_delta account =
     [(''account_id'', dget account ''account_id''), (''step'', opt_int (entry_step account)),
      (''positions'', dget_default account ''positions'' (PDict [])), (''cash'', dget account ''cash''),
      (''pnl'', py_or (py_or (dget account ''pnl'') (dget account ''realized_pnl'')) (dget account ''unrealized_pnl'')),
      (''equity'', py_or (dget account ''equity'') (dget account ''net_liquidation'')),
      (''exposure'', py_or (dget account ''exposure'') (dget account ''gross_exposure'')),
      (''leverage'', dget account ''leverage''), (''payload'', PDict account)]"

text \<open>\<open>_int_value(v) or 0\<close>.\<close>

definition int_or_zero :: "pyval \<Rightarrow> int" where
  "int_or_zero v = (case int_value v of None \<Rightarrow> 0 | Some n \<Rightarrow> n)"

(* sim/api/services/replay_service.py:872-875 _market_metrics *)
definition market_metrics :: "pydict \<Rightarrow> pydict list \<Rightarrow> pydict" where
  "market_metrics top_of_book trades =
     [(''trade_count'', PInt (int (length trades))),
      (''volume'', PInt (sum_list (map (\<lambda>t. int_or_zero (dget t ''qty'')) trades))),
      (''notional'', PInt (sum_list (map (\<lambda>t. int_or_zero (dget t ''price'') * int_or_zero (dget t ''qty'')) trades))),
      (''top_of_book'', PDict top_of_book)]"

(* sim/api/services/replay_service.py:771-775 _step_items *)
definition step_items :: "pydict list \<Rightarrow> int \<Rightarrow> string option \<Rightarrow> pydict list" where
  "step_items items step symbol =
     (let selected = filter (\<lambda>item. entry_step item = Some step) items
      in case symbol of
           None \<Rightarrow> selected
         | Some s \<Rightarrow> filter (\<lambda>item. references_symbol item s \<or> entry_symbol Tl_Snapshot item None = Some s) selected)"

(* sim/api/services/replay_service.py:778-799 _frame_symbols *)
definition frame_symbols ::
  "string option \<Rightarrow> pydict list \<Rightarrow> pydict list \<Rightarrow> pydict list \<Rightarrow> run_artifacts \<Rightarrow> string list" where
  "frame_symbols symbol events snapshots accounts a =
     (case symbol of
        Some s \<Rightarrow> [s]
      | None \<Rightarrow>
          (let symbols = concat (map (\<lambda>event. opt_list (entry_symbol Tl_Event event None)) events)
                 @ concat (map snapshot_symbols snapshots)
                 @ concat (map (\<lambda>account. opt_list (account_symbol account) @ dict_keys (dget account ''positions'')) accounts)
           in if symbols \<noteq> [] then symbols else symbols_from_artifacts a))"

(* sim/api/models.py:305-316 ReplayFrame *)
record replay_frame =
  fr_step :: int
  fr_timestamp :: pyval
  fr_symbols :: "string list"
  fr_symbol :: "string option"
  fr_trades :: "pydict list"
  fr_snapshots :: "pydict list"
  fr_top_of_book :: pydict
  fr_account_deltas :: "pydict list"
  fr_accounts :: "pydict list"
  fr_market_metrics :: pydict
  fr_event_summaries :: "pydict list"

text \<open>The event summary number \<open>index\<close> of a frame.\<close>

definition event_summary :: "string list \<Rightarrow> string option \<Rightarrow> nat \<times> pydict \<Rightarrow> pydict" where
  "event_summary ids symbol indexed =
     (case indexed of (index, event) \<Rightarrow>
       [(''sequence'', PInt (int index)), (''type'', PStr (entry_type Tl_Event event)),
        (''summary'', PStr (entry_summary ids Tl_Event (entry_type Tl_Event event) event)),
        (''symbol'', opt_str (entry_symbol Tl_Event event symbol))])"

(* sim/api/services/replay_service.py:729-768 _build_replay_frame *)
definition build_replay_frame ::
  "string list \<Rightarrow> run_artifacts \<Rightarrow> int \<Rightarrow> string option \<Rightarrow> bool \<Rightarrow> bool \<Rightarrow> bool \<Rightarrow> replay_frame result" where
  "build_replay_frame ids a step symbol include_snapshots include_events include_accounts =
     (let events = (if include_events then step_items (ra_events a) step symbol else []);
          snapshots = (if include_snapshots then step_items (ra_snapshots a) step symbol else []);
          accounts = (if include_accounts then step_items (ra_accounts a) step symbol else []);
          trades = map trade_payload (filter (\<lambda>event. dget event ''type'' = PStr ''TradeExecuted'') events);
          selected_symbols = sorted_keys (frame_symbols symbol events snapshots accounts a)
      in bind_r (top_of_book_for_frame (ra_snapshots a) step selected_symbols) (\<lambda>top_of_book. Inr
         \<lparr>fr_step = step,
          fr_timestamp = (case find (\<lambda>v. v \<noteq> PNone) (map entry_timestamp (events @ snapshots @ accounts)) of
             Some v \<Rightarrow> v | None \<Rightarrow> PNone),
          fr_symbols = selected_symbols,
          fr_symbol = (case symbol of Some s \<Rightarrow> Some s | None \<Rightarrow> single_symbol selected_symbols),
          fr_trades = trades, fr_snapshots = snapshots, fr_top_of_book = top_of_book,
          fr_account_deltas = map account_delta accounts, fr_accounts = accounts,
          fr_market_metrics = market_metrics top_of_book trades,
          fr_event_summaries = map (event_summary ids symbol) (enum_list events)\<rparr>))"

(* sim/api/services/replay_service.py:893-894 _frame_has_payload *)
definition frame_has_payload :: "replay_frame \<Rightarrow> bool" where
  "frame_has_payload frame \<longleftrightarrow> fr_trades frame \<noteq> [] \<or> fr_snapshots frame \<noteq> [] \<or>
     fr_account_deltas frame \<noteq> [] \<or> fr_event_summaries frame \<noteq> []"

section \<open>The steps of a run\<close>

definition item_steps :: "pydict list \<Rightarrow> int list" where
  "item_steps items = concat (map (\<lambda>item. opt_list (entry_step item)) items)"

(* sim/api/services/replay_service.py:708-714 _replay_timeline *)
definition run_timeline :: "run_artifacts \<Rightarrow> replay_timeline result" where
  "run_timeline a =
     (let present = sort (remdups (item_steps (ra_events a @ ra_snapshots a @ ra_accounts a @ ra_logs a)));
          max_step = int_or_zero (dget (ra_report a) ''total_steps'')
      in make_timeline (if present \<noteq> [] then present else if 0 < max_step then [0..max_step] else [0]))"

(* sim/api/models.py:325-331 ReplayTimelineModel *)
record timeline_model =
  tm_start_step :: int
  tm_end_step :: int
  tm_steps :: "int list"
  tm_total_frames :: int
  tm_event_steps :: "int list"
  tm_symbols :: "string list"

(* sim/api/services/replay_service.py:717-726 _timeline_model *)
definition timeline_model_of :: "replay_timeline \<Rightarrow> run_artifacts \<Rightarrow> timeline_model" where
  "timeline_model_of steps a =
     \<lparr>tm_start_step = first_step steps, tm_end_step = last_step steps, tm_steps = steps,
      tm_total_frames = int (length steps), tm_event_steps = sort (remdups (item_steps (ra_events a))),
      tm_symbols = sorted_keys (symbols_from_artifacts a)\<rparr>"

section \<open>Figures of the summary\<close>

(* sim/api/services/replay_service.py:635-638 _max_step *)
definition max_step :: "pydict list \<Rightarrow> int" where
  "max_step items = (let present = item_steps items in if present = [] then 0 else Max (set present))"

definition type_in :: "string list \<Rightarrow> pydict \<Rightarrow> bool" where
  "type_in types event \<longleftrightarrow> dget event ''type'' \<in> set (map PStr types)"

(* sim/api/services/replay_service.py:641-649 _count_orders *)
definition count_orders :: "pydict list \<Rightarrow> int" where
  "count_orders events = int (length (filter (type_in [''OrderAccepted'', ''HiddenOrderAccepted'',
     ''IcebergOrderAccepted'', ''StopOrderAccepted'', ''OrderRejected'']) events))"

(* sim/api/services/replay_service.py:652-653 _count_event_type *)
definition count_event_type :: "pydict list \<Rightarrow> string \<Rightarrow> int" where
  "count_event_type events event_type = int (length (filter (\<lambda>event. dget event ''type'' = PStr event_type) events))"

definition ends_with :: "string \<Rightarrow> string \<Rightarrow> bool" where
  "ends_with suffix s \<longleftrightarrow> length suffix \<le> length s \<and> drop (length s - length suffix) s = suffix"

(* sim/api/services/replay_service.py:656-657 _count_rejections *)
definition count_rejections :: "pydict list \<Rightarrow> int" where
  "count_rejections events =
     int (length (filter (\<lambda>event. ends_with ''Rejected'' (py_str (dget_default event ''type'' (PStr [])))) events))"

(* sim/api/services/replay_service.py:674-684 _snapshot_price *)
definition snapshot_price :: "pyval \<Rightarrow> pyval result" where
  "snapshot_price v =
     (case dict_value v of
        None \<Rightarrow> Inr PNone
      | Some d \<Rightarrow>
          (case first_key [''last_price'', ''price'', ''mid'', ''mid_price''] d of
             Some p \<Rightarrow> Inr p
           | None \<Rightarrow>
               (let bid = int_or (int_value (dget d ''best_bid'')) (int_value (dget d ''bid''));
                    ask = int_or (int_value (dget d ''best_ask'')) (int_value (dget d ''ask''))
                in case (bid, ask) of
                     (Some b, Some a) \<Rightarrow> quotient_val (b + a) 2
                   | (Some b, None) \<Rightarrow> Inr (PInt b)
                   | (None, _) \<Rightarrow> Inr (opt_int ask))))"

fun put_prices :: "(string \<times> pyval) list \<Rightarrow> pydict \<Rightarrow> pydict result" where
  "put_prices [] prices = Inr prices"
| "put_prices ((k, v) # rest) prices = bind_r (snapshot_price v) (\<lambda>p. put_prices rest (dset k p prices))"

(* sim/api/services/replay_service.py:660-671 _final_prices *)
definition final_prices :: "pydict list \<Rightarrow> pydict result" where
  "final_prices snapshots =
     put_prices (concat (map (\<lambda>snapshot.
       (case string_value (dget snapshot ''symbol'') of
          Some s \<Rightarrow> [(s, dget_default snapshot ''snapshot'' (PDict snapshot))] | None \<Rightarrow> [])
       @ dict_or_empty (dget snapshot ''symbols'')) (by_step snapshots))) []"

(* sim/api/services/replay_service.py:687-695 _final_positions *)
definition final_positions :: "pydict \<Rightarrow> pydict list \<Rightarrow> pydict" where
  "final_positions report accounts =
     (case dget report ''final_positions'' of
        PDict d \<Rightarrow> d
      | _ \<Rightarrow> (case List.map_filter (\<lambda>account. dict_value (dget account ''positions'')) (rev accounts) of
                d # _ \<Rightarrow> d | [] \<Rightarrow> []))"

(* sim/api/services/replay_service.py:698-705 _artifact_payload *)
definition artifact_payload :: "run_artifacts \<Rightarrow> pydict" where
  "artifact_payload a =
     [(''report'', PDict (ra_report a)), (''events'', PList (map PDict (ra_events a))),
      (''snapshots'', PList (map PDict (ra_snapshots a))), (''accounts'', PList (map PDict (ra_accounts a))),
      (''logs'', PList (map PDict (ra_logs a)))]"

end
