(* ===== verification/Replay_Service.thy ===== *)
theory Replay_Service
  imports Run_Service Replay_Frames
begin

text \<open>
  \<open>sim/api/services/replay_service.py\<close> over any store: the read-only views of a stored run, and its
  verification against a new execution. Executing a session or a backtest again is a parameter (the
  request models, then \<open>run_session\<close> and \<open>run_backtest\<close>), as is pydantic's check of a stored report.
\<close>

section \<open>Loading\<close>

text \<open>The artifacts of a run, when the store has all of them.\<close>

definition load_artifacts :: "'s store_ops \<Rightarrow> string \<Rightarrow> 's \<Rightarrow> run_artifacts option" where
  "load_artifacts ops run_id s =
     (case (so_get_run ops run_id s, so_get_report ops run_id s, so_get_events ops run_id None None None 0 s,
        so_get_snapshots ops run_id None None 0 s, so_get_accounts ops run_id None None None 0 s,
        so_get_logs ops run_id None 0 s) of
        (Some record, Some report, Some events, Some snapshots, Some accounts, Some logs) \<Rightarrow>
          Some \<lparr>ra_record = record, ra_report = report, ra_events = events, ra_snapshots = snapshots,
                ra_accounts = accounts, ra_logs = logs\<rparr>
      | _ \<Rightarrow> None)"

(* sim/api/services/replay_service.py:67-85 load_run *)
definition load_run :: "'s store_ops \<Rightarrow> string \<Rightarrow> ('s, run_artifacts) svc" where
  "load_run ops run_id = bind_s (read_s (load_artifacts ops run_id)) (option_s (RunNotFoundError run_id))"

text \<open>A computed result of a service call.\<close>

definition result_s :: "'a result \<Rightarrow> ('s, 'a) svc" where
  "result_s r e = (e, r)"

section \<open>Replay status\<close>

(* sim/api/services/replay_service.py:32-32 ReplayStatus *)
datatype replay_status = Replayed | Reconstructed | Unavailable | Replay_Mismatch

(* sim/api/models.py:368-377 RunReplayResponse *)
record replay_response =
  rp_run_id :: string
  rp_status :: replay_status
  rp_message :: string
  rp_total_events :: nat
  rp_total_snapshots :: nat
  rp_total_accounts :: nat
  rp_total_logs :: nat
  rp_event_count_matches :: "bool option"
  rp_event_hash_matches :: "bool option"

(* sim/api/services/replay_service.py:87-109 replay_run *)
definition replay_run :: "'s store_ops \<Rightarrow> string \<Rightarrow> ('s, replay_response) svc" where
  "replay_run ops run_id =
     bind_s (load_run ops run_id) (\<lambda>a.
       let empty = (ra_events a = [] \<and> ra_snapshots a = [] \<and> ra_accounts a = [] \<and> ra_logs a = [])
       in return_s
         \<lparr>rp_run_id = run_id, rp_status = (if empty then Unavailable else Reconstructed),
          rp_message = (if empty then ''No persisted artifacts are available for read-only reconstruction.''
            else ''Run was reconstructed from persisted artifacts; engine re-execution is unavailable.''),
          rp_total_events = length (ra_events a), rp_total_snapshots = length (ra_snapshots a),
          rp_total_accounts = length (ra_accounts a), rp_total_logs = length (ra_logs a),
          rp_event_count_matches = Some True, rp_event_hash_matches = None\<rparr>)"

section \<open>Verification\<close>

text \<open>Running a stored configuration again, and the model of a report.\<close>

record replay_env =
  rv_session :: "pydict \<Rightarrow> pydict result"
  rv_backtest :: "pydict \<Rightarrow> pydict result"
  rv_model :: "pydict \<Rightarrow> pydict result"
  rv_time :: "instant \<Rightarrow> string"

text \<open>\<open>self._verifier.verify(..)\<close>, which reads the clock.\<close>

definition verify_s ::
  "replay_env \<Rightarrow> string \<Rightarrow> pydict \<Rightarrow> pydict option \<Rightarrow> string option \<Rightarrow> ('s, verification_report) svc" where
  "verify_s rv run_id original replayed error =
     bind_s now_s (\<lambda>now. result_s (verify (rv_time rv now) run_id original replayed error))"

text \<open>\<open>payload | {"status": "partial", "message": message}\<close>.\<close>

definition as_partial :: "string \<Rightarrow> pydict \<Rightarrow> pydict" where
  "as_partial message payload = dset ''message'' (PStr message) (dset ''status'' (PStr ''partial'') payload)"

definition store_report :: "'s store_ops \<Rightarrow> replay_env \<Rightarrow> string \<Rightarrow> pydict \<Rightarrow> ('s, pydict) svc" where
  "store_report ops rv run_id payload =
     bind_s (store_s (so_store_verification ops run_id payload)) (\<lambda>_. result_s (rv_model rv payload))"

text \<open>The new artifacts, or the error of the execution.\<close>

(* sim/api/services/replay_service.py:129-139 verify_run (try) *)
definition rerun :: "replay_env \<Rightarrow> run_record \<Rightarrow> pydict result" where
  "rerun rv record =
     (case rr_run_type record of
        Session \<Rightarrow> rv_session rv (rr_config record)
      | Backtest \<Rightarrow> rv_backtest rv (rr_config record)
      | Benchmark \<Rightarrow> Inl (RuntimeError (''unsupported run type: '' @ run_type_str (rr_run_type record))))"

(* sim/api/services/replay_service.py:111-145 verify_run *)
definition verify_run :: "'s store_ops \<Rightarrow> replay_env \<Rightarrow> string \<Rightarrow> ('s, pydict) svc" where
  "verify_run ops rv run_id =
     bind_s (load_run ops run_id) (\<lambda>a.
       if rr_status (ra_record a) \<noteq> Completed then
         bind_s (verify_s rv run_id (artifact_payload a) None (Some ''only completed runs can be replay verified''))
           (\<lambda>report. store_report ops rv run_id
             (as_partial ''Run is not completed; replay verification is partial.'' (verification_dict report)))
       else
         bind_s (case rerun rv (ra_record a) of
                   Inl exc \<Rightarrow> verify_s rv run_id (artifact_payload a) None (Some (exc_message exc))
                 | Inr replayed \<Rightarrow> verify_s rv run_id (artifact_payload a) (Some replayed) None)
           (\<lambda>report. store_report ops rv run_id (verification_dict report)))"

text \<open>An empty stored report counts as none.\<close>

(* sim/api/services/replay_service.py:147-164 get_verification *)
definition get_verification_s :: "'s store_ops \<Rightarrow> replay_env \<Rightarrow> string \<Rightarrow> ('s, pydict) svc" where
  "get_verification_s ops rv run_id =
     bind_s (bind_s (read_s (so_get_run ops run_id)) (option_s (RunNotFoundError run_id))) (\<lambda>_.
     bind_s (read_s (so_get_verification ops run_id)) (\<lambda>stored.
     bind_s (case stored of
               Some (p # ps) \<Rightarrow> return_s (p # ps)
             | _ \<Rightarrow>
                 bind_s (load_run ops run_id) (\<lambda>a.
                 bind_s (verify_s rv run_id (artifact_payload a) None (Some ''verification has not been run'')) (\<lambda>report.
                   return_s (as_partial ''Verification has not been run for this run.'' (verification_dict report)))))
       (\<lambda>payload. result_s (rv_model rv payload))))"

(* sim/api/services/replay_service.py:166-175 diff_runs *)
definition diff_runs_s :: "'s store_ops \<Rightarrow> replay_env \<Rightarrow> string \<Rightarrow> string \<Rightarrow> ('s, pydict) svc" where
  "diff_runs_s ops rv left_run_id right_run_id =
     bind_s (load_run ops left_run_id) (\<lambda>left.
     bind_s (load_run ops right_run_id) (\<lambda>right.
     bind_s now_s (\<lambda>now.
     bind_s (result_s (diff_runs (rv_time rv now) left_run_id right_run_id (artifact_payload left) (artifact_payload right)))
       (\<lambda>d. return_s (run_diff_dict d)))))"

section \<open>Inspection\<close>

(* sim/api/models.py:380-395 RunInspectionSummary *)
record inspection_summary =
  is_run_id :: string
  is_run_type :: run_type
  is_status :: run_status
  is_symbols :: "string list"
  is_total_steps :: int
  is_total_orders :: int
  is_total_events :: int
  is_total_trades :: int
  is_total_snapshots :: int
  is_total_rejections :: int
  is_total_volume :: int
  is_traded_notional :: int
  is_final_prices :: pydict
  is_final_positions :: pydict
  is_error :: "string option"

text \<open>\<open>_report_int(report, key) or fallback\<close>.\<close>

definition report_or :: "pydict \<Rightarrow> string \<Rightarrow> int \<Rightarrow> int" where
  "report_or report key fallback = the (int_or (int_value (dget report key)) (Some fallback))"

definition trades_of :: "pydict list \<Rightarrow> pydict list" where
  "trades_of events = filter (\<lambda>event. dget event ''type'' = PStr ''TradeExecuted'') events"

(* sim/api/services/replay_service.py:184-194 summarize_run (totals) *)
definition summary_total :: "pydict \<Rightarrow> string \<Rightarrow> (pydict \<Rightarrow> int) \<Rightarrow> pydict list \<Rightarrow> int" where
  "summary_total report key amount events =
     (case int_value (dget report key) of
        Some n \<Rightarrow> n
      | None \<Rightarrow> sum_list (map (\<lambda>event. amount (event_data event)) (trades_of events)))"

text \<open>The counts of orders take event types that are strings; a list as a type would raise.\<close>

(* sim/api/services/replay_service.py:177-213 summarize_run *)
definition summarize_run :: "'s store_ops \<Rightarrow> string \<Rightarrow> ('s, inspection_summary) svc" where
  "summarize_run ops run_id =
     bind_s (load_run ops run_id) (\<lambda>a.
       let report = ra_report a; events = ra_events a; record = ra_record a in
       bind_s (result_s (final_prices (ra_snapshots a))) (\<lambda>prices. return_s
         \<lparr>is_run_id = rr_run_id record, is_run_type = rr_run_type record, is_status = rr_status record,
          is_symbols = sorted_keys (symbols_from_artifacts a),
          is_total_steps = report_or report ''total_steps''
            (max_step (events @ ra_snapshots a @ ra_accounts a @ ra_logs a)),
          is_total_orders = report_or report ''total_orders'' (count_orders events),
          is_total_events = int (length events),
          is_total_trades = report_or report ''total_trades'' (count_event_type events ''TradeExecuted''),
          is_total_snapshots = int (length (ra_snapshots a)),
          is_total_rejections = report_or report ''total_rejections''
            (report_or report ''rejected_orders'' (count_rejections events)),
          is_total_volume = summary_total report ''total_volume'' (\<lambda>d. int_or_zero (dget d ''qty'')) events,
          is_traded_notional = summary_total report ''traded_notional''
            (\<lambda>d. int_or_zero (dget d ''price'') * int_or_zero (dget d ''qty'')) events,
          is_final_prices = prices, is_final_positions = final_positions report (ra_accounts a),
          is_error = rr_error record\<rparr>))"

section \<open>Frames\<close>

(* sim/api/services/replay_service.py:371-380 _validate_replay_events *)
fun validate_frame_events :: "string \<Rightarrow> nat \<Rightarrow> pydict list \<Rightarrow> unit result" where
  "validate_frame_events run_id index [] = Inr ()"
| "validate_frame_events run_id index (event # events) =
     (if dkeys event \<noteq> {''type'', ''data''} then
        Inl (ReplayDataValidationError run_id
          (''event at index '' @ nat_str index @ '' must contain exactly type and data''))
      else if string_value (dget event ''type'') = None then
        Inl (ReplayDataValidationError run_id (''event at index '' @ nat_str index @ '' has non-string type''))
      else if dict_value (dget event ''data'') = None then
        Inl (ReplayDataValidationError run_id (''event at index '' @ nat_str index @ '' has non-object data''))
      else validate_frame_events run_id (Suc index) events)"

(* sim/api/models.py:334-340 ReplaySessionResponse *)
record replay_session =
  rx_run_id :: string
  rx_event_count :: nat
  rx_events :: "pydict list"
  rx_cursor :: replay_cursor
  rx_timeline :: timeline_model
  rx_frame :: "replay_frame option"

(* sim/api/services/replay_service.py:215-232 get_replay_session *)
definition get_replay_session :: "'s store_ops \<Rightarrow> string list \<Rightarrow> string \<Rightarrow> ('s, replay_session) svc" where
  "get_replay_session ops ids run_id =
     bind_s (load_run ops run_id) (\<lambda>a.
     bind_s (result_s (validate_frame_events run_id 0 (ra_events a))) (\<lambda>_.
     bind_s (result_s (run_timeline a)) (\<lambda>steps.
     bind_s (result_s (create_playback steps (float_of_int 1))) (\<lambda>controller.
     bind_s (if steps \<noteq> []
             then bind_s (result_s (build_replay_frame ids a (cu_step (pc_cursor controller)) None True True True))
                    (\<lambda>f. return_s (Some f))
             else return_s None) (\<lambda>frame. return_s
       \<lparr>rx_run_id = run_id, rx_event_count = length (ra_events a), rx_events = ra_events a,
        rx_cursor = pc_cursor controller, rx_timeline = timeline_model_of steps a, rx_frame = frame\<rparr>)))))"

(* sim/api/services/replay_service.py:234-238 get_replay_frame *)
definition get_replay_frame :: "'s store_ops \<Rightarrow> string list \<Rightarrow> string \<Rightarrow> int \<Rightarrow> string option \<Rightarrow> ('s, replay_frame) svc" where
  "get_replay_frame ops ids run_id step symbol =
     bind_s (load_run ops run_id) (\<lambda>a.
     bind_s (result_s (run_timeline a)) (\<lambda>steps.
     bind_s (result_s (bind_r (create_playback steps (float_of_int 1)) (jump_to_step step))) (\<lambda>controller.
       result_s (build_replay_frame ids a (cu_step (pc_cursor controller)) symbol True True True))))"

(* sim/api/models.py:343-349 ReplayRangeResponse *)
record replay_range =
  rg_run_id :: string
  rg_start_step :: int
  rg_end_step :: int
  rg_frames :: "replay_frame list"
  rg_next_start_step :: "int option"
  rg_total_frames :: nat

text \<open>The range once the timeline is there.\<close>

definition range_of ::
  "string list \<Rightarrow> string \<Rightarrow> run_artifacts \<Rightarrow> replay_timeline \<Rightarrow> int \<Rightarrow> int \<Rightarrow> string option \<Rightarrow> bool \<Rightarrow> bool \<Rightarrow> bool
   \<Rightarrow> replay_range result" where
  "range_of ids run_id a steps start_step end_step symbol include_snapshots include_events include_accounts =
     (let s = clamp steps start_step; e = clamp steps end_step;
          (lo, hi) = (if e < s then (e, s) else (s, e));
          inside = filter (\<lambda>step. lo \<le> step \<and> step \<le> hi) steps
      in bind_r (map_r (\<lambda>step. build_replay_frame ids a step symbol include_snapshots include_events include_accounts)
           inside) (\<lambda>frames. Inr
         \<lparr>rg_run_id = run_id, rg_start_step = lo, rg_end_step = hi, rg_frames = filter frame_has_payload frames,
          rg_next_start_step = find (\<lambda>candidate. hi < candidate) steps, rg_total_frames = length inside\<rparr>))"

(* sim/api/services/replay_service.py:240-285 get_replay_range *)
definition get_replay_range ::
  "'s store_ops \<Rightarrow> string list \<Rightarrow> string \<Rightarrow> int \<Rightarrow> int \<Rightarrow> string option \<Rightarrow> bool \<Rightarrow> bool \<Rightarrow> bool \<Rightarrow> ('s, replay_range) svc" where
  "get_replay_range ops ids run_id start_step end_step symbol include_snapshots include_events include_accounts =
     bind_s (load_run ops run_id) (\<lambda>a.
     bind_s (result_s (run_timeline a)) (\<lambda>steps.
       result_s (range_of ids run_id a steps start_step end_step symbol include_snapshots include_events
         include_accounts)))"

(* sim/api/models.py:352-365 ReplaySummaryResponse *)
record replay_summary =
  ry_run_id :: string
  ry_symbols :: "string list"
  ry_total_steps :: int
  ry_total_frames :: nat
  ry_total_events :: nat
  ry_total_trades :: int
  ry_total_snapshots :: nat
  ry_total_accounts :: nat
  ry_start_step :: int
  ry_end_step :: int
  ry_first_divergence_step :: "int option"
  ry_available_event_types :: "string list"

text \<open>Without the two fixed performance notes.\<close>

(* sim/api/services/replay_service.py:287-309 get_replay_summary *)
definition get_replay_summary :: "'s store_ops \<Rightarrow> string \<Rightarrow> ('s, replay_summary) svc" where
  "get_replay_summary ops run_id =
     bind_s (load_run ops run_id) (\<lambda>a.
     bind_s (result_s (run_timeline a)) (\<lambda>steps.
     bind_s (read_s (so_get_verification ops run_id)) (\<lambda>verification. return_s
       \<lparr>ry_run_id = run_id, ry_symbols = sorted_keys (symbols_from_artifacts a), ry_total_steps = last_step steps,
        ry_total_frames = length steps, ry_total_events = length (ra_events a),
        ry_total_trades = count_event_type (ra_events a) ''TradeExecuted'',
        ry_total_snapshots = length (ra_snapshots a), ry_total_accounts = length (ra_accounts a),
        ry_start_step = first_step steps, ry_end_step = last_step steps,
        ry_first_divergence_step = (case verification of None \<Rightarrow> None
           | Some v \<Rightarrow> int_value (dget v ''first_divergence_step'')),
        ry_available_event_types = sorted_keys (map (entry_type Tl_Event) (ra_events a))\<rparr>)))"

section \<open>Timelines\<close>

(* sim/api/services/replay_service.py:311-324 get_timeline *)
definition get_timeline ::
  "'s store_ops \<Rightarrow> string list \<Rightarrow> string \<Rightarrow> string option \<Rightarrow> string option \<Rightarrow> string option \<Rightarrow> int option \<Rightarrow> int
   \<Rightarrow> ('s, timeline_entry list) svc" where
  "get_timeline ops ids run_id symbol category kind limit offset =
     bind_s (load_run ops run_id) (\<lambda>a.
       return_s (page_entries limit offset (filter_timeline symbol category kind (build_timeline ids a))))"

(* sim/api/services/replay_service.py:326-338 get_symbol_timeline *)
definition get_symbol_timeline ::
  "'s store_ops \<Rightarrow> string list \<Rightarrow> string \<Rightarrow> string \<Rightarrow> string option \<Rightarrow> string option \<Rightarrow> int option \<Rightarrow> int
   \<Rightarrow> ('s, timeline_entry list) svc" where
  "get_symbol_timeline ops ids run_id symbol category kind limit offset =
     get_timeline ops ids run_id (Some symbol) category kind limit offset"

(* sim/api/services/replay_service.py:340-353 get_order_timeline *)
definition get_order_timeline ::
  "'s store_ops \<Rightarrow> string list \<Rightarrow> string \<Rightarrow> string \<Rightarrow> string option \<Rightarrow> string option \<Rightarrow> string option \<Rightarrow> int option
   \<Rightarrow> int \<Rightarrow> ('s, timeline_entry list) svc" where
  "get_order_timeline ops ids run_id order_id symbol category kind limit offset =
     bind_s (get_timeline ops ids run_id symbol category kind None 0) (\<lambda>entries.
       return_s (page_entries limit offset (filter (\<lambda>entry. has_order_id (te_payload entry) order_id) entries)))"

(* sim/api/services/replay_service.py:355-368 get_account_timeline *)
definition get_account_timeline ::
  "'s store_ops \<Rightarrow> string list \<Rightarrow> string \<Rightarrow> string \<Rightarrow> string option \<Rightarrow> string option \<Rightarrow> string option \<Rightarrow> int option
   \<Rightarrow> int \<Rightarrow> ('s, timeline_entry list) svc" where
  "get_account_timeline ops ids run_id account_id symbol category kind limit offset =
     bind_s (get_timeline ops ids run_id symbol category kind None 0) (\<lambda>entries.
       return_s (page_entries limit offset (filter (\<lambda>entry. has_account_id (te_payload entry) account_id) entries)))"

end
