(* ===== verification/Replay_Props.thy ===== *)
theory Replay_Props
  imports Replay_Service Run_Props
begin

text \<open>
  Properties of replay verification and of the replay service: what a verdict means, the execution of a
  run followed by its verification, the order of a timeline and the frames of a range.
\<close>

section \<open>Verdicts\<close>

text \<open>Hashing does not see what storing does to a value.\<close>

lemma normalize_json_sort [simp]: "normalize (json_sort v) = normalize v"
proof (induction v rule: json_sort.induct)
  case (3 d)
  have "map (\<lambda>(k, v). (k, normalize v)) (map (\<lambda>(k, v). (k, json_sort v)) d) = map (\<lambda>(k, v). (k, normalize v)) d"
    using 3 by auto
  then show ?case
    by (simp only: json_sort.simps normalize_dict sort_key_map_snd [symmetric] sort_key_idem)
qed simp_all

lemma normalize_encoded: "normalize (PDict (encode_json d)) = normalize (PDict d)"
  using normalize_json_sort [of "PDict d"] by (simp only: json_sort_PDict encode_json_def)

text \<open>A report whose metrics can be compared: no infinity, no NaN, no integer beyond the floats, and no
  number under a key that normal forms drop.\<close>

definition comparable_report :: "pydict \<Rightarrow> bool" where
  "comparable_report r \<longleftrightarrow> distinct (map fst r) \<and>
     list_all (\<lambda>(k, v). finite_metric v \<and> (k \<in> set timestamp_keys \<longrightarrow> \<not> is_number v)) r"

lemma comparable_metric:
  assumes "comparable_report r"
  shows "finite_metric (dget r k)" "k \<in> set timestamp_keys \<Longrightarrow> \<not> is_number (dget r k)"
  using assms by (auto simp: comparable_report_def dget_def list_all_iff finite_metric_def metric_value_def
      is_number_def split: option.splits dest!: map_of_SomeD)

lemma number_delta_normalize: "number_delta (normalize l) (normalize r) = number_delta l r"
  by (cases l; cases r) (simp_all add: number_delta_def is_number_def metric_value_def normalize_dict)

lemma metric_deltas_none:
  assumes "\<And>k. number_delta (dget l k) (dget r k) \<in> {Inr None, Inr (Some float_zero)}"
  shows "metric_deltas l r = Inr []"
proof -
  have "delta_loop l r ks = Inr []" for ks
  proof (induction ks)
    case (Cons k ks)
    then show ?case using assms [of k] by (auto simp: float_eq_def float_zero_def)
  qed simp
  then show ?thesis by (simp add: metric_deltas_def)
qed

lemma comparable_deltas:
  assumes "normalize (PDict l) = normalize (PDict r)" "comparable_report l" "comparable_report r"
  shows "metric_deltas l r = Inr []"
proof (rule metric_deltas_none)
  fix k
  show "number_delta (dget l k) (dget r k) \<in> {Inr None, Inr (Some float_zero)}"
  proof (cases "k \<in> set timestamp_keys")
    case True
    then show ?thesis using comparable_metric(2) [OF assms(2)] by (simp add: number_delta_def)
  next
    case False
    have "normalize (dget l k) = normalize (dget r k)"
      using assms False by (intro dget_normalized) (auto simp: comparable_report_def)
    then have "number_delta (dget l k) (dget r k) = number_delta (dget l k) (dget l k)"
      by (metis number_delta_normalize)
    then show ?thesis using number_delta_self [OF comparable_metric(1) [OF assms(2)], of k] by simp
  qed
qed

text \<open>A dictionary of artifacts without NaN.\<close>

definition clean_artifacts :: "pydict \<Rightarrow> bool" where
  "clean_artifacts a \<longleftrightarrow>
     list_all (\<lambda>stream. nan_free_items (dicts_of (dget a stream))) [''events'', ''snapshots'', ''accounts''] \<and>
     comparable_report (dict_or_empty (dget a ''report''))"

lemma same_artifacts_hashes:
  assumes "same_artifacts a b" "clean_artifacts a" "clean_artifacts b"
  shows "artifact_hashes a = artifact_hashes b"
proof -
  have same: "same_items (dicts_of (dget a stream)) (dicts_of (dget b stream))"
    and nan: "nan_free_items (dicts_of (dget a stream))" "nan_free_items (dicts_of (dget b stream))"
    if "stream \<in> {''events'', ''snapshots'', ''accounts''}" for stream
    using assms that by (auto simp: same_artifacts_def clean_artifacts_def)
  note e = same [of "''events''", simplified] and s = same [of "''snapshots''", simplified]
    and c = same [of "''accounts''", simplified]
  have report: "hash_value (PDict (dict_or_empty (dget a ''report''))) = hash_value (PDict (dict_or_empty (dget b ''report'')))"
    using assms(1) by (simp add: same_artifacts_def hash_value_def)
  note seq = same_items_sequence [OF e s c]
  have len: "length (sequence_numbers x y z) = length x + length y + length z" for x y z
    by (simp add: sequence_numbers_def sequence_rows_def)
  show ?thesis
    using same_items_hash [OF e] same_items_hash [OF s] same_items_hash [OF c] same_items_length [OF e]
      same_items_length [OF s] same_items_length [OF c] same_items_trades [OF e nan(1) nan(2)] seq nan
    by (simp add: artifact_hashes_def hash_summary_of_def Let_def report len)
qed

lemma same_artifacts_divergence:
  assumes "same_artifacts a b" "clean_artifacts a"
  shows "first_divergence_step a b = None"
proof -
  have "divergence_from 0 (dicts_of (dget a stream)) (dicts_of (dget b stream)) = None"
    if "stream \<in> {''events'', ''snapshots'', ''accounts''}" for stream
    using assms that by (intro divergence_None) (auto simp: same_artifacts_def clean_artifacts_def nan_free_items_def)
  then show ?thesis by (simp add: first_divergence_step_def)
qed

text \<open>The report on artifacts that agree.\<close>

definition verified_report :: "string \<Rightarrow> string \<Rightarrow> hash_summary \<Rightarrow> verification_report" where
  "verified_report now run_id h =
     \<lparr>ve_run_id = run_id, ve_status = Verified, ve_verified_at = now,
      ve_matching_fields = fields_with True (comparisons_of h h), ve_mismatched_fields = [],
      ve_message = ''Replay matched stored artifacts.'', ve_original_hashes = h, ve_replay_hashes = Some h,
      ve_first_divergence_step = None, ve_metric_deltas = [], ve_comparisons = comparisons_of h h, ve_error = None\<rparr>"

lemma verify_same:
  assumes "same_artifacts a b" "clean_artifacts a" "clean_artifacts b"
  shows "verify now i a (Some b) None = Inr (verified_report now i (artifact_hashes a))"
proof -
  have "metric_deltas (dict_or_empty (dget a ''report'')) (dict_or_empty (dget b ''report'')) = Inr []"
    using assms by (intro comparable_deltas) (auto simp: same_artifacts_def clean_artifacts_def)
  moreover have "fields_with False (comparisons_of h h) = []" for h
    by (simp add: fields_with_def comparisons_of_def)
  ultimately show ?thesis
    by (simp add: verify_def verified_report_def same_artifacts_hashes [OF assms, symmetric] Let_def
        same_artifacts_divergence [OF assms(1,2)])
qed

section \<open>Verification and difference\<close>

text \<open>Remark (an equal replay). A replay whose artifacts have the normal forms of the stored ones is verified,
  whatever their timestamps and the order of their keys: all nine fields match, no metric differs, there
  is no step of divergence and both summaries are the same. The artifacts have no NaN, and the metrics of
  the reports are finite.\<close>

theorem replay_verified:
  assumes "same_artifacts a b" and "clean_artifacts a" and "clean_artifacts b"
  shows "\<exists>v. verify now i a (Some b) None = Inr v \<and> ve_status v = Verified \<and> ve_run_id v = i \<and>
    set (ve_matching_fields v) = {''event_count'', ''trade_count'', ''snapshot_count'', ''account_count'',
      ''event_hash'', ''snapshot_hash'', ''account_hash'', ''report_hash'', ''sequence_numbers''} \<and>
    ve_mismatched_fields v = [] \<and> ve_metric_deltas v = [] \<and> ve_first_divergence_step v = None \<and>
    ve_replay_hashes v = Some (ve_original_hashes v) \<and> ve_original_hashes v = artifact_hashes a"
  using verify_same [OF assms, of now i]
  by (auto simp: verified_report_def fields_with_def comparisons_of_def)

definition sample_run_artifacts :: "string \<Rightarrow> pydict" where
  "sample_run_artifacts t =
     [(''report'', PDict [(''total_trades'', PInt 3), (''generated_at'', PStr t)]),
      (''events'', PList [PDict [(''type'', PStr ''TradeExecuted''), (''timestamp'', PStr t),
         (''data'', PDict [(''step'', PInt 2), (''price'', PInt 100)])]]),
      (''snapshots'', PList [PDict [(''step'', PInt 2), (''timestamp'', PStr t)]]), (''accounts'', PList [])]"

lemma finite_metric_cases [code]:
  "finite_metric v =
     (case metric_value v of Inl _ \<Rightarrow> False | Inr None \<Rightarrow> True | Inr (Some f) \<Rightarrow> is_finite f)"
  by (auto simp: finite_metric_def split: sum.split option.split)

lemma sample_artifacts_same: "same_artifacts (sample_run_artifacts ''12:00'') (sample_run_artifacts ''13:00'')"
proof -
  have "map (\<lambda>d. normalize (PDict d)) (dicts_of (dget (sample_run_artifacts ''12:00'') stream)) =
      map (\<lambda>d. normalize (PDict d)) (dicts_of (dget (sample_run_artifacts ''13:00'') stream))"
    if "stream \<in> {''events'', ''snapshots'', ''accounts''}" for stream
    using that by (elim insertE emptyE; hypsubst; code_simp)
  moreover have "normalize (PDict (dict_or_empty (dget (sample_run_artifacts ''12:00'') ''report''))) =
      normalize (PDict (dict_or_empty (dget (sample_run_artifacts ''13:00'') ''report'')))" by code_simp
  ultimately show ?thesis by (simp add: same_artifacts_def)
qed

lemma sample_items_clean: "list_all (\<lambda>stream. nan_free_items (dicts_of (dget (sample_run_artifacts t) stream)))
    [''events'', ''snapshots'', ''accounts'']"
  by (simp add: nan_free_items_def sample_run_artifacts_def dget_def dicts_of_def map_filter_def)

lemma sample_artifacts_clean: "clean_artifacts (sample_run_artifacts t)"
proof -
  have "int_to_float 3 = Inr (Fin 3 0)" by (simp add: int_to_float_def float_of_int_3)
  then have "finite_metric (PInt 3)" by (simp add: finite_metric_cases metric_value_def)
  moreover have "finite_metric (PStr t)" by (simp add: finite_metric_cases metric_value_def)
  moreover have "dict_or_empty (dget (sample_run_artifacts t) ''report'') = [(''total_trades'', PInt 3), (''generated_at'', PStr t)]"
    by (simp add: sample_run_artifacts_def dget_def)
  ultimately have "comparable_report (dict_or_empty (dget (sample_run_artifacts t) ''report''))"
    by (simp add: comparable_report_def timestamp_keys_def is_number_def)
  then show ?thesis unfolding clean_artifacts_def using sample_items_clean [of t] by blast
qed

theorem replay_verified_witness:
  "\<exists>v. verify ''now'' ''r'' (sample_run_artifacts ''12:00'') (Some (sample_run_artifacts ''13:00'')) None = Inr v \<and>
    ve_status v = Verified"
  using replay_verified [OF sample_artifacts_same sample_artifacts_clean sample_artifacts_clean, of "''now''" "''r''"]
  by blast

lemma fields_disjoint:
  assumes "distinct (map fst cs)"
  shows "set (fields_with True cs) \<inter> set (fields_with False cs) = {}"
proof -
  have False if "(k, True) \<in> set cs" "(k, False) \<in> set cs" for k
    using eq_key_imp_eq_value [OF assms that] by simp
  then show ?thesis by (auto simp: fields_with_def)
qed

text \<open>C38 (difference and verification). Verifying a run against a replay and taking the difference of
  the two agree: the run is verified exactly when the difference is matching, and both name the same
  mismatched fields, metric deltas and first step of divergence. When no metric differs, the difference
  also lists the report metrics as a matching field. No field is both matching and mismatched.\<close>

theorem diff_agrees_with_verify:
  assumes "verify now i a (Some b) None = Inr v" and "diff_runs now' j k a b = Inr d"
  shows "(di_matching d \<longleftrightarrow> ve_status v = Verified) \<and> di_mismatched_fields d = ve_mismatched_fields v \<and>
    di_metric_deltas d = ve_metric_deltas v \<and> di_first_divergence_step d = ve_first_divergence_step v \<and>
    set (di_matching_fields d) =
      set (ve_matching_fields v) \<union> (if ve_metric_deltas v = [] then {''report_metrics''} else {}) \<and>
    set (ve_matching_fields v) \<inter> set (ve_mismatched_fields v) = {}"
proof -
  let ?c = "comparisons_of (artifact_hashes a) (artifact_hashes b)"
  have "distinct (map fst ?c)" "''report_metrics'' \<notin> set (map fst ?c)" by (simp_all add: comparisons_of_def)
  then have split: "set (fields_with True (?c @ cs)) \<inter> set (fields_with False (?c @ cs)) = {}"
    if "cs = [] \<or> cs = [(''report_metrics'', False)]" for cs
    using that by (intro fields_disjoint) (auto simp: comparisons_of_def)
  have drop: "fields_with False (?c @ [(''report_metrics'', True)]) = fields_with False ?c"
    "set (fields_with True (?c @ [(''report_metrics'', True)])) = set (fields_with True ?c) \<union> {''report_metrics''}"
    "set (fields_with True (?c @ [(''report_metrics'', False)])) = set (fields_with True ?c)"
    by (auto simp: fields_with_def)
  let ?deltas = "metric_deltas (dict_or_empty (dget a ''report'')) (dict_or_empty (dget b ''report''))"
  let ?pnl = "pnl_divergence (dict_or_empty (dget a ''report'')) (dict_or_empty (dget b ''report''))
      (dicts_of (dget a ''accounts'')) (dicts_of (dget b ''accounts''))"
  obtain deltas where deltas: "?deltas = Inr deltas"
    using assms(1) by (cases ?deltas) (simp_all add: verify_def Let_def)
  obtain pnl where pnl: "?pnl = Inr pnl"
    using assms(2) deltas by (cases ?pnl) (simp_all add: diff_runs_def Let_def)
  note v = assms(1) [unfolded verify_def, simplified deltas Let_def option.case prod.case bind_r_simps sum.inject,
      symmetric]
  note d = assms(2) [unfolded diff_runs_def, simplified deltas pnl Let_def bind_r_simps sum.inject, symmetric]
  show ?thesis
  proof (cases "deltas = []")
    case True
    then show ?thesis using split [of "[]"] by (simp add: v d drop)
  next
    case False
    then show ?thesis using split [of "[(''report_metrics'', False)]"] by (simp add: v d drop)
  qed
qed

theorem diff_agrees_with_verify_witness:
  "\<exists>v d. verify ''now'' ''r'' (sample_run_artifacts ''12:00'') (Some (sample_run_artifacts ''13:00'')) None = Inr v \<and>
    diff_runs ''now'' ''l'' ''r'' (sample_run_artifacts ''12:00'') (sample_run_artifacts ''13:00'') = Inr d \<and> di_matching d"
proof -
  let ?a = "sample_run_artifacts ''12:00''" and ?b = "sample_run_artifacts ''13:00''"
  note v = verify_same [OF sample_artifacts_same sample_artifacts_clean sample_artifacts_clean, of "''now''" "''r''"]
  have m: "metric_deltas (dict_or_empty (dget ?a ''report'')) (dict_or_empty (dget ?b ''report'')) = Inr []"
    using sample_artifacts_same sample_artifacts_clean
    by (intro comparable_deltas) (simp_all add: same_artifacts_def clean_artifacts_def)
  have "pnl_loop (dict_or_empty (dget ?a ''report'')) (dict_or_empty (dget ?b ''report'')) pnl_keys = Inr []"
    by (simp add: sample_run_artifacts_def pnl_keys_def dget_def has_key_def)
  then obtain d where d: "diff_runs ''now'' ''l'' ''r'' ?a ?b = Inr d"
    by (simp add: diff_runs_def m pnl_divergence_def Let_def)
  have "ve_status (verified_report ''now'' ''r'' (artifact_hashes ?a)) = Verified" by (simp add: verified_report_def)
  with diff_agrees_with_verify [OF v d] v d show ?thesis by blast
qed

text \<open>Remark (metrics without a finite value). A run whose report holds an infinite or NaN metric can never be
  verified: even against its own artifacts the verdict is a mismatch in the report metrics, although all
  nine other fields match.\<close>

theorem nonfinite_never_verified:
  assumes "dget (dict_or_empty (dget a ''report'')) k = PFloat f" and "\<not> is_finite f"
    and "verify now i a (Some a) None = Inr v"
  shows "ve_status v = Mismatch \<and> ve_mismatched_fields v = [''report_metrics''] \<and> length (ve_matching_fields v) = 9 \<and>
    ve_replay_hashes v = Some (ve_original_hashes v)"
proof -
  let ?r = "dict_or_empty (dget a ''report'')"
  obtain deltas where deltas: "metric_deltas ?r ?r = Inr deltas"
    using assms(3) by (cases "metric_deltas ?r ?r") (simp_all add: verify_def Let_def)
  have "deltas \<noteq> []" using metric_deltas_nonfinite [OF deltas assms(1,2)] .
  with assms(3) deltas show ?thesis
    by (auto simp: verify_def Let_def fields_with_def comparisons_of_def)
qed

theorem nonfinite_never_verified_witness:
  "\<exists>v. verify ''now'' ''r'' [(''report'', PDict [(''sharpe'', PFloat PInf)])]
      (Some [(''report'', PDict [(''sharpe'', PFloat PInf)])]) None = Inr v \<and> ve_status v = Mismatch"
proof -
  let ?a = "[(''report'', PDict [(''sharpe'', PFloat PInf)])]"
  let ?r = "dict_or_empty (dget ?a ''report'')"
  have r: "?r = [(''sharpe'', PFloat PInf)]" "dget ?r ''sharpe'' = PFloat PInf" by (simp_all add: dget_def)
  have "number_delta (PFloat PInf) (PFloat PInf) = Inr (Some NaN)"
    by (simp add: number_delta_def is_number_def metric_value_def float_sub_def)
  then have "metric_deltas ?r ?r = Inr [(''sharpe'', NaN)]"
    by (simp add: metric_deltas_def sorted_keys_def dget_def float_eq_def float_zero_def)
  then obtain v where v: "verify ''now'' ''r'' ?a (Some ?a) None = Inr v"
    by (simp add: verify_def Let_def)
  with nonfinite_never_verified [OF r(2) _ v] show ?thesis by auto
qed

section \<open>The service\<close>

definition artifacts_of :: "run_record \<Rightarrow> run_artifacts" where
  "artifacts_of r = \<lparr>ra_record = r, ra_report = rr_report r, ra_events = rr_events r,
     ra_snapshots = rr_snapshots r, ra_accounts = rr_accounts r, ra_logs = rr_logs r\<rparr>"

lemma wp_result [wp_rules]: "wp_s (result_s r) e P = P e r"
  by (simp add: wp_s_def result_s_def)

lemma wp_verify [wp_rules]:
  "wp_s (verify_s rv i a b err) e P = P (e\<lparr>en_ticks := Suc (en_ticks e)\<rparr>)
     (verify (rv_time rv (en_clock e (en_ticks e))) i a b err)"
  by (simp add: verify_s_def wp_rules)

text \<open>The dictionary that a verification stores, and its status.\<close>

definition stored_verdict :: "replay_env \<Rightarrow> run_record \<Rightarrow> pydict \<Rightarrow> bool" where
  "stored_verdict rv r p \<longleftrightarrow>
     (if rr_status r = Completed
      then dget p ''status'' \<in> (case rerun rv r of
             Inl _ \<Rightarrow> {PStr ''failed''} | Inr _ \<Rightarrow> {PStr ''verified'', PStr ''mismatch''})
      else dget p ''status'' = PStr ''partial'')"

lemma verify_error: "\<exists>v. verify now i a None (Some m) = Inr v \<and> ve_status v = Verification_Failed"
  by (simp add: verify_def Let_def)

lemma verify_status: "verify now i a (Some b) None = Inr v \<Longrightarrow> ve_status v = Verified \<or> ve_status v = Mismatch"
  by (cases "metric_deltas (dict_or_empty (dget a ''report'')) (dict_or_empty (dget b ''report''))")
    (auto simp: verify_def Let_def split: if_splits)

lemma verdict_status:
  "dget (verification_dict v) ''status'' = PStr (verification_status_str (ve_status v))"
  "dget (as_partial m p) ''status'' = PStr ''partial''"
  by (simp add: verification_dict_def dget_def, simp add: as_partial_def dget_dset)

context run_store
begin

lemma load_artifacts_get:
  assumes "ok s"
  shows "load_artifacts ops i s = map_option artifacts_of (so_get_run ops i s)"
  using assms
  by (cases "so_get_run ops i s") (simp_all add: load_artifacts_def artifacts_of_def get_report get_events
      get_snapshots get_accounts get_logs)

lemma wp_load:
  assumes "ok (en_store e)"
  shows "wp_s (load_run ops i) e P =
    (case so_get_run ops i (en_store e) of
       None \<Rightarrow> P e (Inl (RunNotFoundError i)) | Some r \<Rightarrow> P e (Inr (artifacts_of r)))"
  using assms by (simp add: load_run_def wp_rules load_artifacts_get split: option.split)

lemma wp_store_report:
  assumes "ok (en_store e)" "so_get_run ops i (en_store e) = Some r"
    and "\<And>e'. others_same i (en_store e) (en_store e') \<Longrightarrow>
      so_get_run ops i (en_store e') = Some (r\<lparr>rr_verification := canon p\<rparr>) \<Longrightarrow> P e' (rv_model rv p)"
  shows "wp_s (store_report ops rv i p) e P"
  using store_verification [OF assms(1), of i p] assms(2,3)
  by (auto simp: store_report_def wp_rules others_same_def split: prod.splits)

lemma wp_verify_run:
  assumes "ok (en_store e)" "so_get_run ops i (en_store e) = Some r"
  shows "wp_s (verify_run ops rv i) e (\<lambda>e' res. others_same i (en_store e) (en_store e') \<and>
    ((\<exists>b exc. rr_status r = Completed \<and> rerun rv r = Inr b \<and> res = Inl exc) \<and>
       so_get_run ops i (en_store e') = Some r \<or>
     (\<exists>p. res = rv_model rv p \<and> stored_verdict rv r p \<and>
        so_get_run ops i (en_store e') = Some (r\<lparr>rr_verification := canon p\<rparr>))))"
proof (cases "rr_status r = Completed")
  case False
  obtain v where "verify (rv_time rv (en_clock e (en_ticks e))) i (artifact_payload (artifacts_of r)) None
      (Some ''only completed runs can be replay verified'') = Inr v" using verify_error by blast
  with False assms show ?thesis
    by (auto simp: verify_run_def wp_rules wp_load artifacts_of_def Let_def stored_verdict_def verdict_status
        intro!: wp_store_report)
next
  case True
  show ?thesis
  proof (cases "rerun rv r")
    case (Inl exc)
    obtain v where "verify (rv_time rv (en_clock e (en_ticks e))) i (artifact_payload (artifacts_of r)) None
        (Some (exc_message exc)) = Inr v" "ve_status v = Verification_Failed" using verify_error by blast
    with True Inl assms show ?thesis
      by (auto simp: verify_run_def wp_rules wp_load artifacts_of_def Let_def stored_verdict_def verdict_status
          intro!: wp_store_report)
  next
    case (Inr b)
    show ?thesis
    proof (cases "verify (rv_time rv (en_clock e (en_ticks e))) i (artifact_payload (artifacts_of r)) (Some b) None")
      case (Inl exc)
      with True Inr assms show ?thesis
        by (auto simp: verify_run_def wp_rules wp_load artifacts_of_def Let_def others_same_def)
    next
      case v: (Inr v)
      with True Inr assms verify_status [OF v] show ?thesis
        by (auto simp: verify_run_def wp_rules wp_load artifacts_of_def Let_def stored_verdict_def verdict_status
            intro!: wp_store_report)
    qed
  qed
qed

end

text \<open>Remark (verification only reports). Whatever executing the run again does, \<open>verify_run\<close> changes no
  other run and nothing of this one but its verification. It stores a partial report for a run that is
  not completed, a failed one when the execution raises, and otherwise a verified or a mismatch report;
  when the comparison itself raises nothing is stored.\<close>

theorem verify_run_only_reports:
  assumes "sql_ok (en_store e)" and "sql_get_run i (en_store e) = Some r"
  shows "case verify_run sql_ops rv i e of (e', res) \<Rightarrow>
    sql_ok (en_store e') \<and> (\<forall>j. j \<noteq> i \<longrightarrow> sql_get_run j (en_store e') = sql_get_run j (en_store e)) \<and>
    ((\<exists>b exc. rr_status r = Completed \<and> rerun rv r = Inr b \<and> res = Inl exc) \<and>
       sql_get_run i (en_store e') = Some r \<or>
     (\<exists>p. res = rv_model rv p \<and>
        sql_get_run i (en_store e') = Some (r\<lparr>rr_verification := encode_json p\<rparr>) \<and>
        (if rr_status r = Completed
         then dget p ''status'' \<in> (case rerun rv r of
           Inl _ \<Rightarrow> {PStr ''failed''} | Inr _ \<Rightarrow> {PStr ''verified'', PStr ''mismatch''})
         else dget p ''status'' = PStr ''partial'')))"
  using sql.wp_verify_run [OF assms(1), of i r rv] assms(2)
  by (auto simp: sql_get_ops wp_s_def sql.others_same_def stored_verdict_def simp del: ex_simps split: prod.splits if_splits)

definition sample_rv :: replay_env where
  "sample_rv = \<lparr>rv_session = (\<lambda>config. Inr (sample_run_artifacts ''12:00'')),
     rv_backtest = (\<lambda>config. Inl (ValueError ''strategy'')), rv_model = Inr, rv_time = int_str\<rparr>"

theorem verify_run_only_reports_witness:
  "\<exists>p. snd (verify_run sql_ops sample_rv ''r'' (sample_env [])) = Inr p \<and> dget p ''status'' = PStr ''partial''"
proof -
  have fresh: "fresh_ops encode_json snapshot_order [St_Create 5 ''r'' Session []] (\<lambda>i. None)" by simp
  have get: "sql_get_run ''r'' (en_store (sample_env [])) = Some (new_run 5 ''r'' Session [])"
    using sample_env_get [OF fresh] by simp
  show ?thesis
    using verify_run_only_reports [OF sample_env_ok [OF fresh] get, of sample_rv]
    by (auto simp: new_run_def sample_rv_def split: prod.splits)
qed

text \<open>What a replay hands to the verifier: the artifacts of an execution.\<close>

definition replay_dict :: "artifacts \<Rightarrow> pydict" where
  "replay_dict a = [(''report'', PDict (af_report a)), (''events'', PList (map PDict (af_events a))),
     (''snapshots'', PList (map PDict (af_snapshots a))), (''accounts'', PList (map PDict (af_accounts a)))]"

lemma nan_free_json_sort: "nan_free v \<Longrightarrow> nan_free (json_sort v)"
proof (induction v rule: json_sort.induct)
  case (3 d)
  have "map fst (map (\<lambda>(k, v). (k, json_sort v)) d) = map fst d" by (induction d) auto
  then have "distinct (map fst (sort_key fst (map (\<lambda>(k, v). (k, json_sort v)) d)))"
    using 3 by (simp only: distinct_map_sort_key nan_free.simps)
  then show ?case using 3 by (auto simp: list_all_iff)
qed (auto simp: list_all_iff)

lemma comparable_encoded: "comparable_report r \<Longrightarrow> comparable_report (encode_json r)"
proof -
  assume r: "comparable_report r"
  have "map fst (map (\<lambda>(k, v). (k, json_sort v)) r) = map fst r" by (induction r) auto
  then have "distinct (map fst (encode_json r))"
    using r by (simp only: distinct_map_sort_key encode_json_def json_sort_dict_def comparable_report_def)
  moreover have "finite_metric (json_sort v) = finite_metric v" "is_number (json_sort v) = is_number v" for v
    by (cases v; simp add: finite_metric_def metric_value_def is_number_def)+
  ultimately show ?thesis
    using r by (auto simp: comparable_report_def encode_json_def json_sort_dict_def list_all_iff)
qed

lemma nan_free_encoded: "nan_free_items ds \<Longrightarrow> nan_free_items (map encode_json ds)"
proof -
  have "nan_free (PDict (encode_json d))" if "nan_free (PDict d)" for d
    using nan_free_json_sort [OF that] by (simp only: json_sort_PDict encode_json_def)
  then show "nan_free_items ds \<Longrightarrow> ?thesis" by (auto simp: nan_free_items_def list_all_iff simp del: nan_free.simps)
qed

lemma replay_dict_streams:
  "dicts_of (dget (replay_dict a) ''events'') = af_events a"
  "dicts_of (dget (replay_dict a) ''snapshots'') = af_snapshots a"
  "dicts_of (dget (replay_dict a) ''accounts'') = af_accounts a"
  "dict_or_empty (dget (replay_dict a) ''report'') = af_report a"
  by (simp_all add: replay_dict_def dget_def)

lemma artifact_payload_streams:
  "dicts_of (dget (artifact_payload x) ''events'') = ra_events x"
  "dicts_of (dget (artifact_payload x) ''snapshots'') = ra_snapshots x"
  "dicts_of (dget (artifact_payload x) ''accounts'') = ra_accounts x"
  "dict_or_empty (dget (artifact_payload x) ''report'') = ra_report x"
  by (simp_all add: artifact_payload_def dget_def)

text \<open>Storing artifacts keeps what verification compares, when the snapshots are in the order of their steps.\<close>

lemma stored_same:
  assumes "rr_report r = encode_json (af_report a)" "rr_events r = map encode_json (af_events a)"
    "rr_snapshots r = map encode_json (snapshot_order (af_snapshots a))"
    "rr_accounts r = map encode_json (af_accounts a)" "snapshot_order (af_snapshots a) = af_snapshots a"
    "clean_artifacts (replay_dict a)"
  shows "same_artifacts (artifact_payload (artifacts_of r)) (replay_dict a)"
    "clean_artifacts (artifact_payload (artifacts_of r))"
  using assms comparable_encoded nan_free_encoded
  by (simp_all add: same_artifacts_def clean_artifacts_def artifact_payload_streams replay_dict_streams
      artifacts_of_def normalize_encoded comp_def)

lemma executed_verified:
  assumes "sql_ok (en_store e)" and "sql_get_run i (en_store e) = Some r"
    and "rr_status r \<notin> {Completed, Canceled}"
    and "(rr_run_type r = Session \<and> eg_session eg (rr_config r) = Inr executor) \<or>
      (rr_run_type r = Backtest \<and> eg_backtest eg (rr_config r) = Inr executor)"
    and "snd (executor i) = Inr a" and "rerun rv r = Inr (replay_dict a)"
    and "snapshot_order (af_snapshots a) = af_snapshots a" and "clean_artifacts (replay_dict a)"
  shows "case execute_pending_run sql_ops cd eg i e of (e1, res1) \<Rightarrow>
    (case verify_run sql_ops rv i e1 of (e2, res2) \<Rightarrow>
      \<exists>p r2. res2 = rv_model rv p \<and> dget p ''status'' = PStr ''verified'' \<and>
        dget p ''mismatched_fields'' = PList [] \<and> dget p ''first_divergence_step'' = PNone \<and>
        sql_get_run i (en_store e2) = Some r2 \<and> rr_status r2 = Completed \<and> rr_verification r2 = encode_json p \<and>
        (\<forall>j. j \<noteq> i \<longrightarrow> sql_get_run j (en_store e2) = sql_get_run j (en_store e)))"
proof -
  have get: "so_get_run sql_ops i (en_store e) = Some r" using assms(2) by (simp add: sql_get_ops)
  obtain e1 res1 where e1: "execute_pending_run sql_ops cd eg i e = (e1, res1)" by fastforce
  from iffD2 [OF sql.wp_pending [OF assms(1) get assms(3,4)] sql.wp_execute [OF assms(1) get], of cd] e1
  obtain r1 where others: "sql.others_same i (en_store e) (en_store e1)"
    and r1: "so_get_run sql_ops i (en_store e1) = Some r1" "rr_status r1 = Completed" "rr_config r1 = rr_config r"
      "rr_run_type r1 = rr_run_type r" "rr_report r1 = encode_json (af_report a)" "rr_events r1 = map encode_json (af_events a)"
      "rr_snapshots r1 = map encode_json (snapshot_order (af_snapshots a))"
      "rr_accounts r1 = map encode_json (af_accounts a)"
    using assms(5) by (auto simp: wp_s_def sql.completed_with_def sql.started_def)
  let ?x = "artifact_payload (artifacts_of r1)" and ?now = "rv_time rv (en_clock e1 (en_ticks e1))"
  let ?v = "verified_report ?now i (artifact_hashes ?x)"
  note same = stored_same [OF r1(5-8) assms(7,8)]
  have verify: "verify ?now i ?x (Some (replay_dict a)) None = Inr ?v"
    by (rule verify_same [OF same assms(8)])
  have ok1: "sql_ok (en_store e1)" using others by (simp add: sql.others_same_def)
  have load: "rerun rv r1 = Inr (replay_dict a)" using r1(3,4) assms(6) by (simp add: rerun_def split: run_type.splits)
  have "wp_s (verify_run sql_ops rv i) e1 (\<lambda>e2 res2. res2 = rv_model rv (verification_dict ?v) \<and>
      sql.others_same i (en_store e1) (en_store e2) \<and>
      so_get_run sql_ops i (en_store e2) = Some (r1\<lparr>rr_verification := encode_json (verification_dict ?v)\<rparr>))"
    using r1 verify load ok1
    by (auto simp: verify_run_def wp_rules sql.wp_load artifacts_of_def Let_def intro!: sql.wp_store_report)
  moreover have "dget (verification_dict ?v) ''status'' = PStr ''verified''"
    "dget (verification_dict ?v) ''mismatched_fields'' = PList []"
    "dget (verification_dict ?v) ''first_divergence_step'' = PNone"
    by (simp_all add: verification_dict_def verified_report_def dget_def)
  ultimately show ?thesis
    using others r1(2) by (auto simp: e1 wp_s_def sql.others_same_def sql_get_ops split: prod.splits)
qed

text \<open>Remark (execution and verification). Executing a stored session or backtest and then verifying it yields the verdict
  \<open>verified\<close>, and stores it, when the engine is deterministic, that is executing the same configuration
  again gives the same artifacts, these list their snapshots in the order of their steps, hold no NaN and
  their metrics are finite. The store keeps JSON, which sorts keys; the verdict does not depend on it.\<close>

theorem executed_run_verifies:
  assumes "sql_ok (en_store e)" and "sql_get_run i (en_store e) = Some r"
    and "rr_status r \<notin> {Completed, Canceled}"
    and "(rr_run_type r = Session \<and> eg_session eg (rr_config r) = Inr executor) \<or>
      (rr_run_type r = Backtest \<and> eg_backtest eg (rr_config r) = Inr executor)"
    and "snd (executor i) = Inr a" and "rerun rv r = Inr (replay_dict a)"
    and "snapshot_order (af_snapshots a) = af_snapshots a" and "clean_artifacts (replay_dict a)"
  shows "case execute_pending_run sql_ops cd eg i e of (e1, res1) \<Rightarrow>
    (case verify_run sql_ops rv i e1 of (e2, res2) \<Rightarrow>
      \<exists>p r2. res2 = rv_model rv p \<and> dget p ''status'' = PStr ''verified'' \<and>
        dget p ''mismatched_fields'' = PList [] \<and> dget p ''first_divergence_step'' = PNone \<and>
        sql_get_run i (en_store e2) = Some r2 \<and> rr_status r2 = Completed \<and> rr_verification r2 = encode_json p \<and>
        (\<forall>j. j \<noteq> i \<longrightarrow> sql_get_run j (en_store e2) = sql_get_run j (en_store e)))"
  using assms by (rule executed_verified)

theorem executed_run_verifies_witness:
  "\<exists>p. snd (verify_run sql_ops (sample_rv\<lparr>rv_session := (\<lambda>config. Inr (replay_dict sample_artifacts))\<rparr>) ''r''
      (fst (execute_pending_run sql_ops quiet_codec good_engines ''r'' (sample_env [])))) = Inr p \<and>
    dget p ''status'' = PStr ''verified''"
proof -
  let ?rv = "sample_rv\<lparr>rv_session := (\<lambda>config. Inr (replay_dict sample_artifacts))\<rparr>"
  have fresh: "fresh_ops encode_json snapshot_order [St_Create 5 ''r'' Session []] (\<lambda>i. None)" by simp
  have get: "sql_get_run ''r'' (en_store (sample_env [])) = Some (new_run 5 ''r'' Session [])"
    using sample_env_get [OF fresh] by simp
  have metric: "finite_metric (PInt 3)"
    by (simp add: finite_metric_cases metric_value_def int_to_float_def float_of_int_3)
  have "clean_artifacts (replay_dict sample_artifacts)"
    using metric by (simp add: clean_artifacts_def replay_dict_streams sample_artifacts_def nan_free_items_def
        comparable_report_def timestamp_keys_def)
  then show ?thesis
    using executed_run_verifies [OF sample_env_ok [OF fresh] get, of good_engines
        "\<lambda>run_id. ([[(''step'', PInt 1)]], Inr sample_artifacts)" sample_artifacts ?rv quiet_codec]
    by (auto simp: new_run_def good_engines_def sample_rv_def snapshot_order_def sample_artifacts_def rerun_def
        split: prod.splits)
qed

end
