(* ===== verification/Replay_Views.thy ===== *)
theory Replay_Views
  imports Replay_Props "HOL-Library.Sublist" "HOL-Library.Multiset"
begin

text \<open>
  Properties of the views of the replay service on the SQLite backend: the timeline of a run lists every
  artifact once in a strict order, and the frames of a range partition its artifacts by their steps.
\<close>

section \<open>Timelines\<close>

lemma sorted_strict: "sorted (map f xs) \<Longrightarrow> distinct (map f xs) \<Longrightarrow> sorted_wrt (<) (map f xs)"
  by (rule strict_sorted_iff [THEN iffD2]) simp

lemma category_order_inj [simp]: "category_order c = category_order d \<longleftrightarrow> c = d"
  by (cases c; cases d) simp_all

definition place :: "timeline_entry \<Rightarrow> timeline_category \<times> nat \<times> pydict" where
  "place t = (te_category t, te_sequence t, te_payload t)"

definition places :: "timeline_category \<Rightarrow> pydict list \<Rightarrow> (timeline_category \<times> nat \<times> pydict) list" where
  "places c items = map (\<lambda>(n, item). (c, n, item)) (enum_list items)"

lemma places_entries: "map place (entries_of ids ds c items) = places c items"
  by (simp add: places_def place_def entries_of_def make_entry_def Let_def comp_def split_def)

lemma entries_sequences: "map te_sequence (entries_of ids ds c items) = [0..<length items]"
proof -
  have "map te_sequence (entries_of ids ds c items) = map fst (enum_list items)"
    by (simp add: entries_of_def make_entry_def Let_def comp_def split_def)
  then show ?thesis by simp
qed

lemma entries_category: "t \<in> set (entries_of ids ds c items) \<Longrightarrow> te_category t = c"
  by (auto simp: entries_of_def make_entry_def Let_def)

lemma entries_keys_distinct: "distinct (map entry_key (entries_of ids ds c items))"
proof -
  have "distinct (map te_sequence (entries_of ids ds c items))" by (simp add: entries_sequences)
  then show ?thesis by (auto simp: distinct_map inj_on_def entry_key_def)
qed

definition run_places :: "run_record \<Rightarrow> (timeline_category \<times> nat \<times> pydict) list" where
  "run_places r = places Tl_Event (rr_events r) @ places Tl_Snapshot (rr_snapshots r) @
     places Tl_Account (rr_accounts r) @ places Tl_Log (rr_logs r)"

lemma build_timeline_order:
  "sorted_wrt (<) (map entry_key (build_timeline ids (artifacts_of r)))"
  "mset (map place (build_timeline ids (artifacts_of r))) = mset (run_places r)"
proof -
  let ?ds = "single_symbol (configured_symbols (rr_config r))"
  let ?es = "entries_of ids ?ds Tl_Event (rr_events r) @ entries_of ids ?ds Tl_Snapshot (rr_snapshots r)
    @ entries_of ids ?ds Tl_Account (rr_accounts r) @ entries_of ids ?ds Tl_Log (rr_logs r)"
  have tl: "build_timeline ids (artifacts_of r) = sort_key entry_key ?es"
    by (simp add: build_timeline_def artifacts_of_def Let_def)
  have cat: "snd (snd (entry_key t)) = category_order c" if "t \<in> set (entries_of ids ds c items)" for t ds c items
    using entries_category [OF that] by (simp add: entry_key_def)
  have "distinct (map entry_key ?es)"
    using entries_keys_distinct by (auto simp: image_iff dest!: cat arg_cong [where f = "\<lambda>k. snd (snd k)"])
  then show "sorted_wrt (<) (map entry_key (build_timeline ids (artifacts_of r)))"
    unfolding tl by (intro sorted_strict) (simp_all add: distinct_map_sort_key)
  have "mset (map place (sort_key entry_key ?es)) = mset (map place ?es)"
    by (simp only: mset_map mset_sort)
  also have "map place ?es = run_places r" by (simp only: run_places_def map_append places_entries)
  finally show "mset (map place (build_timeline ids (artifacts_of r))) = mset (run_places r)" by (simp only: tl)
qed

lemma subseq_page: "subseq (page_entries lmt off xs) xs"
proof -
  have "subseq (drop n xs) xs" "subseq (take m ys) ys" for n m and ys :: "'a list"
    using suffix_imp_subseq [OF suffix_drop] prefix_imp_subseq [OF take_is_prefix] by blast+
  then show ?thesis by (auto simp: page_entries_def Let_def intro: subseq_order.trans split: option.split)
qed

lemma subseq_when: "subseq (when_given v f xs) xs"
  by (simp add: when_given_def split: option.split)

lemma subseq_filter_timeline: "subseq (filter_timeline s c k xs) xs"
  unfolding filter_timeline_def by (blast intro: subseq_when subseq_order.trans)

lemma get_timeline_run:
  assumes "sql_ok (en_store e)" "sql_get_run i (en_store e) = Some r"
  shows "get_timeline sql_ops ids i symbol category kind lmt off e =
    (e, Inr (page_entries lmt off (filter_timeline symbol category kind (build_timeline ids (artifacts_of r)))))"
  using sql.wp_load [OF assms(1), of i "\<lambda>e' res. e' = e \<and> res = Inr (artifacts_of r)"] assms(2)
  by (auto simp: get_timeline_def bind_s_def wp_s_def sql_get_ops return_s_def split: prod.splits)

text \<open>C39 (the timeline of a run). Without filters the timeline of a stored run holds every event, snapshot,
  account and log exactly once, under its category and index, strictly ascending by step, index and
  category, where an item without a step takes its index as step. Filters and paging, and the timelines of
  an order or an account, only leave entries out. No read changes anything.\<close>

theorem timeline_complete:
  assumes "sql_ok (en_store e)" and "sql_get_run i (en_store e) = Some r"
  shows "\<exists>es. get_timeline sql_ops ids i None None None None 0 e = (e, Inr es) \<and>
    sorted_wrt (<) (map entry_key es) \<and>
    mset (map (\<lambda>t. (te_category t, te_sequence t, te_payload t)) es) =
      mset (map (\<lambda>(n, x). (Tl_Event, n, x)) (enum_list (rr_events r)) @
            map (\<lambda>(n, x). (Tl_Snapshot, n, x)) (enum_list (rr_snapshots r)) @
            map (\<lambda>(n, x). (Tl_Account, n, x)) (enum_list (rr_accounts r)) @
            map (\<lambda>(n, x). (Tl_Log, n, x)) (enum_list (rr_logs r))) \<and>
    (\<exists>fs. get_timeline sql_ops ids i symbol category kind lmt off e = (e, Inr fs) \<and> subseq fs es) \<and>
    (\<exists>os. get_order_timeline sql_ops ids i order symbol category kind lmt off e = (e, Inr os) \<and> subseq os es) \<and>
    (\<exists>as. get_account_timeline sql_ops ids i account symbol category kind lmt off e = (e, Inr as) \<and> subseq as es)"
proof -
  let ?es = "build_timeline ids (artifacts_of r)"
  note run = get_timeline_run [OF assms]
  have all: "page_entries None 0 (filter_timeline None None None ?es) = ?es"
    by (simp add: page_entries_def filter_timeline_def when_given_def)
  have filtered: "subseq (page_entries lmt off (filter p (page_entries None 0 (filter_timeline symbol category kind ?es)))) ?es"
    for p
    by (rule subseq_order.trans [OF subseq_page subseq_order.trans [OF subseq_filter_left
          subseq_order.trans [OF subseq_page subseq_filter_timeline]]])
  have pages: "subseq (page_entries lmt off (filter_timeline symbol category kind ?es)) ?es"
    by (rule subseq_order.trans [OF subseq_page subseq_filter_timeline])
  show ?thesis
    unfolding run all get_order_timeline_def get_account_timeline_def bind_s_def return_s_def prod.case sum.case
    using build_timeline_order [of ids r, unfolded place_def places_def run_places_def] filtered pages
    by blast
qed

section \<open>Ranges\<close>

lemma mset_filter_or:
  "\<forall>x. \<not> (P x \<and> Q x) \<Longrightarrow> mset (filter (\<lambda>x. P x \<or> Q x) xs) = mset (filter P xs) + mset (filter Q xs)"
  by (induction xs) auto

lemma steps_partition:
  assumes "distinct steps"
  shows "mset (concat (map (\<lambda>n. filter (\<lambda>x. f x = Some n) xs) steps)) = mset (filter (\<lambda>x. f x \<in> Some ` set steps) xs)"
  using assms
proof (induction steps)
  case (Cons n steps)
  then have "mset (filter (\<lambda>x. f x = Some n \<or> f x \<in> Some ` set steps) xs) =
      mset (filter (\<lambda>x. f x = Some n) xs) + mset (filter (\<lambda>x. f x \<in> Some ` set steps) xs)"
    by (intro mset_filter_or) auto
  moreover have "(\<lambda>x. f x \<in> Some ` set (n # steps)) = (\<lambda>x. f x = Some n \<or> f x \<in> Some ` set steps)" by auto
  ultimately show ?case using Cons by simp
qed simp

lemma concat_nonempty: "(\<And>x. x \<in> set xs \<Longrightarrow> \<not> P x \<Longrightarrow> f x = []) \<Longrightarrow> concat (map f (filter P xs)) = concat (map f xs)"
  by (induction xs) auto

text \<open>The items of a kind that a range shows, and those of one step.\<close>

definition kept :: "string option \<Rightarrow> pydict \<Rightarrow> bool" where
  "kept symbol item \<longleftrightarrow> (case symbol of None \<Rightarrow> True
     | Some s \<Rightarrow> references_symbol item s \<or> entry_symbol Tl_Snapshot item None = Some s)"

definition shown :: "bool \<Rightarrow> string option \<Rightarrow> pydict list \<Rightarrow> pydict list" where
  "shown included symbol items = (if included then filter (kept symbol) items else [])"

definition at_step :: "int \<Rightarrow> pydict list \<Rightarrow> pydict list" where
  "at_step n items = filter (\<lambda>x. entry_step x = Some n) items"

lemma step_items_shown: "(if b then step_items items n symbol else []) = at_step n (shown b symbol items)"
  by (cases symbol) (simp_all add: step_items_def at_step_def shown_def kept_def filter_filter Let_def conj_commute)

lemma frame_fields:
  assumes "build_replay_frame ids a step symbol b1 b2 b3 = Inr f"
  shows "fr_step f = step" "fr_snapshots f = at_step step (shown b1 symbol (ra_snapshots a))"
    "fr_accounts f = at_step step (shown b3 symbol (ra_accounts a))"
    "fr_account_deltas f = map account_delta (fr_accounts f)"
    "fr_event_summaries f = map (event_summary ids symbol) (enum_list (at_step step (shown b2 symbol (ra_events a))))"
    "fr_trades f = map trade_payload (filter (\<lambda>x. dget x ''type'' = PStr ''TradeExecuted'')
       (at_step step (shown b2 symbol (ra_events a))))"
  using assms by (auto simp: build_replay_frame_def Let_def step_items_shown bind_r_Inr_iff)

lemma set_item_steps: "set (item_steps items) = {n. \<exists>x \<in> set items. entry_step x = Some n}"
  by (induction items) (auto simp: item_steps_def opt_list_def split: option.splits)

text \<open>Every step of an item is on the timeline.\<close>

lemma run_timeline_steps:
  assumes "run_timeline a = Inr steps"
  shows "timeline_ok steps"
    and "x \<in> set (ra_events a @ ra_snapshots a @ ra_accounts a) \<Longrightarrow> entry_step x = Some n \<Longrightarrow> n \<in> set steps"
proof -
  let ?p = "sort (remdups (item_steps (ra_events a @ ra_snapshots a @ ra_accounts a @ ra_logs a)))"
  show "timeline_ok steps" using assms by (auto simp: run_timeline_def make_timeline_Inr Let_def)
  assume x: "x \<in> set (ra_events a @ ra_snapshots a @ ra_accounts a)" "entry_step x = Some n"
  then have n: "n \<in> set ?p" by (auto simp: set_item_steps)
  then have "?p \<noteq> []" by (metis empty_iff list.set(1))
  then have "steps = ?p" using assms by (simp add: run_timeline_def make_timeline_Inr Let_def)
  with n show "n \<in> set steps" by simp
qed

text \<open>An item with a step in a range.\<close>

definition step_between :: "int \<Rightarrow> int \<Rightarrow> pydict \<Rightarrow> bool" where
  "step_between lo hi item \<longleftrightarrow> (case entry_step item of None \<Rightarrow> False | Some n \<Rightarrow> lo \<le> n \<and> n \<le> hi)"

lemma within_steps:
  assumes "run_timeline a = Inr steps" "set items \<subseteq> set (ra_events a @ ra_snapshots a @ ra_accounts a)"
  shows "mset (concat (map (\<lambda>n. at_step n items) (filter (\<lambda>n. lo \<le> n \<and> n \<le> hi) steps))) =
    mset (filter (step_between lo hi) items)"
proof -
  have "distinct (filter (\<lambda>n. lo \<le> n \<and> n \<le> hi) steps)"
    using run_timeline_steps(1) [OF assms(1)] by (simp add: timeline_ok_def)
  moreover have "filter (\<lambda>x. entry_step x \<in> Some ` set (filter (\<lambda>n. lo \<le> n \<and> n \<le> hi) steps)) items = filter (step_between lo hi) items"
  proof (rule filter_cong)
    fix x
    assume "x \<in> set items"
    with assms(2) run_timeline_steps(2) [OF assms(1)]
    show "entry_step x \<in> Some ` set (filter (\<lambda>n. lo \<le> n \<and> n \<le> hi) steps) \<longleftrightarrow> step_between lo hi x"
      by (auto simp: step_between_def split: option.split)
  qed simp
  ultimately show ?thesis by (simp only: steps_partition at_step_def)
qed

text \<open>What a frame holds: the items of its step.\<close>

definition frame_of_step ::
  "string list \<Rightarrow> string option \<Rightarrow> pydict list \<Rightarrow> pydict list \<Rightarrow> pydict list \<Rightarrow> replay_frame \<Rightarrow> bool" where
  "frame_of_step ids symbol events snapshots accounts f \<longleftrightarrow>
     fr_snapshots f = at_step (fr_step f) snapshots \<and> fr_accounts f = at_step (fr_step f) accounts \<and>
     fr_account_deltas f = map account_delta (at_step (fr_step f) accounts) \<and>
     fr_event_summaries f = map (event_summary ids symbol) (enum_list (at_step (fr_step f) events)) \<and>
     fr_trades f = map trade_payload (filter (\<lambda>x. dget x ''type'' = PStr ''TradeExecuted'') (at_step (fr_step f) events))"

lemma map_r_frames:
  assumes "map_r (\<lambda>step. build_replay_frame ids a step symbol b1 b2 b3) steps = Inr frames"
  shows "map fr_step frames = steps"
    "f \<in> set frames \<Longrightarrow> frame_of_step ids symbol (shown b2 symbol (ra_events a)) (shown b1 symbol (ra_snapshots a))
       (shown b3 symbol (ra_accounts a)) f"
proof -
  show "map fr_step frames = steps"
    by (rule map_r_map [OF assms, where g = fr_step]) (rule frame_fields(1))
  assume "f \<in> set frames"
  then obtain n where "build_replay_frame ids a n symbol b1 b2 b3 = Inr f"
    using map_r_members [OF assms] by blast
  then show "frame_of_step ids symbol (shown b2 symbol (ra_events a)) (shown b1 symbol (ra_snapshots a))
       (shown b3 symbol (ra_accounts a)) f"
    using frame_fields by (auto simp: frame_of_step_def)
qed

text \<open>The frames that are shown hold what all frames hold.\<close>

lemma shown_frames:
  assumes "\<And>f. f \<in> set frames \<Longrightarrow> frame_of_step ids symbol events snapshots accounts f"
    and "map fr_step frames = steps" and "items \<in> {events, snapshots, accounts}"
  shows "concat (map (\<lambda>f. at_step (fr_step f) items) (filter frame_has_payload frames)) =
    concat (map (\<lambda>n. at_step n items) steps)"
proof -
  have "concat (map (\<lambda>f. at_step (fr_step f) items) (filter frame_has_payload frames)) =
      concat (map (\<lambda>f. at_step (fr_step f) items) frames)"
  proof (rule concat_nonempty)
    fix f
    assume f: "f \<in> set frames" "\<not> frame_has_payload f"
    then have "enum_list (at_step (fr_step f) events) = []" "at_step (fr_step f) snapshots = []"
      "at_step (fr_step f) accounts = []"
      using assms(1) [OF f(1)] by (simp_all add: frame_has_payload_def frame_of_step_def)
    then show "at_step (fr_step f) items = []"
      using assms(3) by (auto dest!: arg_cong [where f = "map snd"])
  qed
  then show ?thesis by (simp add: assms(2) [symmetric] comp_def)
qed

lemma get_range_run:
  assumes "sql_ok (en_store e)" "sql_get_run i (en_store e) = Some r"
  shows "get_replay_range sql_ops ids i s0 e0 symbol b1 b2 b3 e =
    (e, bind_r (run_timeline (artifacts_of r)) (\<lambda>steps. range_of ids i (artifacts_of r) steps s0 e0 symbol b1 b2 b3))"
  using sql.wp_load [OF assms(1), of i "\<lambda>e' res. e' = e \<and> res = Inr (artifacts_of r)"] assms(2)
  by (auto simp: get_replay_range_def bind_s_def wp_s_def sql_get_ops result_s_def split: prod.splits sum.split)

lemma find_above_least:
  assumes "sorted steps" "find (\<lambda>n. (hi :: int) < n) steps = Some n" "m \<in> set steps" "hi < m"
  shows "hi < n \<and> n \<le> m"
  using assms by (induction steps) (auto split: if_splits)

text \<open>C40 (a range of frames). The ends of a range are the requested steps, moved to steps of the timeline and put in
  order. Its frames come in ascending steps between them; each holds exactly the snapshots, accounts, event
  summaries and trades of the items whose step is its own, of the kinds that are included and of the symbol
  that is asked for. Together they partition those items: every one with a step in the range is in the frame
  of its step, once, although steps without anything to show are left out. The start of the next range is
  the first step above this one, and no item lies between. No read changes anything.\<close>

theorem range_frames_partition:
  assumes "sql_ok (en_store e)" and "sql_get_run i (en_store e) = Some r"
    and "get_replay_range sql_ops ids i s0 e0 symbol b1 b2 b3 e = (e', Inr g)"
    and events: "events = shown b2 symbol (rr_events r)" and snapshots: "snapshots = shown b1 symbol (rr_snapshots r)"
    and accounts: "accounts = shown b3 symbol (rr_accounts r)"
  shows "e' = e \<and> rg_start_step g \<le> rg_end_step g \<and>
    (\<exists>steps. run_timeline (artifacts_of r) = Inr steps \<and>
       rg_start_step g = min (clamp steps s0) (clamp steps e0) \<and> rg_end_step g = max (clamp steps s0) (clamp steps e0)) \<and>
    sorted_wrt (<) (map fr_step (rg_frames g)) \<and>
    (\<forall>f \<in> set (rg_frames g). rg_start_step g \<le> fr_step f \<and> fr_step f \<le> rg_end_step g \<and>
       fr_snapshots f = at_step (fr_step f) snapshots \<and> fr_accounts f = at_step (fr_step f) accounts \<and>
       fr_account_deltas f = map account_delta (at_step (fr_step f) accounts) \<and>
       fr_event_summaries f = map (event_summary ids symbol) (enum_list (at_step (fr_step f) events)) \<and>
       fr_trades f = map trade_payload (filter (\<lambda>x. dget x ''type'' = PStr ''TradeExecuted'') (at_step (fr_step f) events))) \<and>
    (\<forall>items \<in> {events, snapshots, accounts}.
       mset (concat (map (\<lambda>f. at_step (fr_step f) items) (rg_frames g))) =
         mset (filter (step_between (rg_start_step g) (rg_end_step g)) items)) \<and>
    mset (concat (map fr_snapshots (rg_frames g))) =
      mset (filter (step_between (rg_start_step g) (rg_end_step g)) snapshots) \<and>
    mset (concat (map fr_accounts (rg_frames g))) =
      mset (filter (step_between (rg_start_step g) (rg_end_step g)) accounts) \<and>
    sum_list (map (length \<circ> fr_event_summaries) (rg_frames g)) =
      length (filter (step_between (rg_start_step g) (rg_end_step g)) events) \<and>
    (\<forall>n x. rg_next_start_step g = Some n \<longrightarrow> x \<in> set (rr_events r @ rr_snapshots r @ rr_accounts r) \<longrightarrow>
       rg_end_step g < n \<and> \<not> step_between (rg_end_step g + 1) (n - 1) x)"
proof -
  let ?a = "artifacts_of r"
  obtain steps where steps: "run_timeline ?a = Inr steps"
    and g: "range_of ids i ?a steps s0 e0 symbol b1 b2 b3 = Inr g" and e': "e' = e"
    using assms(3) unfolding get_range_run [OF assms(1,2)] by (auto simp: bind_r_Inr_iff)
  let ?lo = "rg_start_step g" and ?hi = "rg_end_step g"
  let ?inside = "filter (\<lambda>n. ?lo \<le> n \<and> n \<le> ?hi) steps"
  obtain frames where frames: "map_r (\<lambda>step. build_replay_frame ids ?a step symbol b1 b2 b3) ?inside = Inr frames"
    and rg: "rg_frames g = filter frame_has_payload frames"
    and nxt: "rg_next_start_step g = find (\<lambda>n. ?hi < n) steps"
    using g by (auto simp: range_of_def Let_def bind_r_Inr_iff split: if_splits)
  have ends: "?lo = min (clamp steps s0) (clamp steps e0)" "?hi = max (clamp steps s0) (clamp steps e0)"
    using g by (auto simp: range_of_def Let_def bind_r_Inr_iff min_def max_def split: if_splits)
  note ok = run_timeline_steps(1) [OF steps]
  note f = map_r_frames [OF frames]
  have of_step: "frame_of_step ids symbol events snapshots accounts x" if "x \<in> set frames" for x
    using f(2) [OF that] by (simp add: assms(4-6) artifacts_of_def)
  have items: "set x \<subseteq> set (ra_events ?a @ ra_snapshots ?a @ ra_accounts ?a)"
    if "x \<in> {events, snapshots, accounts}" for x
    using that by (auto simp: assms(4-6) shown_def artifacts_of_def)
  have part: "mset (concat (map (\<lambda>f. at_step (fr_step f) x) (rg_frames g))) = mset (filter (step_between ?lo ?hi) x)"
    if "x \<in> {events, snapshots, accounts}" for x
  proof -
    have "concat (map (\<lambda>f. at_step (fr_step f) x) (rg_frames g)) = concat (map (\<lambda>n. at_step n x) ?inside)"
      unfolding rg by (rule shown_frames [OF _ f(1) that]) (rule of_step)
    then show ?thesis using within_steps [OF steps items [OF that]] by simp
  qed
  have "sorted_wrt (<) ?inside"
    using ok by (auto simp: timeline_ok_def intro!: sorted_wrt_filter strict_sorted_iff [THEN iffD2])
  then have "sorted_wrt (<) (map fr_step frames)" by (simp only: f(1))
  then have order: "sorted_wrt (<) (map fr_step (rg_frames g))"
    by (simp only: rg sorted_wrt_map sorted_wrt_filter)
  have shown: "frame_of_step ids symbol events snapshots accounts x" "?lo \<le> fr_step x \<and> fr_step x \<le> ?hi"
    if "x \<in> set (rg_frames g)" for x
    using that of_step arg_cong [OF f(1), of set] by (auto simp: rg)
  have fields: "map fr_snapshots (rg_frames g) = map (\<lambda>f. at_step (fr_step f) snapshots) (rg_frames g)"
    "map fr_accounts (rg_frames g) = map (\<lambda>f. at_step (fr_step f) accounts) (rg_frames g)"
    "map (length \<circ> fr_event_summaries) (rg_frames g) = map length (map (\<lambda>f. at_step (fr_step f) events) (rg_frames g))"
    using shown(1) by (simp_all add: frame_of_step_def)
  have summaries: "sum_list (map (length \<circ> fr_event_summaries) (rg_frames g)) =
      length (filter (step_between ?lo ?hi) events)"
    using part [of events, THEN mset_eq_length] by (simp only: fields length_concat) simp
  have next_range: "?hi < n \<and> \<not> step_between (?hi + 1) (n - 1) x"
    if "rg_next_start_step g = Some n" "x \<in> set (rr_events r @ rr_snapshots r @ rr_accounts r)" for n x
  proof -
    have above: "find (\<lambda>m. ?hi < m) steps = Some n" using that(1) nxt by simp
    have sorted: "sorted steps" using ok by (simp add: timeline_ok_def)
    have "?hi < n" using above by (auto simp: find_Some_iff)
    moreover have "n \<le> m" if "entry_step x = Some m" "?hi < m" for m
    proof -
      have "m \<in> set steps"
        using run_timeline_steps(2) [OF steps _ that(1)] \<open>x \<in> _\<close> by (simp add: artifacts_of_def)
      then show ?thesis using find_above_least [OF sorted above _ that(2)] by blast
    qed
    ultimately show ?thesis by (cases "entry_step x") (auto simp: step_between_def)
  qed
  have le: "?lo \<le> ?hi" by (simp add: ends)
  show ?thesis
  proof (intro conjI ballI allI impI)
    show "\<exists>steps. run_timeline (artifacts_of r) = Inr steps \<and>
       rg_start_step g = min (clamp steps s0) (clamp steps e0) \<and> rg_end_step g = max (clamp steps s0) (clamp steps e0)"
      using steps ends by blast
    show "mset (concat (map fr_snapshots (rg_frames g))) = mset (filter (step_between ?lo ?hi) snapshots)"
      "mset (concat (map fr_accounts (rg_frames g))) = mset (filter (step_between ?lo ?hi) accounts)"
      unfolding fields by (rule part, simp)+
  qed (use e' le order shown part summaries next_range in \<open>simp_all add: frame_of_step_def\<close>)
qed

text \<open>A stored run with one event in step 2 and one snapshot in step 3.\<close>

definition two_steps :: run_record where
  "two_steps = (new_run 5 ''r'' Session [])
     \<lparr>rr_events := [[(''data'', PDict [(''step'', PInt 2)]), (''type'', PStr ''TradeExecuted'')]],
      rr_snapshots := [[(''step'', PInt 3)]]\<rparr>"

definition two_steps_ops :: "store_op list" where
  "two_steps_ops = [St_Result ''r'' [] (rr_events two_steps) (rr_snapshots two_steps) [] None]"

lemma two_steps_stored:
  "sql_ok (en_store (sample_env two_steps_ops))" "sql_get_run ''r'' (en_store (sample_env two_steps_ops)) = Some two_steps"
proof -
  have fresh: "fresh_ops encode_json snapshot_order (St_Create 5 ''r'' Session [] # two_steps_ops) (\<lambda>i. None)"
    by (simp add: two_steps_ops_def)
  have json: "map encode_json (rr_events two_steps) = rr_events two_steps"
    "map encode_json (snapshot_order (rr_snapshots two_steps)) = rr_snapshots two_steps" "encode_json [] = []"
    by (simp_all add: two_steps_def encode_json_def json_sort_dict_def snapshot_order_def)
  show "sql_ok (en_store (sample_env two_steps_ops))" by (rule sample_env_ok [OF fresh])
  show "sql_get_run ''r'' (en_store (sample_env two_steps_ops)) = Some two_steps"
    using sample_env_get [OF fresh] by (simp add: two_steps_ops_def modify_run_def json) (simp add: two_steps_def new_run_def)
qed

theorem timeline_complete_witness:
  "\<exists>es. get_timeline sql_ops [] ''r'' None None None None 0 (sample_env two_steps_ops) =
    (sample_env two_steps_ops, Inr es) \<and> length es = 2"
  using timeline_complete [OF two_steps_stored, of "[]"]
  by (fastforce simp: two_steps_def new_run_def enum_list_def dest: arg_cong [where f = size])

theorem range_frames_partition_witness:
  "\<exists>g. get_replay_range sql_ops [] ''r'' 0 9 None True True True (sample_env two_steps_ops) =
    (sample_env two_steps_ops, Inr g) \<and> mset (concat (map fr_snapshots (rg_frames g))) = {#[(''step'', PInt 3)]#} \<and>
    rg_start_step g = 2"
proof -
  have steps: "run_timeline (artifacts_of two_steps) = Inr [2, 3]" by code_simp
  have "case range_of [] ''r'' (artifacts_of two_steps) [2, 3] 0 9 None True True True of
      Inl _ \<Rightarrow> False | Inr g \<Rightarrow> rg_start_step g = 2 \<and> rg_end_step g = 3" by code_simp
  then obtain g where g: "range_of [] ''r'' (artifacts_of two_steps) [2, 3] 0 9 None True True True = Inr g"
    "rg_start_step g = 2" "rg_end_step g = 3" by (auto split: sum.splits)
  have run: "get_replay_range sql_ops [] ''r'' 0 9 None True True True (sample_env two_steps_ops) =
      (sample_env two_steps_ops, Inr g)"
    using get_range_run [OF two_steps_stored] steps g by simp
  have "filter (step_between 2 3) (shown True None (rr_snapshots two_steps)) = [[(''step'', PInt 3)]]" by code_simp
  with range_frames_partition [OF two_steps_stored run refl refl refl] g run show ?thesis by simp
qed

end
