(* ===== verification/Order_Books.thy ===== *)
theory Order_Books
  imports Engine_Adapter
begin

text \<open>
  The engine object as its callers see it besides its commands: read-only snapshots of a book, whose
  dictionaries the bindings build, the halt flag of the status of a symbol, and the ledger. Also
  dictionaries built by comprehensions.
\<close>

section \<open>Books\<close>

(* engine/python/bindings.cpp:294-301 level_to_py *)
record book_level =
  lv_symbol :: string
  lv_side :: side
  lv_price :: int
  lv_qty :: int

(* engine/python/bindings.cpp:293-318 snapshot_to_py *)
record book_snapshot =
  bk_symbol :: string
  bk_sequence_number :: int
  bk_bids :: "book_level list"
  bk_asks :: "book_level list"

definition level_dict :: "book_level \<Rightarrow> pydict" where
  "level_dict l = [(''symbol'', PStr (lv_symbol l)), (''side'', PStr (side_str (lv_side l))),
     (''price'', PInt (lv_price l)), (''qty'', PInt (lv_qty l))]"

definition snapshot_dict :: "book_snapshot \<Rightarrow> pydict" where
  "snapshot_dict s = [(''symbol'', PStr (bk_symbol s)), (''sequence_number'', PInt (bk_sequence_number s)),
     (''bids'', PList (map (\<lambda>l. PDict (level_dict l)) (bk_bids s))),
     (''asks'', PList (map (\<lambda>l. PDict (level_dict l)) (bk_asks s)))]"

text \<open>The engine object. \<open>ex_halted\<close> is the flag \<open>halted\<close> of \<open>symbol_status\<close>; the ledger gives the \<open>fee_delta\<close> of the entries of account 0, when the engine
  has one.\<close>

record 'e exchange =
  ex_engine :: "'e engine"
  ex_new :: 'e
  ex_snapshot :: "int \<Rightarrow> string \<Rightarrow> 'e \<Rightarrow> book_snapshot"
  ex_halted :: "string \<Rightarrow> 'e \<Rightarrow> bool"
  ex_ledger :: "('e \<Rightarrow> int list) option"

text \<open>\<open>{x: f(x) for x in xs}\<close>, in the order of first occurrence.\<close>

definition dict_from :: "('a \<Rightarrow> 'b) \<Rightarrow> 'a list \<Rightarrow> ('a \<times> 'b) list" where
  "dict_from f xs = fold (\<lambda>x d. AList.update x (f x) d) xs []"

lemma dict_from_distinct [simp]: "distinct (map fst (dict_from f xs))"
proof -
  have "distinct (map fst (fold (\<lambda>x d. AList.update x (f x) d) xs d))" if "distinct (map fst d)" for d
    using that by (induction xs arbitrary: d) (simp_all add: distinct_update)
  then show ?thesis by (simp add: dict_from_def)
qed

lemma map_of_dict_from: "map_of (dict_from f xs) k = (if k \<in> set xs then Some (f k) else None)"
proof -
  have "map_of (fold (\<lambda>x d. AList.update x (f x) d) xs d) k = (if k \<in> set xs then Some (f k) else map_of d k)" for d
    by (induction xs arbitrary: d) (auto simp: update_conv')
  then show ?thesis by (simp add: dict_from_def)
qed

text \<open>The same with a function that may raise.\<close>

fun dict_r :: "('a \<Rightarrow> 'b result) \<Rightarrow> 'a list \<Rightarrow> ('a \<times> 'b) list \<Rightarrow> ('a \<times> 'b) list result" where
  "dict_r f [] d = Inr d"
| "dict_r f (x # xs) d = bind_r (f x) (\<lambda>y. dict_r f xs (AList.update x y d))"

lemma dict_r_Inr:
  assumes "dict_r f xs d = Inr d'"
  shows "distinct (map fst d) \<Longrightarrow> distinct (map fst d')"
    and "map_of d' k = Some y \<Longrightarrow> (k \<in> set xs \<and> f k = Inr y) \<or> (k \<notin> set xs \<and> map_of d k = Some y)"
proof -
  have "distinct (map fst d) \<longrightarrow> distinct (map fst d')"
    using assms by (induction xs arbitrary: d) (auto simp: bind_r_Inr_iff distinct_update)
  then show "distinct (map fst d) \<Longrightarrow> distinct (map fst d')" by blast
  have "(k \<in> set xs \<and> f k = Inr y) \<or> (k \<notin> set xs \<and> map_of d k = Some y)" if "map_of d' k = Some y"
    using assms that
  proof (induction xs arbitrary: d)
    case (Cons x xs)
    then obtain z where z: "f x = Inr z" "dict_r f xs (AList.update x z d) = Inr d'" by (auto simp: bind_r_Inr_iff)
    from Cons.IH [OF z(2) Cons.prems(2)] z(1) show ?case by (auto simp: update_conv' split: if_splits)
  qed simp
  then show "map_of d' k = Some y \<Longrightarrow> (k \<in> set xs \<and> f k = Inr y) \<or> (k \<notin> set xs \<and> map_of d k = Some y)" .
qed

text \<open>Dictionaries of integers.\<close>

definition int_dict :: "(string \<times> int) list \<Rightarrow> pyval" where
  "int_dict d = PDict (map (\<lambda>(k, n). (k, PInt n)) d)"

definition books :: "'e exchange \<Rightarrow> int \<Rightarrow> string list \<Rightarrow> 'e \<Rightarrow> (string \<times> book_snapshot) list" where
  "books ex depth symbols e = dict_from (\<lambda>symbol. ex_snapshot ex depth symbol e) symbols"

definition books_val :: "(string \<times> book_snapshot) list \<Rightarrow> pydict" where
  "books_val bs = map (\<lambda>(symbol, s). (symbol, PDict (snapshot_dict s))) bs"

text \<open>\<open>int(x)\<close> of a float truncates.\<close>

fun float_to_int :: "pyfloat \<Rightarrow> int result" where
  "float_to_int (Fin m e) = Inr (if 0 \<le> e then m * 2 ^ nat e else sgn m * (\<bar>m\<bar> div 2 ^ nat (- e)))"
| "float_to_int NaN = Inl (ValueError ''cannot convert float NaN to integer'')"
| "float_to_int _ = Inl (OtherError ''OverflowError'' ''cannot convert float infinity to integer'')"

section \<open>A concrete engine\<close>

text \<open>An engine that counts its calls: the second order trades 5 at 100. Its books stay empty.\<close>

definition sample_exchange :: "int exchange" where
  "sample_exchange =
     \<lparr>ex_engine = (\<lambda>call n. (n + 1, Inr (PList (if n = 1 then
        [PDict [(''type'', PStr ''TradeExecuted''), (''data'', PDict [(''price'', PInt 100), (''qty'', PInt 5),
          (''maker_order_id'', PInt 1), (''taker_order_id'', PInt 2)])]] else [])))),
      ex_new = 0, ex_snapshot = (\<lambda>depth symbol n. \<lparr>bk_symbol = symbol, bk_sequence_number = n, bk_bids = [], bk_asks = []\<rparr>),
      ex_halted = (\<lambda>symbol n. False), ex_ledger = None\<rparr>"

lemma sample_calls:
  "call_engine (ex_engine sample_exchange) c 0 = (1, Inr [])"
  "call_engine (ex_engine sample_exchange) c 1 = (2, Inr [TradeExecuted (TradeExecutedData 100 5 1 2 ''DEFAULT'')])"
  by (simp_all add: sample_exchange_def call_engine_def) (code_simp)+

lemma sample_fields:
  "ex_new sample_exchange = 0" "ex_ledger sample_exchange = None"
  "books sample_exchange d [''DEFAULT''] n =
     [(''DEFAULT'', \<lparr>bk_symbol = ''DEFAULT'', bk_sequence_number = n, bk_bids = [], bk_asks = []\<rparr>)]"
  by (simp_all add: sample_exchange_def books_def dict_from_def)

end
