(* ===== verification/Session_Participants.thy ===== *)
theory Session_Participants
  imports Order_Books
begin

text \<open>
  The scenarios and the participants of a market session: \<open>sim/session/models.py\<close>, \<open>scenarios.py\<close> and
  \<open>participants.py\<close>. The generator \<open>random.Random\<close> is a parameter: an object with a state, seeded by an
  integer, and the three methods the code calls.
\<close>

section \<open>The random generator\<close>

record 'r random_source =
  rs_seed :: "int \<Rightarrow> 'r"
  rs_randint :: "int \<Rightarrow> int \<Rightarrow> 'r \<Rightarrow> 'r \<times> int result"
  rs_random :: "'r \<Rightarrow> 'r \<times> pyfloat"
  rs_gauss :: "int \<Rightarrow> pyfloat \<Rightarrow> 'r \<Rightarrow> 'r \<times> pyfloat"

text \<open>What the documentation of \<open>randint\<close> promises: an integer between the bounds, when there is one.\<close>

definition randint_ok :: "'r random_source \<Rightarrow> bool" where
  "randint_ok rs \<longleftrightarrow> (\<forall>a b r. a \<le> b \<longrightarrow> (\<exists>n. snd (rs_randint rs a b r) = Inr n \<and> a \<le> n \<and> n \<le> b))"

section \<open>Scenarios\<close>

text \<open>A float literal with one decimal digit.\<close>

abbreviation tenths :: "int \<Rightarrow> pyfloat" where
  "tenths n \<equiv> round_quot n 10 0"

(* sim/session/scenarios.py:6-12 MarketScenario *)
record market_scenario =
  mc_name :: string
  mc_volatility_multiplier :: pyfloat
  mc_spread_multiplier :: pyfloat
  mc_market_order_bias :: pyfloat
  mc_opening_auction_steps :: int

(* sim/session/scenarios.py:15-22 _SCENARIOS *)
definition SCENARIOS :: "(string \<times> market_scenario) list" where
  "SCENARIOS = map (\<lambda>(name, volatility, spread, bias, auction).
       (name, \<lparr>mc_name = name, mc_volatility_multiplier = volatility, mc_spread_multiplier = spread,
               mc_market_order_bias = bias, mc_opening_auction_steps = auction\<rparr>))
     [(''calm_market'', tenths 7, tenths 9, tenths (- 1), 0),
      (''volatile_market'', tenths 18, tenths 14, tenths 2, 0),
      (''trending_up'', tenths 11, Fin 1 0, tenths 1, 0),
      (''trending_down'', tenths 11, Fin 1 0, tenths 1, 0),
      (''liquidity_shock'', tenths 22, Fin 1 1, round_quot 35 100 0, 0),
      (''opening_auction'', tenths 9, Fin 1 0, tenths (- 2), 1)]"

(* sim/session/scenarios.py:25-28 get_market_scenario *)
definition get_market_scenario :: "string \<Rightarrow> market_scenario result" where
  "get_market_scenario name =
     (case map_of SCENARIOS name of
        None \<Rightarrow> Inl (ValueError (''unknown scenario: '' @ name))
      | Some scenario \<Rightarrow> Inr scenario)"

section \<open>Configuration\<close>

(* sim/session/models.py:6-20 MarketSessionConfig *)
record session_config =
  ms_scenario :: string
  ms_steps :: int
  ms_symbols :: "string list"
  ms_seed :: int
  ms_initial_price :: int
  ms_volatility :: pyfloat
  ms_spread_width :: int
  ms_min_order_size :: int
  ms_max_order_size :: int
  ms_probability_market_order :: pyfloat
  ms_probability_cancel_replace :: pyfloat
  ms_participant_count :: int
  ms_depth_levels :: int

section \<open>Participants\<close>

(* sim/session/participants.py:9-12 MarketParticipant *)
record market_participant =
  mp_participant_id :: string
  mp_style :: string

text \<open>\<open>"BUY" if rng.random() < 0.5 else "SELL"\<close>, and the price on that side of the fair price.\<close>

definition random_side :: "'r random_source \<Rightarrow> 'r \<Rightarrow> 'r \<times> side" where
  "random_side rs r = (case rs_random rs r of (r', x) \<Rightarrow> (r', if float_lt x (Fin 1 (- 1)) then BUY else SELL))"

definition away_price :: "side \<Rightarrow> int \<Rightarrow> int \<Rightarrow> int" where
  "away_price side fair spread = max 1 (if side = BUY then fair - spread else fair + spread)"

(* sim/session/participants.py:14-40 generate *)
definition generate ::
  "'r random_source \<Rightarrow> market_participant \<Rightarrow> string \<Rightarrow> int \<Rightarrow> int \<Rightarrow> int \<Rightarrow> int \<Rightarrow> pyfloat \<Rightarrow> 'r
   \<Rightarrow> 'r \<times> command list result" where
  "generate rs p symbol fair_price spread min_qty max_qty market_order_prob r =
     (case rs_randint rs min_qty max_qty r of
        (r1, Inl exc) \<Rightarrow> (r1, Inl exc)
      | (r1, Inr qty) \<Rightarrow>
          if mp_style p = ''liquidity_provider'' then
            (r1, Inr [LimitOrder BUY (max 1 (fair_price - spread)) qty GTC symbol,
                      LimitOrder SELL (max 1 (fair_price + spread)) qty GTC symbol])
          else if mp_style p = ''hidden_liquidity_provider'' then
            (case random_side rs r1 of (r2, side) \<Rightarrow>
               (r2, Inr [HiddenOrder side (away_price side fair_price spread) qty symbol]))
          else if mp_style p = ''iceberg_liquidity_provider'' then
            (let display_qty = max 1 (min qty (max 1 (qty div 2)));
                 total_qty = max qty (display_qty + 1)
             in case random_side rs r1 of (r2, side) \<Rightarrow>
               (r2, Inr [IcebergOrder side (away_price side fair_price spread) total_qty display_qty symbol]))
          else
            (case (if mp_style p = ''crossing_taker'' then (r1, True)
                   else case rs_random rs r1 of (r2, x) \<Rightarrow> (r2, float_lt x market_order_prob)) of
               (r2, True) \<Rightarrow>
                 (case random_side rs r2 of (r3, side) \<Rightarrow> (r3, Inr [MarketOrder side qty symbol]))
             | (r2, False) \<Rightarrow>
                 if mp_style p = ''momentum'' then
                   (r2, Inr [LimitOrder BUY (max 1 (fair_price + spread div 2)) qty IOC symbol])
                 else if mp_style p = ''mean_reversion'' then
                   (r2, Inr [LimitOrder SELL (max 1 (fair_price + spread)) qty IOC symbol])
                 else
                   (case random_side rs r2 of (r3, side) \<Rightarrow>
                      (r3, Inr [LimitOrder side (away_price side fair_price spread) qty GTC symbol]))))"

definition participant_styles :: "string list" where
  "participant_styles = [''liquidity_provider'', ''noise'', ''momentum'', ''mean_reversion'', ''crossing_taker'']"

(* sim/session/runner.py:156-161 _build_participants *)
definition build_participants :: "session_config \<Rightarrow> market_participant list" where
  "build_participants cfg =
     map (\<lambda>idx. \<lparr>mp_participant_id = ''p'' @ int_str (int idx),
                  mp_style = participant_styles ! (idx mod length participant_styles)\<rparr>)
       [0..<nat (ms_participant_count cfg)]"

end
