(* ===== verification/Session_Runner.thy ===== *)
theory Session_Runner
  imports Session_Participants Analytics
begin

text \<open>
  Market sessions: \<open>sim/session/runner.py\<close>. The local variables of \<open>run\<close> are a record; each definition below is
  a stretch of the body of its loops, composed in their order. The engine object (Order\_Books) and the
  random generator (Session\_Participants) are parameters. After an exception only the payloads the
  progress callback already got are left.
\<close>

section \<open>State\<close>

record session_trade =
  sx_step :: int
  sx_symbol :: string
  sx_price :: int
  sx_qty :: int
  sx_maker_order_id :: int
  sx_taker_order_id :: int

text \<open>The local variables, the engine and the generator. \<open>ss_events\<close> are the events the code keeps serialized;
  \<open>ss_step_events\<close> is the list of the current symbol and step.\<close>

record ('e, 'r) session_state =
  ss_engine :: 'e
  ss_rng :: 'r
  ss_last_price :: "(string \<times> int) list"
  ss_steps :: "pydict list"
  ss_trades :: "session_trade list"
  ss_events :: "event list"
  ss_snapshots :: "(int \<times> string \<times> book_snapshot) list"
  ss_spreads :: "(string \<times> int list) list"
  ss_imbalance :: "(string \<times> pyfloat list) list"
  ss_volume :: "(string \<times> int) list"
  ss_rejected :: int
  ss_halt_count :: int
  ss_halted :: "string set"
  ss_total_orders :: int
  ss_cash :: pyfloat
  ss_positions :: "(string \<times> int) list"
  ss_latest_mid :: "(string \<times> pyval) list"
  ss_step_events :: "event list"

text \<open>\<open>d[k]\<close> on a key that is there.\<close>

definition dict_at :: "('k \<times> 'v) list \<Rightarrow> 'k \<Rightarrow> 'v" where
  "dict_at d k = the (map_of d k)"

text \<open>\<open>max(1, int(round(n * x)))\<close> of an integer and a float.\<close>

definition scaled_int :: "int \<Rightarrow> pyfloat \<Rightarrow> int result" where
  "scaled_int n x = bind_r (int_to_float n) (\<lambda>f. bind_r (float_round (float_mul f x)) (\<lambda>k. Inr (max 1 k)))"

section \<open>Prices and halts\<close>

definition banded :: "session_config \<Rightarrow> bool" where
  "banded cfg \<longleftrightarrow> ms_scenario cfg \<in> {''volatile_market'', ''liquidity_shock''}"

definition band_width :: "session_config \<Rightarrow> int result" where
  "band_width cfg = scaled_int (ms_initial_price cfg) (round_quot 5 100 0)"

text \<open>A call whose answer is ignored.\<close>

fun call_each :: "'e engine \<Rightarrow> engine_call list \<Rightarrow> 'e \<Rightarrow> 'e result" where
  "call_each engine [] e = Inr e"
| "call_each engine (call # calls) e = (case engine call e of (e', r) \<Rightarrow> bind_r r (\<lambda>_. call_each engine calls e'))"

(* sim/session/runner.py:44-47 run (price bands) *)
definition set_bands :: "'e exchange \<Rightarrow> session_config \<Rightarrow> 'e \<Rightarrow> 'e result" where
  "set_bands ex cfg e =
     (if banded cfg
      then bind_r (band_width cfg) (\<lambda>w. call_each (ex_engine ex)
             (map (\<lambda>s. Set_price_bands s (ms_initial_price cfg - w) (ms_initial_price cfg + w)) (ms_symbols cfg)) e)
      else Inr e)"

(* sim/session/runner.py:49-51 run (opening auction) *)
definition open_auction :: "'e exchange \<Rightarrow> session_config \<Rightarrow> market_scenario \<Rightarrow> 'e \<Rightarrow> 'e result" where
  "open_auction ex cfg scenario e =
     (if 0 < mc_opening_auction_steps scenario
      then call_each (ex_engine ex) (map (\<lambda>s. Set_trading_phase s OpeningAuction) (ms_symbols cfg)) e
      else Inr e)"

(* sim/session/runner.py:54-58 run (price) *)
definition move_price ::
  "'r random_source \<Rightarrow> session_config \<Rightarrow> market_scenario \<Rightarrow> string \<Rightarrow> ('e, 'r) session_state
   \<Rightarrow> ('e, 'r) session_state result" where
  "move_price rs cfg scenario symbol st =
     (let drift = (if ms_scenario cfg = ''trending_up'' then 1 else if ms_scenario cfg = ''trending_down'' then - 1 else 0);
          sigma = float_mul (float_mul (ms_volatility cfg) (mc_volatility_multiplier scenario)) (Fin 25 2)
      in case rs_gauss rs drift sigma (ss_rng st) of (r', g) \<Rightarrow>
         bind_r (float_round g) (\<lambda>delta. Inr
           (st\<lparr>ss_rng := r',
               ss_last_price := AList.update symbol (max 1 (dict_at (ss_last_price st) symbol + delta)) (ss_last_price st),
               ss_step_events := []\<rparr>)))"

(* sim/session/runner.py:59-64 run (circuit breaker) *)
definition circuit_breaker ::
  "'e exchange \<Rightarrow> session_config \<Rightarrow> string \<Rightarrow> ('e, 'r) session_state \<Rightarrow> ('e, 'r) session_state result" where
  "circuit_breaker ex cfg symbol st =
     (if banded cfg
      then bind_r (band_width cfg) (\<lambda>w.
        let price = dict_at (ss_last_price st) symbol
        in if (price < ms_initial_price cfg - w \<or> ms_initial_price cfg + w < price)
              \<and> \<not> ex_halted ex symbol (ss_engine st)
           then (case call_engine (ex_engine ex) (Halt_symbol symbol ''ScenarioCircuitBreaker'') (ss_engine st) of
                   (e', r) \<Rightarrow> bind_r r (\<lambda>events. Inr
                     (st\<lparr>ss_engine := e', ss_step_events := ss_step_events st @ events\<rparr>)))
           else Inr st)
      else Inr st)"

section \<open>Orders\<close>

text \<open>\<open>getattr(cmd, "side", None)\<close>.\<close>

fun command_side :: "command \<Rightarrow> side option" where
  "command_side (LimitOrder side _ _ _ _) = Some side"
| "command_side (HiddenOrder side _ _ _) = Some side"
| "command_side (IcebergOrder side _ _ _ _) = Some side"
| "command_side (MarketOrder side _ _) = Some side"
| "command_side (StopOrder side _ _ _) = Some side"
| "command_side (StopLimitOrder side _ _ _ _) = Some side"
| "command_side _ = None"

fun side_factor :: "side \<Rightarrow> int" where
  "side_factor BUY = 1"
| "side_factor SELL = - 1"

(* sim/session/runner.py:74-77 run (fills) *)
fun session_fills ::
  "side \<Rightarrow> string \<Rightarrow> event list \<Rightarrow> (string \<times> int) list \<times> pyfloat \<Rightarrow> ((string \<times> int) list \<times> pyfloat) result" where
  "session_fills side symbol [] book = Inr book"
| "session_fills side symbol (e # events) (positions, cash) =
     (if is_trade e
      then bind_r (int_to_float (side_factor side * trade_notional e)) (\<lambda>x.
             session_fills side symbol events
               (AList.update symbol ((case map_of positions symbol of None \<Rightarrow> 0 | Some n \<Rightarrow> n) + side_factor side * trade_qty e)
                  positions, float_sub cash x))
      else session_fills side symbol events (positions, cash))"

(* sim/session/runner.py:68-77 run (commands) *)
fun run_orders ::
  "'e exchange \<Rightarrow> string \<Rightarrow> command list \<Rightarrow> ('e, 'r) session_state \<Rightarrow> ('e, 'r) session_state result" where
  "run_orders ex symbol [] st = Inr st"
| "run_orders ex symbol (cmd # cmds) st =
     (case execute_command (ex_engine ex) (ss_engine st) cmd of (e', r) \<Rightarrow>
        bind_r r (\<lambda>events.
        bind_r (case command_side cmd of
                  None \<Rightarrow> Inr (ss_positions st, ss_cash st)
                | Some side \<Rightarrow> session_fills side symbol events (ss_positions st, ss_cash st)) (\<lambda>(positions, cash).
          run_orders ex symbol cmds
            (st\<lparr>ss_engine := e', ss_step_events := ss_step_events st @ events, ss_positions := positions, ss_cash := cash\<rparr>))))"

text \<open>\<open>min(1.0, max(0.0, p))\<close>.\<close>

definition market_order_prob :: "session_config \<Rightarrow> market_scenario \<Rightarrow> pyfloat" where
  "market_order_prob cfg scenario =
     (let p = float_max float_zero (float_add (ms_probability_market_order cfg) (mc_market_order_bias scenario))
      in if float_lt p (Fin 1 0) then p else Fin 1 0)"

(* sim/session/runner.py:65-77 run (participants) *)
fun participants_turn ::
  "'e exchange \<Rightarrow> 'r random_source \<Rightarrow> session_config \<Rightarrow> market_scenario \<Rightarrow> string \<Rightarrow> int \<Rightarrow> market_participant list
   \<Rightarrow> ('e, 'r) session_state \<Rightarrow> ('e, 'r) session_state result" where
  "participants_turn ex rs cfg scenario symbol spread [] st = Inr st"
| "participants_turn ex rs cfg scenario symbol spread (p # ps) st =
     (case generate rs p symbol (dict_at (ss_last_price st) symbol) spread (ms_min_order_size cfg) (ms_max_order_size cfg)
             (market_order_prob cfg scenario) (ss_rng st) of
        (r', cmds) \<Rightarrow> bind_r cmds (\<lambda>cmds.
          bind_r (run_orders ex symbol cmds (st\<lparr>ss_rng := r', ss_total_orders := ss_total_orders st + int (length cmds)\<rparr>))
            (participants_turn ex rs cfg scenario symbol spread ps)))"

(* sim/session/runner.py:79-80 run (end of the auction) *)
definition end_auction ::
  "'e exchange \<Rightarrow> market_scenario \<Rightarrow> int \<Rightarrow> string \<Rightarrow> ('e, 'r) session_state \<Rightarrow> ('e, 'r) session_state result" where
  "end_auction ex scenario step symbol st =
     (if 0 < mc_opening_auction_steps scenario \<and> step = mc_opening_auction_steps scenario - 1
      then (case call_engine (ex_engine ex) (Uncross symbol) (ss_engine st) of
              (e', r) \<Rightarrow> bind_r r (\<lambda>events. Inr
                (st\<lparr>ss_engine := e', ss_step_events := ss_step_events st @ events\<rparr>)))
      else Inr st)"

section \<open>Observations\<close>

definition best_level :: "book_level list \<Rightarrow> int" where
  "best_level levels = (case levels of [] \<Rightarrow> 0 | l # _ \<Rightarrow> lv_price l)"

definition level_total :: "book_level list \<Rightarrow> int" where
  "level_total levels = sum_list (map lv_qty levels)"

definition append_at :: "'k \<Rightarrow> 'v \<Rightarrow> ('k \<times> 'v list) list \<Rightarrow> ('k \<times> 'v list) list" where
  "append_at k v d = AList.update k (dict_at d k @ [v]) d"

(* sim/session/runner.py:82-92 run (book) *)
definition observe_book ::
  "session_config \<Rightarrow> int \<Rightarrow> string \<Rightarrow> book_snapshot \<Rightarrow> ('e, 'r) session_state \<Rightarrow> ('e, 'r) session_state result" where
  "observe_book cfg step symbol snapshot st =
     (let best_bid = best_level (bk_bids snapshot); best_ask = best_level (bk_asks snapshot);
          bid_qty = level_total (bk_bids snapshot); ask_qty = level_total (bk_asks snapshot)
      in bind_r (if 0 < bid_qty + ask_qty
                 then bind_r (int_truediv (bid_qty - ask_qty) (bid_qty + ask_qty)) (\<lambda>q.
                        Inr (append_at symbol q (ss_imbalance st)))
                 else Inr (ss_imbalance st)) (\<lambda>imbalance. Inr
         (st\<lparr>ss_snapshots := ss_snapshots st @ [(step, symbol, snapshot)],
             ss_spreads := (if 0 < best_bid \<and> 0 < best_ask then append_at symbol (best_ask - best_bid) (ss_spreads st)
                            else ss_spreads st),
             ss_imbalance := imbalance\<rparr>)))"

(* sim/session/runner.py:97-109 run (one event) *)
fun note_event :: "int \<Rightarrow> string \<Rightarrow> event \<Rightarrow> ('e, 'r) session_state \<Rightarrow> ('e, 'r) session_state" where
  "note_event step symbol (TradeExecuted (TradeExecutedData price qty maker taker _)) st =
     st\<lparr>ss_volume := AList.update symbol (dict_at (ss_volume st) symbol + qty) (ss_volume st),
        ss_trades := ss_trades st @ [\<lparr>sx_step = step, sx_symbol = symbol, sx_price = price, sx_qty = qty,
          sx_maker_order_id = maker, sx_taker_order_id = taker\<rparr>]\<rparr>"
| "note_event step symbol (OrderRejected _) st = st\<lparr>ss_rejected := ss_rejected st + 1\<rparr>"
| "note_event step symbol (SymbolHalted (SymbolHaltedData s _)) st =
     st\<lparr>ss_halt_count := ss_halt_count st + 1, ss_halted := insert s (ss_halted st)\<rparr>"
| "note_event step symbol (SymbolResumed (SymbolResumedData s)) st = st\<lparr>ss_halted := ss_halted st - {s}\<rparr>"
| "note_event step symbol _ st = st"

(* sim/session/runner.py:94-109 run (events) *)
definition note_events :: "int \<Rightarrow> string \<Rightarrow> ('e, 'r) session_state \<Rightarrow> ('e, 'r) session_state" where
  "note_events step symbol st =
     fold (note_event step symbol) (ss_step_events st) (st\<lparr>ss_events := ss_events st @ ss_step_events st\<rparr>)"

text \<open>The mid price is the integer 0 when a side of the book is empty.\<close>

(* sim/session/runner.py:110-112 run (summary of a step) *)
definition close_step ::
  "int \<Rightarrow> string \<Rightarrow> book_snapshot \<Rightarrow> ('e, 'r) session_state \<Rightarrow> ('e, 'r) session_state result" where
  "close_step step symbol snapshot st =
     (let best_bid = best_level (bk_bids snapshot); best_ask = best_level (bk_asks snapshot);
          events = ss_step_events st; trades = filter is_trade events
      in bind_r (if best_bid \<noteq> 0 \<and> best_ask \<noteq> 0
                 then bind_r (int_truediv (best_bid + best_ask) 2) (\<lambda>q. Inr (PFloat q)) else Inr (PInt 0)) (\<lambda>mid. Inr
         (st\<lparr>ss_latest_mid := AList.update symbol mid (ss_latest_mid st),
             ss_steps := ss_steps st @ [[(''step'', PInt step), (''symbol'', PStr symbol),
               (''events'', PInt (int (length events))), (''trades'', PInt (int (length trades))),
               (''volume'', PInt (sum_list (map trade_qty trades))), (''mid'', mid)]]\<rparr>)))"

section \<open>The loops\<close>

(* sim/session/runner.py:53-112 run (one symbol) *)
definition symbol_step ::
  "'e exchange \<Rightarrow> 'r random_source \<Rightarrow> session_config \<Rightarrow> market_scenario \<Rightarrow> market_participant list \<Rightarrow> int \<Rightarrow> string
   \<Rightarrow> ('e, 'r) session_state \<Rightarrow> ('e, 'r) session_state result" where
  "symbol_step ex rs cfg scenario participants step symbol st =
     bind_r (move_price rs cfg scenario symbol st) (\<lambda>st.
     bind_r (scaled_int (ms_spread_width cfg) (mc_spread_multiplier scenario)) (\<lambda>spread.
     bind_r (circuit_breaker ex cfg symbol st) (\<lambda>st.
     bind_r (participants_turn ex rs cfg scenario symbol spread participants st) (\<lambda>st.
     bind_r (end_auction ex scenario step symbol st) (\<lambda>st.
       let snapshot = ex_snapshot ex (ms_depth_levels cfg) symbol (ss_engine st) in
     bind_r (observe_book cfg step symbol snapshot st) (\<lambda>st.
       close_step step symbol snapshot (note_events step symbol st)))))))"

(* sim/session/runner.py:53-112 run (symbols) *)
fun symbols_loop ::
  "'e exchange \<Rightarrow> 'r random_source \<Rightarrow> session_config \<Rightarrow> market_scenario \<Rightarrow> market_participant list \<Rightarrow> int \<Rightarrow> string list
   \<Rightarrow> ('e, 'r) session_state \<Rightarrow> ('e, 'r) session_state result" where
  "symbols_loop ex rs cfg scenario participants step [] st = Inr st"
| "symbols_loop ex rs cfg scenario participants step (symbol # symbols) st =
     bind_r (symbol_step ex rs cfg scenario participants step symbol st)
       (symbols_loop ex rs cfg scenario participants step symbols)"

text \<open>The callback, with its interval and whether details are wanted; None is no callback.\<close>

(* sim/session/runner.py:114-116 run (progress guard) *)
definition progress_due :: "(int \<times> bool) option \<Rightarrow> session_config \<Rightarrow> int \<Rightarrow> bool" where
  "progress_due callback cfg step =
     (case callback of
        None \<Rightarrow> False
      | Some (interval, _) \<Rightarrow> step + 1 = 1 \<or> step + 1 = ms_steps cfg \<or> (step + 1) mod (max 1 interval) = 0)"

(* sim/session/runner.py:117-120 run (progress payload) *)
definition session_payload :: "bool \<Rightarrow> session_config \<Rightarrow> int \<Rightarrow> ('e, 'r) session_state \<Rightarrow> pydict" where
  "session_payload verbose cfg step st =
     [(''step'', PInt (step + 1)), (''total_steps'', PInt (ms_steps cfg)),
      (''symbols'', PTuple (map PStr (ms_symbols cfg))), (''total_orders'', PInt (ss_total_orders st)),
      (''total_trades'', PInt (int (length (ss_trades st)))), (''latest_mid'', PDict (ss_latest_mid st)),
      (''rejected_orders'', PInt (ss_rejected st)),
      (''detail'', if verbose then PList (map PDict (filter (\<lambda>item. dget item ''step'' = PInt step) (ss_steps st)))
                   else PNone)]"

(* sim/session/runner.py:114-120 run (progress) *)
definition session_progress ::
  "(int \<times> bool) option \<Rightarrow> session_config \<Rightarrow> int \<Rightarrow> ('e, 'r) session_state \<Rightarrow> pydict list" where
  "session_progress callback cfg step st =
     (if progress_due callback cfg step
      then [session_payload (case callback of None \<Rightarrow> False | Some (_, verbose) \<Rightarrow> verbose) cfg step st] else [])"

(* sim/session/runner.py:52-120 run (steps) *)
fun steps_loop ::
  "'e exchange \<Rightarrow> 'r random_source \<Rightarrow> session_config \<Rightarrow> market_scenario \<Rightarrow> market_participant list
   \<Rightarrow> (int \<times> bool) option \<Rightarrow> int list \<Rightarrow> ('e, 'r) session_state \<Rightarrow> pydict list \<times> ('e, 'r) session_state result" where
  "steps_loop ex rs cfg scenario participants callback [] st = ([], Inr st)"
| "steps_loop ex rs cfg scenario participants callback (step # steps) st =
     (case symbols_loop ex rs cfg scenario participants step (ms_symbols cfg) st of
        Inl exc \<Rightarrow> ([], Inl exc)
      | Inr st' \<Rightarrow>
          (case steps_loop ex rs cfg scenario participants callback steps st' of
             (messages, r) \<Rightarrow> (session_progress callback cfg step st' @ messages, r)))"

end
