(* ===== verification/Session_Service.thy ===== *)
theory Session_Service
  imports Session_Runner Api_Requests Run_Service
begin

text \<open>
  The report and the result of a market session (\<open>sim/session/runner.py\<close>, \<open>models.py\<close>) and the artifacts
  \<open>sim/api/services/session_service.py\<close> makes of them.
\<close>

section \<open>The report\<close>

text \<open>The sum of an empty dictionary of profits is the integer 0, hence the type of \<open>mr_unrealized_pnl\<close>.\<close>

(* sim/session/models.py:23-44 MarketSessionReport *)
record session_report =
  mr_total_steps :: int
  mr_total_orders :: int
  mr_total_trades :: int
  mr_total_volume :: int
  mr_traded_notional :: int
  mr_final_mid_price :: "(string \<times> pyfloat) list"
  mr_price_change_pct :: "(string \<times> pyfloat) list"
  mr_average_spread :: "(string \<times> pyfloat) list"
  mr_max_spread :: "(string \<times> int) list"
  mr_average_book_imbalance :: "(string \<times> pyfloat) list"
  mr_per_symbol_volume :: "(string \<times> int) list"
  mr_rejected_orders :: int
  mr_per_participant_pnl :: "(string \<times> int) list"
  mr_final_equity :: pyfloat
  mr_per_symbol_pnl :: "(string \<times> pyfloat) list"
  mr_realized_pnl :: pyfloat
  mr_unrealized_pnl :: pyval
  mr_total_fees :: int
  mr_halt_count :: int
  mr_halted_symbols :: "string list"

text \<open>A mid price as a factor: the integer 0 converts to 0.0.\<close>

fun mid_number :: "pyval \<Rightarrow> pyfloat" where
  "mid_number (PFloat f) = f"
| "mid_number _ = float_zero"

(* sim/session/runner.py:123-123 run (profit of a symbol) *)
definition symbol_pnl :: "('e, 'r) session_state \<Rightarrow> string \<Rightarrow> pyfloat result" where
  "symbol_pnl st s =
     bind_r (int_to_float (case map_of (ss_positions st) s of None \<Rightarrow> 0 | Some n \<Rightarrow> n)) (\<lambda>q. Inr
       (float_mul q (case map_of (ss_latest_mid st) s of None \<Rightarrow> float_zero | Some m \<Rightarrow> mid_number m)))"

definition mean_int :: "int list \<Rightarrow> pyfloat result" where
  "mean_int xs = (if xs = [] then Inr float_zero else int_truediv (sum_list xs) (int (length xs)))"

definition mean_float :: "pyfloat list \<Rightarrow> pyfloat" where
  "mean_float xs = (if xs = [] then float_zero else float_div_nat (py_sum xs) (length xs))"

(* sim/session/runner.py:122-148 run (report) *)
definition session_report_of ::
  "session_config \<Rightarrow> market_participant list \<Rightarrow> int list option \<Rightarrow> ('e, 'r) session_state \<Rightarrow> session_report result" where
  "session_report_of cfg participants ledger st =
     (let symbols = ms_symbols cfg;
          total_fees = (case ledger of None \<Rightarrow> 0 | Some deltas \<Rightarrow> sum_list deltas);
          initial = ms_initial_price cfg
      in bind_r (dict_r (symbol_pnl st) symbols []) (\<lambda>pnl.
         bind_r (int_to_float total_fees) (\<lambda>fees.
         let unrealized = py_sum (map snd pnl) in
         bind_r (dict_r (\<lambda>s. int_to_float (dict_at (ss_last_price st) s)) symbols []) (\<lambda>final_mid.
         bind_r (dict_r (\<lambda>s. bind_r (int_truediv (dict_at (ss_last_price st) s - initial) initial) (\<lambda>q.
                   Inr (float_mul q (Fin 25 2)))) symbols []) (\<lambda>change.
         bind_r (dict_r (\<lambda>s. mean_int (dict_at (ss_spreads st) s)) symbols []) (\<lambda>spread. Inr
           \<lparr>mr_total_steps = ms_steps cfg, mr_total_orders = ss_total_orders st,
            mr_total_trades = int (length (ss_trades st)), mr_total_volume = sum_list (map sx_qty (ss_trades st)),
            mr_traded_notional = sum_list (map (\<lambda>t. sx_qty t * sx_price t) (ss_trades st)),
            mr_final_mid_price = final_mid, mr_price_change_pct = change, mr_average_spread = spread,
            mr_max_spread = dict_from (\<lambda>s. case dict_at (ss_spreads st) s of [] \<Rightarrow> 0 | x # xs \<Rightarrow> fold max xs x) symbols,
            mr_average_book_imbalance = dict_from (\<lambda>s. mean_float (dict_at (ss_imbalance st) s)) symbols,
            mr_per_symbol_volume = ss_volume st, mr_rejected_orders = ss_rejected st,
            mr_per_participant_pnl = dict_from (\<lambda>i. 0) (map mp_participant_id participants),
            mr_final_equity = float_sub (float_add (ss_cash st) unrealized) fees, mr_per_symbol_pnl = pnl,
            mr_realized_pnl = float_sub (ss_cash st) fees,
            mr_unrealized_pnl = (if pnl = [] then PInt 0 else PFloat unrealized), mr_total_fees = total_fees,
            mr_halt_count = ss_halt_count st, mr_halted_symbols = sorted_list_of_set (ss_halted st)\<rparr>))))))"

section \<open>The run\<close>

text \<open>\<open>mx_events\<close> are the events the code keeps serialized.\<close>

(* sim/session/models.py:47-55 MarketSessionResult *)
record session_result =
  mx_config :: session_config
  mx_step_summaries :: "pydict list"
  mx_trades :: "session_trade list"
  mx_events :: "event list"
  mx_snapshots :: "(int \<times> string \<times> book_snapshot) list"
  mx_report :: session_report
  mx_per_symbol_analytics :: "(string \<times> int \<times> int) list"

(* sim/session/runner.py:24-43 run (initial values) *)
definition session_start :: "'r random_source \<Rightarrow> session_config \<Rightarrow> 'e \<Rightarrow> ('e, 'r) session_state" where
  "session_start rs cfg e =
     (let symbols = ms_symbols cfg in
      \<lparr>ss_engine = e, ss_rng = rs_seed rs (ms_seed cfg), ss_last_price = dict_from (\<lambda>s. ms_initial_price cfg) symbols,
       ss_steps = [], ss_trades = [], ss_events = [], ss_snapshots = [], ss_spreads = dict_from (\<lambda>s. []) symbols,
       ss_imbalance = dict_from (\<lambda>s. []) symbols, ss_volume = dict_from (\<lambda>s. 0) symbols, ss_rejected = 0,
       ss_halt_count = 0, ss_halted = {}, ss_total_orders = 0, ss_cash = float_zero,
       ss_positions = dict_from (\<lambda>s. 0) symbols, ss_latest_mid = dict_from (\<lambda>s. PFloat float_zero) symbols,
       ss_step_events = []\<rparr>)"

(* sim/session/runner.py:122-150 run (result) *)
definition session_finish ::
  "'e exchange \<Rightarrow> session_config \<Rightarrow> ('e, 'r) session_state \<Rightarrow> session_result result" where
  "session_finish ex cfg st =
     bind_r (session_report_of cfg (build_participants cfg) (map_option (\<lambda>ledger. ledger (ss_engine st)) (ex_ledger ex)) st)
       (\<lambda>report. Inr
         \<lparr>mx_config = cfg, mx_step_summaries = ss_steps st, mx_trades = ss_trades st, mx_events = ss_events st,
          mx_snapshots = ss_snapshots st, mx_report = report,
          mx_per_symbol_analytics =
            dict_from (\<lambda>s. (dict_at (ss_volume st) s, dict_at (ss_last_price st) s)) (ms_symbols cfg)\<rparr>)"

(* sim/session/runner.py:22-150 run *)
definition run_market_session ::
  "'e exchange \<Rightarrow> 'r random_source \<Rightarrow> session_config \<Rightarrow> (int \<times> bool) option \<Rightarrow> pydict list \<times> session_result result" where
  "run_market_session ex rs cfg callback =
     (case bind_r (get_market_scenario (ms_scenario cfg)) (\<lambda>scenario.
           bind_r (set_bands ex cfg (ex_new ex)) (\<lambda>e.
           bind_r (open_auction ex cfg scenario e) (\<lambda>e. Inr (scenario, e)))) of
        Inl exc \<Rightarrow> ([], Inl exc)
      | Inr (scenario, e) \<Rightarrow>
          (case steps_loop ex rs cfg scenario (build_participants cfg) callback (map int [0..<nat (ms_steps cfg)])
                  (session_start rs cfg e) of
             (messages, r) \<Rightarrow> (messages, bind_r r (session_finish ex cfg))))"

section \<open>Dictionaries\<close>

definition float_dict :: "(string \<times> pyfloat) list \<Rightarrow> pyval" where
  "float_dict d = PDict (map (\<lambda>(k, x). (k, PFloat x)) d)"

definition session_report_dict :: "session_report \<Rightarrow> pydict" where
  "session_report_dict r =
     [(''total_steps'', PInt (mr_total_steps r)), (''total_orders'', PInt (mr_total_orders r)),
      (''total_trades'', PInt (mr_total_trades r)), (''total_volume'', PInt (mr_total_volume r)),
      (''traded_notional'', PInt (mr_traded_notional r)), (''final_mid_price'', float_dict (mr_final_mid_price r)),
      (''price_change_pct'', float_dict (mr_price_change_pct r)), (''average_spread'', float_dict (mr_average_spread r)),
      (''max_spread'', int_dict (mr_max_spread r)), (''average_book_imbalance'', float_dict (mr_average_book_imbalance r)),
      (''per_symbol_volume'', int_dict (mr_per_symbol_volume r)), (''rejected_orders'', PInt (mr_rejected_orders r)),
      (''per_participant_pnl'', int_dict (mr_per_participant_pnl r)), (''final_equity'', PFloat (mr_final_equity r)),
      (''per_symbol_pnl'', float_dict (mr_per_symbol_pnl r)), (''realized_pnl'', PFloat (mr_realized_pnl r)),
      (''unrealized_pnl'', mr_unrealized_pnl r), (''total_fees'', PInt (mr_total_fees r)),
      (''halt_count'', PInt (mr_halt_count r)), (''halted_symbols'', PTuple (map PStr (mr_halted_symbols r)))]"

definition session_config_dict :: "session_config \<Rightarrow> pydict" where
  "session_config_dict c =
     [(''scenario'', PStr (ms_scenario c)), (''steps'', PInt (ms_steps c)), (''symbols'', PTuple (map PStr (ms_symbols c))),
      (''seed'', PInt (ms_seed c)), (''initial_price'', PInt (ms_initial_price c)), (''volatility'', PFloat (ms_volatility c)),
      (''spread_width'', PInt (ms_spread_width c)), (''min_order_size'', PInt (ms_min_order_size c)),
      (''max_order_size'', PInt (ms_max_order_size c)),
      (''probability_market_order'', PFloat (ms_probability_market_order c)),
      (''probability_cancel_replace'', PFloat (ms_probability_cancel_replace c)),
      (''participant_count'', PInt (ms_participant_count c)), (''depth_levels'', PInt (ms_depth_levels c))]"

definition session_trade_dict :: "session_trade \<Rightarrow> pydict" where
  "session_trade_dict t =
     [(''step'', PInt (sx_step t)), (''symbol'', PStr (sx_symbol t)), (''price'', PInt (sx_price t)), (''qty'', PInt (sx_qty t)),
      (''maker_order_id'', PInt (sx_maker_order_id t)), (''taker_order_id'', PInt (sx_taker_order_id t))]"

definition session_snapshot_dict :: "int \<times> string \<times> book_snapshot \<Rightarrow> pydict" where
  "session_snapshot_dict x = (case x of (step, symbol, snapshot) \<Rightarrow>
     [(''step'', PInt step), (''symbol'', PStr symbol), (''snapshot'', PDict (snapshot_dict snapshot))])"

(* sim/session/models.py:57-66 to_dict *)
definition session_to_dict :: "session_result \<Rightarrow> pydict" where
  "session_to_dict x =
     [(''config'', PDict (session_config_dict (mx_config x))), (''steps'', PList (map PDict (mx_step_summaries x))),
      (''trades'', PList (map (\<lambda>t. PDict (session_trade_dict t)) (mx_trades x))),
      (''events'', PList (serialize_events (mx_events x))),
      (''snapshots'', PList (map (\<lambda>s. PDict (session_snapshot_dict s)) (mx_snapshots x))),
      (''report'', PDict (session_report_dict (mx_report x))),
      (''per_symbol_analytics'', PDict (map (\<lambda>(s, volume, price). (s, PDict [(''volume'', PInt volume), (''final_price'', PInt price)]))
         (mx_per_symbol_analytics x)))]"

section \<open>The service\<close>

(* sim/api/services/session_service.py:28-42 run_session (configuration) *)
definition market_config :: "session_request \<Rightarrow> session_config result" where
  "market_config request =
     bind_r (scaled_int (se_initial_price request) (round_quot 1 1000 0)) (\<lambda>spread_width. Inr
       \<lparr>ms_scenario = se_scenario request, ms_steps = se_steps request, ms_symbols = se_symbols request,
        ms_seed = se_seed request, ms_initial_price = se_initial_price request, ms_volatility = se_volatility request,
        ms_spread_width = spread_width, ms_min_order_size = 1, ms_max_order_size = 10,
        ms_probability_market_order = round_quot 35 100 0, ms_probability_cancel_replace = tenths 1,
        ms_participant_count = se_participants request, ms_depth_levels = se_depth_levels request\<rparr>)"

text \<open>The artifacts a caller keeps; nobody reads the key \<open>config\<close> of the result.\<close>

(* sim/api/services/session_service.py:50-66 run_session (artifacts) *)
definition session_artifacts :: "session_request \<Rightarrow> session_result \<Rightarrow> artifacts result" where
  "session_artifacts request x =
     (let report = mx_report x
      in bind_r (int_to_float (se_initial_cash request)) (\<lambda>cash0. Inr
         \<lparr>af_report = session_report_dict report, af_events = map dict_or_empty (serialize_events (mx_events x)),
          af_snapshots = map session_snapshot_dict (mx_snapshots x),
          af_accounts =
            [[(''initial_cash'', PInt (se_initial_cash request)), (''cash'', PFloat (float_add cash0 (mr_realized_pnl report))),
              (''positions'', PDict []), (''mark_to_market'', float_dict (mr_per_symbol_pnl report)),
              (''equity'', PFloat (float_add cash0 (mr_final_equity report)))]]\<rparr>))"

(* sim/api/services/session_service.py:12-66 run_session *)
definition run_session ::
  "'e exchange \<Rightarrow> 'r random_source \<Rightarrow> bool \<Rightarrow> session_request \<Rightarrow> pydict list \<times> artifacts result" where
  "run_session ex rs with_callback request =
     (case get_market_scenario (se_scenario request) of
        Inl exc \<Rightarrow> ([], Inl (case exc of ValueError m \<Rightarrow> InvalidRequestError m | _ \<Rightarrow> exc))
      | Inr _ \<Rightarrow>
          (case market_config request of
             Inl exc \<Rightarrow> ([], Inl exc)
           | Inr cfg \<Rightarrow>
               (case run_market_session ex rs cfg
                   (if with_callback then Some (se_progress_interval request, se_stream_events request \<or> se_stream_snapshots request)
                    else None) of
                  (messages, r) \<Rightarrow> (messages, bind_r r (session_artifacts request)))))"

end
