(* ===== verification/Session_Calls.thy ===== *)
theory Session_Calls
  imports Session_Service
begin

text \<open>
  What a market session asks of the engine: the only calls it makes, shown by running it on a guarded
  engine that refuses all others.
\<close>

section \<open>The calls a session may make\<close>

fun call_allowed :: "session_config \<Rightarrow> engine_call \<Rightarrow> bool" where
  "call_allowed cfg (Place_limit_order side price qty tif s) =
     (s \<in> set (ms_symbols cfg) \<and> 1 \<le> price \<and> ms_min_order_size cfg \<le> qty \<and> qty \<le> ms_max_order_size cfg \<and> tif \<in> {GTC, IOC})"
| "call_allowed cfg (Place_market_order side qty s) =
     (s \<in> set (ms_symbols cfg) \<and> ms_min_order_size cfg \<le> qty \<and> qty \<le> ms_max_order_size cfg)"
| "call_allowed cfg (Halt_symbol s reason) = (banded cfg \<and> s \<in> set (ms_symbols cfg))"
| "call_allowed cfg (Set_price_bands s lower upper) =
     (banded cfg \<and> s \<in> set (ms_symbols cfg) \<and> lower < ms_initial_price cfg \<and> ms_initial_price cfg < upper)"
| "call_allowed cfg (Set_trading_phase s phase) =
     (ms_scenario cfg = ''opening_auction'' \<and> s \<in> set (ms_symbols cfg) \<and> phase = OpeningAuction)"
| "call_allowed cfg (Uncross s) = (ms_scenario cfg = ''opening_auction'' \<and> s \<in> set (ms_symbols cfg))"
| "call_allowed cfg _ = False"

text \<open>An engine that refuses every other call, and raises.\<close>

definition guard_engine :: "(engine_call \<Rightarrow> bool) \<Rightarrow> 'e engine \<Rightarrow> 'e engine" where
  "guard_engine allowed engine call e =
     (if allowed call then engine call e else (e, Inl (RuntimeError ''call refused'')))"

definition guarded :: "session_config \<Rightarrow> 'e exchange \<Rightarrow> 'e exchange" where
  "guarded cfg ex = ex\<lparr>ex_engine := guard_engine (call_allowed cfg) (ex_engine ex)\<rparr>"

lemma guarded_fields [simp]:
  "ex_new (guarded cfg ex) = ex_new ex" "ex_snapshot (guarded cfg ex) = ex_snapshot ex"
  "ex_halted (guarded cfg ex) = ex_halted ex" "ex_ledger (guarded cfg ex) = ex_ledger ex"
  by (simp_all add: guarded_def)

lemma guarded_call:
  assumes "call_allowed cfg call"
  shows "ex_engine (guarded cfg ex) call e = ex_engine ex call e"
    "call_engine (ex_engine (guarded cfg ex)) call e = call_engine (ex_engine ex) call e"
  using assms by (simp_all add: guarded_def guard_engine_def call_engine_def)

lemma guarded_each: "list_all (call_allowed cfg) calls \<Longrightarrow> call_each (ex_engine (guarded cfg ex)) calls e = call_each (ex_engine ex) calls e"
  by (induction calls arbitrary: e) (simp_all add: guarded_call)

section \<open>Orders\<close>

text \<open>An order that a participant of a session places: a limit or market order of a size in the bounds.\<close>

fun order_allowed :: "int \<Rightarrow> int \<Rightarrow> string \<Rightarrow> command \<Rightarrow> bool" where
  "order_allowed lo hi s (LimitOrder side price qty tif symbol) \<longleftrightarrow>
     symbol = s \<and> 1 \<le> price \<and> lo \<le> qty \<and> qty \<le> hi \<and> tif \<in> {GTC, IOC}"
| "order_allowed lo hi s (MarketOrder side qty symbol) \<longleftrightarrow> symbol = s \<and> lo \<le> qty \<and> qty \<le> hi"
| "order_allowed lo hi s _ \<longleftrightarrow> False"

lemma generate_allowed:
  assumes "randint_ok rs" "lo \<le> hi" "mp_style p \<in> set participant_styles"
  shows "\<exists>cmds. snd (generate rs p symbol fair spread lo hi prob r) = Inr cmds \<and>
    (\<forall>c \<in> set cmds. order_allowed lo hi symbol c) \<and> length cmds \<in> {1, 2}"
proof -
  from assms(1,2) obtain r1 qty where qty: "rs_randint rs lo hi r = (r1, Inr qty)" "lo \<le> qty" "qty \<le> hi"
    unfolding randint_ok_def by (metis prod.collapse)
  obtain r2 x where x: "rs_random rs r1 = (r2, x)" by fastforce
  obtain r3 y where y: "rs_random rs r2 = (r3, y)" by fastforce
  from assms(3) have "mp_style p = ''liquidity_provider'' \<or> mp_style p = ''noise'' \<or> mp_style p = ''momentum'' \<or>
      mp_style p = ''mean_reversion'' \<or> mp_style p = ''crossing_taker''"
    by (simp add: participant_styles_def)
  then show ?thesis
    using qty(2,3)
    by (elim disjE) (simp_all add: generate_def qty(1) x y random_side_def away_price_def split: bool.split)
qed

lemma guarded_command:
  assumes "order_allowed (ms_min_order_size cfg) (ms_max_order_size cfg) symbol c" "symbol \<in> set (ms_symbols cfg)"
  shows "execute_command (ex_engine (guarded cfg ex)) e c = execute_command (ex_engine ex) e c"
  using assms by (cases c) (simp_all add: execute_command_def guarded_call)

lemma guarded_orders:
  assumes "\<forall>c \<in> set cmds. order_allowed (ms_min_order_size cfg) (ms_max_order_size cfg) symbol c" "symbol \<in> set (ms_symbols cfg)"
  shows "run_orders (guarded cfg ex) symbol cmds st = run_orders ex symbol cmds st"
  using assms(1) by (induction cmds arbitrary: st) (simp_all add: guarded_command [OF _ assms(2)])

lemma built_styles: "p \<in> set (build_participants cfg) \<Longrightarrow> mp_style p \<in> set participant_styles"
proof -
  assume "p \<in> set (build_participants cfg)"
  then obtain i where "mp_style p = participant_styles ! (i mod length participant_styles)"
    by (auto simp: build_participants_def)
  moreover have "i mod length participant_styles < length participant_styles"
    by (rule mod_less_divisor) (simp add: participant_styles_def)
  ultimately show ?thesis by simp
qed

lemma guarded_turn:
  assumes "randint_ok rs" "ms_min_order_size cfg \<le> ms_max_order_size cfg" "symbol \<in> set (ms_symbols cfg)"
    and "\<forall>p \<in> set ps. mp_style p \<in> set participant_styles"
  shows "participants_turn (guarded cfg ex) rs cfg scenario symbol spread ps st =
    participants_turn ex rs cfg scenario symbol spread ps st"
  using assms(4)
proof (induction ps arbitrary: st)
  case (Cons p ps)
  then have "participants_turn (guarded cfg ex) rs cfg scenario symbol spread ps =
      participants_turn ex rs cfg scenario symbol spread ps" by auto
  moreover obtain r' cmds where cmds: "generate rs p symbol (dict_at (ss_last_price st) symbol) spread (ms_min_order_size cfg)
      (ms_max_order_size cfg) (market_order_prob cfg scenario) (ss_rng st) = (r', Inr cmds)"
    "\<forall>c \<in> set cmds. order_allowed (ms_min_order_size cfg) (ms_max_order_size cfg) symbol c"
    using generate_allowed [OF assms(1,2), of p symbol "dict_at (ss_last_price st) symbol" spread
        "market_order_prob cfg scenario" "ss_rng st"] Cons.prems
    by (metis list.set_intros(1) prod.collapse)
  ultimately show ?case by (simp add: cmds(1) guarded_orders [OF cmds(2) assms(3)])
qed simp

section \<open>Steps\<close>

lemma band_width_pos: "band_width cfg = Inr w \<Longrightarrow> 1 \<le> w"
  by (auto simp: band_width_def scaled_int_def bind_r_Inr_iff)

lemma guarded_breaker:
  assumes "symbol \<in> set (ms_symbols cfg)"
  shows "circuit_breaker (guarded cfg ex) cfg symbol st = circuit_breaker ex cfg symbol st"
  using assms by (cases "band_width cfg") (simp_all add: circuit_breaker_def guarded_call Let_def)

lemma auction_scenario:
  assumes "get_market_scenario name = Inr scenario" "0 < mc_opening_auction_steps scenario"
  shows "name = ''opening_auction''"
  using assms by (auto simp: get_market_scenario_def SCENARIOS_def split: if_splits)

lemma guarded_end_auction:
  assumes "symbol \<in> set (ms_symbols cfg)" "get_market_scenario (ms_scenario cfg) = Inr scenario"
  shows "end_auction (guarded cfg ex) scenario step symbol st = end_auction ex scenario step symbol st"
  using assms auction_scenario [OF assms(2)] by (simp add: end_auction_def guarded_call)

lemma guarded_symbol_step:
  assumes "randint_ok rs" "ms_min_order_size cfg \<le> ms_max_order_size cfg"
    and "get_market_scenario (ms_scenario cfg) = Inr scenario" "symbol \<in> set (ms_symbols cfg)"
  shows "symbol_step (guarded cfg ex) rs cfg scenario (build_participants cfg) step symbol st =
    symbol_step ex rs cfg scenario (build_participants cfg) step symbol st"
proof -
  have "participants_turn (guarded cfg ex) rs cfg scenario symbol spread (build_participants cfg) st =
      participants_turn ex rs cfg scenario symbol spread (build_participants cfg) st" for spread st
    using guarded_turn [OF assms(1,2,4)] built_styles by blast
  then show ?thesis
    by (simp add: symbol_step_def guarded_breaker [OF assms(4)] guarded_end_auction [OF assms(4,3)])
qed

lemma guarded_symbols:
  assumes "randint_ok rs" "ms_min_order_size cfg \<le> ms_max_order_size cfg"
    and "get_market_scenario (ms_scenario cfg) = Inr scenario" "set symbols \<subseteq> set (ms_symbols cfg)"
  shows "symbols_loop (guarded cfg ex) rs cfg scenario (build_participants cfg) step symbols st =
    symbols_loop ex rs cfg scenario (build_participants cfg) step symbols st"
  using assms(4)
proof (induction symbols arbitrary: st)
  case (Cons s symbols)
  then have "symbols_loop (guarded cfg ex) rs cfg scenario (build_participants cfg) step symbols =
      symbols_loop ex rs cfg scenario (build_participants cfg) step symbols" by auto
  with Cons.prems show ?case by (simp add: guarded_symbol_step [OF assms(1-3)])
qed simp

lemma guarded_steps:
  assumes "randint_ok rs" "ms_min_order_size cfg \<le> ms_max_order_size cfg"
    and "get_market_scenario (ms_scenario cfg) = Inr scenario"
  shows "steps_loop (guarded cfg ex) rs cfg scenario (build_participants cfg) callback steps st =
    steps_loop ex rs cfg scenario (build_participants cfg) callback steps st"
  by (induction steps arbitrary: st) (simp_all add: guarded_symbols [OF assms] split: sum.split)

lemma guarded_start:
  assumes "get_market_scenario (ms_scenario cfg) = Inr scenario"
  shows "set_bands (guarded cfg ex) cfg e = set_bands ex cfg e"
    "open_auction (guarded cfg ex) cfg scenario e = open_auction ex cfg scenario e"
proof -
  show "set_bands (guarded cfg ex) cfg e = set_bands ex cfg e"
    using band_width_pos [of cfg]
    by (cases "band_width cfg") (auto simp: set_bands_def guarded_each list_all_iff)
  show "open_auction (guarded cfg ex) cfg scenario e = open_auction ex cfg scenario e"
    using auction_scenario [OF assms] by (simp add: open_auction_def guarded_each list_all_iff)
qed

lemma guarded_finish: "session_finish (guarded cfg ex) cfg = session_finish ex cfg"
  by (rule ext) (simp add: session_finish_def)


end
