(* ===== verification/Request_Parsing.thy ===== *)
theory Request_Parsing
  imports Api_Requests Sqlite_Store
begin

text \<open>
  Building a request model from a dictionary, \<open>SessionRunRequest(**config)\<close> and
  \<open>BacktestRunRequest(**config)\<close> of \<open>sim/api/models.py\<close>: the strict types of the fields, their defaults
  and bounds, and the refusal of unknown keys. The lemmas show that the configuration stored for an
  accepted request builds the same request again.
\<close>

section \<open>Fields\<close>

fun bool_value :: "pyval \<Rightarrow> bool option" where
  "bool_value (PBool b) = Some b"
| "bool_value _ = None"

text \<open>A strict float field takes an integer too, as the float it converts to.\<close>

fun float_value :: "pyval \<Rightarrow> pyfloat option" where
  "float_value (PFloat f) = Some f"
| "float_value (PInt i) = (case int_to_float i of Inl _ \<Rightarrow> None | Inr f \<Rightarrow> Some f)"
| "float_value _ = None"

text \<open>A list of strict strings; a tuple is accepted as a list.\<close>

fun strings_value :: "pyval \<Rightarrow> string list option" where
  "strings_value (PList xs) = (if list_all (\<lambda>x. string_value x \<noteq> None) xs then Some (map (\<lambda>x. the (string_value x)) xs) else None)"
| "strings_value (PTuple xs) = (if list_all (\<lambda>x. string_value x \<noteq> None) xs then Some (map (\<lambda>x. the (string_value x)) xs) else None)"
| "strings_value _ = None"

fun mode_value :: "pyval \<Rightarrow> execution_mode option option" where
  "mode_value PNone = Some None"
| "mode_value (PStr s) = (if s = ''sync'' then Some (Some Sync) else if s = ''queued'' then Some (Some Queued) else None)"
| "mode_value _ = None"

text \<open>The value of a field: its default when the key is missing, None when the value is refused.\<close>

definition field_value :: "(pyval \<Rightarrow> 'a option) \<Rightarrow> 'a option \<Rightarrow> pydict \<Rightarrow> string \<Rightarrow> 'a option" where
  "field_value read dflt config k = (if has_key k config then read (dget config k) else dflt)"

definition field_fine :: "(pyval \<Rightarrow> 'a option) \<Rightarrow> 'a option \<Rightarrow> ('a \<Rightarrow> bool) \<Rightarrow> pydict \<Rightarrow> string \<Rightarrow> string \<times> bool" where
  "field_fine read dflt bound config k =
     (k, case field_value read dflt config k of None \<Rightarrow> False | Some v \<Rightarrow> bound v)"

definition unknown_keys :: "string list \<Rightarrow> pydict \<Rightarrow> string list" where
  "unknown_keys known config = filter (\<lambda>k. k \<notin> set known) (map fst config)"

section \<open>Backtests\<close>

definition backtest_keys :: "string list" where
  "backtest_keys = [''mode'', ''priority'', ''strategy'', ''symbols'', ''initial_cash'', ''depth_levels'',
     ''progress_interval'', ''stream_events'', ''stream_snapshots'']"

definition backtest_fields :: "pydict \<Rightarrow> (string \<times> bool) list" where
  "backtest_fields c =
     [field_fine mode_value (Some None) (\<lambda>_. True) c ''mode'', field_fine int_value (Some 0) (\<lambda>_. True) c ''priority'',
      field_fine string_value None (\<lambda>s. validate_strategy s \<noteq> None) c ''strategy'',
      field_fine strings_value (Some [''DEFAULT'']) (\<lambda>v. validate_symbols v \<noteq> None) c ''symbols'',
      field_fine int_value (Some 1000000) (\<lambda>n. 0 \<le> n) c ''initial_cash'',
      field_fine int_value (Some 5) (\<lambda>n. 0 \<le> n) c ''depth_levels'',
      field_fine int_value (Some 10) (\<lambda>n. 0 < n) c ''progress_interval'',
      field_fine bool_value (Some False) (\<lambda>_. True) c ''stream_events'',
      field_fine bool_value (Some False) (\<lambda>_. True) c ''stream_snapshots'']"

(* sim/api/models.py:50-75 BacktestRunRequest (from a dictionary) *)
definition parse_backtest :: "error_text \<Rightarrow> pydict \<Rightarrow> backtest_request result" where
  "parse_backtest et c =
     (let bad = refused (backtest_fields c) @ unknown_keys backtest_keys c
      in if bad \<noteq> [] then Inl (ValueError (et ''BacktestRunRequest'' bad))
         else make_backtest et
           \<lparr>bq_mode = the (field_value mode_value (Some None) c ''mode''),
            bq_priority = the (field_value int_value (Some 0) c ''priority''),
            bq_strategy = the (field_value string_value None c ''strategy''),
            bq_symbols = the (field_value strings_value (Some [''DEFAULT'']) c ''symbols''),
            bq_initial_cash = the (field_value int_value (Some 1000000) c ''initial_cash''),
            bq_depth_levels = the (field_value int_value (Some 5) c ''depth_levels''),
            bq_progress_interval = the (field_value int_value (Some 10) c ''progress_interval''),
            bq_stream_events = the (field_value bool_value (Some False) c ''stream_events''),
            bq_stream_snapshots = the (field_value bool_value (Some False) c ''stream_snapshots'')\<rparr>)"

section \<open>Sessions\<close>

definition session_keys :: "string list" where
  "session_keys = [''mode'', ''priority'', ''scenario'', ''steps'', ''symbols'', ''seed'', ''initial_price'',
     ''volatility'', ''participants'', ''depth_levels'', ''initial_cash'', ''progress_interval'', ''stream_events'',
     ''stream_snapshots'']"

abbreviation default_volatility :: pyfloat where
  "default_volatility \<equiv> round_quot 2 100 0"

definition session_fields :: "pydict \<Rightarrow> (string \<times> bool) list" where
  "session_fields c =
     [field_fine mode_value (Some None) (\<lambda>_. True) c ''mode'', field_fine int_value (Some 0) (\<lambda>_. True) c ''priority'',
      field_fine string_value (Some ''calm_market'') (\<lambda>_. True) c ''scenario'',
      field_fine int_value (Some 25) (\<lambda>n. 0 < n) c ''steps'',
      field_fine strings_value (Some [''DEFAULT'']) (\<lambda>v. validate_symbols v \<noteq> None) c ''symbols'',
      field_fine int_value (Some 42) (\<lambda>_. True) c ''seed'', field_fine int_value (Some 100) (\<lambda>n. 0 < n) c ''initial_price'',
      field_fine float_value (Some default_volatility) (\<lambda>v. v \<noteq> NaN \<and> \<not> float_lt v float_zero) c ''volatility'',
      field_fine int_value (Some 20) (\<lambda>n. 0 < n) c ''participants'',
      field_fine int_value (Some 5) (\<lambda>n. 0 \<le> n) c ''depth_levels'',
      field_fine int_value (Some 1000000) (\<lambda>n. 0 \<le> n) c ''initial_cash'',
      field_fine int_value (Some 10) (\<lambda>n. 0 < n) c ''progress_interval'',
      field_fine bool_value (Some False) (\<lambda>_. True) c ''stream_events'',
      field_fine bool_value (Some False) (\<lambda>_. True) c ''stream_snapshots'']"

(* sim/api/models.py:25-47 SessionRunRequest (from a dictionary) *)
definition parse_session :: "error_text \<Rightarrow> pydict \<Rightarrow> session_request result" where
  "parse_session et c =
     (let bad = refused (session_fields c) @ unknown_keys session_keys c
      in if bad \<noteq> [] then Inl (ValueError (et ''SessionRunRequest'' bad))
         else make_session et
           \<lparr>se_mode = the (field_value mode_value (Some None) c ''mode''),
            se_priority = the (field_value int_value (Some 0) c ''priority''),
            se_scenario = the (field_value string_value (Some ''calm_market'') c ''scenario''),
            se_steps = the (field_value int_value (Some 25) c ''steps''),
            se_symbols = the (field_value strings_value (Some [''DEFAULT'']) c ''symbols''),
            se_seed = the (field_value int_value (Some 42) c ''seed''),
            se_initial_price = the (field_value int_value (Some 100) c ''initial_price''),
            se_volatility = the (field_value float_value (Some default_volatility) c ''volatility''),
            se_participants = the (field_value int_value (Some 20) c ''participants''),
            se_depth_levels = the (field_value int_value (Some 5) c ''depth_levels''),
            se_initial_cash = the (field_value int_value (Some 1000000) c ''initial_cash''),
            se_progress_interval = the (field_value int_value (Some 10) c ''progress_interval''),
            se_stream_events = the (field_value bool_value (Some False) c ''stream_events''),
            se_stream_snapshots = the (field_value bool_value (Some False) c ''stream_snapshots'')\<rparr>)"

section \<open>Stored configurations\<close>

text \<open>Storing a flat dictionary only sorts its keys.\<close>

lemma stored_keys: "set (map fst (encode_json d)) = set (map fst d)"
  by (force simp: encode_json_def json_sort_dict_def image_iff)

lemma has_key_set: "has_key k d \<longleftrightarrow> k \<in> set (map fst d)"
  by (induction d) auto

lemma stored_has_key: "has_key k (encode_json d) \<longleftrightarrow> has_key k d"
  by (simp only: has_key_set stored_keys)

lemma stored_dget:
  assumes "distinct (map fst d)"
  shows "dget (encode_json d) k = json_sort (dget d k)"
  using map_of_json_sort_dict [OF assms, of k] by (simp add: dget_def encode_json_def split: option.split)

lemma strings_of_strs [simp]: "strings_value (PList (map PStr xs)) = Some xs"
  by (simp add: list_all_iff comp_def)

lemma json_sort_strs: "json_sort (PList (map PStr xs)) = PList (map PStr xs)"
  by (simp add: comp_def)

lemma unknown_none: "set (map fst c) \<subseteq> set known \<Longrightarrow> unknown_keys known c = []"
  by (auto simp: unknown_keys_def filter_empty_conv)

lemma field_stored:
  assumes "distinct (map fst d)"
  shows "field_value read dflt (encode_json d) k =
    (if has_key k d then read (json_sort (dget d k)) else dflt)"
  by (simp add: field_value_def stored_has_key stored_dget [OF assms])

lemma make_backtest_accepted:
  assumes "make_backtest et r = Inr q"
  shows "backtest_refused q = []" "make_backtest et (q\<lparr>bq_mode := m\<rparr>) = Inr (q\<lparr>bq_mode := m\<rparr>)"
  using assms validate_again
  by (auto simp: make_backtest_def backtest_refused_def refused_Nil split: if_splits)

lemma parse_stored_backtest:
  assumes "make_backtest et r = Inr q"
  shows "parse_backtest et (encode_json (dump_backtest q)) = Inr (q\<lparr>bq_mode := None\<rparr>)"
proof -
  let ?c = "encode_json (dump_backtest q)"
  have d: "distinct (map fst (dump_backtest q))" by (simp add: dump_backtest_def)
  note v = field_stored [OF d]
  have "unknown_keys backtest_keys ?c = []"
    by (rule unknown_none) (simp only: stored_keys, simp add: dump_backtest_def backtest_keys_def)
  moreover have "refused (backtest_fields ?c) = []"
    using make_backtest_accepted(1) [OF assms]
    unfolding backtest_fields_def field_fine_def v
    by (simp add: refused_Nil dump_backtest_def has_key_def dget_def backtest_refused_def json_sort_strs del: json_sort.simps(1) strings_value.simps(1))
  ultimately show ?thesis
    using make_backtest_accepted(2) [OF assms, of None]
    unfolding parse_backtest_def v
    by (cases q) (simp add: dump_backtest_def has_key_def dget_def json_sort_strs del: json_sort.simps(1) strings_value.simps(1))
qed

lemma make_session_accepted:
  assumes "make_session et r = Inr q"
  shows "session_refused q = []" "make_session et (q\<lparr>se_mode := m\<rparr>) = Inr (q\<lparr>se_mode := m\<rparr>)"
  using assms validate_again
  by (auto simp: make_session_def session_refused_def refused_Nil split: if_splits)

lemma parse_stored_session:
  assumes "make_session et r = Inr q"
  shows "parse_session et (encode_json (dump_session q)) = Inr (q\<lparr>se_mode := None\<rparr>)"
proof -
  let ?c = "encode_json (dump_session q)"
  have d: "distinct (map fst (dump_session q))" by (simp add: dump_session_def)
  note v = field_stored [OF d]
  have "unknown_keys session_keys ?c = []"
    by (rule unknown_none) (simp only: stored_keys, simp add: dump_session_def session_keys_def)
  moreover have "refused (session_fields ?c) = []"
    using make_session_accepted(1) [OF assms]
    unfolding session_fields_def field_fine_def v
    by (simp add: refused_Nil dump_session_def has_key_def dget_def session_refused_def json_sort_strs del: json_sort.simps(1) strings_value.simps(1))
  ultimately show ?thesis
    using make_session_accepted(2) [OF assms, of None]
    unfolding parse_session_def v
    by (cases q) (simp add: dump_session_def has_key_def dget_def json_sort_strs del: json_sort.simps(1) strings_value.simps(1))
qed

section \<open>Round trip\<close>

text \<open>C17 (stored requests). The configuration that the store keeps of an accepted session or backtest request, in
  JSON normal form, builds the same request again when the run is executed or verified; only the execution
  mode is not stored.\<close>

theorem stored_requests_roundtrip:
  "(make_session et s = Inr s' \<longrightarrow> parse_session et (encode_json (dump_session s')) = Inr (s'\<lparr>se_mode := None\<rparr>)) \<and>
   (make_backtest et b = Inr b' \<longrightarrow> parse_backtest et (encode_json (dump_backtest b')) = Inr (b'\<lparr>bq_mode := None\<rparr>))"
  using parse_stored_session parse_stored_backtest by blast

definition sample_session :: session_request where
  "sample_session = \<lparr>se_mode = None, se_priority = 0, se_scenario = ''trending_up'', se_steps = 1, se_symbols = [''DEFAULT''],
     se_seed = 42, se_initial_price = 100, se_volatility = Fin 0 0, se_participants = 1, se_depth_levels = 5,
     se_initial_cash = 0, se_progress_interval = 10, se_stream_events = False, se_stream_snapshots = True\<rparr>"

definition sample_request :: backtest_request where
  "sample_request = (default_backtest ''crossing_taker'')\<lparr>bq_initial_cash := 0\<rparr>"

lemma sample_strip: "strip ''crossing_taker'' = ''crossing_taker''" "strip ''DEFAULT'' = ''DEFAULT''"
  by (simp_all add: strip_def py_space_def)

lemma sample_session_accepted: "make_session et sample_session = Inr sample_session"
  by (simp add: make_session_def session_refused_def refused_Nil sample_session_def validate_symbols_def float_zero_def
      sample_strip)

lemma sample_accepted: "make_backtest et sample_request = Inr sample_request"
  by (simp add: make_backtest_def backtest_refused_def refused_Nil sample_request_def default_backtest_def
      validate_strategy_def validate_symbols_def sample_strip)

theorem stored_requests_roundtrip_witness:
  "parse_session (\<lambda>model bad. []) (encode_json (dump_session sample_session)) = Inr sample_session \<and>
   parse_backtest (\<lambda>model bad. []) (encode_json (dump_backtest sample_request)) = Inr sample_request"
  using stored_requests_roundtrip [of "\<lambda>model bad. []" sample_session sample_session sample_request sample_request]
  by (simp add: sample_session_accepted sample_accepted) (simp add: sample_session_def sample_request_def default_backtest_def)

end
