(* ===== verification/Artifact_Laws.thy ===== *)
theory Artifact_Laws
  imports Order_Books Replay_Props
begin

text \<open>
  Facts on the artifacts of sessions and backtests that verification needs: serialized events and books hold no
  NaN, and arithmetic on finite floats yields none.
\<close>

lemma nan_free_level: "nan_free (PDict (level_dict l))"
  by (simp add: level_dict_def)

lemma nan_free_snapshot: "nan_free (PDict (snapshot_dict s))"
  using nan_free_level by (simp add: snapshot_dict_def list_all_iff)

lemma nan_free_books: "distinct (map fst bs) \<Longrightarrow> nan_free (PDict (books_val bs))"
  using nan_free_snapshot by (auto simp: books_val_def list_all_iff comp_def split_def)

lemma nan_free_int_dict: "distinct (map fst d) \<Longrightarrow> nan_free (int_dict d)"
  by (auto simp: int_dict_def list_all_iff comp_def split_def)

lemma nan_free_opt_int: "nan_free (Events.opt_int x)"
  by (cases x) simp_all

lemma nan_free_event: "nan_free (serialize_event e)"
proof -
  have "nan_free (PDict (asdict_data e))"
    by (cases "e" rule: asdict_data.cases) (simp_all add: nan_free_opt_int)
  then have "nan_free (PDict (AList.delete k (asdict_data e)))" for k
    by (auto simp: AList.delete_eq list_all_iff distinct_map_filter)
  with \<open>nan_free (PDict (asdict_data e))\<close> show ?thesis
    by (simp add: serialize_event_def event_to_dict_def Let_def del: asdict_data.simps)
qed

lemma serialized_dict: "\<exists>d. serialize_event e = PDict d"
  by (simp add: serialize_event_def event_to_dict_def Let_def)

lemma nan_free_events: "nan_free_items (map dict_or_empty (serialize_events events))"
proof -
  have "nan_free (PDict (dict_or_empty (serialize_event e)))" for e
    using nan_free_event [of e] serialized_dict [of e] by auto
  then show ?thesis
    by (simp add: nan_free_items_def list_all_iff serialize_events_def events_to_dicts_def
        serialize_event_def [symmetric] del: nan_free.simps)
qed

lemma snapshot_order_sorted:
  "sorted (map (\<lambda>d. step_key (int_value (dget d ''step''))) xs) \<Longrightarrow> snapshot_order xs = xs"
  unfolding snapshot_order_def by (rule sort_key_id_if_sorted)

section \<open>Floats\<close>

lemma round_quot_number: "round_quot n d x \<noteq> NaN"
  using canon_Fin [of "sgn n * q" u for q u] by (auto simp: round_quot_def Let_def) (metis pyfloat.distinct(5))+

lemma int_to_float_finite: "int_to_float i = Inr f \<Longrightarrow> is_finite f"
  using round_quot_number [of i 1 0] by (cases f) (auto simp: int_to_float_def float_of_int_def Let_def split: if_splits)

lemma int_truediv_finite: "int_truediv a b = Inr f \<Longrightarrow> is_finite f"
  using round_quot_number [of "a * sgn b" "\<bar>b\<bar>" 0] by (cases f) (auto simp: int_truediv_def Let_def split: if_splits)

lemma finite_number: "is_finite a \<Longrightarrow> is_finite b \<Longrightarrow> float_add a b \<noteq> NaN" "is_finite a \<Longrightarrow> is_finite b \<Longrightarrow> float_mul a b \<noteq> NaN"
  by (cases a; cases b; simp add: round_quot_number Let_def)+

end
