(* ===== verification/Session_Props.thy ===== *)
theory Session_Props
  imports Session_Calls Request_Parsing Artifact_Laws
begin

text \<open>
  Properties of market sessions: what the report counts, the progress messages, and that an executed session is
  verified by a second execution with the same generator.
\<close>

section \<open>What the stages of a step leave alone\<close>

text \<open>The part of the state that only the end of a step writes.\<close>

definition journal where
  "journal st = (ss_steps st, ss_trades st, ss_events st, ss_snapshots st, ss_volume st, ss_rejected st, ss_halt_count st,
     ss_halted st, ss_latest_mid st)"

lemma move_price_journal:
  assumes "move_price rs cfg scenario symbol st = Inr st'"
  shows "journal st' = journal st"
    "\<exists>p \<ge> 1. ss_last_price st' = AList.update symbol p (ss_last_price st)"
proof -
  from assms obtain r delta where st': "st' = st\<lparr>ss_rng := r,
      ss_last_price := AList.update symbol (max 1 (dict_at (ss_last_price st) symbol + delta)) (ss_last_price st),
      ss_step_events := []\<rparr>"
    by (auto simp: move_price_def Let_def bind_r_Inr_iff split: prod.splits)
  show "journal st' = journal st" by (simp add: st' journal_def)
  show "\<exists>p \<ge> 1. ss_last_price st' = AList.update symbol p (ss_last_price st)"
    by (rule exI [of _ "max 1 (dict_at (ss_last_price st) symbol + delta)"]) (simp add: st')
qed

lemma circuit_breaker_journal:
  assumes "circuit_breaker ex cfg symbol st = Inr st'"
  shows "journal st' = journal st" "ss_last_price st' = ss_last_price st"
  using assms
  by (auto simp: circuit_breaker_def journal_def Let_def bind_r_Inr_iff split: prod.splits if_splits)

lemma run_orders_journal:
  "run_orders ex symbol cmds st = Inr st' \<Longrightarrow> journal st' = journal st \<and> ss_last_price st' = ss_last_price st"
proof (induction cmds arbitrary: st)
  case (Cons c cmds)
  from Cons.prems obtain st1 where st1: "run_orders ex symbol cmds st1 = Inr st'" "journal st1 = journal st"
    "ss_last_price st1 = ss_last_price st"
    by (auto simp: bind_r_Inr_iff journal_def split: prod.splits)
  from Cons.IH [OF st1(1)] st1(2,3) show ?case by simp
qed simp

lemma participants_turn_journal:
  "participants_turn ex rs cfg scenario symbol spread ps st = Inr st' \<Longrightarrow>
    journal st' = journal st \<and> ss_last_price st' = ss_last_price st"
proof (induction ps arbitrary: st)
  case (Cons p ps)
  from Cons.prems obtain r cmds st1 where st1: "run_orders ex symbol cmds
      (st\<lparr>ss_rng := r, ss_total_orders := ss_total_orders st + int (length cmds)\<rparr>) = Inr st1"
    "participants_turn ex rs cfg scenario symbol spread ps st1 = Inr st'"
    by (auto simp: bind_r_Inr_iff split: prod.splits)
  from Cons.IH [OF st1(2)] run_orders_journal [OF st1(1)] show ?case by (simp add: journal_def)
qed simp

lemma end_auction_journal:
  assumes "end_auction ex scenario step symbol st = Inr st'"
  shows "journal st' = journal st" "ss_last_price st' = ss_last_price st"
  using assms by (auto simp: end_auction_def journal_def bind_r_Inr_iff split: prod.splits if_splits)

section \<open>Tallies\<close>

text \<open>The symbols whose last halt or resume was a halt.\<close>

fun halt_step :: "event \<Rightarrow> string set \<Rightarrow> string set" where
  "halt_step (SymbolHalted (SymbolHaltedData s _)) h = insert s h"
| "halt_step (SymbolResumed (SymbolResumedData s)) h = h - {s}"
| "halt_step _ h = h"

definition halted_after :: "event list \<Rightarrow> string set" where
  "halted_after events = fold halt_step events {}"

abbreviation count_type :: "string \<Rightarrow> event list \<Rightarrow> int" where
  "count_type ty events \<equiv> int (length (filter (\<lambda>e. event_type e = ty) events))"

definition tallied :: "string set \<Rightarrow> event list \<Rightarrow> ('e, 'r) session_state \<Rightarrow> bool" where
  "tallied symbols events st \<longleftrightarrow>
     length (ss_trades st) = length (filter is_trade events) \<and>
     sum_list (map sx_qty (ss_trades st)) = sum_list (map trade_qty events) \<and>
     sum_list (map (\<lambda>t. sx_qty t * sx_price t) (ss_trades st)) = sum_list (map trade_notional events) \<and>
     sum_list (map snd (ss_volume st)) = sum_list (map trade_qty events) \<and>
     distinct (map fst (ss_volume st)) \<and> fst ` set (ss_volume st) = symbols \<and>
     ss_rejected st = count_type ''OrderRejected'' events \<and> ss_halt_count st = count_type ''SymbolHalted'' events \<and>
     ss_halted st = halted_after events"

lemma sum_update:
  fixes d :: "('k \<times> int) list"
  assumes "distinct (map fst d)" "k \<in> fst ` set d"
  shows "sum_list (map snd (AList.update k (dict_at d k + n) d)) = sum_list (map snd d) + n"
  using assms
proof (induction d)
  case (Cons x d)
  show ?case
  proof (cases "fst x = k")
    case True
    then show ?thesis by (cases x) (simp add: dict_at_def)
  next
    case False
    then have "k \<in> fst ` set d" "dict_at (x # d) k = dict_at d k" using Cons.prems by (cases x; auto simp: dict_at_def)+
    then show ?thesis using Cons False by (cases x) simp
  qed
qed simp

lemma note_event_tallied:
  assumes "tallied symbols events st" "symbol \<in> symbols"
  shows "tallied symbols (events @ [e]) (note_event step symbol e st)"
proof (cases "\<exists>d. e = TradeExecuted d")
  case True
  then obtain price qty maker taker s where e: "e = TradeExecuted (TradeExecutedData price qty maker taker s)"
    by (metis trade_executed_data.exhaust)
  have "fst ` set (AList.update symbol v (ss_volume st)) = symbols" for v
    using assms update_keys [of symbol v "ss_volume st"] by (simp add: tallied_def flip: set_map)
  then show ?thesis
    using assms sum_update [of "ss_volume st" symbol qty]
    by (auto simp: e tallied_def halted_after_def distinct_update)
next
  case False
  then show ?thesis using assms by (cases "(step, symbol, e, st)" rule: note_event.cases) (auto simp: tallied_def halted_after_def)
qed

lemma note_fold_tallied:
  assumes "tallied symbols events st" "symbol \<in> symbols"
  shows "tallied symbols (events @ es) (fold (note_event step symbol) es st)"
  using assms
proof (induction es arbitrary: events st)
  case (Cons e es)
  from Cons.IH [OF note_event_tallied [OF Cons.prems] Cons.prems(2)] show ?case by simp
qed simp

section \<open>A step and a run\<close>

text \<open>What holds between the steps: the tallies, one summary and one snapshot for each pair so far, and prices of
  at least 1.\<close>

definition session_inv :: "session_config \<Rightarrow> (int \<times> string) list \<Rightarrow> ('e, 'r) session_state \<Rightarrow> bool" where
  "session_inv cfg ids st \<longleftrightarrow>
     tallied (set (ms_symbols cfg)) (ss_events st) st \<and>
     map (\<lambda>d. (dget d ''step'', dget d ''symbol'')) (ss_steps st) = map (\<lambda>(k, s). (PInt k, PStr s)) ids \<and>
     map (\<lambda>(k, s, _). (k, s)) (ss_snapshots st) = ids \<and>
     (\<forall>s \<in> set (ms_symbols cfg). \<exists>p \<ge> 1. map_of (ss_last_price st) s = Some p)"

lemma session_inv_journal:
  assumes "journal st' = journal st" "ss_last_price st' = ss_last_price st"
  shows "session_inv cfg ids st' = session_inv cfg ids st"
  using assms by (simp add: session_inv_def tallied_def journal_def)

lemma note_event_fields:
  "ss_steps (note_event step symbol e st) = ss_steps st" "ss_snapshots (note_event step symbol e st) = ss_snapshots st"
  "ss_events (note_event step symbol e st) = ss_events st" "ss_latest_mid (note_event step symbol e st) = ss_latest_mid st"
  "ss_last_price (note_event step symbol e st) = ss_last_price st"
  by (cases "(step, symbol, e, st)" rule: note_event.cases; simp)+

lemma note_fold_fields:
  "ss_steps (fold (note_event step symbol) es st) = ss_steps st"
  "ss_snapshots (fold (note_event step symbol) es st) = ss_snapshots st"
  "ss_events (fold (note_event step symbol) es st) = ss_events st"
  "ss_latest_mid (fold (note_event step symbol) es st) = ss_latest_mid st"
  "ss_last_price (fold (note_event step symbol) es st) = ss_last_price st"
  by (induction es arbitrary: st) (simp_all add: note_event_fields)

lemma note_events_tallied:
  assumes "tallied symbols (ss_events st) st" "symbol \<in> symbols"
  shows "tallied symbols (ss_events (note_events step symbol st)) (note_events step symbol st)"
proof -
  have "tallied symbols (ss_events st) (st\<lparr>ss_events := ss_events st @ ss_step_events st\<rparr>)"
    using assms(1) by (simp add: tallied_def)
  from note_fold_tallied [OF this assms(2), of "ss_step_events st" step] show ?thesis
    by (simp add: note_events_def note_fold_fields)
qed

lemma close_step_inv:
  assumes "observe_book cfg step symbol snapshot st = Inr st1"
    and "close_step step symbol snapshot (note_events step symbol st1) = Inr st'"
    and "session_inv cfg ids st" "symbol \<in> set (ms_symbols cfg)"
  shows "session_inv cfg (ids @ [(step, symbol)]) st'"
proof -
  from assms(1) obtain spreads imbalance where "st1 = st\<lparr>ss_snapshots := ss_snapshots st @ [(step, symbol, snapshot)],
      ss_spreads := spreads, ss_imbalance := imbalance\<rparr>"
    unfolding observe_book_def Let_def bind_r_Inr_iff by blast
  then have st1: "ss_steps st1 = ss_steps st" "ss_last_price st1 = ss_last_price st"
    "ss_snapshots st1 = ss_snapshots st @ [(step, symbol, snapshot)]"
    "tallied (set (ms_symbols cfg)) (ss_events st1) st1"
    using assms(3) by (simp_all add: session_inv_def tallied_def)
  let ?n = "note_events step symbol st1"
  have n: "ss_steps ?n = ss_steps st1" "ss_snapshots ?n = ss_snapshots st1" "ss_last_price ?n = ss_last_price st1"
    by (simp_all add: note_events_def note_fold_fields)
  from assms(2) obtain mid trades volume events where "st' = ?n\<lparr>ss_latest_mid := AList.update symbol mid (ss_latest_mid ?n),
      ss_steps := ss_steps ?n @ [[(''step'', PInt step), (''symbol'', PStr symbol), (''events'', events), (''trades'', trades),
        (''volume'', volume), (''mid'', mid)]]\<rparr>"
    unfolding close_step_def Let_def bind_r_Inr_iff by blast
  moreover have "tallied (set (ms_symbols cfg)) (ss_events ?n) ?n"
    using note_events_tallied [OF st1(4) assms(4)] .
  ultimately show ?thesis
    using assms(3) by (simp add: session_inv_def n st1 dget_def tallied_def)
qed

lemma symbol_step_inv:
  assumes "symbol_step ex rs cfg scenario ps step symbol st = Inr st'" "session_inv cfg ids st" "symbol \<in> set (ms_symbols cfg)"
  shows "session_inv cfg (ids @ [(step, symbol)]) st'"
proof -
  from assms(1) obtain st1 spread st2 st3 st4 st5 where
    st: "move_price rs cfg scenario symbol st = Inr st1" "circuit_breaker ex cfg symbol st1 = Inr st2"
      "participants_turn ex rs cfg scenario symbol spread ps st2 = Inr st3" "end_auction ex scenario step symbol st3 = Inr st4"
      "observe_book cfg step symbol (ex_snapshot ex (ms_depth_levels cfg) symbol (ss_engine st4)) st4 = Inr st5"
      "close_step step symbol (ex_snapshot ex (ms_depth_levels cfg) symbol (ss_engine st4)) (note_events step symbol st5) = Inr st'"
    by (auto simp: symbol_step_def Let_def bind_r_Inr_iff)
  obtain p where p: "1 \<le> p" "ss_last_price st1 = AList.update symbol p (ss_last_price st)"
    using move_price_journal(2) [OF st(1)] by blast
  have "session_inv cfg ids st1"
    using assms(2) move_price_journal(1) [OF st(1)] p
    by (auto simp: session_inv_def tallied_def journal_def update_conv')
  then have "session_inv cfg ids st4"
    using session_inv_journal [OF circuit_breaker_journal [OF st(2)], of cfg ids]
      participants_turn_journal [OF st(3)] session_inv_journal [of st3 st2 cfg ids]
      session_inv_journal [OF end_auction_journal [OF st(4)], of cfg ids] by simp
  from close_step_inv [OF st(5,6) this assms(3)] show ?thesis .
qed

lemma symbols_loop_inv:
  assumes "symbols_loop ex rs cfg scenario ps step symbols st = Inr st'" "session_inv cfg ids st"
    and "set symbols \<subseteq> set (ms_symbols cfg)"
  shows "session_inv cfg (ids @ map (Pair step) symbols) st'"
  using assms
proof (induction symbols arbitrary: ids st)
  case (Cons s symbols)
  then obtain st1 where st1: "symbol_step ex rs cfg scenario ps step s st = Inr st1"
    "symbols_loop ex rs cfg scenario ps step symbols st1 = Inr st'" by (auto simp: bind_r_Inr_iff)
  have "session_inv cfg (ids @ [(step, s)]) st1"
    using symbol_step_inv [OF st1(1)] Cons.prems by simp
  from Cons.IH [OF st1(2) this] Cons.prems(3) show ?case by simp
qed simp

lemma steps_loop_inv:
  assumes "steps_loop ex rs cfg scenario ps callback steps st = (messages, Inr st')" "session_inv cfg ids st"
  shows "session_inv cfg (ids @ List.product steps (ms_symbols cfg)) st'"
  using assms
proof (induction steps arbitrary: ids st messages)
  case (Cons step steps)
  from Cons.prems(1) obtain st1 messages1 where st1: "symbols_loop ex rs cfg scenario ps step (ms_symbols cfg) st = Inr st1"
    "steps_loop ex rs cfg scenario ps callback steps st1 = (messages1, Inr st')"
    by (auto split: sum.splits prod.splits)
  from Cons.IH [OF st1(2) symbols_loop_inv [OF st1(1) Cons.prems(2) order_refl]] show ?case
    by simp
qed simp

lemma dict_from_keys: "fst ` set (dict_from f xs) = set xs" "snd ` set (dict_from f xs) \<subseteq> f ` set xs"
proof -
  have "fst ` set (dict_from f xs) = dom (map_of (dict_from f xs))" by (simp add: dom_map_of_conv_image_fst)
  then show "fst ` set (dict_from f xs) = set xs" by (auto simp: map_of_dict_from dom_def split: if_splits)
  have "v = f k \<and> k \<in> set xs" if "(k, v) \<in> set (dict_from f xs)" for k v
  proof -
    from that have "map_of (dict_from f xs) k = Some v" by simp
    then show ?thesis by (auto simp: map_of_dict_from split: if_splits)
  qed
  then show "snd ` set (dict_from f xs) \<subseteq> f ` set xs" by force
qed

lemma session_start_inv:
  assumes "1 \<le> ms_initial_price cfg"
  shows "session_inv cfg [] (session_start rs cfg e)"
proof -
  have "snd ` set (dict_from (\<lambda>s. 0 :: int) (ms_symbols cfg)) \<subseteq> {0}"
    using dict_from_keys(2) [of "\<lambda>s. 0 :: int" "ms_symbols cfg"] by auto
  then have "sum_list (map snd (dict_from (\<lambda>s. 0 :: int) (ms_symbols cfg))) = 0"
    by (intro sum_list_nonneg_eq_0_iff [THEN iffD2]) auto
  then show ?thesis
    using assms
    by (auto simp: session_inv_def session_start_def tallied_def halted_after_def dict_from_keys map_of_dict_from Let_def)
qed

lemma run_market_session_Inr:
  fixes ex :: "'e exchange" and rs :: "'r random_source"
  assumes "run_market_session ex rs cfg callback = (messages, Inr x)"
  obtains scenario e and st :: "('e, 'r) session_state" where "get_market_scenario (ms_scenario cfg) = Inr scenario"
    "steps_loop ex rs cfg scenario (build_participants cfg) callback (map int [0..<nat (ms_steps cfg)]) (session_start rs cfg e) =
       (messages, Inr st)"
    "session_finish ex cfg st = Inr x"
proof -
  obtain scenario e where start: "bind_r (get_market_scenario (ms_scenario cfg)) (\<lambda>scenario.
           bind_r (set_bands ex cfg (ex_new ex)) (\<lambda>e.
           bind_r (open_auction ex cfg scenario e) (\<lambda>e. Inr (scenario, e)))) = Inr (scenario, e)"
    using assms unfolding run_market_session_def by (auto split: sum.splits)
  obtain ms r where loop: "steps_loop ex rs cfg scenario (build_participants cfg) callback (map int [0..<nat (ms_steps cfg)])
      (session_start rs cfg e) = (ms, r)" by fastforce
  from assms have "ms = messages" "bind_r r (session_finish ex cfg) = Inr x"
    unfolding run_market_session_def start by (simp_all add: loop)
  then show ?thesis using that [of scenario e] loop start by (auto simp: bind_r_Inr_iff)
qed

lemma sum_trades:
  "sum_list (map trade_qty (filter is_trade es)) = sum_list (map trade_qty es)"
  "sum_list (map trade_notional (filter is_trade es)) = sum_list (map trade_notional es)"
proof -
  have "trade_qty e = 0 \<and> trade_notional e = 0" if "\<not> is_trade e" for e
    using that by (cases e) auto
  then show "sum_list (map trade_qty (filter is_trade es)) = sum_list (map trade_qty es)"
    "sum_list (map trade_notional (filter is_trade es)) = sum_list (map trade_notional es)"
    by (induction es) auto
qed

lemma finite_halted: "finite (halted_after es)"
proof -
  have "finite (fold halt_step es h)" if "finite h" for h
    using that
  proof (induction es arbitrary: h)
    case (Cons e es)
    have "finite (halt_step e h)" using Cons.prems by (cases "(e, h)" rule: halt_step.cases) simp_all
    then show ?case using Cons.IH by simp
  qed simp
  then show ?thesis by (simp add: halted_after_def)
qed

text \<open>C11 (the report of a session). A session that ends, with any engine and any generator, has one summary and one
  snapshot for each step and symbol, in that order. Its report counts the trades, their volume and value, the
  rejections and the halts of the event stream; the volumes of the symbols add up to the total; the halted
  symbols are, in order, those whose last halt or resume is a halt; and prices stay positive.\<close>

theorem session_report_counts:
  assumes "run_market_session ex rs cfg callback = (messages, Inr x)" and "1 \<le> ms_initial_price cfg"
  shows "map (\<lambda>d. (dget d ''step'', dget d ''symbol'')) (mx_step_summaries x) =
      map (\<lambda>(k, s). (PInt k, PStr s)) (List.product (map int [0..<nat (ms_steps cfg)]) (ms_symbols cfg)) \<and>
    map (\<lambda>(k, s, _). (k, s)) (mx_snapshots x) = List.product (map int [0..<nat (ms_steps cfg)]) (ms_symbols cfg) \<and>
    mr_total_trades (mx_report x) = int (count_trades (mx_events x)) \<and>
    mr_total_volume (mx_report x) = total_traded_qty (mx_events x) \<and>
    mr_traded_notional (mx_report x) = traded_notional (mx_events x) \<and>
    sum_list (map snd (mr_per_symbol_volume (mx_report x))) = mr_total_volume (mx_report x) \<and>
    mr_rejected_orders (mx_report x) = count_type ''OrderRejected'' (mx_events x) \<and>
    mr_halt_count (mx_report x) = count_type ''SymbolHalted'' (mx_events x) \<and>
    mr_halted_symbols (mx_report x) = sorted_list_of_set (halted_after (mx_events x)) \<and>
    set (mr_halted_symbols (mx_report x)) = halted_after (mx_events x) \<and>
    (\<forall>s \<in> set (ms_symbols cfg). \<exists>v p. map_of (mx_per_symbol_analytics x) s = Some (v, p) \<and> 1 \<le> p)"
proof -
  obtain scenario e st where st: "steps_loop ex rs cfg scenario (build_participants cfg) callback
      (map int [0..<nat (ms_steps cfg)]) (session_start rs cfg e) = (messages, Inr st)" "session_finish ex cfg st = Inr x"
    using run_market_session_Inr [OF assms(1)] .
  from steps_loop_inv [OF st(1) session_start_inv [OF assms(2)]]
  have inv: "session_inv cfg (List.product (map int [0..<nat (ms_steps cfg)]) (ms_symbols cfg)) st" by simp
  from st(2) obtain ledger where x: "mx_step_summaries x = ss_steps st" "mx_snapshots x = ss_snapshots st" "mx_events x = ss_events st"
    and analytics: "mx_per_symbol_analytics x = dict_from (\<lambda>s. (dict_at (ss_volume st) s, dict_at (ss_last_price st) s)) (ms_symbols cfg)"
    and report: "session_report_of cfg (build_participants cfg) ledger st = Inr (mx_report x)"
    by (auto simp: session_finish_def bind_r_Inr_iff)
  from report have r: "mr_total_trades (mx_report x) = int (length (ss_trades st))"
    "mr_total_volume (mx_report x) = sum_list (map sx_qty (ss_trades st))"
    "mr_traded_notional (mx_report x) = sum_list (map (\<lambda>t. sx_qty t * sx_price t) (ss_trades st))"
    "mr_per_symbol_volume (mx_report x) = ss_volume st" "mr_rejected_orders (mx_report x) = ss_rejected st"
    "mr_halt_count (mx_report x) = ss_halt_count st" "mr_halted_symbols (mx_report x) = sorted_list_of_set (ss_halted st)"
    by (auto simp: session_report_of_def Let_def bind_r_Inr_iff dest!: sym [where t = "mx_report x"])
  have prices: "\<exists>v p. map_of (mx_per_symbol_analytics x) s = Some (v, p) \<and> 1 \<le> p" if "s \<in> set (ms_symbols cfg)" for s
    using inv that by (auto simp: analytics map_of_dict_from session_inv_def dict_at_def)
  from inv prices show ?thesis
    by (simp add: x r session_inv_def tallied_def count_trades_def total_traded_qty_def traded_notional_def sum_trades finite_halted)
qed

section \<open>Progress\<close>

lemma symbol_step_more:
  assumes "symbol_step ex rs cfg scenario ps step symbol st = Inr st'"
  shows "\<exists>d. ss_steps st' = ss_steps st @ [d] \<and> dget d ''step'' = PInt step"
proof -
  from assms obtain st1 spread st2 st3 st4 st5 where
    st: "move_price rs cfg scenario symbol st = Inr st1" "circuit_breaker ex cfg symbol st1 = Inr st2"
      "participants_turn ex rs cfg scenario symbol spread ps st2 = Inr st3" "end_auction ex scenario step symbol st3 = Inr st4"
      "observe_book cfg step symbol (ex_snapshot ex (ms_depth_levels cfg) symbol (ss_engine st4)) st4 = Inr st5"
      "close_step step symbol (ex_snapshot ex (ms_depth_levels cfg) symbol (ss_engine st4)) (note_events step symbol st5) = Inr st'"
    by (auto simp: symbol_step_def Let_def bind_r_Inr_iff)
  have "ss_steps st4 = ss_steps st"
    using move_price_journal(1) [OF st(1)] circuit_breaker_journal(1) [OF st(2)] participants_turn_journal [OF st(3)]
      end_auction_journal(1) [OF st(4)] by (simp add: journal_def)
  moreover have "ss_steps st5 = ss_steps st4"
    using st(5) by (auto simp: observe_book_def Let_def bind_r_Inr_iff)
  ultimately show ?thesis
    using st(6) by (auto simp: close_step_def Let_def bind_r_Inr_iff note_events_def note_fold_fields dget_def)
qed

lemma symbols_loop_more:
  "symbols_loop ex rs cfg scenario ps step symbols st = Inr st' \<Longrightarrow>
    \<exists>more. ss_steps st' = ss_steps st @ more \<and> (\<forall>d \<in> set more. dget d ''step'' = PInt step)"
proof (induction symbols arbitrary: st)
  case (Cons s symbols)
  then obtain st1 where st1: "symbol_step ex rs cfg scenario ps step s st = Inr st1"
    "symbols_loop ex rs cfg scenario ps step symbols st1 = Inr st'" by (auto simp: bind_r_Inr_iff)
  from Cons.IH [OF st1(2)] symbol_step_more [OF st1(1)] show ?case by fastforce
qed simp

lemma steps_loop_more:
  "steps_loop ex rs cfg scenario ps callback steps st = (messages, Inr st') \<Longrightarrow>
    \<exists>more. ss_steps st' = ss_steps st @ more \<and> (\<forall>d \<in> set more. dget d ''step'' \<in> PInt ` set steps)"
proof (induction steps arbitrary: st messages)
  case (Cons step steps)
  from Cons.prems obtain st1 messages1 where st1: "symbols_loop ex rs cfg scenario ps step (ms_symbols cfg) st = Inr st1"
    "steps_loop ex rs cfg scenario ps callback steps st1 = (messages1, Inr st')"
    by (auto split: sum.splits prod.splits)
  from Cons.IH [OF st1(2)] symbols_loop_more [OF st1(1)] show ?case by fastforce
qed simp

lemma steps_loop_progress:
  assumes "steps_loop ex rs cfg scenario ps (Some (interval, verbose)) steps st = (messages, Inr st')" "distinct steps"
    and "\<forall>d \<in> set (ss_steps st). dget d ''step'' \<notin> PInt ` set steps"
  shows "map (\<lambda>m. (dget m ''step'', dget m ''detail'')) messages =
    map (\<lambda>k. (PInt (k + 1), if verbose then PList (map PDict (filter (\<lambda>d. dget d ''step'' = PInt k) (ss_steps st'))) else PNone))
      (filter (progress_due (Some (interval, verbose)) cfg) steps)"
  using assms
proof (induction steps arbitrary: st messages)
  case (Cons step steps)
  from Cons.prems(1) obtain st1 messages1 where st1: "symbols_loop ex rs cfg scenario ps step (ms_symbols cfg) st = Inr st1"
    "steps_loop ex rs cfg scenario ps (Some (interval, verbose)) steps st1 = (messages1, Inr st')"
    "messages = session_progress (Some (interval, verbose)) cfg step st1 @ messages1"
    by (auto split: sum.splits prod.splits)
  obtain more where more: "ss_steps st1 = ss_steps st @ more" "\<forall>d \<in> set more. dget d ''step'' = PInt step"
    using symbols_loop_more [OF st1(1)] by blast
  obtain rest where rest: "ss_steps st' = ss_steps st1 @ rest" "\<forall>d \<in> set rest. dget d ''step'' \<in> PInt ` set steps"
    using steps_loop_more [OF st1(2)] by blast
  have "\<forall>d \<in> set rest. dget d ''step'' \<noteq> PInt step" using rest(2) Cons.prems(2) by auto
  then have same: "filter (\<lambda>d. dget d ''step'' = PInt step) (ss_steps st') = filter (\<lambda>d. dget d ''step'' = PInt step) (ss_steps st1)"
    by (auto simp: rest(1) filter_empty_conv)
  have "\<forall>d \<in> set (ss_steps st1). dget d ''step'' \<notin> PInt ` set steps"
    using more Cons.prems(2,3) by auto
  from Cons.IH [OF st1(2) _ this] Cons.prems(2) show ?case
    by (simp add: st1(3) session_progress_def session_payload_def dget_def same [unfolded dget_def])
qed simp

lemma steps_loop_quiet:
  "steps_loop ex rs cfg scenario ps None steps st = ([], snd (steps_loop ex rs cfg scenario ps callback steps st))"
  by (induction steps arbitrary: st)
    (auto simp: session_progress_def progress_due_def split: sum.split prod.split)

lemma run_market_session_quiet:
  "run_market_session ex rs cfg None = ([], snd (run_market_session ex rs cfg callback))"
  by (simp add: run_market_session_def steps_loop_quiet [where callback = callback] split_def split: sum.split)

text \<open>C13 (progress of a session). In a session that ends, the callback hears of the first step, the last step and
  every multiple of the interval, each once and in order, counted from 1; when details are wanted the message
  has the final summaries of that step, one for each symbol. Without a callback there are no messages, and the
  result is the same.\<close>

theorem session_progress_messages:
  assumes "run_market_session ex rs cfg (Some (interval, verbose)) = (messages, Inr x)"
  shows "map (\<lambda>m. (dget m ''step'', dget m ''detail'')) messages =
      map (\<lambda>k. (PInt (k + 1), if verbose then PList (map PDict (filter (\<lambda>d. dget d ''step'' = PInt k) (mx_step_summaries x))) else PNone))
        (filter (\<lambda>k. k = 0 \<or> k + 1 = ms_steps cfg \<or> (k + 1) mod max 1 interval = 0) (map int [0..<nat (ms_steps cfg)])) \<and>
    run_market_session ex rs cfg None = ([], Inr x)"
proof -
  obtain scenario e st where st: "steps_loop ex rs cfg scenario (build_participants cfg) (Some (interval, verbose))
      (map int [0..<nat (ms_steps cfg)]) (session_start rs cfg e) = (messages, Inr st)" "session_finish ex cfg st = Inr x"
    using run_market_session_Inr [OF assms(1)] .
  have x: "mx_step_summaries x = ss_steps st" using st(2) by (auto simp: session_finish_def bind_r_Inr_iff)
  have due: "progress_due (Some (interval, verbose)) cfg = (\<lambda>k. k = 0 \<or> k + 1 = ms_steps cfg \<or> (k + 1) mod max 1 interval = 0)"
    by (auto simp: progress_due_def fun_eq_iff)
  have "map (\<lambda>m. (dget m ''step'', dget m ''detail'')) messages =
    map (\<lambda>k. (PInt (k + 1), if verbose then PList (map PDict (filter (\<lambda>d. dget d ''step'' = PInt k) (ss_steps st))) else PNone))
      (filter (progress_due (Some (interval, verbose)) cfg) (map int [0..<nat (ms_steps cfg)]))"
    by (rule steps_loop_progress [OF st(1)]) (simp_all add: distinct_map session_start_def Let_def)
  then show ?thesis
    using run_market_session_quiet [of ex rs cfg "Some (interval, verbose)"] by (simp only: due x assms snd_conv)
qed

section \<open>Artifacts\<close>

text \<open>The latest mid prices are finite, and the dictionaries have no key twice.\<close>

definition mids_fine :: "('e, 'r) session_state \<Rightarrow> bool" where
  "mids_fine st \<longleftrightarrow> (\<forall>s m. map_of (ss_latest_mid st) s = Some m \<longrightarrow> is_finite (mid_number m))"

lemma float_zero_finite [simp]: "is_finite float_zero"
  by (simp add: float_zero_def)


lemma symbol_step_mids:
  assumes "symbol_step ex rs cfg scenario ps step symbol st = Inr st'" "mids_fine st"
  shows "mids_fine st'"
proof -
  from assms(1) obtain st1 spread st2 st3 st4 st5 where
    st: "move_price rs cfg scenario symbol st = Inr st1" "circuit_breaker ex cfg symbol st1 = Inr st2"
      "participants_turn ex rs cfg scenario symbol spread ps st2 = Inr st3" "end_auction ex scenario step symbol st3 = Inr st4"
      "observe_book cfg step symbol (ex_snapshot ex (ms_depth_levels cfg) symbol (ss_engine st4)) st4 = Inr st5"
      "close_step step symbol (ex_snapshot ex (ms_depth_levels cfg) symbol (ss_engine st4)) (note_events step symbol st5) = Inr st'"
    by (auto simp: symbol_step_def Let_def bind_r_Inr_iff)
  have "ss_latest_mid st4 = ss_latest_mid st"
    using move_price_journal(1) [OF st(1)] circuit_breaker_journal(1) [OF st(2)] participants_turn_journal [OF st(3)]
      end_auction_journal(1) [OF st(4)] by (simp add: journal_def)
  moreover have "ss_latest_mid st5 = ss_latest_mid st4"
    using st(5) by (auto simp: observe_book_def Let_def bind_r_Inr_iff)
  moreover obtain mid where "ss_latest_mid st' = AList.update symbol mid (ss_latest_mid st5)" "is_finite (mid_number mid)"
    using st(6) int_truediv_finite
    by (auto simp: close_step_def Let_def bind_r_Inr_iff note_events_def note_fold_fields split: if_splits)
  ultimately show ?thesis using assms(2) by (simp add: mids_fine_def update_conv')
qed

lemma symbols_loop_mids: "symbols_loop ex rs cfg scenario ps step symbols st = Inr st' \<Longrightarrow> mids_fine st \<Longrightarrow> mids_fine st'"
  by (induction symbols arbitrary: st) (auto simp: bind_r_Inr_iff dest: symbol_step_mids)

lemma steps_loop_mids:
  "steps_loop ex rs cfg scenario ps callback steps st = (messages, Inr st') \<Longrightarrow> mids_fine st \<Longrightarrow> mids_fine st'"
proof (induction steps arbitrary: st messages)
  case (Cons step steps)
  from Cons.prems(1) obtain st1 messages1 where st1: "symbols_loop ex rs cfg scenario ps step (ms_symbols cfg) st = Inr st1"
    "steps_loop ex rs cfg scenario ps callback steps st1 = (messages1, Inr st')"
    by (auto split: sum.splits prod.splits)
  from Cons.IH [OF st1(2) symbols_loop_mids [OF st1(1) Cons.prems(2)]] show ?case .
qed simp

lemma nan_free_float_dict:
  assumes "distinct (map fst d)" "\<forall>(k, f) \<in> set d. f \<noteq> NaN"
  shows "nan_free (float_dict d)"
  using assms by (auto simp: float_dict_def list_all_iff comp_def split_def)

lemma run_session_Inr:
  assumes "run_session ex rs with_callback request = (messages, Inr a)"
  obtains scenario cfg callback x where "get_market_scenario (se_scenario request) = Inr scenario" "market_config request = Inr cfg"
    "callback = (if with_callback then Some (se_progress_interval request, se_stream_events request \<or> se_stream_snapshots request) else None)"
    "run_market_session ex rs cfg callback = (messages, Inr x)" "session_artifacts request x = Inr a"
proof -
  obtain scenario cfg where start: "get_market_scenario (se_scenario request) = Inr scenario" "market_config request = Inr cfg"
    using assms by (auto simp: run_session_def split: sum.splits)
  show ?thesis
    using assms that [OF start refl] by (auto simp: run_session_def start bind_r_Inr_iff split: prod.splits)
qed

lemma run_session_quiet:
  assumes "run_session ex rs True request = (messages, Inr a)"
  shows "run_session ex rs False request = ([], Inr a)"
proof -
  obtain scenario cfg callback x where x: "get_market_scenario (se_scenario request) = Inr scenario" "market_config request = Inr cfg"
    "run_market_session ex rs cfg callback = (messages, Inr x)" "session_artifacts request x = Inr a"
    by (rule run_session_Inr [OF assms])
  then show ?thesis using run_market_session_quiet [of ex rs cfg callback] by (simp add: run_session_def)
qed

lemma step_key_le: "step_key (Some a) \<le> step_key (Some b) \<longleftrightarrow> a \<le> b"
  by (auto simp: step_key_def less_eq_prod_def)

lemma sorted_product_steps:
  "sorted ks \<Longrightarrow> sorted (map (\<lambda>(k, s). step_key (Some k)) (List.product ks ss))"
proof (induction ks)
  case (Cons k ks)
  have "sorted (map (\<lambda>(k, s). step_key (Some k)) (map (Pair k) ss))" by (induction ss) auto
  then show ?case using Cons by (auto simp: sorted_append step_key_le)
qed simp

lemma run_session_artifacts:
  assumes "run_session ex rs with_callback request = (messages, Inr a)" "0 < se_initial_price request"
    and "comparable_report (af_report a)"
  shows "snapshot_order (af_snapshots a) = af_snapshots a"
    "nan_free_items (af_events a)" "nan_free_items (af_snapshots a)" "nan_free_items (af_accounts a)"
proof -
  obtain scenario cfg callback x where cfg: "market_config request = Inr cfg"
    and run: "run_market_session ex rs cfg callback = (messages, Inr x)" and a: "session_artifacts request x = Inr a"
    by (rule run_session_Inr [OF assms(1)])
  from cfg have price: "1 \<le> ms_initial_price cfg" using assms(2) by (auto simp: market_config_def bind_r_Inr_iff)
  obtain scenario e st where st: "steps_loop ex rs cfg scenario (build_participants cfg) callback
      (map int [0..<nat (ms_steps cfg)]) (session_start rs cfg e) = (messages, Inr st)" "session_finish ex cfg st = Inr x"
    using run_market_session_Inr [OF run] .
  from steps_loop_inv [OF st(1) session_start_inv [OF price]]
  have inv: "map (\<lambda>(k, s, _). (k, s)) (ss_snapshots st) = List.product (map int [0..<nat (ms_steps cfg)]) (ms_symbols cfg)"
    by (simp add: session_inv_def)
  have "mids_fine (session_start rs cfg e)"
    by (simp add: mids_fine_def session_start_def Let_def map_of_dict_from)
  then have mids: "mids_fine st" using steps_loop_mids [OF st(1)] by blast
  from a obtain cash0 where a_fields: "af_report a = session_report_dict (mx_report x)" "int_to_float (se_initial_cash request) = Inr cash0"
    "af_events a = map dict_or_empty (serialize_events (mx_events x))" "af_snapshots a = map session_snapshot_dict (mx_snapshots x)"
    "af_accounts a = [[(''initial_cash'', PInt (se_initial_cash request)), (''cash'', PFloat (float_add cash0 (mr_realized_pnl (mx_report x)))),
       (''positions'', PDict []), (''mark_to_market'', float_dict (mr_per_symbol_pnl (mx_report x))),
       (''equity'', PFloat (float_add cash0 (mr_final_equity (mx_report x))))]]"
    by (auto simp: session_artifacts_def bind_r_Inr_iff Let_def)
  from st(2) obtain ledger where snaps: "mx_snapshots x = ss_snapshots st"
    and report: "session_report_of cfg (build_participants cfg) ledger st = Inr (mx_report x)"
    by (auto simp: session_finish_def bind_r_Inr_iff)
  show "nan_free_items (af_events a)" by (simp add: a_fields nan_free_events)
  have "map (\<lambda>d. step_key (int_value (dget d ''step''))) (map session_snapshot_dict (ss_snapshots st)) =
      map (\<lambda>(k, s). step_key (Some k)) (map (\<lambda>(k, s, _). (k, s)) (ss_snapshots st))"
    by (simp add: comp_def split_def session_snapshot_dict_def dget_def)
  then show "snapshot_order (af_snapshots a) = af_snapshots a"
    unfolding a_fields snaps
    by (intro snapshot_order_sorted) (simp only: inv, rule sorted_product_steps, simp add: sorted_map)
  show "nan_free_items (af_snapshots a)"
    using nan_free_snapshot by (simp add: a_fields nan_free_items_def list_all_iff session_snapshot_dict_def split_def)
  have "finite_metric (dget (af_report a) ''realized_pnl'')" "finite_metric (dget (af_report a) ''final_equity'')"
    using comparable_metric(1) [OF assms(3)] by blast+
  then have "is_finite (mr_realized_pnl (mx_report x))" "is_finite (mr_final_equity (mx_report x))"
    by (simp_all add: a_fields session_report_dict_def dget_def finite_metric_cases metric_value_def)
  then have cash: "float_add cash0 (mr_realized_pnl (mx_report x)) \<noteq> NaN" "float_add cash0 (mr_final_equity (mx_report x)) \<noteq> NaN"
    using finite_number(1) int_to_float_finite [OF a_fields(2)] by blast+
  from report obtain pnl where pnl: "dict_r (symbol_pnl st) (ms_symbols cfg) [] = Inr pnl" "mr_per_symbol_pnl (mx_report x) = pnl"
    by (auto simp: session_report_of_def Let_def bind_r_Inr_iff dest!: sym [where t = "mx_report x"])
  have distinct: "distinct (map fst pnl)" using dict_r_Inr(1) [OF pnl(1)] by simp
  have "f \<noteq> NaN" if "(s, f) \<in> set pnl" for s f
  proof -
    from that distinct have "map_of pnl s = Some f" by simp
    from dict_r_Inr(2) [OF pnl(1) this] have "symbol_pnl st s = Inr f" by simp
    then show ?thesis
      using mids int_to_float_finite finite_number(2)
      by (auto simp: symbol_pnl_def bind_r_Inr_iff mids_fine_def split: option.splits)
  qed
  then have "nan_free (float_dict pnl)" using distinct by (intro nan_free_float_dict) auto
  with cash show "nan_free_items (af_accounts a)" by (simp add: a_fields nan_free_items_def pnl(2))
qed

section \<open>Execution and verification\<close>

text \<open>The session engines of the run service and of the replay service: the stored configuration is read as a
  request, then run with a new generator, for the replay without a callback.\<close>

(* sim/api/services/run_service.py:40-47 execute_pending_run (session) *)
definition session_executor :: "'e exchange \<Rightarrow> 'r random_source \<Rightarrow> error_text \<Rightarrow> pydict \<Rightarrow> executor result" where
  "session_executor ex rs et config =
     bind_r (parse_session et config) (\<lambda>request. Inr (\<lambda>run_id. run_session ex rs True request))"

(* sim/api/services/replay_service.py:130-132 verify_run (session) *)
definition session_rerun :: "'e exchange \<Rightarrow> 'r random_source \<Rightarrow> error_text \<Rightarrow> pydict \<Rightarrow> pydict result" where
  "session_rerun ex rs et config =
     bind_r (parse_session et config) (\<lambda>request.
     bind_r (snd (run_session ex rs False request)) (\<lambda>a. Inr (replay_dict a)))"

text \<open>C10 (sessions verify). Executing a stored session and then verifying it always yields \<open>verified\<close>: the seed is
  part of the stored configuration, so that a second generator draws the same numbers, and neither the progress
  callback nor the order of the snapshots, one per step and symbol, can get in the way. This holds for any
  engine that starts in the same state, as long as the execution succeeds and the figures of the report are
  finite.\<close>

theorem session_executes_and_verifies:
  assumes "sql_ok (en_store e)" and "sql_get_run i (en_store e) = Some r" and "rr_run_type r = Session"
    and "rr_status r \<notin> {Completed, Canceled}" and "parse_session et (rr_config r) = Inr request"
    and "run_session ex rs True request = (messages, Inr a)" and "comparable_report (af_report a)"
    and "eg_session eg = session_executor ex rs et" and "rv_session rv = session_rerun ex rs et"
  shows "case execute_pending_run sql_ops cd eg i e of (e1, res1) \<Rightarrow>
    (case verify_run sql_ops rv i e1 of (e2, res2) \<Rightarrow>
      \<exists>p r2. res2 = rv_model rv p \<and> dget p ''status'' = PStr ''verified'' \<and>
        dget p ''mismatched_fields'' = PList [] \<and> dget p ''first_divergence_step'' = PNone \<and>
        sql_get_run i (en_store e2) = Some r2 \<and> rr_status r2 = Completed \<and> rr_verification r2 = encode_json p \<and>
        (\<forall>j. j \<noteq> i \<longrightarrow> sql_get_run j (en_store e2) = sql_get_run j (en_store e)))"
proof (rule executed_verified [OF assms(1,2,4)])
  have price: "0 < se_initial_price request"
    using assms(5) by (auto simp: parse_session_def make_session_def session_refused_def refused_Nil Let_def split: if_splits)
  note a = run_session_artifacts [OF assms(6) price assms(7)]
  show "(rr_run_type r = Session \<and> eg_session eg (rr_config r) = Inr (\<lambda>run_id. run_session ex rs True request)) \<or>
      (rr_run_type r = Backtest \<and> eg_backtest eg (rr_config r) = Inr (\<lambda>run_id. run_session ex rs True request))"
    using assms(3,5,8) by (simp add: session_executor_def)
  show "snd (run_session ex rs True request) = Inr a" using assms(6) by simp
  show "rerun rv r = Inr (replay_dict a)"
    using assms(3,5,9) run_session_quiet [OF assms(6)] by (simp add: rerun_def session_rerun_def)
  show "snapshot_order (af_snapshots a) = af_snapshots a" by (rule a(1))
  show "clean_artifacts (replay_dict a)"
    using a(2-4) assms(7) by (simp add: clean_artifacts_def replay_dict_streams)
qed

section \<open>Calls\<close>

text \<open>C12 (what a session asks of the engine). A session makes no other calls than these, on its own symbols: limit
  orders, good till canceled or immediate or cancel, and market orders, of a positive price and a size in
  the configured bounds; price bands around the initial price and halts in the two volatile scenarios; the
  opening phase and its uncross in the auction scenario. Refusing all other calls changes nothing: there are
  no cancels, replaces, stop, hidden or iceberg orders, whatever \<open>probability_cancel_replace\<close> says.\<close>

theorem session_calls_only:
  assumes "randint_ok rs" "ms_min_order_size cfg \<le> ms_max_order_size cfg"
  shows "run_market_session (guarded cfg ex) rs cfg callback = run_market_session ex rs cfg callback"
proof (cases "get_market_scenario (ms_scenario cfg)")
  case (Inr scenario)
  show ?thesis
    by (simp add: run_market_session_def Inr guarded_start [OF Inr])
      (auto simp: bind_r_Inr_iff guarded_steps [OF assms Inr] guarded_finish split: sum.split prod.split)
qed (simp add: run_market_session_def)

section \<open>A concrete session\<close>

text \<open>A generator that always draws the least integer, a quarter, and no drift; one step of one participant.\<close>

definition sample_random :: "unit random_source" where
  "sample_random = \<lparr>rs_seed = (\<lambda>seed. ()), rs_randint = (\<lambda>a b r. (r, if b < a then Inl (ValueError ''empty range'') else Inr a)),
     rs_random = (\<lambda>r. (r, Fin 1 (- 2))), rs_gauss = (\<lambda>mu sigma r. (r, Fin 0 0))\<rparr>"

definition sample_market :: session_config where
  "sample_market = \<lparr>ms_scenario = ''trending_up'', ms_steps = 1, ms_symbols = [''DEFAULT''], ms_seed = 42,
     ms_initial_price = 100, ms_volatility = Fin 0 0, ms_spread_width = 1, ms_min_order_size = 1, ms_max_order_size = 10,
     ms_probability_market_order = round_quot 35 100 0, ms_probability_cancel_replace = tenths 1,
     ms_participant_count = 1, ms_depth_levels = 5\<rparr>"

lemma sample_randint: "randint_ok sample_random"
  by (auto simp: randint_ok_def sample_random_def)

lemma float_values:
  "int_to_float 0 = Inr (Fin 0 0)" "int_to_float 500 = Inr (Fin 125 2)" "int_to_float (- 500) = Inr (Fin (- 125) 2)"
  "int_to_float 100 = Inr (Fin 25 2)" "int_to_float 1 = Inr (Fin 1 0)" "int_to_float 5 = Inr (Fin 5 0)" "int_to_float 2 = Inr (Fin 1 1)"
  "int_to_float (- 5) = Inr (Fin (- 5) 0)" "int_truediv 0 100 = Inr (Fin 0 0)"
  by (simp_all add: float_eval)

lemma thousandth: "round_quot 1 1000 0 = Fin 1152921504606847 (- 60)"
  by (simp add: float_eval)

lemma tenth_product: "float_mul (Fin 25 2) (Fin 1152921504606847 (- 60)) = Fin 3602879701896397 (- 55)"
  by (simp add: float_eval)

lemma sample_spreads: "scaled_int 100 (round_quot 1 1000 0) = Inr 1" "scaled_int 1 (Fin 1 0) = Inr 1"
proof -
  show "scaled_int 100 (round_quot 1 1000 0) = Inr 1"
    by (simp add: scaled_int_def float_values thousandth tenth_product round_div_def Let_def del: float_mul.simps)
  have "round_quot 1 1 0 = Fin 1 0" by (simp add: float_eval)
  then show "scaled_int 1 (Fin 1 0) = Inr 1" by (simp add: scaled_int_def float_values)
qed

lemma sample_market_config: "market_config sample_session = Inr sample_market"
  by (simp add: market_config_def sample_session_def sample_market_def sample_spreads)

definition sample_scenario :: market_scenario where
  "sample_scenario = the (map_of SCENARIOS ''trending_up'')"

lemma sample_scenario:
  "get_market_scenario ''trending_up'' = Inr sample_scenario" "mc_spread_multiplier sample_scenario = Fin 1 0"
  "mc_opening_auction_steps sample_scenario = 0"
  by (simp_all add: get_market_scenario_def sample_scenario_def SCENARIOS_def)

lemma sample_products:
  "float_mul (Fin (- 5) 0) (Fin 0 0) = Fin 0 0" "float_mul (Fin 0 0) (Fin 25 2) = Fin 0 0"
  "float_sub (Fin 0 0) (Fin (- 125) 2) = Fin 125 2" "float_add (Fin 125 2) (Fin 0 0) = Fin 125 2"
  "float_sub (Fin 125 2) (Fin 0 0) = Fin 125 2" "float_add (Fin 0 0) (Fin 125 2) = Fin 125 2"
proof -
  have "round_quot 500 1 0 = Fin 125 2" by (simp add: float_eval)
  then show "float_sub (Fin 0 0) (Fin (- 125) 2) = Fin 125 2" "float_add (Fin 125 2) (Fin 0 0) = Fin 125 2"
    "float_sub (Fin 125 2) (Fin 0 0) = Fin 125 2" "float_add (Fin 0 0) (Fin 125 2) = Fin 125 2"
    by (simp_all add: float_sub_def)
qed simp_all

definition sample_after :: "(int, unit) session_state" where
  "sample_after = \<lparr>ss_engine = 2, ss_rng = (), ss_last_price = [(''DEFAULT'', 100)],
     ss_steps = [[(''step'', PInt 0), (''symbol'', PStr ''DEFAULT''), (''events'', PInt 1), (''trades'', PInt 1),
       (''volume'', PInt 5), (''mid'', PInt 0)]],
     ss_trades = [\<lparr>sx_step = 0, sx_symbol = ''DEFAULT'', sx_price = 100, sx_qty = 5, sx_maker_order_id = 1, sx_taker_order_id = 2\<rparr>],
     ss_events = [TradeExecuted (TradeExecutedData 100 5 1 2 ''DEFAULT'')],
     ss_snapshots = [(0, ''DEFAULT'', \<lparr>bk_symbol = ''DEFAULT'', bk_sequence_number = 2, bk_bids = [], bk_asks = []\<rparr>)],
     ss_spreads = [(''DEFAULT'', [])], ss_imbalance = [(''DEFAULT'', [])], ss_volume = [(''DEFAULT'', 5)], ss_rejected = 0,
     ss_halt_count = 0, ss_halted = {}, ss_total_orders = 2, ss_cash = Fin 125 2, ss_positions = [(''DEFAULT'', - 5)],
     ss_latest_mid = [(''DEFAULT'', PInt 0)], ss_step_events = [TradeExecuted (TradeExecutedData 100 5 1 2 ''DEFAULT'')]\<rparr>"

lemma sample_symbol_step:
  "symbol_step sample_exchange sample_random sample_market sample_scenario (build_participants sample_market) 0 ''DEFAULT''
     (session_start sample_random sample_market 0) = Inr sample_after"
  apply (simp add: symbol_step_def move_price_def sample_random_def sample_market_def session_start_def dict_from_def dict_at_def Let_def
      sample_spreads sample_scenario circuit_breaker_def banded_def build_participants_def participant_styles_def generate_def
      execute_command_def sample_calls float_values float_zero_def sample_products end_auction_def
      del: float_mul.simps float_add.simps)
  apply (simp add: sample_exchange_def observe_book_def close_step_def note_events_def best_level_def level_total_def
      append_at_def Let_def dict_at_def sample_after_def)
  done

lemma sample_session_run:
  obtains messages x where "run_market_session sample_exchange sample_random sample_market (Some (10, True)) = (messages, Inr x)"
    "length messages = 1" "mr_total_volume (mx_report x) = 5" "mr_final_equity (mx_report x) = Fin 125 2"
    "mr_realized_pnl (mx_report x) = Fin 125 2" "comparable_report (session_report_dict (mx_report x))"
proof -
  have "steps_loop sample_exchange sample_random sample_market sample_scenario (build_participants sample_market) (Some (10, True))
      (map int [0..<nat (ms_steps sample_market)]) (session_start sample_random sample_market 0) =
      ([session_payload True sample_market 0 sample_after], Inr sample_after)"
    using sample_symbol_step by (simp add: sample_market_def session_progress_def progress_due_def)
  moreover have "ms_scenario sample_market = ''trending_up''" by (simp add: sample_market_def)
  ultimately have run: "run_market_session sample_exchange sample_random sample_market (Some (10, True)) =
      ([session_payload True sample_market 0 sample_after], session_finish sample_exchange sample_market sample_after)"
    by (simp add: run_market_session_def sample_scenario set_bands_def banded_def open_auction_def sample_fields)
  have "\<exists>x. session_finish sample_exchange sample_market sample_after = Inr x \<and> mr_total_volume (mx_report x) = 5 \<and>
      mr_final_equity (mx_report x) = Fin 125 2 \<and> mr_realized_pnl (mx_report x) = Fin 125 2 \<and>
      comparable_report (session_report_dict (mx_report x))"
    apply (simp add: session_finish_def session_report_of_def sample_market_def sample_after_def sample_fields symbol_pnl_def
        dict_at_def Let_def float_values float_zero_def sample_products mean_int_def mean_float_def dict_from_def
        del: float_mul.simps float_add.simps)
    apply (simp add: session_report_dict_def comparable_report_def int_dict_def float_dict_def timestamp_keys_def is_number_def
        finite_metric_cases metric_value_def float_values)
    done
  with run that show ?thesis by auto
qed

lemma sample_session_artifacts:
  obtains messages a where "run_session sample_exchange sample_random True sample_session = (messages, Inr a)"
    "comparable_report (af_report a)"
proof -
  obtain messages x where x: "run_market_session sample_exchange sample_random sample_market (Some (10, True)) = (messages, Inr x)"
    "comparable_report (session_report_dict (mx_report x))"
    by (rule sample_session_run)
  have fields: "se_scenario sample_session = ''trending_up''" "se_progress_interval sample_session = 10"
    "se_stream_snapshots sample_session" "se_initial_cash sample_session = 0"
    by (simp_all add: sample_session_def)
  obtain a where "session_artifacts sample_session x = Inr a" "af_report a = session_report_dict (mx_report x)"
    by (simp add: session_artifacts_def fields float_values Let_def)
  then show ?thesis using that x by (simp add: run_session_def fields sample_scenario sample_market_config)
qed

theorem session_calls_only_witness:
  "run_market_session (guarded sample_market sample_exchange) sample_random sample_market None =
     run_market_session sample_exchange sample_random sample_market None"
  by (rule session_calls_only [OF sample_randint]) (simp add: sample_market_def)

theorem session_report_counts_witness:
  "\<exists>messages x. run_market_session sample_exchange sample_random sample_market (Some (10, True)) = (messages, Inr x) \<and>
     total_traded_qty (mx_events x) = 5 \<and> mr_halted_symbols (mx_report x) = sorted_list_of_set (halted_after (mx_events x))"
proof -
  obtain messages x where "run_market_session sample_exchange sample_random sample_market (Some (10, True)) = (messages, Inr x)"
    "mr_total_volume (mx_report x) = 5" by (rule sample_session_run)
  then show ?thesis using session_report_counts [of sample_exchange sample_random sample_market "Some (10, True)" messages x]
    by (auto simp: sample_market_def)
qed

theorem session_progress_messages_witness:
  "\<exists>messages x. run_market_session sample_exchange sample_random sample_market (Some (10, True)) = (messages, Inr x) \<and>
     map (\<lambda>m. dget m ''step'') messages = [PInt 1]"
proof -
  obtain messages x where run: "run_market_session sample_exchange sample_random sample_market (Some (10, True)) = (messages, Inr x)"
    by (rule sample_session_run)
  have "map fst (map (\<lambda>m. (dget m ''step'', dget m ''detail'')) messages) = [PInt 1]"
    using session_progress_messages [OF run] by (simp add: sample_market_def)
  then show ?thesis using run by (auto simp: comp_def)
qed

theorem session_executes_and_verifies_witness:
  "\<exists>eg rv p. snd (verify_run sql_ops rv ''s'' (fst (execute_pending_run sql_ops quiet_codec eg ''s''
      (sample_env [St_Create 5 ''s'' Session (dump_session sample_session)])))) = Inr p \<and>
    dget p ''status'' = PStr ''verified''"
proof -
  let ?et = "\<lambda>model bad. []" and ?os = "[St_Create 5 ''s'' Session (dump_session sample_session)]"
  let ?eg = "good_engines\<lparr>eg_session := session_executor sample_exchange sample_random ?et\<rparr>"
  let ?rv = "sample_rv\<lparr>rv_session := session_rerun sample_exchange sample_random ?et\<rparr>"
  obtain messages a where run: "run_session sample_exchange sample_random True sample_session = (messages, Inr a)"
    and finite: "comparable_report (af_report a)" by (rule sample_session_artifacts)
  have fresh: "fresh_ops encode_json snapshot_order (St_Create 5 ''r'' Session [] # ?os) (\<lambda>i. None)" by simp
  obtain r where get: "sql_get_run ''s'' (en_store (sample_env ?os)) = Some r"
    and r: "rr_run_type r = Session" "rr_config r = encode_json (dump_session sample_session)" "rr_status r = Pending"
    using sql_run_spec [OF fresh, of "''s''"]
    by (simp add: sample_env_def encode_json_def new_run_def)
  have "parse_session ?et (rr_config r) = Inr sample_session"
    using parse_stored_session [OF sample_session_accepted, of ?et] by (simp add: r sample_session_def)
  then have "\<exists>p. snd (verify_run sql_ops ?rv ''s'' (fst (execute_pending_run sql_ops quiet_codec ?eg ''s'' (sample_env ?os)))) =
      Inr p \<and> dget p ''status'' = PStr ''verified''"
    using session_executes_and_verifies [OF sample_env_ok [OF fresh] get r(1) _ _ run finite, of ?et ?eg ?rv quiet_codec]
    by (auto simp: r sample_rv_def split: prod.splits)
  then show ?thesis by blast
qed

end
