(* ===== verification/Backtest_Runner.thy ===== *)
theory Backtest_Runner
  imports Order_Books Analytics Api_Requests Run_Service
begin

text \<open>
  Backtests: \<open>sim/backtest/runner.py\<close> and \<open>sim/api/services/backtest_service.py\<close>. The engine object is a
  parameter (theory Order\_Books). The loop runs as long as the strategies ask for commands, so it is a
  partial function; for the strategies of the registry it returns.
\<close>

section \<open>Mid prices\<close>

definition best_price :: "book_level list \<Rightarrow> int option" where
  "best_price levels = (case levels of [] \<Rightarrow> None | l # _ \<Rightarrow> Some (lv_price l))"

text \<open>A symbol without a snapshot has the empty dictionary.\<close>

(* sim/backtest/runner.py:92-98 _mid *)
definition mid :: "book_snapshot option \<Rightarrow> int option result" where
  "mid snapshot =
     (case snapshot of
        None \<Rightarrow> Inr None
      | Some s \<Rightarrow>
          (case (best_price (bk_bids s), best_price (bk_asks s)) of
             (None, None) \<Rightarrow> Inr None
           | (None, Some ba) \<Rightarrow> Inr (Some ba)
           | (Some bb, None) \<Rightarrow> Inr (Some bb)
           | (Some bb, Some ba) \<Rightarrow>
               bind_r (int_truediv (bb + ba) 2) (\<lambda>q. bind_r (float_to_int q) (\<lambda>m. Inr (Some m)))))"

(* sim/backtest/runner.py:86-91 _mark_to_market *)
fun mark_to_market :: "(string \<times> int) list \<Rightarrow> (string \<times> book_snapshot) list \<Rightarrow> int \<Rightarrow> int result" where
  "mark_to_market [] snapshots acc = Inr acc"
| "mark_to_market ((symbol, qty) # positions) snapshots acc =
     bind_r (mid (map_of snapshots symbol)) (\<lambda>m.
       mark_to_market positions snapshots (case m of None \<Rightarrow> acc | Some p \<Rightarrow> acc + qty * p))"

section \<open>The runner\<close>

(* sim/backtest/runner.py:11-16 BacktestConfig *)
record backtest_config =
  bc_strategy_names :: "string list"
  bc_symbols :: "string list"
  bc_initial_cash :: int
  bc_depth_levels :: int

text \<open>The dictionary \<open>acct\<close>.\<close>

record account_state =
  ac_cash :: int
  ac_positions :: "(string \<times> int) list"
  ac_equity :: int

(* sim/backtest/runner.py:18-24 BacktestStep *)
record backtest_step =
  bs_step_index :: int
  bs_commands :: "command list"
  bs_events :: "event list"
  bs_market_snapshots :: "(string \<times> book_snapshot) list"
  bs_account_snapshot :: account_state

text \<open>The local variables of \<open>run\<close>, the engine, the strategies with their states, and the payloads the
  progress callback got.\<close>

record ('e, 's) backtest_state =
  bt_engine :: 'e
  bt_strategies :: "('s strategy \<times> 's) list"
  bt_cash :: int
  bt_positions :: "(string \<times> int) list"
  bt_pending :: "command list"
  bt_idx :: int
  bt_commands :: "command list"
  bt_events :: "event list"
  bt_steps :: "backtest_step list"
  bt_snapshots :: "(string \<times> book_snapshot) list list"
  bt_accounts :: "account_state list"
  bt_progress :: "pydict list"

text \<open>One event of a limit order: a trade moves the position in the symbol of the command and the cash.\<close>

(* sim/backtest/runner.py:59-62 run (one fill) *)
fun apply_fill :: "side \<Rightarrow> string \<Rightarrow> event \<Rightarrow> (string \<times> int) list \<times> int \<Rightarrow> (string \<times> int) list \<times> int" where
  "apply_fill side symbol (TradeExecuted (TradeExecutedData price qty _ _ _)) (positions, cash) =
     (let sign = (if side = BUY then 1 else - 1)
      in (AList.update symbol ((case map_of positions symbol of None \<Rightarrow> 0 | Some n \<Rightarrow> n) + sign * qty) positions,
          cash + (- sign) * (price * qty)))"
| "apply_fill side symbol _ book = book"

(* sim/backtest/runner.py:57-62 run (fills) *)
fun apply_fills :: "command \<Rightarrow> event list \<Rightarrow> (string \<times> int) list \<times> int \<Rightarrow> (string \<times> int) list \<times> int" where
  "apply_fills (LimitOrder side _ _ _ symbol) events book = fold (apply_fill side symbol) events book"
| "apply_fills _ events book = book"

(* sim/backtest/runner.py:63-65 run (strategies) *)
fun ask_strategies ::
  "(string \<times> pyval) list \<Rightarrow> event list \<Rightarrow> ('s strategy \<times> 's) list
   \<Rightarrow> (('s strategy \<times> 's) list \<times> command list) result" where
  "ask_strategies market events [] = Inr ([], [])"
| "ask_strategies market events ((strat, s) # rest) =
     (case collect_on_event strat s events of (s1, r1) \<Rightarrow>
        bind_r r1 (\<lambda>reactions.
        case on_market_data strat market s1 of (s2, r2) \<Rightarrow>
        bind_r r2 (\<lambda>quotes.
        bind_r (ask_strategies market events rest) (\<lambda>(rest', more).
          Inr ((strat, s2) # rest', reactions @ quotes @ more)))))"

fun mids :: "(string \<times> book_snapshot) list \<Rightarrow> string list \<Rightarrow> (string \<times> int option) list result" where
  "mids snaps [] = Inr []"
| "mids snaps (symbol # symbols) =
     bind_r (mid (map_of snaps symbol)) (\<lambda>m. bind_r (mids snaps symbols) (\<lambda>rest. Inr ((symbol, m) # rest)))"

text \<open>The payload of the progress callback; the dictionary of mid prices has one entry per symbol.\<close>

(* sim/backtest/runner.py:75-83 run (progress payload) *)
definition progress_payload ::
  "backtest_config \<Rightarrow> int \<Rightarrow> command list \<Rightarrow> event list \<Rightarrow> (string \<times> book_snapshot) list \<Rightarrow> command list
   \<Rightarrow> pydict result" where
  "progress_payload cfg idx all_commands all_events snaps pending =
     bind_r (mids snaps (bc_symbols cfg)) (\<lambda>ms. Inr
       [(''step'', PInt idx), (''total_steps'', PNone), (''symbols'', PList (map PStr (bc_symbols cfg))),
        (''total_orders'', PInt (int (length all_commands))), (''total_trades'', PInt (int (count_trades all_events))),
        (''latest_mid'', PDict (dict_from (\<lambda>symbol. case map_of ms symbol of Some (Some m) \<Rightarrow> PInt m | _ \<Rightarrow> PNone) (bc_symbols cfg))),
        (''pending_commands'', PInt (int (length pending)))])"

text \<open>Whether the callback is called: \<open>interval\<close> is None when there is no callback.\<close>

(* sim/backtest/runner.py:72-74 run (progress guard) *)
definition reports_progress :: "int option \<Rightarrow> int \<Rightarrow> command list \<Rightarrow> bool" where
  "reports_progress interval idx pending \<longleftrightarrow>
     (case interval of None \<Rightarrow> False | Some n \<Rightarrow> idx = 1 \<or> pending = [] \<or> idx mod (max 1 n) = 0)"

(* sim/backtest/runner.py:54-83 run (one iteration) *)
definition run_step ::
  "'e exchange \<Rightarrow> backtest_config \<Rightarrow> int option \<Rightarrow> command \<Rightarrow> command list \<Rightarrow> ('e, 's) backtest_state
   \<Rightarrow> ('e, 's) backtest_state result" where
  "run_step ex cfg interval command rest st =
     (let idx = bt_idx st + 1; all_commands = bt_commands st @ [command] in
      case execute_command (ex_engine ex) (bt_engine st) command of (e', executed) \<Rightarrow>
      bind_r executed (\<lambda>step_events.
      let all_events = bt_events st @ step_events;
          (positions, cash) = apply_fills command step_events (bt_positions st, bt_cash st);
          snaps = books ex (bc_depth_levels cfg) (bc_symbols cfg) e' in
      bind_r (ask_strategies (books_val snaps) step_events (bt_strategies st)) (\<lambda>(strategies, more).
      let pending = rest @ more in
      bind_r (mark_to_market positions snaps 0) (\<lambda>market.
      let acct = \<lparr>ac_cash = cash, ac_positions = positions, ac_equity = cash + market\<rparr> in
      bind_r (if reports_progress interval idx pending
              then bind_r (progress_payload cfg idx all_commands all_events snaps pending) (\<lambda>p. Inr [p])
              else Inr []) (\<lambda>messages. Inr
        \<lparr>bt_engine = e', bt_strategies = strategies, bt_cash = cash, bt_positions = positions,
         bt_pending = pending, bt_idx = idx, bt_commands = all_commands, bt_events = all_events,
         bt_steps = bt_steps st @ [\<lparr>bs_step_index = idx, bs_commands = [command], bs_events = step_events,
           bs_market_snapshots = snaps, bs_account_snapshot = acct\<rparr>],
         bt_snapshots = bt_snapshots st @ [snaps], bt_accounts = bt_accounts st @ [acct],
         bt_progress = bt_progress st @ messages\<rparr>)))))"

text \<open>A step that succeeds, with its parts named.\<close>

lemma run_step_Inr:
  assumes "run_step ex cfg interval command rest st = Inr st'"
  obtains e' step_events positions cash snaps market strategies more messages where
    "execute_command (ex_engine ex) (bt_engine st) command = (e', Inr step_events)"
    "apply_fills command step_events (bt_positions st, bt_cash st) = (positions, cash)"
    "snaps = books ex (bc_depth_levels cfg) (bc_symbols cfg) e'"
    "ask_strategies (books_val snaps) step_events (bt_strategies st) = Inr (strategies, more)"
    "mark_to_market positions snaps 0 = Inr market"
    "st' = \<lparr>bt_engine = e', bt_strategies = strategies, bt_cash = cash, bt_positions = positions,
       bt_pending = rest @ more, bt_idx = bt_idx st + 1, bt_commands = bt_commands st @ [command],
       bt_events = bt_events st @ step_events,
       bt_steps = bt_steps st @ [\<lparr>bs_step_index = bt_idx st + 1, bs_commands = [command], bs_events = step_events,
         bs_market_snapshots = snaps,
         bs_account_snapshot = \<lparr>ac_cash = cash, ac_positions = positions, ac_equity = cash + market\<rparr>\<rparr>],
       bt_snapshots = bt_snapshots st @ [snaps],
       bt_accounts = bt_accounts st @ [\<lparr>ac_cash = cash, ac_positions = positions, ac_equity = cash + market\<rparr>],
       bt_progress = bt_progress st @ messages\<rparr>"
proof -
  obtain e' step_events where ex: "execute_command (ex_engine ex) (bt_engine st) command = (e', Inr step_events)"
    using assms by (cases "execute_command (ex_engine ex) (bt_engine st) command";
        cases "snd (execute_command (ex_engine ex) (bt_engine st) command)") (auto simp: run_step_def Let_def)
  obtain positions cash where fills: "apply_fills command step_events (bt_positions st, bt_cash st) = (positions, cash)"
    by fastforce
  let ?snaps = "books ex (bc_depth_levels cfg) (bc_symbols cfg) e'"
  obtain strategies more where ask: "ask_strategies (books_val ?snaps) step_events (bt_strategies st) = Inr (strategies, more)"
    using assms unfolding run_step_def Let_def ex prod.case fills bind_r_simps by (auto simp: bind_r_Inr_iff)
  obtain market where market: "mark_to_market positions ?snaps 0 = Inr market"
    using assms unfolding run_step_def Let_def ex prod.case fills bind_r_simps ask by (auto simp: bind_r_Inr_iff)
  from assms show ?thesis
    unfolding run_step_def Let_def ex prod.case fills bind_r_simps ask market
    using that [OF ex fills refl ask market] by (auto simp: bind_r_Inr_iff)
qed

text \<open>The loop: the payloads so far come with an exception too.\<close>

(* sim/backtest/runner.py:53-83 run (loop) *)
partial_function (option) run_loop ::
  "'e exchange \<Rightarrow> backtest_config \<Rightarrow> int option \<Rightarrow> ('e, 's) backtest_state
   \<Rightarrow> (pydict list \<times> ('e, 's) backtest_state result) option" where
  "run_loop ex cfg interval st =
     (case bt_pending st of
        [] \<Rightarrow> Some (bt_progress st, Inr st)
      | command # rest \<Rightarrow>
          (case run_step ex cfg interval command rest st of
             Inl exc \<Rightarrow> Some (bt_progress st, Inl exc)
           | Inr st' \<Rightarrow> run_loop ex cfg interval st'))"

declare run_loop.simps [code]

text \<open>Induction on a loop that returned.\<close>

lemma run_loop_induct [consumes 1, case_names stop fail step]:
  fixes st :: "('e, 's) backtest_state"
  assumes ret: "run_loop ex cfg interval st = Some y"
    and stop: "\<And>st. bt_pending st = [] \<Longrightarrow> P st (bt_progress st, Inr st)"
    and fail: "\<And>st command rest exc. bt_pending st = command # rest \<Longrightarrow>
      run_step ex cfg interval command rest st = Inl exc \<Longrightarrow> P st (bt_progress st, Inl exc)"
    and step: "\<And>st command rest st' y. bt_pending st = command # rest \<Longrightarrow>
      run_step ex cfg interval command rest st = Inr st' \<Longrightarrow> P st' y \<Longrightarrow> P st y"
  shows "P st y"
proof -
  have "ex = ex \<and> cfg = cfg \<and> interval = interval \<longrightarrow> P st y"
  proof (rule run_loop.raw_induct [where P = "\<lambda>ex' cfg' interval' st y. ex' = ex \<and> cfg' = cfg \<and> interval' = interval \<longrightarrow> P st y"])
    show "run_loop ex cfg interval st = Some y" by (rule ret)
  next
    fix loop ex' cfg' interval' st y
    assume IH: "\<And>ex' cfg' interval' (st :: ('e, 's) backtest_state) y. loop ex' cfg' interval' st = Some y \<Longrightarrow>
        ex' = ex \<and> cfg' = cfg \<and> interval' = interval \<longrightarrow> P st y"
      and eq: "(case bt_pending st of [] \<Rightarrow> Some (bt_progress st, Inr st)
        | command # rest \<Rightarrow>
          (case run_step ex' cfg' interval' command rest st of
             Inl exc \<Rightarrow> Some (bt_progress st, Inl exc)
           | Inr st' \<Rightarrow> loop ex' cfg' interval' st')) = Some y"
    show "ex' = ex \<and> cfg' = cfg \<and> interval' = interval \<longrightarrow> P st y"
    proof (intro impI, elim conjE)
      assume same: "ex' = ex" "cfg' = cfg" "interval' = interval"
      show "P st y"
      proof (cases "bt_pending st")
        case Nil
        with eq stop show ?thesis by auto
      next
        case (Cons command rest)
        show ?thesis
        proof (cases "run_step ex cfg interval command rest st")
          case (Inl exc)
          with eq Cons same fail show ?thesis by auto
        next
          case (Inr st')
          with eq Cons same have "loop ex cfg interval st' = Some y" by simp
          with IH have "P st' y" by blast
          with step Cons Inr show ?thesis by blast
        qed
      qed
    qed
  qed
  then show ?thesis by simp
qed

section \<open>The report\<close>

(* sim/backtest/runner.py:26-30 BacktestReport *)
record backtest_report =
  br_starting_equity :: int
  br_ending_equity :: int
  br_realized_pnl :: pyfloat
  br_unrealized_pnl :: pyfloat
  br_total_fees :: int
  br_total_traded_notional :: int
  br_total_trades :: int
  br_total_orders :: int
  br_fill_ratio :: pyfloat
  br_rejected_orders :: int
  br_per_symbol_volume :: "(string \<times> int) list"
  br_per_symbol_position :: "(string \<times> int) list"
  br_cash_balance :: int
  br_equity_curve :: "int list"

fun trade_symbol :: "event \<Rightarrow> string" where
  "trade_symbol (TradeExecuted (TradeExecutedData _ _ _ _ symbol)) = symbol"
| "trade_symbol _ = []"

abbreviation is_rejection :: "event \<Rightarrow> bool" where
  "is_rejection e \<equiv> event_type e = ''OrderRejected''"

(* sim/backtest/runner.py:101-102 _build_report (volumes) *)
definition add_volume :: "event \<Rightarrow> (string \<times> int) list \<Rightarrow> (string \<times> int) list" where
  "add_volume t volumes = AList.update (trade_symbol t)
     ((case map_of volumes (trade_symbol t) of None \<Rightarrow> 0 | Some n \<Rightarrow> n) + trade_qty t) volumes"

text \<open>The subtraction of a float from an integer converts the integer.\<close>

(* sim/backtest/runner.py:99-110 _build_report *)
definition build_backtest_report ::
  "backtest_config \<Rightarrow> int list option \<Rightarrow> command list \<Rightarrow> event list \<Rightarrow> account_state list \<Rightarrow> (string \<times> int) list \<Rightarrow> int
   \<Rightarrow> backtest_report result" where
  "build_backtest_report cfg fees commands events accounts positions cash =
     (let trades = filter is_trade events;
          curve = bc_initial_cash cfg # map ac_equity accounts;
          end_equity = last curve
      in bind_r (if accounts = [] then Inr float_zero else int_to_float (ac_equity (last accounts) - cash)) (\<lambda>unrealized.
         bind_r (int_to_float (end_equity - bc_initial_cash cfg)) (\<lambda>gain.
         bind_r (if commands = [] then Inr float_zero else int_truediv (int (length trades)) (int (length commands)))
           (\<lambda>fill_ratio. Inr
         \<lparr>br_starting_equity = bc_initial_cash cfg, br_ending_equity = end_equity,
          br_realized_pnl = float_sub gain unrealized, br_unrealized_pnl = unrealized,
          br_total_fees = (case fees of None \<Rightarrow> 0 | Some fs \<Rightarrow> sum_list fs),
          br_total_traded_notional = sum_list (map trade_notional trades),
          br_total_trades = int (length trades), br_total_orders = int (length commands),
          br_fill_ratio = fill_ratio, br_rejected_orders = int (length (filter is_rejection events)),
          br_per_symbol_volume = fold add_volume trades (dict_from (\<lambda>s. 0) (bc_symbols cfg)),
          br_per_symbol_position = positions, br_cash_balance = cash, br_equity_curve = curve\<rparr>))))"

(* sim/backtest/runner.py:32-35 BacktestResult *)
record backtest_result =
  bx_config :: backtest_config
  bx_steps :: "backtest_step list"
  bx_commands :: "command list"
  bx_events :: "event list"
  bx_snapshots :: "(string \<times> book_snapshot) list list"
  bx_account_states :: "account_state list"
  bx_metrics :: backtest_report

text \<open>\<open>for s in strategies: pending.extend(s.on_start())\<close> and \<open>s.on_finish()\<close>.\<close>

fun start_strategies :: "('s strategy \<times> 's) list \<Rightarrow> (('s strategy \<times> 's) list \<times> command list) result" where
  "start_strategies [] = Inr ([], [])"
| "start_strategies ((strat, s) # rest) =
     (case on_start strat s of (s', r) \<Rightarrow>
        bind_r r (\<lambda>commands. bind_r (start_strategies rest) (\<lambda>(rest', more). Inr ((strat, s') # rest', commands @ more))))"

fun finish_strategies :: "('s strategy \<times> 's) list \<Rightarrow> unit result" where
  "finish_strategies [] = Inr ()"
| "finish_strategies ((strat, s) # rest) = bind_r (snd (on_finish strat s)) (\<lambda>_. finish_strategies rest)"

(* sim/backtest/runner.py:48-52 run (initial values) *)
definition initial_state ::
  "'e exchange \<Rightarrow> backtest_config \<Rightarrow> ('s strategy \<times> 's) list \<Rightarrow> command list \<Rightarrow> ('e, 's) backtest_state" where
  "initial_state ex cfg strategies pending =
     \<lparr>bt_engine = ex_new ex, bt_strategies = strategies, bt_cash = bc_initial_cash cfg,
      bt_positions = dict_from (\<lambda>s. 0) (bc_symbols cfg), bt_pending = pending, bt_idx = 0, bt_commands = [],
      bt_events = [], bt_steps = [], bt_snapshots = [], bt_accounts = [], bt_progress = []\<rparr>"

(* sim/backtest/runner.py:84-85 run (result) *)
definition finish_run ::
  "'e exchange \<Rightarrow> backtest_config \<Rightarrow> ('e, 's) backtest_state \<Rightarrow> backtest_result result" where
  "finish_run ex cfg st =
     bind_r (finish_strategies (bt_strategies st)) (\<lambda>_.
     bind_r (build_backtest_report cfg (map_option (\<lambda>ledger. ledger (bt_engine st)) (ex_ledger ex))
         (bt_commands st) (bt_events st) (bt_accounts st) (bt_positions st) (bt_cash st)) (\<lambda>report. Inr
       \<lparr>bx_config = cfg, bx_steps = bt_steps st, bx_commands = bt_commands st, bx_events = bt_events st,
        bx_snapshots = bt_snapshots st, bx_account_states = bt_accounts st, bx_metrics = report\<rparr>))"

text \<open>The engine of the run is a new one. None is a run that does not end.\<close>

(* sim/backtest/runner.py:42-85 run *)
definition run_backtest_loop ::
  "'e exchange \<Rightarrow> backtest_config \<Rightarrow> ('s strategy \<times> 's) list \<Rightarrow> int option
   \<Rightarrow> (pydict list \<times> backtest_result result) option" where
  "run_backtest_loop ex cfg strategies interval =
     (case start_strategies strategies of
        Inl exc \<Rightarrow> Some ([], Inl exc)
      | Inr (strategies', pending) \<Rightarrow>
          map_option (\<lambda>(messages, r). (messages, bind_r r (finish_run ex cfg)))
            (run_loop ex cfg interval (initial_state ex cfg strategies' pending)))"

section \<open>The service\<close>

text \<open>\<open>asdict(report)\<close>, and the dictionary of an account.\<close>

definition backtest_report_dict :: "backtest_report \<Rightarrow> pydict" where
  "backtest_report_dict r =
     [(''starting_equity'', PInt (br_starting_equity r)), (''ending_equity'', PInt (br_ending_equity r)),
      (''realized_pnl'', PFloat (br_realized_pnl r)), (''unrealized_pnl'', PFloat (br_unrealized_pnl r)),
      (''total_fees'', PInt (br_total_fees r)), (''total_traded_notional'', PInt (br_total_traded_notional r)),
      (''total_trades'', PInt (br_total_trades r)), (''total_orders'', PInt (br_total_orders r)),
      (''fill_ratio'', PFloat (br_fill_ratio r)), (''rejected_orders'', PInt (br_rejected_orders r)),
      (''per_symbol_volume'', int_dict (br_per_symbol_volume r)),
      (''per_symbol_position'', int_dict (br_per_symbol_position r)),
      (''cash_balance'', PInt (br_cash_balance r)), (''equity_curve'', PList (map PInt (br_equity_curve r)))]"

definition account_dict :: "account_state \<Rightarrow> pydict" where
  "account_dict a = [(''cash'', PInt (ac_cash a)), (''positions'', int_dict (ac_positions a)),
     (''equity'', PInt (ac_equity a))]"

text \<open>The artifacts a caller keeps; nobody reads the keys \<open>config\<close> and \<open>steps\<close> of the result.\<close>

(* sim/api/services/backtest_service.py:47-52 run_backtest (artifacts) *)
definition backtest_artifacts :: "backtest_result \<Rightarrow> artifacts" where
  "backtest_artifacts result =
     \<lparr>af_report = backtest_report_dict (bx_metrics result),
      af_events = map dict_or_empty (serialize_events (bx_events result)),
      af_snapshots = map (\<lambda>(index, snapshot).
        [(''step'', PInt (int index + 1)), (''symbols'', PDict (books_val snapshot))]) (enum_list (bx_snapshots result)),
      af_accounts = map account_dict (bx_account_states result)\<rparr>"

definition config_of :: "backtest_request \<Rightarrow> backtest_config" where
  "config_of request = \<lparr>bc_strategy_names = [bq_strategy request], bc_symbols = bq_symbols request,
     bc_initial_cash = bq_initial_cash request, bc_depth_levels = bq_depth_levels request\<rparr>"

(* sim/api/services/backtest_service.py:22-54 run_backtest *)
definition run_backtest ::
  "'e exchange \<Rightarrow> bool \<Rightarrow> backtest_request \<Rightarrow> (pydict list \<times> artifacts result) option" where
  "run_backtest ex with_callback request =
     (case get_strategy (bq_strategy request) of
        Inl exc \<Rightarrow> Some ([], Inl (case exc of ValueError m \<Rightarrow> InvalidRequestError m | _ \<Rightarrow> exc))
      | Inr strategy \<Rightarrow>
          map_option (\<lambda>(messages, r). (messages, bind_r r (\<lambda>result. Inr (backtest_artifacts result))))
            (run_backtest_loop ex (config_of request) [(strategy, ())]
              (if with_callback then Some (bq_progress_interval request) else None)))"

end
