(* ===== verification/Backtest_Props.thy ===== *)
theory Backtest_Props
  imports Backtest_Runner Request_Parsing Artifact_Laws
begin

text \<open>
  Properties of backtests: the books a run keeps, that a run of a registered strategy returns, and that an
  executed backtest is verified by a second execution.
\<close>

section \<open>What the steps leave behind\<close>

text \<open>The cash and the quantity a step moves: only trades of limit orders count.\<close>

fun side_sign :: "side \<Rightarrow> int" where
  "side_sign BUY = 1"
| "side_sign SELL = - 1"

fun cash_flow :: "command \<Rightarrow> event list \<Rightarrow> int" where
  "cash_flow (LimitOrder side _ _ _ _) events = - side_sign side * sum_list (map trade_notional events)"
| "cash_flow _ events = 0"

fun quantity_flow :: "string \<Rightarrow> command \<Rightarrow> event list \<Rightarrow> int" where
  "quantity_flow s (LimitOrder side _ _ _ symbol) events =
     (if symbol = s then side_sign side * sum_list (map trade_qty events) else 0)"
| "quantity_flow s _ events = 0"

definition position :: "(string \<times> int) list \<Rightarrow> string \<Rightarrow> int" where
  "position ps s = (case map_of ps s of None \<Rightarrow> 0 | Some n \<Rightarrow> n)"

lemma apply_fill_flow:
  "snd (apply_fill side symbol e (ps, cash)) = cash - side_sign side * trade_notional e"
  "position (fst (apply_fill side symbol e (ps, cash))) s =
    position ps s + (if symbol = s then side_sign side * trade_qty e else 0)"
proof -
  have "snd (apply_fill side symbol e (ps, cash)) = cash - side_sign side * trade_notional e \<and>
    position (fst (apply_fill side symbol e (ps, cash))) s =
      position ps s + (if symbol = s then side_sign side * trade_qty e else 0)"
  proof (cases "\<exists>d. e = TradeExecuted d")
    case True
    then obtain d where "e = TradeExecuted d" by blast
    then show ?thesis by (cases d; cases side) (auto simp: position_def update_conv' Let_def)
  next
    case False
    then show ?thesis by (cases e) auto
  qed
  then show "snd (apply_fill side symbol e (ps, cash)) = cash - side_sign side * trade_notional e"
    "position (fst (apply_fill side symbol e (ps, cash))) s =
      position ps s + (if symbol = s then side_sign side * trade_qty e else 0)" by blast+
qed

lemma apply_fills_flow:
  assumes "apply_fills command events (ps, cash) = (ps', cash')"
  shows "cash' = cash + cash_flow command events"
    and "position ps' s = position ps s + quantity_flow s command events"
proof -
  have fills: "snd (fold (apply_fill side symbol) events (ps, cash)) = cash - side_sign side * sum_list (map trade_notional events) \<and>
    position (fst (fold (apply_fill side symbol) events (ps, cash))) s =
      position ps s + (if symbol = s then side_sign side * sum_list (map trade_qty events) else 0)"
    for side symbol ps cash
  proof (induction events arbitrary: ps cash)
    case (Cons e events)
    obtain ps1 c1 where e: "apply_fill side symbol e (ps, cash) = (ps1, c1)" by fastforce
    have c1: "c1 = cash - side_sign side * trade_notional e"
      "position ps1 s = position ps s + (if symbol = s then side_sign side * trade_qty e else 0)"
      using apply_fill_flow [of side symbol e ps cash] by (simp_all add: e)
    show ?case using Cons [of ps1 c1] by (simp add: e c1 algebra_simps)
  qed simp
  have "cash' = cash + cash_flow command events \<and> position ps' s = position ps s + quantity_flow s command events"
  proof (cases "\<exists>side price qty tif symbol. command = LimitOrder side price qty tif symbol")
    case True
    then obtain side price qty tif symbol where command: "command = LimitOrder side price qty tif symbol" by blast
    show ?thesis using fills [of side symbol ps cash] assms by (simp add: command)
  next
    case False
    then show ?thesis using assms by (cases command) auto
  qed
  then show "cash' = cash + cash_flow command events" "position ps' s = position ps s + quantity_flow s command events"
    by blast+
qed

text \<open>The books of a run: one command per step, numbered from 1; all commands, events, snapshots and accounts
  of the run are those of its steps; every account holds the cash and the quantities of the steps so far
  and is marked at the snapshots of its step.\<close>

definition step_cash :: "backtest_step \<Rightarrow> int" where
  "step_cash step = sum_list (map (\<lambda>c. cash_flow c (bs_events step)) (bs_commands step))"

definition step_quantity :: "string \<Rightarrow> backtest_step \<Rightarrow> int" where
  "step_quantity s step = sum_list (map (\<lambda>c. quantity_flow s c (bs_events step)) (bs_commands step))"

definition account_ok :: "int \<Rightarrow> backtest_step list \<Rightarrow> backtest_step \<Rightarrow> bool" where
  "account_ok cash0 steps step \<longleftrightarrow>
     (let a = bs_account_snapshot step in
      ac_cash a = cash0 + sum_list (map step_cash steps) \<and>
      (\<forall>s. position (ac_positions a) s = sum_list (map (step_quantity s) steps)) \<and>
      mark_to_market (ac_positions a) (bs_market_snapshots step) 0 = Inr (ac_equity a - ac_cash a))"

definition steps_ok :: "int \<Rightarrow> backtest_step list \<Rightarrow> bool" where
  "steps_ok cash0 steps \<longleftrightarrow>
     (\<forall>k < length steps. bs_step_index (steps ! k) = int k + 1 \<and> length (bs_commands (steps ! k)) = 1 \<and>
        account_ok cash0 (take (Suc k) steps) (steps ! k))"

lemma steps_ok_snoc:
  "steps_ok cash0 (steps @ [step]) \<longleftrightarrow> steps_ok cash0 steps \<and> bs_step_index step = int (length steps) + 1 \<and>
     length (bs_commands step) = 1 \<and> account_ok cash0 (steps @ [step]) step"
  by (auto simp: steps_ok_def nth_append less_Suc_eq)

definition run_ok :: "backtest_config \<Rightarrow> ('e, 's) backtest_state \<Rightarrow> bool" where
  "run_ok cfg st \<longleftrightarrow> steps_ok (bc_initial_cash cfg) (bt_steps st) \<and> bt_idx st = int (length (bt_steps st)) \<and>
     bt_commands st = concat (map bs_commands (bt_steps st)) \<and> bt_events st = concat (map bs_events (bt_steps st)) \<and>
     bt_snapshots st = map bs_market_snapshots (bt_steps st) \<and> bt_accounts st = map bs_account_snapshot (bt_steps st) \<and>
     bt_cash st = bc_initial_cash cfg + sum_list (map step_cash (bt_steps st)) \<and>
     (\<forall>s. position (bt_positions st) s = sum_list (map (step_quantity s) (bt_steps st))) \<and>
     (bt_steps st \<noteq> [] \<longrightarrow> ac_cash (bs_account_snapshot (last (bt_steps st))) = bt_cash st \<and>
        ac_positions (bs_account_snapshot (last (bt_steps st))) = bt_positions st)"

lemma run_step_ok:
  assumes "run_step ex cfg interval command rest st = Inr st'" and "run_ok cfg st"
  shows "run_ok cfg st'" "\<exists>step. bt_steps st' = bt_steps st @ [step] \<and> bs_commands step = [command]"
proof -
  from assms(1) obtain e' step_events positions cash snaps market strategies more messages where
    fills: "apply_fills command step_events (bt_positions st, bt_cash st) = (positions, cash)" and
    market: "mark_to_market positions snaps 0 = Inr market" and
    st': "st' = \<lparr>bt_engine = e', bt_strategies = strategies, bt_cash = cash, bt_positions = positions,
       bt_pending = rest @ more, bt_idx = bt_idx st + 1, bt_commands = bt_commands st @ [command],
       bt_events = bt_events st @ step_events,
       bt_steps = bt_steps st @ [\<lparr>bs_step_index = bt_idx st + 1, bs_commands = [command], bs_events = step_events,
         bs_market_snapshots = snaps,
         bs_account_snapshot = \<lparr>ac_cash = cash, ac_positions = positions, ac_equity = cash + market\<rparr>\<rparr>],
       bt_snapshots = bt_snapshots st @ [snaps],
       bt_accounts = bt_accounts st @ [\<lparr>ac_cash = cash, ac_positions = positions, ac_equity = cash + market\<rparr>],
       bt_progress = bt_progress st @ messages\<rparr>"
    by (rule run_step_Inr)
  show "run_ok cfg st'" "\<exists>step. bt_steps st' = bt_steps st @ [step] \<and> bs_commands step = [command]"
    using assms(2) apply_fills_flow [OF fills] market
    by (auto simp: st' run_ok_def steps_ok_snoc account_ok_def Let_def step_cash_def step_quantity_def)
qed

lemma initial_ok:
  "run_ok cfg (initial_state ex cfg strategies pending)"
proof -
  have "position (fold (\<lambda>x d. AList.update x 0 d) xs d) s = 0" if "position d s = 0" for xs d s
    using that by (induction xs arbitrary: d) (auto simp: position_def update_conv')
  then have "position (dict_from (\<lambda>s. 0) (bc_symbols cfg)) s = 0" for s
    by (simp add: dict_from_def position_def)
  then show ?thesis by (simp add: run_ok_def initial_state_def steps_ok_def)
qed

lemma run_loop_ok:
  assumes "run_loop ex cfg interval st = Some (messages, Inr st')" and "run_ok cfg st"
  shows "run_ok cfg st'" "bt_pending st' = []"
proof -
  have "\<forall>st'. snd y = Inr st' \<longrightarrow> run_ok cfg st \<longrightarrow> run_ok cfg st' \<and> bt_pending st' = []"
    if "run_loop ex cfg interval st = Some y" for y
    using that by (induction rule: run_loop_induct) (auto dest: run_step_ok(1))
  then show "run_ok cfg st'" "bt_pending st' = []" using assms by fastforce+
qed

lemma run_backtest_loop_ok:
  fixes strategies :: "('s strategy \<times> 's) list" and ex :: "'e exchange"
  assumes "run_backtest_loop ex cfg strategies interval = Some (messages, Inr res)"
  obtains st :: "('e, 's) backtest_state" where "run_ok cfg st" "finish_run ex cfg st = Inr res"
proof -
  obtain strategies' pending where start: "start_strategies strategies = Inr (strategies', pending)"
    using assms by (auto simp: run_backtest_loop_def split: sum.splits)
  obtain st where st: "run_loop ex cfg interval (initial_state ex cfg strategies' pending) = Some (messages, Inr st)"
    "finish_run ex cfg st = Inr res"
    using assms by (auto simp: run_backtest_loop_def start bind_r_Inr_iff)
  show ?thesis using that run_loop_ok(1) [OF st(1) initial_ok] st(2) by blast
qed

text \<open>C14 (the books of a backtest). In a backtest that ends, with any strategies and any engine, there is one
  account per step; its cash and positions are the initial ones moved by the trades of the limit orders up
  to that step, at the side and in the symbol of the order, and its equity marks these positions at the
  snapshots of the step. The report has the last of these figures, the totals of the event stream and one
  point of the equity curve per step. The trades of all other orders, such as market orders, move neither
  cash nor positions.\<close>

theorem backtest_accounting:
  fixes strategies :: "('s strategy \<times> 's) list" and ex :: "'e exchange"
  assumes "run_backtest_loop ex cfg strategies interval = Some (messages, Inr res)"
  shows "(\<forall>k < length (bx_steps res). account_ok (bc_initial_cash cfg) (take (Suc k) (bx_steps res)) (bx_steps res ! k) \<and>
      bs_step_index (bx_steps res ! k) = int k + 1) \<and>
    bx_account_states res = map bs_account_snapshot (bx_steps res) \<and>
    bx_events res = concat (map bs_events (bx_steps res)) \<and> bx_commands res = concat (map bs_commands (bx_steps res)) \<and>
    br_cash_balance (bx_metrics res) = bc_initial_cash cfg + sum_list (map step_cash (bx_steps res)) \<and>
    (\<forall>s. position (br_per_symbol_position (bx_metrics res)) s = sum_list (map (step_quantity s) (bx_steps res))) \<and>
    br_total_orders (bx_metrics res) = int (length (bx_steps res)) \<and>
    br_total_trades (bx_metrics res) = int (count_trades (bx_events res)) \<and>
    br_total_traded_notional (bx_metrics res) = traded_notional (bx_events res) \<and>
    br_equity_curve (bx_metrics res) = bc_initial_cash cfg # map ac_equity (bx_account_states res) \<and>
    br_ending_equity (bx_metrics res) = last (br_equity_curve (bx_metrics res))"
proof -
  obtain st :: "('e, 's) backtest_state" where ok: "run_ok cfg st" and fin: "finish_run ex cfg st = Inr res"
    using run_backtest_loop_ok [OF assms] .
  have one: "length (concat (map bs_commands (bt_steps st))) = length (bt_steps st)"
  proof -
    have "\<forall>step \<in> set (bt_steps st). length (bs_commands step) = 1"
      using ok by (auto simp: run_ok_def steps_ok_def in_set_conv_nth)
    then have "map (length \<circ> bs_commands) (bt_steps st) = map (\<lambda>_. 1) (bt_steps st)" by simp
    then show ?thesis by (simp add: length_concat comp_def sum_list_triv del: map_eq_conv)
  qed
  from fin have res: "bx_steps res = bt_steps st" "bx_events res = bt_events st" "bx_commands res = bt_commands st"
    "bx_account_states res = bt_accounts st"
    and report: "build_backtest_report cfg (map_option (\<lambda>ledger. ledger (bt_engine st)) (ex_ledger ex))
         (bt_commands st) (bt_events st) (bt_accounts st) (bt_positions st) (bt_cash st) = Inr (bx_metrics res)"
    by (auto simp: finish_run_def bind_r_Inr_iff)
  from report have m: "br_cash_balance (bx_metrics res) = bt_cash st" "br_per_symbol_position (bx_metrics res) = bt_positions st"
    "br_total_orders (bx_metrics res) = int (length (bt_commands st))"
    "br_total_trades (bx_metrics res) = int (count_trades (bt_events st))"
    "br_total_traded_notional (bx_metrics res) = traded_notional (bt_events st)"
    "br_equity_curve (bx_metrics res) = bc_initial_cash cfg # map ac_equity (bt_accounts st)"
    "br_ending_equity (bx_metrics res) = last (br_equity_curve (bx_metrics res))"
    by (auto simp: build_backtest_report_def Let_def bind_r_Inr_iff count_trades_def traded_notional_def
        dest!: sym [where t = "bx_metrics res"])
  show ?thesis
    using ok one by (simp add: res m run_ok_def steps_ok_def)
qed

section \<open>Strategies that only start\<close>

lemma ask_start_only: "ask_strategies market events [(start_only r, ())] = Inr ([(start_only r, ())], [])"
proof -
  have "collect_on_event (start_only r) () events = ((), Inr [])"
    by (induction events) (simp_all add: start_only_def)
  then show ?thesis by (simp add: start_only_def)
qed

lemma run_step_start_only:
  assumes "run_step ex cfg interval command rest st = Inr st'" and "bt_strategies st = [(start_only r, ())]"
  shows "bt_pending st' = rest" "bt_strategies st' = [(start_only r, ())]"
proof -
  from assms(1) show "bt_pending st' = rest" by (rule run_step_Inr) (simp add: assms(2) ask_start_only del: ask_strategies.simps)
  from assms(1) show "bt_strategies st' = [(start_only r, ())]" by (rule run_step_Inr) (simp add: assms(2) ask_start_only del: ask_strategies.simps)
qed

text \<open>The loop returns after as many steps as there are commands, at most.\<close>

lemma run_loop_start_only:
  assumes "bt_strategies st = [(start_only r, ())]"
  shows "\<exists>messages r'. run_loop ex cfg interval st = Some (messages, r') \<and>
    (\<forall>st'. r' = Inr st' \<longrightarrow> length (bt_steps st') = length (bt_steps st) + length (bt_pending st))"
  using assms
proof (induction "bt_pending st" arbitrary: st)
  case Nil
  then show ?case by (simp add: run_loop.simps [of ex cfg interval st])
next
  case (Cons command rest)
  show ?case
  proof (cases "run_step ex cfg interval command rest st")
    case (Inl exc)
    then show ?thesis using Cons(2) [symmetric] by (simp add: run_loop.simps [of ex cfg interval st])
  next
    case (Inr st1)
    note st1 = run_step_start_only [OF Inr Cons.prems]
    have len: "length (bt_steps st1) = length (bt_steps st) + 1"
      using Inr by (rule run_step_Inr) simp
    from Cons(1) [of st1] st1 len Inr Cons(2) [symmetric] show ?thesis
      by (simp add: run_loop.simps [of ex cfg interval st])
  qed
qed

lemma registered_strategy:
  assumes "get_strategy name = Inr strategy"
  obtains c1 c2 where "strategy = start_only (Inr [c1, c2])"
proof -
  from assms have "strategy \<in> {crossing_taker, simple_market_maker 99 101 1}"
    by (auto simp: get_strategy_def STRATEGY_REGISTRY_def split: if_splits)
  then show ?thesis using that by (auto simp: crossing_taker_def simple_market_maker_def)
qed

section \<open>With and without a progress callback\<close>

lemma run_step_quiet:
  assumes "run_step ex cfg interval command rest st = Inr st'"
  shows "run_step ex cfg None command rest (st\<lparr>bt_progress := ms\<rparr>) = Inr (st'\<lparr>bt_progress := ms\<rparr>)"
  using assms
  by (rule run_step_Inr) (simp add: run_step_def Let_def reports_progress_def)

lemma run_loop_quiet:
  "run_loop ex cfg interval st = Some y \<Longrightarrow> snd y = Inr st' \<Longrightarrow>
    run_loop ex cfg None (st\<lparr>bt_progress := ms\<rparr>) = Some (ms, Inr (st'\<lparr>bt_progress := ms\<rparr>))"
proof (induction rule: run_loop_induct)
  case (stop st)
  then show ?case by (simp add: run_loop.simps)
next
  case (step st command rest st1 y)
  then show ?case
    using run_step_quiet [OF step(2), of ms] by (simp add: run_loop.simps [of ex cfg None "st\<lparr>bt_progress := ms\<rparr>"])
qed simp

lemma run_backtest_quiet:
  assumes "run_backtest ex True request = Some (messages, Inr a)"
  shows "run_backtest ex False request = Some ([], Inr a)"
proof -
  obtain strategy where strategy: "get_strategy (bq_strategy request) = Inr strategy"
    using assms by (auto simp: run_backtest_def split: sum.splits)
  obtain res where res: "run_backtest_loop ex (config_of request) [(strategy, ())] (Some (bq_progress_interval request)) =
      Some (messages, Inr res)" "a = backtest_artifacts res"
    using assms by (auto simp: run_backtest_def strategy bind_r_Inr_iff)
  obtain strategies pending where start: "start_strategies [(strategy, ())] = Inr (strategies, pending)"
    using res(1) by (auto simp: run_backtest_loop_def split: sum.splits)
  let ?init = "initial_state ex (config_of request) strategies pending"
  obtain st where st: "run_loop ex (config_of request) (Some (bq_progress_interval request)) ?init = Some (messages, Inr st)"
    "finish_run ex (config_of request) st = Inr res"
    using res(1) by (auto simp: run_backtest_loop_def start bind_r_Inr_iff simp del: start_strategies.simps)
  have "run_loop ex (config_of request) None (?init\<lparr>bt_progress := []\<rparr>) = Some ([], Inr (st\<lparr>bt_progress := []\<rparr>))"
    using run_loop_quiet [OF st(1)] by simp
  moreover have "?init\<lparr>bt_progress := []\<rparr> = ?init" by (simp add: initial_state_def)
  moreover have "finish_run ex (config_of request) (st\<lparr>bt_progress := []\<rparr>) = Inr res"
    using st(2) by (simp add: finish_run_def)
  ultimately show ?thesis
    by (simp add: run_backtest_def strategy run_backtest_loop_def start res(2) del: start_strategies.simps)
qed

section \<open>The artifacts of a backtest\<close>

lemma apply_fills_distinct:
  assumes "apply_fills command events (ps, cash) = (ps', cash')" "distinct (map fst ps)"
  shows "distinct (map fst ps')"
proof -
  have one: "distinct (map fst (fst (apply_fill side symbol e b)))" if "distinct (map fst (fst b))" for side symbol e b
    using that by (cases "(side, symbol, e, b)" rule: apply_fill.cases) (simp_all add: Let_def distinct_update)
  have fills: "distinct (map fst (fst (fold (apply_fill side symbol) events b)))" if "distinct (map fst (fst b))" for side symbol b
    using that by (induction events arbitrary: b) (simp_all add: one)
  show ?thesis
  proof (cases command)
    case (LimitOrder side price qty tif symbol)
    then show ?thesis using assms fills [of "(ps, cash)" side symbol] by simp
  qed (use assms in simp_all)
qed

definition tidy :: "('e, 's) backtest_state \<Rightarrow> bool" where
  "tidy st \<longleftrightarrow> distinct (map fst (bt_positions st)) \<and> (\<forall>a \<in> set (bt_accounts st). distinct (map fst (ac_positions a))) \<and>
     (\<forall>s \<in> set (bt_snapshots st). distinct (map fst s))"

lemma run_step_tidy: "run_step ex cfg interval command rest st = Inr st' \<Longrightarrow> tidy st \<Longrightarrow> tidy st'"
  by (erule run_step_Inr) (auto simp: tidy_def books_def dest: apply_fills_distinct)

lemma run_loop_tidy: "run_loop ex cfg interval st = Some y \<Longrightarrow> snd y = Inr st' \<Longrightarrow> tidy st \<Longrightarrow> tidy st'"
  by (induction rule: run_loop_induct) (auto dest: run_step_tidy)

lemma sort_steps_fixed:
  "snapshot_order (map (\<lambda>(index, snapshot). (''step'', PInt (int index + 1)) # f snapshot) (enum_list xs)) =
    map (\<lambda>(index, snapshot). (''step'', PInt (int index + 1)) # f snapshot) (enum_list xs)"
proof -
  have "sorted (map (\<lambda>n. step_key (Some (int n + 1))) [0..<length xs])"
    by (simp add: sorted_iff_nth_mono step_key_def less_eq_prod_def)
  then have "sorted (map (\<lambda>d. step_key (int_value (dget d ''step'')))
      (map (\<lambda>(index, snapshot). (''step'', PInt (int index + 1)) # f snapshot) (enum_list xs)))"
    by (simp add: comp_def split_def dget_def map_fst_enum_list [symmetric] del: map_fst_enum_list)
  then show ?thesis unfolding snapshot_order_def by (rule sort_key_id_if_sorted)
qed

lemma backtest_artifacts_ordered:
  "snapshot_order (af_snapshots (backtest_artifacts res)) = af_snapshots (backtest_artifacts res)"
  using sort_steps_fixed [of "\<lambda>snapshot. [(''symbols'', PDict (books_val snapshot))]" "bx_snapshots res"]
  by (simp add: backtest_artifacts_def)

lemma nan_free_backtest:
  assumes "\<forall>a \<in> set (bx_account_states res). distinct (map fst (ac_positions a))"
    and "\<forall>s \<in> set (bx_snapshots res). distinct (map fst s)"
  shows "nan_free_items (af_events (backtest_artifacts res))" "nan_free_items (af_snapshots (backtest_artifacts res))"
    "nan_free_items (af_accounts (backtest_artifacts res))"
proof -
  show "nan_free_items (af_events (backtest_artifacts res))"
    using nan_free_events by (simp add: backtest_artifacts_def)
  have "nan_free (PDict (books_val s))" if "s \<in> set (bx_snapshots res)" for s
    using nan_free_books assms(2) that by blast
  then show "nan_free_items (af_snapshots (backtest_artifacts res))"
    by (auto simp: backtest_artifacts_def nan_free_items_def list_all_iff enum_list_def dest!: set_zip_rightD)
  have "nan_free (PDict (account_dict a))" if "a \<in> set (bx_account_states res)" for a
    using nan_free_int_dict assms(1) that by (simp add: account_dict_def)
  then show "nan_free_items (af_accounts (backtest_artifacts res))"
    by (simp add: backtest_artifacts_def nan_free_items_def list_all_iff del: nan_free.simps)
qed

text \<open>The result of a backtest that returned, in the order and shape that verification needs.\<close>

lemma run_backtest_artifacts:
  assumes "run_backtest ex with_callback request = Some (messages, Inr a)"
  shows "snapshot_order (af_snapshots a) = af_snapshots a"
    "nan_free_items (af_events a)" "nan_free_items (af_snapshots a)" "nan_free_items (af_accounts a)"
proof -
  obtain strategy interval res where res: "run_backtest_loop ex (config_of request) [(strategy, ())] interval =
      Some (messages, Inr res)" "a = backtest_artifacts res"
    using assms by (auto simp: run_backtest_def bind_r_Inr_iff split: sum.splits)
  obtain strategies pending where start: "start_strategies [(strategy, ())] = Inr (strategies, pending)"
    using res(1) by (auto simp: run_backtest_loop_def split: sum.splits)
  obtain st where st: "run_loop ex (config_of request) interval (initial_state ex (config_of request) strategies pending) =
      Some (messages, Inr st)" "finish_run ex (config_of request) st = Inr res"
    using res(1) by (auto simp: run_backtest_loop_def start bind_r_Inr_iff simp del: start_strategies.simps)
  have "tidy st" using run_loop_tidy [OF st(1)] by (simp add: tidy_def initial_state_def)
  then have "\<forall>a \<in> set (bx_account_states res). distinct (map fst (ac_positions a))"
    "\<forall>s \<in> set (bx_snapshots res). distinct (map fst s)"
    using st(2) by (auto simp: tidy_def finish_run_def bind_r_Inr_iff)
  from nan_free_backtest [OF this] backtest_artifacts_ordered [of res]
  show "snapshot_order (af_snapshots a) = af_snapshots a"
    "nan_free_items (af_events a)" "nan_free_items (af_snapshots a)" "nan_free_items (af_accounts a)"
    by (simp_all add: res(2))
qed

section \<open>Execution and verification\<close>

text \<open>C15 (backtests end). A backtest of an accepted request returns, whatever the engine does: with an error, or
  with one snapshot and one account for each of the two orders that every registered strategy places at its
  start. A strategy that is not registered is refused before anything runs.\<close>

theorem backtest_returns:
  fixes ex :: "'e exchange"
  shows "\<exists>messages r. run_backtest ex with_callback request = Some (messages, r) \<and>
    (\<forall>a. r = Inr a \<longrightarrow> length (af_snapshots a) = 2 \<and> length (af_accounts a) = 2 \<and>
       map (\<lambda>s. dget s ''step'') (af_snapshots a) = [PInt 1, PInt 2]) \<and>
    (bq_strategy request \<notin> set list_strategy_names \<longrightarrow> messages = [] \<and> (\<exists>m. r = Inl (InvalidRequestError m)))"
proof (cases "get_strategy (bq_strategy request)")
  case (Inl exc)
  then obtain m where "exc = ValueError m" by (auto simp: get_strategy_def split: option.splits)
  then show ?thesis by (simp add: run_backtest_def Inl)
next
  case (Inr strategy)
  then obtain c1 c2 where strategy: "strategy = start_only (Inr [c1, c2])" by (rule registered_strategy)
  have start: "start_strategies [(strategy, ())] = Inr ([(strategy, ())], [c1, c2])"
    by (simp add: strategy start_only_def)
  let ?cfg = "config_of request" and ?interval = "if with_callback then Some (bq_progress_interval request) else None"
  let ?init = "initial_state ex ?cfg [(strategy, ())] [c1, c2]"
  obtain messages r where loop: "run_loop ex ?cfg ?interval ?init = Some (messages, r)"
    and steps: "\<And>st. r = Inr st \<Longrightarrow> length (bt_steps st) = 2"
    using run_loop_start_only [of ?init "Inr [c1, c2]" ex ?cfg ?interval] by (auto simp: initial_state_def strategy)
  have run: "run_backtest ex with_callback request = Some (messages, bind_r (bind_r r (finish_run ex ?cfg))
      (\<lambda>result. Inr (backtest_artifacts result)))"
    by (simp add: run_backtest_def Inr run_backtest_loop_def start loop del: start_strategies.simps)
  have "length (af_snapshots a) = 2 \<and> length (af_accounts a) = 2 \<and>
      map (\<lambda>s. dget s ''step'') (af_snapshots a) = [PInt 1, PInt 2]"
    if a: "bind_r (bind_r r (finish_run ex ?cfg)) (\<lambda>result. Inr (backtest_artifacts result)) = Inr a" for a
  proof -
    obtain st :: "('e, unit) backtest_state" and res
      where st: "r = Inr st" "finish_run ex ?cfg st = Inr res" "a = backtest_artifacts res"
      using a by (auto simp: bind_r_Inr_iff)
    have "run_ok ?cfg st" using run_loop_ok(1) [OF loop [unfolded st(1)] initial_ok] .
    then have len: "length (bx_snapshots res) = 2" "length (bx_account_states res) = 2"
      using steps [OF st(1)] st(2) by (auto simp: run_ok_def finish_run_def bind_r_Inr_iff)
    then obtain x y where "bx_snapshots res = [x, y]" by (auto simp: numeral_2_eq_2 length_Suc_conv)
    then show ?thesis using len by (simp add: st(3) backtest_artifacts_def enum_list_def dget_def)
  qed
  moreover have "bq_strategy request \<in> set list_strategy_names"
    using Inr by (force simp: get_strategy_def list_strategy_names_def split: option.splits dest!: map_of_SomeD)
  ultimately show ?thesis using run by blast
qed

text \<open>The engines of the run service and of the replay service, on an engine object: the stored configuration is
  read as a request, then run, for the replay without a callback.\<close>

(* sim/api/services/run_service.py:48-55 execute_pending_run (backtest) *)
definition backtest_executor :: "'e exchange \<Rightarrow> error_text \<Rightarrow> pydict \<Rightarrow> executor result" where
  "backtest_executor ex et config =
     bind_r (parse_backtest et config) (\<lambda>request. Inr (\<lambda>run_id. the (run_backtest ex True request)))"

(* sim/api/services/replay_service.py:133-135 verify_run (backtest) *)
definition backtest_rerun :: "'e exchange \<Rightarrow> error_text \<Rightarrow> pydict \<Rightarrow> pydict result" where
  "backtest_rerun ex et config =
     bind_r (parse_backtest et config) (\<lambda>request.
     bind_r (snd (the (run_backtest ex False request))) (\<lambda>a. Inr (replay_dict a)))"

text \<open>C16 (backtests verify). Executing a stored backtest and then verifying it always yields \<open>verified\<close>, with
  any engine that starts in the same state and is a function of its calls, as long as the execution succeeds
  and the figures of the report are finite floats. Neither NaN nor the order of the snapshots can get in the
  way, and the calls of the progress callback do not change the result.\<close>

theorem backtest_executes_and_verifies:
  assumes "sql_ok (en_store e)" and "sql_get_run i (en_store e) = Some r" and "rr_run_type r = Backtest"
    and "rr_status r \<notin> {Completed, Canceled}" and "parse_backtest et (rr_config r) = Inr request"
    and "run_backtest ex True request = Some (messages, Inr a)" and "comparable_report (af_report a)"
    and "eg_backtest eg = backtest_executor ex et" and "rv_backtest rv = backtest_rerun ex et"
  shows "case execute_pending_run sql_ops cd eg i e of (e1, res1) \<Rightarrow>
    (case verify_run sql_ops rv i e1 of (e2, res2) \<Rightarrow>
      \<exists>p r2. res2 = rv_model rv p \<and> dget p ''status'' = PStr ''verified'' \<and>
        dget p ''mismatched_fields'' = PList [] \<and> dget p ''first_divergence_step'' = PNone \<and>
        sql_get_run i (en_store e2) = Some r2 \<and> rr_status r2 = Completed \<and> rr_verification r2 = encode_json p \<and>
        (\<forall>j. j \<noteq> i \<longrightarrow> sql_get_run j (en_store e2) = sql_get_run j (en_store e)))"
proof (rule executed_verified [OF assms(1,2,4)])
  note a = run_backtest_artifacts [OF assms(6)]
  show "(rr_run_type r = Session \<and> eg_session eg (rr_config r) = Inr (\<lambda>run_id. the (run_backtest ex True request))) \<or>
      (rr_run_type r = Backtest \<and> eg_backtest eg (rr_config r) = Inr (\<lambda>run_id. the (run_backtest ex True request)))"
    using assms(3,5,8) by (simp add: backtest_executor_def)
  show "snd (the (run_backtest ex True request)) = Inr a" using assms(6) by simp
  show "rerun rv r = Inr (replay_dict a)"
    using assms(3,5,9) run_backtest_quiet [OF assms(6)] by (simp add: rerun_def backtest_rerun_def)
  show "snapshot_order (af_snapshots a) = af_snapshots a" by (rule a(1))
  show "clean_artifacts (replay_dict a)"
    using a(2-4) assms(7) by (simp add: clean_artifacts_def replay_dict_streams)
qed

section \<open>A concrete backtest\<close>

lemma mid_empty: "mid (Some \<lparr>bk_symbol = s, bk_sequence_number = n, bk_bids = [], bk_asks = []\<rparr>) = Inr None"
  by (simp add: mid_def best_price_def)

lemma sample_taker:
  "start_strategies [(crossing_taker, ())] =
     Inr ([(crossing_taker, ())], [LimitOrder BUY 100 10 GTC ''DEFAULT'', LimitOrder SELL 100 5 GTC ''DEFAULT''])"
  "ask_strategies market events [(crossing_taker, ())] = Inr ([(crossing_taker, ())], [])"
  "finish_strategies [(crossing_taker, ())] = Inr ()"
  using ask_start_only [of market events]
  by (simp_all add: crossing_taker_def start_only_def limit_order_def DEFAULT_SYMBOL_def)

lemma sample_floats:
  "int_to_float 0 = Inr (Fin 0 0)" "int_to_float 500 = Inr (Fin 125 2)" "int_to_float 100 = Inr (Fin 25 2)"
  "int_to_float 5 = Inr (Fin 5 0)" "int_to_float 1 = Inr (Fin 1 0)" "int_to_float 2 = Inr (Fin 1 1)"
  "int_truediv 1 2 = Inr (Fin 1 (- 1))"
  by (simp_all add: float_eval)

lemma float_of_500: "float_of_int 500 = Fin 125 2"
  by (simp add: float_eval)

lemma sample_gain: "float_sub (Fin 125 2) (Fin 0 0) = Fin 125 2"
  using float_of_500 by (simp add: float_sub_def float_of_int_def)

lemma sample_backtest_loop:
  obtains messages res where
    "run_backtest_loop sample_exchange (config_of sample_request) [(crossing_taker, ())] (Some 10) = Some (messages, Inr res)"
    "comparable_report (backtest_report_dict (bx_metrics res))" "length (bx_steps res) = 2"
    "br_cash_balance (bx_metrics res) = 500"
proof -
  have "\<exists>messages res. run_backtest_loop sample_exchange (config_of sample_request) [(crossing_taker, ())] (Some 10) =
      Some (messages, Inr res) \<and> comparable_report (backtest_report_dict (bx_metrics res)) \<and> length (bx_steps res) = 2 \<and>
      br_cash_balance (bx_metrics res) = 500"
    apply (simp add: run_backtest_loop_def sample_taker initial_state_def sample_request_def default_backtest_def
        config_of_def dict_from_def sample_fields del: start_strategies.simps)
    apply (simp add: run_loop.simps [where ex = sample_exchange] run_step_def execute_command_def sample_calls
        sample_fields mid_empty sample_taker reports_progress_def progress_payload_def dict_from_def Let_def
        del: ask_strategies.simps)
    apply (simp add: finish_run_def build_backtest_report_def Let_def sample_fields sample_taker sample_floats float_zero_def
        is_trade_iff sample_gain del: finish_strategies.simps)
    apply (simp add: backtest_report_dict_def comparable_report_def int_dict_def timestamp_keys_def is_number_def
        finite_metric_cases metric_value_def sample_floats)
    done
  then show ?thesis using that by blast
qed

lemma sample_backtest:
  obtains messages a where "run_backtest sample_exchange True sample_request = Some (messages, Inr a)"
    "comparable_report (af_report a)"
proof -
  obtain messages res where res: "run_backtest_loop sample_exchange (config_of sample_request) [(crossing_taker, ())] (Some 10) =
      Some (messages, Inr res)" "comparable_report (backtest_report_dict (bx_metrics res))"
    by (rule sample_backtest_loop)
  have "get_strategy (bq_strategy sample_request) = Inr crossing_taker" "bq_progress_interval sample_request = 10"
    by (simp_all add: sample_request_def default_backtest_def get_strategy_def STRATEGY_REGISTRY_def)
  then show ?thesis using that [of messages "backtest_artifacts res"] res
    by (simp add: run_backtest_def backtest_artifacts_def)
qed

theorem backtest_accounting_witness:
  "\<exists>messages res. run_backtest_loop sample_exchange (config_of sample_request) [(crossing_taker, ())] (Some 10) =
      Some (messages, Inr res) \<and> length (bx_steps res) = 2 \<and> br_cash_balance (bx_metrics res) = 500 \<and>
      br_equity_curve (bx_metrics res) = 0 # map ac_equity (bx_account_states res)"
proof -
  obtain messages res where res: "run_backtest_loop sample_exchange (config_of sample_request) [(crossing_taker, ())] (Some 10) =
      Some (messages, Inr res)" "length (bx_steps res) = 2" "br_cash_balance (bx_metrics res) = 500"
    by (rule sample_backtest_loop)
  then show ?thesis
    using backtest_accounting [OF res(1)] by (auto simp: config_of_def sample_request_def)
qed

theorem backtest_returns_witness:
  "\<exists>messages a. run_backtest sample_exchange True sample_request = Some (messages, Inr a) \<and> length (af_accounts a) = 2"
proof -
  obtain messages a where "run_backtest sample_exchange True sample_request = Some (messages, Inr a)"
    by (rule sample_backtest)
  then show ?thesis using backtest_returns [of sample_exchange True sample_request] by auto
qed

theorem backtest_executes_and_verifies_witness:
  "\<exists>eg rv p. snd (verify_run sql_ops rv ''b'' (fst (execute_pending_run sql_ops quiet_codec eg ''b''
      (sample_env [St_Create 5 ''b'' Backtest (dump_backtest sample_request)])))) = Inr p \<and>
    dget p ''status'' = PStr ''verified''"
proof -
  let ?et = "\<lambda>model bad. []" and ?os = "[St_Create 5 ''b'' Backtest (dump_backtest sample_request)]"
  let ?eg = "good_engines\<lparr>eg_backtest := backtest_executor sample_exchange ?et\<rparr>"
  let ?rv = "sample_rv\<lparr>rv_backtest := backtest_rerun sample_exchange ?et\<rparr>"
  obtain messages a where run: "run_backtest sample_exchange True sample_request = Some (messages, Inr a)"
    and finite: "comparable_report (af_report a)" by (rule sample_backtest)
  have fresh: "fresh_ops encode_json snapshot_order (St_Create 5 ''r'' Session [] # ?os) (\<lambda>i. None)" by simp
  obtain r where get: "sql_get_run ''b'' (en_store (sample_env ?os)) = Some r"
    and r: "rr_run_type r = Backtest" "rr_config r = encode_json (dump_backtest sample_request)" "rr_status r = Pending"
    using sql_run_spec [OF fresh, of "''b''"]
    by (simp add: sample_env_def encode_json_def new_run_def)
  have "parse_backtest ?et (rr_config r) = Inr sample_request"
    using parse_stored_backtest [OF sample_accepted, of ?et] by (simp add: r sample_request_def default_backtest_def)
  then have "\<exists>p. snd (verify_run sql_ops ?rv ''b'' (fst (execute_pending_run sql_ops quiet_codec ?eg ''b'' (sample_env ?os)))) =
      Inr p \<and> dget p ''status'' = PStr ''verified''"
    using backtest_executes_and_verifies [OF sample_env_ok [OF fresh] get r(1) _ _ run finite, of ?et ?eg ?rv quiet_codec]
    by (auto simp: r sample_rv_def split: prod.splits)
  then show ?thesis by blast
qed

end
