(* ===== verification/Http_Routes.thy ===== *)
theory Http_Routes
  imports Scheduler Json_Text Replay_Service Tournament_Creation Api_Requests
begin

text \<open>
  The HTTP routes: \<open>sim/api/routes/runs.py\<close> and \<open>scheduler.py\<close>, the error responses of \<open>sim/api/errors.py\<close> and
  the switches of \<open>sim/api/app.py\<close>. A handler is an operation on the environment of store, queue, stream and
  clock; FastAPI calls it after it has checked the parameters. Matching of paths and the encoding of bodies
  are FastAPI's.
\<close>

section \<open>The application\<close>

text \<open>\<open>app.state\<close> and what its services call: \<open>ap_session\<close> and \<open>ap_backtest\<close> are the engines of an accepted
  request; \<open>ap_keys\<close> is the order of the order-id keys in a set.\<close>

record 'w app =
  ap_ops :: "'w store_ops"
  ap_codec :: stream_codec
  ap_queue_enabled :: bool
  ap_queue :: "'w queue_client option"
  ap_session :: "session_request \<Rightarrow> executor"
  ap_backtest :: "backtest_request \<Rightarrow> executor"
  ap_replay :: replay_env
  ap_keys :: "string list"

definition ascii_lower :: "string \<Rightarrow> string" where
  "ascii_lower s = map (\<lambda>c. let n = of_char c :: nat in if 65 \<le> n \<and> n \<le> 90 then char_of (n + 32) else c) s"

text \<open>The argument, or the environment variable \<open>TES_QUEUE_ENABLED\<close> with its default.\<close>

(* sim/api/app.py:61-65 _queue_enabled *)
definition queue_enabled :: "bool option \<Rightarrow> string option \<Rightarrow> bool" where
  "queue_enabled value raw =
     (case value of
        Some b \<Rightarrow> b
      | None \<Rightarrow> ascii_lower (strip (case raw of None \<Rightarrow> ''0'' | Some s \<Rightarrow> s)) \<in> {''1'', ''true'', ''yes'', ''on''})"

text \<open>The queue exists exactly when it is enabled.\<close>

(* sim/api/app.py:40-52 create_app (queue) *)
definition create_app ::
  "'w store_ops \<Rightarrow> stream_codec \<Rightarrow> 'w queue_client \<Rightarrow> (session_request \<Rightarrow> executor) \<Rightarrow> (backtest_request \<Rightarrow> executor)
   \<Rightarrow> replay_env \<Rightarrow> string list \<Rightarrow> bool option \<Rightarrow> string option \<Rightarrow> 'w app" where
  "create_app ops cd queue session backtest rv ids value raw =
     (let enabled = queue_enabled value raw in
      \<lparr>ap_ops = ops, ap_codec = cd, ap_queue_enabled = enabled, ap_queue = (if enabled then Some queue else None),
       ap_session = session, ap_backtest = backtest, ap_replay = rv, ap_keys = ids\<rparr>)"

section \<open>Responses\<close>

text \<open>\<open>Json status body\<close>, or the response of a server that met an exception without a handler.\<close>

datatype 'a response = Json nat 'a | Error_Json nat string string | Server_Error

(* sim/api/errors.py:49-57 register_error_handlers (ApiError) *)
definition error_response :: "py_exc \<Rightarrow> 'a response" where
  "error_response exc =
     (case api_error exc of Some (status, code, message) \<Rightarrow> Error_Json status code message | None \<Rightarrow> Server_Error)"

definition respond :: "nat \<Rightarrow> 'w env \<times> 'a result \<Rightarrow> 'w env \<times> 'a response" where
  "respond status er = (case er of (e, r) \<Rightarrow> (e, case r of Inr x \<Rightarrow> Json status x | Inl exc \<Rightarrow> error_response exc))"

text \<open>A parameter that is out of its bounds is refused before the handler runs.\<close>

(* sim/api/errors.py:59-70 register_error_handlers (RequestValidationError) *)
definition validated :: "bool \<Rightarrow> ('w env \<Rightarrow> 'w env \<times> 'a response) \<Rightarrow> 'w env \<Rightarrow> 'w env \<times> 'a response" where
  "validated fine handler e =
     (if fine then handler e else (e, Error_Json 400 ''validation_error'' ''request validation failed''))"

definition page_fine :: "int option \<Rightarrow> int \<Rightarrow> bool" where
  "page_fine limit offset \<longleftrightarrow> (case limit of None \<Rightarrow> True | Some n \<Rightarrow> 0 \<le> n) \<and> 0 \<le> offset"

section \<open>Starting runs\<close>

(* sim/api/routes/runs.py:55-60 _use_queue *)
definition use_queue :: "execution_mode option \<Rightarrow> ('w, 'z) app_scheme \<Rightarrow> bool" where
  "use_queue payload_mode app =
     (case payload_mode of Some Sync \<Rightarrow> False | Some Queued \<Rightarrow> True | None \<Rightarrow> ap_queue_enabled app)"

(* sim/api/routes/runs.py:63-69 _queued_detail *)
definition queued_detail :: "run_detail \<Rightarrow> run_detail" where
  "queued_detail detail =
     detail\<lparr>ru_polling_url := Some (''/runs/'' @ ru_run_id detail),
            ru_stream_url := Some (''/runs/'' @ ru_run_id detail @ ''/stream'')\<rparr>"

definition enqueue_s :: "'w queue_client \<Rightarrow> string \<Rightarrow> int \<Rightarrow> ('w, queue_item) svc" where
  "enqueue_s queue run_id priority = bind_s now_s (\<lambda>now. store_raise_s (qc_enqueue queue now run_id priority))"

text \<open>The generated id of a run is an argument.\<close>

(* sim/api/routes/runs.py:72-81 run_session *)
definition post_session :: "'w app \<Rightarrow> string \<Rightarrow> session_request \<Rightarrow> ('w, run_detail) svc" where
  "post_session app new_id payload =
     (let now = run_session_s (ap_ops app) (ap_codec app) new_id (dump_session payload) (ap_session app payload)
      in if use_queue (se_mode payload) app
         then (case ap_queue app of
                 None \<Rightarrow> now
               | Some queue \<Rightarrow>
                   bind_s (queue_session (ap_ops app) (ap_codec app) new_id (dump_session payload)) (\<lambda>detail.
                   bind_s (enqueue_s queue (ru_run_id detail) (se_priority payload)) (\<lambda>_.
                   return_s (queued_detail detail))))
         else now)"

(* sim/api/routes/runs.py:84-93 run_backtest *)
definition post_backtest :: "'w app \<Rightarrow> string \<Rightarrow> backtest_request \<Rightarrow> ('w, run_detail) svc" where
  "post_backtest app new_id payload =
     (let now = run_backtest_s (ap_ops app) (ap_codec app) new_id (dump_backtest payload) (ap_backtest app payload)
      in if use_queue (bq_mode payload) app
         then (case ap_queue app of
                 None \<Rightarrow> now
               | Some queue \<Rightarrow>
                   bind_s (queue_backtest (ap_ops app) (ap_codec app) new_id (dump_backtest payload)) (\<lambda>detail.
                   bind_s (enqueue_s queue (ru_run_id detail) (bq_priority payload)) (\<lambda>_.
                   return_s (queued_detail detail))))
         else now)"

text \<open>The queue is asked first; its answer is not looked at.\<close>

(* sim/api/routes/runs.py:321-326 cancel_run *)
definition post_cancel :: "'w app \<Rightarrow> string \<Rightarrow> ('w, run_detail) svc" where
  "post_cancel app run_id =
     bind_s (case ap_queue app of
               None \<Rightarrow> return_s ()
             | Some queue \<Rightarrow> bind_s now_s (\<lambda>now. bind_s (store_s (qc_cancel_pending queue now run_id)) (\<lambda>_. return_s ())))
       (\<lambda>_. cancel_run (ap_ops app) (ap_codec app) run_id)"

(* sim/api/routes/runs.py:329-332 delete_run *)
definition delete_route :: "'w app \<Rightarrow> string \<Rightarrow> 'w env \<Rightarrow> 'w env \<times> unit response" where
  "delete_route app run_id e = respond 204 (delete_run_s (ap_ops app) run_id e)"

section \<open>Reading runs\<close>

text \<open>\<open>RunReportResponse\<close>, \<open>RunEventsResponse\<close>, \<open>RunSnapshotsResponse\<close>, \<open>RunAccountsResponse\<close>, \<open>RunLogsResponse\<close> and
  \<open>RunTimelineResponse\<close> differ in the name and type of the part.\<close>

(* sim/api/models.py:262-284 RunReportResponse *)
record 'a run_part =
  pt_run_id :: string
  pt_part :: 'a

definition part_of :: "string \<Rightarrow> ('w, 'a) svc \<Rightarrow> ('w, 'a run_part) svc" where
  "part_of run_id m = bind_s m (\<lambda>x. return_s \<lparr>pt_run_id = run_id, pt_part = x\<rparr>)"

(* sim/api/routes/runs.py:96-98 list_runs *)
definition route_list_runs :: "'w app \<Rightarrow> 'w env \<Rightarrow> 'w env \<times> run_summary list response" where
  "route_list_runs app e = respond 200 (list_runs_s (ap_ops app) e)"

(* sim/api/routes/runs.py:101-103 get_run *)
definition route_get_run :: "'w app \<Rightarrow> string \<Rightarrow> 'w env \<Rightarrow> 'w env \<times> run_detail response" where
  "route_get_run app run_id e = respond 200 (get_run_s (ap_ops app) run_id e)"

(* sim/api/routes/runs.py:132-134 get_report *)
definition route_report :: "'w app \<Rightarrow> string \<Rightarrow> 'w env \<Rightarrow> 'w env \<times> pydict run_part response" where
  "route_report app run_id e = respond 200 (part_of run_id (get_report_s (ap_ops app) run_id) e)"

(* sim/api/routes/runs.py:137-151 get_events *)
definition route_events ::
  "'w app \<Rightarrow> string \<Rightarrow> string option \<Rightarrow> string option \<Rightarrow> int option \<Rightarrow> int \<Rightarrow> 'w env \<Rightarrow> 'w env \<times> pydict list run_part response" where
  "route_events app run_id symbol event_type limit offset =
     validated (page_fine limit offset)
       (\<lambda>e. respond 200 (part_of run_id (get_events_s (ap_ops app) run_id symbol event_type limit offset) e))"

(* sim/api/routes/runs.py:154-165 get_snapshots *)
definition route_snapshots ::
  "'w app \<Rightarrow> string \<Rightarrow> string option \<Rightarrow> int option \<Rightarrow> int \<Rightarrow> 'w env \<Rightarrow> 'w env \<times> pydict list run_part response" where
  "route_snapshots app run_id symbol limit offset =
     validated (page_fine limit offset)
       (\<lambda>e. respond 200 (part_of run_id (get_snapshots_s (ap_ops app) run_id symbol limit offset) e))"

(* sim/api/routes/runs.py:168-178 get_accounts *)
definition route_accounts ::
  "'w app \<Rightarrow> string \<Rightarrow> string option \<Rightarrow> string option \<Rightarrow> 'w env \<Rightarrow> 'w env \<times> pydict list run_part response" where
  "route_accounts app run_id account_id symbol e =
     respond 200 (part_of run_id (get_accounts_s (ap_ops app) run_id account_id symbol) e)"

(* sim/api/routes/runs.py:181-188 get_logs *)
definition route_logs :: "'w app \<Rightarrow> string \<Rightarrow> int option \<Rightarrow> int \<Rightarrow> 'w env \<Rightarrow> 'w env \<times> pydict list run_part response" where
  "route_logs app run_id limit offset =
     validated (page_fine limit offset) (\<lambda>e. respond 200 (part_of run_id (get_logs_s (ap_ops app) run_id limit offset) e))"

section \<open>Timelines, replays and verification\<close>

(* sim/api/routes/runs.py:191-206 get_timeline *)
definition route_timeline ::
  "'w app \<Rightarrow> string \<Rightarrow> string option \<Rightarrow> string option \<Rightarrow> string option \<Rightarrow> int option \<Rightarrow> int \<Rightarrow> 'w env
   \<Rightarrow> 'w env \<times> timeline_entry list run_part response" where
  "route_timeline app run_id symbol category kind limit offset =
     validated (page_fine limit offset) (\<lambda>e. respond 200
       (part_of run_id (get_timeline (ap_ops app) (ap_keys app) run_id symbol category kind limit offset) e))"

(* sim/api/routes/runs.py:209-231 get_order_timeline *)
definition route_order_timeline ::
  "'w app \<Rightarrow> string \<Rightarrow> string \<Rightarrow> string option \<Rightarrow> string option \<Rightarrow> string option \<Rightarrow> int option \<Rightarrow> int \<Rightarrow> 'w env
   \<Rightarrow> 'w env \<times> timeline_entry list run_part response" where
  "route_order_timeline app run_id order_id symbol category kind limit offset =
     validated (page_fine limit offset) (\<lambda>e. respond 200
       (part_of run_id (get_order_timeline (ap_ops app) (ap_keys app) run_id order_id symbol category kind limit offset) e))"

(* sim/api/routes/runs.py:234-256 get_account_timeline *)
definition route_account_timeline ::
  "'w app \<Rightarrow> string \<Rightarrow> string \<Rightarrow> string option \<Rightarrow> string option \<Rightarrow> string option \<Rightarrow> int option \<Rightarrow> int \<Rightarrow> 'w env
   \<Rightarrow> 'w env \<times> timeline_entry list run_part response" where
  "route_account_timeline app run_id account_id symbol category kind limit offset =
     validated (page_fine limit offset) (\<lambda>e. respond 200
       (part_of run_id (get_account_timeline (ap_ops app) (ap_keys app) run_id account_id symbol category kind limit offset) e))"

(* sim/api/routes/runs.py:259-261 get_replay *)
definition route_replay :: "'w app \<Rightarrow> string \<Rightarrow> 'w env \<Rightarrow> 'w env \<times> replay_session response" where
  "route_replay app run_id e = respond 200 (get_replay_session (ap_ops app) (ap_keys app) run_id e)"

(* sim/api/routes/runs.py:264-266 get_replay_frame *)
definition route_replay_frame :: "'w app \<Rightarrow> string \<Rightarrow> int \<Rightarrow> string option \<Rightarrow> 'w env \<Rightarrow> 'w env \<times> replay_frame response" where
  "route_replay_frame app run_id step symbol e = respond 200 (get_replay_frame (ap_ops app) (ap_keys app) run_id step symbol e)"

(* sim/api/routes/runs.py:269-288 get_replay_range *)
definition route_replay_range ::
  "'w app \<Rightarrow> string \<Rightarrow> int \<Rightarrow> int \<Rightarrow> string option \<Rightarrow> bool \<Rightarrow> bool \<Rightarrow> bool \<Rightarrow> 'w env \<Rightarrow> 'w env \<times> replay_range response" where
  "route_replay_range app run_id start_step end_step symbol snapshots events accounts =
     validated (0 \<le> start_step \<and> 0 \<le> end_step) (\<lambda>e. respond 200
       (get_replay_range (ap_ops app) (ap_keys app) run_id start_step end_step symbol snapshots events accounts e))"

(* sim/api/routes/runs.py:291-293 get_replay_summary *)
definition route_replay_summary :: "'w app \<Rightarrow> string \<Rightarrow> 'w env \<Rightarrow> 'w env \<times> replay_summary response" where
  "route_replay_summary app run_id e = respond 200 (get_replay_summary (ap_ops app) run_id e)"

(* sim/api/routes/runs.py:296-298 replay_run *)
definition route_replay_run :: "'w app \<Rightarrow> string \<Rightarrow> 'w env \<Rightarrow> 'w env \<times> replay_response response" where
  "route_replay_run app run_id e = respond 200 (replay_run (ap_ops app) run_id e)"

(* sim/api/routes/runs.py:301-303 verify_run *)
definition route_verify :: "'w app \<Rightarrow> string \<Rightarrow> 'w env \<Rightarrow> 'w env \<times> pydict response" where
  "route_verify app run_id e = respond 200 (verify_run (ap_ops app) (ap_replay app) run_id e)"

(* sim/api/routes/runs.py:306-308 get_verification *)
definition route_verification :: "'w app \<Rightarrow> string \<Rightarrow> 'w env \<Rightarrow> 'w env \<times> pydict response" where
  "route_verification app run_id e = respond 200 (get_verification_s (ap_ops app) (ap_replay app) run_id e)"

(* sim/api/routes/runs.py:311-313 diff_runs *)
definition route_diff :: "'w app \<Rightarrow> string \<Rightarrow> string \<Rightarrow> 'w env \<Rightarrow> 'w env \<times> pydict response" where
  "route_diff app left right e = respond 200 (diff_runs_s (ap_ops app) (ap_replay app) left right e)"

(* sim/api/routes/runs.py:316-318 summarize_run *)
definition route_summary :: "'w app \<Rightarrow> string \<Rightarrow> 'w env \<Rightarrow> 'w env \<times> inspection_summary response" where
  "route_summary app run_id e = respond 200 (summarize_run (ap_ops app) run_id e)"

section \<open>Streaming\<close>

text \<open>A server-sent event: the category and the payload as JSON on a line of its own.\<close>

(* sim/api/routes/runs.py:126-129 _sse_message *)
definition sse_message :: "pydict \<Rightarrow> string" where
  "sse_message payload =
     ''event: '' @ py_str (py_or (dget payload ''category'') (PStr ''message'')) @ [CHR 0x0A] @
     ''data: '' @ json_text (PDict payload) @ [CHR 0x0A, CHR 0x0A]"

text \<open>Where the generator of a response is: before its first message, in the replay, waiting on a subscriber
  queue, or at its end. A step goes on to the next point; in between others may act.\<close>

datatype stream_phase = Opened | Replaying "stream_message list" | Live nat | Over

text \<open>A step of the generator on the stream service; \<open>None\<close> is a step without output.\<close>

(* sim/api/routes/runs.py:115-121 stream_run (events) *)
fun stream_step ::
  "'w app \<Rightarrow> string \<Rightarrow> int \<Rightarrow> run_status \<Rightarrow> instant \<Rightarrow> 'w \<Rightarrow> stream_phase \<Rightarrow> stream_state
   \<Rightarrow> stream_state \<times> stream_phase \<times> string option result"
where
  "stream_step app run_id replay_limit status now db Opened s =
     (case replay_recent (ap_ops app) (ap_codec app) now run_id replay_limit (s, db) of
        Inl exc \<Rightarrow> (s, Over, Inl exc)
      | Inr messages \<Rightarrow> (s, Replaying messages, Inr None))"
| "stream_step app run_id replay_limit status now db (Replaying (m # messages)) s =
     (s, Replaying messages, Inr (Some (sse_message (sc_dump (ap_codec app) m))))"
| "stream_step app run_id replay_limit status now db (Replaying []) s =
     (if status \<in> {Completed, Failed, Canceled} \<or> is_closed run_id s then (s, Over, Inr None)
      else (case subscribe run_id s of
              (s', None) \<Rightarrow> (s', Over, Inr None)
            | (s', Some q) \<Rightarrow> (s', Live q, Inr None)))"
| "stream_step app run_id replay_limit status now db (Live q) s =
     (case receive run_id q s of
        (s', Blocked) \<Rightarrow> (s', Live q, Inr None)
      | (s', Yielded m) \<Rightarrow> (s', Live q, Inr (Some (sse_message (sc_dump (ap_codec app) m))))
      | (s', Finished) \<Rightarrow> (s', Over, Inr None))"
| "stream_step app run_id replay_limit status now db Over s = (s, Over, Inr None)"

text \<open>A step in an environment; the application always has a stream service.\<close>

definition stream_advance ::
  "'w app \<Rightarrow> string \<Rightarrow> int \<Rightarrow> run_status \<Rightarrow> 'w env \<times> stream_phase \<Rightarrow> ('w env \<times> stream_phase) \<times> string option result" where
  "stream_advance app run_id replay_limit status ep =
     (case ep of (e, phase) \<Rightarrow>
       (case en_stream e of
          None \<Rightarrow> ((e, Over), Inr None)
        | Some s \<Rightarrow>
            (case stream_step app run_id replay_limit status (en_clock e (en_ticks e)) (en_store e) phase s of
               (s', phase', out) \<Rightarrow> ((e\<lparr>en_stream := Some s', en_ticks := Suc (en_ticks e)\<rparr>, phase'), out))))"

text \<open>The handler only checks that the run is there; its status is read once.\<close>

(* sim/api/routes/runs.py:106-123 stream_run *)
definition route_stream :: "'w app \<Rightarrow> string \<Rightarrow> int \<Rightarrow> 'w env \<Rightarrow> 'w env \<times> (run_status \<times> stream_phase) response" where
  "route_stream app run_id replay_limit =
     validated (0 \<le> replay_limit)
       (\<lambda>e. respond 200 (bind_s (get_run_s (ap_ops app) run_id) (\<lambda>detail. return_s (ru_status detail, Opened)) e))"

end
