(* ===== verification/Stream_Routes.thy ===== *)
theory Stream_Routes
  imports Http_Routes Stream_Props
begin

text \<open>
  What a client of \<open>GET /runs/{run_id}/stream\<close> reads: which messages the response has, and how they are framed
  as server-sent events.
\<close>

section \<open>Reading a response\<close>

text \<open>The response text: what a client has read after \<open>n\<close> steps of the generator.\<close>

fun stream_reads ::
  "nat \<Rightarrow> 'w app \<Rightarrow> string \<Rightarrow> int \<Rightarrow> run_status \<Rightarrow> 'w env \<times> stream_phase \<Rightarrow> ('w env \<times> stream_phase) \<times> string list"
where
  "stream_reads 0 app i limit status ep = (ep, [])"
| "stream_reads (Suc n) app i limit status ep =
     (case stream_advance app i limit status ep of (ep', out) \<Rightarrow>
        (case stream_reads n app i limit status ep' of (ep'', texts) \<Rightarrow>
           (ep'', (case out of Inr (Some text) \<Rightarrow> text # texts | _ \<Rightarrow> texts))))"

definition sent :: "'w app \<Rightarrow> stream_message list \<Rightarrow> string list" where
  "sent app ms = map (\<lambda>m. sse_message (sc_dump (ap_codec app) m)) ms"

lemma reads_replaying:
  assumes "en_stream e = Some s"
  shows "\<exists>n. stream_reads (length ms) app i limit st (e, Replaying (ms @ rest)) =
    ((e\<lparr>en_stream := Some s, en_ticks := n\<rparr>, Replaying rest), sent app ms)"
  using assms
proof (induction ms arbitrary: e)
  case Nil
  then show ?case by (auto simp: sent_def intro!: exI [of _ "en_ticks e"])
next
  case (Cons m ms)
  from Cons.IH [of "e\<lparr>en_stream := Some s, en_ticks := Suc (en_ticks e)\<rparr>"] Cons.prems
  show ?case by (auto simp: stream_advance_def sent_def)
qed

lemma reads_live:
  assumes "en_stream e = Some s" and "queue_of s q = map Item ms @ [Sentinel]"
  shows "\<exists>e'. stream_reads (Suc (length ms)) app i limit st (e, Live q) = ((e', Over), sent app ms)"
  using assms
proof (induction ms arbitrary: e s)
  case Nil
  then show ?case by (simp add: stream_advance_def receive_def sent_def Let_def)
next
  case (Cons m ms)
  let ?s = "s\<lparr>st_queues := AList.update q (map Item ms @ [Sentinel]) (st_queues s)\<rparr>"
  let ?e = "e\<lparr>en_stream := Some ?s, en_ticks := Suc (en_ticks e)\<rparr>"
  have q: "queue_of ?s q = map Item ms @ [Sentinel]" by (simp add: queue_of_def update_conv')
  have step: "stream_advance app i limit st (e, Live q) =
      ((?e, Live q), Inr (Some (sse_message (sc_dump (ap_codec app) m))))"
    using Cons.prems by (simp add: stream_advance_def receive_def)
  obtain e' where "stream_reads (Suc (length ms)) app i limit st (?e, Live q) = ((e', Over), sent app ms)"
    using Cons.IH [of ?e ?s] q by auto
  then show ?case
    unfolding list.size add_Suc_right add_0_right stream_reads.simps(2) [of "Suc (length ms)"] step by (simp add: sent_def)
qed

text \<open>Messages of others act on the stream service between two reads.\<close>

definition acting :: "stream_op list \<Rightarrow> 'w env \<Rightarrow> 'w env" where
  "acting os e = e\<lparr>en_stream := map_option (fold exec_stream os) (en_stream e)\<rparr>"

lemma stream_ok_run: "stream_ok (fold exec_stream os (new_stream n))"
proof -
  have "stream_ok s \<Longrightarrow> stream_ok (fold exec_stream os s)" for s
    by (induction os arbitrary: s) (simp_all add: stream_ok_exec)
  then show ?thesis by (simp add: stream_ok_new)
qed

text \<open>C23 (the response of a stream). Let a run have messages in this process and its status, when the
  handler read it, not be final. The response of \<open>GET /runs/{run_id}/stream\<close> then is exactly the last messages
  published before the generator started, as many as caller and service allow, followed by all messages
  published from the subscription to the closing of the run, each as one server-sent event, in order; then it
  ends. Messages that are published in between, while the first ones are being sent, are not part of it.\<close>

theorem stream_response:
  assumes "en_stream e = Some (fold exec_stream before (new_stream n))"
    and "published i before \<noteq> []" and "0 < limit" and "status \<notin> {Completed, Failed, Canceled}"
    and "\<not> is_closed i (fold exec_stream (before @ between) (new_stream n))" and "Close i \<notin> set ops"
    and recent: "recent = last_n (min (nat limit) (nat (max 1 n))) (published i before)"
  shows "case stream_reads (Suc (length recent)) app i limit status (e, Opened) of ((e1, p1), t1) \<Rightarrow>
    case stream_reads 1 app i limit status (acting between e1, p1) of ((e2, p2), t2) \<Rightarrow>
    case stream_reads (Suc (length (published i ops))) app i limit status (acting (ops @ Close i # after) e2, p2) of
      ((e3, p3), t3) \<Rightarrow> t1 @ t2 @ t3 = sent app (recent @ published i ops) \<and> p3 = Over"
proof -
  let ?s = "fold exec_stream before (new_stream n)" and ?s1 = "fold exec_stream (before @ between) (new_stream n)"
  let ?e = "e\<lparr>en_stream := Some ?s, en_ticks := Suc (en_ticks e)\<rparr>"
  have "stream_advance app i limit status (e, Opened) = ((?e, Replaying recent), Inr None)"
    by (simp add: stream_advance_def assms(1) recent replay_recent_last [OF assms(2,3)])
  moreover obtain k where
    "stream_reads (length recent) app i limit status (?e, Replaying (recent @ [])) =
      ((?e\<lparr>en_stream := Some ?s, en_ticks := k\<rparr>, Replaying []), sent app recent)"
    using reads_replaying [of ?e ?s] by fastforce
  ultimately have 1: "stream_reads (Suc (length recent)) app i limit status (e, Opened) =
      ((?e\<lparr>en_stream := Some ?s, en_ticks := k\<rparr>, Replaying []), sent app recent)"
    by simp
  obtain s2 q where sub: "subscribe i ?s1 = (s2, Some q)" and att: "attached i q [] s2"
    using subscribe_attached [OF stream_ok_run assms(5)] by blast
  let ?e1 = "acting between (?e\<lparr>en_stream := Some ?s, en_ticks := k\<rparr>)"
  let ?e2 = "?e1\<lparr>en_stream := Some s2, en_ticks := Suc k\<rparr>"
  have 2: "stream_reads 1 app i limit status (?e1, Replaying []) = ((?e2, Live q), [])"
    using assms(4,5) sub by (simp add: stream_advance_def acting_def is_closed_def)
  let ?s3 = "fold exec_stream after (close_stream i (fold exec_stream ops s2))"
  have "attached i q (map Item (published i ops)) (fold exec_stream ops s2)"
    using attached_run [OF att assms(6)] by simp
  then have "detached q (map Item (published i ops) @ [Sentinel]) ?s3"
    by (intro detached_run attached_close)
  then have queue: "queue_of ?s3 q = map Item (published i ops) @ [Sentinel]" by (simp only: detached_def)
  have "en_stream (acting (ops @ Close i # after) ?e2) = Some ?s3" by (simp add: acting_def)
  from reads_live [OF this queue] obtain e3 where
    3: "stream_reads (Suc (length (published i ops))) app i limit status (acting (ops @ Close i # after) ?e2, Live q) =
      ((e3, Over), sent app (published i ops))"
    by blast
  show ?thesis by (simp only: 1 2 3 prod.case) (simp add: sent_def)
qed

definition sample_stream_app :: "mem_store app" where
  "sample_stream_app =
     \<lparr>ap_ops = mem_ops, ap_codec = plain_codec, ap_queue_enabled = False, ap_queue = None,
      ap_session = (\<lambda>request run_id. ([], Inl (RuntimeError ''engine''))),
      ap_backtest = (\<lambda>request run_id. ([], Inl (RuntimeError ''engine''))),
      ap_replay = \<lparr>rv_session = (\<lambda>config. Inl (RuntimeError ''engine'')), rv_backtest = (\<lambda>config. Inl (RuntimeError ''engine'')),
        rv_model = Inr, rv_time = int_str\<rparr>, ap_keys = []\<rparr>"

definition sample_streaming :: "mem_store env" where
  "sample_streaming = \<lparr>en_store = empty_mem, en_stream = Some (fold exec_stream [Pub ''r'' (sample_message ''r'' 1)] (new_stream 100)),
     en_clock = int, en_ticks = 0\<rparr>"

theorem stream_response_witness:
  "case stream_reads (Suc (length [sample_message ''r'' 1])) sample_stream_app ''r'' 100 Running (sample_streaming, Opened) of
      ((e1, p1), t1) \<Rightarrow>
    case stream_reads 1 sample_stream_app ''r'' 100 Running (acting [Pub ''r'' (sample_message ''r'' 2)] e1, p1) of ((e2, p2), t2) \<Rightarrow>
    case stream_reads (Suc (length (published ''r'' [Pub ''r'' (sample_message ''r'' 3)]))) sample_stream_app ''r'' 100 Running
        (acting ([Pub ''r'' (sample_message ''r'' 3)] @ Close ''r'' # []) e2, p2) of
      ((e3, p3), t3) \<Rightarrow>
        t1 @ t2 @ t3 = sent sample_stream_app ([sample_message ''r'' 1] @ published ''r'' [Pub ''r'' (sample_message ''r'' 3)]) \<and>
        p3 = Over"
proof (rule stream_response [where n = 100 and before = "[Pub ''r'' (sample_message ''r'' 1)]"])
  show "\<not> is_closed ''r'' (fold exec_stream ([Pub ''r'' (sample_message ''r'' 1)] @ [Pub ''r'' (sample_message ''r'' 2)]) (new_stream 100))"
    by (simp add: is_closed_def publish_state_def Let_def new_stream_def entries_def)
qed (simp_all add: sample_streaming_def last_n_def)

section \<open>Server-sent events\<close>

text \<open>Texts of JSON have no control characters.\<close>

abbreviation visible :: "string \<Rightarrow> bool" where
  "visible s \<equiv> (\<forall>c \<in> set s. (32 :: nat) \<le> of_char c)"

lemma visible_digits: "visible (nat_str n)" "visible (int_str i)"
proof -
  have "\<forall>d \<in> set (nat_digits n). d < 10" for n
    by (induction n rule: nat_digits.induct) (subst nat_digits.simps, auto)
  moreover have "d < 10 \<Longrightarrow> 32 \<le> (of_char (digit_char d) :: nat)" for d by (simp add: digit_char_def)
  ultimately show nat: "visible (nat_str n)" for n by (auto simp: nat_str_def)
  show "visible (int_str i)" using nat by (simp add: int_str_def)
qed

lemma visible_float: "visible (json_float x)"
proof (cases x)
  case (Fin m e)
  have "visible (exponent_text k)" "visible (digits_text c k p)" for c k p
    using visible_digits(1) by (auto simp: exponent_text_def digits_text_def Let_def dest!: in_set_takeD in_set_dropD)
  then show ?thesis by (auto simp: Fin Let_def split: prod.split)
qed simp_all

lemma visible_string: "visible (json_string s)"
proof -
  have "visible (json_char c)" for c
    by (auto simp: json_char_def Let_def hex_digit_def)
  then show ?thesis by (auto simp: json_string_def)
qed

lemma visible_join: "visible sep \<Longrightarrow> (\<And>x. x \<in> set xs \<Longrightarrow> visible x) \<Longrightarrow> visible (join sep xs)"
  by (induction sep xs rule: join.induct) auto

lemma visible_json: "visible (json_text v)"
proof (induction v rule: json_text.induct)
  case (6 xs)
  then have "visible (join '','' (map json_text xs))" by (intro visible_join) auto
  then show ?case by simp
next
  case (7 xs)
  then have "visible (join '','' (map json_text xs))" by (intro visible_join) auto
  then show ?case by simp
next
  case (8 d)
  then have "visible (join '','' (map (\<lambda>(k, text). json_string k @ '':'' @ text)
        (sort_key fst (map (\<lambda>(k, v). (k, json_text v)) d))))"
    using visible_string by (intro visible_join) fastforce+
  then show ?case by simp
qed (simp_all add: visible_digits visible_float visible_string)

text \<open>A text split at its line feeds.\<close>

fun split_lines :: "string \<Rightarrow> string list" where
  "split_lines [] = [[]]"
| "split_lines (c # s) =
     (if c = CHR 0x0A then [] # split_lines s
      else (case split_lines s of [] \<Rightarrow> [[c]] | l # ls \<Rightarrow> (c # l) # ls))"

lemma split_lines_append: "CHR 0x0A \<notin> set l \<Longrightarrow> split_lines (l @ CHR 0x0A # s) = l # split_lines s"
  by (induction l) auto

lemma visible_no_feed: "visible s \<Longrightarrow> CHR 0x0A \<notin> set s"
  by auto

text \<open>C24 (framing of server-sent events). A client that splits the text of a stream at its line feeds finds for
  every message exactly three lines, the category, the JSON text of the message and the empty line that ends
  the event, whatever strings, floats and nested values the messages carry.\<close>

theorem sse_framing:
  assumes "\<forall>p \<in> set ps. dget p ''category'' = PStr (category_str (category p))"
  shows "split_lines (concat (map sse_message ps)) =
    concat (map (\<lambda>p. [''event: '' @ category_str (category p), ''data: '' @ json_text (PDict p), []]) ps) @ [[]]"
  using assms
proof (induction ps)
  case (Cons p ps)
  let ?c = "''event: '' @ category_str (category p)" and ?d = "''data: '' @ json_text (PDict p)"
  have "category_str c \<noteq> []" "CHR 0x0A \<notin> set (category_str c)" for c by (cases c; simp)+
  then have feed: "CHR 0x0A \<notin> set ?c" "CHR 0x0A \<notin> set ?d" and msg: "sse_message p = ?c @ [CHR 0x0A] @ ?d @ [CHR 0x0A, CHR 0x0A]"
    using Cons.prems visible_no_feed [OF visible_json, of "PDict p"]
    by (simp_all add: sse_message_def py_or_def)
  have "split_lines (concat (map sse_message (p # ps))) =
      split_lines (?c @ CHR 0x0A # ?d @ CHR 0x0A # [] @ CHR 0x0A # concat (map sse_message ps))"
    by (simp only: list.map concat.simps msg append_assoc append.simps)
  also have "\<dots> = ?c # ?d # [] # split_lines (concat (map sse_message ps))"
    by (simp only: split_lines_append [OF feed(1)] split_lines_append [OF feed(2)] append_Nil split_lines.simps if_True refl)
  finally show ?case using Cons by simp
qed simp

theorem sse_framing_witness:
  "split_lines (concat (map sse_message [plain_dump (sample_message ''a b'' 1), plain_dump (sample_message ''c'' 2)])) =
    [''event: progress'', ''data: '' @ json_text (PDict (plain_dump (sample_message ''a b'' 1))), [],
     ''event: progress'', ''data: '' @ json_text (PDict (plain_dump (sample_message ''c'' 2))), [], []]"
  using sse_framing [of "[plain_dump (sample_message ''a b'' 1), plain_dump (sample_message ''c'' 2)]" "\<lambda>p. Cat_Progress"]
  by (simp add: plain_dump_def sample_message_def dget_def)

end
