(* ===== verification/Batch_Routes.thy ===== *)
theory Batch_Routes
  imports Http_Routes Tournament_Creation
begin

text \<open>
  The routes of benchmarks and tournaments, \<open>sim/api/routes/benchmarks.py\<close> and \<open>tournaments.py\<close>, over an
  application with what their services need beside the store.
\<close>

record 'w batch_app = "'w app" +
  ba_benchmarks :: "'w benchmark_ops"
  ba_engine :: "pydict \<Rightarrow> benchmark_run result"
  ba_power :: power_fun
  ba_format :: "instant \<Rightarrow> string"
  ba_report_model :: "pydict \<Rightarrow> pydict result"
  ba_text :: error_text

section \<open>Benchmarks\<close>

(* sim/api/models.py:78-82 BenchmarkRunRequest *)
record benchmark_request =
  be_mode :: "execution_mode option"
  be_priority :: int
  be_threshold_percent :: pyfloat
  be_persist :: bool

(* sim/api/models.py:78-82 BenchmarkRunRequest (model_dump) *)
definition dump_benchmark :: "benchmark_request \<Rightarrow> pydict" where
  "dump_benchmark r =
     [(''priority'', PInt (be_priority r)), (''threshold_percent'', PFloat (be_threshold_percent r)),
      (''persist'', PBool (be_persist r))]"

text \<open>A benchmark is answered with its run in full, a queued one with the detail of its stored run. A \<open>BenchmarkRunModel\<close> has the
  fields of the run it is built from.\<close>

datatype benchmark_body = Benchmark_Model benchmark_run | Benchmark_Detail run_detail

(* sim/api/routes/benchmarks.py:35-43 run_benchmark *)
definition post_benchmark :: "'w batch_app \<Rightarrow> string \<Rightarrow> benchmark_request \<Rightarrow> ('w, benchmark_body) svc" where
  "post_benchmark app new_id payload =
     (if use_queue (be_mode payload) app
      then bind_s (queue_benchmark (ap_ops app) new_id (dump_benchmark payload)) (\<lambda>detail.
        bind_s (case ap_queue app of
                  None \<Rightarrow> return_s ()
                | Some queue \<Rightarrow> bind_s (enqueue_s queue (ru_run_id detail) (be_priority payload)) (\<lambda>_. return_s ()))
          (\<lambda>_. return_s (Benchmark_Detail detail)))
      else bind_s (run_benchmark (ba_benchmarks app) (ba_engine app) (dump_benchmark payload) (be_persist payload))
        (\<lambda>run. return_s (Benchmark_Model run)))"

(* sim/api/routes/benchmarks.py:46-48 list_benchmarks *)
definition route_benchmarks :: "'w batch_app \<Rightarrow> 'w env \<Rightarrow> 'w env \<times> benchmark_run list response" where
  "route_benchmarks app e = respond 200 (list_benchmark_runs_s (ba_benchmarks app) e)"

(* sim/api/routes/benchmarks.py:51-53 latest_benchmark *)
definition route_latest_benchmark :: "'w batch_app \<Rightarrow> 'w env \<Rightarrow> 'w env \<times> benchmark_run response" where
  "route_latest_benchmark app e = respond 200 (latest_benchmark_run (ba_benchmarks app) e)"

text \<open>\<open>Query(ge=0.0)\<close> refuses negative numbers and NaN.\<close>

definition non_negative :: "pyfloat \<Rightarrow> bool" where
  "non_negative x \<longleftrightarrow> x \<noteq> NaN \<and> \<not> float_lt x float_zero"

(* sim/api/routes/benchmarks.py:56-61 latest_regressions *)
definition route_regressions :: "'w batch_app \<Rightarrow> pyfloat \<Rightarrow> 'w env \<Rightarrow> 'w env \<times> benchmark_comparison response" where
  "route_regressions app threshold =
     validated (non_negative threshold) (\<lambda>e. respond 200 (latest_regressions (ba_benchmarks app) threshold e))"

(* sim/api/routes/benchmarks.py:64-66 get_benchmark *)
definition route_benchmark :: "'w batch_app \<Rightarrow> string \<Rightarrow> 'w env \<Rightarrow> 'w env \<times> benchmark_run response" where
  "route_benchmark app benchmark_id e = respond 200 (get_benchmark_run_s (ba_benchmarks app) benchmark_id e)"

(* sim/api/models.py:104-107 BenchmarkCompareRequest *)
record compare_request =
  cq_baseline_id :: "string option"
  cq_candidate_id :: "string option"
  cq_threshold_percent :: pyfloat

(* sim/api/routes/benchmarks.py:69-71 compare_benchmarks *)
definition route_compare :: "'w batch_app \<Rightarrow> compare_request \<Rightarrow> 'w env \<Rightarrow> 'w env \<times> benchmark_comparison response" where
  "route_compare app payload =
     validated (non_negative (cq_threshold_percent payload)) (\<lambda>e. respond 200
       (compare_benchmarks_s (ba_benchmarks app) (cq_baseline_id payload) (cq_candidate_id payload)
          (cq_threshold_percent payload) e))"

section \<open>Tournaments\<close>

text \<open>The mode of a tournament request is not looked at.\<close>

(* sim/api/routes/tournaments.py:17-19 run_tournament *)
definition post_tournament :: "'w batch_app \<Rightarrow> string \<Rightarrow> (nat \<Rightarrow> string) \<Rightarrow> tournament_config \<Rightarrow> ('w, tournament_run) svc" where
  "post_tournament app new_tid new_ids payload = run_tournament (ba_text app) (ap_ops app) (ap_queue app) new_tid new_ids payload"

(* sim/api/routes/tournaments.py:22-24 list_tournaments *)
definition route_tournaments :: "'w batch_app \<Rightarrow> 'w env \<Rightarrow> 'w env \<times> tournament_run list response" where
  "route_tournaments app e = respond 200 (list_tournaments_s (ap_ops app) e)"

(* sim/api/routes/tournaments.py:27-29 get_tournament *)
definition route_tournament :: "'w batch_app \<Rightarrow> string \<Rightarrow> 'w env \<Rightarrow> 'w env \<times> tournament_run response" where
  "route_tournament app tid e = respond 200 (get_tournament_s (ap_ops app) tid e)"

(* sim/api/routes/tournaments.py:32-34 get_tournament_report *)
definition route_tournament_report :: "'w batch_app \<Rightarrow> string \<Rightarrow> 'w env \<Rightarrow> 'w env \<times> pydict response" where
  "route_tournament_report app tid e = respond 200 (get_tournament_report (ap_ops app) (ba_power app) (ba_format app) (ba_report_model app) tid e)"

(* sim/api/routes/tournaments.py:37-39 get_tournament_children *)
definition route_children ::
  "'w batch_app \<Rightarrow> string \<Rightarrow> 'w env \<Rightarrow> 'w env \<times> (tournament_child \<times> run_detail option) list run_part response" where
  "route_children app tid e = respond 200 (part_of tid (get_children_s (ap_ops app) tid) e)"

(* sim/api/routes/tournaments.py:42-44 cancel_tournament *)
definition route_cancel_tournament :: "'w batch_app \<Rightarrow> string \<Rightarrow> ('w, tournament_run) svc" where
  "route_cancel_tournament app tid = cancel_tournament (ap_ops app) (ap_codec app) (ap_queue app) tid"

section \<open>Health\<close>

(* sim/api/routes/health.py:10-12 health *)
definition route_health :: pydict where
  "route_health = [(''status'', PStr ''ok''), (''service'', PStr ''tes-api'')]"

section \<open>Without a queue\<close>

text \<open>Remark (a benchmark that nobody runs). On an application without a queue a benchmark posted with mode
  \<open>queued\<close> is stored as a pending run and nothing else happens: unlike a session or a backtest, which is executed
  at once then, it waits for a worker that cannot see it.\<close>

theorem queued_benchmark_without_queue:
  assumes "ap_queue app = None" and "be_mode payload = Some Queued"
    and "so_create_run (ap_ops app) (en_clock e (en_ticks e)) i Benchmark (dump_benchmark payload) (en_store e) =
      (s', Inr (new_run now i Benchmark config))"
  shows "\<exists>d. post_benchmark app i payload e = (e\<lparr>en_ticks := Suc (en_ticks e), en_store := s'\<rparr>, Inr (Benchmark_Detail d)) \<and>
    ru_status d = Pending"
  using assms
  by (simp add: post_benchmark_def use_queue_def queue_benchmark_def bind_s_def now_s_def store_raise_s_def lift_s_def
      return_s_def benchmark_run_detail_def new_run_def bind_r_def dget_default_def)

end
