(* ===== verification/Scheduler_Routes.thy ===== *)
theory Scheduler_Routes
  imports Http_Routes
begin

text \<open>
  The routes of workers and scheduling, \<open>sim/api/routes/scheduler.py\<close>. The scheduler service of an application
  exists exactly when its queue does.
\<close>

(* sim/api/models.py:417-452 WorkerSummary *)
record worker_summary = worker_record +
  wm_updated_at :: instant

definition worker_summary_of :: "worker_record \<Rightarrow> worker_summary" where
  "worker_summary_of w = worker_record.extend w (worker_summary.fields (wr_heartbeat_at w))"

text \<open>A call of the scheduler acts on the queue.\<close>

definition scheduler_s :: "(queue_db \<Rightarrow> queue_db \<times> 'a) \<Rightarrow> ('s \<times> queue_db, 'a) svc" where
  "scheduler_s f = store_s (on_queue f)"

(* sim/api/routes/scheduler.py:17-21 _require_scheduler *)
definition require_scheduler :: "('s \<times> queue_db) app \<Rightarrow> ('s \<times> queue_db, unit) svc" where
  "require_scheduler app =
     (case ap_queue app of None \<Rightarrow> raise_s (RunNotFoundError ''scheduler'') | Some _ \<Rightarrow> return_s ())"

definition found_worker :: "string \<Rightarrow> worker_record option \<Rightarrow> ('s \<times> queue_db, worker_summary) svc" where
  "found_worker worker_id worker =
     (case worker of None \<Rightarrow> raise_s (RunNotFoundError worker_id) | Some w \<Rightarrow> return_s (worker_summary_of w))"

(* sim/api/routes/scheduler.py:24-29 list_workers *)
definition route_workers :: "('s \<times> queue_db) app \<Rightarrow> ('s \<times> queue_db) env \<Rightarrow> ('s \<times> queue_db) env \<times> worker_summary list response" where
  "route_workers app e = respond 200
     ((case ap_queue app of
         None \<Rightarrow> return_s []
       | Some _ \<Rightarrow> bind_s (read_s (\<lambda>w. registry_list_workers (snd w))) (\<lambda>ws. return_s (map worker_summary_of ws))) e)"

(* sim/api/routes/scheduler.py:32-37 get_worker *)
definition route_worker ::
  "('s \<times> queue_db) app \<Rightarrow> string \<Rightarrow> ('s \<times> queue_db) env \<Rightarrow> ('s \<times> queue_db) env \<times> worker_summary response" where
  "route_worker app worker_id e = respond 200
     (bind_s (require_scheduler app) (\<lambda>_.
      bind_s (read_s (\<lambda>w. registry_get_worker worker_id (snd w))) (found_worker worker_id)) e)"

definition no_scheduler_status :: scheduler_status where
  "no_scheduler_status =
     \<lparr>ss_pending_count = 0, ss_running_count = 0, ss_completed_count = 0, ss_failed_count = 0, ss_stale_worker_count = 0,
      ss_stale_job_count = 0, ss_queue_depth = 0, ss_average_wait_seconds = float_zero, ss_average_run_seconds = float_zero,
      ss_worker_utilization = float_zero, ss_throughput_per_minute = float_zero\<rparr>"

(* sim/api/routes/scheduler.py:40-57 scheduler_status *)
definition route_scheduler_status ::
  "('s \<times> queue_db) app \<Rightarrow> ('s \<times> queue_db) env \<Rightarrow> ('s \<times> queue_db) env \<times> pydict response" where
  "route_scheduler_status app e = respond 200
     ((case ap_queue app of
         None \<Rightarrow> return_s (status_dict no_scheduler_status)
       | Some _ \<Rightarrow> bind_s now_s (\<lambda>t1. bind_s now_s (\<lambda>t2. bind_s now_s (\<lambda>t3. scheduler_s (service_status t1 t2 t3))))) e)"

(* sim/api/routes/scheduler.py:60-65 requeue_stale *)
definition route_requeue_stale ::
  "('s \<times> queue_db) app \<Rightarrow> int option \<Rightarrow> ('s \<times> queue_db) env \<Rightarrow> ('s \<times> queue_db) env \<times> pydict response" where
  "route_requeue_stale app stale_after_seconds =
     validated (case stale_after_seconds of None \<Rightarrow> True | Some n \<Rightarrow> 0 < n) (\<lambda>e. respond 200
       (bind_s (require_scheduler app) (\<lambda>_.
        bind_s now_s (\<lambda>t. bind_s now_s (\<lambda>t1. bind_s now_s (\<lambda>t2. bind_s now_s (\<lambda>t3. bind_s now_s (\<lambda>t4.
          scheduler_s (service_requeue_stale t t1 t2 t3 t4 stale_after_seconds))))))) e))"

(* sim/api/routes/scheduler.py:68-73 drain_worker *)
definition route_drain ::
  "('s \<times> queue_db) app \<Rightarrow> string \<Rightarrow> ('s \<times> queue_db) env \<Rightarrow> ('s \<times> queue_db) env \<times> worker_summary response" where
  "route_drain app worker_id e = respond 200
     (bind_s (require_scheduler app) (\<lambda>_. bind_s (scheduler_s (registry_drain worker_id)) (found_worker worker_id)) e)"

(* sim/api/routes/scheduler.py:76-81 shutdown_worker *)
definition route_shutdown ::
  "('s \<times> queue_db) app \<Rightarrow> string \<Rightarrow> ('s \<times> queue_db) env \<Rightarrow> ('s \<times> queue_db) env \<times> worker_summary response" where
  "route_shutdown app worker_id e = respond 200
     (bind_s (require_scheduler app) (\<lambda>_. bind_s (scheduler_s (registry_shutdown worker_id)) (found_worker worker_id)) e)"

end
