(* ===== verification/Route_Props.thy ===== *)
theory Route_Props
  imports Scheduler_Routes Session_Props Backtest_Props Worker_Props
begin

text \<open>
  Properties of the routes on the database that API and workers share: what a queued request stores, that a worker
  brings it to the result the request has when it is executed at once, what cancelling does to a queued run,
  and the answers for unknown runs and bad parameters.
\<close>

section \<open>Requests on the SQLite database\<close>

text \<open>The application of the API on the database that workers poll.\<close>

definition on_database :: "(sql_store \<times> queue_db) app \<Rightarrow> bool" where
  "on_database app \<longleftrightarrow> ap_ops app = with_queue sql_ops \<and> ap_queue app = Some run_queue_client"

lemma stored_world: "stored_ok e = world_ok (en_store e)"
  by (simp add: stored_ok_def world_ok_def)

lemma wp_publish_world:
  assumes "stored_ok e" and "runs_of e i = Some r"
    and "\<And>e'. only_run i e e' \<Longrightarrow> \<exists>ls. runs_of e' i = Some (r\<lparr>rr_logs := ls\<rparr>) \<Longrightarrow> P e' (Inr ())"
  shows "wp_s (publish_s (with_queue sql_ops) cd i cat ty payload step) e P"
proof -
  let ?Q = "\<lambda>q. q = snd (en_store e)"
  let ?T = "same_tournaments (with_queue sql_ops) (\<lambda>w. sql_tournaments_ok (fst w)) (en_store e)"
  have ok: "sql_ok (fst (en_store e)) \<and> ?Q (snd (en_store e))"
    and tok: "sql_tournaments_ok (fst (en_store e))" using assms(1) by (simp_all add: stored_ok_def)
  have logs: "wp_s (publish_s (with_queue sql_ops) cd i cat ty payload step) e
      (\<lambda>e' res. res = Inr () \<and> world.only_logs ?Q i (en_store e) (en_store e'))"
    by (rule world.wp_publish [where Q = ?Q, OF ok]) simp
  have frame: "keeps ?T (publish_s (with_queue sql_ops) cd i cat ty payload step)"
    by (rule keeps_publish [OF world.run_ops_keep_tournaments])
  show ?thesis
  proof (rule wp_mono [OF wp_keeps [OF logs frame]], goal_cases)
    case 1
    show ?case using tok by (rule world.same_tournaments_refl)
  next
    case (2 e' res)
    then have t: "same_tournaments sql_ops sql_tournaments_ok (fst (en_store e)) (fst (en_store e'))"
      using same_tournaments_world [of sql_ops sql_tournaments_ok "en_store e" "fst (en_store e')" "snd (en_store e')"]
      by simp
    from 2 have l: "world.only_logs ?Q i (en_store e) (en_store e')" and res: "res = Inr ()" by simp_all
    have "only_run i e e'"
      using l t by (auto simp: world.only_logs_def [where Q = ?Q] only_run_def stored_ok_def with_queue_sel sql_ops_sel
          same_tournaments_def)
    moreover have "\<exists>ls. runs_of e' i = Some (r\<lparr>rr_logs := ls\<rparr>)"
      using l assms(2) by (auto simp: world.only_logs_def [where Q = ?Q] with_queue_sel sql_ops_sel)
    ultimately show ?case using assms(3) res by simp
  qed
qed

text \<open>A new run in the store.\<close>

lemma wp_create_world:
  assumes "stored_ok e" and "runs_of e i = None"
    and "\<And>e' now. stored_ok e' \<Longrightarrow> snd (en_store e') = snd (en_store e) \<Longrightarrow>
      \<forall>j. j \<noteq> i \<longrightarrow> runs_of e' j = runs_of e j \<Longrightarrow>
      same_tournaments sql_ops sql_tournaments_ok (fst (en_store e)) (fst (en_store e')) \<Longrightarrow>
      runs_of e' i = Some (new_run now i ty (encode_json config)) \<Longrightarrow> wp_s (k (new_run now i ty config)) e' P"
  shows "wp_s (bind_s now_s (\<lambda>now. bind_s (store_raise_s (so_create_run (with_queue sql_ops) now i ty config)) k)) e P"
proof -
  obtain s q where w: "en_store e = (s, q)" by fastforce
  let ?now = "en_clock e (en_ticks e)"
  have s: "sql_ok s" "sql_tournaments_ok s" "sql_get_run i s = None"
    using assms(1,2) by (simp_all add: w stored_ok_def)
  obtain s1 where c1: "sql_create_run ?now i ty config s = (s1, Inr (new_run ?now i ty config))" "sql_ok s1"
      "\<And>j. sql_get_run j s1 = (if j = i then Some (new_run ?now i ty (encode_json config)) else sql_get_run j s)"
    using sql.create_run [of s i ?now ty config] s(1,3) by (auto simp: sql_ops_sel split: prod.splits)
  have "same_tournaments sql_ops sql_tournaments_ok s s1"
    using sql_tournaments.create_run_keeps [OF s(2), of ?now i ty config] c1(1) by (simp add: sql_ops_sel)
  then show ?thesis
    using assms(3) [of "e\<lparr>en_ticks := Suc (en_ticks e), en_store := (s1, q)\<rparr>" ?now] c1
    by (simp add: wp_rules w with_queue_sel sql_ops_sel on_store_def stored_ok_def same_tournaments_def)
qed

text \<open>A run that is stored and announced.\<close>

lemma wp_queue_run:
  assumes "stored_ok e" and "unused i (en_store e)"
    and "\<And>e' now ls. stored_ok e' \<Longrightarrow> snd (en_store e') = snd (en_store e) \<Longrightarrow>
      \<forall>j. j \<noteq> i \<longrightarrow> runs_of e' j = runs_of e j \<Longrightarrow> same_links e e' \<Longrightarrow>
      runs_of e' i = Some (new_run now i ty (encode_json config)\<lparr>rr_logs := ls\<rparr>) \<Longrightarrow>
      P e' (Inr (to_detail (new_run now i ty config)))"
  shows "wp_s (queue_run_s (with_queue sql_ops) cd i ty config) e P"
  unfolding queue_run_s_def
proof (rule wp_create_world [OF assms(1)], goal_cases)
  case 1
  show ?case using assms(2) by (simp add: unused_def)
next
  case (2 e1 now)
  have fin: "P e2 (Inr (to_detail (new_run now i ty config)))"
    if "only_run i e1 e2" "\<exists>ls. runs_of e2 i = Some (new_run now i ty (encode_json config)\<lparr>rr_logs := ls\<rparr>)" for e2
  proof -
    from that(2) obtain ls where ls: "runs_of e2 i = Some (new_run now i ty (encode_json config)\<lparr>rr_logs := ls\<rparr>)" by blast
    have "same_links e e1" using 2(4) by (simp add: same_links_def same_tournaments_def sql_ops_sel)
    then have "same_links e e2" using same_links_trans only_run_links [OF that(1)] by blast
    with that(1) 2(2,3) show ?thesis by (intro assms(3) [OF _ _ _ _ ls]) (simp_all add: only_run_def)
  qed
  have "rr_run_id (new_run now i ty config) = i" by (simp add: new_run_def)
  then show ?case
    by (simp only: wp_bind) (rule wp_publish_world [OF 2(1,5)], simp add: wp_return fin)
qed

text \<open>What a request on the queue leaves behind.\<close>

definition posted :: "string \<Rightarrow> run_type \<Rightarrow> pydict \<Rightarrow> int \<Rightarrow> world env \<Rightarrow> world env \<Rightarrow> run_detail result \<Rightarrow> bool" where
  "posted i ty config priority e e' res \<longleftrightarrow> stored_ok e' \<and>
     (\<exists>now ls. runs_of e' i = Some (new_run now i ty (encode_json config)\<lparr>rr_logs := ls\<rparr>) \<and>
        res = Inr (queued_detail (to_detail (new_run now i ty config)))) \<and>
     (\<exists>now. snd (en_store e') = fst (enqueue now i priority None (snd (en_store e)))) \<and>
     (\<forall>j. j \<noteq> i \<longrightarrow> runs_of e' j = runs_of e j) \<and> same_links e e'"

lemma enqueue_unused:
  assumes "get_item i q = None"
  shows "\<exists>q' item. enqueue now i priority None q = (q', Inr item)"
proof -
  have "get_item i (fst (enqueue now i priority None q)) \<noteq> None" using assms by (simp add: get_item_enqueue)
  then show ?thesis by (auto simp: enqueue_def Let_def split: option.splits)
qed

lemma wp_post_queued:
  assumes "stored_ok e" and "unused i (en_store e)"
  shows "wp_s (bind_s (queue_run_s (with_queue sql_ops) cd i ty config) (\<lambda>detail.
      bind_s (enqueue_s run_queue_client (ru_run_id detail) priority) (\<lambda>_. return_s (queued_detail detail)))) e
    (posted i ty config priority e)"
  unfolding wp_bind [of "queue_run_s ops cd i ty config" for ops]
proof (rule wp_queue_run [OF assms])
  fix e1 now ls
  assume a: "stored_ok e1" "snd (en_store e1) = snd (en_store e)" "\<forall>j. j \<noteq> i \<longrightarrow> runs_of e1 j = runs_of e j"
    "same_links e e1" "runs_of e1 i = Some (new_run now i ty (encode_json config)\<lparr>rr_logs := ls\<rparr>)"
  have id: "ru_run_id (to_detail (new_run now i ty config)) = i"
    by (simp add: to_detail_def to_summary_def Let_def new_run_def run_summary.defs)
  obtain q item where q: "enqueue (en_clock e1 (en_ticks e1)) i priority None (snd (en_store e1)) = (q, Inr item)"
    using enqueue_unused [of i "snd (en_store e)"] assms(2) a(2) unfolding unused_def by metis
  then have "q = fst (enqueue (en_clock e1 (en_ticks e1)) i priority None (snd (en_store e)))" by (simp flip: a(2))
  then have "posted i ty config priority e (e1\<lparr>en_ticks := Suc (en_ticks e1), en_store := (fst (en_store e1), q)\<rparr>)
      (Inr (queued_detail (to_detail (new_run now i ty config))))"
    unfolding posted_def using a by (intro conjI exI [of _ now] exI [of _ ls] exI [of _ "en_clock e1 (en_ticks e1)"])
      (simp_all add: stored_ok_def same_links_def)
  then show "case Inr (to_detail (new_run now i ty config)) of Inl exc \<Rightarrow> posted i ty config priority e e1 (Inl exc)
    | Inr x \<Rightarrow> wp_s (bind_s (enqueue_s run_queue_client (ru_run_id x) priority) (\<lambda>_. return_s (queued_detail x))) e1
        (posted i ty config priority e)"
    using q by (simp add: wp_rules id enqueue_s_def run_queue_client_def on_queue_def)
qed

text \<open>The dispatch of the two POST handlers.\<close>

lemma post_session_cases:
  assumes "on_database app"
  shows "post_session app i payload =
    (if use_queue (se_mode payload) app
     then bind_s (queue_run_s (with_queue sql_ops) (ap_codec app) i Session (dump_session payload)) (\<lambda>detail.
       bind_s (enqueue_s run_queue_client (ru_run_id detail) (se_priority payload)) (\<lambda>_. return_s (queued_detail detail)))
     else execute_new (with_queue sql_ops) (ap_codec app) i Session (dump_session payload) (ap_session app payload))"
  using assms by (simp add: post_session_def on_database_def Let_def queue_session_def run_session_s_def)

lemma post_backtest_cases:
  assumes "on_database app"
  shows "post_backtest app i payload =
    (if use_queue (bq_mode payload) app
     then bind_s (queue_run_s (with_queue sql_ops) (ap_codec app) i Backtest (dump_backtest payload)) (\<lambda>detail.
       bind_s (enqueue_s run_queue_client (ru_run_id detail) (bq_priority payload)) (\<lambda>_. return_s (queued_detail detail)))
     else execute_new (with_queue sql_ops) (ap_codec app) i Backtest (dump_backtest payload) (ap_backtest app payload))"
  using assms by (simp add: post_backtest_def on_database_def Let_def queue_backtest_def run_backtest_s_def)

text \<open>A run that is stored and executed at once.\<close>

lemma wp_execute_new_world:
  assumes "stored_ok e" and "unused i (en_store e)"
  shows "wp_s (execute_new (with_queue sql_ops) cd i ty config executor) e (\<lambda>e' res.
    \<exists>now r'. runs_of e' i = Some r' \<and> executed (snd (executor i)) (new_run now i ty (encode_json config)) r')"
  unfolding execute_new_def
proof (rule wp_create_world [OF assms(1)], goal_cases)
  case 1
  show ?case using assms(2) by (simp add: unused_def)
next
  case (2 e1 now)
  let ?Q = "\<lambda>q. q = snd (en_store e1)"
  let ?r = "new_run now i ty (encode_json config)"
  have ok: "sql_ok (fst (en_store e1)) \<and> ?Q (snd (en_store e1))" using 2(1) by (simp add: stored_ok_def)
  have get: "so_get_run (with_queue sql_ops) i (en_store e1) = Some ?r"
    using 2(5) by (simp add: with_queue_sel sql_ops_sel)
  have id: "rr_run_id (new_run now i ty config) = i" by (simp add: new_run_def)
  note run = world.wp_execute [where Q = ?Q, OF ok get, of cd ty config executor]
  show ?case
    unfolding id
    by (rule wp_mono [OF run], cases "snd (executor i)")
      (auto simp: with_queue_sel sql_ops_sel executed_def world.started_def world.completed_with_def world.failed_with_def)
qed

text \<open>The results of two executions of a run.\<close>

definition same_result :: "run_record \<Rightarrow> run_record \<Rightarrow> bool" where
  "same_result r r' \<longleftrightarrow> rr_run_type r = rr_run_type r' \<and> rr_status r = rr_status r' \<and> rr_config r = rr_config r' \<and>
     rr_report r = rr_report r' \<and> run_record.rr_events r = run_record.rr_events r' \<and> rr_snapshots r = rr_snapshots r' \<and>
     rr_accounts r = rr_accounts r' \<and> rr_error r = rr_error r'"

lemma executed_same:
  assumes "executed outcome (new_run now i ty config) r" and "executed outcome (new_run now' i ty config\<lparr>rr_logs := ls\<rparr>) r'"
  shows "same_result r r'"
  using assms by (cases outcome) (auto simp: executed_def same_result_def new_run_def)

lemma posted_then_polled:
  assumes post: "posted i ty config priority e e1 res" and k: "k = build_worker cd eg xc be pow fmt host pid w m once"
    and inv: "queue_inv (snd (en_store e))" and e2: "en_store e2 = en_store e1"
    and go: "\<not> stopping w (snd (en_store e2))"
    and claim: "snd (claim_next (en_clock e2 (en_ticks e2)) w (snd (en_store e2))) = Some item" "qi_run_id item = i"
    and on: "ty = Session \<and> eg_session eg (encode_json config) = Inr executor \<or>
      ty = Backtest \<and> eg_backtest eg (encode_json config) = Inr executor"
    and sync: "executed (snd (executor i)) (new_run now i ty (encode_json config)) r"
  shows "\<exists>r'. runs_of (fst (poll k e2)) i = Some r' \<and> same_result r r'"
proof -
  obtain now' now'' ls where p: "stored_ok e1" "runs_of e1 i = Some (new_run now' i ty (encode_json config)\<lparr>rr_logs := ls\<rparr>)"
    "snd (en_store e1) = fst (enqueue now'' i priority None (snd (en_store e)))"
    using post by (auto simp: posted_def)
  let ?r = "new_run now' i ty (encode_json config)\<lparr>rr_logs := ls\<rparr>"
  have wk: "wk_ops k = with_queue sql_ops" "wk_tournaments k = Some (pow, fmt)" "wk_worker_id k = w" "wk_engines k = eg"
    by (simp_all add: k build_worker_def)
  have ok: "stored_ok e2" "queue_inv (snd (en_store e2))" "\<not> stopping (wk_worker_id k) (snd (en_store e2))"
    using p(1) e2 go wk queue_inv_exec [OF inv, of "Op_Enqueue now'' i priority None"] p(3)
    by (simp_all add: stored_ok_def)
  have r: "runs_of e2 (qi_run_id item) = Some ?r" using p(2) e2 claim(2) by simp
  have st: "rr_status ?r \<notin> {Completed, Canceled}" by (simp add: new_run_def)
  have run: "runs_on (wk_engines k) ?r executor" using on by (simp add: runs_on_def wk new_run_def)
  have claim': "snd (claim_next (en_clock e2 (en_ticks e2)) (wk_worker_id k) (snd (en_store e2))) = Some item"
    using claim(1) wk by simp
  have "\<exists>r'. runs_of (fst (poll k e2)) i = Some r' \<and> executed (snd (executor i)) ?r r'"
    using wp_poll_job [OF wk(1,2) ok claim' r st run] claim(2) by (auto simp: wp_s_def job_over_def split: prod.splits)
  with executed_same [OF sync] show ?thesis by blast
qed

section \<open>Posting\<close>



text \<open>The sample: an empty database, and the application on the sample engine.\<close>

definition sample_app :: "world app" where
  "sample_app = create_app (with_queue sql_ops) quiet_codec run_queue_client
     (\<lambda>request run_id. run_session sample_exchange sample_random True request)
     (\<lambda>request run_id. the (run_backtest sample_exchange True request)) sample_rv [] (Some True) None"

definition new_world :: "world env" where
  "new_world = \<lparr>en_store = (empty_sql, migrate_legacy_worker_heartbeats None (new_queue 30)),
     en_stream = Some (new_stream 100), en_clock = int, en_ticks = 0\<rparr>"

lemma sample_app_sel:
  "on_database sample_app" "ap_session sample_app = (\<lambda>request run_id. run_session sample_exchange sample_random True request)"
  "ap_backtest sample_app = (\<lambda>request run_id. the (run_backtest sample_exchange True request))" "ap_queue_enabled sample_app"
  by (simp_all add: sample_app_def create_app_def on_database_def queue_enabled_def Let_def)

lemma new_world_ok:
  "world_ok (en_store new_world)" "unused i (en_store new_world)" "queue_reachable 30 (snd (en_store new_world))"
proof -
  have "sql_tournaments_ok empty_sql" by (simp add: sql_tournaments_ok_def empty_sql_def)
  then show "world_ok (en_store new_world)" by (simp add: world_ok_def new_world_def sql_ok_empty)
  show "unused i (en_store new_world)"
    by (simp add: unused_def new_world_def empty_sql_def sql_get_run_def migrate_legacy_worker_heartbeats_def new_queue_def get_item_def)
  show "queue_reachable 30 (snd (en_store new_world))" by (simp add: new_world_def queue_reachable.initial)
qed


lemma sample_posted:
  assumes "use_queue (se_mode s) sample_app"
  shows "posted i Session (dump_session s) (se_priority s) new_world (fst (post_session sample_app i s new_world))
    (snd (post_session sample_app i s new_world))"
  using wp_post_queued [of new_world i "ap_codec sample_app" Session "dump_session s" "se_priority s"] new_world_ok(1,2) assms
  by (simp add: post_session_cases [OF sample_app_sel(1)] wp_s_def stored_world split: prod.splits)


section \<open>Queued and immediate execution\<close>

lemma session_mode [simp]:
  "run_session ex rs cb (s\<lparr>se_mode := m\<rparr>) = run_session ex rs cb s" "dump_session (s\<lparr>se_mode := m\<rparr>) = dump_session s"
proof -
  have config: "market_config (s\<lparr>se_mode := m\<rparr>) = market_config s" by (simp add: market_config_def)
  have artifacts: "session_artifacts (s\<lparr>se_mode := m\<rparr>) = session_artifacts s" by (simp add: session_artifacts_def [abs_def])
  show "run_session ex rs cb (s\<lparr>se_mode := m\<rparr>) = run_session ex rs cb s"
    unfolding run_session_def config artifacts by (simp cong: sum.case_cong)
qed (simp add: dump_session_def)

lemma backtest_mode [simp]:
  "run_backtest ex cb (b\<lparr>bq_mode := m\<rparr>) = run_backtest ex cb b" "dump_backtest (b\<lparr>bq_mode := m\<rparr>) = dump_backtest b"
proof -
  have config: "config_of (b\<lparr>bq_mode := m\<rparr>) = config_of b" by (simp add: config_of_def)
  show "run_backtest ex cb (b\<lparr>bq_mode := m\<rparr>) = run_backtest ex cb b"
    unfolding run_backtest_def config by (simp cong: sum.case_cong)
qed (simp add: dump_backtest_def)

text \<open>A worker that claims the run of a queued request stores the result of the request when executed at once.\<close>

definition same_after_poll ::
  "sql_store worker \<Rightarrow> string \<Rightarrow> (world, run_detail) svc \<Rightarrow> (world, run_detail) svc \<Rightarrow> world env \<Rightarrow> world env \<Rightarrow> bool" where
  "same_after_poll k i queued sync e e2 \<longleftrightarrow>
     (en_store e2 = en_store (fst (queued e)) \<and> \<not> stopping (wk_worker_id k) (snd (en_store e2)) \<and>
      map_option qi_run_id (snd (claim_next (en_clock e2 (en_ticks e2)) (wk_worker_id k) (snd (en_store e2)))) = Some i \<longrightarrow>
      (\<exists>r r'. sql_get_run i (fst (en_store (fst (sync e)))) = Some r \<and>
         sql_get_run i (fst (en_store (fst (poll k e2)))) = Some r' \<and> same_result r r'))"

lemma same_after_pollI:
  assumes "stored_ok e" and "unused i (en_store e)" and "queue_inv (snd (en_store e))"
    and k: "k = build_worker cd eg xc be pow fmt host pid w m once"
    and queued: "queued = bind_s (queue_run_s (with_queue sql_ops) cd' i ty config) (\<lambda>detail.
      bind_s (enqueue_s run_queue_client (ru_run_id detail) priority) (\<lambda>_. return_s (queued_detail detail)))"
    and sync: "sync = execute_new (with_queue sql_ops) cd' i ty config executor"
    and on: "ty = Session \<and> eg_session eg (encode_json config) = Inr executor \<or>
      ty = Backtest \<and> eg_backtest eg (encode_json config) = Inr executor"
  shows "same_after_poll k i queued sync e e2"
proof -
  have w: "wk_worker_id k = w" by (simp add: k build_worker_def)
  obtain e1 res where e1: "queued e = (e1, res)" by fastforce
  then have post: "posted i ty config priority e e1 res"
    using wp_post_queued [OF assms(1,2), of cd' ty config priority] by (simp add: queued wp_s_def)
  obtain now r where r: "runs_of (fst (sync e)) i = Some r"
    "executed (snd (executor i)) (new_run now i ty (encode_json config)) r"
    using wp_execute_new_world [OF assms(1,2), of cd' ty config executor] by (auto simp: sync wp_s_def split: prod.splits)
  show ?thesis
    unfolding same_after_poll_def w
  proof (intro impI, elim conjE)
    assume a: "en_store e2 = en_store (fst (queued e))" "\<not> stopping w (snd (en_store e2))"
      "map_option qi_run_id (snd (claim_next (en_clock e2 (en_ticks e2)) w (snd (en_store e2)))) = Some i"
    from a(3) obtain item where claim: "snd (claim_next (en_clock e2 (en_ticks e2)) w (snd (en_store e2))) = Some item"
      "qi_run_id item = i" by auto
    have "en_store e2 = en_store e1" using a(1) e1 by simp
    from posted_then_polled [OF post k assms(3) this a(2) claim on r(2)] r(1)
    show "\<exists>r r'. runs_of (fst (sync e)) i = Some r \<and> runs_of (fst (poll k e2)) i = Some r' \<and> same_result r r'" by blast
  qed
qed

text \<open>C18 (queued and immediate runs agree). Let an accepted session request be posted with mode \<open>queued\<close>, and let a worker, in a
  process of its own with any clock and stream, claim the run. Then the run it stores has the same status,
  configuration, report, events, snapshots, accounts and error as the run that the request stores when it
  is posted with mode \<open>sync\<close>, whatever engine and seeded generator both use and whether the execution succeeds
  or fails. The same holds for backtests.\<close>

theorem queued_run_is_sync_run:
  assumes "on_database app" and "world_ok (en_store e)" and "unused i (en_store e)"
    and "queue_reachable stale (snd (en_store e))"
    and "ap_session app = (\<lambda>request run_id. run_session ex rs True request)" and "eg_session eg = session_executor ex rs et"
    and "ap_backtest app = (\<lambda>request run_id. the (run_backtest bx True request))" and "eg_backtest eg = backtest_executor bx et"
    and "make_session et s0 = Inr s" and "make_backtest et b0 = Inr b"
    and k: "k = build_worker cd eg xc be pow fmt host pid w m once"
  shows "same_after_poll k i (post_session app i (s\<lparr>se_mode := Some Queued\<rparr>)) (post_session app i (s\<lparr>se_mode := Some Sync\<rparr>)) e e2 \<and>
    same_after_poll k i (post_backtest app i (b\<lparr>bq_mode := Some Queued\<rparr>)) (post_backtest app i (b\<lparr>bq_mode := Some Sync\<rparr>)) e e2"
proof
  have ok: "stored_ok e" "queue_inv (snd (en_store e))"
    using assms(2) reachable_inv [OF assms(4)] by (simp_all add: stored_world)
  show "same_after_poll k i (post_session app i (s\<lparr>se_mode := Some Queued\<rparr>)) (post_session app i (s\<lparr>se_mode := Some Sync\<rparr>)) e e2"
    by (rule same_after_pollI [OF ok(1) assms(3) ok(2) k, where ty = Session and cd' = "ap_codec app"
          and config = "dump_session s" and executor = "\<lambda>run_id. run_session ex rs True s" and priority = "se_priority s"])
      (simp_all add: post_session_cases [OF assms(1)] use_queue_def assms(5,6) session_executor_def
        parse_stored_session [OF assms(9)])
  show "same_after_poll k i (post_backtest app i (b\<lparr>bq_mode := Some Queued\<rparr>)) (post_backtest app i (b\<lparr>bq_mode := Some Sync\<rparr>)) e e2"
    by (rule same_after_pollI [OF ok(1) assms(3) ok(2) k, where ty = Backtest and cd' = "ap_codec app"
          and config = "dump_backtest b" and executor = "\<lambda>run_id. the (run_backtest bx True b)" and priority = "bq_priority b"])
      (simp_all add: post_backtest_cases [OF assms(1)] use_queue_def assms(7,8) backtest_executor_def
        parse_stored_backtest [OF assms(10)])
qed

theorem queued_run_is_sync_run_witness:
  "\<exists>e2 k r r'. en_store e2 = en_store (fst (post_session sample_app ''s'' (sample_session\<lparr>se_mode := Some Queued\<rparr>) new_world)) \<and>
    sql_get_run ''s'' (fst (en_store (fst (post_session sample_app ''s'' (sample_session\<lparr>se_mode := Some Sync\<rparr>) new_world)))) = Some r \<and>
    sql_get_run ''s'' (fst (en_store (fst (poll k e2)))) = Some r' \<and> same_result r r'"
proof -
  let ?et = "\<lambda>model bad. []" and ?p = "sample_session\<lparr>se_mode := Some Queued\<rparr>"
  let ?eg = "\<lparr>eg_session = session_executor sample_exchange sample_random ?et, eg_backtest = backtest_executor sample_exchange ?et\<rparr>"
  let ?k = "sample_worker ?eg"
  define e1 where "e1 = fst (post_session sample_app ''s'' ?p new_world)"
  have "posted ''s'' Session (dump_session ?p) (se_priority ?p) new_world e1 (snd (post_session sample_app ''s'' ?p new_world))"
    unfolding e1_def by (rule sample_posted) (simp add: use_queue_def)
  then obtain now where q: "snd (en_store e1) = fst (enqueue now ''s'' 0 None (snd (en_store new_world)))"
    by (auto simp: posted_def sample_session_def)
  let ?e2 = "e1\<lparr>en_clock := (\<lambda>n. now)\<rparr>"
  have "map_option qi_run_id (snd (claim_next now (wk_worker_id ?k) (snd (en_store e1)))) = Some ''s''"
    by (simp add: q new_world_def migrate_legacy_worker_heartbeats_def new_queue_def enqueue_def claim_next_def claim_candidates_def
        claimable_def upsert_def Let_def)
  moreover have "\<not> stopping (wk_worker_id ?k) (snd (en_store e1))"
    by (simp add: q new_world_def migrate_legacy_worker_heartbeats_def new_queue_def enqueue_def stopping_def get_worker_def Let_def)
  moreover note queued_run_is_sync_run [OF sample_app_sel(1) new_world_ok(1,2,3) sample_app_sel(2) _ sample_app_sel(3) _
      sample_session_accepted sample_accepted sample_worker_def, where eg = ?eg and et = ?et and i = "''s''" and ?e2.0 = ?e2]
  ultimately show ?thesis
    unfolding same_after_poll_def by (intro exI [of _ ?e2] exI [of _ ?k]) (simp add: e1_def)
qed

section \<open>Cancelling\<close>




section \<open>Errors\<close>

text \<open>The readers of a run, with the bodies of their responses forgotten.\<close>

definition no_body :: "'w env \<times> 'a response \<Rightarrow> 'w env \<times> unit response" where
  "no_body er = (case er of (e, r) \<Rightarrow>
     (e, case r of Json st x \<Rightarrow> Json st () | Error_Json st code message \<Rightarrow> Error_Json st code message | Server_Error \<Rightarrow> Server_Error))"

definition readers :: "'w app \<Rightarrow> string \<Rightarrow> string option \<Rightarrow> string option \<Rightarrow> int \<Rightarrow> string \<Rightarrow> ('w env \<Rightarrow> 'w env \<times> unit response) list" where
  "readers app i sy ac n right =
     [no_body \<circ> route_get_run app i, no_body \<circ> route_report app i, no_body \<circ> route_accounts app i ac sy,
      no_body \<circ> route_replay app i, no_body \<circ> route_replay_frame app i n sy, no_body \<circ> route_replay_summary app i,
      no_body \<circ> route_replay_run app i, no_body \<circ> route_verify app i, no_body \<circ> route_verification app i,
      no_body \<circ> route_diff app i right, no_body \<circ> route_summary app i]"

definition paged_readers ::
  "'w app \<Rightarrow> string \<Rightarrow> string option \<Rightarrow> string option \<Rightarrow> string option \<Rightarrow> string \<Rightarrow> int option \<Rightarrow> int
   \<Rightarrow> ('w env \<Rightarrow> 'w env \<times> unit response) list" where
  "paged_readers app i sy ty kind x limit offset =
     [no_body \<circ> route_events app i sy ty limit offset, no_body \<circ> route_snapshots app i sy limit offset,
      no_body \<circ> route_logs app i limit offset, no_body \<circ> route_timeline app i sy ty kind limit offset,
      no_body \<circ> route_order_timeline app i x sy ty kind limit offset,
      no_body \<circ> route_account_timeline app i x sy ty kind limit offset]"

definition not_found :: "string \<Rightarrow> 'a response" where
  "not_found i = Error_Json 404 ''run_not_found'' (''run not found: '' @ i)"

lemma refused_responses:
  "respond 200 (e, Inl (RunNotFoundError i)) = (e, not_found i)" "no_body (e, not_found i) = (e, not_found i)"
  "no_body (e, Error_Json st code message) = (e, Error_Json st code message)"
  by (simp_all add: respond_def no_body_def error_response_def not_found_def)

lemma bind_raised: "m e = (e, Inl exc) \<Longrightarrow> bind_s m k e = (e, Inl exc)"
  by (simp add: bind_s_def)

lemma read_missing: "f (en_store e) = None \<Longrightarrow> bind_s (read_s f) (option_s exc) e = (e, Inl exc)"
  by (simp add: bind_s_def read_s_def option_s_def raise_s_def)

text \<open>A run that is there loads.\<close>

lemma load_there:
  assumes "run_exists j (fst (en_store e))"
  shows "\<exists>a. load_run (with_queue sql_ops) j e = (e, Inr a)"
proof -
  obtain r where "so_get_run (with_queue sql_ops) j (en_store e) = Some r"
    using assms sql_get_run_exists [of j "fst (en_store e)"] by (auto simp: with_queue_sel sql_ops_sel)
  then have "\<exists>a. load_artifacts (with_queue sql_ops) j (en_store e) = Some a"
    using assms by (simp add: load_artifacts_def with_queue_def sql_ops_def sql_get_report_def sql_get_accounts_def
        sql_get_events_def sql_get_snapshots_def sql_get_logs_def)
  then show ?thesis by (auto simp: load_run_def bind_s_def read_s_def option_s_def return_s_def)
qed

text \<open>The service calls behind the readers, on a run that is not there.\<close>

lemma services_missing:
  assumes "\<not> run_exists i (fst (en_store e))"
  defines "ops \<equiv> with_queue sql_ops"
  shows "get_run_s ops i e = (e, Inl (RunNotFoundError i))" "get_report_s ops i e = (e, Inl (RunNotFoundError i))" "get_accounts_s ops i ac sy e = (e, Inl (RunNotFoundError i))"
    "get_events_s ops i sy ty limit offset e = (e, Inl (RunNotFoundError i))" "get_snapshots_s ops i sy limit offset e = (e, Inl (RunNotFoundError i))"
    "get_logs_s ops i limit offset e = (e, Inl (RunNotFoundError i))" "load_run ops i e = (e, Inl (RunNotFoundError i))" "get_verification_s ops rv i e = (e, Inl (RunNotFoundError i))"
proof -
  have run: "so_get_run ops i (en_store e) = None"
    using assms(1) sql_get_run_exists [of i "fst (en_store e)"] by (simp add: ops_def with_queue_sel sql_ops_sel)
  have part: "so_get_report ops i (en_store e) = None" "so_get_accounts ops i ac sy None 0 (en_store e) = None"
    "so_get_events ops i sy ty limit offset (en_store e) = None" "so_get_snapshots ops i sy limit offset (en_store e) = None"
    "so_get_logs ops i limit offset (en_store e) = None"
    using assms(1) by (simp_all add: ops_def with_queue_def sql_ops_def sql_get_report_def sql_get_accounts_def
        sql_get_events_def sql_get_snapshots_def sql_get_logs_def)
  show "get_run_s ops i e = (e, Inl (RunNotFoundError i))" "get_report_s ops i e = (e, Inl (RunNotFoundError i))" "get_accounts_s ops i ac sy e = (e, Inl (RunNotFoundError i))"
    "get_events_s ops i sy ty limit offset e = (e, Inl (RunNotFoundError i))" "get_snapshots_s ops i sy limit offset e = (e, Inl (RunNotFoundError i))"
    "get_logs_s ops i limit offset e = (e, Inl (RunNotFoundError i))" "load_run ops i e = (e, Inl (RunNotFoundError i))" "get_verification_s ops rv i e = (e, Inl (RunNotFoundError i))"
    using run part by (simp_all add: get_run_s_def require_run_def get_report_s_def get_accounts_s_def get_events_s_def
        get_snapshots_s_def get_logs_s_def load_run_def get_verification_s_def load_artifacts_def read_missing bind_raised)
qed

lemma replays_missing:
  assumes "load_run ops i e = (e, Inl (RunNotFoundError i))"
  shows "get_replay_session ops ids i e = (e, Inl (RunNotFoundError i))"
    "get_replay_frame ops ids i n sy e = (e, Inl (RunNotFoundError i))" "get_replay_summary ops i e = (e, Inl (RunNotFoundError i))"
    "replay_run ops i e = (e, Inl (RunNotFoundError i))" "verify_run ops rv i e = (e, Inl (RunNotFoundError i))"
    "diff_runs_s ops rv i right e = (e, Inl (RunNotFoundError i))" "summarize_run ops i e = (e, Inl (RunNotFoundError i))"
    "get_timeline ops ids i sy ty kind limit offset e = (e, Inl (RunNotFoundError i))"
    "get_order_timeline ops ids i x sy ty kind limit offset e = (e, Inl (RunNotFoundError i))"
    "get_account_timeline ops ids i x sy ty kind limit offset e = (e, Inl (RunNotFoundError i))"
    "get_replay_range ops ids i s0 e0 sy b1 b2 b3 e = (e, Inl (RunNotFoundError i))"
  by (simp_all add: get_replay_range_def get_replay_session_def get_replay_frame_def get_replay_summary_def replay_run_def verify_run_def
      diff_runs_s_def summarize_run_def get_timeline_def get_order_timeline_def get_account_timeline_def bind_raised assms)

lemma diff_right_missing:
  assumes "load_run ops i e = (e, Inl (RunNotFoundError i))" and "load_run ops j e = (e, Inr a)"
  shows "diff_runs_s ops rv j i e = (e, Inl (RunNotFoundError i))"
  using assms by (simp add: diff_runs_s_def bind_s_def)

text \<open>C21 (unknown runs and bad parameters). Every route of a run that reads, streams, compares or verifies it answers
  404 with the code \<open>run_not_found\<close> when the database has no such run, and leaves store, queue, stream and clock as
  they are; a comparison names the left run when that is missing, else the right one. The routes with bounded
  parameters, \<open>limit\<close> and \<open>offset\<close>, the ends of a range or the replay limit of a stream, answer 400 with the code
  \<open>validation_error\<close> instead, without looking at the database, when one of them is negative.\<close>

theorem unknown_run_not_found:
  assumes "on_database app" and "sql_get_run i (fst (en_store e)) = None"
  shows "list_all (\<lambda>route. route e = (e, not_found i)) (readers app i sy ac n right) \<and>
    list_all (\<lambda>route. route e = (e, if page_fine limit offset then not_found i
      else Error_Json 400 ''validation_error'' ''request validation failed'')) (paged_readers app i sy ty kind x limit offset) \<and>
    route_replay_range app i s0 e0 sy b1 b2 b3 e = (e, if 0 \<le> s0 \<and> 0 \<le> e0 then not_found i
      else Error_Json 400 ''validation_error'' ''request validation failed'') \<and>
    route_stream app i replay_limit e = (e, if 0 \<le> replay_limit then not_found i
      else Error_Json 400 ''validation_error'' ''request validation failed'') \<and>
    route_diff app left i e = (e, not_found (if sql_get_run left (fst (en_store e)) = None then left else i))"
proof -
  have ops: "ap_ops app = with_queue sql_ops" using assms(1) by (simp add: on_database_def)
  have gone: "\<not> run_exists i (fst (en_store e))" using assms(2) sql_get_run_exists by blast
  note services = services_missing [OF gone] replays_missing [OF services_missing(7) [OF gone]]
  have "diff_runs_s (with_queue sql_ops) (ap_replay app) left i e =
      (e, Inl (RunNotFoundError (if sql_get_run left (fst (en_store e)) = None then left else i)))"
  proof (cases "run_exists left (fst (en_store e))")
    case True
    then obtain a where "load_run (with_queue sql_ops) left e = (e, Inr a)" using load_there by blast
    from diff_right_missing [OF services_missing(7) [OF gone] this] show ?thesis
      using True sql_get_run_exists [of left "fst (en_store e)"] by auto
  next
    case False
    from replays_missing(6) [OF services_missing(7) [OF this]] show ?thesis
      using False sql_get_run_exists [of left "fst (en_store e)"] by auto
  qed
  then have diff: "route_diff app left i e =
      (e, not_found (if sql_get_run left (fst (en_store e)) = None then left else i))"
    by (simp only: route_diff_def ops refused_responses)
  show ?thesis
    by (intro conjI diff)
      (simp_all add: readers_def paged_readers_def comp_def route_get_run_def route_report_def route_accounts_def
        route_replay_def route_replay_frame_def route_replay_summary_def route_replay_run_def route_verify_def
        route_verification_def route_diff_def route_summary_def route_events_def route_snapshots_def route_logs_def
        route_timeline_def route_order_timeline_def route_account_timeline_def route_replay_range_def route_stream_def
        validated_def part_of_def ops services bind_raised refused_responses)
qed

theorem unknown_run_not_found_witness:
  "list_all (\<lambda>route. route new_world = (new_world, not_found ''s'')) (readers sample_app ''s'' None None 0 ''t'') \<and>
   list_all (\<lambda>route. route new_world = (new_world, Error_Json 400 ''validation_error'' ''request validation failed''))
     (paged_readers sample_app ''s'' None None None ''x'' (Some (- 1)) 0) \<and>
   route_stream sample_app ''s'' 100 new_world = (new_world, not_found ''s'') \<and>
   route_diff sample_app ''t'' ''s'' new_world = (new_world, not_found ''t'')"
proof -
  have "sql_get_run ''s'' (fst (en_store new_world)) = None" using new_world_ok(2) by (simp add: unused_def)
  note unknown = unknown_run_not_found [OF sample_app_sel(1) this]
  show ?thesis
    using unknown [where sy = None and ac = None and n = 0 and right = "''t''" and limit = "Some (- 1)" and offset = 0 and
        ty = None and kind = None and x = "''x''" and left = "''t''" and ?s0.0 = 0 and ?e0.0 = 9 and replay_limit = 100]
    by (simp add: page_fine_def new_world_ok(2) [unfolded unused_def])
qed

section \<open>Draining\<close>

lemma wp_poll_stopping:
  assumes "get_worker (wk_worker_id k) (snd (en_store e)) = Some r" and "wr_drain_requested r \<or> wr_shutdown_requested r"
  shows "wp_s (poll k) e (\<lambda>e' res. fst (en_store e') = fst (en_store e) \<and>
    res = Inr (if wr_shutdown_requested r \<or> wk_once k then Leave else Sleep) \<and>
    (\<forall>j. get_item j (snd (en_store e')) = get_item j (snd (en_store e)) \<and>
       get_lease j (snd (en_store e')) = get_lease j (snd (en_store e))))"
  using assms
  by (auto simp: poll_def wp_bind wp_read wp_return intro!: wp_heartbeat) (simp_all add: queue_view)

text \<open>A handler that writes to the record of a worker.\<close>

lemma flag_handler:
  assumes app: "on_database app" and r: "get_worker w (snd (en_store e)) = Some r" and f: "\<And>r. wr_worker_id (f r) = wr_worker_id r"
    and er: "er = respond 200 (bind_s (require_scheduler app) (\<lambda>_. bind_s (scheduler_s (\<lambda>q.
      let q' = q\<lparr>q_workers := update_where (\<lambda>x. wr_worker_id x = w) f (q_workers q)\<rparr> in (q', get_worker w q'))) (found_worker w)) e)"
  shows "case er of (e1, response) \<Rightarrow>
    response = Json 200 (worker_summary_of (f r)) \<and> fst (en_store e1) = fst (en_store e) \<and>
    (\<forall>v. get_worker v (snd (en_store e1)) = (if v = w then Some (f r) else get_worker v (snd (en_store e)))) \<and>
    (\<forall>j. get_item j (snd (en_store e1)) = get_item j (snd (en_store e)) \<and>
       get_lease j (snd (en_store e1)) = get_lease j (snd (en_store e)))"
proof -
  let ?q = "(snd (en_store e))\<lparr>q_workers := update_where (\<lambda>x. wr_worker_id x = w) f (q_workers (snd (en_store e)))\<rparr>"
  have get: "get_worker v ?q = (if v = w then Some (f r) else get_worker v (snd (en_store e)))" for v
    using r row_of_Some [of wr_worker_id v "q_workers (snd (en_store e))"]
    by (cases "get_worker v (snd (en_store e))") (auto simp: get_worker_def row_of_update_where f)
  have "er = (e\<lparr>en_store := (fst (en_store e), ?q)\<rparr>, Json 200 (worker_summary_of (f r)))"
    using app get
    by (simp add: er on_database_def require_scheduler_def bind_s_def return_s_def scheduler_s_def store_s_def on_queue_def
        Let_def found_worker_def respond_def)
  then show ?thesis
    using get by (simp add: get_item_def get_lease_def)
qed

text \<open>C22 (draining and shutting down). \<open>POST /workers/{worker_id}/drain\<close> answers 200 with the record of a registered worker
  with the drain request noted, \<open>POST /workers/{worker_id}/shutdown\<close> with the shutdown request noted and the worker
  offline; that record is stored, and no run, queue row, lease or other worker changes. A pass of the worker on the
  database as it is then claims nothing and changes no run, queue row or lease: asked to shut down, it leaves the
  loop; drained, it sleeps, or leaves when it was to make one pass or was to shut down already.\<close>

theorem drained_worker_claims_nothing:
  assumes "on_database app" and "get_worker w (snd (en_store e)) = Some r" and "wk_worker_id k = w"
    and request: "(handler = route_drain app w \<and> r' = r\<lparr>wr_drain_requested := True\<rparr> \<and>
        pass = (if wr_shutdown_requested r \<or> wk_once k then Leave else Sleep)) \<or>
      (handler = route_shutdown app w \<and> r' = r\<lparr>wr_shutdown_requested := True, wr_status := ''offline''\<rparr> \<and>
        pass = Leave)"
  shows "case handler e of (e1, response) \<Rightarrow>
    response = Json 200 (worker_summary_of r') \<and>
    (\<forall>v. get_worker v (snd (en_store e1)) = (if v = w then Some r' else get_worker v (snd (en_store e)))) \<and>
    fst (en_store e1) = fst (en_store e) \<and>
    (\<forall>j. get_item j (snd (en_store e1)) = get_item j (snd (en_store e)) \<and>
       get_lease j (snd (en_store e1)) = get_lease j (snd (en_store e))) \<and>
    (\<forall>e2. en_store e2 = en_store e1 \<longrightarrow>
      (case poll k e2 of (e3, res) \<Rightarrow> res = Inr pass \<and> fst (en_store e3) = fst (en_store e) \<and>
        (\<forall>j. get_item j (snd (en_store e3)) = get_item j (snd (en_store e)) \<and>
           get_lease j (snd (en_store e3)) = get_lease j (snd (en_store e)))))"
proof -
  have handled: "case handler e of (e1, response) \<Rightarrow>
    response = Json 200 (worker_summary_of r') \<and> fst (en_store e1) = fst (en_store e) \<and>
    (\<forall>v. get_worker v (snd (en_store e1)) = (if v = w then Some r' else get_worker v (snd (en_store e)))) \<and>
    (\<forall>j. get_item j (snd (en_store e1)) = get_item j (snd (en_store e)) \<and>
       get_lease j (snd (en_store e1)) = get_lease j (snd (en_store e)))"
    using request
  proof (elim disjE conjE)
    assume a: "handler = route_drain app w" "r' = r\<lparr>wr_drain_requested := True\<rparr>"
    then have "handler e = respond 200 (bind_s (require_scheduler app) (\<lambda>_. bind_s (scheduler_s (\<lambda>q.
        let q' = q\<lparr>q_workers := update_where (\<lambda>x. wr_worker_id x = w) (\<lambda>r. r\<lparr>wr_drain_requested := True\<rparr>) (q_workers q)\<rparr>
        in (q', get_worker w q'))) (found_worker w)) e)"
      by (simp add: route_drain_def registry_drain_def [abs_def] drain_worker_def)
    from flag_handler [OF assms(1,2) _ this] show ?thesis unfolding a(2) by simp
  next
    assume a: "handler = route_shutdown app w" "r' = r\<lparr>wr_shutdown_requested := True, wr_status := ''offline''\<rparr>"
    then have "handler e = respond 200 (bind_s (require_scheduler app) (\<lambda>_. bind_s (scheduler_s (\<lambda>q.
        let q' = q\<lparr>q_workers := update_where (\<lambda>x. wr_worker_id x = w)
          (\<lambda>r. r\<lparr>wr_shutdown_requested := True, wr_status := ''offline''\<rparr>) (q_workers q)\<rparr>
        in (q', get_worker w q'))) (found_worker w)) e)"
      by (simp add: route_shutdown_def registry_shutdown_def [abs_def] shutdown_worker_def)
    from flag_handler [OF assms(1,2) _ this] show ?thesis unfolding a(2) by simp
  qed
  have stop: "wr_drain_requested r' \<or> wr_shutdown_requested r'"
    and pass: "pass = (if wr_shutdown_requested r' \<or> wk_once k then Leave else Sleep)"
    using request by auto
  show ?thesis
  proof (cases "handler e")
    case (Pair e1 response)
    note h = handled [unfolded Pair prod.case]
    have "case poll k e2 of (e3, res) \<Rightarrow> res = Inr pass \<and> fst (en_store e3) = fst (en_store e) \<and>
        (\<forall>j. get_item j (snd (en_store e3)) = get_item j (snd (en_store e)) \<and>
           get_lease j (snd (en_store e3)) = get_lease j (snd (en_store e)))"
      if "en_store e2 = en_store e1" for e2
    proof -
      have "get_worker (wk_worker_id k) (snd (en_store e2)) = Some r'" using h assms(3) that by simp
      from wp_poll_stopping [OF this stop] show ?thesis
        using h that pass by (simp add: wp_s_def split: prod.splits)
    qed
    with h show ?thesis by (simp add: Pair)
  qed
qed

definition registered_world :: "world env" where
  "registered_world = new_world\<lparr>en_store := (empty_sql,
     queue_exec (Op_Register 5 ''w1'' ''host'' (Some 1) None None ''idle'') (new_queue 30))\<rparr>"

theorem drained_worker_claims_nothing_witness:
  "(\<exists>m. snd (route_drain sample_app ''w1'' registered_world) = Json 200 m \<and> wr_worker_id m = ''w1'' \<and> wr_drain_requested m) \<and>
   snd (poll (sample_worker good_engines) (fst (route_drain sample_app ''w1'' registered_world))) = Inr Leave"
proof -
  have "get_worker ''w1'' (snd (en_store registered_world)) \<noteq> None"
    unfolding registered_world_def by code_simp
  then obtain r where r: "get_worker ''w1'' (snd (en_store registered_world)) = Some r" by blast
  have k: "wk_worker_id (sample_worker good_engines) = ''w1''" "wk_once (sample_worker good_engines)"
    by (simp_all add: sample_worker_def build_worker_def)
  have id: "wr_worker_id r = ''w1''" using r row_of_Some [of wr_worker_id "''w1''"] by (auto simp: get_worker_def)
  from drained_worker_claims_nothing [OF sample_app_sel(1) r k(1), of "route_drain sample_app ''w1''"
      "r\<lparr>wr_drain_requested := True\<rparr>" Leave] k(2) id
  show ?thesis
    by (cases "poll (sample_worker good_engines) (fst (route_drain sample_app ''w1'' registered_world))")
      (auto simp: worker_summary_of_def worker_record.defs split: prod.splits)
qed

end
