(* ===== verification/Spec2Isabelle.thy ===== *)
theory Spec2Isabelle
  imports Data_Props Queue_Props Store_Refinement Stream_Props Run_Props Benchmark_Props Tournament_Props
    Worker_Props Scheduler Replay_Views Session_Props Backtest_Props
    Stream_Routes Batch_Routes Route_Props
begin

text \<open>
  A model of the Python layer of the TES exchange system, the packages under \<open>sim/\<close>, and the theorems
  that make it correct.

  \<^bold>\<open>The program.\<close> Clients post sessions, backtests, benchmarks and tournaments to an API. A request
  becomes a run in a run store (in memory, or the tables of a SQLite file) and, when it is executed
  asynchronously, a row in a run queue (further tables of that file). Workers poll the queue, take over
  rows whose worker has died, execute the stored run through the run service or the benchmark service,
  record the outcome in the queue and refresh the report of the tournament a run belongs to. While a run
  executes its artifacts are published to subscribers of a stream service. Below the API are the models
  of engine commands and events, the adapter that drives the matching engine, analytics and replay.

  \<^bold>\<open>Theories and code.\<close>
  \<^item> Prelude: exceptions and the error mapping of \<open>api/errors.py\<close>, results, lists and tables.
    Py\_Float, Float\_Order, Py\_Value, Py\_Text, Py\_Sort, Timestamps: the Python values the code
    computes with: binary64 floats with rounding, JSON-like values, their text, stable sorting,
    timestamps as text.
  \<^item> Commands, Events, Engine\_Adapter, Analytics: \<open>tes_models\<close>, \<open>tes_serialization\<close>,
    \<open>tes_engine_adapter.py\<close>, \<open>tes_simulation\<close>, \<open>tes_strategy\<close>, \<open>strategies\<close>, \<open>tes_analytics\<close> and
    \<open>tes_replay/replay.py\<close>, \<open>validation.py\<close>. Data\_Props has their theorems.
  \<^item> Run\_Types, Run\_Queue, Queue\_Inv, Queue\_Props: \<open>api/execution/queue.py\<close>, every method an operation on
    a record of tables, its invariant and its contract.
  \<^item> Run\_Store (records and the interface of \<open>api/storage/base.py\<close>, as the locale \<open>run_store\<close>),
    Memory\_Store and Sqlite\_Store (its two backends), Sqlite\_Laws (the interpretation for SQLite),
    Store\_Refinement (both refine one abstract map).
  \<^item> Stream\_Service, Stream\_Props: \<open>api/services/stream_service.py\<close>. Run\_Service, Run\_Lifecycle,
    Run\_Props: \<open>api/services/run_service.py\<close> over any store, with a small calculus of weakest
    preconditions.
  \<^item> Api\_Requests: the request models of \<open>api/models.py\<close>. Benchmark\_Models, Benchmark\_Store,
    Benchmark\_Service, Benchmark\_Props: \<open>tes_benchmarks/models.py\<close>, the benchmark tables and
    \<open>api/services/benchmark_service.py\<close>.
  \<^item> Tournament\_Expansion, Tournament\_Report: \<open>api/tournaments.py\<close>. Tournament\_Store,
    Tournament\_Service, Tournament\_Creation, Tournament\_Props: the tournament half of the stores and
    \<open>api/services/tournament_service.py\<close>.
  \<^item> Service\_Frames, Worker, Worker\_Job, Scheduler, Worker\_Props: \<open>api/execution/worker.py\<close>,
    \<open>executor.py\<close> and \<open>scheduler.py\<close> over the pair of run store and run queue.
  \<^item> Playback: \<open>tes_replay/playback.py\<close>. Sha256, Json\_Text, Replay\_Verification: the hash function, the
    JSON text it is applied to and \<open>tes_replay/verification.py\<close>. Replay\_Timeline, Replay\_Frames,
    Replay\_Service, Replay\_Props, Replay\_Views: \<open>api/services/replay_service.py\<close>, its pure helpers, its
    operations over any store and their theorems (Replay\_Views: timelines and frames).
  \<^item> Order\_Books: the engine object as its callers see it. Session\_Participants, Session\_Runner,
    Session\_Service: \<open>session/scenarios.py\<close>, \<open>participants.py\<close>, \<open>models.py\<close>, \<open>runner.py\<close> and
    \<open>api/services/session_service.py\<close>. Backtest\_Runner: \<open>backtest/runner.py\<close> and
    \<open>api/services/backtest_service.py\<close>. Request\_Parsing: requests read from stored configurations.
    Session\_Calls, Artifact\_Laws, Session\_Props, Backtest\_Props: their theorems.
  \<^item> Http\_Routes, Scheduler\_Routes, Batch\_Routes: the handlers of \<open>api/routes\<close>, the error responses of
    \<open>api/errors.py\<close> and the switches of \<open>api/app.py\<close>. Stream\_Routes, Route\_Props: their theorems, from the
    text of a stream to the equality of queued and immediate runs.

  \<^bold>\<open>State and effects.\<close> A component's state is a record; an operation returns the new state and an error
  or a value. Services run in an environment of store, stream and a clock that is read in order, so that
  no theorem depends on what the clock shows. Generated ids, exceptions of libraries, the matching
  engine (Order\_Books), the random generator (Session\_Participants) and the validation messages of
  pydantic are arguments; so are the session and backtest engines of the run service, which
  \<open>session_executor\<close> and \<open>backtest_executor\<close> provide. Text columns with JSON hold the value reading them
  gives. Strings are lists of 8-bit characters.

  \<^bold>\<open>What the lemmas show.\<close> For the queue: its invariant, what a claim and a recovery do, and that a claim
  is exclusive for one stale window. For the stores: both refine a map, and agree. For the run service:
  success, failure and refusal of an execution. For the worker: the end of a job in store, queue and
  tournaments at once, the invariant through a whole run, and when it ends. For benchmarks: what a comparison
  flags and what an execution stores. For tournaments:
  expansion, creation and reports. For replays: what a verdict means, that an executed session or backtest
  verifies, that timelines lose nothing and that frames hold the items of their step. For sessions: what the report counts, which calls the
  engine gets, and the progress messages. For backtests: the books they keep, and that they return.
  For the routes: what queued requests store and cancel, that a queued run ends like an immediate one, what a
  stream delivers, and the errors. For models: parsing is faithful and round trips. Some theorems record
  behaviour that looks unintended; the manifest lists them as findings.

  \<^bold>\<open>Bounds.\<close> The loop of the worker may run for ever: \<open>run_worker\<close> is a total function that says where it
  stands after any number \<open>N\<close> of evaluations of its condition, still polling or ended, so that nothing depends
  on a bound; \<open>worker_run_safe\<close> holds for every \<open>N\<close>. The
  strategy loop has the bound \<open>max_steps\<close> of the code. The loop of a backtest runs as long as strategies ask
  for commands and is a partial function; \<open>backtest_returns\<close> shows that it returns for every registered
  strategy. Sums of floats are the compensated sums of Python 3.12 and later (the repository asks for 3.14).

  \<^bold>\<open>Not modelled.\<close> The C++ engine, its bindings and the web dashboard (other languages); FastAPI itself (matching of
  paths, encoding of bodies), command lines and printing; SQLite connections, locking and the migration of old files; signals and
  sleeping; the benchmark executable and the parser of its output; file persistence and JSON export.
\<close>

end
